(* ===== verification/Prelude.thy ===== *)
theory Prelude
  imports Main "HOL-Library.Word" "HOL-Library.List_Lexorder" "HOL-Library.Char_ord"
begin

text \<open>
  Shared vocabulary of the development: byte strings, instants, the Go standard-library
  encodings the governance code relies on (big-endian integers, \<open>encoding/hex\<close>,
  \<open>encoding/base64\<close>, decimal integers, \<open>strings.Join\<close>), and the
  generic lemmas on them. Go's \<open>string\<close> and \<open>[]byte\<close> are both byte
  sequences and are modelled by \<open>string\<close>, whose characters are exactly the
  256 byte values. An instant (\<open>time.Time\<close>) is the number of nanoseconds since the
  Unix epoch.
\<close>

type_synonym bytes = string
type_synonym time = int

named_theorems gov_defs "definitions unfolded by the component proofs"
named_theorems enc_simps "encoding facts used as rewrite rules"

section \<open>Encodings\<close>

text \<open>\<open>binary.BigEndian.PutUint32\<close> and \<open>PutUint64\<close> (width 4 and 8): the
  low bytes of the value, most significant first. Converting a length or an \<open>int64\<close>
  to the unsigned type keeps the low bits, which is what taking the low bytes does.\<close>

fun be_bytes :: "nat \<Rightarrow> nat \<Rightarrow> bytes" where
  "be_bytes 0 n = []"
| "be_bytes (Suc k) n = be_bytes k (n div 256) @ [char_of (n mod 256)]"

definition be32 :: "nat \<Rightarrow> bytes" where
  "be32 n = be_bytes 4 n"

definition be64 :: "nat \<Rightarrow> bytes" where
  "be64 n = be_bytes 8 n"

definition be64_int :: "int \<Rightarrow> bytes" where
  "be64_int i = be64 (nat (i mod 2 ^ 64))"

definition hex_digit :: "nat \<Rightarrow> char" where
  "hex_digit n = (if n < 10 then char_of (48 + n) else char_of (87 + n))"

fun hex_EncodeToString :: "bytes \<Rightarrow> string" where
  "hex_EncodeToString [] = []"
| "hex_EncodeToString (c # cs) =
     hex_digit (of_char c div 16) # hex_digit (of_char c mod 16) # hex_EncodeToString cs"

definition fromHexChar :: "char \<Rightarrow> nat option" where
  "fromHexChar c = (let n = of_char c :: nat in
     if 48 \<le> n \<and> n \<le> 57 then Some (n - 48)
     else if 97 \<le> n \<and> n \<le> 102 then Some (n - 87)
     else if 65 \<le> n \<and> n \<le> 70 then Some (n - 55)
     else None)"

fun hex_DecodeString :: "string \<Rightarrow> bytes option" where
  "hex_DecodeString [] = Some []"
| "hex_DecodeString [c] = None"
| "hex_DecodeString (a # b # cs) =
     (case (fromHexChar a, fromHexChar b, hex_DecodeString cs) of
        (Some x, Some y, Some r) \<Rightarrow> Some (char_of (16 * x + y) # r)
      | _ \<Rightarrow> None)"

definition b64_char :: "nat \<Rightarrow> char" where
  "b64_char n =
     (if n < 26 then char_of (65 + n)
      else if n < 52 then char_of (71 + n)
      else if n < 62 then char_of (n - 4)
      else if n = 62 then CHR ''+'' else CHR ''/'')"

text \<open>\<open>base64.StdEncoding.EncodeToString\<close>, with padding.\<close>

fun base64_Encode :: "bytes \<Rightarrow> string" where
  "base64_Encode [] = []"
| "base64_Encode [a] =
     [b64_char (of_char a div 4), b64_char (of_char a mod 4 * 16), CHR ''='', CHR ''='']"
| "base64_Encode [a, b] =
     [b64_char (of_char a div 4), b64_char (of_char a mod 4 * 16 + of_char b div 16),
      b64_char (of_char b mod 16 * 4), CHR ''='']"
| "base64_Encode (a # b # c # r) =
     [b64_char (of_char a div 4), b64_char (of_char a mod 4 * 16 + of_char b div 16),
      b64_char (of_char b mod 16 * 4 + of_char c div 64), b64_char (of_char c mod 64)]
     @ base64_Encode r"

text \<open>\<open>strconv.FormatInt(n, 10)\<close>.\<close>

fun decimal_nat :: "nat \<Rightarrow> string" where
  "decimal_nat n = (if n < 10 then [char_of (48 + n)]
     else decimal_nat (n div 10) @ [char_of (48 + n mod 10)])"

declare decimal_nat.simps [simp del]

definition FormatInt :: "int \<Rightarrow> string" where
  "FormatInt i = (if i < 0 then CHR ''-'' # decimal_nat (nat (- i)) else decimal_nat (nat i))"

fun strings_Join :: "string list \<Rightarrow> string \<Rightarrow> string" where
  "strings_Join [] sep = []"
| "strings_Join [x] sep = x"
| "strings_Join (x # y # ys) sep = x @ sep @ strings_Join (y # ys) sep"

definition FormatBool :: "bool \<Rightarrow> string" where
  "FormatBool b = (if b then ''true'' else ''false'')"

definition in_int64 :: "int \<Rightarrow> bool" where
  "in_int64 i \<longleftrightarrow> - (2 ^ 63) \<le> i \<and> i < 2 ^ 63"

text \<open>A value followed by its length prefix, in the two widths the code uses.\<close>

definition lp32 :: "bytes \<Rightarrow> bytes" where
  "lp32 s = be32 (length s) @ s"

definition lp64 :: "bytes \<Rightarrow> bytes" where
  "lp64 s = be64 (length s) @ s"

text \<open>An encoder is self-delimiting on a set when an encoded value can be read off the front
  of any longer string.\<close>

definition self_delimiting :: "('a \<Rightarrow> bytes) \<Rightarrow> 'a set \<Rightarrow> bool" where
  "self_delimiting f A \<longleftrightarrow>
     (\<forall>x\<in>A. \<forall>y\<in>A. \<forall>r s. f x @ r = f y @ s \<longrightarrow> x = y \<and> r = s)"

section \<open>Sequencing fallible results\<close>

fun collect_results :: "('e + 'a) list \<Rightarrow> 'e + 'a list" where
  "collect_results [] = Inr []"
| "collect_results (Inl e # rs) = Inl e"
| "collect_results (Inr x # rs) =
     (case collect_results rs of Inl e \<Rightarrow> Inl e | Inr xs \<Rightarrow> Inr (x # xs))"

section \<open>Facts\<close>

lemma length_be_bytes [simp, enc_simps]: "length (be_bytes k n) = k"
  by (induction k arbitrary: n) auto

lemma length_be32 [simp, enc_simps]: "length (be32 n) = 4"
  by (simp add: be32_def)

lemma length_be64 [simp, enc_simps]: "length (be64 n) = 8"
  by (simp add: be64_def)

lemma length_be64_int [simp, enc_simps]: "length (be64_int i) = 8"
  by (simp add: be64_int_def)

lemma be_bytes_inj: "be_bytes k m = be_bytes k n \<Longrightarrow> m mod 256 ^ k = n mod 256 ^ k"
proof (induction k arbitrary: m n)
  case 0
  then show ?case by simp
next
  case (Suc k)
  from Suc.prems have "be_bytes k (m div 256) = be_bytes k (n div 256)"
    and last: "(char_of (m mod 256) :: char) = char_of (n mod 256)"
    by auto
  from Suc.IH[OF this(1)] have div: "m div 256 mod 256 ^ k = n div 256 mod 256 ^ k" .
  have "(of_char (char_of (m mod 256) :: char) :: nat) = of_char (char_of (n mod 256) :: char)"
    using last by simp
  then have mod: "m mod 256 = n mod 256" by simp
  have "m mod 256 ^ Suc k = 256 * (m div 256 mod 256 ^ k) + m mod 256"
    and "n mod 256 ^ Suc k = 256 * (n div 256 mod 256 ^ k) + n mod 256"
    by (simp_all add: mod_mult2_eq)
  with div mod show ?case by simp
qed

lemma be32_inj: "be32 m = be32 n \<Longrightarrow> m < 2 ^ 32 \<Longrightarrow> n < 2 ^ 32 \<Longrightarrow> m = n"
  unfolding be32_def by (drule be_bytes_inj) (simp add: power2_eq_square)

lemma be64_inj: "be64 m = be64 n \<Longrightarrow> m < 2 ^ 64 \<Longrightarrow> n < 2 ^ 64 \<Longrightarrow> m = n"
  unfolding be64_def by (drule be_bytes_inj) simp

lemma be64_int_inj:
  assumes "be64_int i = be64_int j" and "in_int64 i" and "in_int64 j"
  shows "i = j"
proof -
  have "nat (i mod 2 ^ 64) = nat (j mod 2 ^ 64)"
    using assms(1) unfolding be64_int_def by (rule be64_inj) (simp_all add: nat_less_iff)
  then have "i mod 2 ^ 64 = j mod 2 ^ 64" by simp
  then have dvd: "(2 ^ 64 :: int) dvd i - j" by (simp add: mod_eq_dvd_iff)
  have small: "\<bar>i - j\<bar> < 2 ^ 64"
    using assms(2,3) by (auto simp: in_int64_def abs_less_iff)
  show ?thesis
  proof (rule ccontr)
    assume "i \<noteq> j"
    then have "\<bar>2 ^ 64 :: int\<bar> \<le> \<bar>i - j\<bar>"
      using dvd by (intro dvd_imp_le_int) auto
    with small show False by simp
  qed
qed

lemma append_same_length_eq:
  "length a = length c \<Longrightarrow> (a @ b = c @ d) = (a = c \<and> b = d)"
  by (rule append_eq_append_conv) simp

lemma hex_digit_roundtrip: "n < 16 \<Longrightarrow> fromHexChar (hex_digit n) = Some n"
  by (auto simp: fromHexChar_def hex_digit_def)

lemma hex_decode_encode [simp]: "hex_DecodeString (hex_EncodeToString bs) = Some bs"
proof (induction bs)
  case (Cons c cs)
  have lt: "(of_char c :: nat) div 16 < 16" "(of_char c :: nat) mod 16 < 16"
    using nat_of_char_less_256[of c] by (simp_all add: div_less_iff_less_mult)
  have "(char_of (16 * (of_char c div 16) + of_char c mod 16 :: nat) :: char) = c"
    by (simp add: mult_div_mod_eq)
  with Cons lt show ?case by (simp add: hex_digit_roundtrip)
qed simp

lemma hex_encode_inj: "hex_EncodeToString a = hex_EncodeToString b \<longleftrightarrow> a = b"
  by (metis hex_decode_encode option.inject)

lemma collect_results_map_Inr [simp]: "collect_results (map (\<lambda>x. Inr (f x)) xs) = Inr (map f xs)"
  by (induction xs) auto

lemma hex_length [simp]: "length (hex_EncodeToString bs) = 2 * length bs"
  by (induction bs) auto

lemma self_delimitingD:
  "self_delimiting f A \<Longrightarrow> x \<in> A \<Longrightarrow> y \<in> A \<Longrightarrow> f x @ r = f y @ s \<Longrightarrow> x = y \<and> r = s"
  unfolding self_delimiting_def by blast

lemma self_delimiting_lp32: "self_delimiting lp32 {s. length s < 2 ^ 32}"
  unfolding self_delimiting_def lp32_def
  by (auto simp: append_same_length_eq dest!: be32_inj)

lemma self_delimiting_lp64: "self_delimiting lp64 {s. length s < 2 ^ 64}"
  unfolding self_delimiting_def lp64_def
  by (auto simp: append_same_length_eq dest!: be64_inj)

lemma self_delimiting_be64_int: "self_delimiting be64_int {i. in_int64 i}"
  unfolding self_delimiting_def by (auto simp: append_same_length_eq dest: be64_int_inj)

lemma self_delimiting_concat:
  assumes f: "self_delimiting f A" and "length xs = length ys" and "set xs \<subseteq> A" and "set ys \<subseteq> A"
    and "concat (map f xs) @ r = concat (map f ys) @ s"
  shows "xs = ys \<and> r = s"
  using assms(2-)
proof (induction xs ys rule: list_induct2)
  case (Cons x xs y ys)
  from Cons.prems have "f x @ (concat (map f xs) @ r) = f y @ (concat (map f ys) @ s)" by simp
  from self_delimitingD[OF f _ _ this] Cons show ?case by auto
qed simp

text \<open>A counted sequence is self-delimiting without knowing its length beforehand.\<close>

lemma self_delimiting_counted64:
  assumes "self_delimiting f A"
  shows "self_delimiting (\<lambda>xs. be64 (length xs) @ concat (map f xs))
     {xs. length xs < 2 ^ 64 \<and> set xs \<subseteq> A}"
  unfolding self_delimiting_def
proof (intro ballI allI impI)
  fix xs ys r s
  assume "xs \<in> {xs. length xs < 2 ^ 64 \<and> set xs \<subseteq> A}" and "ys \<in> {xs. length xs < 2 ^ 64 \<and> set xs \<subseteq> A}"
    and eq: "(be64 (length xs) @ concat (map f xs)) @ r = (be64 (length ys) @ concat (map f ys)) @ s"
  then have xs: "length xs < 2 ^ 64" "set xs \<subseteq> A" and ys: "length ys < 2 ^ 64" "set ys \<subseteq> A" by auto
  from eq have "be64 (length xs) = be64 (length ys)"
    and rest: "concat (map f xs) @ r = concat (map f ys) @ s"
    by (simp_all add: append_same_length_eq)
  then have "length xs = length ys" using xs ys by (auto dest: be64_inj)
  from self_delimiting_concat[OF assms this xs(2) ys(2) rest] show "xs = ys \<and> r = s" .
qed

end
