(* ===== verification/Gov_Errors.thy ===== *)
theory Gov_Errors
  imports Prelude
begin

text \<open>
  Error values. A Go error is a sentinel (a package-level \<open>errors.New\<close> value of
  \<open>internal/constants/errors.go\<close>, of \<open>context\<close> or of \<open>database/sql\<close>) or a
  \<open>fmt.Errorf\<close> value: its format, the rendered non-error arguments and the errors
  wrapped with \<open>%w\<close>. \<open>errors_Is\<close> is \<open>errors.Is\<close> over the resulting
  tree. The sentinels are grouped by the layer that raises them. The text of an error never decides anything in the modelled code; where a text
  is stored, the renderer is an argument.
\<close>

datatype tx_error =
    ErrTxInvalidEnvelope | ErrTxUnknownActionType | ErrTxPayloadDecodeFailed
  | ErrTxTransactionHashMismatch | ErrTxTransactionIDMismatch | ErrTxTransactionExpired
  | ErrTxTransactionReplay | ErrTxStateRootMissing | ErrTxStateRootMismatch
  | ErrTxTransactionHashMissing | ErrTxTransactionIDMissing | ErrTxExpiresAtMissing
  | ErrTxNonceMissing | ErrTxReplayStoreMissing | ErrTxStateRootRequired | ErrTxPayloadMissing
  | ErrTxPayloadActionMismatch | ErrTxDocumentCollectionNotGoverned
  | ErrTxTargetOperatorMismatch | ErrTxInFlight | ErrTxProviderMisconfigured
  | ErrTxCanonicalizeFailed | ErrTxProtocolVersionUnsupported | ErrTxEventTypeMissing
  | ErrTxUnknownEventType | ErrTxEventNotRequest | ErrTxEventNotGoverned
  | ErrTxEventActionMismatch | ErrTxPayloadDecoderMissing

datatype layer_error =
    ErrTxL2SignatureMissing | ErrGovernanceJSONDepthExceeded | ErrTxL2SignatureInvalid
  | ErrTxL2QuorumNotMet | ErrTxL2SignerStoreNotConfigured | ErrTxL2ConsensusNotConfigured
  | ErrTxL2DuplicateSigner | ErrConsensusHashMismatch | ErrConsensusInvalidID
  | ErrConsensusMustBeEnabled | ErrConsensusNoSigningMembers | ErrTxL3ProofMissing
  | ErrTxL3ProofInvalid | ErrTxL3NotaryNotConfigured | ErrTxL1ValidationFailed
  | ErrTxDoctrineMissing | ErrTxOutcomeNotRegistered | ErrTxOutcomeNotAllowed
  | ErrInvalidPosture | ErrEnvelopePostureMissing

datatype notary_error =
    ErrGatewayL3ProofRequired | ErrCLIL3ApprovalExpired | ErrCLIL3CertFingerprintRequired
  | ErrCLIL3FingerprintMismatch | ErrCLIL3GetSuspendedTransactionFailed
  | ErrCLIL3InvalidFingerprintFormat | ErrCLIL3PublicKeyInvalid | ErrCLIL3PublicKeyMissing
  | ErrCLIL3SessionUserMismatch | ErrCLIL3SignatureEncodingFailed | ErrCLIL3SignatureRequired
  | ErrCLIL3SignatureVerificationFailed | ErrCLIL3SuspendedStoreNotConfigured
  | ErrCLIL3TransactionHashRequired | ErrCLIL3TransactionNotApproved | ErrPasskeyProofRequired
  | ErrUserIDRequired | ErrCLISessionDenied

datatype actuator_error =
    ErrActionReceiptMissing | ErrActionReceiptSignatureInvalid
  | ErrReceiptPersistenceAttestationInvalid | ErrReceiptPersistenceAttestationMissing
  | ErrReceiptPersistenceSignatureMismatch | ErrInvalidEvidenceGraph
  | ErrEvidenceArtifactMalformed | ErrL5ActuatorAuditStore | ErrL5ActuatorAuditorKeyIDMissing
  | ErrL5ActuatorAuditorKeyMissing | ErrL5ActuatorCanonicalizeReceipt
  | ErrL5ActuatorCapabilityMint | ErrL5ActuatorCommitmentLedger
  | ErrL5ActuatorCommitmentPersist | ErrL5ActuatorDocStore
  | ErrL5ActuatorExecutionHandlerNotSet | ErrL5ActuatorLogReceipt | ErrL5ActuatorMarshalReceipt
  | ErrL5ActuatorRehydrate | ErrL5ActuatorSignReceipt | ErrL5ActuatorSigningKeyMissing

datatype inference_error =
    ErrInferenceModelOverrideDenied | ErrInferenceRoleInvalid | ErrInferenceModelRefInvalid
  | ErrInferenceBackendUnavailable | ErrInferenceBackendNotRegistered
  | ErrInferenceBackendTimeout | ErrInferenceGenerateFailed | ErrInferenceModelNotFound
  | ErrInferenceProviderResponseInvalid | ErrInferenceGenerationOptionsInvalid
  | ErrInferenceCapabilityUnsupported | ErrInferenceToolsUnsupported
  | ErrInferenceContextOverflow | ErrInferenceProviderAttemptRequired
  | ErrInferenceIdentityMismatch | ErrInferenceModelDigestMismatch
  | ErrInferenceEvidenceHashInvalid | ErrInferenceModelRegistryInvalid
  | ErrInferenceCampaignBindingInvalid

datatype system_error =
    ErrTrustedSignerKeyNotFound | ErrMissingRequiredField | ErrConstraintViolation
  | ErrNotFound | ErrAlreadyExists | ErrInternal | ErrStateRootFetch
  | ErrGovernedDocStoreNotConfigured | ErrMCPUnmarshalArguments | ErrPubSubL4Warden
  | ErrPubSubActuator | ErrPubSubEmptyPayload | ContextDeadlineExceeded | ContextCanceled
  | SqlErrNoRows | ErrDocumentStoreUnmarshalData | ErrDocumentStoreMarshalDocument
  | ErrValidationFailed | ErrConsensusFactoryNilPolicy | ErrConsensusFactoryNilKeyProvider
  | ErrReportWriteFailed | ErrPubSubTransactionVerifier | ErrPayloadExceedsLimit | ErrInvalidJSONBody
  | ErrDirCreateFailed

datatype audit_error =
    ErrAuditEventNil | ErrAuditSessionMissing | ErrAuditSessionUnknown
  | ErrAuditStoreCreateSessionFailed | ErrAuditStoreDisabled | ErrAuditStoreVerifySessionFailed
  | ErrAuditStoreDBNotInitialized | ErrAuditStoreEncryptContentFailed
  | ErrAuditStoreEncryptStdoutFailed | ErrAuditStoreEncryptStderrFailed
  | ErrAuditStoreExecuteBatchFailed | ErrAuditStoreRecordEventFailed
  | ErrAuditStoreRecordReceiptFailed | ErrAuditStoreGetReceiptFailed
  | ErrAuditStoreReceiptCorrelationDuplicate | ErrAuditStoreEncryptFailed
  | ErrAuditStoreVaultLocked | ErrAuditStoreDecryptFailed

datatype evidence_error =
    ErrUnresolvedReference | ErrEvidenceArtifactTooLarge | ErrEvidenceScopeMismatch
  | ErrEvidenceMediaTypeUnsupported | ErrPathValidation | ErrEvidenceDuplicateContent
  | ErrEvidenceCycleDetected | ErrStaleEvidence | ErrEvidenceEncryptionInvalid
  | ErrChecksumMismatch | ErrEvidenceTrustNotAssessed | ErrEvidenceProducerUnverified
  | ErrReportVerificationFailed

datatype scrub_error =
    ErrKeyNotFound | ErrScrubbingTokenLoad

datatype vault_error =
    ErrVaultNotInitialized | ErrVaultKeyReadFailed | ErrVaultKeyDecodeFailed
  | ErrVaultKeyGenerateFailed | ErrVaultHeaderCreateFailed | ErrVaultHeaderSaveFailed
  | ErrVaultUnlockFailed | ErrVaultKeyWriteFailed | ErrVaultLocked | ErrVaultAlreadyOpen
  | ErrVaultResetConfirmation | ErrVaultInvalidPrivateKey | ErrVaultCiphertextTooShort
  | ErrVaultInvalidKeySize | ErrVaultInvalidNonceSize | ErrVaultDecryptionFailed
  | ErrVaultKeyUnwrapFailed | ErrVaultInvalidWrappedKey | ErrVaultInvalidPlaintextKey
  | ErrVaultPrivateKeyEmpty | ErrVaultHeaderNotFound | ErrVaultHeaderCorrupted
  | ErrVaultHeaderVersionUnsup | ErrVaultKeyFingerprintMatch | ErrVaultConfigRequired
  | ErrVaultDataDirRequired

datatype gateway_error =
    ErrDocumentStoreUnmarshalDocument | ErrDocumentStoreUnmarshalFields
  | ErrDocumentStoreParseCreatedAt | ErrDocumentStoreParseUpdatedAt | ErrStateRootCalculate
  | ErrStateRootPersist | ErrStateRootHashDocuments | ErrStateRootHashKVStore
  | ErrStateRootHashBlobs | ErrStateRootQueryTable | ErrStateRootIterateRows
  | ErrBlobStoreCleanupFailed | ErrBlobStorePutFailed | ErrBlobStoreDeleteFailed

datatype sentinel =
    Tx tx_error | Layer layer_error | Notary notary_error | Actuator actuator_error
  | Inference inference_error | Sys system_error | Audit audit_error
  | Evid evidence_error | Scrub scrub_error | Vlt vault_error | Gateway gateway_error

datatype gov_error = Sentinel sentinel | Errorf string "string list" "gov_error list"

type_synonym 'a result = "gov_error + 'a"

primrec errors_Is :: "gov_error \<Rightarrow> sentinel \<Rightarrow> bool" where
  "errors_Is (Sentinel s) t \<longleftrightarrow> s = t"
| "errors_Is (Errorf f as ws) t \<longleftrightarrow> list_ex (\<lambda>b. b) (map (\<lambda>w. errors_Is w t) ws)"

text \<open>\<open>fmt.Errorf("%w: ...", sentinel, args)\<close>, the most common shape.\<close>

abbreviation wrap :: "string \<Rightarrow> sentinel \<Rightarrow> string list \<Rightarrow> gov_error" where
  "wrap f s as \<equiv> Errorf f as [Sentinel s]"

definition is_error :: "'a result \<Rightarrow> sentinel \<Rightarrow> bool" where
  "is_error r s \<longleftrightarrow> (case r of Inl e \<Rightarrow> errors_Is e s | Inr _ \<Rightarrow> False)"

lemma is_error_simps [simp]:
  "is_error (Inl e) s = errors_Is e s"
  "is_error (Inr x) s = False"
  by (simp_all add: is_error_def)

end
