(* ===== verification/Action_Types.thy ===== *)
theory Action_Types
  imports Gov_Errors
begin

text \<open>
  \<open>internal/constants\<close>: the governed action classes
  (\<open>action_types_gen.go\<close>), the governed document collections
  (\<open>collections.go\<close>) and the event registry checks that bind the event type of an
  envelope to its action class (\<open>registry_governed.go\<close>). An action type, an event
  type and a collection name are Go strings, so values outside the declared constants
  exist and are handled. The registry's map is an association list without repeated keys;
  the function that ranges over it is shown independent of its order.
\<close>

type_synonym ActionType = string
type_synonym EventType = string
type_synonym CollectionName = string

section \<open>Action classes\<close>

abbreviation ActionTypeA2aCall :: ActionType where "ActionTypeA2aCall \<equiv> ''A2A_CALL''"
abbreviation ActionTypeCancel :: ActionType where "ActionTypeCancel \<equiv> ''CANCEL''"
abbreviation ActionTypeDocumentDelete :: ActionType where "ActionTypeDocumentDelete \<equiv> ''DOCUMENT_DELETE''"
abbreviation ActionTypeDocumentUpdate :: ActionType where "ActionTypeDocumentUpdate \<equiv> ''DOCUMENT_UPDATE''"
abbreviation ActionTypeEvalAnswer :: ActionType where "ActionTypeEvalAnswer \<equiv> ''EVAL_ANSWER''"
abbreviation ActionTypeExecuteBash :: ActionType where "ActionTypeExecuteBash \<equiv> ''EXECUTE_BASH''"
abbreviation ActionTypeFetchFileDiff :: ActionType where "ActionTypeFetchFileDiff \<equiv> ''FETCH_FILE_DIFF''"
abbreviation ActionTypeFetchFileHistory :: ActionType where "ActionTypeFetchFileHistory \<equiv> ''FETCH_FILE_HISTORY''"
abbreviation ActionTypeFetchHistory :: ActionType where "ActionTypeFetchHistory \<equiv> ''FETCH_HISTORY''"
abbreviation ActionTypeFetchLogs :: ActionType where "ActionTypeFetchLogs \<equiv> ''FETCH_LOGS''"
abbreviation ActionTypeFileEdit :: ActionType where "ActionTypeFileEdit \<equiv> ''FILE_EDIT''"
abbreviation ActionTypeFsGrep :: ActionType where "ActionTypeFsGrep \<equiv> ''FS_GREP''"
abbreviation ActionTypeFsList :: ActionType where "ActionTypeFsList \<equiv> ''FS_LIST''"
abbreviation ActionTypeFsRead :: ActionType where "ActionTypeFsRead \<equiv> ''FS_READ''"
abbreviation ActionTypeHeartbeat :: ActionType where "ActionTypeHeartbeat \<equiv> ''HEARTBEAT''"
abbreviation ActionTypeInference :: ActionType where "ActionTypeInference \<equiv> ''INFERENCE''"
abbreviation ActionTypeMcpCall :: ActionType where "ActionTypeMcpCall \<equiv> ''MCP_CALL''"
abbreviation ActionTypeMcpPromptGet :: ActionType where "ActionTypeMcpPromptGet \<equiv> ''MCP_PROMPT_GET''"
abbreviation ActionTypeMcpPromptList :: ActionType where "ActionTypeMcpPromptList \<equiv> ''MCP_PROMPT_LIST''"
abbreviation ActionTypeMcpResourceList :: ActionType where "ActionTypeMcpResourceList \<equiv> ''MCP_RESOURCE_LIST''"
abbreviation ActionTypeMcpResourceRead :: ActionType where "ActionTypeMcpResourceRead \<equiv> ''MCP_RESOURCE_READ''"
abbreviation ActionTypeModelProvenanceObservation :: ActionType where "ActionTypeModelProvenanceObservation \<equiv> ''MODEL_PROVENANCE_OBSERVATION''"
abbreviation ActionTypeOllamaModelInventory :: ActionType where "ActionTypeOllamaModelInventory \<equiv> ''OLLAMA_MODEL_INVENTORY''"
abbreviation ActionTypeOllamaModelResidency :: ActionType where "ActionTypeOllamaModelResidency \<equiv> ''OLLAMA_MODEL_RESIDENCY''"
abbreviation ActionTypePlatformEnrollmentCreate :: ActionType where "ActionTypePlatformEnrollmentCreate \<equiv> ''PLATFORM_ENROLLMENT_CREATE''"
abbreviation ActionTypePlatformEnrollmentCreateSession :: ActionType where "ActionTypePlatformEnrollmentCreateSession \<equiv> ''PLATFORM_ENROLLMENT_CREATE_SESSION''"
abbreviation ActionTypePlatformEnrollmentDecide :: ActionType where "ActionTypePlatformEnrollmentDecide \<equiv> ''PLATFORM_ENROLLMENT_DECIDE''"
abbreviation ActionTypePlatformEnrollmentIssue :: ActionType where "ActionTypePlatformEnrollmentIssue \<equiv> ''PLATFORM_ENROLLMENT_ISSUE''"
abbreviation ActionTypePlatformEnrollmentPersistPolicy :: ActionType where "ActionTypePlatformEnrollmentPersistPolicy \<equiv> ''PLATFORM_ENROLLMENT_PERSIST_POLICY''"
abbreviation ActionTypePlatformEnrollmentRevoke :: ActionType where "ActionTypePlatformEnrollmentRevoke \<equiv> ''PLATFORM_ENROLLMENT_REVOKE''"
abbreviation ActionTypePortCheck :: ActionType where "ActionTypePortCheck \<equiv> ''PORT_CHECK''"
abbreviation ActionTypeProviderBoundaryObservation :: ActionType where "ActionTypeProviderBoundaryObservation \<equiv> ''PROVIDER_BOUNDARY_OBSERVATION''"
abbreviation ActionTypeRestoreFile :: ActionType where "ActionTypeRestoreFile \<equiv> ''RESTORE_FILE''"
abbreviation ActionTypeShutdown :: ActionType where "ActionTypeShutdown \<equiv> ''SHUTDOWN''"

definition AllActionTypes :: "ActionType list" where
  "AllActionTypes = [
     ActionTypeA2aCall, ActionTypeCancel, ActionTypeDocumentDelete, ActionTypeDocumentUpdate,
     ActionTypeEvalAnswer, ActionTypeExecuteBash, ActionTypeFetchFileDiff,
     ActionTypeFetchFileHistory, ActionTypeFetchHistory, ActionTypeFetchLogs, ActionTypeFileEdit,
     ActionTypeFsGrep, ActionTypeFsList, ActionTypeFsRead, ActionTypeHeartbeat,
     ActionTypeInference, ActionTypeMcpCall, ActionTypeMcpPromptGet, ActionTypeMcpPromptList,
     ActionTypeMcpResourceList, ActionTypeMcpResourceRead, ActionTypeModelProvenanceObservation,
     ActionTypeOllamaModelInventory, ActionTypeOllamaModelResidency,
     ActionTypePlatformEnrollmentCreate, ActionTypePlatformEnrollmentCreateSession,
     ActionTypePlatformEnrollmentDecide, ActionTypePlatformEnrollmentIssue,
     ActionTypePlatformEnrollmentPersistPolicy, ActionTypePlatformEnrollmentRevoke,
     ActionTypePortCheck, ActionTypeProviderBoundaryObservation, ActionTypeRestoreFile,
     ActionTypeShutdown]"

definition IsMutation :: "ActionType \<Rightarrow> bool" where
  "IsMutation a \<longleftrightarrow> a \<in> set [
     ActionTypeA2aCall, ActionTypeCancel, ActionTypeDocumentDelete, ActionTypeDocumentUpdate,
     ActionTypeExecuteBash, ActionTypeFileEdit, ActionTypeInference, ActionTypeMcpCall,
     ActionTypePlatformEnrollmentCreateSession, ActionTypePlatformEnrollmentDecide,
     ActionTypePlatformEnrollmentIssue, ActionTypePlatformEnrollmentPersistPolicy,
     ActionTypePlatformEnrollmentRevoke, ActionTypeRestoreFile, ActionTypeShutdown]"

definition IsBootstrapAction :: "ActionType \<Rightarrow> bool" where
  "IsBootstrapAction a \<longleftrightarrow> a \<in> set [
     ActionTypePlatformEnrollmentCreate, ActionTypePlatformEnrollmentCreateSession,
     ActionTypePlatformEnrollmentDecide, ActionTypePlatformEnrollmentIssue,
     ActionTypePlatformEnrollmentPersistPolicy, ActionTypePlatformEnrollmentRevoke]"

section \<open>Governed collections\<close>

definition IsGovernedDocument :: "CollectionName \<Rightarrow> bool" where
  "IsGovernedDocument c \<longleftrightarrow> c \<in> set [
     ''cases'', ''tasks'', ''investigations'', ''memories'', ''agent_activity_metadata'',
     ''stake_resolutions'', ''reputation_state'', ''reputation_commitments'']"

section \<open>Event registry\<close>

datatype EventKind = EventKindRequest | EventKindOutcome | EventKindFact | EventKindStream

record EventRegistryEntry =
  Key :: string
  Kind :: EventKind
  Transport :: "string list"
  Producers :: "string list"
  Persistence :: string
  GovernanceAction :: ActionType
  GovernancePayload :: string
  Outcomes :: "string list"
  Reserved :: bool

type_synonym EventRegistry = "(EventType \<times> EventRegistryEntry) list"

definition Registry_Lookup :: "EventRegistry \<Rightarrow> EventType \<Rightarrow> EventRegistryEntry option" where
  "Registry_Lookup r event = map_of r event"

definition Registry_ActionFor :: "EventRegistry \<Rightarrow> EventType \<Rightarrow> ActionType result" where
  "Registry_ActionFor r event =
     (case Registry_Lookup r event of
        None \<Rightarrow> Inl (Errorf ''unknown event type %q'' [event] [])
      | Some entry \<Rightarrow>
          if GovernanceAction entry = ''''
          then Inl (Errorf ''event %q is not a governed request'' [event] [])
          else Inr (GovernanceAction entry))"

definition eventHasTransport :: "EventRegistryEntry \<Rightarrow> string \<Rightarrow> bool" where
  "eventHasTransport entry transport \<longleftrightarrow> transport \<in> set (Transport entry)"

definition requestEventStep ::
  "ActionType \<Rightarrow> EventType \<Rightarrow> EventType \<times> EventRegistryEntry \<Rightarrow> EventType" where
  "requestEventStep action match ee =
     (case ee of (event, entry) \<Rightarrow>
        if Kind entry \<noteq> EventKindRequest \<or> GovernanceAction entry \<noteq> action then match
        else if \<not> eventHasTransport entry ''governed'' then match
        else if match = '''' \<or> event < match then event else match)"

definition RequestEventForAction :: "EventRegistry \<Rightarrow> ActionType \<Rightarrow> EventType result" where
  "RequestEventForAction r action =
     (let match = foldl (requestEventStep action) '''' r
      in if match = '''' then Inl (wrap ''%w: %q'' (Tx ErrTxUnknownActionType) [action]) else Inr match)"

definition ValidateGovernedRequest :: "EventRegistry \<Rightarrow> EventType \<Rightarrow> ActionType result" where
  "ValidateGovernedRequest r event =
     (case Registry_Lookup r event of
        None \<Rightarrow> Inl (Sentinel (Tx ErrTxUnknownEventType))
      | Some entry \<Rightarrow>
          if Kind entry \<noteq> EventKindRequest
          then Inl (wrap ''%w: %q'' (Tx ErrTxEventNotRequest) [event])
          else if \<not> eventHasTransport entry ''governed''
          then Inl (wrap ''%w: %q'' (Tx ErrTxEventNotGoverned) [event])
          else if GovernanceAction entry = ''''
          then Inl (wrap ''%w: %q has no governance action'' (Tx ErrTxEventNotGoverned) [event])
          else Inr (GovernanceAction entry))"

definition ValidateGovernedEnvelopeFields ::
  "EventRegistry \<Rightarrow> EventType \<Rightarrow> ActionType \<Rightarrow> unit result" where
  "ValidateGovernedEnvelopeFields r event action =
     (case ValidateGovernedRequest r event of
        Inl e \<Rightarrow> Inl e
      | Inr expected \<Rightarrow>
          if action \<noteq> expected
          then Inl (wrap ''%w: event %q expects %q, got %q'' (Tx ErrTxEventActionMismatch)
                      [event, expected, action])
          else Inr ())"

definition ValidateGovernedResultEnvelope ::
  "EventRegistry \<Rightarrow> EventType \<Rightarrow> EventType \<Rightarrow> ActionType \<Rightarrow> unit result" where
  "ValidateGovernedResultEnvelope r requestEvent outcomeEvent action =
     (case ValidateGovernedRequest r requestEvent of
        Inl e \<Rightarrow> Inl e
      | Inr expectedAction \<Rightarrow>
          if action \<noteq> expectedAction
          then Inl (wrap ''%w: request %q expects %q, got %q'' (Tx ErrTxEventActionMismatch)
                      [requestEvent, expectedAction, action])
          else case Registry_Lookup r outcomeEvent of
            None \<Rightarrow> Inl (wrap ''%w: %q'' (Layer ErrTxOutcomeNotRegistered) [outcomeEvent])
          | Some outcomeEntry \<Rightarrow>
              if Kind outcomeEntry = EventKindRequest
              then Inl (wrap ''%w: %q is kind %q'' (Layer ErrTxOutcomeNotAllowed) [outcomeEvent, ''request''])
              else case Registry_Lookup r requestEvent of
                None \<Rightarrow> Inl (wrap ''%w: %q'' (Tx ErrTxUnknownEventType) [requestEvent])
              | Some requestEntry \<Rightarrow>
                  if Outcomes requestEntry = [] then Inr ()
                  else if Key outcomeEntry \<in> set (Outcomes requestEntry) then Inr ()
                  else Inl (wrap ''%w: outcome %q not listed for request %q''
                              (Layer ErrTxOutcomeNotAllowed) [outcomeEvent, requestEvent]))"

section \<open>Facts\<close>

lemma IsMutation_in_AllActionTypes: "IsMutation a \<Longrightarrow> a \<in> set AllActionTypes"
  unfolding IsMutation_def AllActionTypes_def by auto

text \<open>The event chosen for an action is the least governed request event of the registry
  with that action, whatever order the map is ranged over in.\<close>

definition request_candidates :: "EventRegistry \<Rightarrow> ActionType \<Rightarrow> EventType list" where
  "request_candidates r action = map fst (filter (\<lambda>(ev, entry).
     Kind entry = EventKindRequest \<and> GovernanceAction entry = action \<and>
     eventHasTransport entry ''governed'') r)"

lemma Min_insert_min:
  fixes a b :: "'a :: linorder"
  shows "finite S \<Longrightarrow> Min (insert a (insert b S)) = Min (insert (min a b) S)"
  by (cases "S = {}") (simp_all add: min.assoc)

lemma foldl_requestEventStep_nonempty:
  assumes "'''' \<notin> fst ` set r" and "match \<noteq> ''''"
  shows "foldl (requestEventStep action) match r =
     Min (insert match (set (request_candidates r action)))"
  using assms
proof (induction r arbitrary: match)
  case Nil
  then show ?case by (simp add: request_candidates_def)
next
  case (Cons ee r)
  obtain ev entry where ee: "ee = (ev, entry)" by fastforce
  have ev: "ev \<noteq> ''''" and r: "'''' \<notin> fst ` set r" using Cons.prems ee by auto
  have min_ne: "min match ev \<noteq> ''''" using ev Cons.prems(2) by (simp add: min_def)
  show ?case
  proof (cases "Kind entry = EventKindRequest \<and> GovernanceAction entry = action \<and>
      eventHasTransport entry ''governed''")
    case True
    then have "requestEventStep action match ee = min match ev"
      and "set (request_candidates (ee # r) action) = insert ev (set (request_candidates r action))"
      using Cons.prems(2) by (auto simp: requestEventStep_def ee request_candidates_def min_def)
    with Cons.IH[OF r min_ne] show ?thesis by (simp add: Min_insert_min del: Min_insert)
  next
    case False
    then have "requestEventStep action match ee = match"
      and "request_candidates (ee # r) action = request_candidates r action"
      by (auto simp: requestEventStep_def ee request_candidates_def)
    with Cons.IH[OF r Cons.prems(2)] show ?thesis by simp
  qed
qed

lemma foldl_requestEventStep:
  assumes "'''' \<notin> fst ` set r"
  shows "foldl (requestEventStep action) '''' r =
     (if request_candidates r action = [] then '''' else Min (set (request_candidates r action)))"
  using assms
proof (induction r)
  case Nil
  then show ?case by (simp add: request_candidates_def)
next
  case (Cons ee r)
  obtain ev entry where ee: "ee = (ev, entry)" by fastforce
  have ev: "ev \<noteq> ''''" and r: "'''' \<notin> fst ` set r" using Cons.prems ee by auto
  show ?case
  proof (cases "Kind entry = EventKindRequest \<and> GovernanceAction entry = action \<and>
      eventHasTransport entry ''governed''")
    case True
    then have "requestEventStep action [] ee = ev"
      and "request_candidates (ee # r) action = ev # request_candidates r action"
      by (auto simp: requestEventStep_def ee request_candidates_def)
    with foldl_requestEventStep_nonempty[OF r ev] show ?thesis by simp
  next
    case False
    then have "requestEventStep action '''' ee = ''''"
      and "request_candidates (ee # r) action = request_candidates r action"
      by (auto simp: requestEventStep_def ee request_candidates_def)
    with Cons.IH[OF r] show ?thesis by simp
  qed
qed

lemma RequestEventForAction_least:
  assumes "'''' \<notin> fst ` set r"
  shows "RequestEventForAction r action =
     (if request_candidates r action = []
      then Inl (wrap ''%w: %q'' (Tx ErrTxUnknownActionType) [action])
      else Inr (Min (set (request_candidates r action))))"
proof -
  have "Min (set (request_candidates r action)) \<noteq> ''''" if "request_candidates r action \<noteq> []"
  proof -
    have "Min (set (request_candidates r action)) \<in> set (request_candidates r action)"
      using that by (intro Min_in) simp_all
    moreover have "set (request_candidates r action) \<subseteq> fst ` set r"
      by (auto simp: request_candidates_def)
    ultimately show ?thesis using assms by auto
  qed
  then show ?thesis
    by (simp add: RequestEventForAction_def foldl_requestEventStep[OF assms])
qed

lemma ValidateGovernedRequest_ok:
  "ValidateGovernedRequest r event = Inr action \<longleftrightarrow>
   (\<exists>entry. map_of r event = Some entry \<and> Kind entry = EventKindRequest \<and>
      eventHasTransport entry ''governed'' \<and> GovernanceAction entry = action \<and> action \<noteq> '''')"
  by (auto simp: ValidateGovernedRequest_def Registry_Lookup_def split: option.splits if_splits)

text \<open>Selecting the event of an action and validating it agree: the chosen event resolves
  back to the action.\<close>

lemma RequestEventForAction_valid:
  assumes "'''' \<notin> fst ` set r" and "distinct (map fst r)" and "action \<noteq> ''''"
    and "RequestEventForAction r action = Inr event"
  shows "ValidateGovernedEnvelopeFields r event action = Inr ()"
proof -
  have ne: "request_candidates r action \<noteq> []"
    and ev: "event = Min (set (request_candidates r action))"
    using assms(4) by (auto simp: RequestEventForAction_least[OF assms(1)] split: if_splits)
  have "event \<in> set (request_candidates r action)"
    unfolding ev using ne by (intro Min_in) simp_all
  then obtain entry where "(event, entry) \<in> set r" and "Kind entry = EventKindRequest"
    and "GovernanceAction entry = action" and "eventHasTransport entry ''governed''"
    by (auto simp: request_candidates_def)
  then have "ValidateGovernedRequest r event = Inr action"
    using assms(2,3) by (auto simp: ValidateGovernedRequest_ok)
  then show ?thesis by (simp add: ValidateGovernedEnvelopeFields_def)
qed

end
