(* ===== verification/Timestamps.thy ===== *)
theory Timestamps
  imports Prelude
begin

text \<open>
  \<open>internal/timesvc\<close>: the one textual timestamp format of the platform,
  \<open>2006-01-02T15:04:05.000000Z07:00\<close> in UTC. Every store keeps its instants in
  this form in TEXT columns and lets SQLite compare them as text, so the correctness of
  expiry and retention rests on the order theorem at the end of this theory. The calendar
  is the proleptic Gregorian calendar of Go's \<open>time\<close> package.
\<close>

section \<open>Calendar\<close>

definition days_before_year :: "int \<Rightarrow> int" where
  "days_before_year y = 365 * y + (y + 3) div 4 - (y + 99) div 100 + (y + 399) div 400"

definition is_leap :: "int \<Rightarrow> bool" where
  "is_leap y \<longleftrightarrow> y mod 4 = 0 \<and> (y mod 100 \<noteq> 0 \<or> y mod 400 = 0)"

lemma div_round_up:
  fixes y k j :: int
  assumes k: "0 < k" and j: "j = k - 1"
  shows "(y + k) div k = (y + j) div k + (if y mod k = 0 then 1 else 0)"
proof -
  define q r where "q = y div k" and "r = y mod k"
  have y: "y = r + q * k" and r: "0 \<le> r" "r < k"
    using k by (simp_all add: q_def r_def)
  have "(y + (k - 1)) div k = q + (r + (k - 1)) div k"
    using k div_mult_self1[of k "r + (k - 1)" q] unfolding y by (simp add: algebra_simps)
  moreover have "(y + k) div k = q + 1"
    using k by (simp add: q_def div_add_self2)
  moreover have "(r + (k - 1)) div k = (if r = 0 then 0 else 1)"
  proof (cases "r = 0")
    case True
    with k show ?thesis by (simp add: div_pos_pos_trivial)
  next
    case False
    with r have "0 \<le> r - 1" "r - 1 < k" by simp_all
    then have "(r - 1) div k = 0" by (simp add: div_pos_pos_trivial)
    moreover have "(r + (k - 1)) div k = (r - 1) div k + 1"
      using k div_add_self2[of k "r - 1"] by (simp add: algebra_simps)
    ultimately show ?thesis using False by simp
  qed
  ultimately show ?thesis unfolding r_def[symmetric] j by simp
qed

lemma days_before_year_Suc:
  "days_before_year (y + 1) = days_before_year y + (if is_leap y then 366 else 365)"
proof -
  have up: "(y + 4) div 4 = (y + 3) div 4 + (if y mod 4 = 0 then 1 else 0)"
    "(y + 100) div 100 = (y + 99) div 100 + (if y mod 100 = 0 then 1 else 0)"
    "(y + 400) div 400 = (y + 399) div 400 + (if y mod 400 = 0 then 1 else 0)"
    by (rule div_round_up; simp)+
  have mods: "y mod 400 = 0 \<Longrightarrow> y mod 100 = 0" "y mod 100 = 0 \<Longrightarrow> y mod 4 = 0"
    using mod_mod_cancel[of 100 400 y] mod_mod_cancel[of 4 100 y] by simp_all
  have "days_before_year (y + 1) =
      365 * y + 365 + (y + 4) div 4 - (y + 100) div 100 + (y + 400) div 400"
    unfolding days_before_year_def by (simp add: add.assoc del: div_add_self2)
  also have "\<dots> = days_before_year y + (if is_leap y then 366 else 365)"
  proof -
    obtain a b c where abc: "(y + 3) div 4 = a" "(y + 99) div 100 = b" "(y + 399) div 400 = c"
      by blast
    obtain p q r where pqr: "(y mod 4 = 0) = p" "(y mod 100 = 0) = q" "(y mod 400 = 0) = r"
      by blast
    show ?thesis
      using mods unfolding up days_before_year_def is_leap_def abc pqr
      by (cases p; cases q; cases r) simp_all
  qed
  finally show ?thesis .
qed

text \<open>The year of a day number: the last year that starts at or before it.\<close>

function year_search :: "int \<Rightarrow> int \<Rightarrow> int" where
  "year_search n y = (if days_before_year (y + 1) \<le> n then year_search n (y + 1) else y)"
  by pat_completeness auto
termination
proof (relation "measure (\<lambda>(n, y). nat (n - days_before_year y))", simp)
  fix n y :: int
  assume "days_before_year (y + 1) \<le> n"
  moreover have "days_before_year y < days_before_year (y + 1)" by (simp add: days_before_year_Suc)
  ultimately have "nat (n - days_before_year (y + 1)) < nat (n - days_before_year y)" by linarith
  then show "((n, y + 1), n, y) \<in> measure (\<lambda>(n, y). nat (n - days_before_year y))" by simp
qed

declare year_search.simps [simp del]

definition year_of_day :: "int \<Rightarrow> int" where
  "year_of_day n = year_search n (min (n div 366) (n div 365))"

definition month_lengths :: "int \<Rightarrow> int list" where
  "month_lengths y = [31, if is_leap y then 29 else 28, 31, 30, 31, 30, 31, 31, 30, 31, 30, 31]"

fun split_months :: "int list \<Rightarrow> int \<Rightarrow> int \<Rightarrow> int \<times> int" where
  "split_months [] m yd = (m, yd + 1)"
| "split_months (l # ls) m yd =
     (if yd < l \<or> ls = [] then (m, yd + 1) else split_months ls (m + 1) (yd - l))"

section \<open>Formatting\<close>

fun digits_w :: "nat \<Rightarrow> nat \<Rightarrow> string" where
  "digits_w 0 n = []"
| "digits_w (Suc k) n = digits_w k (n div 10) @ [char_of (48 + n mod 10)]"

text \<open>\<open>appendInt(b, x, width)\<close>: at least \<open>width\<close> digits, zero-padded.\<close>

definition append_int :: "int \<Rightarrow> nat \<Rightarrow> string" where
  "append_int i w =
     (let n = nat \<bar>i\<bar>; ds = (if n < 10 ^ w then digits_w w n else decimal_nat n)
      in if i < 0 then CHR ''-'' # ds else ds)"

definition format_date :: "int \<Rightarrow> string" where
  "format_date n =
     (let y = year_of_day n; (m, d) = split_months (month_lengths y) 1 (n - days_before_year y)
      in append_int y 4 @ ''-'' @ append_int m 2 @ ''-'' @ append_int d 2)"

definition format_clock :: "int \<Rightarrow> string" where
  "format_clock s = append_int (s div 3600) 2 @ '':'' @ append_int (s div 60 mod 60) 2
     @ '':'' @ append_int (s mod 60) 2"

definition epoch_days :: int where
  "epoch_days = 719528"

definition FormatTimestamp :: "time \<Rightarrow> string" where
  "FormatTimestamp t =
     (let s = t div 1000000000; us = t mod 1000000000 div 1000
      in format_date (s div 86400 + epoch_days) @ ''T'' @ format_clock (s mod 86400)
         @ ''.'' @ append_int us 6 @ ''Z'')"

text \<open>Instants whose year has four digits (0000 to 9999), the range of the fixed-width form.\<close>

definition four_digit_year :: "time \<Rightarrow> bool" where
  "four_digit_year t \<longleftrightarrow> - 62167219200000000000 \<le> t \<and> t < 253402300800000000000"

section \<open>The year of a day\<close>

lemma year_search_bounds:
  "days_before_year y \<le> n \<Longrightarrow>
   days_before_year (year_search n y) \<le> n \<and> n < days_before_year (year_search n y + 1)"
proof (induction n y rule: year_search.induct)
  case (1 n y)
  show ?case
  proof (cases "days_before_year (y + 1) \<le> n")
    case True
    with 1 show ?thesis by (simp add: year_search.simps[of n y])
  next
    case False
    with 1 show ?thesis by (simp add: year_search.simps[of n y])
  qed
qed

lemma days_before_year_upper: "0 \<le> y \<Longrightarrow> days_before_year y \<le> 366 * y"
proof -
  assume y: "0 \<le> y"
  have four: "4 * (z div 4) \<le> z" for z :: int
    using mult_div_mod_eq[of 4 z] pos_mod_sign[of 4 z] by linarith
  have "(y + 3) div 4 \<le> y" using four[of "y + 3"] y by linarith
  moreover have "(y + 399) div 400 \<le> (y + 99) div 100"
  proof -
    have "(y + 399) div 400 = (y + 399) div 4 div 100"
      using zdiv_zmult2_eq[of 100 "y + 399" 4] by simp
    also have "\<dots> \<le> (y + 99) div 100"
    proof (rule zdiv_mono1)
      show "(y + 399) div 4 \<le> y + 99" using four[of "y + 399"] y by linarith
    qed simp
    finally show ?thesis .
  qed
  ultimately show ?thesis unfolding days_before_year_def by simp
qed

lemma year_of_day_bounds:
  assumes "0 \<le> n"
  shows "days_before_year (year_of_day n) \<le> n" and "n < days_before_year (year_of_day n + 1)"
proof -
  have "n div 366 \<le> n div 365" by (rule zdiv_mono2) (use assms in auto)
  then have start: "year_of_day n = year_search n (n div 366)"
    by (simp add: year_of_day_def min_def)
  have "0 \<le> n div 366" using assms by (simp add: pos_imp_zdiv_nonneg_iff)
  from days_before_year_upper[OF this] have "days_before_year (n div 366) \<le> 366 * (n div 366)" .
  also have "\<dots> \<le> n"
    using minus_mod_eq_mult_div[of n 366] pos_mod_sign[of 366 n] by linarith
  finally have "days_before_year (n div 366) \<le> n" .
  from year_search_bounds[OF this]
  show "days_before_year (year_of_day n) \<le> n" and "n < days_before_year (year_of_day n + 1)"
    unfolding start by blast+
qed

lemma days_before_year_mono: "y \<le> z \<Longrightarrow> days_before_year y \<le> days_before_year z"
proof (induction rule: int_ge_induct)
  case (step i)
  then show ?case by (simp add: days_before_year_Suc)
qed simp

lemma year_of_day_mono:
  assumes "0 \<le> n" and "n \<le> n'"
  shows "year_of_day n \<le> year_of_day n'"
proof (rule ccontr)
  assume "\<not> ?thesis"
  then have "days_before_year (year_of_day n' + 1) \<le> days_before_year (year_of_day n)"
    by (intro days_before_year_mono) simp
  with year_of_day_bounds[of n] year_of_day_bounds[of n'] assms show False by simp
qed

section \<open>Lexicographic order of the parts\<close>

lemma lex_append_less:
  "length a = length b \<Longrightarrow> (a @ x < b @ y) = (a < b \<or> a = b \<and> x < (y :: 'a :: linorder list))"
  by (induction a b rule: list_induct2) auto

lemma char_of_digit_less: "a < b \<Longrightarrow> b < 10 \<Longrightarrow> (char_of (48 + a :: nat) :: char) < char_of (48 + b)"
  by (simp add: less_char_def)

lemma length_digits_w [simp]: "length (digits_w k n) = k"
  by (induction k arbitrary: n) auto

lemma digits_w_less: "m < n \<Longrightarrow> n < 10 ^ k \<Longrightarrow> digits_w k m < digits_w k n"
proof (induction k arbitrary: m n)
  case (Suc k)
  have div: "n div 10 < 10 ^ k" using Suc.prems(2) by (simp add: div_less_iff_less_mult)
  show ?case
  proof (cases "m div 10 < n div 10")
    case True
    with Suc.IH[OF this div] show ?thesis by (simp add: lex_append_less)
  next
    case False
    then have eq: "m div 10 = n div 10"
      using div_le_mono[of m n 10] Suc.prems(1) by simp
    moreover have "m mod 10 < n mod 10"
      using mult_div_mod_eq[of 10 m] mult_div_mod_eq[of 10 n] Suc.prems(1) eq by linarith
    ultimately show ?thesis by (simp add: lex_append_less char_of_digit_less)
  qed
qed simp

lemma append_int_digits: "0 \<le> i \<Longrightarrow> i < 10 ^ w \<Longrightarrow> append_int i w = digits_w w (nat i)"
  by (simp add: append_int_def Let_def nat_less_iff)

lemma append_int_less:
  "0 \<le> i \<Longrightarrow> i < j \<Longrightarrow> j < 10 ^ w \<Longrightarrow> append_int i w < append_int j w"
  by (simp add: append_int_digits digits_w_less nat_less_iff)

lemma length_append_int: "0 \<le> i \<Longrightarrow> i < 10 ^ w \<Longrightarrow> length (append_int i w) = w"
  by (simp add: append_int_digits)

lemma split_months_fst: "m \<le> fst (split_months ls m yd)"
  by (induction ls m yd rule: split_months.induct) auto

lemma split_months_less:
  "yd < yd' \<Longrightarrow>
   fst (split_months ls m yd) < fst (split_months ls m yd') \<or>
   fst (split_months ls m yd) = fst (split_months ls m yd') \<and>
   snd (split_months ls m yd) < snd (split_months ls m yd')"
proof (induction ls m yd arbitrary: yd' rule: split_months.induct)
  case (2 l ls m yd)
  show ?case
  proof (cases "yd < l \<or> ls = []")
    case True
    then show ?thesis
      using 2(2) split_months_fst[of "m + 1" ls "yd' - l"] by auto
  next
    case False
    with 2 show ?thesis by simp
  qed
qed simp

lemma split_months_range:
  assumes "0 \<le> yd" and "yd < (if is_leap y then 366 else 365)"
  shows "split_months (month_lengths y) 1 yd \<in> {1..12} \<times> {1..31}"
  using assms by (auto simp: month_lengths_def)


section \<open>The order theorem\<close>

lemma year_of_day_range:
  assumes "0 \<le> n" and "n < 3652425"
  shows "0 \<le> year_of_day n \<and> year_of_day n < 10000"
proof -
  have "year_of_day 0 = 0" by (simp add: year_of_day_def year_search.simps days_before_year_def)
  with year_of_day_mono[of 0 n] assms(1) have "0 \<le> year_of_day n" by simp
  moreover have "year_of_day n < 10000"
  proof (rule ccontr)
    assume "\<not> ?thesis"
    then have "days_before_year 10000 \<le> days_before_year (year_of_day n)"
      by (intro days_before_year_mono) simp
    with year_of_day_bounds(1)[OF assms(1)] assms(2) show False
      by (simp add: days_before_year_def)
  qed
  ultimately show ?thesis by simp
qed

lemma format_date_parts:
  assumes "0 \<le> n" and "n < 3652425"
  obtains m d where
    "split_months (month_lengths (year_of_day n)) 1 (n - days_before_year (year_of_day n)) = (m, d)"
    and "format_date n = append_int (year_of_day n) 4 @ ''-'' @ append_int m 2 @ ''-'' @ append_int d 2"
    and "1 \<le> m" "m \<le> 12" "1 \<le> d" "d \<le> 31"
proof -
  obtain m d where md:
    "split_months (month_lengths (year_of_day n)) 1 (n - days_before_year (year_of_day n)) = (m, d)"
    by fastforce
  have "split_months (month_lengths (year_of_day n)) 1 (n - days_before_year (year_of_day n))
      \<in> {1..12} \<times> {1..31}"
    by (rule split_months_range)
      (use year_of_day_bounds[OF assms(1)] in \<open>auto simp: days_before_year_Suc\<close>)
  with md that show thesis by (simp add: format_date_def Let_def)
qed

lemma length_format_date:
  assumes "0 \<le> n" and "n < 3652425"
  shows "length (format_date n) = 10"
proof -
  obtain m d where
    "format_date n = append_int (year_of_day n) 4 @ ''-'' @ append_int m 2 @ ''-'' @ append_int d 2"
    "1 \<le> m" "m \<le> 12" "1 \<le> d" "d \<le> 31"
    using assms by (rule format_date_parts)
  with year_of_day_range[OF assms] show ?thesis by (simp add: length_append_int)
qed

lemma format_date_less:
  assumes "0 \<le> n" and "n < n'" and "n' < 3652425"
  shows "format_date n < format_date n'"
proof -
  obtain m d where md:
    "split_months (month_lengths (year_of_day n)) 1 (n - days_before_year (year_of_day n)) = (m, d)"
    "format_date n = append_int (year_of_day n) 4 @ ''-'' @ append_int m 2 @ ''-'' @ append_int d 2"
    "1 \<le> m" "m \<le> 12" "1 \<le> d" "d \<le> 31"
    by (rule format_date_parts[of n]) (use assms in auto)
  obtain m' d' where md':
    "split_months (month_lengths (year_of_day n')) 1 (n' - days_before_year (year_of_day n')) = (m', d')"
    "format_date n' = append_int (year_of_day n') 4 @ ''-'' @ append_int m' 2 @ ''-'' @ append_int d' 2"
    "1 \<le> m'" "m' \<le> 12" "1 \<le> d'" "d' \<le> 31"
    by (rule format_date_parts[of n']) (use assms in auto)
  have yr: "0 \<le> year_of_day n" "year_of_day n < 10000" "year_of_day n' < 10000" "0 \<le> year_of_day n'"
    using year_of_day_range[of n] year_of_day_range[of n'] assms by auto
  have "year_of_day n \<le> year_of_day n'" by (rule year_of_day_mono) (use assms in auto)
  then consider "year_of_day n < year_of_day n'" | "year_of_day n = year_of_day n'" by linarith
  then show ?thesis
  proof cases
    case 1
    with yr have "append_int (year_of_day n) 4 < append_int (year_of_day n') 4"
      by (intro append_int_less) auto
    with yr show ?thesis unfolding md md' by (simp add: lex_append_less length_append_int)
  next
    case 2
    have "n - days_before_year (year_of_day n) < n' - days_before_year (year_of_day n')"
      using 2 assms by simp
    from split_months_less[OF this, of "month_lengths (year_of_day n)" 1]
    have "m < m' \<or> m = m' \<and> d < d'" using md(1) md'(1) 2 by simp
    then show ?thesis unfolding md md' 2 using md md' yr
      by (auto simp: lex_append_less length_append_int append_int_less)
  qed
qed

lemma clock_parts_less:
  fixes s s' :: int
  assumes "0 \<le> s" and "s < s'" and "s' < 86400"
  shows "format_clock s < format_clock s'"
proof -
  define h mi se where "h = s div 3600" and "mi = s div 60 mod 60" and "se = s mod 60"
  define h' mi' se' where "h' = s' div 3600" and "mi' = s' div 60 mod 60" and "se' = s' mod 60"
  have dec: "s = 60 * (s div 60) + se" "s div 60 = 60 * h + mi"
    "s' = 60 * (s' div 60) + se'" "s' div 60 = 60 * h' + mi'"
    using zdiv_zmult2_eq[of 60 s 60] zdiv_zmult2_eq[of 60 s' 60]
    by (simp_all add: h_def mi_def se_def h'_def mi'_def se'_def)
  have ran: "0 \<le> mi" "mi < 60" "0 \<le> se" "se < 60" "0 \<le> mi'" "mi' < 60" "0 \<le> se'" "se' < 60"
    by (simp_all add: mi_def se_def mi'_def se'_def)
  then have hran: "0 \<le> h" "h < 24" "0 \<le> h'" "h' < 24" using dec assms by linarith+
  have "h < h' \<or> h = h' \<and> (mi < mi' \<or> mi = mi' \<and> se < se')"
    using dec ran assms by linarith
  then show ?thesis
    unfolding format_clock_def h_def[symmetric] mi_def[symmetric] se_def[symmetric]
      h'_def[symmetric] mi'_def[symmetric] se'_def[symmetric]
    using ran hran by (auto simp: lex_append_less length_append_int append_int_less)
qed

lemma length_format_clock:
  assumes "0 \<le> s" and "s < 86400"
  shows "length (format_clock s) = 8"
proof -
  have "s div 3600 \<le> 86399 div 3600" by (rule zdiv_mono1) (use assms in auto)
  then have h: "0 \<le> s div 3600" "s div 3600 < 10 ^ 2"
    using assms by (simp_all add: pos_imp_zdiv_nonneg_iff)
  have m: "0 \<le> s div 60 mod 60" "s div 60 mod 60 < 10 ^ 2"
    using pos_mod_bound[of 60 "s div 60"] by simp_all
  have e: "0 \<le> s mod 60" "s mod 60 < 10 ^ 2"
    using pos_mod_bound[of 60 s] by simp_all
  show ?thesis
    unfolding format_clock_def
    by (simp add: length_append_int[OF h] length_append_int[OF m] length_append_int[OF e])
qed

lemma four_digit_year_day:
  assumes "four_digit_year t"
  shows "0 \<le> t div 1000000000 div 86400 + epoch_days"
    and "t div 1000000000 div 86400 + epoch_days < 3652425"
proof -
  have "- 62167219200000000000 div 1000000000 \<le> t div 1000000000"
    by (rule zdiv_mono1) (use assms in \<open>simp_all add: four_digit_year_def\<close>)
  then have "- 62167219200 div 86400 \<le> t div 1000000000 div 86400"
    by (intro zdiv_mono1) simp_all
  then show "0 \<le> t div 1000000000 div 86400 + epoch_days" by (simp add: epoch_days_def)
  have "t div 1000000000 \<le> 253402300799999999999 div 1000000000"
    by (rule zdiv_mono1) (use assms in \<open>simp_all add: four_digit_year_def\<close>)
  then have "t div 1000000000 div 86400 \<le> 253402300799 div 86400"
    by (intro zdiv_mono1) simp_all
  then show "t div 1000000000 div 86400 + epoch_days < 3652425" by (simp add: epoch_days_def)
qed

text \<open>The whole number of microseconds decides the order of two instants.\<close>

lemma instant_parts_less:
  fixes t u :: int
  assumes "t div 1000 < u div 1000"
  shows "t div 1000000000 < u div 1000000000 \<or>
     t div 1000000000 = u div 1000000000 \<and>
     t mod 1000000000 div 1000 < u mod 1000000000 div 1000"
proof -
  have parts: "v div 1000 = 1000000 * (v div 1000000000) + v mod 1000000000 div 1000" for v :: int
  proof -
    have "v = (v mod 1000000000) + (1000000 * (v div 1000000000)) * 1000" by simp
    then have "v div 1000 = ((v mod 1000000000) + (1000000 * (v div 1000000000)) * 1000) div 1000"
      by (rule arg_cong)
    also have "\<dots> = 1000000 * (v div 1000000000) + v mod 1000000000 div 1000"
      by (rule div_mult_self1) simp
    finally show ?thesis .
  qed
  have range: "0 \<le> v mod 1000000000 div 1000 \<and> v mod 1000000000 div 1000 \<le> 999999" for v :: int
  proof -
    have "v mod 1000000000 div 1000 \<le> 999999999 div 1000"
      by (rule zdiv_mono1) (use pos_mod_bound[of 1000000000 v] in auto)
    then show ?thesis by (simp add: pos_imp_zdiv_nonneg_iff)
  qed
  obtain a b c d where abcd: "t div 1000000000 = a" "u div 1000000000 = b"
    "t mod 1000000000 div 1000 = c" "u mod 1000000000 div 1000 = d" by blast
  show ?thesis
    using assms range[of t] range[of u] unfolding parts[of t] parts[of u] abcd by linarith
qed

lemma length_us:
  fixes t :: int
  shows "0 \<le> t mod 1000000000 div 1000" "t mod 1000000000 div 1000 < 10 ^ 6"
proof -
  have "t mod 1000000000 div 1000 \<le> 999999999 div 1000"
    by (rule zdiv_mono1) (use pos_mod_bound[of 1000000000 t] in auto)
  then show "t mod 1000000000 div 1000 < 10 ^ 6" by simp
qed (simp add: pos_imp_zdiv_nonneg_iff)

lemma format_seconds_less:
  fixes s s' :: int
  assumes day: "0 \<le> s div 86400 + epoch_days" "s' div 86400 + epoch_days < 3652425"
    and less: "s < s'"
  shows "format_date (s div 86400 + epoch_days) @ ''T'' @ format_clock (s mod 86400) @ x
     < format_date (s' div 86400 + epoch_days) @ ''T'' @ format_clock (s' mod 86400) @ y"
proof -
  have le: "s div 86400 \<le> s' div 86400" using less by (intro zdiv_mono1) simp_all
  have len: "length (format_date (s div 86400 + epoch_days)) = length (format_date (s' div 86400 + epoch_days))"
    using le day by (simp add: length_format_date)
  show ?thesis
  proof (cases "s div 86400 = s' div 86400")
    case True
    have "s mod 86400 < s' mod 86400"
      using less True mult_div_mod_eq[of 86400 s] mult_div_mod_eq[of 86400 s'] by linarith
    then have "format_clock (s mod 86400) < format_clock (s' mod 86400)"
      by (intro clock_parts_less) simp_all
    then show ?thesis
      unfolding True by (simp add: lex_append_less length_format_clock)
  next
    case False
    with le day have "format_date (s div 86400 + epoch_days) < format_date (s' div 86400 + epoch_days)"
      by (intro format_date_less) simp_all
    then show ?thesis by (simp add: lex_append_less[OF len])
  qed
qed

lemma FormatTimestamp_less:
  assumes "four_digit_year t" and "four_digit_year u" and "t div 1000 < u div 1000"
  shows "FormatTimestamp t < FormatTimestamp u"
  using instant_parts_less[OF assms(3)]
proof
  assume "t div 1000000000 < u div 1000000000"
  from format_seconds_less[OF four_digit_year_day(1)[OF assms(1)] four_digit_year_day(2)[OF assms(2)] this]
  show ?thesis unfolding FormatTimestamp_def Let_def .
next
  assume *: "t div 1000000000 = u div 1000000000 \<and>
     t mod 1000000000 div 1000 < u mod 1000000000 div 1000"
  then have "append_int (t mod 1000000000 div 1000) 6 < append_int (u mod 1000000000 div 1000) 6"
    using length_us by (intro append_int_less) auto
  then show ?thesis
    unfolding FormatTimestamp_def Let_def using * length_us
    by (simp add: lex_append_less length_append_int)
qed

lemma FormatTimestamp_same:
  assumes "t div 1000 = u div 1000"
  shows "FormatTimestamp t = FormatTimestamp u"
proof -
  have "v div 1000000000 = v div 1000 div 1000000" for v :: int
    using zdiv_zmult2_eq[of 1000000 v 1000] by simp
  moreover have "v mod 1000000000 div 1000 = v div 1000 mod 1000000" for v :: int
    using zmod_zmult2_eq[of 1000000 v 1000] by simp
  ultimately show ?thesis using assms unfolding FormatTimestamp_def Let_def by presburger
qed

text \<open>Two formatted instants compare as text exactly as the instants compare at the
  microsecond granularity of the format.\<close>

lemma FormatTimestamp_le_iff:
  assumes "four_digit_year t" and "four_digit_year u"
  shows "FormatTimestamp t \<le> FormatTimestamp u \<longleftrightarrow> t div 1000 \<le> u div 1000"
  using FormatTimestamp_less[OF assms] FormatTimestamp_less[OF assms(2,1)]
    FormatTimestamp_same[of t u] by (cases "t div 1000" "u div 1000" rule: linorder_cases) auto

end
