(* ===== verification/Envelope.thy ===== *)
theory Envelope
  imports Action_Types Timestamps "HOL-Library.Multiset"
begin

text \<open>
  \<open>internal/governance/envelope.go\<close>: the governance envelope and its canonical
  transaction hash. The message types are those of \<open>common.proto\<close>; a nil message is
  \<open>None\<close>, an absent scalar is the empty string. SHA-256 is an argument. A
  \<open>structpb\<close> number carries the text \<open>fmt.Sprintf("%f", n)\<close> gives for it.
\<close>

section \<open>Cryptographic primitives\<close>

text \<open>The primitives of Go's \<open>crypto\<close> packages that the governance code calls:
  \<open>sha256.Sum256\<close>, \<open>ed25519.Verify(pub, msg, sig)\<close> and
  \<open>ed25519.Sign(priv, msg)\<close>. They are parameters of the model.\<close>

record crypto =
  sha256 :: "bytes \<Rightarrow> bytes"
  ed_verify :: "bytes \<Rightarrow> bytes \<Rightarrow> bytes \<Rightarrow> bool"
  ed_sign :: "bytes \<Rightarrow> bytes \<Rightarrow> bytes"

definition sha256_hex :: "crypto \<Rightarrow> bytes \<Rightarrow> string" where
  "sha256_hex C m = hex_EncodeToString (sha256 C m)"

text \<open>Named hypotheses on the primitives: a signature of the key pair verifies,
  a signature has 64 bytes, and no two messages share a digest.\<close>

definition key_pair :: "crypto \<Rightarrow> bytes \<Rightarrow> bytes \<Rightarrow> bool" where
  "key_pair C priv pub \<longleftrightarrow> (\<forall>m. ed_verify C pub m (ed_sign C priv m))"

definition sig64 :: "crypto \<Rightarrow> bool" where
  "sig64 C \<longleftrightarrow> (\<forall>k m. length (ed_sign C k m) = 64)"

definition collision_free :: "crypto \<Rightarrow> bool" where
  "collision_free C \<longleftrightarrow> inj (sha256 C)"

section \<open>Messages\<close>

record L2Vote =
  SignerKeyId :: string
  ConsensusSignature :: string
  Decision :: bool

record L2Metadata =
  ConsensusSetId :: string
  Votes :: "L2Vote list"

record L3Proof =
  ClientDataJson :: string
  AuthenticatorData :: string
  ProofSignature :: string
  CredentialId :: string
  MtlsCertFingerprint :: string
  CliSignature :: string

record L3Metadata =
  Proof :: "L3Proof option"

record L1Metadata =
  Validated :: bool
  Violations :: "string list"

record GovernanceMetadata =
  L1 :: "L1Metadata option"
  L2 :: "L2Metadata option"
  L3 :: "L3Metadata option"

datatype Value = NilValue | NullValue | NumberValue string | StringValue string | BoolValue bool
  | StructValue "(string \<times> Value) list" | ListValue "Value list" | OtherValue string

type_synonym Struct = "(string \<times> Value) list"

record GovernanceEnvelope =
  Id :: string
  Timestamp :: "time option"
  ExpiresAt :: "time option"
  SourceComponent :: nat
  OperatorId :: string
  OperatorSessionId :: string
  WebSessionId :: string
  CliSessionId :: string
  RequestorUserId :: string
  ActingAppId :: string
  EnvEventType :: EventType
  Payload :: bytes
  IntentData :: "Struct option"
  EnvActionType :: ActionType
  TargetResource :: string
  StateMerkleRoot :: string
  Nonce :: string
  TransactionHash :: string
  ProtocolVersion :: string
  Governance :: "GovernanceMetadata option"
  CaseId :: string
  InvestigationId :: string
  TaskId :: string
  SystemFingerprint :: string
  TenantId :: string
  BindingPersona :: string
  Posture :: string

abbreviation GovernanceProtocolVersionV1 :: string where "GovernanceProtocolVersionV1 \<equiv> ''1.0''"
abbreviation GovernanceProtocolVersionV2 :: string where "GovernanceProtocolVersionV2 \<equiv> ''2''"
abbreviation txHashV2Prefix :: string where "txHashV2Prefix \<equiv> ''g8e-tx-v2|''"

section \<open>Canonicalisation\<close>

text \<open>The loop of \<open>canonicalizeStruct\<close> over the sorted keys, given each key's
  canonical value; the first error in key order is returned.\<close>

definition canonicalizeFields :: "(string \<times> string result) list \<Rightarrow> string result" where
  "canonicalizeFields kvs =
     (case collect_results (map (\<lambda>(k, r). case r of
              Inl e \<Rightarrow> Inl (Errorf ''envelope: canonicalize key %q: %w'' [k] [e])
            | Inr v \<Rightarrow> Inr (k @ ''='' @ v)) (sort_key fst kvs)) of
        Inl e \<Rightarrow> Inl e
      | Inr parts \<Rightarrow> Inr (strings_Join parts '',''))"

fun canonicalizeValue :: "Value \<Rightarrow> string result" where
  "canonicalizeValue NilValue = Inr []"
| "canonicalizeValue (StringValue s) = Inr s"
| "canonicalizeValue (NumberValue f) = Inr f"
| "canonicalizeValue (BoolValue b) = Inr (FormatBool b)"
| "canonicalizeValue (StructValue fs) =
     canonicalizeFields (map (\<lambda>(k, v). (k, canonicalizeValue v)) fs)"
| "canonicalizeValue (ListValue vs) =
     (case collect_results (map canonicalizeValue vs) of
        Inl e \<Rightarrow> Inl e
      | Inr parts \<Rightarrow> Inr (''['' @ strings_Join parts '','' @ '']''))"
| "canonicalizeValue NullValue = Inr []"
| "canonicalizeValue (OtherValue t) =
     Inl (wrap ''envelope: canonicalize: %w: type %T'' (Tx ErrTxCanonicalizeFailed) [t])"

definition canonicalizeStruct :: "Struct \<Rightarrow> string result" where
  "canonicalizeStruct fs = canonicalizeFields (map (\<lambda>(k, v). (k, canonicalizeValue v)) fs)"

text \<open>One field of the canonical string: omitted, or its text and a bar.\<close>

fun emit :: "string option \<Rightarrow> string" where
  "emit None = []"
| "emit (Some s) = s @ ''|''"

definition present :: "string \<Rightarrow> string option" where
  "present s = (if s = '''' then None else Some s)"

definition canonicalIntent :: "GovernanceEnvelope \<Rightarrow> string option result" where
  "canonicalIntent env =
     (case IntentData env of
        None \<Rightarrow> Inr None
      | Some s \<Rightarrow> (case canonicalizeStruct s of
           Inl e \<Rightarrow> Inl (Errorf ''envelope: canonicalize intent_data: %w'' [] [e])
         | Inr t \<Rightarrow> Inr (Some t)))"

definition canonicalParts :: "GovernanceEnvelope \<Rightarrow> string option \<Rightarrow> string option list" where
  "canonicalParts env intent =
     [present (EnvActionType env),
      present (TargetResource env),
      (if Payload env = [] then None else Some (base64_Encode (Payload env))),
      present (StateMerkleRoot env),
      present (Nonce env),
      map_option FormatTimestamp (ExpiresAt env),
      intent,
      present (RequestorUserId env),
      present (ActingAppId env),
      present (OperatorId env),
      present (OperatorSessionId env),
      present (CaseId env),
      present (InvestigationId env),
      present (TaskId env),
      present (WebSessionId env),
      present (CliSessionId env)]"

definition canonicalEnvelopeFieldsV1 :: "GovernanceEnvelope \<Rightarrow> string result" where
  "canonicalEnvelopeFieldsV1 env =
     (case canonicalIntent env of
        Inl e \<Rightarrow> Inl e
      | Inr intent \<Rightarrow> Inr (concat (map emit (canonicalParts env intent))))"

section \<open>The transaction hash\<close>

definition generateMessageIDV1 :: "crypto \<Rightarrow> GovernanceEnvelope \<Rightarrow> string result" where
  "generateMessageIDV1 C env =
     (case canonicalEnvelopeFieldsV1 env of
        Inl e \<Rightarrow> Inl e
      | Inr canonicalStr \<Rightarrow> Inr (sha256_hex C canonicalStr))"

definition canonicalV2 :: "GovernanceEnvelope \<Rightarrow> string \<Rightarrow> string" where
  "canonicalV2 env v1Canonical =
     txHashV2Prefix @ EnvActionType env @ ''|'' @ EnvEventType env @ ''|'' @ v1Canonical"

definition generateMessageIDV2 :: "crypto \<Rightarrow> GovernanceEnvelope \<Rightarrow> string result" where
  "generateMessageIDV2 C env =
     (if EnvEventType env = '''' then Inl (Sentinel (Tx ErrTxEventTypeMissing))
      else case canonicalEnvelopeFieldsV1 env of
        Inl e \<Rightarrow> Inl e
      | Inr v1Canonical \<Rightarrow> Inr (sha256_hex C (canonicalV2 env v1Canonical)))"

definition envelopeProtocolVersion :: "GovernanceEnvelope option \<Rightarrow> string" where
  "envelopeProtocolVersion env = (case env of None \<Rightarrow> [] | Some e \<Rightarrow> ProtocolVersion e)"

definition GenerateMessageID :: "crypto \<Rightarrow> GovernanceEnvelope option \<Rightarrow> string result" where
  "GenerateMessageID C env =
     (case env of
        None \<Rightarrow> Inl (Sentinel (Tx ErrTxInvalidEnvelope))
      | Some e \<Rightarrow>
          (let v = envelopeProtocolVersion env in
           if v = GovernanceProtocolVersionV2 then generateMessageIDV2 C e
           else if v = GovernanceProtocolVersionV1 \<or> v = [] then generateMessageIDV1 C e
           else Inl (Sentinel (Tx ErrTxProtocolVersionUnsupported))))"

definition VerifyTransactionHash ::
  "crypto \<Rightarrow> GovernanceEnvelope option \<Rightarrow> string \<Rightarrow> unit result" where
  "VerifyTransactionHash C env expectedHash =
     (if env = None then Inl (Sentinel (Tx ErrTxInvalidEnvelope))
      else case GenerateMessageID C env of
        Inl e \<Rightarrow> Inl e
      | Inr computed \<Rightarrow>
          if expectedHash = '''' then Inl (Sentinel (Tx ErrTxTransactionHashMissing))
          else if expectedHash \<noteq> computed then Inl (Sentinel (Tx ErrTxTransactionHashMismatch))
          else Inr ())"

section \<open>A concrete envelope\<close>

text \<open>Used where a theorem is applied to concrete values: a hash function without
  collisions, a signature scheme in which the signature of a message under a key is the first
  64 bytes of the key, the message and padding, and a version 2 envelope for a shell command.\<close>

definition toy_sign :: "bytes \<Rightarrow> bytes \<Rightarrow> bytes" where
  "toy_sign k m = take 64 (k @ m @ replicate 64 (CHR 0x00))"

definition toy_crypto :: crypto where
  "toy_crypto = \<lparr>sha256 = (\<lambda>m. m), ed_verify = (\<lambda>pub m s. s = toy_sign pub m), ed_sign = toy_sign\<rparr>"

definition sample_envelope :: GovernanceEnvelope where
  "sample_envelope = \<lparr>Id = ''tx-1'', Timestamp = None, ExpiresAt = Some 2000000000000000000,
     SourceComponent = 1, OperatorId = ''op-1'', OperatorSessionId = ''os-1'', WebSessionId = [],
     CliSessionId = ''cli-1'', RequestorUserId = ''alice'', ActingAppId = ''app-1'',
     EnvEventType = ''g8e.v1.operator.command.requested'', Payload = ''ls'', IntentData = None,
     EnvActionType = ''EXECUTE_BASH'', TargetResource = ''host-1'', StateMerkleRoot = ''root-1'',
     Nonce = ''nonce-1'', TransactionHash = [], ProtocolVersion = ''2'', Governance = None,
     CaseId = [], InvestigationId = [], TaskId = [], SystemFingerprint = [], TenantId = [],
     BindingPersona = [], Posture = ''notary''\<rparr>"

section \<open>Facts\<close>

lemma collision_free_toy [simp]: "collision_free toy_crypto"
  by (simp add: collision_free_def toy_crypto_def)

lemma sig64_toy [simp]: "sig64 toy_crypto"
  by (auto simp: sig64_def toy_crypto_def toy_sign_def min_def)

lemma key_pair_toy [simp]: "key_pair toy_crypto k k"
  by (simp add: key_pair_def toy_crypto_def)

text \<open>Go ranges over a map in an unspecified order; the canonical form does not depend on
  it, because the keys of a map are distinct and are sorted first.\<close>

lemma sort_key_perm_eq:
  assumes "mset xs = mset ys" and "distinct (map f xs)"
  shows "sort_key f xs = sort_key f ys"
  by (rule sort_key_inj_key_eq) (use assms in \<open>simp_all add: distinct_map\<close>)

lemma canonicalizeStruct_perm:
  assumes "mset fs = mset gs" and "distinct (map fst fs)"
  shows "canonicalizeStruct fs = canonicalizeStruct gs"
proof -
  let ?h = "\<lambda>(k, v). (k, canonicalizeValue v)"
  have "mset (map ?h fs) = mset (map ?h gs)" using assms(1) by simp
  moreover have "map fst (map ?h fs) = map fst fs" by (simp add: case_prod_beta)
  ultimately have "sort_key fst (map ?h fs) = sort_key fst (map ?h gs)"
    using assms(2) by (metis sort_key_perm_eq)
  then show ?thesis by (simp add: canonicalizeStruct_def canonicalizeFields_def)
qed


text \<open>The canonical string determines the fields once it is known which of them are
  present and that no text contains the separator.\<close>

lemma bar_split:
  "CHR ''|'' \<notin> set s \<Longrightarrow> CHR ''|'' \<notin> set t \<Longrightarrow>
   (s @ CHR ''|'' # x = t @ CHR ''|'' # y) = (s = t \<and> x = y)"
proof (induction s arbitrary: t)
  case Nil
  then show ?case by (cases t) auto
next
  case (Cons a s)
  then show ?case by (cases t) auto
qed

definition bar_free :: "string option list \<Rightarrow> bool" where
  "bar_free ps \<longleftrightarrow> list_all (\<lambda>p. case p of None \<Rightarrow> True | Some s \<Rightarrow> CHR ''|'' \<notin> set s) ps"

lemma emit_inj:
  assumes "map (\<lambda>p. p = None) ps = map (\<lambda>p. p = None) qs" and "bar_free ps" and "bar_free qs"
    and "concat (map emit ps) = concat (map emit qs)"
  shows "ps = qs"
proof -
  have "length ps = length qs" using assms(1) by (rule map_eq_imp_length_eq)
  then show ?thesis using assms
  proof (induction ps qs rule: list_induct2)
    case (Cons p ps q qs)
    then show ?case
      by (cases p; cases q) (auto simp: bar_free_def bar_split)
  qed simp
qed

definition b64_index :: "char \<Rightarrow> nat" where
  "b64_index c = (let v = of_char c in
     if 65 \<le> v \<and> v \<le> 90 then v - 65 else if 97 \<le> v \<and> v \<le> 122 then v - 71
     else if 48 \<le> v \<and> v \<le> 57 then v + 4 else if v = 43 then 62 else if v = 47 then 63 else 64)"

lemma b64_index_char: "n < 64 \<Longrightarrow> b64_index (b64_char n) = n"
  by (simp add: b64_index_def b64_char_def Let_def) arith

lemma b64_char_inj: "m < 64 \<Longrightarrow> n < 64 \<Longrightarrow> b64_char m = b64_char n \<longleftrightarrow> m = n"
  by (metis b64_index_char)

lemma b64_char_not_pad: "n < 64 \<Longrightarrow> b64_char n \<noteq> CHR ''='' \<and> b64_char n \<noteq> CHR ''|''"
  using b64_index_char[of n] by (auto simp: b64_index_def)

lemma byte_parts:
  fixes c :: char
  shows "(of_char c :: nat) div 4 < 64" "(of_char c :: nat) div 16 < 16" "(of_char c :: nat) div 64 < 4"
    "(of_char c :: nat) mod 4 < 4" "(of_char c :: nat) mod 16 < 16" "(of_char c :: nat) mod 64 < 64"
  using nat_of_char_less_256[of c] by (simp_all add: div_less_iff_less_mult)

lemma byte_eqI:
  fixes c d :: char
  assumes "(of_char c :: nat) div k = of_char d div k" and "(of_char c :: nat) mod k = of_char d mod k"
  shows "c = d"
proof -
  have "(of_char c :: nat) = of_char d"
    using assms mult_div_mod_eq[of k "of_char c"] mult_div_mod_eq[of k "of_char d"] by metis
  then show ?thesis by simp
qed

lemma mixed_radix_eq:
  fixes a b c d :: nat
  shows "b < k \<Longrightarrow> d < k \<Longrightarrow> a * k + b = c * k + d \<longleftrightarrow> a = c \<and> b = d"
proof -
  assume bd: "b < k" "d < k"
  have "(a * k + b) div k = a" "(c * k + d) div k = c" "(a * k + b) mod k = b" "(c * k + d) mod k = d"
    using bd by auto
  then show ?thesis by metis
qed

lemma b64_group_eq:
  fixes a b c a' b' c' :: char
  shows "b64_char (of_char a div 4) = b64_char (of_char a' div 4) \<and>
     b64_char (of_char a mod 4 * 16 + of_char b div 16) =
       b64_char (of_char a' mod 4 * 16 + of_char b' div 16) \<Longrightarrow>
     a = a' \<and> (of_char b :: nat) div 16 = of_char b' div 16"
    and "b64_char (of_char b mod 16 * 4 + of_char c div 64) =
       b64_char (of_char b' mod 16 * 4 + of_char c' div 64) \<Longrightarrow>
     (of_char b :: nat) mod 16 = of_char b' mod 16 \<and> (of_char c :: nat) div 64 = of_char c' div 64"
proof -
  have lt: "(of_char x :: nat) mod 4 * 16 + of_char y div 16 < 64"
    "(of_char x :: nat) mod 16 * 4 + of_char y div 64 < 64" for x y :: char
    using byte_parts(2,3)[of y] byte_parts(4,5)[of x] by linarith+
  show "b64_char (of_char a div 4) = b64_char (of_char a' div 4) \<and>
     b64_char (of_char a mod 4 * 16 + of_char b div 16) =
       b64_char (of_char a' mod 4 * 16 + of_char b' div 16) \<Longrightarrow>
     a = a' \<and> (of_char b :: nat) div 16 = of_char b' div 16"
    using lt byte_parts by (auto simp: b64_char_inj mixed_radix_eq intro: byte_eqI[of _ 4])
  show "b64_char (of_char b mod 16 * 4 + of_char c div 64) =
       b64_char (of_char b' mod 16 * 4 + of_char c' div 64) \<Longrightarrow>
     (of_char b :: nat) mod 16 = of_char b' mod 16 \<and> (of_char c :: nat) div 64 = of_char c' div 64"
    using lt byte_parts by (auto simp: b64_char_inj mixed_radix_eq)
qed

lemma b64_pad_lt:
  fixes a b :: char
  shows "(of_char a :: nat) mod 4 * 16 < 64" "(of_char a :: nat) mod 16 * 4 < 64"
    "(of_char a :: nat) mod 16 * 4 + of_char b div 64 < 64"
    "(of_char a :: nat) mod 4 * 16 + of_char b div 16 < 64"
  using byte_parts(2,3)[of b] byte_parts(4,5)[of a] by linarith+

lemmas b64_neq = b64_char_not_pad[OF b64_pad_lt(1)] b64_char_not_pad[OF b64_pad_lt(2)]
  b64_char_not_pad[OF b64_pad_lt(3)] b64_char_not_pad[OF b64_pad_lt(4)]
  b64_char_not_pad[OF byte_parts(1)] b64_char_not_pad[OF byte_parts(6)]

lemmas b64_neq_simps = b64_neq[THEN conjunct1] b64_neq[THEN conjunct2]
  b64_neq[THEN conjunct1, symmetric] b64_neq[THEN conjunct2, symmetric]

lemma base64_bar_free: "CHR ''|'' \<notin> set (base64_Encode bs)"
  by (induction bs rule: base64_Encode.induct) (auto simp: b64_neq_simps)

lemma base64_inj: "base64_Encode xs = base64_Encode ys \<Longrightarrow> xs = ys"
proof (induction xs arbitrary: ys rule: base64_Encode.induct)
  case 1
  then show ?case by (cases ys rule: base64_Encode.cases) auto
next
  case (2 a)
  then show ?case using b64_group_eq(1)[of a _ "CHR 0x00" "CHR 0x00"]
    by (cases ys rule: base64_Encode.cases) (auto simp: b64_neq_simps)
next
  case (3 a b)
  then show ?case
  proof (cases ys rule: base64_Encode.cases)
    case (3 a' b')
    with \<open>base64_Encode [a, b] = base64_Encode ys\<close>
    have "a = a' \<and> (of_char b :: nat) div 16 = of_char b' div 16"
      and "(of_char b :: nat) mod 16 = of_char b' mod 16"
      using b64_group_eq(1)[of a a' b b'] b64_group_eq(2)[of b "CHR 0x00" b' "CHR 0x00"] by auto
    with 3 show ?thesis by (auto intro: byte_eqI[of _ 16])
  qed (auto simp: b64_neq_simps)
next
  case (4 a b c r)
  then show ?case
  proof (cases ys rule: base64_Encode.cases)
    case (4 a' b' c' r')
    with \<open>base64_Encode (a # b # c # r) = base64_Encode ys\<close>
    have "a = a' \<and> (of_char b :: nat) div 16 = of_char b' div 16"
      and "(of_char b :: nat) mod 16 = of_char b' mod 16 \<and> (of_char c :: nat) div 64 = of_char c' div 64"
      and "(of_char c :: nat) mod 64 = of_char c' mod 64"
      and "base64_Encode r = base64_Encode r'"
      using b64_group_eq[of a a' b b'] b64_group_eq(2)[of b c b' c'] byte_parts(6)
      by (auto simp: b64_char_inj)
    then have "a = a'" "b = b'" "c = c'" "r = r'"
      using "4.IH" by (auto intro: byte_eqI[of _ 16] byte_eqI[of _ 64])
    with 4 show ?thesis by simp
  qed (auto simp: b64_neq_simps)
qed

section \<open>What the transaction hash binds\<close>

lemma present_eq: "present a = present b \<longleftrightarrow> a = b"
  by (simp add: present_def)

lemma payload_part_eq:
  "(if p = [] then None else Some (base64_Encode p)) = (if q = [] then None else Some (base64_Encode q))
   \<longleftrightarrow> p = q"
  by (auto dest: base64_inj)

lemma canonicalParts_eqD:
  assumes "canonicalParts e i = canonicalParts e' i'"
  shows "EnvActionType e = EnvActionType e'" and "TargetResource e = TargetResource e'"
    and "Payload e = Payload e'" and "StateMerkleRoot e = StateMerkleRoot e'"
    and "Nonce e = Nonce e'"
    and "map_option FormatTimestamp (ExpiresAt e) = map_option FormatTimestamp (ExpiresAt e')"
    and "i = i'" and "RequestorUserId e = RequestorUserId e'" and "ActingAppId e = ActingAppId e'"
    and "OperatorId e = OperatorId e'" and "OperatorSessionId e = OperatorSessionId e'"
    and "CaseId e = CaseId e'" and "InvestigationId e = InvestigationId e'"
    and "TaskId e = TaskId e'" and "WebSessionId e = WebSessionId e'"
    and "CliSessionId e = CliSessionId e'"
  using assms unfolding canonicalParts_def by (simp_all add: present_eq payload_part_eq)

text \<open>The preimage of a hash that was computed for an envelope.\<close>

definition preimage :: "GovernanceEnvelope \<Rightarrow> string option \<Rightarrow> string" where
  "preimage e intent =
     (let v1 = concat (map emit (canonicalParts e intent))
      in if ProtocolVersion e = GovernanceProtocolVersionV2 then canonicalV2 e v1 else v1)"

lemma GenerateMessageID_preimage:
  assumes "GenerateMessageID C (Some e) = Inr h"
  obtains intent where "canonicalIntent e = Inr intent" and "h = sha256_hex C (preimage e intent)"
  using assms that
  by (auto simp: GenerateMessageID_def Let_def envelopeProtocolVersion_def generateMessageIDV1_def
      generateMessageIDV2_def canonicalEnvelopeFieldsV1_def preimage_def
      split: if_splits sum.splits)



lemma GenerateMessageID_cong:
  assumes "IntentData e = IntentData e'" and "ProtocolVersion e = ProtocolVersion e'"
    and "EnvEventType e = EnvEventType e'" and "EnvActionType e = EnvActionType e'"
    and "\<And>i. concat (map emit (canonicalParts e i)) = concat (map emit (canonicalParts e' i))"
  shows "GenerateMessageID C (Some e) = GenerateMessageID C (Some e')"
proof -
  have "canonicalEnvelopeFieldsV1 e = canonicalEnvelopeFieldsV1 e'"
    unfolding canonicalEnvelopeFieldsV1_def canonicalIntent_def assms(1,5) ..
  moreover have "canonicalV2 e = canonicalV2 e'"
    by (rule ext) (simp add: canonicalV2_def assms)
  ultimately show ?thesis
    by (simp add: GenerateMessageID_def Let_def envelopeProtocolVersion_def generateMessageIDV1_def
        generateMessageIDV2_def assms split: sum.split)
qed

text \<open>The transaction hash ignores what is not intent: the envelope id, the recorded
  hash itself, the creation time, the source component, the tenant, persona and fingerprint
  metadata, the governance proofs and the posture can be changed without changing it.\<close>

theorem transaction_hash_excludes_metadata:
  "GenerateMessageID C (Some (e\<lparr>Id := i, Timestamp := ts, SourceComponent := sc,
      TransactionHash := th, Governance := g, SystemFingerprint := fp, TenantId := tn,
      BindingPersona := bp, Posture := po\<rparr>)) = GenerateMessageID C (Some e)"
  by (rule GenerateMessageID_cong) (simp_all add: canonicalParts_def)

text \<open>The canonical string omits absent fields without marking the omission, so the
  hash does not say which field a text belongs to: an envelope that names a principal as the
  requesting user and one that names the same text as the acting application have the same
  transaction hash, whatever the hash function.\<close>

theorem transaction_hash_field_confusion:
  "GenerateMessageID C (Some (e\<lparr>RequestorUserId := who, ActingAppId := []\<rparr>)) =
   GenerateMessageID C (Some (e\<lparr>RequestorUserId := [], ActingAppId := who\<rparr>))"
  by (rule GenerateMessageID_cong) (simp_all add: canonicalParts_def present_def)

end
