(* ===== verification/Posture.thy ===== *)
theory Posture
  imports Envelope
begin

text \<open>
  \<open>posture.go\<close>: the four governance postures, which decide whether L2 consensus
  signatures and L3 human proofs are enforced, and \<open>postureFromEnvelope\<close> of
  \<open>l4_warden.go\<close>, which reads the posture of an envelope.
\<close>

datatype GovernancePosture = DoctrinePosture | ConsensusPosture | RatifyPosture | NotaryPosture

fun posture_Name :: "GovernancePosture \<Rightarrow> string" where
  "posture_Name DoctrinePosture = ''doctrine''"
| "posture_Name ConsensusPosture = ''consensus''"
| "posture_Name RatifyPosture = ''ratify''"
| "posture_Name NotaryPosture = ''notary''"

fun RequiresL2Signature :: "GovernancePosture \<Rightarrow> bool" where
  "RequiresL2Signature DoctrinePosture = False"
| "RequiresL2Signature ConsensusPosture = True"
| "RequiresL2Signature RatifyPosture = False"
| "RequiresL2Signature NotaryPosture = True"

fun RequiresL3Proof :: "GovernancePosture \<Rightarrow> bool" where
  "RequiresL3Proof DoctrinePosture = False"
| "RequiresL3Proof ConsensusPosture = False"
| "RequiresL3Proof RatifyPosture = True"
| "RequiresL3Proof NotaryPosture = True"

definition ParseGovernancePosture :: "string \<Rightarrow> GovernancePosture result" where
  "ParseGovernancePosture p =
     (if p = ''doctrine'' then Inr DoctrinePosture
      else if p = ''consensus'' then Inr ConsensusPosture
      else if p = ''ratify'' then Inr RatifyPosture
      else if p = ''notary'' then Inr NotaryPosture
      else Inl (wrap ''%w: %q (must be one of: doctrine, consensus, ratify, notary)''
                  (Layer ErrInvalidPosture) [p]))"

definition postureFromEnvelope :: "GovernanceEnvelope \<Rightarrow> GovernancePosture result" where
  "postureFromEnvelope envelope =
     (if Posture envelope = '''' then Inl (Sentinel (Layer ErrEnvelopePostureMissing))
      else ParseGovernancePosture (Posture envelope))"

text \<open>Names and postures correspond one to one.\<close>

lemma ParseGovernancePosture_ok: "ParseGovernancePosture s = Inr p \<longleftrightarrow> s = posture_Name p"
  by (cases p) (auto simp: ParseGovernancePosture_def)

lemma postureFromEnvelope_ok: "postureFromEnvelope e = Inr p \<longleftrightarrow> Posture e = posture_Name p"
  by (cases p) (auto simp: postureFromEnvelope_def ParseGovernancePosture_ok)

end
