(* ===== verification/Regexp.thy ===== *)
theory Regexp
  imports Prelude
begin

text \<open>
  Go's \<open>regexp\<close> package, as far as the doctrine uses it. A regular expression is kept
  as the syntax tree of its source text, so that \<open>re_show\<close> gives the text back
  (\<open>Regexp.String\<close> returns it and the doctrine identity hashes it). An input string
  is decoded into runes the way Go does, an invalid byte giving U+FFFD. Matching is
  unanchored: \<open>MatchString\<close> asks for a match of some substring. The flag
  \<open>(?i)\<close> compares under Go's simple case folding, in which the ASCII letters
  \<open>k\<close> and \<open>s\<close> also fold with U+212A and U+017F. \<open>^\<close> and \<open>$\<close> are the ends of
  the text, \<open>\b\<close> is the ASCII word boundary.
\<close>

section \<open>Runes\<close>

definition cont_byte :: "char \<Rightarrow> bool" where
  "cont_byte c \<longleftrightarrow> 128 \<le> (of_char c :: nat) \<and> (of_char c :: nat) < 192"

definition low6 :: "char \<Rightarrow> nat" where
  "low6 c = of_char c mod 64"

text \<open>\<open>utf8.DecodeRune\<close>: the rune at the front and the rest. Overlong forms, surrogates
  and values above U+10FFFF are invalid and consume one byte.\<close>

fun decode_rune :: "char \<Rightarrow> string \<Rightarrow> nat \<times> string" where
  "decode_rune c cs =
     (let b = of_char c :: nat in
      if b < 128 then (b, cs)
      else if 194 \<le> b \<and> b < 224 then
        (case cs of
           c1 # r \<Rightarrow> if cont_byte c1 then ((b mod 32) * 64 + low6 c1, r) else (65533, cs)
         | _ \<Rightarrow> (65533, cs))
      else if 224 \<le> b \<and> b < 240 then
        (case cs of
           c1 # c2 # r \<Rightarrow>
             (let v = (b mod 16) * 4096 + low6 c1 * 64 + low6 c2 in
              if cont_byte c1 \<and> cont_byte c2 \<and> 2048 \<le> v \<and> \<not> (55296 \<le> v \<and> v < 57344)
              then (v, r) else (65533, cs))
         | _ \<Rightarrow> (65533, cs))
      else if 240 \<le> b \<and> b < 245 then
        (case cs of
           c1 # c2 # c3 # r \<Rightarrow>
             (let v = (b mod 8) * 262144 + low6 c1 * 4096 + low6 c2 * 64 + low6 c3 in
              if cont_byte c1 \<and> cont_byte c2 \<and> cont_byte c3 \<and> 65536 \<le> v \<and> v < 1114112
              then (v, r) else (65533, cs))
         | _ \<Rightarrow> (65533, cs))
      else (65533, cs))"

declare decode_rune.simps [simp del]

lemma decode_rune_shrinks: "length (snd (decode_rune c cs)) \<le> length cs"
  by (simp add: decode_rune.simps Let_def split: list.split)

lemma decode_rune_rest: "decode_rune c cs = (r, rest) \<Longrightarrow> length rest \<le> length cs"
  using decode_rune_shrinks[of c cs] by simp

function runes :: "string \<Rightarrow> nat list" where
  "runes [] = []"
| "runes (c # cs) = (case decode_rune c cs of (r, rest) \<Rightarrow> r # runes rest)"
  by pat_completeness auto
termination
  by (relation "measure length") (auto simp: less_Suc_eq_le dest!: sym[of "(_, _)"] decode_rune_rest)

section \<open>Syntax\<close>

datatype cls_item = CChar char | CRange char char

datatype re =
    Eps | Lit char | Esc char | Any | Cls "cls_item list" | Perl char
  | WordB | Bol | Eol | Grp re | Seq re re | Alt re re
  | Star re | Plus re | Opt re | Rep re nat | RepMin re nat

record regexp =
  fold_case :: bool
  body :: re

fun seqs :: "re list \<Rightarrow> re" where
  "seqs [] = Eps"
| "seqs [r] = r"
| "seqs (r # s # rs) = Seq r (seqs (s # rs))"

fun alts :: "re list \<Rightarrow> re" where
  "alts [] = Eps"
| "alts [r] = r"
| "alts (r # s # rs) = Alt r (alts (s # rs))"

text \<open>A run of literal characters.\<close>

definition Str :: "string \<Rightarrow> re" where
  "Str s = seqs (map Lit s)"

fun cls_show :: "cls_item \<Rightarrow> string" where
  "cls_show (CChar c) = [c]"
| "cls_show (CRange a b) = [a, CHR ''-'', b]"

primrec re_show :: "re \<Rightarrow> string" where
  "re_show Eps = []"
| "re_show (Lit c) = [c]"
| "re_show (Esc c) = [CHR 0x5C, c]"
| "re_show Any = ''.''"
| "re_show (Cls is) = ''['' @ concat (map cls_show is) @ '']''"
| "re_show (Perl c) = [CHR 0x5C, c]"
| "re_show WordB = [CHR 0x5C, CHR ''b'']"
| "re_show Bol = ''^''"
| "re_show Eol = ''$''"
| "re_show (Grp r) = ''('' @ re_show r @ '')''"
| "re_show (Seq r s) = re_show r @ re_show s"
| "re_show (Alt r s) = re_show r @ ''|'' @ re_show s"
| "re_show (Star r) = re_show r @ ''*''"
| "re_show (Plus r) = re_show r @ ''+''"
| "re_show (Opt r) = re_show r @ ''?''"
| "re_show (Rep r n) = re_show r @ ''{'' @ decimal_nat n @ ''}''"
| "re_show (RepMin r n) = re_show r @ ''{'' @ decimal_nat n @ '',}''"

definition regexp_String :: "regexp \<Rightarrow> string" where
  "regexp_String p = (if fold_case p then ''(?i)'' else []) @ re_show (body p)"

section \<open>Rune classes\<close>

text \<open>The orbit of a rune under simple folding, for the runes an ASCII class can reach.\<close>

definition fold_orbit :: "nat \<Rightarrow> nat list" where
  "fold_orbit r =
     (if r = 8490 then [8490, 75, 107]
      else if r = 383 then [383, 83, 115]
      else if 65 \<le> r \<and> r \<le> 90 then [r, r + 32]
      else if 97 \<le> r \<and> r \<le> 122 then [r, r - 32]
      else [r])"

fun in_item :: "nat \<Rightarrow> cls_item \<Rightarrow> bool" where
  "in_item r (CChar c) \<longleftrightarrow> r = of_char c"
| "in_item r (CRange a b) \<longleftrightarrow> of_char a \<le> r \<and> r \<le> of_char b"

definition in_class :: "bool \<Rightarrow> cls_item list \<Rightarrow> nat \<Rightarrow> bool" where
  "in_class f is r \<longleftrightarrow>
     list_ex (\<lambda>x. list_ex (in_item x) is) (if f then fold_orbit r else [r])"

definition space_items :: "cls_item list" where
  "space_items = [CRange (CHR 0x09) (CHR 0x0A), CRange (CHR 0x0C) (CHR 0x0D), CChar (CHR '' '')]"

definition word_items :: "cls_item list" where
  "word_items = [CRange (CHR ''0'') (CHR ''9''), CRange (CHR ''A'') (CHR ''Z''), CChar (CHR ''_''),
     CRange (CHR ''a'') (CHR ''z'')]"

definition digit_items :: "cls_item list" where
  "digit_items = [CRange (CHR ''0'') (CHR ''9'')]"

definition perl_matches :: "bool \<Rightarrow> char \<Rightarrow> nat \<Rightarrow> bool" where
  "perl_matches f c r =
     (if c = CHR ''s'' then in_class f space_items r
      else if c = CHR ''S'' then \<not> in_class f space_items r
      else if c = CHR ''w'' then in_class f word_items r
      else if c = CHR ''W'' then \<not> in_class f word_items r
      else if c = CHR ''d'' then in_class f digit_items r
      else if c = CHR ''D'' then \<not> in_class f digit_items r
      else False)"

text \<open>The runes a one-rune expression accepts; \<open>None\<close> for the other expressions.\<close>

fun step_class :: "bool \<Rightarrow> re \<Rightarrow> (nat \<Rightarrow> bool) option" where
  "step_class f (Lit c) = Some (in_class f [CChar c])"
| "step_class f (Esc c) = Some (in_class f [CChar c])"
| "step_class f Any = Some (\<lambda>r. r \<noteq> 10)"
| "step_class f (Cls is) = Some (in_class f is)"
| "step_class f (Perl c) = Some (perl_matches f c)"
| "step_class f _ = None"

definition is_word_rune :: "nat \<Rightarrow> bool" where
  "is_word_rune r = in_class False word_items r"

definition word_at :: "nat list \<Rightarrow> nat \<Rightarrow> bool" where
  "word_at w i \<longleftrightarrow> i < length w \<and> is_word_rune (w ! i)"

definition word_boundary :: "nat list \<Rightarrow> nat \<Rightarrow> bool" where
  "word_boundary w i \<longleftrightarrow> (0 < i \<and> word_at w (i - 1)) \<noteq> word_at w i"

section \<open>Matching\<close>

text \<open>The reference semantics: \<open>rmatch f w r i j\<close> holds when \<open>r\<close> matches the runes of
  \<open>w\<close> from position \<open>i\<close> up to position \<open>j\<close>.\<close>

inductive rmatch :: "bool \<Rightarrow> nat list \<Rightarrow> re \<Rightarrow> nat \<Rightarrow> nat \<Rightarrow> bool" for f w where
  Eps: "rmatch f w Eps i i"
| Step: "step_class f r = Some P \<Longrightarrow> i < length w \<Longrightarrow> P (w ! i) \<Longrightarrow> rmatch f w r i (Suc i)"
| WordB: "word_boundary w i \<Longrightarrow> rmatch f w WordB i i"
| Bol: "i = 0 \<Longrightarrow> rmatch f w Bol i i"
| Eol: "i = length w \<Longrightarrow> rmatch f w Eol i i"
| Grp: "rmatch f w r i j \<Longrightarrow> rmatch f w (Grp r) i j"
| Seq: "rmatch f w r i j \<Longrightarrow> rmatch f w s j k \<Longrightarrow> rmatch f w (Seq r s) i k"
| AltL: "rmatch f w r i j \<Longrightarrow> rmatch f w (Alt r s) i j"
| AltR: "rmatch f w s i j \<Longrightarrow> rmatch f w (Alt r s) i j"
| Star0: "rmatch f w (Star r) i i"
| StarS: "rmatch f w r i j \<Longrightarrow> rmatch f w (Star r) j k \<Longrightarrow> rmatch f w (Star r) i k"
| Plus: "rmatch f w r i j \<Longrightarrow> rmatch f w (Star r) j k \<Longrightarrow> rmatch f w (Plus r) i k"
| Opt0: "rmatch f w (Opt r) i i"
| Opt1: "rmatch f w r i j \<Longrightarrow> rmatch f w (Opt r) i j"
| Rep0: "rmatch f w (Rep r 0) i i"
| RepS: "rmatch f w r i j \<Longrightarrow> rmatch f w (Rep r n) j k \<Longrightarrow> rmatch f w (Rep r (Suc n)) i k"
| RepMin: "rmatch f w (Rep r n) i j \<Longrightarrow> rmatch f w (Star r) j k \<Longrightarrow> rmatch f w (RepMin r n) i k"

text \<open>The executable matcher computes the end positions of the matches that start at a
  position. The iteration of a starred expression is a closure over positions; a closure
  grows at most once per position of the text, which bounds the rounds.\<close>

fun closure :: "('a \<Rightarrow> 'a list) \<Rightarrow> nat \<Rightarrow> 'a list \<Rightarrow> 'a list" where
  "closure g 0 S = S"
| "closure g (Suc n) S = closure g n (remdups (S @ concat (map g S)))"

fun iterate_ends :: "('a \<Rightarrow> 'a list) \<Rightarrow> nat \<Rightarrow> 'a list \<Rightarrow> 'a list" where
  "iterate_ends g 0 S = S"
| "iterate_ends g (Suc n) S = iterate_ends g n (remdups (concat (map g S)))"

primrec ends :: "bool \<Rightarrow> nat list \<Rightarrow> re \<Rightarrow> nat \<Rightarrow> nat list" where
  "ends f w Eps i = [i]"
| "ends f w (Lit c) i = (if i < length w \<and> in_class f [CChar c] (w ! i) then [Suc i] else [])"
| "ends f w (Esc c) i = (if i < length w \<and> in_class f [CChar c] (w ! i) then [Suc i] else [])"
| "ends f w Any i = (if i < length w \<and> w ! i \<noteq> 10 then [Suc i] else [])"
| "ends f w (Cls is) i = (if i < length w \<and> in_class f is (w ! i) then [Suc i] else [])"
| "ends f w (Perl c) i = (if i < length w \<and> perl_matches f c (w ! i) then [Suc i] else [])"
| "ends f w WordB i = (if word_boundary w i then [i] else [])"
| "ends f w Bol i = (if i = 0 then [i] else [])"
| "ends f w Eol i = (if i = length w then [i] else [])"
| "ends f w (Grp r) i = ends f w r i"
| "ends f w (Seq r s) i = remdups (concat (map (ends f w s) (ends f w r i)))"
| "ends f w (Alt r s) i = remdups (ends f w r i @ ends f w s i)"
| "ends f w (Star r) i = closure (ends f w r) (length w) [i]"
| "ends f w (Plus r) i = closure (ends f w r) (length w) (ends f w r i)"
| "ends f w (Opt r) i = remdups (i # ends f w r i)"
| "ends f w (Rep r n) i = iterate_ends (ends f w r) n [i]"
| "ends f w (RepMin r n) i = closure (ends f w r) (length w) (iterate_ends (ends f w r) n [i])"

definition matches_runes :: "regexp \<Rightarrow> nat list \<Rightarrow> bool" where
  "matches_runes p w \<longleftrightarrow> list_ex (\<lambda>i. ends (fold_case p) w (body p) i \<noteq> []) [0..<Suc (length w)]"

definition MatchString :: "regexp \<Rightarrow> string \<Rightarrow> bool" where
  "MatchString p s = matches_runes p (runes s)"

section \<open>The matcher implements the reference semantics\<close>

inductive_cases rmatch_EpsE [elim!]: "rmatch f w Eps i j"
inductive_cases rmatch_GrpE [elim!]: "rmatch f w (Grp r) i j"
inductive_cases rmatch_SeqE [elim!]: "rmatch f w (Seq r s) i j"
inductive_cases rmatch_AltE [elim!]: "rmatch f w (Alt r s) i j"
inductive_cases rmatch_PlusE [elim!]: "rmatch f w (Plus r) i j"
inductive_cases rmatch_OptE [elim!]: "rmatch f w (Opt r) i j"
inductive_cases rmatch_RepMinE [elim!]: "rmatch f w (RepMin r n) i j"
inductive_simps rmatch_leaf_simps:
  "rmatch f w (Lit c) i j" "rmatch f w (Esc c) i j" "rmatch f w Any i j" "rmatch f w (Cls is) i j"
  "rmatch f w (Perl c) i j" "rmatch f w WordB i j" "rmatch f w Bol i j" "rmatch f w Eol i j"
inductive_simps rmatch_Rep_simps: "rmatch f w (Rep r 0) i j" "rmatch f w (Rep r (Suc n)) i j"

lemma rmatch_range: "rmatch f w r i j \<Longrightarrow> i \<le> length w \<Longrightarrow> i \<le> j \<and> j \<le> length w"
  by (induction rule: rmatch.induct) auto

lemma rmatch_Star_iff: "rmatch f w (Star r) i j \<longleftrightarrow> (rmatch f w r)\<^sup>*\<^sup>* i j"
proof
  have "rmatch f w q i j \<Longrightarrow> q = Star r \<Longrightarrow> (rmatch f w r)\<^sup>*\<^sup>* i j" for q
    by (induction rule: rmatch.induct) (auto intro: converse_rtranclp_into_rtranclp)
  then show "rmatch f w (Star r) i j \<Longrightarrow> (rmatch f w r)\<^sup>*\<^sup>* i j" by simp
  show "(rmatch f w r)\<^sup>*\<^sup>* i j \<Longrightarrow> rmatch f w (Star r) i j"
    by (induction rule: converse_rtranclp_induct) (auto intro: rmatch.Star0 rmatch.StarS)
qed

lemma rmatch_Rep_iff: "rmatch f w (Rep r n) i j \<longleftrightarrow> (rmatch f w r ^^ n) i j"
proof (induction n arbitrary: i)
  case (Suc n)
  have "rmatch f w (Rep r (Suc n)) i j \<longleftrightarrow> (\<exists>k. rmatch f w r i k \<and> (rmatch f w r ^^ n) k j)"
    by (simp add: rmatch_Rep_simps Suc)
  also have "\<dots> \<longleftrightarrow> (rmatch f w r ^^ Suc n) i j"
    by (metis relpowp_Suc_D2 relpowp_Suc_I2)
  finally show ?case .
qed (auto simp: rmatch_Rep_simps)

abbreviation succs :: "('a \<Rightarrow> 'a list) \<Rightarrow> 'a \<Rightarrow> 'a \<Rightarrow> bool" where
  "succs g a b \<equiv> b \<in> set (g a)"

lemma set_closure: "x \<in> set (closure g n S) \<longleftrightarrow> (\<exists>s\<in>set S. \<exists>k\<le>n. (succs g ^^ k) s x)"
proof (induction n arbitrary: S)
  case (Suc n)
  have "x \<in> set (closure g (Suc n) S) \<longleftrightarrow>
      (\<exists>s\<in>set S. (\<exists>k\<le>n. (succs g ^^ k) s x) \<or> (\<exists>t\<in>set (g s). \<exists>k\<le>n. (succs g ^^ k) t x))"
    by (simp add: Suc) blast
  also have "\<dots> \<longleftrightarrow> (\<exists>s\<in>set S. \<exists>k\<le>Suc n. (succs g ^^ k) s x)"
  proof (intro bex_cong refl iffI)
    fix s
    assume "(\<exists>k\<le>n. (succs g ^^ k) s x) \<or> (\<exists>t\<in>set (g s). \<exists>k\<le>n. (succs g ^^ k) t x)"
    then show "\<exists>k\<le>Suc n. (succs g ^^ k) s x"
      by (meson Suc_le_mono le_SucI relpowp_Suc_I2)
  next
    fix s
    assume "\<exists>k\<le>Suc n. (succs g ^^ k) s x"
    then obtain k where k: "k \<le> Suc n" "(succs g ^^ k) s x" by blast
    show "(\<exists>k\<le>n. (succs g ^^ k) s x) \<or> (\<exists>t\<in>set (g s). \<exists>k\<le>n. (succs g ^^ k) t x)"
    proof (cases k)
      case 0
      with k show ?thesis by auto
    next
      case (Suc m)
      with k show ?thesis by (meson Suc_le_mono relpowp_Suc_D2)
    qed
  qed
  finally show ?case .
qed simp

lemma set_iterate_ends: "x \<in> set (iterate_ends g n S) \<longleftrightarrow> (\<exists>s\<in>set S. (succs g ^^ n) s x)"
proof (induction n arbitrary: S)
  case (Suc n)
  have "x \<in> set (iterate_ends g (Suc n) S) \<longleftrightarrow> (\<exists>s\<in>set S. \<exists>t\<in>set (g s). (succs g ^^ n) t x)"
    by (simp add: Suc) 
  also have "\<dots> \<longleftrightarrow> (\<exists>s\<in>set S. (succs g ^^ Suc n) s x)"
    by (meson relpowp_Suc_D2 relpowp_Suc_I2)
  finally show ?case .
qed simp

text \<open>A relation that only moves forward within the text is exhausted in as many steps as
  there are positions.\<close>

lemma forward_steps_bounded:
  fixes R :: "nat \<Rightarrow> nat \<Rightarrow> bool"
  assumes fwd: "\<And>a b. a \<le> N \<Longrightarrow> R a b \<Longrightarrow> a \<le> b \<and> b \<le> N"
    and "R\<^sup>*\<^sup>* i x" and "i \<le> N"
  shows "\<exists>k\<le>N - i. (R ^^ k) i x"
  using assms(2,3)
proof (induction rule: converse_rtranclp_induct)
  case base
  then show ?case by (intro exI[of _ 0]) simp
next
  case (step a b)
  have ab: "a \<le> b" "b \<le> N" using fwd[OF step.prems step.hyps(1)] by auto
  obtain k where k: "k \<le> N - b" "(R ^^ k) b x" using step.IH[OF ab(2)] by blast
  show ?case
  proof (cases "a = b")
    case True
    with k show ?thesis by blast
  next
    case False
    with ab k have "Suc k \<le> N - a" by simp
    moreover have "(R ^^ Suc k) a x" using step.hyps(1) k(2) by (rule relpowp_Suc_I2)
    ultimately show ?thesis by blast
  qed
qed

lemma relpowp_agree:
  fixes R Q :: "nat \<Rightarrow> nat \<Rightarrow> bool"
  assumes agree: "\<And>a b. a \<le> N \<Longrightarrow> R a b = Q a b" and closed: "\<And>a b. a \<le> N \<Longrightarrow> Q a b \<Longrightarrow> b \<le> N"
    and "i \<le> N"
  shows "(R ^^ k) i x = (Q ^^ k) i x"
  using assms(3)
proof (induction k arbitrary: i)
  case (Suc k)
  have "(R ^^ Suc k) i x \<longleftrightarrow> (\<exists>b. R i b \<and> (R ^^ k) b x)"
    by (metis relpowp_Suc_D2 relpowp_Suc_I2)
  also have "\<dots> \<longleftrightarrow> (\<exists>b. Q i b \<and> (Q ^^ k) b x)"
    using Suc agree closed by metis
  also have "\<dots> \<longleftrightarrow> (Q ^^ Suc k) i x"
    by (metis relpowp_Suc_D2 relpowp_Suc_I2)
  finally show ?case .
qed simp

lemma closure_ends_iff:
  assumes IH: "\<And>i j. i \<le> length w \<Longrightarrow> j \<in> set (ends f w r i) \<longleftrightarrow> rmatch f w r i j"
    and S: "\<And>s. s \<in> set S \<Longrightarrow> s \<le> length w"
  shows "x \<in> set (closure (ends f w r) (length w) S) \<longleftrightarrow> (\<exists>s\<in>set S. rmatch f w (Star r) s x)"
proof -
  have fwd: "a \<le> length w \<Longrightarrow> rmatch f w r a b \<Longrightarrow> a \<le> b \<and> b \<le> length w" for a b
    by (rule rmatch_range)
  have "(\<exists>k\<le>length w. (succs (ends f w r) ^^ k) s x) \<longleftrightarrow> rmatch f w (Star r) s x" if "s \<in> set S" for s
  proof -
    have s: "s \<le> length w" using S that by blast
    have "(succs (ends f w r) ^^ k) s x = (rmatch f w r ^^ k) s x" for k
      using IH conjunct2[OF fwd] s by (rule relpowp_agree)
    moreover have "(\<exists>k\<le>length w. (rmatch f w r ^^ k) s x) \<longleftrightarrow> (rmatch f w r)\<^sup>*\<^sup>* s x"
    proof
      assume "(rmatch f w r)\<^sup>*\<^sup>* s x"
      from forward_steps_bounded[OF fwd this s]
      have "\<exists>k\<le>length w - s. (rmatch f w r ^^ k) s x" .
      then show "\<exists>k\<le>length w. (rmatch f w r ^^ k) s x"
        using diff_le_self le_trans by blast
    qed (auto intro: relpowp_imp_rtranclp)
    ultimately show ?thesis by (simp add: rmatch_Star_iff)
  qed
  then show ?thesis unfolding set_closure by blast
qed

lemma iterate_ends_iff:
  assumes IH: "\<And>i j. i \<le> length w \<Longrightarrow> j \<in> set (ends f w r i) \<longleftrightarrow> rmatch f w r i j"
    and i: "i \<le> length w"
  shows "x \<in> set (iterate_ends (ends f w r) n [i]) \<longleftrightarrow> rmatch f w (Rep r n) i x"
proof -
  have "(succs (ends f w r) ^^ n) i x = (rmatch f w r ^^ n) i x"
    using IH conjunct2[OF rmatch_range] i by (rule relpowp_agree)
  then show ?thesis by (simp add: set_iterate_ends rmatch_Rep_iff)
qed

text \<open>The end positions the matcher computes are exactly those of the reference
  semantics.\<close>

lemma ends_iff: "i \<le> length w \<Longrightarrow> j \<in> set (ends f w r i) \<longleftrightarrow> rmatch f w r i j"
proof (induction r arbitrary: i j)
  case (Seq r s)
  have "j \<in> set (ends f w (Seq r s) i) \<longleftrightarrow> (\<exists>k. rmatch f w r i k \<and> j \<in> set (ends f w s k))"
    using Seq.IH(1)[OF Seq.prems] by auto
  also have "\<dots> \<longleftrightarrow> (\<exists>k. rmatch f w r i k \<and> rmatch f w s k j)"
    using Seq.IH(2) rmatch_range[OF _ Seq.prems] by blast
  also have "\<dots> \<longleftrightarrow> rmatch f w (Seq r s) i j"
    by (auto intro: rmatch.Seq)
  finally show ?case .
next
  case (Alt r s)
  then show ?case by (auto intro: rmatch.AltL rmatch.AltR)
next
  case (Star r)
  then show ?case using closure_ends_iff[of w f r "[i]" j] by simp
next
  case (Plus r)
  have "s \<le> length w" if "s \<in> set (ends f w r i)" for s
    using that Plus rmatch_range by blast
  then have "j \<in> set (ends f w (Plus r) i) \<longleftrightarrow> (\<exists>s\<in>set (ends f w r i). rmatch f w (Star r) s j)"
    using closure_ends_iff[of w f r "ends f w r i" j] Plus.IH by simp
  with Plus show ?case by (auto intro: rmatch.Plus)
next
  case (RepMin r n)
  have it: "s \<in> set (iterate_ends (ends f w r) n [i]) \<longleftrightarrow> rmatch f w (Rep r n) i s" for s
    using RepMin by (intro iterate_ends_iff) auto
  have "s \<le> length w" if "s \<in> set (iterate_ends (ends f w r) n [i])" for s
    using that RepMin.prems rmatch_range unfolding it by blast
  then have "j \<in> set (ends f w (RepMin r n) i) \<longleftrightarrow>
      (\<exists>s\<in>set (iterate_ends (ends f w r) n [i]). rmatch f w (Star r) s j)"
    using closure_ends_iff[of w f r "iterate_ends (ends f w r) n [i]" j] RepMin.IH by simp
  then show ?case by (auto simp: it intro: rmatch.RepMin)
next
  case (Rep r n)
  then show ?case by (simp add: iterate_ends_iff)
next
  case (Opt r)
  then show ?case by (auto intro: rmatch.Opt0 rmatch.Opt1)
next
  case (Grp r)
  then show ?case by (auto intro: rmatch.Grp)
qed (auto simp: rmatch_leaf_simps intro: rmatch.Eps)

text \<open>The executable matcher decides regular-expression matching: \<open>MatchString\<close>
  accepts a string exactly when some stretch of its runes matches the expression under the
  inductively defined matching relation, for every expression, nested repetitions and empty
  iterations included.\<close>

theorem MatchString_correct:
  "MatchString p s \<longleftrightarrow>
     (\<exists>i j. i \<le> length (runes s) \<and> rmatch (fold_case p) (runes s) (body p) i j)"
proof -
  have ne: "ends f w r i \<noteq> [] \<longleftrightarrow> (\<exists>j. rmatch f w r i j)" if "i \<le> length w" for f w r i
  proof -
    have "ends f w r i \<noteq> [] \<longleftrightarrow> (\<exists>j. j \<in> set (ends f w r i))" by (cases "ends f w r i") auto
    then show ?thesis by (simp only: ends_iff[OF that])
  qed
  have "MatchString p s \<longleftrightarrow>
      (\<exists>i\<le>length (runes s). ends (fold_case p) (runes s) (body p) i \<noteq> [])"
    unfolding MatchString_def matches_runes_def list_ex_iff set_upt Bex_def atLeastLessThan_iff
    by (simp only: less_Suc_eq_le le0 simp_thms)
  also have "\<dots> \<longleftrightarrow> (\<exists>i\<le>length (runes s). \<exists>j. rmatch (fold_case p) (runes s) (body p) i j)"
    by (simp only: ne cong: conj_cong)
  finally show ?thesis by simp
qed

end
