(* ===== verification/Doctrine_Table.thy ===== *)
theory Doctrine_Table
  imports Regexp
begin

text \<open>
  The built-in detectors of \<open>l1_doctrine.go\<close> (\<open>initializeInputThreatDetectors\<close>),
  one entry per detector in source order. A confidence is the text
  \<open>strconv.FormatFloat(c, 'g', -1, 64)\<close> gives for it, which is the only use made of
  it. \<open>builtin_patterns\<close> lists the pattern texts as written in the source, with a
  tilde for the backslash and a backquote for the single quote; the syntax trees of the
  table print to these texts.
\<close>

type_synonym ThreatCategory = string
type_synonym ThreatSeverity = string

abbreviation ThreatSeverityCritical :: ThreatSeverity where "ThreatSeverityCritical \<equiv> ''critical''"
abbreviation ThreatSeverityHigh :: ThreatSeverity where "ThreatSeverityHigh \<equiv> ''high''"
abbreviation ThreatSeverityMedium :: ThreatSeverity where "ThreatSeverityMedium \<equiv> ''medium''"
abbreviation ThreatSeverityLow :: ThreatSeverity where "ThreatSeverityLow \<equiv> ''low''"
abbreviation ThreatSeverityInfo :: ThreatSeverity where "ThreatSeverityInfo \<equiv> ''info''"
abbreviation ThreatCategoryReverseShell :: ThreatCategory where "ThreatCategoryReverseShell \<equiv> ''reverse_shell''"
abbreviation ThreatCategoryPrivilegeEsc :: ThreatCategory where "ThreatCategoryPrivilegeEsc \<equiv> ''privilege_escalation''"
abbreviation ThreatCategoryCredentialAccess :: ThreatCategory where "ThreatCategoryCredentialAccess \<equiv> ''credential_access''"
abbreviation ThreatCategoryExfiltration :: ThreatCategory where "ThreatCategoryExfiltration \<equiv> ''data_exfiltration''"
abbreviation ThreatCategoryCryptominer :: ThreatCategory where "ThreatCategoryCryptominer \<equiv> ''cryptominer''"
abbreviation ThreatCategoryPersistence :: ThreatCategory where "ThreatCategoryPersistence \<equiv> ''persistence''"
abbreviation ThreatCategoryLateralMovement :: ThreatCategory where "ThreatCategoryLateralMovement \<equiv> ''lateral_movement''"
abbreviation ThreatCategoryDefenseEvasion :: ThreatCategory where "ThreatCategoryDefenseEvasion \<equiv> ''defense_evasion''"
abbreviation ThreatCategoryReconnaissance :: ThreatCategory where "ThreatCategoryReconnaissance \<equiv> ''reconnaissance''"
abbreviation ThreatCategoryResourceHijacking :: ThreatCategory where "ThreatCategoryResourceHijacking \<equiv> ''resource_hijacking''"
abbreviation ThreatCategoryDestructive :: ThreatCategory where "ThreatCategoryDestructive \<equiv> ''destructive''"
abbreviation ThreatCategorySystemTampering :: ThreatCategory where "ThreatCategorySystemTampering \<equiv> ''system_tampering''"
abbreviation ThreatCategorySecurityBypass :: ThreatCategory where "ThreatCategorySecurityBypass \<equiv> ''security_bypass''"
abbreviation ThreatCategoryMalwareDeployment :: ThreatCategory where "ThreatCategoryMalwareDeployment \<equiv> ''malware_deployment''"
abbreviation ThreatCategoryDataDestruction :: ThreatCategory where "ThreatCategoryDataDestruction \<equiv> ''data_destruction''"
abbreviation ThreatCategoryNetworkManipulation :: ThreatCategory where "ThreatCategoryNetworkManipulation \<equiv> ''network_manipulation''"
abbreviation ThreatCategoryCustom :: ThreatCategory where "ThreatCategoryCustom \<equiv> ''custom''"

record InputThreatDetector =
  detName :: string
  pattern :: regexp
  category :: ThreatCategory
  severity :: ThreatSeverity
  confidence :: string
  mitreAttack :: string
  mitreTactic :: string
  recommendation :: string
  blockRecommended :: bool
  detSource :: string
  ksiIDs :: "string list"
  controlIDs :: "string list"
  overlayIDs :: "string list"

text \<open>A built-in entry: blocking recommended, no source and no compliance identifiers.\<close>

definition builtin ::
  "string \<Rightarrow> regexp \<Rightarrow> ThreatCategory \<Rightarrow> ThreatSeverity \<Rightarrow> string \<Rightarrow> string \<Rightarrow> string \<Rightarrow> string \<Rightarrow>
   InputThreatDetector" where
  "builtin n p c s conf attack tactic rec =
     \<lparr>detName = n, pattern = p, category = c, severity = s, confidence = conf,
      mitreAttack = attack, mitreTactic = tactic, recommendation = rec,
      blockRecommended = True, detSource = [], ksiIDs = [], controlIDs = [], overlayIDs = []\<rparr>"

abbreviation ws :: re where "ws \<equiv> Perl (CHR ''s'')"

section \<open>The table\<close>

definition builtin_detectors_1 :: "InputThreatDetector list" where
  "builtin_detectors_1 = [
    builtin ''destroy_rm_rf_root''
      \<lparr>fold_case = True, body = alts [seqs [WordB, Str ''rm'', Plus ws,
        Star (Grp (seqs [Lit (CHR ''-''), Plus (Cls [CChar (CHR ''r''), CChar (CHR ''R''),
        CChar (CHR ''f'')]), Plus ws])), Star (Lit (CHR ''/'')), Star ws, Eol], seqs [WordB,
        Str ''rm'', Plus ws, Star (Grp (seqs [Lit (CHR ''-''), Plus (Cls [CChar (CHR ''r''),
        CChar (CHR ''R''), CChar (CHR ''f'')]), Plus ws])), Lit (CHR ''/''), ws], seqs [WordB,
        Str ''rm'', Plus ws, Lit (CHR ''-''), Star (Cls [CChar (CHR ''r''), CChar (CHR ''R''),
        CChar (CHR ''f'')]), Plus ws, Lit (CHR ''/''), ws]]\<rparr>
      ThreatCategoryDataDestruction ThreatSeverityCritical ''0.99''
      ''T1485'' ''Impact''
      ''BLOCK: Attempted deletion of root filesystem'',
    builtin ''destroy_rm_rf_system_dirs''
      \<lparr>fold_case = True, body = seqs [WordB, Str ''rm'', Plus ws,
        Star (Grp (seqs [Lit (CHR ''-''), Plus (Cls [CChar (CHR ''r''), CChar (CHR ''R''),
        CChar (CHR ''f'')]), Plus ws])), Lit (CHR ''/''), Grp (alts [Str ''bin'', Str ''boot'',
        Str ''dev'', Str ''etc'', Str ''lib'', Str ''lib64'', Str ''opt'', Str ''proc'',
        Str ''root'', Str ''run'', Str ''sbin'', Str ''srv'', Str ''sys'', Str ''usr'',
        Str ''var'']), WordB]\<rparr>
      ThreatCategoryDataDestruction ThreatSeverityCritical ''0.98''
      ''T1485'' ''Impact''
      ''BLOCK: Attempted deletion of critical system directory'',
    builtin ''destroy_dd_disk''
      \<lparr>fold_case = True, body = seqs [WordB, Str ''dd'', Plus ws, Star Any,
        Str ''of=/dev/'', Grp (alts [seqs [Str ''sd'', Cls [CRange (CHR ''a'') (CHR ''z'')]],
        seqs [Str ''hd'', Cls [CRange (CHR ''a'') (CHR ''z'')]], seqs [Str ''nvme'',
        Cls [CRange (CHR ''0'') (CHR ''9'')], Lit (CHR ''n''),
        Cls [CRange (CHR ''0'') (CHR ''9'')]], seqs [Str ''vd'',
        Cls [CRange (CHR ''a'') (CHR ''z'')]], seqs [Str ''xvd'',
        Cls [CRange (CHR ''a'') (CHR ''z'')]]]), Grp (alts [ws, Eol])]\<rparr>
      ThreatCategoryDataDestruction ThreatSeverityCritical ''0.95''
      ''T1561.001'' ''Impact''
      ''BLOCK: Attempted raw disk write - will destroy data'',
    builtin ''destroy_mkfs''
      \<lparr>fold_case = True, body = seqs [WordB, Str ''mkfs'',
        Opt (Grp (seqs [Esc (CHR ''.''), Plus (Cls [CRange (CHR ''a'') (CHR ''z''),
        CRange (CHR ''0'') (CHR ''9'')])])), Plus ws, Str ''/dev/'']\<rparr>
      ThreatCategoryDataDestruction ThreatSeverityCritical ''0.95''
      ''T1561.001'' ''Impact''
      ''BLOCK: Attempted filesystem format - will destroy all data'',
    builtin ''destroy_shred_device''
      \<lparr>fold_case = True, body = seqs [WordB, Str ''shred'', Plus ws, Star Any,
        Grp (alts [Str ''/dev/sd'', Str ''/dev/hd'', Str ''/dev/nvme'', Str ''/dev/vd'',
        Str ''/dev/xvd''])]\<rparr>
      ThreatCategoryDataDestruction ThreatSeverityCritical ''0.98''
      ''T1485'' ''Impact''
      ''BLOCK: Attempted secure wipe of storage device'',
    builtin ''destroy_wipefs''
      \<lparr>fold_case = True, body = seqs [WordB, Str ''wipefs'', Plus ws,
        Opt (Grp (seqs [Str ''-a'', Plus ws])), Str ''/dev/'']\<rparr>
      ThreatCategoryDataDestruction ThreatSeverityCritical ''0.95''
      ''T1561.001'' ''Impact''
      ''BLOCK: Attempted filesystem signature wipe'',
    builtin ''destroy_fdisk''
      \<lparr>fold_case = True, body = seqs [WordB, Grp (alts [Str ''fdisk'', Str ''gdisk'',
        Str ''parted'', Str ''sfdisk'']), Plus ws, Str ''/dev/'']\<rparr>
      ThreatCategoryDataDestruction ThreatSeverityCritical ''0.9''
      ''T1561.001'' ''Impact''
      ''BLOCK: Attempted partition table modification'',
    builtin ''tamper_passwd_shadow''
      \<lparr>fold_case = True, body = seqs [Grp (alts [Str ''echo'', Str ''cat'',
        Str ''printf'', Str ''tee'']), Plus ws, Star Any, Plus (Lit (CHR ''>'')), Star ws,
        Str ''/etc/'', Grp (alts [Str ''passwd'', Str ''shadow'', Str ''group'',
        Str ''gshadow''])]\<rparr>
      ThreatCategorySystemTampering ThreatSeverityCritical ''0.95''
      ''T1136.001'' ''Persistence''
      ''BLOCK: Attempted modification of authentication files'',
    builtin ''tamper_sudoers''
      \<lparr>fold_case = True, body = seqs [Grp (alts [Str ''echo'', Str ''cat'',
        Str ''printf'', Str ''tee'']), Plus ws, Star Any, Plus (Lit (CHR ''>'')), Star ws,
        Str ''/etc/sudoers'']\<rparr>
      ThreatCategorySystemTampering ThreatSeverityCritical ''0.98''
      ''T1548.003'' ''Privilege Escalation''
      ''BLOCK: Attempted modification of sudoers'',
    builtin ''tamper_pam''
      \<lparr>fold_case = True, body = seqs [Grp (alts [Str ''echo'', Str ''cat'',
        Str ''printf'', Str ''tee'']), Plus ws, Star Any, Plus (Lit (CHR ''>'')), Star ws,
        Str ''/etc/pam'', Esc (CHR ''.''), Str ''d/'']\<rparr>
      ThreatCategorySystemTampering ThreatSeverityCritical ''0.95''
      ''T1556.003'' ''Credential Access''
      ''BLOCK: Attempted modification of PAM configuration'',
    builtin ''tamper_sshd_config''
      \<lparr>fold_case = True, body = seqs [Grp (alts [Str ''echo'', Str ''cat'',
        Str ''printf'', Str ''tee'', Str ''sed'', Str ''awk'']), Plus ws, Star Any,
        Plus (Lit (CHR ''>'')), Star ws, Str ''/etc/ssh/sshd_config'']\<rparr>
      ThreatCategorySystemTampering ThreatSeverityCritical ''0.9''
      ''T1098.004'' ''Persistence''
      ''BLOCK: Attempted modification of SSH daemon config'',
    builtin ''tamper_hosts''
      \<lparr>fold_case = True, body = seqs [Grp (alts [Str ''echo'', Str ''cat'',
        Str ''printf'', Str ''tee'']), Plus ws, Star Any, Plus (Lit (CHR ''>'')), Star ws,
        Str ''/etc/hosts'']\<rparr>
      ThreatCategoryNetworkManipulation ThreatSeverityHigh ''0.85''
      ''T1565.001'' ''Impact''
      ''BLOCK: Attempted modification of /etc/hosts'',
    builtin ''tamper_resolv_conf''
      \<lparr>fold_case = True, body = seqs [Grp (alts [Str ''echo'', Str ''cat'',
        Str ''printf'', Str ''tee'']), Plus ws, Star Any, Plus (Lit (CHR ''>'')), Star ws,
        Str ''/etc/resolv'', Esc (CHR ''.''), Str ''conf'']\<rparr>
      ThreatCategoryNetworkManipulation ThreatSeverityHigh ''0.85''
      ''T1565.001'' ''Impact''
      ''BLOCK: Attempted modification of DNS configuration'']"

definition builtin_detectors_2 :: "InputThreatDetector list" where
  "builtin_detectors_2 = [
    builtin ''tamper_ld_so''
      \<lparr>fold_case = True, body = seqs [Grp (alts [Str ''echo'', Str ''cat'',
        Str ''printf'', Str ''tee'']), Plus ws, Star Any, Plus (Lit (CHR ''>'')), Star ws,
        Str ''/etc/ld'', Esc (CHR ''.''), Str ''so'', Esc (CHR ''.''), Grp (alts [Str ''conf'',
        Str ''preload''])]\<rparr>
      ThreatCategorySystemTampering ThreatSeverityCritical ''0.95''
      ''T1574.006'' ''Persistence''
      ''BLOCK: Attempted modification of dynamic linker config'',
    builtin ''bypass_disable_selinux''
      \<lparr>fold_case = True, body = alts [seqs [WordB, Str ''setenforce'', Plus ws,
        Lit (CHR ''0''), WordB], seqs [Str ''sed'', Plus ws, Star Any, Str ''SELINUX='',
        Star Any, Str ''disabled'']]\<rparr>
      ThreatCategorySecurityBypass ThreatSeverityCritical ''0.95''
      ''T1562.001'' ''Defense Evasion''
      ''BLOCK: Attempted to disable SELinux'',
    builtin ''bypass_disable_apparmor''
      \<lparr>fold_case = True, body = alts [seqs [WordB, Str ''aa-disable'', WordB],
        seqs [WordB, Str ''systemctl'', Plus ws, Grp (alts [Str ''stop'', Str ''disable'']),
        Plus ws, Str ''apparmor'']]\<rparr>
      ThreatCategorySecurityBypass ThreatSeverityCritical ''0.95''
      ''T1562.001'' ''Defense Evasion''
      ''BLOCK: Attempted to disable AppArmor'',
    builtin ''bypass_disable_firewall''
      \<lparr>fold_case = True, body = alts [seqs [WordB, Str ''systemctl'', Plus ws,
        Grp (alts [Str ''stop'', Str ''disable'']), Plus ws, Grp (alts [Str ''ufw'',
        Str ''firewalld'', Str ''iptables''])], seqs [WordB, Str ''ufw'', Plus ws,
        Str ''disable'', WordB], seqs [WordB, Str ''iptables'', Plus ws, Str ''-F'',
        WordB]]\<rparr>
      ThreatCategorySecurityBypass ThreatSeverityCritical ''0.9''
      ''T1562.004'' ''Defense Evasion''
      ''BLOCK: Attempted to disable firewall'',
    builtin ''bypass_disable_auditd''
      \<lparr>fold_case = True, body = alts [seqs [WordB, Str ''systemctl'', Plus ws,
        Grp (alts [Str ''stop'', Str ''disable'']), Plus ws, Str ''auditd''], seqs [WordB,
        Str ''auditctl'', Plus ws, Str ''-e'', Plus ws, Lit (CHR ''0''), WordB]]\<rparr>
      ThreatCategorySecurityBypass ThreatSeverityCritical ''0.95''
      ''T1562.001'' ''Defense Evasion''
      ''BLOCK: Attempted to disable audit daemon'',
    builtin ''malware_curl_bash''
      \<lparr>fold_case = True, body = seqs [WordB, Str ''curl'', Plus ws, Star Any,
        Esc (CHR ''|''), Star ws, Opt (Grp (Str ''ba'')), Str ''sh'', WordB]\<rparr>
      ThreatCategoryMalwareDeployment ThreatSeverityCritical ''0.9''
      ''T1059.004'' ''Execution''
      ''BLOCK: Piping remote content directly to shell'',
    builtin ''malware_wget_bash''
      \<lparr>fold_case = True, body = seqs [WordB, Str ''wget'', Plus ws, Star Any,
        Grp (alts [seqs [Str ''-O'', Star ws, Lit (CHR ''-'')], Str ''--output-document=-'']),
        Star Any, Esc (CHR ''|''), Star ws, Opt (Grp (Str ''ba'')), Str ''sh'', WordB]\<rparr>
      ThreatCategoryMalwareDeployment ThreatSeverityCritical ''0.9''
      ''T1059.004'' ''Execution''
      ''BLOCK: Piping remote content directly to shell'',
    builtin ''malware_eval_base64''
      \<lparr>fold_case = True, body = seqs [WordB, Str ''eval'', Plus ws, Star Any,
        Esc (CHR ''$''), Esc (CHR ''(''), Star Any, Str ''base64'', Plus ws,
        Str ''-d'']\<rparr>
      ThreatCategoryMalwareDeployment ThreatSeverityCritical ''0.95''
      ''T1027'' ''Defense Evasion''
      ''BLOCK: Executing obfuscated base64 content'',
    builtin ''malware_python_exec_remote''
      \<lparr>fold_case = True, body = seqs [WordB, Str ''python'',
        Opt (Cls [CChar (CHR ''2''), CChar (CHR ''3'')]), Plus ws, Str ''-c'', Plus ws,
        Cls [CChar (CHR 0x27), CChar (CHR 0x22)], Star Any, Str ''urllib'', Star Any,
        Str ''exec'', Star ws, Esc (CHR ''('')]\<rparr>
      ThreatCategoryMalwareDeployment ThreatSeverityCritical ''0.9''
      ''T1059.006'' ''Execution''
      ''BLOCK: Python downloading and executing remote code'',
    builtin ''revshell_bash_tcp''
      \<lparr>fold_case = True, body = seqs [WordB, Str ''bash'', Plus ws, Str ''-i'', Plus ws,
        Str ''>&'', Star ws, Str ''/dev/tcp/'']\<rparr>
      ThreatCategoryReverseShell ThreatSeverityCritical ''0.99''
      ''T1059.004'' ''Execution''
      ''BLOCK: Bash reverse shell to remote host'',
    builtin ''revshell_nc_exec''
      \<lparr>fold_case = True, body = seqs [WordB, Str ''nc'', Plus ws, Star Any, Str ''-e'',
        Plus ws, Opt (Grp (Str ''/bin/'')), Opt (Grp (Str ''ba'')), Str ''sh'']\<rparr>
      ThreatCategoryReverseShell ThreatSeverityCritical ''0.98''
      ''T1059.004'' ''Execution''
      ''BLOCK: Netcat reverse shell'',
    builtin ''revshell_ncat_exec''
      \<lparr>fold_case = True, body = seqs [WordB, Str ''ncat'', Plus ws, Star Any,
        Grp (alts [Str ''-e'', Str ''--exec'']), Plus ws, Opt (Grp (Str ''/bin/'')),
        Opt (Grp (Str ''ba'')), Str ''sh'']\<rparr>
      ThreatCategoryReverseShell ThreatSeverityCritical ''0.98''
      ''T1059.004'' ''Execution''
      ''BLOCK: Ncat reverse shell'',
    builtin ''revshell_python''
      \<lparr>fold_case = True, body = seqs [WordB, Str ''python'',
        Opt (Cls [CChar (CHR ''2''), CChar (CHR ''3'')]), Plus ws, Str ''-c'', Plus ws,
        Cls [CChar (CHR 0x27), CChar (CHR 0x22)], Str ''import'', Plus ws,
        Grp (alts [Str ''socket'', Str ''pty''])]\<rparr>
      ThreatCategoryReverseShell ThreatSeverityCritical ''0.95''
      ''T1059.006'' ''Execution''
      ''BLOCK: Python reverse shell pattern'']"

definition builtin_detectors_3 :: "InputThreatDetector list" where
  "builtin_detectors_3 = [
    builtin ''revshell_perl''
      \<lparr>fold_case = True, body = seqs [WordB, Str ''perl'', Plus ws, Str ''-e'', Plus ws,
        Cls [CChar (CHR 0x27), CChar (CHR 0x22)], Str ''use'', Plus ws, Str ''Socket'']\<rparr>
      ThreatCategoryReverseShell ThreatSeverityCritical ''0.95''
      ''T1059.006'' ''Execution''
      ''BLOCK: Perl reverse shell pattern'',
    builtin ''revshell_ruby''
      \<lparr>fold_case = True, body = seqs [WordB, Str ''ruby'', Plus ws, Str ''-rsocket'',
        Plus ws, Str ''-e'']\<rparr>
      ThreatCategoryReverseShell ThreatSeverityCritical ''0.95''
      ''T1059.006'' ''Execution''
      ''BLOCK: Ruby reverse shell pattern'',
    builtin ''revshell_php''
      \<lparr>fold_case = True, body = seqs [WordB, Str ''php'', Plus ws, Str ''-r'', Plus ws,
        Cls [CChar (CHR 0x27), CChar (CHR 0x22)], Star Any, Str ''fsockopen'']\<rparr>
      ThreatCategoryReverseShell ThreatSeverityCritical ''0.95''
      ''T1059.006'' ''Execution''
      ''BLOCK: PHP reverse shell pattern'',
    builtin ''revshell_socat''
      \<lparr>fold_case = True, body = seqs [WordB, Str ''socat'', Plus ws, Star Any,
        Str ''exec:'', Star Any, Str ''tcp:'']\<rparr>
      ThreatCategoryReverseShell ThreatSeverityCritical ''0.95''
      ''T1059.004'' ''Execution''
      ''BLOCK: Socat reverse shell pattern'',
    builtin ''revshell_mkfifo''
      \<lparr>fold_case = True, body = seqs [WordB, Str ''mkfifo'', Plus ws, Star Any,
        Cls [CChar (CHR '';''), CChar (CHR ''&'')], Star Any, WordB, Str ''nc'', WordB]\<rparr>
      ThreatCategoryReverseShell ThreatSeverityCritical ''0.95''
      ''T1059.004'' ''Execution''
      ''BLOCK: Named pipe reverse shell pattern'',
    builtin ''revshell_telnet''
      \<lparr>fold_case = True, body = seqs [WordB, Str ''telnet'', Plus ws, Star Any,
        Esc (CHR ''|''), Star ws, Str ''/bin/'', Opt (Grp (Str ''ba'')), Str ''sh'', Plus ws,
        Esc (CHR ''|'')]\<rparr>
      ThreatCategoryReverseShell ThreatSeverityCritical ''0.95''
      ''T1059.004'' ''Execution''
      ''BLOCK: Telnet reverse shell pattern'',
    builtin ''privesc_suid_binary''
      \<lparr>fold_case = True, body = alts [seqs [WordB, Str ''chmod'', Plus ws,
        Star (Cls [CRange (CHR ''0'') (CHR ''7'')]), Lit (CHR ''4''),
        Rep (Cls [CRange (CHR ''0'') (CHR ''7'')]) 3, Plus ws], seqs [WordB, Str ''chmod'',
        Plus ws, Lit (CHR ''u''), Esc (CHR ''+''), Lit (CHR ''s''), Plus ws]]\<rparr>
      ThreatCategoryPrivilegeEsc ThreatSeverityCritical ''0.9''
      ''T1548.001'' ''Privilege Escalation''
      ''BLOCK: Setting SUID bit on binary'',
    builtin ''privesc_sgid_binary''
      \<lparr>fold_case = True, body = alts [seqs [WordB, Str ''chmod'', Plus ws,
        Star (Cls [CRange (CHR ''0'') (CHR ''7'')]), Lit (CHR ''2''),
        Rep (Cls [CRange (CHR ''0'') (CHR ''7'')]) 3, Plus ws], seqs [WordB, Str ''chmod'',
        Plus ws, Lit (CHR ''g''), Esc (CHR ''+''), Lit (CHR ''s''), Plus ws]]\<rparr>
      ThreatCategoryPrivilegeEsc ThreatSeverityHigh ''0.85''
      ''T1548.001'' ''Privilege Escalation''
      ''BLOCK: Setting SGID bit on binary'',
    builtin ''privesc_setcap''
      \<lparr>fold_case = True, body = seqs [WordB, Str ''setcap'', Plus ws, Star Any,
        Str ''cap_'', Grp (alts [Str ''setuid'', Str ''setgid'', Str ''net_admin'',
        Str ''sys_admin'', Str ''dac_override''])]\<rparr>
      ThreatCategoryPrivilegeEsc ThreatSeverityCritical ''0.95''
      ''T1548.001'' ''Privilege Escalation''
      ''BLOCK: Setting dangerous capabilities on binary'',
    builtin ''cred_dump_shadow''
      \<lparr>fold_case = True, body = seqs [WordB, Str ''cat'', Plus ws, Str ''/etc/shadow'',
        WordB]\<rparr>
      ThreatCategoryCredentialAccess ThreatSeverityCritical ''0.95''
      ''T1003.008'' ''Credential Access''
      ''BLOCK: Attempted to read password hashes'',
    builtin ''cred_dump_aws''
      \<lparr>fold_case = True, body = seqs [WordB, Str ''cat'', Plus ws, Star Any,
        Esc (CHR ''.''), Str ''aws/'', Grp (alts [Str ''credentials'', Str ''config'']),
        WordB]\<rparr>
      ThreatCategoryCredentialAccess ThreatSeverityCritical ''0.95''
      ''T1552.001'' ''Credential Access''
      ''BLOCK: Attempted to read AWS credentials file'',
    builtin ''cred_dump_ssh_private''
      \<lparr>fold_case = True, body = seqs [WordB, Str ''cat'', Plus ws, Star Any,
        Esc (CHR ''.''), Str ''ssh/'', Grp (alts [Str ''id_rsa'', Str ''id_ed25519'',
        Str ''id_ecdsa'', Str ''id_dsa'']), Grp (alts [ws, Eol])]\<rparr>
      ThreatCategoryCredentialAccess ThreatSeverityCritical ''0.95''
      ''T1552.004'' ''Credential Access''
      ''BLOCK: Attempted to read SSH private key'',
    builtin ''cred_copy_shadow''
      \<lparr>fold_case = True, body = seqs [WordB, Str ''cp'', Plus ws, Str ''/etc/shadow'',
        WordB]\<rparr>
      ThreatCategoryCredentialAccess ThreatSeverityCritical ''0.95''
      ''T1003.008'' ''Credential Access''
      ''BLOCK: Attempted to copy password hashes'']"

definition builtin_detectors_4 :: "InputThreatDetector list" where
  "builtin_detectors_4 = [
    builtin ''cred_dump_gcp''
      \<lparr>fold_case = True, body = seqs [WordB, Str ''cat'', Plus ws, Star Any,
        Esc (CHR ''.''), Str ''config/gcloud/'', Star Any, Esc (CHR ''.''), Str ''json'',
        WordB]\<rparr>
      ThreatCategoryCredentialAccess ThreatSeverityCritical ''0.9''
      ''T1552.001'' ''Credential Access''
      ''BLOCK: Attempted to read GCP credentials'',
    builtin ''cred_dump_azure''
      \<lparr>fold_case = True, body = seqs [WordB, Str ''cat'', Plus ws, Star Any,
        Esc (CHR ''.''), Str ''azure/'', Star Any, Esc (CHR ''.''), Str ''json'',
        WordB]\<rparr>
      ThreatCategoryCredentialAccess ThreatSeverityCritical ''0.9''
      ''T1552.001'' ''Credential Access''
      ''BLOCK: Attempted to read Azure credentials'',
    builtin ''cred_dump_kube''
      \<lparr>fold_case = True, body = seqs [WordB, Str ''cat'', Plus ws, Star Any,
        Esc (CHR ''.''), Str ''kube/config'', WordB]\<rparr>
      ThreatCategoryCredentialAccess ThreatSeverityHigh ''0.85''
      ''T1552.001'' ''Credential Access''
      ''BLOCK: Attempted to read Kubernetes credentials'',
    builtin ''persist_crontab_remote''
      \<lparr>fold_case = True, body = seqs [WordB, Str ''crontab'', Star Any, Esc (CHR ''|''),
        Star ws, Grp (alts [Str ''curl'', Str ''wget'']), WordB]\<rparr>
      ThreatCategoryPersistence ThreatSeverityCritical ''0.95''
      ''T1053.003'' ''Persistence''
      ''BLOCK: Installing cron job from remote source'',
    builtin ''persist_at_job''
      \<lparr>fold_case = True, body = seqs [WordB, Str ''at'', Plus ws, Star Any, Str ''<<<'',
        Star Any, WordB, Grp (alts [Str ''curl'', Str ''wget'', Str ''nc'', Str ''bash'']),
        WordB]\<rparr>
      ThreatCategoryPersistence ThreatSeverityHigh ''0.85''
      ''T1053.002'' ''Persistence''
      ''BLOCK: Scheduling suspicious at job'',
    builtin ''exfil_dns_tunnel''
      \<lparr>fold_case = True, body = seqs [WordB, Grp (alts [Str ''dig'', Str ''nslookup'',
        Str ''host'']), Plus ws, Star Any, Esc (CHR ''$''), Esc (CHR ''('')]\<rparr>
      ThreatCategoryExfiltration ThreatSeverityHigh ''0.85''
      ''T1048.001'' ''Exfiltration''
      ''BLOCK: DNS tunneling pattern detected'',
    builtin ''exfil_icmp_tunnel''
      \<lparr>fold_case = True, body = seqs [WordB, Str ''ping'', Plus ws, Star Any,
        Str ''-p'', Plus ws, RepMin (Cls [CRange (CHR ''0'') (CHR ''9''),
        CRange (CHR ''a'') (CHR ''f'')]) 16]\<rparr>
      ThreatCategoryExfiltration ThreatSeverityHigh ''0.8''
      ''T1048.003'' ''Exfiltration''
      ''BLOCK: ICMP tunneling pattern detected'',
    builtin ''evasion_clear_logs''
      \<lparr>fold_case = True, body = seqs [Grp (alts [seqs [WordB, Str ''rm'', Plus ws,
        Opt (Grp (seqs [Str ''-r'', Opt (Lit (CHR ''f'')), Plus ws]))], seqs [Str ''truncate'',
        Plus ws, Opt (Grp (seqs [Str ''-s'', Star ws, Lit (CHR ''0''), Plus ws]))],
        seqs [Str ''shred'', Plus ws], seqs [Lit (CHR ''>''), Star ws]]),
        Str ''/var/log/'']\<rparr>
      ThreatCategoryDefenseEvasion ThreatSeverityCritical ''0.95''
      ''T1070.002'' ''Defense Evasion''
      ''BLOCK: Attempting to clear system logs'',
    builtin ''evasion_clear_history''
      \<lparr>fold_case = True, body = alts [seqs [WordB, Str ''history'', Plus ws, Str ''-c'',
        WordB], seqs [WordB, Str ''rm'', Plus ws, Star Any, Esc (CHR ''.''),
        Grp (alts [Str ''bash_history'', Str ''zsh_history'']), WordB], seqs [WordB,
        Str ''unset'', Plus ws, Str ''HISTFILE'', WordB], seqs [WordB, Str ''HISTSIZE=0'',
        WordB]]\<rparr>
      ThreatCategoryDefenseEvasion ThreatSeverityHigh ''0.9''
      ''T1070.003'' ''Defense Evasion''
      ''BLOCK: Attempting to clear command history'',
    builtin ''evasion_disable_logging''
      \<lparr>fold_case = True, body = seqs [WordB, Str ''systemctl'', Plus ws,
        Grp (alts [Str ''stop'', Str ''disable'']), Plus ws, Grp (alts [Str ''rsyslog'',
        Str ''syslog-ng'', Str ''journald''])]\<rparr>
      ThreatCategoryDefenseEvasion ThreatSeverityCritical ''0.95''
      ''T1562.001'' ''Defense Evasion''
      ''BLOCK: Attempting to disable system logging'',
    builtin ''evasion_disable_auditd''
      \<lparr>fold_case = True, body = alts [seqs [WordB, Str ''auditctl'', Plus ws,
        Str ''-e'', Plus ws, Lit (CHR ''0''), WordB], seqs [WordB, Str ''systemctl'', Plus ws,
        Grp (alts [Str ''stop'', Str ''disable'']), Plus ws, Str ''auditd'', WordB]]\<rparr>
      ThreatCategoryDefenseEvasion ThreatSeverityCritical ''0.95''
      ''T1562.006'' ''Defense Evasion''
      ''BLOCK: Attempting to disable audit daemon'',
    builtin ''evasion_flush_iptables''
      \<lparr>fold_case = True, body = alts [seqs [WordB, Str ''iptables'', Plus ws,
        Str ''-F'', WordB], seqs [WordB, Str ''iptables'', Plus ws, Str ''--flush'',
        WordB]]\<rparr>
      ThreatCategoryDefenseEvasion ThreatSeverityCritical ''0.95''
      ''T1562.007'' ''Defense Evasion''
      ''BLOCK: Attempting to flush firewall rules'',
    builtin ''evasion_disable_firewalld''
      \<lparr>fold_case = True, body = seqs [WordB, Str ''systemctl'', Plus ws,
        Grp (alts [Str ''stop'', Str ''disable'']), Plus ws, Str ''firewalld'', WordB]\<rparr>
      ThreatCategoryDefenseEvasion ThreatSeverityCritical ''0.95''
      ''T1562.007'' ''Defense Evasion''
      ''BLOCK: Attempting to disable firewalld'']"

definition builtin_detectors_5 :: "InputThreatDetector list" where
  "builtin_detectors_5 = [
    builtin ''evasion_disable_ufw''
      \<lparr>fold_case = True, body = seqs [WordB, Str ''ufw'', Plus ws, Str ''disable'',
        WordB]\<rparr>
      ThreatCategoryDefenseEvasion ThreatSeverityCritical ''0.95''
      ''T1562.007'' ''Defense Evasion''
      ''BLOCK: Attempting to disable UFW firewall'',
    builtin ''evasion_disable_apparmor''
      \<lparr>fold_case = True, body = alts [seqs [WordB, Str ''aa-disable'', WordB],
        seqs [WordB, Str ''systemctl'', Plus ws, Grp (alts [Str ''stop'', Str ''disable'']),
        Plus ws, Str ''apparmor'', WordB]]\<rparr>
      ThreatCategoryDefenseEvasion ThreatSeverityCritical ''0.95''
      ''T1562.001'' ''Defense Evasion''
      ''BLOCK: Attempting to disable AppArmor'',
    builtin ''evasion_disable_selinux_sed''
      \<lparr>fold_case = True, body = seqs [WordB, Str ''sed'', Plus ws, Str ''-i'', Star Any,
        Str ''SELINUX=disabled'', WordB]\<rparr>
      ThreatCategoryDefenseEvasion ThreatSeverityCritical ''0.95''
      ''T1562.001'' ''Defense Evasion''
      ''BLOCK: Attempting to disable SELinux via sed'',
    builtin ''network_arp_spoof''
      \<lparr>fold_case = True, body = seqs [WordB, Grp (alts [Str ''arpspoof'',
        Str ''ettercap'', Str ''bettercap'']), WordB]\<rparr>
      ThreatCategoryNetworkManipulation ThreatSeverityCritical ''0.95''
      ''T1557.002'' ''Credential Access''
      ''BLOCK: ARP spoofing tool detected'',
    builtin ''network_dns_spoof''
      \<lparr>fold_case = True, body = seqs [WordB, Grp (alts [Str ''dnsspoof'',
        Str ''dnschef'']), WordB]\<rparr>
      ThreatCategoryNetworkManipulation ThreatSeverityCritical ''0.95''
      ''T1557.001'' ''Credential Access''
      ''BLOCK: DNS spoofing tool detected'',
    builtin ''miner_install''
      \<lparr>fold_case = True, body = seqs [WordB, Grp (alts [Str ''wget'', Str ''curl'']),
        WordB, Star Any, WordB, Grp (alts [Str ''xmrig'', Str ''xmr-stak'', Str ''cpuminer'',
        Str ''minerd'', Str ''cgminer'', Str ''bfgminer'']), WordB]\<rparr>
      ThreatCategoryCryptominer ThreatSeverityCritical ''0.98''
      ''T1496'' ''Impact''
      ''BLOCK: Downloading cryptocurrency miner'',
    builtin ''miner_stratum_connect''
      \<lparr>fold_case = True, body = seqs [Str ''stratum'', Esc (CHR ''+''),
        Str ''tcp://'']\<rparr>
      ThreatCategoryCryptominer ThreatSeverityCritical ''0.99''
      ''T1496'' ''Impact''
      ''BLOCK: Mining pool connection string'',
    builtin ''miner_pool_domain''
      \<lparr>fold_case = True, body = seqs [WordB, Grp (alts [seqs [Str ''pool'',
        Esc (CHR ''.''), Grp (alts [Str ''minergate'', Str ''supportxmr'',
        Str ''hashvault''])], Str ''nanopool'', Str ''f2pool'', Str ''antpool'',
        Str ''ethermine'', Str ''flypool'']), WordB]\<rparr>
      ThreatCategoryCryptominer ThreatSeverityCritical ''0.95''
      ''T1496'' ''Impact''
      ''BLOCK: Known mining pool domain'',
    builtin ''kernel_module_load''
      \<lparr>fold_case = True, body = seqs [WordB, Grp (alts [Str ''insmod'',
        Str ''modprobe'']), Plus ws]\<rparr>
      ThreatCategorySystemTampering ThreatSeverityCritical ''0.85''
      ''T1547.006'' ''Persistence''
      ''BLOCK: Loading kernel module'',
    builtin ''cred_leak_password_assignment''
      \<lparr>fold_case = True, body = seqs [WordB, Str ''password'', Star ws,
        Cls [CChar (CHR ''=''), CChar (CHR '':'')], Star ws, Plus (Perl (CHR ''S''))]\<rparr>
      ThreatCategoryCredentialAccess ThreatSeverityHigh ''0.85''
      ''T1552'' ''Credential Access''
      (''BLOCK: Credential leak '' @ [CHR 0xE2, CHR 0x80, CHR 0x94] @ '' password value in field data''),
    builtin ''cred_leak_api_key_assignment''
      \<lparr>fold_case = True, body = seqs [WordB, Str ''api'', Opt (Cls [CChar (CHR ''_''),
        CChar (CHR ''-'')]), Str ''key'', Star ws, Cls [CChar (CHR ''=''), CChar (CHR '':'')],
        Star ws, Plus (Perl (CHR ''S''))]\<rparr>
      ThreatCategoryCredentialAccess ThreatSeverityHigh ''0.85''
      ''T1552'' ''Credential Access''
      (''BLOCK: Credential leak '' @ [CHR 0xE2, CHR 0x80, CHR 0x94] @ '' API key value in field data''),
    builtin ''cred_leak_secret_assignment''
      \<lparr>fold_case = True, body = seqs [WordB, Str ''secret'', Star ws,
        Cls [CChar (CHR ''=''), CChar (CHR '':'')], Star ws, Plus (Perl (CHR ''S''))]\<rparr>
      ThreatCategoryCredentialAccess ThreatSeverityHigh ''0.8''
      ''T1552'' ''Credential Access''
      (''BLOCK: Credential leak '' @ [CHR 0xE2, CHR 0x80, CHR 0x94] @ '' secret value in field data''),
    builtin ''cred_leak_token_assignment''
      \<lparr>fold_case = True, body = seqs [WordB, Grp (alts [Str ''access_token'',
        Str ''refresh_token'', Str ''auth_token'', Str ''bearer_token'', Str ''session_token'',
        Str ''api_token'']), Star ws, Cls [CChar (CHR ''=''), CChar (CHR '':'')], Star ws,
        Plus (Perl (CHR ''S''))]\<rparr>
      ThreatCategoryCredentialAccess ThreatSeverityHigh ''0.85''
      ''T1552'' ''Credential Access''
      (''BLOCK: Credential leak '' @ [CHR 0xE2, CHR 0x80, CHR 0x94] @ '' authentication token value in field data'')]"

definition builtin_detectors_6 :: "InputThreatDetector list" where
  "builtin_detectors_6 = [
    builtin ''cred_leak_private_key_block''
      \<lparr>fold_case = True, body = seqs [Str ''-----BEGIN '', Opt (Grp (alts [Str ''RSA '',
        Str ''EC '', Str ''DSA '', Str ''OPENSSH '', Str ''PGP ''])),
        Str ''PRIVATE KEY-----'']\<rparr>
      ThreatCategoryCredentialAccess ThreatSeverityCritical ''0.99''
      ''T1552.004'' ''Credential Access''
      (''BLOCK: Credential leak '' @ [CHR 0xE2, CHR 0x80, CHR 0x94] @ '' private key material in field data''),
    builtin ''privesc_su_command''
      \<lparr>fold_case = True, body = seqs [WordB, Str ''su'', Plus ws,
        Grp (alts [seqs [Lit (CHR ''-''), Perl (CHR ''w'')], Str ''--login'',
        Str ''--command'']), WordB]\<rparr>
      ThreatCategoryPrivilegeEsc ThreatSeverityHigh ''0.8''
      ''T1548.003'' ''Privilege Escalation''
      ''BLOCK: Privilege escalation via su command'']"

definition builtin_detectors :: "InputThreatDetector list" where
  "builtin_detectors = builtin_detectors_1 @ builtin_detectors_2 @ builtin_detectors_3 @ builtin_detectors_4 @ builtin_detectors_5 @ builtin_detectors_6"

definition source_text :: "string \<Rightarrow> string" where
  "source_text s = map (\<lambda>c. if c = CHR 0x7E then CHR 0x5C else if c = CHR 0x60 then CHR 0x27 else c) s"

definition builtin_patterns_1 :: "string list" where
  "builtin_patterns_1 = map source_text [
    ''(?i)~brm~s+(-[rRf]+~s+)*/*~s*$|~brm~s+(-[rRf]+~s+)*/~s|~brm~s+-[rRf]*~s+/~s'',
    ''(?i)~brm~s+(-[rRf]+~s+)*/(bin|boot|dev|etc|lib|lib64|opt|proc|root|run|sbin|srv|sys|usr|var)~b'',
    ''(?i)~bdd~s+.*of=/dev/(sd[a-z]|hd[a-z]|nvme[0-9]n[0-9]|vd[a-z]|xvd[a-z])(~s|$)'',
    ''(?i)~bmkfs(~.[a-z0-9]+)?~s+/dev/'',
    ''(?i)~bshred~s+.*(/dev/sd|/dev/hd|/dev/nvme|/dev/vd|/dev/xvd)'',
    ''(?i)~bwipefs~s+(-a~s+)?/dev/'',
    ''(?i)~b(fdisk|gdisk|parted|sfdisk)~s+/dev/'',
    ''(?i)(echo|cat|printf|tee)~s+.*>+~s*/etc/(passwd|shadow|group|gshadow)'',
    ''(?i)(echo|cat|printf|tee)~s+.*>+~s*/etc/sudoers'',
    ''(?i)(echo|cat|printf|tee)~s+.*>+~s*/etc/pam~.d/'',
    ''(?i)(echo|cat|printf|tee|sed|awk)~s+.*>+~s*/etc/ssh/sshd_config'',
    ''(?i)(echo|cat|printf|tee)~s+.*>+~s*/etc/hosts'',
    ''(?i)(echo|cat|printf|tee)~s+.*>+~s*/etc/resolv~.conf'']"

definition builtin_patterns_2 :: "string list" where
  "builtin_patterns_2 = map source_text [
    ''(?i)(echo|cat|printf|tee)~s+.*>+~s*/etc/ld~.so~.(conf|preload)'',
    ''(?i)~bsetenforce~s+0~b|sed~s+.*SELINUX=.*disabled'',
    ''(?i)~baa-disable~b|~bsystemctl~s+(stop|disable)~s+apparmor'',
    ''(?i)~bsystemctl~s+(stop|disable)~s+(ufw|firewalld|iptables)|~bufw~s+disable~b|~biptables~s+-F~b'',
    ''(?i)~bsystemctl~s+(stop|disable)~s+auditd|~bauditctl~s+-e~s+0~b'',
    ''(?i)~bcurl~s+.*~|~s*(ba)?sh~b'',
    ''(?i)~bwget~s+.*(-O~s*-|--output-document=-).*~|~s*(ba)?sh~b'',
    ''(?i)~beval~s+.*~$~(.*base64~s+-d'',
    ''(?i)~bpython[23]?~s+-c~s+[`\"].*urllib.*exec~s*~('',
    ''(?i)~bbash~s+-i~s+>&~s*/dev/tcp/'',
    ''(?i)~bnc~s+.*-e~s+(/bin/)?(ba)?sh'',
    ''(?i)~bncat~s+.*(-e|--exec)~s+(/bin/)?(ba)?sh'',
    ''(?i)~bpython[23]?~s+-c~s+[`\"]import~s+(socket|pty)'']"

definition builtin_patterns_3 :: "string list" where
  "builtin_patterns_3 = map source_text [
    ''(?i)~bperl~s+-e~s+[`\"]use~s+Socket'',
    ''(?i)~bruby~s+-rsocket~s+-e'',
    ''(?i)~bphp~s+-r~s+[`\"].*fsockopen'',
    ''(?i)~bsocat~s+.*exec:.*tcp:'',
    ''(?i)~bmkfifo~s+.*[;&].*~bnc~b'',
    ''(?i)~btelnet~s+.*~|~s*/bin/(ba)?sh~s+~|'',
    ''(?i)~bchmod~s+[0-7]*4[0-7]{3}~s+|~bchmod~s+u~+s~s+'',
    ''(?i)~bchmod~s+[0-7]*2[0-7]{3}~s+|~bchmod~s+g~+s~s+'',
    ''(?i)~bsetcap~s+.*cap_(setuid|setgid|net_admin|sys_admin|dac_override)'',
    ''(?i)~bcat~s+/etc/shadow~b'',
    ''(?i)~bcat~s+.*~.aws/(credentials|config)~b'',
    ''(?i)~bcat~s+.*~.ssh/(id_rsa|id_ed25519|id_ecdsa|id_dsa)(~s|$)'',
    ''(?i)~bcp~s+/etc/shadow~b'']"

definition builtin_patterns_4 :: "string list" where
  "builtin_patterns_4 = map source_text [
    ''(?i)~bcat~s+.*~.config/gcloud/.*~.json~b'',
    ''(?i)~bcat~s+.*~.azure/.*~.json~b'',
    ''(?i)~bcat~s+.*~.kube/config~b'',
    ''(?i)~bcrontab.*~|~s*(curl|wget)~b'',
    ''(?i)~bat~s+.*<<<.*~b(curl|wget|nc|bash)~b'',
    ''(?i)~b(dig|nslookup|host)~s+.*~$~('',
    ''(?i)~bping~s+.*-p~s+[0-9a-f]{16,}'',
    ''(?i)(~brm~s+(-rf?~s+)?|truncate~s+(-s~s*0~s+)?|shred~s+|>~s*)/var/log/'',
    ''(?i)~bhistory~s+-c~b|~brm~s+.*~.(bash_history|zsh_history)~b|~bunset~s+HISTFILE~b|~bHISTSIZE=0~b'',
    ''(?i)~bsystemctl~s+(stop|disable)~s+(rsyslog|syslog-ng|journald)'',
    ''(?i)~bauditctl~s+-e~s+0~b|~bsystemctl~s+(stop|disable)~s+auditd~b'',
    ''(?i)~biptables~s+-F~b|~biptables~s+--flush~b'',
    ''(?i)~bsystemctl~s+(stop|disable)~s+firewalld~b'']"

definition builtin_patterns_5 :: "string list" where
  "builtin_patterns_5 = map source_text [
    ''(?i)~bufw~s+disable~b'',
    ''(?i)~baa-disable~b|~bsystemctl~s+(stop|disable)~s+apparmor~b'',
    ''(?i)~bsed~s+-i.*SELINUX=disabled~b'',
    ''(?i)~b(arpspoof|ettercap|bettercap)~b'',
    ''(?i)~b(dnsspoof|dnschef)~b'',
    ''(?i)~b(wget|curl)~b.*~b(xmrig|xmr-stak|cpuminer|minerd|cgminer|bfgminer)~b'',
    ''(?i)stratum~+tcp://'',
    ''(?i)~b(pool~.(minergate|supportxmr|hashvault)|nanopool|f2pool|antpool|ethermine|flypool)~b'',
    ''(?i)~b(insmod|modprobe)~s+'',
    ''(?i)~bpassword~s*[=:]~s*~S+'',
    ''(?i)~bapi[_-]?key~s*[=:]~s*~S+'',
    ''(?i)~bsecret~s*[=:]~s*~S+'',
    ''(?i)~b(access_token|refresh_token|auth_token|bearer_token|session_token|api_token)~s*[=:]~s*~S+'']"

definition builtin_patterns_6 :: "string list" where
  "builtin_patterns_6 = map source_text [
    ''(?i)-----BEGIN (RSA |EC |DSA |OPENSSH |PGP )?PRIVATE KEY-----'',
    ''(?i)~bsu~s+(-~w|--login|--command)~b'']"

section \<open>The syntax trees are those of the source texts\<close>

lemma builtin_patterns_1_ok:
  "map (\<lambda>d. regexp_String (pattern d)) builtin_detectors_1 = builtin_patterns_1"
  by code_simp

lemma builtin_patterns_2_ok:
  "map (\<lambda>d. regexp_String (pattern d)) builtin_detectors_2 = builtin_patterns_2"
  by code_simp

lemma builtin_patterns_3_ok:
  "map (\<lambda>d. regexp_String (pattern d)) builtin_detectors_3 = builtin_patterns_3"
  by code_simp

lemma builtin_patterns_4_ok:
  "map (\<lambda>d. regexp_String (pattern d)) builtin_detectors_4 = builtin_patterns_4"
  by code_simp

lemma builtin_patterns_5_ok:
  "map (\<lambda>d. regexp_String (pattern d)) builtin_detectors_5 = builtin_patterns_5"
  by code_simp

lemma builtin_patterns_6_ok:
  "map (\<lambda>d. regexp_String (pattern d)) builtin_detectors_6 = builtin_patterns_6"
  by code_simp

end
