(* ===== verification/Payload.thy ===== *)
theory Payload
  imports Action_Types
begin

text \<open>
  \<open>payload_decode.go\<close>: the typed payload of an action. The wire decoder
  (\<open>proto.Unmarshal\<close>) is an argument that, given the message type and the bytes, gives
  the values of the message's string fields by field name or fails.
\<close>

record ProtoMessage =
  mtype :: string
  mfields :: "string \<Rightarrow> string"

type_synonym unmarshal_fn = "string \<Rightarrow> bytes \<Rightarrow> (string \<Rightarrow> string) result"

text \<open>The message type of each action class.\<close>

definition payload_types :: "(ActionType \<times> string) list" where
  "payload_types = [
     (ActionTypeExecuteBash, ''CommandRequested''),
     (ActionTypeFileEdit, ''FileEditRequested''),
     (ActionTypeRestoreFile, ''RestoreFileRequested''),
     (ActionTypeShutdown, ''ShutdownRequested''),
     (ActionTypeFsList, ''FsListRequested''),
     (ActionTypeFsRead, ''FsReadRequested''),
     (ActionTypeFsGrep, ''FsGrepRequested''),
     (ActionTypePortCheck, ''CheckPortRequested''),
     (ActionTypeOllamaModelInventory, ''OllamaModelInventoryRequested''),
     (ActionTypeOllamaModelResidency, ''OllamaModelResidencyRequested''),
     (ActionTypeFetchLogs, ''FetchLogsRequested''),
     (ActionTypeFetchHistory, ''FetchHistoryRequested''),
     (ActionTypeFetchFileHistory, ''FetchFileHistoryRequested''),
     (ActionTypeEvalAnswer, ''EvalAnswerRequested''),
     (ActionTypeMcpCall, ''McpCallRequested''),
     (ActionTypeA2aCall, ''A2ACallRequested''),
     (ActionTypeMcpResourceRead, ''McpResourceReadRequested''),
     (ActionTypeMcpPromptGet, ''McpPromptGetRequested''),
     (ActionTypeFetchFileDiff, ''FetchFileDiffRequested''),
     (ActionTypeMcpResourceList, ''McpResourceListRequested''),
     (ActionTypeMcpPromptList, ''McpPromptListRequested''),
     (ActionTypeHeartbeat, ''HeartbeatRequested''),
     (ActionTypeCancel, ''CommandCancelRequested''),
     (ActionTypeDocumentUpdate, ''DocumentUpdateRequested''),
     (ActionTypeDocumentDelete, ''DocumentDeleteRequested''),
     (ActionTypeInference, ''InferenceRequested''),
     (ActionTypeProviderBoundaryObservation, ''ProviderBoundaryObservationCommand''),
     (ActionTypeModelProvenanceObservation, ''ModelProvenanceObservationCommand''),
     (ActionTypePlatformEnrollmentCreate, ''PlatformEnrollmentGovernancePayload''),
     (ActionTypePlatformEnrollmentDecide, ''PlatformEnrollmentGovernancePayload''),
     (ActionTypePlatformEnrollmentIssue, ''PlatformEnrollmentGovernancePayload''),
     (ActionTypePlatformEnrollmentPersistPolicy, ''PlatformEnrollmentGovernancePayload''),
     (ActionTypePlatformEnrollmentCreateSession, ''PlatformEnrollmentGovernancePayload''),
     (ActionTypePlatformEnrollmentRevoke, ''PlatformEnrollmentGovernancePayload'')]"

definition DecodePayloadForAction ::
  "unmarshal_fn \<Rightarrow> ActionType \<Rightarrow> bytes \<Rightarrow> ProtoMessage result" where
  "DecodePayloadForAction unmarshal actionType payload =
     (case map_of payload_types actionType of
        None \<Rightarrow> Inl (wrap ''%w: %q'' (Tx ErrTxPayloadDecoderMissing) [actionType])
      | Some mt \<Rightarrow>
          (case unmarshal mt payload of
             Inl err \<Rightarrow> Inl err
           | Inr fs \<Rightarrow> Inr \<lparr>mtype = mt, mfields = fs\<rparr>))"

section \<open>Facts\<close>

text \<open>Every declared action class has a decoder, and nothing else does: an action outside the
  constants is refused before its payload is read.\<close>

lemma payload_types_complete: "set (map fst payload_types) = set AllActionTypes"
  by code_simp

lemma payload_types_distinct: "distinct (map fst payload_types)"
  by code_simp

lemma DecodePayloadForAction_known:
  "a \<notin> set AllActionTypes \<Longrightarrow>
   DecodePayloadForAction u a p = Inl (wrap ''%w: %q'' (Tx ErrTxPayloadDecoderMissing) [a])"
  unfolding payload_types_complete[symmetric]
  by (simp add: DecodePayloadForAction_def map_of_eq_None_iff[THEN iffD2])

lemma DecodePayloadForAction_mtype:
  "DecodePayloadForAction u a p = Inr m \<Longrightarrow> map_of payload_types a = Some (mtype m)"
  by (auto simp: DecodePayloadForAction_def split: option.splits sum.splits)

end
