(* ===== verification/Doctrine.thy ===== *)
theory Doctrine
  imports Doctrine_Table Payload Envelope
begin

text \<open>
  \<open>l1_doctrine.go\<close>: the L1 doctrine. Its state is the list of detectors and the
  identity of the bundle they come from. Directory contents, the JSON decoding of a doctrine
  file and \<open>regexp.Compile\<close> on a file's pattern are arguments of the loader; the
  built-in table needs no compilation. A JSON value is kept as the code distinguishes it: a
  string, null (which decodes into a Go string as the empty string), an object in iteration
  order, an array, or anything else.
\<close>

section \<open>State and identity\<close>

record L1Doctrine =
  inputThreatDetectors :: "InputThreatDetector list"
  doctrineBundleHash :: string
  doctrineBundleVersion :: string

abbreviation builtInDoctrineVersion :: string where
  "builtInDoctrineVersion \<equiv> ''g8e-l1-doctrine-v1''"

abbreviation appendDoctrineIdentityValue :: "bytes \<Rightarrow> string \<Rightarrow> bytes" where
  "appendDoctrineIdentityValue payload value \<equiv> payload @ lp64 value"

definition detector_values :: "InputThreatDetector \<Rightarrow> string list" where
  "detector_values d =
     [detName d, regexp_String (pattern d), category d, severity d, confidence d,
      mitreAttack d, mitreTactic d, recommendation d, FormatBool (blockRecommended d),
      detSource d]"

definition counted_values :: "string list \<Rightarrow> bytes" where
  "counted_values vs = be64 (length vs) @ concat (map lp64 (sort vs))"

definition detector_identity :: "InputThreatDetector \<Rightarrow> bytes" where
  "detector_identity d =
     concat (map lp64 (detector_values d)) @
     concat (map counted_values [ksiIDs d, controlIDs d, overlayIDs d])"

definition doctrine_identity_payload :: "InputThreatDetector list \<Rightarrow> bytes list \<Rightarrow> bytes" where
  "doctrine_identity_payload ds fileMaterials =
     appendDoctrineIdentityValue [] builtInDoctrineVersion @
     concat (map detector_identity ds) @ concat (map lp64 fileMaterials)"

definition setDoctrineBundleIdentity ::
  "crypto \<Rightarrow> L1Doctrine \<Rightarrow> bytes list \<Rightarrow> string list \<Rightarrow> L1Doctrine" where
  "setDoctrineBundleIdentity C v fileMaterials fileVersions =
     v\<lparr>doctrineBundleHash :=
          sha256_hex C (doctrine_identity_payload (inputThreatDetectors v) fileMaterials),
       doctrineBundleVersion :=
          builtInDoctrineVersion @
          (if fileVersions \<noteq> [] then ''+'' @ strings_Join fileVersions ''+'' else [])\<rparr>"

definition NewL1Doctrine :: "crypto \<Rightarrow> L1Doctrine" where
  "NewL1Doctrine C =
     setDoctrineBundleIdentity C
       \<lparr>inputThreatDetectors = builtin_detectors, doctrineBundleHash = [],
        doctrineBundleVersion = []\<rparr> [] []"

section \<open>Loading doctrine files\<close>

record doctrineEntry =
  deID :: string
  deCategory :: string
  deSeverity :: string
  dePattern :: string
  deMitreAttack :: string
  deMitreTactic :: string
  deConfidence :: string
  deEnabled :: bool
  deKSIIDs :: "string list"
  deControlIDs :: "string list"
  deOverlayIDs :: "string list"

record doctrineFile =
  dfSource :: string
  dfVersion :: string
  dfDoctrines :: "doctrineEntry list"

record dir_entry =
  IsDir :: bool
  entryName :: string
  contents :: "bytes result"

definition parseThreatCategory :: "string \<Rightarrow> ThreatCategory" where
  "parseThreatCategory s =
     (if s \<in> set [ThreatCategoryReverseShell, ThreatCategoryPrivilegeEsc,
        ThreatCategoryCredentialAccess, ThreatCategoryExfiltration, ThreatCategoryCryptominer,
        ThreatCategoryPersistence, ThreatCategoryLateralMovement, ThreatCategoryDefenseEvasion,
        ThreatCategoryReconnaissance, ThreatCategoryResourceHijacking,
        ThreatCategoryDestructive, ThreatCategorySystemTampering, ThreatCategorySecurityBypass,
        ThreatCategoryMalwareDeployment, ThreatCategoryDataDestruction,
        ThreatCategoryNetworkManipulation]
      then s else ThreatCategoryCustom)"

definition parseThreatSeverity :: "string \<Rightarrow> ThreatSeverity" where
  "parseThreatSeverity s =
     (if s \<in> set [ThreatSeverityCritical, ThreatSeverityHigh, ThreatSeverityMedium,
        ThreatSeverityLow, ThreatSeverityInfo]
      then s else ThreatSeverityMedium)"

definition HasSuffix :: "string \<Rightarrow> string \<Rightarrow> bool" where
  "HasSuffix s suf \<longleftrightarrow> length suf \<le> length s \<and> drop (length s - length suf) s = suf"

definition HasPrefix :: "string \<Rightarrow> string \<Rightarrow> bool" where
  "HasPrefix s pre \<longleftrightarrow> take (length pre) s = pre"

definition detector_of_entry :: "string \<Rightarrow> doctrineEntry \<Rightarrow> regexp \<Rightarrow> InputThreatDetector" where
  "detector_of_entry source de p =
     (let sev = parseThreatSeverity (deSeverity de) in
      \<lparr>detName = deID de, pattern = p, category = parseThreatCategory (deCategory de),
       severity = sev, confidence = deConfidence de, mitreAttack = deMitreAttack de,
       mitreTactic = deMitreTactic de, recommendation = [],
       blockRecommended = (sev = ThreatSeverityCritical \<or> sev = ThreatSeverityHigh),
       detSource = source, ksiIDs = deKSIIDs de, controlIDs = deControlIDs de,
       overlayIDs = deOverlayIDs de\<rparr>)"

fun load_entries ::
  "(string \<Rightarrow> regexp result) \<Rightarrow> string \<Rightarrow> string \<Rightarrow> doctrineEntry list \<Rightarrow>
   InputThreatDetector list result" where
  "load_entries compile file source [] = Inr []"
| "load_entries compile file source (de # des) =
     (if \<not> deEnabled de then load_entries compile file source des
      else case compile (dePattern de) of
        Inl err \<Rightarrow> Inl (Errorf ''governance: compile pattern for %s in %s: %w'' [deID de, file] [err])
      | Inr p \<Rightarrow>
          (case load_entries compile file source des of
             Inl e \<Rightarrow> Inl e
           | Inr ds \<Rightarrow> Inr (detector_of_entry source de p # ds)))"

fun load_files ::
  "(bytes \<Rightarrow> doctrineFile result) \<Rightarrow> (string \<Rightarrow> regexp result) \<Rightarrow> dir_entry list \<Rightarrow>
   (InputThreatDetector list \<times> bytes list \<times> string list) result" where
  "load_files parse compile [] = Inr ([], [], [])"
| "load_files parse compile (entry # es) =
     (if IsDir entry \<or> \<not> HasSuffix (entryName entry) ''.json'' then load_files parse compile es
      else case contents entry of
        Inl err \<Rightarrow> Inl (Errorf ''governance: read doctrine file %s: %w'' [entryName entry] [err])
      | Inr data \<Rightarrow>
         (case parse data of
            Inl err \<Rightarrow> Inl (Errorf ''governance: parse doctrine file %s: %w'' [entryName entry] [err])
          | Inr df \<Rightarrow>
             (case load_entries compile (entryName entry) (dfSource df) (dfDoctrines df) of
                Inl e \<Rightarrow> Inl e
              | Inr ds \<Rightarrow>
                 (case load_files parse compile es of
                    Inl e \<Rightarrow> Inl e
                  | Inr (ds', ms, vs) \<Rightarrow>
                      Inr (ds @ ds', entryName entry # data # ms,
                           (dfSource df @ ''@'' @ dfVersion df) # vs)))))"

definition NewL1DoctrineFromDir ::
  "crypto \<Rightarrow> (bytes \<Rightarrow> doctrineFile result) \<Rightarrow> (string \<Rightarrow> regexp result) \<Rightarrow>
   (string \<Rightarrow> dir_entry list result) \<Rightarrow> string \<Rightarrow> L1Doctrine result" where
  "NewL1DoctrineFromDir C parse compile readDir doctrineDir =
     (let d = NewL1Doctrine C in
      if doctrineDir = '''' then Inr d
      else case readDir doctrineDir of
        Inl err \<Rightarrow> Inl (Errorf ''governance: read doctrine dir %s: %w'' [doctrineDir] [err])
      | Inr entries \<Rightarrow>
         (case load_files parse compile entries of
            Inl e \<Rightarrow> Inl e
          | Inr (ds, ms, vs) \<Rightarrow>
              Inr (setDoctrineBundleIdentity C
                     (d\<lparr>inputThreatDetectors := inputThreatDetectors d @ ds\<rparr>) ms vs)))"

section \<open>Detection\<close>

record ThreatSignal =
  Category :: ThreatCategory
  Severity :: ThreatSeverity
  Indicator :: string
  Context :: string
  Confidence :: string
  MitreAttack :: string
  MitreTactic :: string
  Recommendation :: string
  BlockRecommended :: bool
  SigSource :: string
  KSIIDs :: "string list"
  ControlIDs :: "string list"
  OverlayIDs :: "string list"

definition Detect :: "InputThreatDetector \<Rightarrow> string \<Rightarrow> ThreatSignal list" where
  "Detect d input =
     (if MatchString (pattern d) input then
        [\<lparr>Category = category d, Severity = severity d, Indicator = detName d, Context = [],
          Confidence = confidence d, MitreAttack = mitreAttack d, MitreTactic = mitreTactic d,
          Recommendation = recommendation d, BlockRecommended = blockRecommended d,
          SigSource = detSource d, KSIIDs = ksiIDs d, ControlIDs = controlIDs d,
          OverlayIDs = overlayIDs d\<rparr>]
      else [])"

definition AnalyzeCommand :: "L1Doctrine \<Rightarrow> string \<Rightarrow> ThreatSignal list" where
  "AnalyzeCommand v command = concat (map (\<lambda>d. Detect d command) (inputThreatDetectors v))"

datatype json = JString string | JNull | JObject "(string \<times> json) list" | JArray "json list" | JOther

definition analyze_string :: "L1Doctrine \<Rightarrow> string \<Rightarrow> string \<Rightarrow> ThreatSignal list" where
  "analyze_string v path s =
     concat (map (\<lambda>d. map (\<lambda>sig. sig\<lparr>Context := path\<rparr>) (Detect d s)) (inputThreatDetectors v))"

definition field_path :: "string \<Rightarrow> string \<Rightarrow> string" where
  "field_path path key = (if path \<noteq> [] then path @ ''.'' @ key else key)"

definition index_path :: "string \<Rightarrow> nat \<Rightarrow> string" where
  "index_path path i = (if path \<noteq> [] then path @ ''['' @ decimal_nat i @ '']'' else path)"

text \<open>\<open>analyzeJSONRecursive\<close>. The accumulated signals are returned; an error discards
  them, as the caller does.\<close>

fun analyzeJSONRecursive ::
    "L1Doctrine \<Rightarrow> json \<Rightarrow> string \<Rightarrow> nat \<Rightarrow> nat \<Rightarrow> ThreatSignal list result"
  and analyzeFields ::
    "L1Doctrine \<Rightarrow> (string \<times> json) list \<Rightarrow> string \<Rightarrow> nat \<Rightarrow> nat \<Rightarrow> ThreatSignal list result"
  and analyzeElements ::
    "L1Doctrine \<Rightarrow> nat \<Rightarrow> json list \<Rightarrow> string \<Rightarrow> nat \<Rightarrow> nat \<Rightarrow> ThreatSignal list result"
where
  "analyzeJSONRecursive v raw path currentDepth maxDepth =
     (if currentDepth > maxDepth
      then Inl (wrap ''%w: maxDepth=%d, path=%s'' (Layer ErrGovernanceJSONDepthExceeded)
                  [decimal_nat maxDepth, path])
      else case raw of
        JString s \<Rightarrow> Inr (analyze_string v path s)
      | JNull \<Rightarrow> Inr (analyze_string v path [])
      | JObject kvs \<Rightarrow> analyzeFields v kvs path (Suc currentDepth) maxDepth
      | JArray js \<Rightarrow> analyzeElements v 0 js path (Suc currentDepth) maxDepth
      | JOther \<Rightarrow> Inr [])"
| "analyzeFields v [] path depth maxDepth = Inr []"
| "analyzeFields v ((key, val) # kvs) path depth maxDepth =
     (case analyzeJSONRecursive v val (field_path path key) depth maxDepth of
        Inl e \<Rightarrow> Inl e
      | Inr sigs \<Rightarrow>
         (case analyzeFields v kvs path depth maxDepth of
            Inl e \<Rightarrow> Inl e
          | Inr rest \<Rightarrow> Inr (sigs @ rest)))"
| "analyzeElements v i [] path depth maxDepth = Inr []"
| "analyzeElements v i (val # js) path depth maxDepth =
     (case analyzeJSONRecursive v val (index_path path i) depth maxDepth of
        Inl e \<Rightarrow> Inl e
      | Inr sigs \<Rightarrow>
         (case analyzeElements v (Suc i) js path depth maxDepth of
            Inl e \<Rightarrow> Inl e
          | Inr rest \<Rightarrow> Inr (sigs @ rest)))"

definition AnalyzeMCPArguments ::
  "(string \<Rightarrow> json result) \<Rightarrow> L1Doctrine \<Rightarrow> string \<Rightarrow> ThreatSignal list result" where
  "AnalyzeMCPArguments parse v argumentsJSON =
     (case parse argumentsJSON of
        Inl err \<Rightarrow> Inl (Errorf ''%w: %w'' [] [Sentinel (Sys ErrMCPUnmarshalArguments), err])
      | Inr raw \<Rightarrow> analyzeJSONRecursive v raw [] 0 50)"

section \<open>Critical files\<close>

definition CriticalSystemPaths :: "string list" where
  "CriticalSystemPaths = [
     ''/etc/passwd'', ''/etc/shadow'', ''/etc/group'', ''/etc/gshadow'', ''/etc/sudoers'',
     ''/etc/sudoers.d/'', ''/etc/ssh/sshd_config'', ''/etc/ssh/ssh_config'', ''/etc/pam.d/'',
     ''/etc/security/'', ''/etc/ld.so.conf'', ''/etc/ld.so.preload'', ''/etc/hosts'',
     ''/etc/resolv.conf'', ''/etc/fstab'', ''/etc/crontab'', ''/etc/cron.d/'',
     ''/etc/cron.daily/'', ''/etc/cron.hourly/'', ''/etc/init.d/'', ''/etc/systemd/system/'',
     ''/etc/rc.local'', ''/etc/profile'', ''/etc/profile.d/'', ''/etc/bash.bashrc'',
     ''/etc/environment'', ''/etc/selinux/'', ''/etc/apparmor/'', ''/etc/apparmor.d/'',
     ''/boot'', ''/root/.ssh/'', ''/root/.bashrc'', ''/root/.bash_profile'', ''/root/.profile'']"

definition CriticalSystemDirs :: "string list" where
  "CriticalSystemDirs = [
     ''/bin'', ''/sbin'', ''/usr/bin'', ''/usr/sbin'', ''/usr/local/bin'', ''/usr/local/sbin'',
     ''/lib'', ''/lib64'', ''/usr/lib'', ''/boot'', ''/proc'', ''/sys'', ''/dev'']"

definition isCriticalSystemFile :: "string \<Rightarrow> bool" where
  "isCriticalSystemFile path \<longleftrightarrow>
     list_ex (\<lambda>criticalPath. path = criticalPath \<or>
       (HasSuffix criticalPath ''/'' \<and> HasPrefix path criticalPath)) CriticalSystemPaths \<or>
     list_ex (\<lambda>criticalDir. HasPrefix path criticalDir \<and>
       ((length path > length criticalDir \<and> path ! length criticalDir = CHR ''/'') \<or>
        path = criticalDir)) CriticalSystemDirs"

section \<open>Payload validation\<close>

text \<open>The \<open>forbidden_patterns\<close> field options of \<open>operator.proto\<close>, by message type
  and field, each option already split at its commas and compiled.\<close>

definition forbidden_patterns :: "(string \<times> string \<times> regexp list) list" where
  "forbidden_patterns = [
     (''CommandRequested'', ''command'',
      [\<lparr>fold_case = False, body = seqs [Grp (alts [Bol, ws]), Str ''sudo'', Grp (alts [ws, Eol])]\<rparr>,
       \<lparr>fold_case = False, body = seqs [Grp (alts [Bol, ws]), Str ''su'', Grp (alts [ws, Eol])]\<rparr>,
       \<lparr>fold_case = False, body = Str ''rm -rf /''\<rparr>]),
     (''FsListRequested'', ''path'',
      [\<lparr>fold_case = False, body = seqs [Str ''/mnt/pnfs/private/'', Star Any]\<rparr>]),
     (''FsReadRequested'', ''path'',
      [\<lparr>fold_case = False, body = seqs [Str ''/mnt/pnfs/private/'', Star Any]\<rparr>]),
     (''McpCallRequested'', ''tool_name'',
      [\<lparr>fold_case = True, body = seqs [Bol, Grp (alts [Str ''sudo'', Str ''su'']), Eol]\<rparr>,
       \<lparr>fold_case = True, body = seqs [Bol, Str ''rm'', Opt (Cls [CChar (CHR '' ''), CChar (CHR ''_''), CChar (CHR ''-'')]), Str ''rf'', Opt (Cls [CChar (CHR '' ''), CChar (CHR ''_''), CChar (CHR ''-'')]), Str ''root'', Eol]\<rparr>,
       \<lparr>fold_case = True, body = seqs [Bol, Str ''drop'', Opt (Cls [CChar (CHR '' ''), CChar (CHR ''_''), CChar (CHR ''-'')]), Str ''database'', Eol]\<rparr>]),
     (''A2ACallRequested'', ''skill_name'',
      [\<lparr>fold_case = True, body = seqs [Bol, Grp (alts [Str ''sudo'', Str ''su'']), Eol]\<rparr>]),
     (''McpResourceReadRequested'', ''uri'',
      [\<lparr>fold_case = False, body = seqs [Str ''/mnt/pnfs/private/'', Star Any]\<rparr>])]"

definition field_violations :: "ProtoMessage \<Rightarrow> string list" where
  "field_violations msg =
     concat (map (\<lambda>(mt, fd, ps). if mt = mtype msg then
         map (\<lambda>p. ''field '' @ fd @ '' violates pattern '' @ regexp_String p)
           (filter (\<lambda>p. MatchString p (mfields msg fd)) ps)
       else []) forbidden_patterns)"

definition block_signals :: "ThreatSignal list \<Rightarrow> ThreatSignal list" where
  "block_signals sigs = filter BlockRecommended sigs"

definition argument_violations ::
  "(gov_error \<Rightarrow> string) \<Rightarrow> string \<Rightarrow> string \<Rightarrow> ThreatSignal list result \<Rightarrow> string list" where
  "argument_violations show_err failed detected r =
     (case r of
        Inl err \<Rightarrow> [failed @ show_err err]
      | Inr signals \<Rightarrow> map (\<lambda>sig. detected @ Indicator sig @ '' (category: '' @ Category sig @
          '', MITRE: '' @ MitreAttack sig @ '', path: '' @ Context sig @ '')'') (block_signals signals))"

definition threat_violations ::
  "(gov_error \<Rightarrow> string) \<Rightarrow> (string \<Rightarrow> json result) \<Rightarrow> L1Doctrine \<Rightarrow> ProtoMessage \<Rightarrow> string list" where
  "threat_violations show_err parse v msg =
     (if mtype msg = ''CommandRequested'' then
        map (\<lambda>sig. ''command threat detected: '' @ Indicator sig @ '' (category: '' @ Category sig @
               '', MITRE: '' @ MitreAttack sig @ '')'')
          (block_signals (AnalyzeCommand v (mfields msg ''command'')))
      else if mtype msg = ''McpCallRequested'' then
        argument_violations show_err ''failed to analyze MCP arguments: '' ''MCP argument threat detected: ''
          (AnalyzeMCPArguments parse v (mfields msg ''arguments_json''))
      else if mtype msg = ''A2ACallRequested'' then
        argument_violations show_err ''failed to analyze A2A payload: '' ''A2A payload threat detected: ''
          (AnalyzeMCPArguments parse v (mfields msg ''payload_json''))
      else if mtype msg = ''FileEditRequested'' then
        (if isCriticalSystemFile (mfields msg ''file_path'')
         then [''attempted modification of critical system file: '' @ mfields msg ''file_path'']
         else []) @
        (if mfields msg ''content'' \<noteq> [] then
           map (\<lambda>sig. ''file content threat detected: '' @ Indicator sig @ '' (category: '' @
                  Category sig @ '')'')
             (block_signals (AnalyzeCommand v (mfields msg ''content'')))
         else [])
      else [])"

definition ValidatePayload ::
  "(gov_error \<Rightarrow> string) \<Rightarrow> (string \<Rightarrow> json result) \<Rightarrow> L1Doctrine \<Rightarrow> ProtoMessage \<Rightarrow> string list" where
  "ValidatePayload show_err parse v msg = field_violations msg @ threat_violations show_err parse v msg"

section \<open>What detection finds\<close>

text \<open>The strings the recursive analysis inspects, and the nesting depth of a value.\<close>

fun leaves :: "json \<Rightarrow> string list" where
  "leaves (JString s) = [s]"
| "leaves JNull = [[]]"
| "leaves (JObject kvs) = concat (map (\<lambda>(k, j). leaves j) kvs)"
| "leaves (JArray js) = concat (map leaves js)"
| "leaves JOther = []"

fun json_depth :: "json \<Rightarrow> nat" where
  "json_depth (JObject kvs) = (if kvs = [] then 0 else Suc (Max (set (map (\<lambda>(k, j). json_depth j) kvs))))"
| "json_depth (JArray js) = (if js = [] then 0 else Suc (Max (set (map json_depth js))))"
| "json_depth _ = 0"

text \<open>A signal without its path.\<close>

abbreviation unplaced :: "ThreatSignal \<Rightarrow> ThreatSignal" where
  "unplaced sig \<equiv> sig\<lparr>Context := []\<rparr>"

lemma set_AnalyzeCommand: "set (AnalyzeCommand v s) = (\<Union>d\<in>set (inputThreatDetectors v). set (Detect d s))"
  by (simp add: AnalyzeCommand_def)

lemma Detect_unplaced: "sig \<in> set (Detect d s) \<Longrightarrow> unplaced sig = sig"
  by (auto simp: Detect_def split: if_splits)

lemma analyze_string_unplaced: "map unplaced (analyze_string v path s) = AnalyzeCommand v s"
proof -
  have "map (unplaced \<circ> (\<lambda>sig. sig\<lparr>Context := path\<rparr>)) (Detect d s) = Detect d s" for d
    by (simp add: Detect_def)
  then show ?thesis
    by (simp add: analyze_string_def AnalyzeCommand_def map_concat comp_def)
qed

lemma Max_plus_le:
  fixes xs :: "nat list"
  assumes "xs \<noteq> []" and "\<And>x. x \<in> set xs \<Longrightarrow> x + k \<le> m"
  shows "Max (set xs) + k \<le> m"
  using assms by (intro assms(2) Max_in) simp_all

lemma json_depth_field: "(k, j) \<in> set kvs \<Longrightarrow> Suc (json_depth j) \<le> json_depth (JObject kvs)"
  by (auto intro!: Max_ge simp: image_iff)

lemma json_depth_element: "j \<in> set js \<Longrightarrow> Suc (json_depth j) \<le> json_depth (JArray js)"
  by (auto intro: Max_ge)

text \<open>The recursive analysis succeeds exactly on the values nested no deeper than the limit
  allows, and then reports, path aside, what the detectors report on each string inside.\<close>

lemma analyzeJSONRecursive_spec:
  "d + json_depth j \<le> m \<Longrightarrow>
     \<exists>sigs. analyzeJSONRecursive v j path d m = Inr sigs \<and>
            map unplaced sigs = concat (map (AnalyzeCommand v) (leaves j))"
  "(\<forall>(k, j)\<in>set kvs. d + json_depth j \<le> m) \<Longrightarrow>
     \<exists>sigs. analyzeFields v kvs path d m = Inr sigs \<and>
            map unplaced sigs = concat (map (AnalyzeCommand v) (concat (map (\<lambda>(k, j). leaves j) kvs)))"
  "(\<forall>j\<in>set js. d + json_depth j \<le> m) \<Longrightarrow>
     \<exists>sigs. analyzeElements v i js path d m = Inr sigs \<and>
            map unplaced sigs = concat (map (AnalyzeCommand v) (concat (map leaves js)))"
proof (induction v j path d m and v kvs path d m and v i js path d m
    rule: analyzeJSONRecursive_analyzeFields_analyzeElements.induct)
  case (1 v j path d m)
  then show ?case
  proof (cases j)
    case (JObject kvs)
    have "\<forall>(k, j)\<in>set kvs. Suc d + json_depth j \<le> m"
      using "1.prems" JObject json_depth_field[of _ _ kvs] by fastforce
    with "1.IH"(1) "1.prems" JObject show ?thesis by simp
  next
    case (JArray js)
    have "\<forall>j\<in>set js. Suc d + json_depth j \<le> m"
      using "1.prems" JArray json_depth_element[of _ js] by fastforce
    with "1.IH"(2) "1.prems" JArray show ?thesis by simp
  qed (simp_all add: analyze_string_unplaced)
qed (fastforce split: sum.splits)+

lemma analyzeJSONRecursive_depth:
  "analyzeJSONRecursive v j path d m = Inr sigs \<Longrightarrow> d + json_depth j \<le> m"
  "analyzeFields v kvs path d m = Inr sigs \<Longrightarrow> \<forall>(k, j)\<in>set kvs. d + json_depth j \<le> m"
  "analyzeElements v i js path d m = Inr sigs \<Longrightarrow> \<forall>j\<in>set js. d + json_depth j \<le> m"
proof (induction v j path d m and v kvs path d m and v i js path d m arbitrary: sigs and sigs and sigs
    rule: analyzeJSONRecursive_analyzeFields_analyzeElements.induct)
  case (1 v j path d m)
  then have dm: "d \<le> m" by (auto split: if_splits)
  show ?case
  proof (cases j)
    case (JObject kvs)
    with 1 dm have "\<forall>(k, j)\<in>set kvs. Suc d + json_depth j \<le> m" by simp
    then have "Max (set (map (\<lambda>(k, j). json_depth j) kvs)) + Suc d \<le> m" if "kvs \<noteq> []"
      using that by (intro Max_plus_le) auto
    with JObject dm show ?thesis by auto
  next
    case (JArray js)
    with 1 dm have "\<forall>j\<in>set js. Suc d + json_depth j \<le> m" by simp
    then have "Max (set (map json_depth js)) + Suc d \<le> m" if "js \<noteq> []"
      using that by (intro Max_plus_le) auto
    with JArray dm show ?thesis by auto
  qed (use dm in simp_all)
qed (fastforce split: sum.splits)+

lemma analyzeJSONRecursive_error:
  "analyzeJSONRecursive v j path d m = Inl e \<Longrightarrow> errors_Is e (Layer ErrGovernanceJSONDepthExceeded)"
  "analyzeFields v kvs path d m = Inl e \<Longrightarrow> errors_Is e (Layer ErrGovernanceJSONDepthExceeded)"
  "analyzeElements v i js path d m = Inl e \<Longrightarrow> errors_Is e (Layer ErrGovernanceJSONDepthExceeded)"
  by (induction v j path d m and v kvs path d m and v i js path d m arbitrary: e and e and e
      rule: analyzeJSONRecursive_analyzeFields_analyzeElements.induct)
    (auto split: if_splits json.splits sum.splits)

section \<open>The gate\<close>

text \<open>A string no blocking detector of the doctrine matches.\<close>

definition clean :: "L1Doctrine \<Rightarrow> string \<Rightarrow> bool" where
  "clean v s \<longleftrightarrow>
     list_all (\<lambda>d. \<not> (blockRecommended d \<and> MatchString (pattern d) s)) (inputThreatDetectors v)"

lemma block_signals_clean: "block_signals (AnalyzeCommand v s) = [] \<longleftrightarrow> clean v s"
  unfolding block_signals_def filter_empty_conv set_AnalyzeCommand clean_def list_all_iff
  by (auto simp: Detect_def split: if_splits)

lemma block_signals_unplaced:
  "block_signals sigs = [] \<longleftrightarrow> block_signals (map unplaced sigs) = []"
  by (auto simp: block_signals_def filter_empty_conv)

lemma block_signals_concat:
  "block_signals (concat (map (AnalyzeCommand v) ss)) = [] \<longleftrightarrow> list_all (clean v) ss"
  by (induction ss) (auto simp: block_signals_clean[symmetric] block_signals_def)

text \<open>The JSON text parses, is nested at most fifty deep and all its strings are clean.\<close>

definition clean_arguments :: "(string \<Rightarrow> json result) \<Rightarrow> L1Doctrine \<Rightarrow> string \<Rightarrow> bool" where
  "clean_arguments parse v s \<longleftrightarrow>
     (case parse s of Inl _ \<Rightarrow> False
      | Inr j \<Rightarrow> json_depth j \<le> 50 \<and> list_all (clean v) (leaves j))"

lemma argument_violations_clean:
  "argument_violations show_err f d (AnalyzeMCPArguments parse v s) = [] \<longleftrightarrow>
   clean_arguments parse v s"
proof (cases "parse s")
  case (Inl e)
  then show ?thesis by (simp add: argument_violations_def AnalyzeMCPArguments_def clean_arguments_def)
next
  case (Inr j)
  show ?thesis
  proof (cases "json_depth j \<le> 50")
    case True
    then obtain sigs where "analyzeJSONRecursive v j [] 0 50 = Inr sigs"
      and "map unplaced sigs = concat (map (AnalyzeCommand v) (leaves j))"
      using analyzeJSONRecursive_spec(1)[of 0 j 50] by auto
    with True Inr show ?thesis
      using block_signals_unplaced[of sigs]
      by (simp add: argument_violations_def AnalyzeMCPArguments_def clean_arguments_def
          block_signals_concat)
  next
    case False
    then obtain e where "analyzeJSONRecursive v j [] 0 50 = Inl e"
      using analyzeJSONRecursive_depth(1)[of v j "[]" 0 50]
      by (cases "analyzeJSONRecursive v j [] 0 50") auto
    with False Inr show ?thesis
      by (simp add: argument_violations_def AnalyzeMCPArguments_def clean_arguments_def)
  qed
qed

lemma ValidatePayload_clean_iff:
  "ValidatePayload show_err parse v msg = [] \<longleftrightarrow>
     field_violations msg = [] \<and>
     (if mtype msg = ''CommandRequested'' then clean v (mfields msg ''command'')
      else if mtype msg = ''McpCallRequested'' then clean_arguments parse v (mfields msg ''arguments_json'')
      else if mtype msg = ''A2ACallRequested'' then clean_arguments parse v (mfields msg ''payload_json'')
      else if mtype msg = ''FileEditRequested'' then
        \<not> isCriticalSystemFile (mfields msg ''file_path'') \<and>
        (mfields msg ''content'' = [] \<or> clean v (mfields msg ''content''))
      else True)"
proof -
  let ?t = "mtype msg"
  consider "?t = ''CommandRequested''" | "?t = ''McpCallRequested''" | "?t = ''A2ACallRequested''"
    | "?t = ''FileEditRequested''"
    | "?t \<noteq> ''CommandRequested''" "?t \<noteq> ''McpCallRequested''" "?t \<noteq> ''A2ACallRequested''"
      "?t \<noteq> ''FileEditRequested''"
    by blast
  then show ?thesis
    by cases (simp_all add: ValidatePayload_def threat_violations_def block_signals_clean
        argument_violations_clean)
qed


section \<open>Loaded doctrine only adds\<close>

lemma NewL1DoctrineFromDir_extends:
  assumes "NewL1DoctrineFromDir C parse compile readDir dir = Inr v"
  obtains ds where "inputThreatDetectors v = builtin_detectors @ ds"
  using assms that
  by (auto simp: NewL1DoctrineFromDir_def Let_def NewL1Doctrine_def setDoctrineBundleIdentity_def
      split: if_splits sum.splits)

text \<open>C15: Doctrine files can only tighten the gate. Whatever the directory, its files, the
  JSON decoder and the pattern compiler, a doctrine that loads keeps every built-in detector,
  so a payload it lets through is also let through by the built-in doctrine.\<close>

theorem doctrine_files_only_tighten:
  assumes "NewL1DoctrineFromDir C parseFile compile readDir dir = Inr v"
    and "ValidatePayload show_err parse v msg = []"
  shows "ValidatePayload show_err parse (NewL1Doctrine C) msg = []"
proof -
  obtain ds where ds: "inputThreatDetectors v = builtin_detectors @ ds"
    using assms(1) by (rule NewL1DoctrineFromDir_extends)
  have clean: "clean v s \<Longrightarrow> clean (NewL1Doctrine C) s" for s
    by (auto simp: clean_def ds NewL1Doctrine_def setDoctrineBundleIdentity_def)
  then have "clean_arguments parse v s \<Longrightarrow> clean_arguments parse (NewL1Doctrine C) s" for s
    by (auto simp: clean_arguments_def list_all_iff split: sum.splits)
  with clean assms(2) show ?thesis
    unfolding ValidatePayload_clean_iff by (auto split: if_splits)
qed

lemma NewL1Doctrine_dir_empty: "NewL1DoctrineFromDir C parse compile readDir [] = Inr (NewL1Doctrine C)"
  by (simp add: NewL1DoctrineFromDir_def Let_def)

definition heartbeat_message :: ProtoMessage where
  "heartbeat_message = \<lparr>mtype = ''HeartbeatRequested'', mfields = (\<lambda>_. [])\<rparr>"

lemma heartbeat_passes: "ValidatePayload show_err parse v heartbeat_message = []"
  by (simp add: ValidatePayload_clean_iff heartbeat_message_def field_violations_def forbidden_patterns_def)

theorem doctrine_files_only_tighten_witness:
  "NewL1DoctrineFromDir toy_crypto (\<lambda>_. Inl (Sentinel (Sys ErrInternal))) (\<lambda>_. Inl (Sentinel (Sys ErrInternal)))
     (\<lambda>_. Inr []) ''/doctrine'' =
     Inr (setDoctrineBundleIdentity toy_crypto (NewL1Doctrine toy_crypto) [] []) \<and>
   ValidatePayload (\<lambda>_. []) (\<lambda>_. Inr JNull) (NewL1Doctrine toy_crypto) heartbeat_message = []"
proof -
  have load: "NewL1DoctrineFromDir toy_crypto (\<lambda>_. Inl (Sentinel (Sys ErrInternal)))
     (\<lambda>_. Inl (Sentinel (Sys ErrInternal))) (\<lambda>_. Inr []) ''/doctrine'' =
     Inr (setDoctrineBundleIdentity toy_crypto (NewL1Doctrine toy_crypto) [] [])"
    by (simp add: NewL1DoctrineFromDir_def Let_def)
  from doctrine_files_only_tighten[OF load heartbeat_passes] load show ?thesis by blast
qed

section \<open>The bundle hash identifies the detectors\<close>

definition short_detector :: "InputThreatDetector \<Rightarrow> bool" where
  "short_detector d \<longleftrightarrow> list_all (\<lambda>s. length s < 2 ^ 64) (detector_values d) \<and>
     list_all (\<lambda>l. length l < 2 ^ 64 \<and> list_all (\<lambda>s. length s < 2 ^ 64) l)
       [ksiIDs d, controlIDs d, overlayIDs d]"

text \<open>What the identity keeps of a detector: its values and its identifier sets in order.\<close>

definition detector_fingerprint :: "InputThreatDetector \<Rightarrow> string list \<times> string list list" where
  "detector_fingerprint d = (detector_values d, map sort [ksiIDs d, controlIDs d, overlayIDs d])"

lemma detector_identity_delimits:
  assumes "short_detector d" and "short_detector d'"
    and "detector_identity d @ r = detector_identity d' @ s"
  shows "detector_fingerprint d = detector_fingerprint d' \<and> r = s"
proof -
  let ?cnt = "\<lambda>xs. be64 (length xs) @ concat (map lp64 xs)"
  let ?ids = "\<lambda>d. map sort [ksiIDs d, controlIDs d, overlayIDs d]"
  have eq: "concat (map lp64 (detector_values d)) @ (concat (map ?cnt (?ids d)) @ r) =
      concat (map lp64 (detector_values d')) @ (concat (map ?cnt (?ids d')) @ s)"
    using assms(3) by (simp add: detector_identity_def counted_values_def)
  have "detector_values d = detector_values d' \<and>
      concat (map ?cnt (?ids d)) @ r = concat (map ?cnt (?ids d')) @ s"
    by (rule self_delimiting_concat[OF self_delimiting_lp64 _ _ _ eq])
      (use assms(1,2) in \<open>auto simp: short_detector_def list_all_iff detector_values_def\<close>)
  then have vals: "detector_values d = detector_values d'"
    and ids: "concat (map ?cnt (?ids d)) @ r = concat (map ?cnt (?ids d')) @ s" by blast+
  have "?ids d = ?ids d' \<and> r = s"
    by (rule self_delimiting_concat[OF self_delimiting_counted64[OF self_delimiting_lp64] _ _ _ ids])
      (use assms(1,2) in \<open>auto simp: short_detector_def list_all_iff\<close>)
  with vals show ?thesis by (simp add: detector_fingerprint_def)
qed

lemma detectors_identity_delimit:
  assumes "length ds = length ds'" and "list_all short_detector ds" and "list_all short_detector ds'"
    and "concat (map detector_identity ds) @ r = concat (map detector_identity ds') @ s"
  shows "map detector_fingerprint ds = map detector_fingerprint ds' \<and> r = s"
  using assms
proof (induction ds ds' rule: list_induct2)
  case (Cons d ds d' ds')
  then have "detector_identity d @ (concat (map detector_identity ds) @ r) =
      detector_identity d' @ (concat (map detector_identity ds') @ s)" by simp
  from detector_identity_delimits[OF _ _ this] Cons show ?case by simp
qed simp

text \<open>The doctrine bundle hash identifies the bundle. Two doctrines with equally many
  detectors and equally many files, all texts shorter than 2^64 bytes, that report the same
  bundle hash have, detector by detector, the same name, pattern text, category, severity,
  confidence, MITRE references, recommendation, blocking flag and source, the same compliance
  identifiers up to order, and the same file names and contents.\<close>

theorem doctrine_bundle_hash_binds:
  assumes "collision_free C"
    and "doctrineBundleHash (setDoctrineBundleIdentity C v ms vs) =
         doctrineBundleHash (setDoctrineBundleIdentity C v' ms' vs')"
    and "length (inputThreatDetectors v) = length (inputThreatDetectors v')"
    and "length ms = length ms'"
    and "list_all short_detector (inputThreatDetectors v)"
    and "list_all short_detector (inputThreatDetectors v')"
    and "list_all (\<lambda>m. length m < 2 ^ 64) ms" and "list_all (\<lambda>m. length m < 2 ^ 64) ms'"
  shows "map detector_fingerprint (inputThreatDetectors v) =
         map detector_fingerprint (inputThreatDetectors v') \<and> ms = ms'"
proof -
  have "concat (map detector_identity (inputThreatDetectors v)) @ concat (map lp64 ms) =
      concat (map detector_identity (inputThreatDetectors v')) @ concat (map lp64 ms')"
    using assms(1,2)
    by (simp add: setDoctrineBundleIdentity_def sha256_hex_def hex_encode_inj collision_free_def
        inj_eq doctrine_identity_payload_def)
  from detectors_identity_delimit[OF assms(3,5,6) this]
  have fp: "map detector_fingerprint (inputThreatDetectors v) =
      map detector_fingerprint (inputThreatDetectors v')"
    and ms: "concat (map lp64 ms) @ [] = concat (map lp64 ms') @ []" by simp_all
  have "ms = ms'"
    using self_delimiting_concat[OF self_delimiting_lp64 assms(4) _ _ ms] assms(7,8)
    by (auto simp: list_all_iff)
  with fp show ?thesis by blast
qed

definition sample_doctrine :: L1Doctrine where
  "sample_doctrine =
     \<lparr>inputThreatDetectors = [builtin ''no_mkfs'' \<lparr>fold_case = True, body = Str ''mkfs''\<rparr>
        ThreatCategoryDataDestruction ThreatSeverityCritical ''0.9'' ''T1561'' ''Impact'' ''BLOCK''],
      doctrineBundleHash = [], doctrineBundleVersion = []\<rparr>"

lemma short_sample: "list_all short_detector (inputThreatDetectors sample_doctrine)"
  by (simp add: sample_doctrine_def short_detector_def detector_values_def builtin_def
      regexp_String_def Str_def FormatBool_def)

theorem doctrine_bundle_hash_binds_witness:
  "map detector_fingerprint (inputThreatDetectors sample_doctrine) =
   map detector_fingerprint (inputThreatDetectors (sample_doctrine\<lparr>doctrineBundleVersion := ''x''\<rparr>)) \<and>
   [''f'', ''data''] = [''f'', ''data'']"
  by (rule doctrine_bundle_hash_binds[of toy_crypto _ _ "[]" _ _ "[''v'']"])
    (use short_sample in \<open>simp_all add: setDoctrineBundleIdentity_def\<close>)

section \<open>Critical files\<close>

text \<open>The critical-file check guards names, not files. It refuses every path below a
  critical directory (and not the directories whose names merely start alike), but it compares
  the path as text: an equivalent spelling of a guarded file with a doubled separator or a
  parent reference passes.\<close>

theorem critical_file_names_only:
  "list_all (\<lambda>dir. isCriticalSystemFile (dir @ ''/'' @ rest)) CriticalSystemDirs \<and>
   isCriticalSystemFile ''/etc/passwd'' \<and> isCriticalSystemFile ''/etc/sudoers.d/x'' \<and>
   \<not> isCriticalSystemFile ''/binaries/x'' \<and>
   \<not> isCriticalSystemFile ''/etc//passwd'' \<and>
   \<not> isCriticalSystemFile ''/etc/../etc/passwd'' \<and>
   \<not> isCriticalSystemFile ''/tmp/../bin/sh''"
proof -
  have "list_all (\<lambda>dir. isCriticalSystemFile (dir @ ''/'' @ rest)) CriticalSystemDirs"
    unfolding isCriticalSystemFile_def list_all_iff list_ex_iff HasPrefix_def
    by (intro ballI disjI2 bexI) (auto simp: nth_append)
  moreover have "isCriticalSystemFile ''/etc/passwd''" by code_simp
  moreover have "isCriticalSystemFile ''/etc/sudoers.d/x''" by code_simp
  moreover have "\<not> isCriticalSystemFile ''/binaries/x''" by code_simp
  moreover have "\<not> isCriticalSystemFile ''/etc//passwd''" by code_simp
  moreover have "\<not> isCriticalSystemFile ''/etc/../etc/passwd''" by code_simp
  moreover have "\<not> isCriticalSystemFile ''/tmp/../bin/sh''" by code_simp
  ultimately show ?thesis by blast
qed

end
