(* ===== verification/Signers.thy ===== *)
theory Signers
  imports Doctrine
begin

text \<open>
  Trusted L2 signers: the interface \<open>SignerStore\<close> of \<open>signer_store.go\<close> as a
  locale, with its implementations \<open>FailClosedSignerStore\<close>,
  \<open>FilesystemSignerStore\<close> and the gateway's \<open>SignerStoreService\<close>
  (\<open>gateway/signer_store_service.go\<close>). A missing key is \<open>None\<close>. Directory
  contents are arguments of the loader; the gateway's document collection is a map from
  signer IDs to records, with the error of a failing read as an argument.
\<close>

section \<open>Static and filesystem stores\<close>

type_synonym signer_keys = "string \<rightharpoonup> bytes"

definition FailClosed_GetTrustedSigner :: "signer_keys option \<Rightarrow> string \<Rightarrow> bytes option result" where
  "FailClosed_GetTrustedSigner signers keyID =
     (case signers of None \<Rightarrow> Inr None | Some m \<Rightarrow> Inr (m keyID))"

definition unicode_space :: "nat \<Rightarrow> bool" where
  "unicode_space r \<longleftrightarrow> (9 \<le> r \<and> r \<le> 13) \<or> r \<in> set [32, 133, 160, 5760, 8232, 8233, 8239, 8287, 12288]
     \<or> (8192 \<le> r \<and> r \<le> 8202)"

definition trim_space :: "nat list \<Rightarrow> nat list" where
  "trim_space rs = rev (dropWhile unicode_space (rev (dropWhile unicode_space rs)))"

text \<open>\<open>hex.DecodeString(strings.TrimSpace(string(data)))\<close>: a rune outside ASCII that is
  not trimmed is no hexadecimal digit.\<close>

definition decode_trimmed_hex :: "bytes \<Rightarrow> bytes option" where
  "decode_trimmed_hex data =
     (let rs = trim_space (runes data) in
      if list_all (\<lambda>r. r < 128) rs then hex_DecodeString (map char_of rs) else None)"

abbreviation PublicKeySize :: nat where "PublicKeySize \<equiv> 32"

fun load_signers :: "dir_entry list \<Rightarrow> signer_keys \<Rightarrow> signer_keys" where
  "load_signers [] m = m"
| "load_signers (entry # es) m =
     (if IsDir entry \<or> \<not> HasSuffix (entryName entry) ''.pub'' then load_signers es m
      else
        (let keyID = take (length (entryName entry) - 4) (entryName entry) in
         case contents entry of
           Inl _ \<Rightarrow> load_signers es m
         | Inr data \<Rightarrow>
            (case decode_trimmed_hex data of
               None \<Rightarrow> load_signers es m
             | Some pk \<Rightarrow>
                 if length pk \<noteq> PublicKeySize then load_signers es m
                 else load_signers es (m(keyID \<mapsto> pk)))))"

definition NewFilesystemSignerStore ::
  "(string \<Rightarrow> dir_entry list result) option \<Rightarrow> string \<Rightarrow> signer_keys result" where
  "NewFilesystemSignerStore fileSvc relDir =
     (case fileSvc of
        None \<Rightarrow> Inl (wrap ''trusted signers: %w'' (Sys ErrMissingRequiredField) [])
      | Some readDir \<Rightarrow>
          if relDir = '''' then Inl (wrap ''trusted signers: %w'' (Sys ErrMissingRequiredField) [])
          else case readDir relDir of
            Inl err \<Rightarrow> Inl (Errorf ''failed to read trusted signers directory %s: %w'' [relDir] [err])
          | Inr entries \<Rightarrow> Inr (load_signers entries Map.empty))"

definition Filesystem_GetTrustedSigner :: "signer_keys \<Rightarrow> string \<Rightarrow> bytes option result" where
  "Filesystem_GetTrustedSigner signers keyID = Inr (signers keyID)"

section \<open>The gateway's store\<close>

record TrustedSigner =
  SignerPublicKey :: string
  AddedAt :: time
  SignerEnabled :: bool

type_synonym signer_docs = "string \<rightharpoonup> TrustedSigner result"

text \<open>A document that does not decode into a signer is an error entry.\<close>

definition Gateway_GetTrustedSigner ::
  "gov_error option \<Rightarrow> signer_docs \<Rightarrow> string \<Rightarrow> bytes option result" where
  "Gateway_GetTrustedSigner db_err docs keyID =
     (case db_err of
        Some err \<Rightarrow> Inl (wrap ''%w: %s'' (Sys ErrDocumentStoreUnmarshalData) [keyID])
      | None \<Rightarrow>
         (case docs keyID of
            None \<Rightarrow>
              if length keyID = 2 * PublicKeySize then
                (case hex_DecodeString keyID of
                   Some pubBytes \<Rightarrow> if length pubBytes = PublicKeySize then Inr (Some pubBytes) else Inr None
                 | None \<Rightarrow> Inr None)
              else Inr None
          | Some (Inl err) \<Rightarrow> Inl err
          | Some (Inr signer) \<Rightarrow>
              if \<not> SignerEnabled signer then Inr None
              else case hex_DecodeString (SignerPublicKey signer) of
                None \<Rightarrow> Inl (wrap ''%w: %v'' (Sys ErrValidationFailed) [SignerPublicKey signer])
              | Some pubBytes \<Rightarrow>
                  if length pubBytes \<noteq> PublicKeySize
                  then Inl (wrap ''%w: invalid public key size: %d'' (Sys ErrValidationFailed) [decimal_nat (length pubBytes)])
                  else Inr (Some pubBytes)))"

definition AddTrustedSigner ::
  "gov_error option \<Rightarrow> time \<Rightarrow> signer_docs \<Rightarrow> string \<Rightarrow> TrustedSigner \<Rightarrow> unit result \<times> signer_docs" where
  "AddTrustedSigner db_err now docs signerID signer =
     (if signerID = '''' then (Inl (wrap ''%w: signer ID'' (Sys ErrMissingRequiredField) []), docs)
      else if SignerPublicKey signer = ''''
      then (Inl (wrap ''%w: signer public key'' (Sys ErrMissingRequiredField) []), docs)
      else
        (let signer' = (if AddedAt signer = 0 then signer\<lparr>AddedAt := now\<rparr> else signer) in
         case db_err of
           Some err \<Rightarrow> (Inl err, docs)
         | None \<Rightarrow> (Inr (), docs(signerID \<mapsto> Inr signer'))))"

definition DeleteTrustedSigner ::
  "gov_error option \<Rightarrow> signer_docs \<Rightarrow> string \<Rightarrow> bool result \<times> signer_docs" where
  "DeleteTrustedSigner db_err docs keyID =
     (case db_err of
        Some err \<Rightarrow> (Inl err, docs)
      | None \<Rightarrow> (Inr (docs keyID \<noteq> None), docs(keyID := None)))"

section \<open>The contract\<close>

text \<open>\<open>ed25519.Verify\<close> must be given a key of 32 bytes; a store in a well-formed state
  hands out no other.\<close>

locale signer_store =
  fixes lookup :: "'s \<Rightarrow> string \<Rightarrow> bytes option result"
    and wf :: "'s \<Rightarrow> bool"
  assumes key_size: "wf s \<Longrightarrow> lookup s k = Inr (Some pk) \<Longrightarrow> length pk = PublicKeySize"
begin

definition trusted :: "'s \<Rightarrow> string \<Rightarrow> bytes \<Rightarrow> bool" where
  "trusted s k pk \<longleftrightarrow> lookup s k = Inr (Some pk)"

lemma trusted_size: "wf s \<Longrightarrow> trusted s k pk \<Longrightarrow> length pk = PublicKeySize"
  by (auto simp: trusted_def dest: key_size)

lemma trusted_unique: "trusted s k pk \<Longrightarrow> trusted s k pk' \<Longrightarrow> pk = pk'"
  by (simp add: trusted_def)

end

definition sized_keys :: "signer_keys \<Rightarrow> bool" where
  "sized_keys m \<longleftrightarrow> (\<forall>k pk. m k = Some pk \<longrightarrow> length pk = PublicKeySize)"

lemma sized_keys_upd: "sized_keys m \<Longrightarrow> length pk = PublicKeySize \<Longrightarrow> sized_keys (m(k \<mapsto> pk))"
  by (auto simp: sized_keys_def)

lemma load_signers_sized: "sized_keys m \<Longrightarrow> sized_keys (load_signers es m)"
proof (induction es arbitrary: m)
  case (Cons e es)
  from Cons.prems show ?case
    by (auto simp: Let_def split: sum.split option.split intro!: Cons.IH sized_keys_upd)
qed simp

text \<open>The constructor establishes the state invariant whatever the files contain.\<close>

lemma NewFilesystemSignerStore_wf:
  assumes "NewFilesystemSignerStore svc dir = Inr m"
  shows "sized_keys m"
proof -
  have "sized_keys Map.empty" by (simp add: sized_keys_def)
  with assms show ?thesis
    by (auto simp: NewFilesystemSignerStore_def load_signers_sized
        split: option.splits if_splits sum.splits)
qed

interpretation fs_signers: signer_store Filesystem_GetTrustedSigner sized_keys
  by unfold_locales (simp add: Filesystem_GetTrustedSigner_def sized_keys_def)

interpretation static_signers:
  signer_store FailClosed_GetTrustedSigner "\<lambda>s. case s of None \<Rightarrow> True | Some m \<Rightarrow> sized_keys m"
  by unfold_locales (auto simp: FailClosed_GetTrustedSigner_def sized_keys_def split: option.splits)

interpretation gw_signers: signer_store "Gateway_GetTrustedSigner db_err" "\<lambda>_. True"
  by unfold_locales
    (auto simp: Gateway_GetTrustedSigner_def split: option.splits sum.splits if_splits)

text \<open>A trusted signer that is deleted from the gateway stays trusted when its ID is the
  hexadecimal form of a 32-byte key: without a record, the lookup takes such an ID as the key
  itself, so removing the record of that signer restores rather than revokes it.\<close>

theorem deleted_hex_signer_still_trusted:
  assumes "length pk = PublicKeySize"
  shows "Gateway_GetTrustedSigner None
     (snd (DeleteTrustedSigner None docs (hex_EncodeToString pk))) (hex_EncodeToString pk) = Inr (Some pk)"
  using assms by (simp add: Gateway_GetTrustedSigner_def DeleteTrustedSigner_def)

theorem deleted_hex_signer_still_trusted_witness:
  "Gateway_GetTrustedSigner None
     (snd (DeleteTrustedSigner None Map.empty (hex_EncodeToString (replicate 32 (CHR ''k'')))))
     (hex_EncodeToString (replicate 32 (CHR ''k''))) = Inr (Some (replicate 32 (CHR ''k'')))"
  by (rule deleted_hex_signer_still_trusted) simp

end
