(* ===== verification/Replay_Store.thy ===== *)
theory Replay_Store
  imports Envelope
begin

text \<open>
  Nonce replay protection: the interface \<open>ReplayStore\<close> of
  \<open>services/governance/replay_store.go\<close> as a locale, and its two implementations,
  \<open>SQLReplayStore\<close> (\<open>services/storage/replay_store.go\<close>, operator side) and
  \<open>ReplayStoreService\<close> (\<open>services/gateway/replay_store_service.go\<close>). A table is a
  map from its primary key to the row. Timestamps are stored and compared as text, as SQLite
  does. The environment of a call gives the clock at each point where the code reads it and
  the error of each statement that fails for a reason other than its own constraints.
\<close>

section \<open>Environment\<close>

record store_env =
  clock_at :: "nat \<Rightarrow> time"
  fault_at :: "nat \<Rightarrow> gov_error option"
  error_text :: "gov_error \<Rightarrow> string"

definition containsString :: "string \<Rightarrow> string \<Rightarrow> bool" where
  "containsString s sub = list_ex (\<lambda>i. take (length sub) (drop i s) = sub) [0..<Suc (length s)]"

abbreviation status_reserved :: string where "status_reserved \<equiv> ''reserved''"
abbreviation status_used :: string where "status_used \<equiv> ''used''"

text \<open>\<open>DELETE FROM t WHERE p\<close>.\<close>

definition delete_where :: "('r \<Rightarrow> bool) \<Rightarrow> (string \<rightharpoonup> 'r) \<Rightarrow> (string \<rightharpoonup> 'r)" where
  "delete_where p t = (\<lambda>k. case t k of None \<Rightarrow> None | Some r \<Rightarrow> if p r then None else Some r)"

section \<open>The operator's store\<close>

record NonceRow =
  ReservedAt :: string
  UsedAt :: "string option"
  RowExpiresAt :: string
  Status :: string

type_synonym nonce_usage = "string \<rightharpoonup> NonceRow"

definition cleanupExpiredNonces :: "store_env \<Rightarrow> nonce_usage \<Rightarrow> unit result \<times> nonce_usage" where
  "cleanupExpiredNonces E t =
     (case fault_at E 0 of
        Some err \<Rightarrow> (Inl (Errorf ''failed to delete expired nonces: %w'' [] [err]), t)
      | None \<Rightarrow> (Inr (), delete_where (\<lambda>r. RowExpiresAt r < FormatTimestamp (clock_at E 0)) t))"

definition ReserveNonce :: "store_env \<Rightarrow> nonce_usage \<Rightarrow> string \<Rightarrow> time \<Rightarrow> bool result \<times> nonce_usage" where
  "ReserveNonce E t nonce expiresAt =
     (case cleanupExpiredNonces E t of
        (Inl err, t1) \<Rightarrow> (Inl (Errorf ''nonce cleanup failed: %w'' [] [err]), t1)
      | (Inr _, t1) \<Rightarrow>
         (case fault_at E 1 of
            Some err \<Rightarrow>
              if containsString (error_text E err) ''UNIQUE constraint failed'' \<or>
                 containsString (error_text E err) ''constraint failed''
              then (Inr True, t1)
              else (Inl (Errorf ''failed to reserve nonce: %w'' [] [err]), t1)
          | None \<Rightarrow>
              (case t1 nonce of
                 Some _ \<Rightarrow> (Inr True, t1)
               | None \<Rightarrow>
                  (Inr False,
                   t1(nonce \<mapsto> \<lparr>ReservedAt = FormatTimestamp (clock_at E 1), UsedAt = None,
                       RowExpiresAt = FormatTimestamp expiresAt, Status = status_reserved\<rparr>)))))"

definition FinalizeNonce :: "store_env \<Rightarrow> nonce_usage \<Rightarrow> string \<Rightarrow> unit result \<times> nonce_usage" where
  "FinalizeNonce E t nonce =
     (case fault_at E 0 of
        Some err \<Rightarrow> (Inl (Errorf ''failed to finalize nonce: %w'' [] [err]), t)
      | None \<Rightarrow>
         (case t nonce of
            Some r \<Rightarrow>
              if Status r = status_reserved then
                (Inr (), t(nonce \<mapsto> r\<lparr>UsedAt := Some (FormatTimestamp (clock_at E 0)),
                                      Status := status_used\<rparr>))
              else (Inl (Errorf ''nonce not found or not in reserved state: %s'' [nonce] []), t)
          | None \<Rightarrow> (Inl (Errorf ''nonce not found or not in reserved state: %s'' [nonce] []), t)))"

definition ReleaseNonce :: "store_env \<Rightarrow> nonce_usage \<Rightarrow> string \<Rightarrow> unit result \<times> nonce_usage" where
  "ReleaseNonce E t nonce =
     (case fault_at E 0 of
        Some err \<Rightarrow> (Inl (Errorf ''failed to release nonce: %w'' [] [err]), t)
      | None \<Rightarrow>
         (case t nonce of
            Some r \<Rightarrow> if Status r = status_reserved then (Inr (), t(nonce := None)) else (Inr (), t)
          | None \<Rightarrow> (Inr (), t)))"

definition CleanupStaleReserved :: "store_env \<Rightarrow> nonce_usage \<Rightarrow> int \<Rightarrow> unit result \<times> nonce_usage" where
  "CleanupStaleReserved E t maxReservedDuration =
     (let cutoffStr = FormatTimestamp (clock_at E 0 - maxReservedDuration) in
      case fault_at E 0 of
        Some err \<Rightarrow> (Inl (Errorf ''failed to delete stale reserved nonces: %w'' [] [err]), t)
      | None \<Rightarrow> (Inr (), delete_where (\<lambda>r. Status r = status_reserved \<and> ReservedAt r < cutoffStr) t))"

text \<open>\<open>AddDate(0, 0, -days)\<close> moves a UTC instant by whole days. A row that was never
  used has a NULL \<open>used_at\<close> and is kept.\<close>

definition Prune :: "store_env \<Rightarrow> nonce_usage \<Rightarrow> int \<Rightarrow> unit result \<times> nonce_usage" where
  "Prune E t retentionDays =
     (let cutoffStr = FormatTimestamp (clock_at E 0 - retentionDays * 86400000000000) in
      case fault_at E 0 of
        Some err \<Rightarrow> (Inl (Errorf ''failed to prune nonce_usage: %w'' [] [err]), t)
      | None \<Rightarrow> (Inr (), delete_where (\<lambda>r. case UsedAt r of None \<Rightarrow> False | Some u \<Rightarrow> u < cutoffStr) t))"

section \<open>The gateway's store\<close>

record gw_nonce_row =
  gwExpiresAt :: string
  gwStatus :: string

type_synonym gw_nonces = "string \<rightharpoonup> gw_nonce_row"

text \<open>The two statements of the gateway's \<open>ReserveNonce\<close>, between which other callers
  may run, and the whole method without interference.\<close>

definition gw_select :: "store_env \<Rightarrow> gw_nonces \<Rightarrow> string \<Rightarrow> bool option result" where
  "gw_select E t nonce =
     (case fault_at E 0 of
        Some err \<Rightarrow> Inl err
      | None \<Rightarrow> (case t nonce of Some _ \<Rightarrow> Inr (Some True) | None \<Rightarrow> Inr None))"

definition gw_insert :: "store_env \<Rightarrow> gw_nonces \<Rightarrow> string \<Rightarrow> time \<Rightarrow> bool result \<times> gw_nonces" where
  "gw_insert E t nonce expiresAt =
     (case fault_at E 1 of
        Some err \<Rightarrow> (Inl err, t)
      | None \<Rightarrow>
         (case t nonce of
            Some _ \<Rightarrow> (Inr True, t)
          | None \<Rightarrow>
             (Inr False, t(nonce \<mapsto> \<lparr>gwExpiresAt = FormatTimestamp expiresAt,
                                     gwStatus = status_reserved\<rparr>))))"

definition gw_ReserveNonce :: "store_env \<Rightarrow> gw_nonces \<Rightarrow> string \<Rightarrow> time \<Rightarrow> bool result \<times> gw_nonces" where
  "gw_ReserveNonce E t nonce expiresAt =
     (case gw_select E t nonce of
        Inl err \<Rightarrow> (Inl err, t)
      | Inr (Some b) \<Rightarrow> (Inr b, t)
      | Inr None \<Rightarrow> gw_insert E t nonce expiresAt)"

definition gw_FinalizeNonce :: "store_env \<Rightarrow> gw_nonces \<Rightarrow> string \<Rightarrow> unit result \<times> gw_nonces" where
  "gw_FinalizeNonce E t nonce =
     (case fault_at E 0 of
        Some err \<Rightarrow> (Inl (Errorf ''finalize nonce: %w'' [] [err]), t)
      | None \<Rightarrow>
         (case t nonce of
            Some r \<Rightarrow> if gwStatus r = status_reserved then (Inr (), t(nonce \<mapsto> r\<lparr>gwStatus := status_used\<rparr>))
                      else (Inr (), t)
          | None \<Rightarrow> (Inr (), t)))"

definition gw_ReleaseNonce :: "store_env \<Rightarrow> gw_nonces \<Rightarrow> string \<Rightarrow> unit result \<times> gw_nonces" where
  "gw_ReleaseNonce E t nonce =
     (case fault_at E 0 of
        Some err \<Rightarrow> (Inl (Errorf ''release nonce: %w'' [] [err]), t)
      | None \<Rightarrow>
         (case t nonce of
            Some r \<Rightarrow> if gwStatus r = status_reserved then (Inr (), t(nonce := None)) else (Inr (), t)
          | None \<Rightarrow> (Inr (), t)))"

definition gw_CleanupExpiredNonces :: "store_env \<Rightarrow> gw_nonces \<Rightarrow> unit result \<times> gw_nonces" where
  "gw_CleanupExpiredNonces E t =
     (case fault_at E 0 of
        Some err \<Rightarrow> (Inl (Errorf ''cleanup expired nonces: %w'' [] [err]), t)
      | None \<Rightarrow> (Inr (), delete_where (\<lambda>r. gwExpiresAt r < FormatTimestamp (clock_at E 0)) t))"

section \<open>The contract\<close>

text \<open>Operations that other callers perform on a store, and their effect in sequence.\<close>

datatype store_op =
    OpReserve store_env string time
  | OpFinalize store_env string
  | OpRelease store_env string

fun run_ops ::
  "(store_env \<Rightarrow> 's \<Rightarrow> string \<Rightarrow> time \<Rightarrow> bool result \<times> 's) \<Rightarrow>
   (store_env \<Rightarrow> 's \<Rightarrow> string \<Rightarrow> unit result \<times> 's) \<Rightarrow>
   (store_env \<Rightarrow> 's \<Rightarrow> string \<Rightarrow> unit result \<times> 's) \<Rightarrow> 's \<Rightarrow> store_op list \<Rightarrow> 's" where
  "run_ops reserve finalise release s [] = s"
| "run_ops reserve finalise release s (OpReserve E n x # ops) =
     run_ops reserve finalise release (snd (reserve E s n x)) ops"
| "run_ops reserve finalise release s (OpFinalize E n # ops) =
     run_ops reserve finalise release (snd (finalise E s n)) ops"
| "run_ops reserve finalise release s (OpRelease E n # ops) =
     run_ops reserve finalise release (snd (release E s n)) ops"

text \<open>Operations that leave the reservation of nonce \<open>n\<close> with expiry \<open>t\<close> in place.\<close>

fun permitted :: "(store_env \<Rightarrow> string \<Rightarrow> bool) \<Rightarrow> string \<Rightarrow> string \<Rightarrow> store_op \<Rightarrow> bool" where
  "permitted survives n t (OpReserve E m x) = survives E t"
| "permitted survives n t (OpFinalize E m) = True"
| "permitted survives n t (OpRelease E m) = (m \<noteq> n)"

text \<open>What a client may rely on. \<open>held s n\<close> is the expiry text under which the store
  keeps nonce \<open>n\<close>; \<open>survives E x\<close> says that a nonce kept under \<open>x\<close> is not
  expired out of the table by a reservation made in environment \<open>E\<close>.\<close>

locale replay_store =
  fixes reserve :: "store_env \<Rightarrow> 's \<Rightarrow> string \<Rightarrow> time \<Rightarrow> bool result \<times> 's"
    and finalise :: "store_env \<Rightarrow> 's \<Rightarrow> string \<Rightarrow> unit result \<times> 's"
    and release :: "store_env \<Rightarrow> 's \<Rightarrow> string \<Rightarrow> unit result \<times> 's"
    and held :: "'s \<Rightarrow> string \<Rightarrow> string option"
    and survives :: "store_env \<Rightarrow> string \<Rightarrow> bool"
  assumes reserve_fresh:
      "reserve E s n x = (Inr False, s') \<Longrightarrow> held s' n = Some (FormatTimestamp x)"
    and reserve_held:
      "held s n = Some t \<Longrightarrow> survives E t \<Longrightarrow> fst (reserve E s n x) \<noteq> Inr False"
    and reserve_keeps:
      "held s m = Some t \<Longrightarrow> survives E t \<Longrightarrow> held (snd (reserve E s n x)) m = Some t"
    and finalise_keeps: "held (snd (finalise E s n)) m = held s m"
    and release_keeps: "m \<noteq> n \<Longrightarrow> held (snd (release E s n)) m = held s m"
begin

lemma run_ops_keep_held:
  "list_all (permitted survives n t) ops \<Longrightarrow> held s n = Some t \<Longrightarrow>
   held (run_ops reserve finalise release s ops) n = Some t"
  by (induction ops arbitrary: s)
    (auto simp: reserve_keeps finalise_keeps release_keeps elim!: permitted.elims)

text \<open>A nonce that was reserved, not released since and not expired is refused.\<close>

lemma no_second_reservation:
  assumes "reserve E s n x = (Inr False, s1)"
    and "list_all (permitted survives n (FormatTimestamp x)) ops"
    and "survives E' (FormatTimestamp x)"
  shows "fst (reserve E' (run_ops reserve finalise release s1 ops) n y) \<noteq> Inr False"
  using reserve_held[OF run_ops_keep_held[OF assms(2) reserve_fresh[OF assms(1)]] assms(3)] .

end

section \<open>The contract holds of the operator's store\<close>

lemma delete_where_apply:
  "delete_where p t k = (case t k of None \<Rightarrow> None | Some r \<Rightarrow> if p r then None else Some r)"
  by (simp add: delete_where_def)

definition sql_held :: "nonce_usage \<Rightarrow> string \<Rightarrow> string option" where
  "sql_held t n = map_option RowExpiresAt (t n)"

text \<open>A reservation first deletes the rows that expired before the clock it reads.\<close>

definition sql_survives :: "store_env \<Rightarrow> string \<Rightarrow> bool" where
  "sql_survives E x \<longleftrightarrow> \<not> x < FormatTimestamp (clock_at E 0)"

lemmas sql_store_defs = ReserveNonce_def cleanupExpiredNonces_def FinalizeNonce_def ReleaseNonce_def
  sql_held_def sql_survives_def delete_where_apply

interpretation sql: replay_store ReserveNonce FinalizeNonce ReleaseNonce sql_held sql_survives
proof unfold_locales
  show "\<And>E s n x s'. ReserveNonce E s n x = (Inr False, s') \<Longrightarrow> sql_held s' n = Some (FormatTimestamp x)"
    by (auto simp: sql_store_defs split: option.splits if_splits)
  show "\<And>s n t E x. sql_held s n = Some t \<Longrightarrow> sql_survives E t \<Longrightarrow> fst (ReserveNonce E s n x) \<noteq> Inr False"
    by (auto simp: sql_store_defs split: option.splits)
  show "\<And>s m t E n x. sql_held s m = Some t \<Longrightarrow> sql_survives E t \<Longrightarrow>
      sql_held (snd (ReserveNonce E s n x)) m = Some t"
    by (auto simp: sql_store_defs split: option.splits)
  show "\<And>E s n m. sql_held (snd (FinalizeNonce E s n)) m = sql_held s m"
    by (auto simp: sql_store_defs split: option.splits)
  show "\<And>m n E s. m \<noteq> n \<Longrightarrow> sql_held (snd (ReleaseNonce E s n)) m = sql_held s m"
    by (auto simp: sql_store_defs split: option.splits)
qed

section \<open>The contract holds of the gateway's store\<close>

definition gw_held :: "gw_nonces \<Rightarrow> string \<Rightarrow> string option" where
  "gw_held t n = map_option gwExpiresAt (t n)"

definition gw_survives :: "store_env \<Rightarrow> string \<Rightarrow> bool" where
  "gw_survives E x \<longleftrightarrow> True"

lemmas gw_store_defs = gw_ReserveNonce_def gw_select_def gw_insert_def gw_FinalizeNonce_def
  gw_ReleaseNonce_def gw_held_def gw_survives_def

interpretation gw: replay_store gw_ReserveNonce gw_FinalizeNonce gw_ReleaseNonce gw_held gw_survives
  by unfold_locales (auto simp: gw_store_defs split: option.splits if_splits)

section \<open>Single use of a nonce\<close>

text \<open>The store reads its clock no later than instant \<open>x\<close>.\<close>

definition clock_until :: "time \<Rightarrow> store_env \<Rightarrow> string \<Rightarrow> bool" where
  "clock_until x E t \<longleftrightarrow> four_digit_year (clock_at E 0) \<and> clock_at E 0 \<le> x"

lemma clock_until_survives:
  "four_digit_year x \<Longrightarrow> clock_until x E t \<Longrightarrow> sql_survives E (FormatTimestamp x)"
  by (auto simp: clock_until_def sql_survives_def not_less FormatTimestamp_le_iff zdiv_mono1)

lemma permitted_mono:
  "(\<And>E. P E t \<Longrightarrow> Q E t) \<Longrightarrow> permitted P n t op \<Longrightarrow> permitted Q n t op"
  by (cases op) auto


definition calm_env :: store_env where
  "calm_env = \<lparr>clock_at = (\<lambda>_. 0), fault_at = (\<lambda>_. None), error_text = (\<lambda>_. [])\<rparr>"


text \<open>On the gateway a reserved nonce stays refused until it is released or the separate
  cleanup removes it: no sequence of reservations, finalisations and releases of other nonces
  makes a second reservation succeed, whatever the clock reads and whichever statements
  fail.\<close>

theorem gateway_nonce_single_use:
  assumes "gw_ReserveNonce E t n x = (Inr False, t1)"
    and "list_all (permitted (\<lambda>_ _. True) n (FormatTimestamp x)) ops"
  shows "fst (gw_ReserveNonce E' (run_ops gw_ReserveNonce gw_FinalizeNonce gw_ReleaseNonce t1 ops) n y)
    \<noteq> Inr False"
proof (rule gw.no_second_reservation[OF assms(1)])
  show "list_all (permitted gw_survives n (FormatTimestamp x)) ops"
    using assms(2) permitted_mono[of "\<lambda>_ _. True" "FormatTimestamp x" gw_survives n]
    by (auto simp: list_all_iff gw_survives_def)
qed (simp add: gw_survives_def)

theorem gateway_nonce_single_use_witness:
  "fst (gw_ReserveNonce calm_env Map.empty ''n'' 5) = Inr False \<and>
   fst (gw_ReserveNonce calm_env (run_ops gw_ReserveNonce gw_FinalizeNonce gw_ReleaseNonce
      (snd (gw_ReserveNonce calm_env Map.empty ''n'' 5)) [OpReserve calm_env ''m'' 9]) ''n'' 7) \<noteq> Inr False"
proof -
  have r: "gw_ReserveNonce calm_env Map.empty ''n'' 5 =
      (Inr False, snd (gw_ReserveNonce calm_env Map.empty ''n'' 5))"
    by (simp add: gw_store_defs calm_env_def)
  have "fst (gw_ReserveNonce calm_env (run_ops gw_ReserveNonce gw_FinalizeNonce gw_ReleaseNonce
      (snd (gw_ReserveNonce calm_env Map.empty ''n'' 5)) [OpReserve calm_env ''m'' 9]) ''n'' 7) \<noteq> Inr False"
    by (rule gateway_nonce_single_use[OF r]) simp
  moreover have "fst (gw_ReserveNonce calm_env Map.empty ''n'' 5) = Inr False" by (subst r) simp
  ultimately show ?thesis by blast
qed

section \<open>Concurrent reservations on the gateway\<close>

text \<open>The gateway's method is a lookup followed by an insertion, two statements between
  which other requests run. Each caller \<open>c\<close> wants nonce \<open>nonce_of c\<close>; a step is one
  statement of one caller.\<close>

datatype gw_pc = Start | Checked | Returned "bool result"

inductive gw_step ::
  "('c \<Rightarrow> string) \<Rightarrow> ('c \<Rightarrow> time) \<Rightarrow> gw_nonces \<times> ('c \<Rightarrow> gw_pc) \<Rightarrow> gw_nonces \<times> ('c \<Rightarrow> gw_pc) \<Rightarrow> bool"
  for nonce_of expiry_of where
  look_miss: "pc c = Start \<Longrightarrow> gw_select E t (nonce_of c) = Inr None \<Longrightarrow>
     gw_step nonce_of expiry_of (t, pc) (t, pc(c := Checked))"
| look_hit: "pc c = Start \<Longrightarrow> gw_select E t (nonce_of c) = Inr (Some b) \<Longrightarrow>
     gw_step nonce_of expiry_of (t, pc) (t, pc(c := Returned (Inr b)))"
| look_fail: "pc c = Start \<Longrightarrow> gw_select E t (nonce_of c) = Inl err \<Longrightarrow>
     gw_step nonce_of expiry_of (t, pc) (t, pc(c := Returned (Inl err)))"
| insert: "pc c = Checked \<Longrightarrow> gw_insert E t (nonce_of c) (expiry_of c) = (r, t') \<Longrightarrow>
     gw_step nonce_of expiry_of (t, pc) (t', pc(c := Returned r))"

definition winners_held :: "('c \<Rightarrow> string) \<Rightarrow> gw_nonces \<times> ('c \<Rightarrow> gw_pc) \<Rightarrow> bool" where
  "winners_held nonce_of s \<longleftrightarrow>
     (\<forall>c. snd s c = Returned (Inr False) \<longrightarrow> fst s (nonce_of c) \<noteq> None) \<and>
     (\<forall>c d. snd s c = Returned (Inr False) \<longrightarrow> snd s d = Returned (Inr False) \<longrightarrow>
        nonce_of c = nonce_of d \<longrightarrow> c = d)"

lemma gw_step_winners:
  "gw_step nonce_of expiry_of s s' \<Longrightarrow> winners_held nonce_of s \<Longrightarrow> winners_held nonce_of s'"
proof (induction rule: gw_step.induct)
  case (look_hit pc c E t b)
  then have "b = True" by (auto simp: gw_select_def split: option.splits)
  with look_hit show ?case by (auto simp: winners_held_def)
next
  case (insert pc c E t r t')
  then show ?case
    by (auto simp: winners_held_def gw_insert_def split: option.splits)
qed (auto simp: winners_held_def)

text \<open>C12: Concurrent reservations on the gateway are race-free. However the lookups and
  insertions of any number of concurrent callers interleave, and whichever statements fail,
  at most one caller is told that a given nonce was fresh: the primary key of the table
  decides between callers that both saw it absent.\<close>

theorem gateway_reserve_race_free:
  assumes "(gw_step nonce_of expiry_of)\<^sup>*\<^sup>* (t0, \<lambda>_. Start) (t, pc)"
    and "pc c = Returned (Inr False)" and "pc d = Returned (Inr False)"
    and "nonce_of c = nonce_of d"
  shows "c = d"
proof -
  have "winners_held nonce_of (t0, \<lambda>_. Start)" by (simp add: winners_held_def)
  with assms(1) have "winners_held nonce_of (t, pc)"
    by (induction rule: rtranclp_induct) (auto intro: gw_step_winners)
  with assms(2-4) show ?thesis by (auto simp: winners_held_def)
qed

theorem gateway_reserve_race_free_witness:
  "\<exists>t pc. (gw_step (\<lambda>_ :: bool. ''n'') (\<lambda>_. 5))\<^sup>*\<^sup>* (Map.empty, \<lambda>_. Start) (t, pc) \<and>
     pc True = Returned (Inr False) \<and> pc False \<noteq> Returned (Inr False)"
proof -
  let ?S = "gw_step (\<lambda>_ :: bool. ''n'') (\<lambda>_. 5)"
  let ?t = "Map.empty(''n'' \<mapsto> \<lparr>gwExpiresAt = FormatTimestamp 5, gwStatus = status_reserved\<rparr>)"
  let ?pc1 = "(\<lambda>_. Start)(True := Checked)"
  let ?pc2 = "?pc1(False := Checked)"
  let ?pc3 = "?pc2(True := Returned (Inr False))"
  have 1: "?S (Map.empty, \<lambda>_. Start) (Map.empty, ?pc1)"
    by (rule gw_step.look_miss[of _ _ calm_env]) (simp_all add: gw_select_def calm_env_def)
  have 2: "?S (Map.empty, ?pc1) (Map.empty, ?pc2)"
    by (rule gw_step.look_miss[of _ _ calm_env]) (simp_all add: gw_select_def calm_env_def)
  have 3: "?S (Map.empty, ?pc2) (?t, ?pc3)"
    by (rule gw_step.insert[of _ _ calm_env]) (simp_all add: gw_insert_def calm_env_def)
  have run: "?S\<^sup>*\<^sup>* (Map.empty, \<lambda>_. Start) (?t, ?pc3)"
    using 1 2 3 by (meson rtranclp.rtrancl_into_rtrancl rtranclp.rtrancl_refl)
  have "?pc3 False \<noteq> Returned (Inr False)"
    using gateway_reserve_race_free[OF run, of True False] by auto
  with run show ?thesis by (intro exI[of _ ?t] exI[of _ ?pc3]) simp
qed

end
