(* ===== verification/Consensus.thy ===== *)
theory Consensus
  imports Posture Signers Replay_Store
begin

text \<open>
  L2 consensus. \<open>verifyL2Posture\<close> of \<open>l2_consensus.go\<close> checks the votes of an
  envelope against the policy of its consensus set; \<open>services/consensus\<close> produces the
  votes (\<open>member.go\<close>, \<open>service.go\<close>, \<open>factory.go\<close>); the gateway keeps
  the policies (\<open>gateway/consensus_store_service.go\<close>). A store is the function the
  code calls on it; an absent store is \<open>None\<close>.
\<close>

section \<open>Verification of votes\<close>

record L2ConsensusPolicy =
  MemberKeyIDs :: "string list"
  Quorum :: int
  RequireDistinct :: bool
  Enabled :: bool

type_synonym SignerStore = "string \<Rightarrow> bytes option result"
type_synonym L2ConsensusPolicyStore = "string \<Rightarrow> L2ConsensusPolicy option result"

definition decision_payload :: "string \<Rightarrow> bool \<Rightarrow> string" where
  "decision_payload messageID decision = messageID @ ''|'' @ FormatBool decision"

definition verifyL2Signature :: "crypto \<Rightarrow> bytes \<Rightarrow> string \<Rightarrow> string \<Rightarrow> bool \<Rightarrow> bool" where
  "verifyL2Signature C pubKey signature messageID decision =
     (if signature = '''' \<or> signature = ''UNSIGNED'' then False
      else case hex_DecodeString signature of
        None \<Rightarrow> False
      | Some sigBytes \<Rightarrow> ed_verify C pubKey (decision_payload messageID decision) sigBytes)"

text \<open>The loop over the votes, with the signers seen and the affirmative count;
  \<open>None\<close> when a repeated signer is found under \<open>RequireDistinct\<close>.\<close>

fun tally :: "crypto \<Rightarrow> SignerStore \<Rightarrow> L2ConsensusPolicy \<Rightarrow> string \<Rightarrow> L2Vote list \<Rightarrow> string list \<Rightarrow> nat \<Rightarrow> nat option" where
  "tally C getSigner policy hash [] seen affirmative = Some affirmative"
| "tally C getSigner policy hash (vote # votes) seen affirmative =
     (if SignerKeyId vote \<notin> set (MemberKeyIDs policy)
      then tally C getSigner policy hash votes seen affirmative
      else if SignerKeyId vote \<in> set seen then
        (if RequireDistinct policy then None
         else tally C getSigner policy hash votes seen affirmative)
      else case getSigner (SignerKeyId vote) of
        Inl err \<Rightarrow> tally C getSigner policy hash votes seen affirmative
      | Inr None \<Rightarrow> tally C getSigner policy hash votes seen affirmative
      | Inr (Some pubKey) \<Rightarrow>
          if \<not> verifyL2Signature C pubKey (ConsensusSignature vote) hash (Decision vote)
          then tally C getSigner policy hash votes seen affirmative
          else tally C getSigner policy hash votes (SignerKeyId vote # seen)
                 (if Decision vote then Suc affirmative else affirmative))"

definition l2_enforced :: "GovernanceEnvelope \<Rightarrow> GovernancePosture \<Rightarrow> bool" where
  "l2_enforced envelope posture \<longleftrightarrow>
     RequiresL2Signature posture \<and> \<not> IsBootstrapAction (EnvActionType envelope)"

definition l2_failure :: "GovernanceEnvelope \<Rightarrow> GovernancePosture \<Rightarrow> gov_error \<Rightarrow> bool result" where
  "l2_failure envelope posture err = (if l2_enforced envelope posture then Inl err else Inr False)"

definition envelope_votes :: "GovernanceEnvelope \<Rightarrow> L2Metadata option" where
  "envelope_votes envelope =
     (case Governance envelope of
        None \<Rightarrow> None
      | Some g \<Rightarrow> (case L2 g of None \<Rightarrow> None | Some l2 \<Rightarrow> if Votes l2 = [] then None else Some l2))"

definition verifyL2Posture ::
  "crypto \<Rightarrow> SignerStore option \<Rightarrow> L2ConsensusPolicyStore option \<Rightarrow> GovernanceEnvelope \<Rightarrow> string \<Rightarrow>
   GovernancePosture \<Rightarrow> bool result" where
  "verifyL2Posture C signerStore policyStore envelope computedHash posture =
     (case envelope_votes envelope of
        None \<Rightarrow> l2_failure envelope posture (Sentinel (Layer ErrTxL2SignatureMissing))
      | Some l2 \<Rightarrow>
     (case signerStore of
        None \<Rightarrow> l2_failure envelope posture (Sentinel (Layer ErrTxL2SignerStoreNotConfigured))
      | Some getSigner \<Rightarrow>
     (case policyStore of
        None \<Rightarrow> l2_failure envelope posture (Sentinel (Layer ErrTxL2ConsensusNotConfigured))
      | Some getPolicy \<Rightarrow>
     (case getPolicy (ConsensusSetId l2) of
        Inl err \<Rightarrow> l2_failure envelope posture (Errorf ''l4 warden: verify L2 posture: %w'' [] [err])
      | Inr None \<Rightarrow> l2_failure envelope posture (Sentinel (Layer ErrTxL2ConsensusNotConfigured))
      | Inr (Some policy) \<Rightarrow>
          if \<not> Enabled policy
          then l2_failure envelope posture (Sentinel (Layer ErrTxL2ConsensusNotConfigured))
          else case tally C getSigner policy computedHash (Votes l2) [] 0 of
            None \<Rightarrow> l2_failure envelope posture (Sentinel (Layer ErrTxL2DuplicateSigner))
          | Some affirmative \<Rightarrow>
              if int affirmative < Quorum policy
              then l2_failure envelope posture (Sentinel (Layer ErrTxL2QuorumNotMet))
              else Inr True))))"

section \<open>The consensus service\<close>

record ConsensusMember =
  AppID :: string
  PrivateKey :: "bytes option"

record ConsensusService =
  consensusID :: string
  members :: "ConsensusMember list"
  svcDoctrine :: "L1Doctrine option"

definition runMITREChecks :: "L1Doctrine option \<Rightarrow> string \<Rightarrow> bool" where
  "runMITREChecks doctrine data =
     (case doctrine of
        None \<Rightarrow> False
      | Some d \<Rightarrow> list_all (\<lambda>sig. \<not> BlockRecommended sig) (AnalyzeCommand d data))"

definition extractCommandData :: "(Struct \<Rightarrow> string result) \<Rightarrow> GovernanceEnvelope \<Rightarrow> string result" where
  "extractCommandData marshalJSON env =
     (case IntentData env of
        Some s \<Rightarrow>
          if s \<noteq> [] then
            (case marshalJSON s of
               Inl err \<Rightarrow> Inl (Errorf ''consensus: extract command data: %w'' [] [err])
             | Inr js \<Rightarrow> Inr js)
          else Inr (Payload env)
      | None \<Rightarrow> Inr (Payload env))"

definition signDecision :: "crypto \<Rightarrow> bytes option \<Rightarrow> string \<Rightarrow> bool \<Rightarrow> string result" where
  "signDecision C privateKey messageID isSafe =
     (case privateKey of
        None \<Rightarrow> Inl (Errorf ''consensus: sign decision: private key missing'' [] [])
      | Some k \<Rightarrow> Inr (hex_EncodeToString (ed_sign C k (decision_payload messageID isSafe))))"

fun member_votes :: "crypto \<Rightarrow> string \<Rightarrow> bool \<Rightarrow> ConsensusMember list \<Rightarrow> L2Vote list result" where
  "member_votes C messageID isSafe [] = Inr []"
| "member_votes C messageID isSafe (m # ms) =
     (if PrivateKey m = None then member_votes C messageID isSafe ms
      else case signDecision C (PrivateKey m) messageID isSafe of
        Inl err \<Rightarrow> Inl (Errorf ''consensus: deliberate: member %s: %w'' [AppID m] [err])
      | Inr sig \<Rightarrow>
         (case member_votes C messageID isSafe ms of
            Inl e \<Rightarrow> Inl e
          | Inr vs \<Rightarrow> Inr (\<lparr>SignerKeyId = AppID m, ConsensusSignature = sig, Decision = isSafe\<rparr> # vs)))"

definition with_votes :: "GovernanceEnvelope \<Rightarrow> string \<Rightarrow> L2Vote list \<Rightarrow> GovernanceEnvelope" where
  "with_votes env setID votes =
     (let g = (case Governance env of
                 Some g \<Rightarrow> g
               | None \<Rightarrow> \<lparr>L1 = Some \<lparr>Validated = False, Violations = []\<rparr>, L2 = None,
                          L3 = Some \<lparr>Proof = None\<rparr>\<rparr>)
      in env\<lparr>Governance := Some (g\<lparr>L2 := Some \<lparr>ConsensusSetId = setID, Votes = votes\<rparr>\<rparr>)\<rparr>)"

definition Deliberate ::
  "crypto \<Rightarrow> (Struct \<Rightarrow> string result) \<Rightarrow> ConsensusService \<Rightarrow> GovernanceEnvelope option \<Rightarrow>
   GovernanceEnvelope result" where
  "Deliberate C marshalJSON s env =
     (case GenerateMessageID C env of
        Inl err \<Rightarrow> Inl (Errorf ''consensus: deliberate: %w'' [] [err])
      | Inr expectedHash \<Rightarrow>
     (case env of
        None \<Rightarrow> Inl (Sentinel (Tx ErrTxInvalidEnvelope))
      | Some e \<Rightarrow>
          if Id e \<noteq> expectedHash then Inl (Sentinel (Layer ErrConsensusHashMismatch))
          else case extractCommandData marshalJSON e of
            Inl err \<Rightarrow> Inl (Errorf ''consensus: deliberate: %w'' [] [err])
          | Inr cmdData \<Rightarrow>
             (case member_votes C (Id e) (runMITREChecks (svcDoctrine s) cmdData) (members s) of
                Inl err \<Rightarrow> Inl err
              | Inr votes \<Rightarrow>
                  if votes = [] then Inl (Sentinel (Layer ErrConsensusNoSigningMembers))
                  else Inr (with_votes e (consensusID s) votes))))"

section \<open>Policies on the gateway\<close>

record ConsensusPolicy =
  PolicyID :: string
  MemberAppIDs :: "string list"
  PolicyQuorum :: int
  PolicyRequireDistinct :: bool
  PolicyEnabled :: bool
  CreatedAt :: "time option"
  UpdatedAt :: "time option"

type_synonym policy_docs = "string \<rightharpoonup> ConsensusPolicy"

definition NewConsensusFromPolicy ::
  "ConsensusPolicy option \<Rightarrow> (string \<Rightarrow> bytes result) option \<Rightarrow> L1Doctrine option \<Rightarrow> ConsensusService result" where
  "NewConsensusFromPolicy policy keyProvider doctrine =
     (case policy of
        None \<Rightarrow> Inl (Sentinel (Sys ErrConsensusFactoryNilPolicy))
      | Some p \<Rightarrow>
     (case keyProvider of
        None \<Rightarrow> Inl (Sentinel (Sys ErrConsensusFactoryNilKeyProvider))
      | Some getKey \<Rightarrow>
          Inr \<lparr>consensusID = PolicyID p,
               members = map (\<lambda>appID. \<lparr>AppID = appID,
                 PrivateKey = (case getKey appID of Inl _ \<Rightarrow> None | Inr k \<Rightarrow> Some k)\<rparr>) (MemberAppIDs p),
               svcDoctrine = doctrine\<rparr>))"

definition GetConsensus :: "gov_error option \<Rightarrow> policy_docs \<Rightarrow> string \<Rightarrow> ConsensusPolicy option result" where
  "GetConsensus db_err docs cid =
     (case db_err of
        Some err \<Rightarrow> Inl (Errorf ''consensus store: get: %w'' [] [err])
      | None \<Rightarrow> Inr (map_option (\<lambda>p. p\<lparr>PolicyID := cid\<rparr>) (docs cid)))"

definition GetConsensusPolicy ::
  "gov_error option \<Rightarrow> policy_docs \<Rightarrow> string \<Rightarrow> L2ConsensusPolicy option result" where
  "GetConsensusPolicy db_err docs cid =
     (case GetConsensus db_err docs cid of
        Inl err \<Rightarrow> Inl err
      | Inr None \<Rightarrow> Inr None
      | Inr (Some p) \<Rightarrow>
          Inr (Some \<lparr>MemberKeyIDs = MemberAppIDs p, Quorum = PolicyQuorum p,
                     RequireDistinct = PolicyRequireDistinct p, Enabled = PolicyEnabled p\<rparr>))"

text \<open>\<open>unicode.IsLetter\<close> and \<open>unicode.IsDigit\<close> are arguments: the Unicode tables.\<close>

definition isValidConsensusID :: "(nat \<Rightarrow> bool) \<Rightarrow> (nat \<Rightarrow> bool) \<Rightarrow> string \<Rightarrow> bool" where
  "isValidConsensusID isLetter isDigit cid \<longleftrightarrow>
     cid \<noteq> '''' \<and> list_all (\<lambda>r. isLetter r \<or> isDigit r \<or> r = 45 \<or> r = 95) (runes cid)"

fun check_members :: "string list \<Rightarrow> string list \<Rightarrow> unit result" where
  "check_members [] memberSet = Inr ()"
| "check_members (appID # rest) memberSet =
     (if appID = '''' then
        Inl (wrap ''%w: member_app_ids cannot contain empty strings'' (Sys ErrConstraintViolation) [])
      else if appID \<in> set memberSet then
        Inl (wrap ''%w: duplicate member_app_id: %s'' (Sys ErrConstraintViolation) [appID])
      else check_members rest (appID # memberSet))"

fun check_signers :: "SignerStore \<Rightarrow> string list \<Rightarrow> unit result" where
  "check_signers getSigner [] = Inr ()"
| "check_signers getSigner (appID # rest) =
     (case getSigner appID of
        Inl err \<Rightarrow> Inl (wrap ''%w: failed to verify signer %s: %v'' (Sys ErrConstraintViolation) [appID])
      | Inr None \<Rightarrow>
          Inl (wrap ''%w: member_app_id %s is not an enabled trusted signer'' (Sys ErrConstraintViolation) [appID])
      | Inr (Some _) \<Rightarrow> check_signers getSigner rest)"

definition validate_policy ::
  "(nat \<Rightarrow> bool) \<Rightarrow> (nat \<Rightarrow> bool) \<Rightarrow> SignerStore \<Rightarrow> ConsensusPolicy \<Rightarrow> unit result" where
  "validate_policy isLetter isDigit getSigner policy =
     (if PolicyID policy = '''' then Inl (wrap ''%w: consensus ID'' (Sys ErrMissingRequiredField) [])
      else if \<not> isValidConsensusID isLetter isDigit (PolicyID policy)
      then Inl (wrap ''%w: %s'' (Layer ErrConsensusInvalidID) [PolicyID policy])
      else if MemberAppIDs policy = []
      then Inl (wrap ''%w: consensus member_app_ids'' (Sys ErrMissingRequiredField) [])
      else if PolicyQuorum policy < 1
      then Inl (wrap ''%w: quorum must be >= 1'' (Sys ErrConstraintViolation) [])
      else if PolicyQuorum policy > int (length (MemberAppIDs policy))
      then Inl (wrap ''%w: quorum cannot exceed member count'' (Sys ErrConstraintViolation) [])
      else case check_members (MemberAppIDs policy) [] of
        Inl e \<Rightarrow> Inl e
      | Inr _ \<Rightarrow> check_signers getSigner (MemberAppIDs policy))"

definition AddConsensus ::
  "store_env \<Rightarrow> (nat \<Rightarrow> bool) \<Rightarrow> (nat \<Rightarrow> bool) \<Rightarrow> SignerStore \<Rightarrow> policy_docs \<Rightarrow> ConsensusPolicy \<Rightarrow>
   unit result \<times> policy_docs" where
  "AddConsensus E isLetter isDigit getSigner docs policy =
     (case validate_policy isLetter isDigit getSigner policy of
        Inl e \<Rightarrow> (Inl e, docs)
      | Inr _ \<Rightarrow>
     (case GetConsensus (fault_at E 0) docs (PolicyID policy) of
        Inl err \<Rightarrow> (Inl (Errorf ''%w: failed to check existing consensus: %w'' []
                           [Sentinel (Sys ErrConstraintViolation), err]), docs)
      | Inr existing \<Rightarrow>
          if existing \<noteq> None \<and> PolicyEnabled policy
          then (Inl (wrap ''%w: consensus %s'' (Sys ErrAlreadyExists) [PolicyID policy]), docs)
          else if existing = None \<and> \<not> PolicyEnabled policy
          then (Inl (Sentinel (Layer ErrConsensusMustBeEnabled)), docs)
          else
            (let policy' = policy\<lparr>
                   CreatedAt := (case CreatedAt policy of None \<Rightarrow> Some (clock_at E 0) | Some t \<Rightarrow> Some t),
                   UpdatedAt := Some (clock_at E 1)\<rparr>
             in case fault_at E 1 of
                  Some err \<Rightarrow> (Inl err, docs)
                | None \<Rightarrow> (Inr (), docs(PolicyID policy \<mapsto> policy')))))"

definition DeleteConsensus :: "store_env \<Rightarrow> policy_docs \<Rightarrow> string \<Rightarrow> bool result \<times> policy_docs" where
  "DeleteConsensus E docs cid =
     (case fault_at E 0 of
        Some err \<Rightarrow> (Inl err, docs)
      | None \<Rightarrow> (Inr (docs cid \<noteq> None), docs(cid := None)))"

section \<open>Quorum soundness\<close>

text \<open>Member \<open>k\<close> affirms the hash: a vote of the set carries a signature over
  \<open>hash|true\<close> that verifies under the key registered for \<open>k\<close>.\<close>

definition affirms :: "crypto \<Rightarrow> SignerStore \<Rightarrow> string \<Rightarrow> L2Vote list \<Rightarrow> string \<Rightarrow> bool" where
  "affirms C getSigner hash votes k \<longleftrightarrow>
     list_ex (\<lambda>v. SignerKeyId v = k \<and> Decision v \<and>
       (case getSigner k of
          Inr (Some pk) \<Rightarrow> verifyL2Signature C pk (ConsensusSignature v) hash True
        | _ \<Rightarrow> False)) votes"

lemma affirms_Cons: "affirms C g h vs k \<Longrightarrow> affirms C g h (v # vs) k"
  by (simp add: affirms_def)

lemma tally_sound:
  "tally C g p h votes seen a = Some a' \<Longrightarrow>
   \<exists>S. finite S \<and> S \<inter> set seen = {} \<and> a' = a + card S \<and> S \<subseteq> set (MemberKeyIDs p) \<and>
       (\<forall>k\<in>S. affirms C g h votes k)"
proof (induction votes arbitrary: seen a)
  case Nil
  then show ?case by (intro exI[of _ "{}"]) simp
next
  case (Cons v votes)
  show ?case
  proof (cases "SignerKeyId v \<in> set (MemberKeyIDs p) \<and> SignerKeyId v \<notin> set seen \<and>
      (\<exists>pk. g (SignerKeyId v) = Inr (Some pk) \<and>
            verifyL2Signature C pk (ConsensusSignature v) h (Decision v))")
    case False
    then have "tally C g p h votes seen a = Some a'"
      using Cons.prems by (auto split: if_splits sum.splits option.splits)
    from Cons.IH[OF this] obtain S where "finite S" "S \<inter> set seen = {}" "a' = a + card S"
      "S \<subseteq> set (MemberKeyIDs p)" "\<forall>k\<in>S. affirms C g h votes k" by blast
    then show ?thesis by (intro exI[of _ S]) (simp add: affirms_Cons)
  next
    case True
    then obtain pk where pk: "g (SignerKeyId v) = Inr (Some pk)"
      "verifyL2Signature C pk (ConsensusSignature v) h (Decision v)" by blast
    let ?a = "if Decision v then Suc a else a"
    have "tally C g p h votes (SignerKeyId v # seen) ?a = Some a'"
      using Cons.prems True pk by simp
    from Cons.IH[OF this] obtain S where S: "finite S" "S \<inter> set (SignerKeyId v # seen) = {}"
      "a' = ?a + card S" "S \<subseteq> set (MemberKeyIDs p)" "\<forall>k\<in>S. affirms C g h votes k"
      by blast
    let ?S = "if Decision v then insert (SignerKeyId v) S else S"
    have "affirms C g h (v # votes) (SignerKeyId v)" if "Decision v"
      using that pk by (simp add: affirms_def)
    then show ?thesis
      using S True by (intro exI[of _ ?S]) (auto intro: affirms_Cons)
  qed
qed

text \<open>C7: L2 quorum soundness. When vote verification succeeds, the votes name an enabled
  policy and at least a quorum of distinct members of that policy each signed the
  transaction hash with an affirmative decision under the key registered for them, whatever
  the posture and whatever other votes, duplicates and unknown signers the set contains.\<close>

theorem l2_quorum_sound:
  assumes "verifyL2Posture C signerStore policyStore envelope hash posture = Inr True"
  shows "\<exists>l2 getSigner getPolicy policy S.
    envelope_votes envelope = Some l2 \<and> signerStore = Some getSigner \<and>
    policyStore = Some getPolicy \<and> getPolicy (ConsensusSetId l2) = Inr (Some policy) \<and>
    Enabled policy \<and> S \<subseteq> set (MemberKeyIDs policy) \<and> Quorum policy \<le> int (card S) \<and>
    (\<forall>k\<in>S. affirms C getSigner hash (Votes l2) k)"
proof -
  from assms obtain l2 getSigner getPolicy policy n where *:
    "envelope_votes envelope = Some l2" "signerStore = Some getSigner"
    "policyStore = Some getPolicy" "getPolicy (ConsensusSetId l2) = Inr (Some policy)"
    "Enabled policy" "tally C getSigner policy hash (Votes l2) [] 0 = Some n" "Quorum policy \<le> int n"
    by (auto simp: verifyL2Posture_def l2_failure_def split: option.splits sum.splits if_splits)
  from tally_sound[OF *(6)] obtain S where "n = card S" "S \<subseteq> set (MemberKeyIDs policy)"
    "\<forall>k\<in>S. affirms C getSigner hash (Votes l2) k" by auto
  with * show ?thesis by blast
qed

text \<open>L2 enforcement. Under a posture that requires L2, for an action that is not part of
  platform enrolment, vote verification either succeeds or is an error: missing votes, a
  missing store, an unknown or disabled policy, a duplicate signer and an unmet quorum are all
  rejections.\<close>

theorem l2_enforced_never_skipped:
  assumes "RequiresL2Signature posture" and "\<not> IsBootstrapAction (EnvActionType envelope)"
  shows "verifyL2Posture C signerStore policyStore envelope hash posture \<noteq> Inr False"
  using assms
  by (auto simp: verifyL2Posture_def l2_failure_def l2_enforced_def
      split: option.splits sum.splits if_splits)

theorem l2_enforced_never_skipped_witness:
  "verifyL2Posture toy_crypto None None sample_envelope [] NotaryPosture \<noteq> Inr False \<and>
   verifyL2Posture toy_crypto None None sample_envelope [] NotaryPosture =
     Inl (Sentinel (Layer ErrTxL2SignatureMissing))"
  using l2_enforced_never_skipped[of NotaryPosture sample_envelope toy_crypto None None "[]"]
  by (simp add: sample_envelope_def IsBootstrapAction_def verifyL2Posture_def envelope_votes_def
      l2_failure_def l2_enforced_def)

section \<open>Deliberation produces votes that verify\<close>

text \<open>The registered key of every member that holds a private key is its public key.\<close>

definition registered :: "crypto \<Rightarrow> SignerStore \<Rightarrow> ConsensusMember \<Rightarrow> bool" where
  "registered C getSigner m \<longleftrightarrow>
     (case PrivateKey m of
        None \<Rightarrow> True
      | Some k \<Rightarrow> \<exists>pk. getSigner (AppID m) = Inr (Some pk) \<and> key_pair C k pk)"

definition signing_members :: "ConsensusMember list \<Rightarrow> ConsensusMember list" where
  "signing_members ms = filter (\<lambda>m. PrivateKey m \<noteq> None) ms"

definition vote_of :: "crypto \<Rightarrow> string \<Rightarrow> bool \<Rightarrow> ConsensusMember \<Rightarrow> L2Vote" where
  "vote_of C messageID isSafe m =
     \<lparr>SignerKeyId = AppID m,
      ConsensusSignature =
        hex_EncodeToString (ed_sign C (the (PrivateKey m)) (decision_payload messageID isSafe)),
      Decision = isSafe\<rparr>"

lemma member_votes_eq:
  "member_votes C h b ms = Inr (map (vote_of C h b) (signing_members ms))"
  by (induction ms) (auto simp: signing_members_def vote_of_def signDecision_def)

lemma vote_of_verifies:
  assumes "sig64 C" and "key_pair C k pk" and "PrivateKey m = Some k"
  shows "verifyL2Signature C pk (ConsensusSignature (vote_of C h b m)) h b"
proof -
  let ?s = "hex_EncodeToString (ed_sign C k (decision_payload h b))"
  have "length ?s = 128" using assms(1) by (simp add: sig64_def)
  then have "?s \<noteq> []" "?s \<noteq> ''UNSIGNED''" by (auto simp del: hex_length)
  with assms show ?thesis by (simp add: verifyL2Signature_def vote_of_def key_pair_def)
qed

lemma tally_complete:
  assumes "sig64 C"
  shows "distinct (map AppID ms) \<Longrightarrow> AppID ` set ms \<subseteq> set (MemberKeyIDs p) \<Longrightarrow>
    AppID ` set ms \<inter> set seen = {} \<Longrightarrow>
    (\<forall>m\<in>set ms. PrivateKey m \<noteq> None \<and> registered C g m) \<Longrightarrow>
    tally C g p h (map (vote_of C h True) ms) seen a = Some (a + length ms)"
proof (induction ms arbitrary: seen a)
  case (Cons m ms)
  from Cons.prems(4) obtain k pk where k: "PrivateKey m = Some k"
    and pk: "g (AppID m) = Inr (Some pk)" "key_pair C k pk"
    by (auto simp: registered_def)
  have ver: "verifyL2Signature C pk (ConsensusSignature (vote_of C h True m)) h True"
    using assms pk(2) k by (rule vote_of_verifies)
  have rest: "tally C g p h (map (vote_of C h True) ms) (AppID m # seen) (Suc a) =
      Some (Suc a + length ms)"
    by (rule Cons.IH) (use Cons.prems in auto)
  have v: "SignerKeyId (vote_of C h True m) = AppID m" "Decision (vote_of C h True m)"
    by (simp_all add: vote_of_def)
  show ?case
    using Cons.prems(2,3) pk(1) ver rest by (simp add: v)
qed simp

text \<open>Deliberation and verification agree. When the service deliberates on an envelope
  whose command data its doctrine finds safe, the votes it attaches pass L2 verification under
  every posture: provided its members' public keys are the registered ones, its members are
  members of the enabled policy it names, without repetition, and at least a quorum of them
  hold a key.\<close>

theorem deliberation_reaches_quorum:
  assumes "sig64 C"
    and "Deliberate C marshalJSON s (Some e) = Inr e'"
    and "extractCommandData marshalJSON e = Inr data" and "runMITREChecks (svcDoctrine s) data"
    and "distinct (map AppID (members s))"
    and "list_all (registered C getSigner) (members s)"
    and "getPolicy (consensusID s) = Inr (Some policy)" and "Enabled policy"
    and "list_all (\<lambda>m. AppID m \<in> set (MemberKeyIDs policy)) (members s)"
    and "Quorum policy \<le> int (length (signing_members (members s)))"
  shows "verifyL2Posture C (Some getSigner) (Some getPolicy) e' (Id e') posture = Inr True"
proof -
  let ?ms = "signing_members (members s)"
  have e': "e' = with_votes e (consensusID s) (map (vote_of C (Id e) True) ?ms)"
    and ne: "?ms \<noteq> []"
    using assms(2-4)
    by (auto simp: Deliberate_def member_votes_eq split: sum.splits if_splits)
  have votes: "envelope_votes e' =
      Some \<lparr>ConsensusSetId = consensusID s, Votes = map (vote_of C (Id e) True) ?ms\<rparr>"
    using ne unfolding e' by (simp add: envelope_votes_def with_votes_def Let_def)
  have "tally C getSigner policy (Id e') (map (vote_of C (Id e') True) ?ms) [] 0 =
      Some (0 + length ?ms)"
    using assms(5,6,9)
    by (intro tally_complete[OF assms(1)])
      (auto simp: signing_members_def list_all_iff distinct_map_filter)
  moreover have "Id e' = Id e" unfolding e' by (simp add: with_votes_def Let_def)
  ultimately show ?thesis
    using assms(7,8,10) by (simp add: verifyL2Posture_def votes)
qed

section \<open>Stored policies are well formed\<close>

definition policy_ok :: "ConsensusPolicy \<Rightarrow> bool" where
  "policy_ok p \<longleftrightarrow> 1 \<le> PolicyQuorum p \<and> PolicyQuorum p \<le> int (length (MemberAppIDs p)) \<and>
     distinct (MemberAppIDs p) \<and> [] \<notin> set (MemberAppIDs p)"

definition policies_ok :: "policy_docs \<Rightarrow> bool" where
  "policies_ok docs \<longleftrightarrow> (\<forall>cid p. docs cid = Some p \<longrightarrow> policy_ok p)"

lemma check_members_ok:
  "check_members ids memberSet = Inr u \<Longrightarrow>
   distinct ids \<and> set ids \<inter> set memberSet = {} \<and> [] \<notin> set ids"
  by (induction ids memberSet rule: check_members.induct) (auto split: if_splits)

lemma validate_policy_ok: "validate_policy isL isD g p = Inr u \<Longrightarrow> policy_ok p"
  using check_members_ok[of "MemberAppIDs p" "[]"]
  by (auto simp: validate_policy_def policy_ok_def split: if_splits sum.splits)

text \<open>Consensus policies stay well formed. Adding a policy keeps every stored policy with
  a quorum between one and its number of members and with distinct, non-empty member names;
  a policy that is stored can only be replaced by a disabled one; and deletion removes the
  named policy and nothing else.\<close>

theorem consensus_store_invariant:
  assumes "policies_ok docs"
  shows "policies_ok (snd (AddConsensus E isL isD getSigner docs policy)) \<and>
    policies_ok (snd (DeleteConsensus E docs cid)) \<and>
    (docs c = Some p \<longrightarrow> snd (AddConsensus E isL isD getSigner docs policy) c = Some p \<or>
       (\<exists>p'. snd (AddConsensus E isL isD getSigner docs policy) c = Some p' \<and> \<not> PolicyEnabled p'))"
proof (intro conjI)
  show "policies_ok (snd (AddConsensus E isL isD getSigner docs policy))"
    using assms validate_policy_ok[of isL isD getSigner policy]
    by (auto simp: AddConsensus_def policies_ok_def policy_ok_def Let_def
        split: sum.splits option.splits)
  show "policies_ok (snd (DeleteConsensus E docs cid))"
    using assms by (auto simp: DeleteConsensus_def policies_ok_def split: option.splits)
  show "docs c = Some p \<longrightarrow> snd (AddConsensus E isL isD getSigner docs policy) c = Some p \<or>
       (\<exists>p'. snd (AddConsensus E isL isD getSigner docs policy) c = Some p' \<and> \<not> PolicyEnabled p')"
    by (auto simp: AddConsensus_def GetConsensus_def Let_def split: sum.splits option.splits)
qed

section \<open>Concrete deliberation\<close>

definition sample_service :: ConsensusService where
  "sample_service = \<lparr>consensusID = ''set-1'',
     members = [\<lparr>AppID = ''app-1'', PrivateKey = Some ''k''\<rparr>], svcDoctrine = Some sample_doctrine\<rparr>"

definition sample_policy :: ConsensusPolicy where
  "sample_policy = \<lparr>PolicyID = ''set-1'', MemberAppIDs = [''app-1''], PolicyQuorum = 1,
     PolicyRequireDistinct = True, PolicyEnabled = True, CreatedAt = None, UpdatedAt = None\<rparr>"

definition sample_docs :: policy_docs where
  "sample_docs = [''set-1'' \<mapsto> sample_policy]"

definition sample_signers :: SignerStore where
  "sample_signers = (\<lambda>k. if k = ''app-1'' then Inr (Some ''k'') else Inr None)"

definition sample_tx :: GovernanceEnvelope where
  "sample_tx = (let e = sample_envelope\<lparr>ExpiresAt := None\<rparr> in
     e\<lparr>Id := sha256_hex toy_crypto (preimage e None)\<rparr>)"

definition sample_voted :: GovernanceEnvelope where
  "sample_voted = with_votes sample_tx ''set-1''
     (map (vote_of toy_crypto (Id sample_tx) True) (members sample_service))"

lemma sample_tx_id: "GenerateMessageID toy_crypto (Some sample_tx) = Inr (Id sample_tx)"
proof -
  have "GenerateMessageID toy_crypto (Some sample_tx) =
      GenerateMessageID toy_crypto (Some (sample_envelope\<lparr>ExpiresAt := None\<rparr>))"
    by (rule GenerateMessageID_cong)
      (simp_all add: sample_tx_def Let_def sample_envelope_def canonicalParts_def)
  also have "\<dots> = Inr (Id sample_tx)"
    by (simp add: sample_tx_def Let_def GenerateMessageID_def envelopeProtocolVersion_def
        generateMessageIDV2_def canonicalEnvelopeFieldsV1_def canonicalIntent_def preimage_def
        sample_envelope_def)
  finally show ?thesis .
qed

lemma sample_safe: "runMITREChecks (svcDoctrine sample_service) ''ls''"
  by code_simp

lemma sample_deliberation:
  "Deliberate toy_crypto (\<lambda>_. Inr []) sample_service (Some sample_tx) = Inr sample_voted"
  "extractCommandData (\<lambda>_. Inr []) sample_tx = Inr ''ls''"
proof -
  show data: "extractCommandData (\<lambda>_. Inr []) sample_tx = Inr ''ls''"
    by (simp add: extractCommandData_def sample_tx_def Let_def sample_envelope_def)
  show "Deliberate toy_crypto (\<lambda>_. Inr []) sample_service (Some sample_tx) = Inr sample_voted"
    using sample_safe
    by (simp add: Deliberate_def sample_tx_id data member_votes_eq sample_voted_def)
      (simp add: sample_service_def signing_members_def)
qed

theorem deliberation_reaches_quorum_witness:
  "verifyL2Posture toy_crypto (Some sample_signers) (Some (GetConsensusPolicy None sample_docs))
     sample_voted (Id sample_voted) NotaryPosture = Inr True"
  by (rule deliberation_reaches_quorum[OF sig64_toy sample_deliberation sample_safe,
        where getSigner = sample_signers and policy = "\<lparr>MemberKeyIDs = [''app-1''], Quorum = 1,
          RequireDistinct = True, Enabled = True\<rparr>"])
    (simp_all add: sample_service_def registered_def sample_signers_def GetConsensusPolicy_def
      GetConsensus_def sample_docs_def sample_policy_def signing_members_def)

lemma sample_voted_valid:
  "verifyL2Posture toy_crypto (Some sample_signers) (Some (GetConsensusPolicy None sample_docs))
     sample_voted (Id sample_voted) DoctrinePosture = Inr True"
proof -
  have v: "verifyL2Signature toy_crypto ''k''
      (ConsensusSignature (vote_of toy_crypto h True \<lparr>AppID = ''app-1'', PrivateKey = Some ''k''\<rparr>)) h True" for h
    by (rule vote_of_verifies[OF sig64_toy, of "''k''"]) simp_all
  have "Id sample_voted = Id sample_tx" by (simp add: sample_voted_def with_votes_def Let_def)
  then show ?thesis
    using v[of "Id sample_tx"]
    by (simp add: verifyL2Posture_def envelope_votes_def sample_voted_def with_votes_def Let_def
        sample_service_def GetConsensusPolicy_def GetConsensus_def sample_docs_def sample_policy_def
        sample_signers_def vote_of_def)
qed

theorem l2_quorum_sound_witness:
  "\<exists>policy S. Enabled policy \<and> S \<subseteq> set (MemberKeyIDs policy) \<and> Quorum policy \<le> int (card S) \<and>
     GetConsensusPolicy None sample_docs ''set-1'' = Inr (Some policy)"
  using l2_quorum_sound[OF sample_voted_valid]
  by (auto simp: sample_voted_def with_votes_def Let_def envelope_votes_def split: if_splits)

theorem consensus_store_invariant_witness:
  "policies_ok sample_docs \<and>
   policies_ok (snd (AddConsensus calm_env (\<lambda>_. True) (\<lambda>_. False) sample_signers sample_docs
     (sample_policy\<lparr>PolicyID := ''set-2''\<rparr>)))"
proof -
  have ok: "policies_ok sample_docs"
    by (simp add: policies_ok_def policy_ok_def sample_docs_def sample_policy_def)
  from consensus_store_invariant[OF ok] ok show ?thesis by blast
qed

end
