(* ===== verification/Timestamp_Parse.thy ===== *)
theory Timestamp_Parse
  imports Timestamps Gov_Errors
begin

text \<open>
  \<open>timesvc.ParseTimestamp\<close>: \<open>time.Parse\<close> with the layout
  \<open>2006-01-02T15:04:05.999999999Z07:00\<close>. The parser below follows the standard library
  chunk by chunk (two-digit fields, a one- or two-digit hour, an optional fraction after a
  period or a comma, \<open>Z\<close> or a numeric offset); its strict fast path accepts a subset
  of the same texts with the same results. The round trip with \<open>FormatTimestamp\<close> says
  that storing an instant as text loses exactly its sub-microsecond part.
\<close>

section \<open>The parser\<close>

fun take_digits :: "nat \<Rightarrow> int \<Rightarrow> string \<Rightarrow> (int \<times> string) option" where
  "take_digits 0 acc s = Some (acc, s)"
| "take_digits (Suc k) acc [] = None"
| "take_digits (Suc k) acc (c # s) =
     (if CHR ''0'' \<le> c \<and> c \<le> CHR ''9''
      then take_digits k (10 * acc + (int (of_char c) - 48)) s else None)"

definition getnum :: "bool \<Rightarrow> string \<Rightarrow> (int \<times> string) option" where
  "getnum fixed s =
     (case take_digits 2 0 s of
        Some r \<Rightarrow> Some r
      | None \<Rightarrow> if fixed then None else take_digits 1 0 s)"

fun skip_char :: "char \<Rightarrow> string \<Rightarrow> string option" where
  "skip_char c [] = None"
| "skip_char c (d # s) = (if c = d then Some s else None)"

fun digit_prefix :: "string \<Rightarrow> string" where
  "digit_prefix [] = []"
| "digit_prefix (c # s) = (if CHR ''0'' \<le> c \<and> c \<le> CHR ''9'' then c # digit_prefix s else [])"

text \<open>\<open>parseNanoseconds\<close>: at most nine digits count, scaled to nanoseconds.\<close>

definition parse_fraction :: "string \<Rightarrow> int \<times> string" where
  "parse_fraction s =
     (case s of
        c # r \<Rightarrow>
          (let ds = digit_prefix r in
           if (c = CHR ''.'' \<or> c = CHR '','') \<and> ds \<noteq> []
           then (case take_digits (min 9 (length ds)) 0 ds of
                   Some (v, _) \<Rightarrow> (v * 10 ^ (9 - min 9 (length ds)), drop (length ds) r)
                 | None \<Rightarrow> (0, s))
           else (0, s))
      | [] \<Rightarrow> (0, s))"

text \<open>The zone: the offset in seconds east of UTC.\<close>

definition parse_zone :: "string \<Rightarrow> (int \<times> string) option" where
  "parse_zone s =
     (case s of
        [] \<Rightarrow> None
      | c # r \<Rightarrow>
          if c = CHR ''Z'' then Some (0, r)
          else if c = CHR ''+'' \<or> c = CHR ''-'' then
            Option.bind (take_digits 2 0 r) (\<lambda>(hr, r).
            Option.bind (skip_char (CHR '':'') r) (\<lambda>r.
            Option.bind (take_digits 2 0 r) (\<lambda>(mm, r).
              if hr > 24 \<or> mm > 60 then None
              else Some ((if c = CHR ''-'' then -1 else 1) * (hr * 60 + mm) * 60, r))))
          else None)"

definition day_number :: "int \<Rightarrow> int \<Rightarrow> int \<Rightarrow> int" where
  "day_number y m d = days_before_year y + sum_list (take (nat (m - 1)) (month_lengths y)) + (d - 1)"

definition parse_date :: "string \<Rightarrow> (int \<times> string) option" where
  "parse_date s =
     Option.bind (take_digits 4 0 s) (\<lambda>(y, s).
     Option.bind (skip_char (CHR ''-'') s) (\<lambda>s.
     Option.bind (getnum True s) (\<lambda>(m, s).
     Option.bind (skip_char (CHR ''-'') s) (\<lambda>s.
     Option.bind (getnum True s) (\<lambda>(d, s).
       if m < 1 \<or> 12 < m \<or> d < 1 \<or> month_lengths y ! nat (m - 1) < d then None
       else Some (day_number y m d, s))))))"

definition parse_clock :: "string \<Rightarrow> (int \<times> string) option" where
  "parse_clock s =
     Option.bind (getnum False s) (\<lambda>(h, s).
     Option.bind (skip_char (CHR '':'') s) (\<lambda>s.
     Option.bind (getnum True s) (\<lambda>(m, s).
     Option.bind (skip_char (CHR '':'') s) (\<lambda>s.
     Option.bind (getnum True s) (\<lambda>(se, s).
       if 24 \<le> h \<or> 60 \<le> m \<or> 60 \<le> se then None else Some (h * 3600 + m * 60 + se, s))))))"

definition parse_rfc3339 :: "string \<Rightarrow> time option" where
  "parse_rfc3339 s =
     Option.bind (parse_date s) (\<lambda>(day, s).
     Option.bind (skip_char (CHR ''T'') s) (\<lambda>s.
     Option.bind (parse_clock s) (\<lambda>(sec, s).
     (let (ns, s) = parse_fraction s in
     Option.bind (parse_zone s) (\<lambda>(off, s).
       if s \<noteq> [] then None
       else Some (((day - epoch_days) * 86400 + sec - off) * 1000000000 + ns))))))"

definition ParseTimestamp :: "string \<Rightarrow> time result" where
  "ParseTimestamp s =
     (if s = [] then Inl (Errorf ''timestamp: parse: empty string'' [] [])
      else case parse_rfc3339 s of
        None \<Rightarrow> Inl (Errorf ''timestamp: parse: unrecognized format: %q (expected %s)''
                       [s, ''2006-01-02T15:04:05.000000Z07:00''] [])
      | Some t \<Rightarrow> Inr t)"

text \<open>The instant a stored timestamp stands for.\<close>

definition stored_instant :: "time \<Rightarrow> time" where
  "stored_instant t = t div 1000 * 1000"

section \<open>Round trip\<close>

lemma take_digits_add:
  "take_digits (j + k) acc s =
     Option.bind (take_digits j acc s) (\<lambda>(a, r). take_digits k a r)"
  by (induction j acc s rule: take_digits.induct) auto

lemma digit_char:
  fixes n :: nat
  assumes "n < 10"
  shows "CHR ''0'' \<le> (char_of (48 + n) :: char)" "(char_of (48 + n) :: char) \<le> CHR ''9''"
    "of_char (char_of (48 + n) :: char) = 48 + n"
  using assms by (simp_all add: less_eq_char_def)

lemma take_digits_digits_w:
  "take_digits k acc (digits_w k n @ r) = Some (acc * 10 ^ k + int (n mod 10 ^ k), r)"
proof (induction k arbitrary: n r)
  case 0
  then show ?case by simp
next
  case (Suc k)
  have "take_digits (k + 1) acc (digits_w k (n div 10) @ (char_of (48 + n mod 10) # r)) =
      Some (10 * (acc * 10 ^ k + int (n div 10 mod 10 ^ k)) + int (n mod 10), r)"
    unfolding take_digits_add by (simp add: Suc digit_char)
  moreover have "n mod 10 ^ Suc k = 10 * (n div 10 mod 10 ^ k) + n mod 10"
    using mod_mult2_eq[of n 10 "10 ^ k"] by simp
  ultimately show ?case by (simp add: algebra_simps)
qed

lemma take_append_int:
  assumes "0 \<le> i" and "i < 10 ^ k"
  shows "take_digits k 0 (append_int i k @ r) = Some (i, r)"
proof -
  have "nat i < 10 ^ k" using assms by (simp add: nat_less_iff)
  then show ?thesis using assms by (simp add: append_int_digits take_digits_digits_w)
qed

lemma getnum_append_int:
  assumes "0 \<le> i" and "i < 100"
  shows "getnum f (append_int i 2 @ r) = Some (i, r)"
  using take_append_int[of i 2 r] assms by (simp add: getnum_def)

lemma digit_prefix_digits_w:
  "digit_prefix (digits_w k n @ r) = digits_w k n @ digit_prefix r"
  by (induction k arbitrary: n r) (simp_all add: digit_char)

lemma parse_fraction_us:
  assumes "0 \<le> u" and "u < 1000000"
  shows "parse_fraction (CHR ''.'' # append_int u 6 @ CHR ''Z'' # r) = (u * 1000, CHR ''Z'' # r)"
proof -
  have digs: "append_int u 6 = digits_w 6 (nat u)" using assms by (simp add: append_int_digits)
  have pre: "digit_prefix (append_int u 6 @ CHR ''Z'' # r) = append_int u 6"
    unfolding digs digit_prefix_digits_w by (simp add: less_eq_char_def)
  have "take_digits 6 0 (append_int u 6) = Some (u, [])"
    using take_append_int[of u 6 "[]"] assms by simp
  moreover have "length (append_int u 6) = 6" using assms by (simp add: length_append_int)
  ultimately show ?thesis
    unfolding parse_fraction_def by (auto simp: Let_def pre)
qed

lemma split_months_sum:
  assumes "split_months ls m yd = (m', d)"
  shows "sum_list (take (nat (m' - m)) ls) + (d - 1) = yd"
  using assms
proof (induction ls arbitrary: m yd)
  case Nil
  then show ?case by auto
next
  case (Cons l ls)
  show ?case
  proof (cases "yd < l \<or> ls = []")
    case True
    with Cons.prems show ?thesis by auto
  next
    case False
    with Cons.prems have rec: "split_months ls (m + 1) (yd - l) = (m', d)" by simp
    then have "m + 1 \<le> m'" using split_months_fst[of "m + 1" ls "yd - l"] by simp
    then have "nat (m' - m) = Suc (nat (m' - (m + 1)))" by simp
    with Cons.IH[OF rec] show ?thesis by simp
  qed
qed

lemma split_months_day:
  assumes "split_months ls m yd = (m', d)" and "ls \<noteq> []" and "yd < sum_list ls"
  shows "d \<le> ls ! nat (m' - m)"
  using assms
proof (induction ls arbitrary: m yd)
  case Nil
  then show ?case by simp
next
  case (Cons l ls)
  show ?case
  proof (cases "yd < l \<or> ls = []")
    case True
    with Cons.prems show ?thesis by auto
  next
    case False
    with Cons.prems have rec: "split_months ls (m + 1) (yd - l) = (m', d)" by simp
    then have "m + 1 \<le> m'" using split_months_fst[of "m + 1" ls "yd - l"] by simp
    then have "nat (m' - m) = Suc (nat (m' - (m + 1)))" by simp
    with Cons.IH[OF rec] False Cons.prems(3) show ?thesis by simp
  qed
qed

lemma parse_format_date:
  assumes "0 \<le> n" and "n < 3652425"
  shows "parse_date (format_date n @ r) = Some (n, r)"
proof -
  let ?y = "year_of_day n"
  obtain m d where md: "split_months (month_lengths ?y) 1 (n - days_before_year ?y) = (m, d)"
    and fmt: "format_date n = append_int ?y 4 @ ''-'' @ append_int m 2 @ ''-'' @ append_int d 2"
    and ran: "1 \<le> m" "m \<le> 12" "1 \<le> d" "d \<le> 31"
    using assms by (rule format_date_parts)
  have "n - days_before_year ?y < sum_list (month_lengths ?y)"
    using year_of_day_bounds[OF assms(1)] by (auto simp: days_before_year_Suc month_lengths_def)
  then have "d \<le> month_lengths ?y ! nat (m - 1)"
    using split_months_day[OF md] by (simp add: month_lengths_def)
  moreover have "day_number ?y m d = n"
    using split_months_sum[OF md] by (simp add: day_number_def)
  ultimately show ?thesis
    using year_of_day_range[OF assms] ran
    by (simp add: parse_date_def fmt take_append_int getnum_append_int)
qed

lemma parse_format_clock:
  assumes "0 \<le> s" and "s < 86400"
  shows "parse_clock (format_clock s @ r) = Some (s, r)"
proof -
  have "s div 3600 \<le> 86399 div 3600" by (rule zdiv_mono1) (use assms in auto)
  then have h: "0 \<le> s div 3600" "s div 3600 < 24"
    using assms by (simp_all add: pos_imp_zdiv_nonneg_iff)
  obtain hh mm ss where abs: "s div 3600 = hh" "s div 60 mod 60 = mm" "s mod 60 = ss" by blast
  have m: "0 \<le> mm" "mm < 60" "0 \<le> ss" "ss < 60"
    using pos_mod_bound[of 60 "s div 60"] pos_mod_bound[of 60 s] by (simp_all flip: abs)
  have "s div 60 div 60 = hh" using zdiv_zmult2_eq[of 60 s 60] abs by simp
  then have "s = hh * 3600 + mm * 60 + ss"
    using mult_div_mod_eq[of 60 s] mult_div_mod_eq[of 60 "s div 60"] abs by linarith
  with h m abs show ?thesis
    by (simp add: parse_clock_def format_clock_def getnum_append_int)
qed

lemma parse_FormatTimestamp:
  assumes "four_digit_year t"
  shows "parse_rfc3339 (FormatTimestamp t) = Some (stored_instant t)"
proof -
  obtain q where q: "t div 1000000000 = q" by blast
  obtain u where u: "t mod 1000000000 div 1000 = u" by blast
  have us: "0 \<le> u" "u < 1000000" using length_us[of t] u by simp_all
  have "t div 1000 = (t mod 1000000000 + (1000000 * q) * 1000) div 1000"
    using mult_div_mod_eq[of 1000000000 t] q by (simp add: algebra_simps)
  also have "\<dots> = 1000000 * q + u" unfolding u[symmetric] by (rule div_mult_self1) simp
  finally have st: "stored_instant t = q * 1000000000 + u * 1000"
    by (simp add: stored_instant_def algebra_simps)
  have clk: "0 \<le> q mod 86400" "q mod 86400 < 86400" by simp_all
  have "q div 86400 * 86400 + q mod 86400 = q" by simp
  with parse_format_date[OF four_digit_year_day[OF assms, unfolded q]]
    parse_format_clock[OF clk] parse_fraction_us[OF us, of "[]"] st
  show ?thesis
    by (simp add: FormatTimestamp_def Let_def q u parse_rfc3339_def parse_zone_def)
qed

text \<open>Stored timestamps read back. Parsing the text of an instant of a four-digit year
  gives that instant cut to whole microseconds, so formatting it again gives the same text,
  and an instant that has no sub-microsecond part survives the store unchanged.\<close>

theorem timestamp_round_trip:
  assumes "four_digit_year t"
  shows "ParseTimestamp (FormatTimestamp t) = Inr (stored_instant t)
    \<and> FormatTimestamp (stored_instant t) = FormatTimestamp t
    \<and> (1000 dvd t \<longrightarrow> ParseTimestamp (FormatTimestamp t) = Inr t)"
proof -
  have "FormatTimestamp t \<noteq> []" by (simp add: FormatTimestamp_def Let_def)
  then have "ParseTimestamp (FormatTimestamp t) = Inr (stored_instant t)"
    by (simp add: ParseTimestamp_def parse_FormatTimestamp[OF assms])
  moreover have "FormatTimestamp (stored_instant t) = FormatTimestamp t"
    by (rule FormatTimestamp_same) (simp add: stored_instant_def)
  moreover have "1000 dvd t \<Longrightarrow> stored_instant t = t" by (simp add: stored_instant_def)
  ultimately show ?thesis by simp
qed

theorem timestamp_round_trip_witness:
  "four_digit_year 1767366245123456789
    \<and> ParseTimestamp (FormatTimestamp 1767366245123456789) = Inr 1767366245123456000"
  using timestamp_round_trip[of 1767366245123456789]
  by (simp add: four_digit_year_def stored_instant_def)

text \<open>Text order is time order. Two stored timestamps of four-digit years compare as text
  exactly as their instants compare at microsecond granularity, in both directions, which is
  what every expiry comparison of the SQLite stores relies on.\<close>

theorem timestamp_text_order:
  assumes "four_digit_year t" and "four_digit_year u"
  shows "(FormatTimestamp t \<le> FormatTimestamp u \<longleftrightarrow> t div 1000 \<le> u div 1000)
    \<and> (FormatTimestamp t < FormatTimestamp u \<longleftrightarrow> t div 1000 < u div 1000)"
  using FormatTimestamp_le_iff[OF assms] FormatTimestamp_le_iff[OF assms(2,1)]
  by (auto simp: not_le[symmetric])

theorem timestamp_text_order_witness:
  "four_digit_year 0 \<and> four_digit_year 1000 \<and> FormatTimestamp 0 < FormatTimestamp 1000"
  using timestamp_text_order[of 0 1000] by (simp add: four_digit_year_def)

end
