(* ===== verification/Suspended_Store.thy ===== *)
theory Suspended_Store
  imports Replay_Store Timestamp_Parse
begin

text \<open>
  \<open>services/storage/suspended_transaction_store.go\<close>: the table of transactions that
  wait for a human decision. A table is the list of its rows in row order; the primary key is
  the transaction hash. Timestamp columns hold text. The environment gives the clock and the
  statement faults of a call, as for the replay stores.
\<close>

section \<open>Data\<close>

record SuspendedTransaction =
  stTransactionHash :: string
  stEnvelope :: bytes
  stCreatedAt :: time
  stExpiresAt :: time
  ToolName :: string
  ToolArguments :: bytes
  UserID :: string
  OperatorID :: string
  SubmitterCLISessionID :: string
  Approved :: bool
  ApprovedAt :: "time option"
  ApprovedBy :: string
  ApprovalSignature :: string
  ExpectedCertFingerprint :: string
  ApprovalPublicKey :: string
  PasskeyCredentialID :: string
  PasskeyClientDataJSON :: string
  PasskeyAuthenticatorData :: string
  PasskeySignature :: string

record ApprovalProof =
  apApprovedBy :: string
  apCliSignature :: string
  apCertFingerprint :: string
  apApprovalPublicKey :: string
  apCredentialID :: string
  apClientDataJSON :: string
  apAuthenticatorData :: string
  apSignature :: string

text \<open>A row of \<open>suspended_transactions\<close>.\<close>

record suspended_row =
  transaction_hash :: string
  envelope_col :: bytes
  created_at :: string
  expires_at :: string
  tool_name :: string
  tool_arguments :: bytes
  user_id :: string
  operator_id :: string
  submitter_cli_session_id :: string
  approved :: bool
  approved_at :: "string option"
  approved_by :: string
  approval_signature :: string
  expected_cert_fingerprint :: string
  approval_public_key :: string
  passkey_credential_id :: string
  passkey_client_data_json :: string
  passkey_authenticator_data :: string
  passkey_signature :: string

type_synonym suspended_table = "suspended_row list"

definition row_of :: "SuspendedTransaction \<Rightarrow> suspended_row" where
  "row_of tx =
     \<lparr>transaction_hash = stTransactionHash tx, envelope_col = stEnvelope tx,
      created_at = FormatTimestamp (stCreatedAt tx), expires_at = FormatTimestamp (stExpiresAt tx),
      tool_name = ToolName tx, tool_arguments = ToolArguments tx, user_id = UserID tx,
      operator_id = OperatorID tx, submitter_cli_session_id = SubmitterCLISessionID tx,
      approved = Approved tx, approved_at = map_option FormatTimestamp (ApprovedAt tx),
      approved_by = ApprovedBy tx, approval_signature = ApprovalSignature tx,
      expected_cert_fingerprint = ExpectedCertFingerprint tx,
      approval_public_key = ApprovalPublicKey tx, passkey_credential_id = PasskeyCredentialID tx,
      passkey_client_data_json = PasskeyClientDataJSON tx,
      passkey_authenticator_data = PasskeyAuthenticatorData tx,
      passkey_signature = PasskeySignature tx\<rparr>"

text \<open>The columns of the \<open>ON CONFLICT\<close> clause; the others keep their stored value.\<close>

definition upsert_row :: "suspended_row \<Rightarrow> suspended_row \<Rightarrow> suspended_row" where
  "upsert_row ex r =
     r\<lparr>envelope_col := envelope_col ex, expires_at := expires_at ex, approved := approved ex,
       approved_at := approved_at ex, approved_by := approved_by ex,
       approval_signature := approval_signature ex,
       expected_cert_fingerprint := expected_cert_fingerprint ex,
       approval_public_key := approval_public_key ex,
       passkey_credential_id := passkey_credential_id ex,
       passkey_client_data_json := passkey_client_data_json ex,
       passkey_authenticator_data := passkey_authenticator_data ex,
       passkey_signature := passkey_signature ex\<rparr>"

text \<open>The zero value of \<open>time.Time\<close>, January 1 of year 1, which a failed parse leaves.\<close>

definition zero_time :: time where
  "zero_time = - 62135596800000000000"

definition parsed :: "string \<Rightarrow> time" where
  "parsed s = (case ParseTimestamp s of Inr t \<Rightarrow> t | Inl _ \<Rightarrow> zero_time)"

definition transaction_of :: "suspended_row \<Rightarrow> SuspendedTransaction" where
  "transaction_of r =
     \<lparr>stTransactionHash = transaction_hash r, stEnvelope = envelope_col r,
      stCreatedAt = parsed (created_at r), stExpiresAt = parsed (expires_at r),
      ToolName = tool_name r, ToolArguments = tool_arguments r, UserID = user_id r,
      OperatorID = operator_id r, SubmitterCLISessionID = submitter_cli_session_id r,
      Approved = approved r, ApprovedAt = map_option parsed (approved_at r),
      ApprovedBy = approved_by r, ApprovalSignature = approval_signature r,
      ExpectedCertFingerprint = expected_cert_fingerprint r,
      ApprovalPublicKey = approval_public_key r, PasskeyCredentialID = passkey_credential_id r,
      PasskeyClientDataJSON = passkey_client_data_json r,
      PasskeyAuthenticatorData = passkey_authenticator_data r,
      PasskeySignature = passkey_signature r\<rparr>"

section \<open>Operations\<close>

definition StoreSuspendedTransaction ::
    "store_env \<Rightarrow> suspended_table \<Rightarrow> SuspendedTransaction \<Rightarrow> unit result \<times> suspended_table" where
  "StoreSuspendedTransaction E t tx =
     (case fault_at E 0 of
        Some err \<Rightarrow> (Inl (Errorf ''suspended_transaction_store: store transaction: %w'' [] [err]), t)
      | None \<Rightarrow>
         (let ex = row_of tx in
          (Inr (),
           if list_ex (\<lambda>r. transaction_hash r = stTransactionHash tx) t
           then map (\<lambda>r. if transaction_hash r = stTransactionHash tx then upsert_row ex r else r) t
           else t @ [ex])))"

definition GetSuspendedTransaction ::
    "store_env \<Rightarrow> suspended_table \<Rightarrow> string \<Rightarrow> SuspendedTransaction option result" where
  "GetSuspendedTransaction E t txHash =
     (case fault_at E 0 of
        Some err \<Rightarrow> Inl (Errorf ''suspended_transaction_store: get transaction: %w'' [] [err])
      | None \<Rightarrow>
         Inr (map_option transaction_of
           (find (\<lambda>r. transaction_hash r = txHash \<and> FormatTimestamp (clock_at E 0) < expires_at r) t)))"

text \<open>\<open>ORDER BY created_at DESC\<close>; rows of equal key come in row order.\<close>

definition ListSuspendedTransactions ::
    "store_env \<Rightarrow> suspended_table \<Rightarrow> string \<Rightarrow> SuspendedTransaction list result" where
  "ListSuspendedTransactions E t userID =
     (case fault_at E 0 of
        Some err \<Rightarrow> Inl (Errorf ''suspended_transaction_store: list transactions: %w'' [] [err])
      | None \<Rightarrow>
         Inr (map transaction_of (rev (sort_key created_at (rev
           (filter (\<lambda>r. (userID \<noteq> [] \<longrightarrow> user_id r = userID) \<and>
                        FormatTimestamp (clock_at E 0) < expires_at r) t))))))"

definition approve_row :: "string \<Rightarrow> ApprovalProof \<Rightarrow> suspended_row \<Rightarrow> suspended_row" where
  "approve_row nowStr p r =
     r\<lparr>approved := True, approved_at := Some nowStr, approved_by := apApprovedBy p,
       approval_signature := apCliSignature p, expected_cert_fingerprint := apCertFingerprint p,
       approval_public_key := apApprovalPublicKey p, passkey_credential_id := apCredentialID p,
       passkey_client_data_json := apClientDataJSON p,
       passkey_authenticator_data := apAuthenticatorData p, passkey_signature := apSignature p\<rparr>"

definition ApproveSuspendedTransaction ::
    "store_env \<Rightarrow> suspended_table \<Rightarrow> string \<Rightarrow> ApprovalProof \<Rightarrow> unit result \<times> suspended_table" where
  "ApproveSuspendedTransaction E t txHash p =
     (let nowStr = FormatTimestamp (clock_at E 0);
          hit = (\<lambda>r. transaction_hash r = txHash \<and> FormatTimestamp (clock_at E 1) < expires_at r) in
      case fault_at E 0 of
        Some err \<Rightarrow> (Inl (Errorf ''suspended_transaction_store: approve transaction: %w'' [] [err]), t)
      | None \<Rightarrow>
         (let t' = map (\<lambda>r. if hit r then approve_row nowStr p r else r) t in
          case fault_at E 1 of
            Some err \<Rightarrow>
              (Inl (Errorf ''suspended_transaction_store: approve transaction: failed to get rows affected: %w'' [] [err]), t')
          | None \<Rightarrow>
              if list_ex hit t then (Inr (), t')
              else (Inl (Errorf ''suspended_transaction_store: approve transaction: transaction not found or expired'' [] []), t')))"

definition DeleteSuspendedTransaction ::
    "store_env \<Rightarrow> suspended_table \<Rightarrow> string \<Rightarrow> unit result \<times> suspended_table" where
  "DeleteSuspendedTransaction E t txHash =
     (case fault_at E 0 of
        Some err \<Rightarrow> (Inl (Errorf ''suspended_transaction_store: delete transaction: %w'' [] [err]), t)
      | None \<Rightarrow> (Inr (), filter (\<lambda>r. transaction_hash r \<noteq> txHash) t))"

definition expired_rows :: "time \<Rightarrow> suspended_table \<Rightarrow> suspended_table" where
  "expired_rows now t = filter (\<lambda>r. expires_at r < FormatTimestamp now) t"

definition drop_expired :: "time \<Rightarrow> suspended_table \<Rightarrow> suspended_table" where
  "drop_expired now t = filter (\<lambda>r. \<not> expires_at r < FormatTimestamp now) t"

definition CleanupExpiredSuspendedTransactions ::
    "store_env \<Rightarrow> suspended_table \<Rightarrow> nat result \<times> suspended_table" where
  "CleanupExpiredSuspendedTransactions E t =
     (case fault_at E 0 of
        Some err \<Rightarrow> (Inl (Errorf ''suspended_transaction_store: cleanup expired: %w'' [] [err]), t)
      | None \<Rightarrow>
         ((case fault_at E 1 of
             Some err \<Rightarrow> Inl err
           | None \<Rightarrow> Inr (length (expired_rows (clock_at E 0) t))),
          drop_expired (clock_at E 0) t))"

definition GetExpiredSuspendedTransactions ::
    "store_env \<Rightarrow> suspended_table \<Rightarrow> SuspendedTransaction list result" where
  "GetExpiredSuspendedTransactions E t =
     (case fault_at E 0 of
        Some err \<Rightarrow> Inl (Errorf ''suspended_transaction_store: get expired transactions: %w'' [] [err])
      | None \<Rightarrow> Inr (map transaction_of (sort_key expires_at (expired_rows (clock_at E 0) t))))"

text \<open>The periodic pruner: expired rows, then the oldest tenth when the database file is
  larger than the limit. \<open>dbSize\<close> is what the file-dbSize query answers; the incremental
  vacuum at the end leaves the rows alone.\<close>

definition suspendedTransactionPrune ::
    "store_env \<Rightarrow> int \<Rightarrow> int result \<Rightarrow> suspended_table \<Rightarrow> unit result \<times> suspended_table" where
  "suspendedTransactionPrune E maxDBSizeMB dbSize t =
     (case fault_at E 0 of
        Some err \<Rightarrow> (Inl err, t)
      | None \<Rightarrow>
         (let t1 = drop_expired (clock_at E 0) t;
              oldest = map transaction_hash (take (length t1 div 10) (sort_key created_at t1)) in
          case dbSize of
            Inl _ \<Rightarrow> (Inr (), t1)
          | Inr n \<Rightarrow>
              (Inr (),
               if n > maxDBSizeMB * 1024 * 1024 \<and> fault_at E 1 = None
               then filter (\<lambda>r. transaction_hash r \<notin> set oldest) t1 else t1)))"

text \<open>The operations that change the table, each with its own environment.\<close>

datatype suspended_op =
    OpStore store_env SuspendedTransaction
  | OpApprove store_env string ApprovalProof
  | OpDelete store_env string
  | OpCleanup store_env
  | OpPrune store_env int "int result"

fun suspended_step :: "suspended_op \<Rightarrow> suspended_table \<Rightarrow> suspended_table" where
  "suspended_step (OpStore E tx) t = snd (StoreSuspendedTransaction E t tx)"
| "suspended_step (OpApprove E h p) t = snd (ApproveSuspendedTransaction E t h p)"
| "suspended_step (OpDelete E h) t = snd (DeleteSuspendedTransaction E t h)"
| "suspended_step (OpCleanup E) t = snd (CleanupExpiredSuspendedTransactions E t)"
| "suspended_step (OpPrune E m dbSize) t = snd (suspendedTransactionPrune E m dbSize t)"

definition suspended_run :: "suspended_op list \<Rightarrow> suspended_table \<Rightarrow> suspended_table" where
  "suspended_run ops t = foldl (\<lambda>t op. suspended_step op t) t ops"

lemma suspended_run_simps [simp]:
  "suspended_run [] t = t"
  "suspended_run (op # ops) t = suspended_run ops (suspended_step op t)"
  "suspended_run (ops @ ops') t = suspended_run ops' (suspended_run ops t)"
  by (simp_all add: suspended_run_def)

section \<open>The table invariant\<close>

text \<open>The primary key.\<close>

definition unique_hashes :: "suspended_table \<Rightarrow> bool" where
  "unique_hashes t \<longleftrightarrow> distinct (map transaction_hash t)"

lemma row_hash_simps [simp]:
  "transaction_hash (row_of tx) = stTransactionHash tx"
  "transaction_hash (upsert_row ex r) = transaction_hash r"
  "transaction_hash (approve_row now p r) = transaction_hash r"
  "stTransactionHash (transaction_of r) = transaction_hash r"
  by (simp_all add: row_of_def upsert_row_def approve_row_def transaction_of_def)

lemma map_if_hashes:
  assumes "\<And>r. transaction_hash (g r) = transaction_hash r"
  shows "map (transaction_hash \<circ> (\<lambda>r. if P r then g r else r)) t = map transaction_hash t"
  by (simp add: assms)

lemma unique_hashes_filter: "unique_hashes t \<Longrightarrow> unique_hashes (filter P t)"
  by (simp add: unique_hashes_def distinct_map_filter)

lemma suspended_step_unique:
  assumes "unique_hashes t"
  shows "unique_hashes (suspended_step op t)"
proof (cases op)
  case (OpStore E tx)
  have "unique_hashes (snd (StoreSuspendedTransaction E t tx))"
  proof (cases "list_ex (\<lambda>r. transaction_hash r = stTransactionHash tx) t")
    case True
    with assms show ?thesis
      by (simp add: StoreSuspendedTransaction_def Let_def unique_hashes_def map_if_hashes
          split: option.split)
  next
    case False
    with assms show ?thesis
      by (auto simp: StoreSuspendedTransaction_def Let_def unique_hashes_def list_ex_iff
          split: option.split)
  qed
  with OpStore show ?thesis by simp
next
  case (OpApprove E h p)
  with assms show ?thesis
    by (simp add: ApproveSuspendedTransaction_def Let_def unique_hashes_def map_if_hashes
        split: option.split)
next
  case (OpDelete E h)
  with assms show ?thesis
    by (simp add: DeleteSuspendedTransaction_def unique_hashes_filter split: option.split)
next
  case (OpCleanup E)
  with assms show ?thesis
    by (simp add: CleanupExpiredSuspendedTransactions_def drop_expired_def unique_hashes_filter
        split: option.split)
next
  case (OpPrune E m dbSize)
  with assms show ?thesis
    by (simp add: suspendedTransactionPrune_def drop_expired_def unique_hashes_filter Let_def
        split: option.split sum.split)
qed

lemma suspended_run_unique: "unique_hashes t \<Longrightarrow> unique_hashes (suspended_run ops t)"
  by (induction ops arbitrary: t) (simp_all add: suspended_step_unique)

end
