(* ===== verification/Notary.thy ===== *)
theory Notary
  imports Suspended_Store Signers
begin

text \<open>
  \<open>services/governance/l3_notary.go\<close>: the two implementations of \<open>L3Notary\<close>. The
  gateway notary composes the passkey verifier and the CLI session verifier, which are
  interfaces of the file and arguments here. The outbound notary looks the transaction up in
  the suspended store and checks the approver's Ed25519 signature over the transaction hash.
\<close>

section \<open>Definitions\<close>

type_synonym L3Notary = "string \<Rightarrow> string \<Rightarrow> string \<Rightarrow> L3Proof option \<Rightarrow> bool result"

text \<open>\<open>VerifyCLISession(userID, cliSessionID, certFingerprint)\<close>: \<open>None\<close> is the nil error.\<close>

type_synonym CLISessionVerifier = "string \<Rightarrow> string \<Rightarrow> string \<Rightarrow> gov_error option"

definition gatewayNotary_VerifyL3Proof :: "CLISessionVerifier option \<Rightarrow> L3Notary \<Rightarrow> L3Notary" where
  "gatewayNotary_VerifyL3Proof cliVerifier passkeyVerifier userID transactionHash cliSessionID proof =
     (case proof of
        None \<Rightarrow> Inl (Sentinel (Notary ErrGatewayL3ProofRequired))
      | Some p \<Rightarrow>
         if CredentialId p = [] then Inl (Sentinel (Notary ErrPasskeyProofRequired))
         else (case passkeyVerifier userID transactionHash cliSessionID (Some p) of
            Inl err \<Rightarrow> Inl err
          | Inr False \<Rightarrow> Inr False
          | Inr True \<Rightarrow>
             if MtlsCertFingerprint p = [] then Inr True
             else (case cliVerifier of
                None \<Rightarrow> Inr True
              | Some v \<Rightarrow>
                 (case v userID cliSessionID (MtlsCertFingerprint p) of
                    None \<Rightarrow> Inr True
                  | Some err \<Rightarrow>
                     if errors_Is err (Notary ErrCLISessionDenied) then Inr False else Inl err))))"

abbreviation SignatureSize :: nat where "SignatureSize \<equiv> 64"

definition L3ApprovalWindow :: int where
  "L3ApprovalWindow = 30 * 60 * 1000000000"

text \<open>The CLI block that runs when a session verifier is present: \<open>None\<close> lets the
  verification go on, \<open>Some r\<close> returns \<open>r\<close>.\<close>

definition cli_session_checks ::
    "CLISessionVerifier option \<Rightarrow> string \<Rightarrow> string \<Rightarrow> L3Proof \<Rightarrow> bool result option" where
  "cli_session_checks cliVerifier userID cliSessionID p =
     (case cliVerifier of
        None \<Rightarrow> None
      | Some v \<Rightarrow>
         if MtlsCertFingerprint p = [] then Some (Inl (Sentinel (Notary ErrCLIL3CertFingerprintRequired)))
         else if CliSignature p = [] then Some (Inl (Sentinel (Notary ErrCLIL3SignatureRequired)))
         else if hex_DecodeString (MtlsCertFingerprint p) = None
              then Some (Inl (wrap ''%w: %w'' (Notary ErrCLIL3InvalidFingerprintFormat) []))
         else (case v userID cliSessionID (MtlsCertFingerprint p) of
            None \<Rightarrow> None
          | Some err \<Rightarrow>
             Some (if errors_Is err (Notary ErrCLISessionDenied) then Inr False else Inl err)))"

text \<open>The checks of the proof against the approved transaction, from the approval decision on;
  \<open>now\<close> is the clock reading of the window check.\<close>

definition approval_in_window :: "SuspendedTransaction \<Rightarrow> time \<Rightarrow> bool" where
  "approval_in_window tx now \<longleftrightarrow>
     (case ApprovedAt tx of None \<Rightarrow> True | Some a \<Rightarrow> \<not> now > a + L3ApprovalWindow)"

definition check_signature :: "crypto \<Rightarrow> SuspendedTransaction \<Rightarrow> string \<Rightarrow> L3Proof \<Rightarrow> bool result" where
  "check_signature C tx transactionHash p =
     (if CliSignature p = [] then Inl (Sentinel (Notary ErrCLIL3SignatureRequired))
      else case hex_DecodeString (CliSignature p) of
        None \<Rightarrow> Inl (wrap ''%w: %w'' (Notary ErrCLIL3SignatureEncodingFailed) [])
      | Some sigBytes \<Rightarrow>
         if length sigBytes \<noteq> SignatureSize
         then Inl (Sentinel (Notary ErrCLIL3SignatureEncodingFailed))
         else if ExpectedCertFingerprint tx \<noteq> [] \<and> ExpectedCertFingerprint tx \<noteq> MtlsCertFingerprint p
         then Inl (Sentinel (Notary ErrCLIL3FingerprintMismatch))
         else if ApprovalPublicKey tx = [] then Inl (Sentinel (Notary ErrCLIL3PublicKeyMissing))
         else case hex_DecodeString (ApprovalPublicKey tx) of
           None \<Rightarrow> Inl (wrap ''%w: %w'' (Notary ErrCLIL3PublicKeyInvalid) [])
         | Some pubKeyBytes \<Rightarrow>
            if length pubKeyBytes \<noteq> PublicKeySize
            then Inl (Sentinel (Notary ErrCLIL3PublicKeyInvalid))
            else if \<not> ed_verify C pubKeyBytes transactionHash sigBytes
            then Inl (Sentinel (Notary ErrCLIL3SignatureVerificationFailed))
            else Inr True)"

text \<open>The store's clock is read first (point 0), the window check's clock next (point 1).\<close>

definition verifyOutboundProof ::
    "crypto \<Rightarrow> store_env \<Rightarrow> suspended_table option \<Rightarrow> CLISessionVerifier option \<Rightarrow> L3Notary" where
  "verifyOutboundProof C E store cliVerifier userID transactionHash cliSessionID proof =
     (case proof of
        None \<Rightarrow> Inl (Sentinel (Notary ErrGatewayL3ProofRequired))
      | Some p \<Rightarrow>
         if userID = [] then Inl (Sentinel (Notary ErrUserIDRequired))
         else if transactionHash = [] then Inl (Sentinel (Notary ErrCLIL3TransactionHashRequired))
         else case cli_session_checks cliVerifier userID cliSessionID p of
           Some r \<Rightarrow> r
         | None \<Rightarrow>
            (case store of
               None \<Rightarrow> Inl (Sentinel (Notary ErrCLIL3SuspendedStoreNotConfigured))
             | Some t \<Rightarrow>
                (case GetSuspendedTransaction E t transactionHash of
                   Inl err \<Rightarrow>
                     Inl (Errorf ''%w: %w'' [] [Sentinel (Notary ErrCLIL3GetSuspendedTransactionFailed), err])
                 | Inr None \<Rightarrow> Inl (Sentinel (Sys ErrNotFound))
                 | Inr (Some tx) \<Rightarrow>
                    if UserID tx \<noteq> userID then Inl (Sentinel (Notary ErrCLIL3SessionUserMismatch))
                    else if \<not> Approved tx then Inl (Sentinel (Notary ErrCLIL3TransactionNotApproved))
                    else if \<not> approval_in_window tx (clock_at E 1)
                    then Inl (Sentinel (Notary ErrCLIL3ApprovalExpired))
                    else check_signature C tx transactionHash p)))"

definition outboundNotary_VerifyL3Proof ::
    "crypto \<Rightarrow> store_env \<Rightarrow> suspended_table option \<Rightarrow> L3Notary" where
  "outboundNotary_VerifyL3Proof C E store = verifyOutboundProof C E store None"

section \<open>Lemmas\<close>

definition signed_by_approver :: "crypto \<Rightarrow> SuspendedTransaction \<Rightarrow> string \<Rightarrow> L3Proof \<Rightarrow> bool" where
  "signed_by_approver C tx h p \<longleftrightarrow>
     (\<exists>sig key. hex_DecodeString (CliSignature p) = Some sig \<and> length sig = SignatureSize \<and>
        hex_DecodeString (ApprovalPublicKey tx) = Some key \<and> length key = PublicKeySize \<and>
        ed_verify C key h sig) \<and>
     (ExpectedCertFingerprint tx \<noteq> [] \<longrightarrow> ExpectedCertFingerprint tx = MtlsCertFingerprint p)"

lemma check_signature_iff:
  "check_signature C tx h p = Inr b \<longleftrightarrow> b \<and> signed_by_approver C tx h p"
proof -
  have "hex_DecodeString [] = Some []" by simp
  then show ?thesis
    by (auto simp: check_signature_def signed_by_approver_def split: option.splits if_splits)
qed

lemma GetSuspendedTransaction_Some:
  "GetSuspendedTransaction E t h = Inr (Some tx) \<longleftrightarrow>
     fault_at E 0 = None \<and>
     (\<exists>r. find (\<lambda>r. transaction_hash r = h \<and> FormatTimestamp (clock_at E 0) < expires_at r) t = Some r
        \<and> tx = transaction_of r)"
  by (auto simp: GetSuspendedTransaction_def split: option.splits)

lemma find_SomeD: "find P xs = Some x \<Longrightarrow> x \<in> set xs \<and> P x"
  by (induction xs) (auto split: if_splits)

lemma outbound_accepts_iff:
  "outboundNotary_VerifyL3Proof C E (Some t) u h s (Some p) = Inr b \<longleftrightarrow>
     b \<and> u \<noteq> [] \<and> h \<noteq> [] \<and>
     (\<exists>tx. GetSuspendedTransaction E t h = Inr (Some tx) \<and> UserID tx = u \<and> Approved tx \<and>
        approval_in_window tx (clock_at E 1) \<and> signed_by_approver C tx h p)"
  by (auto simp: outboundNotary_VerifyL3Proof_def verifyOutboundProof_def cli_session_checks_def
      check_signature_iff split: sum.splits option.splits if_splits)

text \<open>What one store operation can do to an approved row: the approval it carries was there
  before, or the operation brought it.\<close>

definition brings_approval :: "string \<Rightarrow> string \<Rightarrow> suspended_op \<Rightarrow> bool" where
  "brings_approval h key op \<longleftrightarrow>
     (case op of
        OpStore E tx \<Rightarrow> stTransactionHash tx = h \<and> Approved tx \<and> ApprovalPublicKey tx = key
      | OpApprove E h' p \<Rightarrow> h' = h \<and> apApprovalPublicKey p = key
      | _ \<Rightarrow> False)"

definition approved_with :: "string \<Rightarrow> string \<Rightarrow> suspended_table \<Rightarrow> bool" where
  "approved_with h key t \<longleftrightarrow>
     (\<exists>r\<in>set t. transaction_hash r = h \<and> approved r \<and> approval_public_key r = key)"

lemma approved_with_filter: "approved_with h key (filter P t) \<Longrightarrow> approved_with h key t"
  by (auto simp: approved_with_def)

lemma store_brings:
  assumes "approved_with h key (snd (StoreSuspendedTransaction E t tx))"
  shows "approved_with h key t \<or> brings_approval h key (OpStore E tx)"
proof -
  obtain r where r: "r \<in> set (snd (StoreSuspendedTransaction E t tx))"
    "transaction_hash r = h" "approved r" "approval_public_key r = key"
    using assms by (auto simp: approved_with_def)
  have "r \<in> set t \<or> r = row_of tx \<or>
      (\<exists>q\<in>set t. transaction_hash q = stTransactionHash tx \<and> r = upsert_row (row_of tx) q)"
    using r(1) by (auto simp: StoreSuspendedTransaction_def Let_def split: option.splits if_splits)
  then show ?thesis
  proof (elim disjE bexE)
    assume "r \<in> set t"
    with r show ?thesis by (auto simp: approved_with_def)
  next
    assume "r = row_of tx"
    with r show ?thesis by (simp add: brings_approval_def row_of_def)
  next
    fix q assume "transaction_hash q = stTransactionHash tx \<and> r = upsert_row (row_of tx) q"
    with r show ?thesis by (simp add: brings_approval_def upsert_row_def row_of_def)
  qed
qed

lemma approve_brings:
  assumes "approved_with h key (snd (ApproveSuspendedTransaction E t h' p))"
  shows "approved_with h key t \<or> brings_approval h key (OpApprove E h' p)"
proof -
  obtain r where r: "r \<in> set (snd (ApproveSuspendedTransaction E t h' p))"
    "transaction_hash r = h" "approved r" "approval_public_key r = key"
    using assms by (auto simp: approved_with_def)
  have "r \<in> set t \<or>
      (\<exists>q\<in>set t. transaction_hash q = h' \<and> r = approve_row (FormatTimestamp (clock_at E 0)) p q)"
    using r(1) by (auto simp: ApproveSuspendedTransaction_def Let_def split: option.splits if_splits)
  then show ?thesis
  proof (elim disjE bexE)
    assume "r \<in> set t"
    with r show ?thesis by (auto simp: approved_with_def)
  next
    fix q assume "transaction_hash q = h' \<and> r = approve_row (FormatTimestamp (clock_at E 0)) p q"
    with r show ?thesis by (simp add: brings_approval_def approve_row_def)
  qed
qed

lemma step_brings:
  assumes "approved_with h key (suspended_step op t)"
  shows "approved_with h key t \<or> brings_approval h key op"
  using assms
  by (cases op)
    (auto simp: DeleteSuspendedTransaction_def CleanupExpiredSuspendedTransactions_def
      suspendedTransactionPrune_def drop_expired_def Let_def
      dest!: store_brings approve_brings
      dest: approved_with_filter split: option.splits sum.splits if_splits)

lemma run_brings:
  assumes "approved_with h key (suspended_run ops t)"
  shows "approved_with h key t \<or> (\<exists>op\<in>set ops. brings_approval h key op)"
  using assms
proof (induction ops arbitrary: t)
  case Nil
  then show ?case by simp
next
  case (Cons op ops)
  from Cons.IH[of "suspended_step op t"] Cons.prems step_brings[of h key op t] show ?case by auto
qed

section \<open>Properties\<close>

text \<open>C10: No mutation is notarised without a human decision. When the outbound notary accepts
  a proof against the state that a run of store operations leaves behind, some operation of
  the run approved this very transaction hash (an approval, or a store of an already approved
  transaction), and the proof carries a 64-byte Ed25519 signature over that hash under the
  public key the approval recorded. Re-storing, deleting, cleaning up and pruning never create
  an approval.\<close>

theorem outbound_notary_needs_approval:
  assumes "outboundNotary_VerifyL3Proof C E (Some (suspended_run ops [])) u h s proof = Inr True"
  shows "\<exists>p op pk key sig. proof = Some p \<and> op \<in> set ops \<and> brings_approval h pk op \<and>
     hex_DecodeString pk = Some key \<and> length key = 32 \<and>
     hex_DecodeString (CliSignature p) = Some sig \<and> length sig = 64 \<and> ed_verify C key h sig"
proof -
  obtain p where p: "proof = Some p"
    using assms by (auto simp: outboundNotary_VerifyL3Proof_def verifyOutboundProof_def split: option.splits)
  with assms obtain tx where tx: "GetSuspendedTransaction E (suspended_run ops []) h = Inr (Some tx)"
    "Approved tx" "signed_by_approver C tx h p"
    by (auto simp: outbound_accepts_iff)
  then obtain r where r: "r \<in> set (suspended_run ops [])" "transaction_hash r = h" "tx = transaction_of r"
    by (auto simp: GetSuspendedTransaction_Some dest: find_SomeD)
  with tx have "approved_with h (ApprovalPublicKey tx) (suspended_run ops [])"
    by (auto simp: approved_with_def transaction_of_def)
  from run_brings[OF this] obtain op where "op \<in> set ops" "brings_approval h (ApprovalPublicKey tx) op"
    by (auto simp: approved_with_def)
  with p tx(3) show ?thesis by (auto simp: signed_by_approver_def)
qed

lemma toy_ed_sign: "ed_sign toy_crypto = toy_sign"
  by (simp add: toy_crypto_def)

definition sample_suspended :: SuspendedTransaction where
  "sample_suspended =
     \<lparr>stTransactionHash = ''h'', stEnvelope = ''{}'', stCreatedAt = 0, stExpiresAt = 3600000000000,
      ToolName = ''bash'', ToolArguments = ''{}'', UserID = ''alice'', OperatorID = ''op-1'',
      SubmitterCLISessionID = ''cli-1'', Approved = False, ApprovedAt = None, ApprovedBy = [],
      ApprovalSignature = [], ExpectedCertFingerprint = [], ApprovalPublicKey = [],
      PasskeyCredentialID = [], PasskeyClientDataJSON = [], PasskeyAuthenticatorData = [],
      PasskeySignature = []\<rparr>"

definition sample_approval :: ApprovalProof where
  "sample_approval =
     \<lparr>apApprovedBy = ''alice'', apCliSignature = [], apCertFingerprint = ''ab'',
      apApprovalPublicKey = hex_EncodeToString (replicate 32 (CHR ''k'')), apCredentialID = [],
      apClientDataJSON = [], apAuthenticatorData = [], apSignature = []\<rparr>"

definition sample_l3_proof :: L3Proof where
  "sample_l3_proof =
     \<lparr>ClientDataJson = [], AuthenticatorData = [], ProofSignature = [], CredentialId = [],
      MtlsCertFingerprint = ''ab'',
      CliSignature = hex_EncodeToString (toy_sign (replicate 32 (CHR ''k'')) ''h'')\<rparr>"

text \<open>A row that is stored unapproved and then approved before it expires.\<close>

lemma store_then_approve:
  assumes "fault_at E1 0 = None" and "fault_at E2 0 = None"
    and "\<forall>r\<in>set t. transaction_hash r \<noteq> stTransactionHash tx"
    and "FormatTimestamp (clock_at E2 1) < FormatTimestamp (stExpiresAt tx)"
  shows "suspended_run [OpStore E1 tx, OpApprove E2 (stTransactionHash tx) ap] t =
     t @ [approve_row (FormatTimestamp (clock_at E2 0)) ap (row_of tx)]"
proof -
  have "snd (StoreSuspendedTransaction E1 t tx) = t @ [row_of tx]"
    using assms(1,3) by (auto simp: StoreSuspendedTransaction_def list_ex_iff)
  moreover have "expires_at (row_of tx) = FormatTimestamp (stExpiresAt tx)" by (simp add: row_of_def)
  ultimately show ?thesis
    using assms by (auto simp: ApproveSuspendedTransaction_def Let_def intro!: map_idI split: option.split)
qed

lemma find_append_last:
  assumes "\<forall>r\<in>set t. \<not> P r"
  shows "find P (t @ [x]) = (if P x then Some x else None)"
  using assms by (induction t) auto

lemma approval_workflow:
  assumes crypto: "sig64 C" "key_pair C priv pub" "length pub = 32"
    and calm: "fault_at E1 0 = None" "fault_at E2 0 = None" "fault_at E3 0 = None"
    and fresh: "\<forall>r\<in>set t. transaction_hash r \<noteq> stTransactionHash tx"
    and years: "four_digit_year (clock_at E2 0)" "four_digit_year (clock_at E2 1)"
      "four_digit_year (clock_at E3 0)" "four_digit_year (stExpiresAt tx)"
    and intime: "clock_at E2 1 div 1000 < stExpiresAt tx div 1000"
    and ap: "apApprovalPublicKey ap = hex_EncodeToString pub"
      "apCertFingerprint ap = MtlsCertFingerprint p"
    and signed: "CliSignature p = hex_EncodeToString (ed_sign C priv (stTransactionHash tx))"
    and ids: "UserID tx \<noteq> []" "stTransactionHash tx \<noteq> []"
  shows "outboundNotary_VerifyL3Proof C E3
       (Some (suspended_run [OpStore E1 tx, OpApprove E2 (stTransactionHash tx) ap] t))
       (UserID tx) (stTransactionHash tx) s (Some p) =
     (if stExpiresAt tx div 1000 \<le> clock_at E3 0 div 1000 then Inl (Sentinel (Sys ErrNotFound))
      else if clock_at E3 1 > stored_instant (clock_at E2 0) + L3ApprovalWindow
      then Inl (Sentinel (Notary ErrCLIL3ApprovalExpired))
      else Inr True)"
proof -
  let ?h = "stTransactionHash tx"
  let ?row = "approve_row (FormatTimestamp (clock_at E2 0)) ap (row_of tx)"
  have run: "suspended_run [OpStore E1 tx, OpApprove E2 ?h ap] t = t @ [?row]"
    by (rule store_then_approve[OF calm(1,2) fresh])
      (use FormatTimestamp_less[OF years(2,4)] intime in auto)
  have exp: "expires_at ?row = FormatTimestamp (stExpiresAt tx)"
    by (simp add: approve_row_def row_of_def)
  have live: "FormatTimestamp (clock_at E3 0) < expires_at ?row \<longleftrightarrow>
      \<not> stExpiresAt tx div 1000 \<le> clock_at E3 0 div 1000"
    unfolding exp FormatTimestamp_le_iff[OF years(4,3), symmetric] by (simp add: not_le)
  have get: "GetSuspendedTransaction E3 (t @ [?row]) ?h =
      Inr (if stExpiresAt tx div 1000 \<le> clock_at E3 0 div 1000 then None else Some (transaction_of ?row))"
    using fresh calm(3) live by (simp add: GetSuspendedTransaction_def find_append_last)
  have "parsed (FormatTimestamp (clock_at E2 0)) = stored_instant (clock_at E2 0)"
    by (simp add: parsed_def ParseTimestamp_def parse_FormatTimestamp[OF years(1)])
      (simp add: FormatTimestamp_def Let_def)
  then have win: "approval_in_window (transaction_of ?row) (clock_at E3 1) \<longleftrightarrow>
      \<not> clock_at E3 1 > stored_instant (clock_at E2 0) + L3ApprovalWindow"
    by (simp add: approval_in_window_def transaction_of_def approve_row_def)
  have sig: "check_signature C (transaction_of ?row) ?h p = Inr True"
    using crypto ap signed
    by (simp add: check_signature_iff signed_by_approver_def transaction_of_def approve_row_def
        sig64_def key_pair_def)
  have "UserID (transaction_of ?row) = UserID tx" "Approved (transaction_of ?row)"
    by (simp_all add: transaction_of_def approve_row_def row_of_def)
  then show ?thesis
    unfolding run outboundNotary_VerifyL3Proof_def verifyOutboundProof_def
    using ids by (simp add: cli_session_checks_def get win[simplified] sig)
qed

lemma sample_accepted:
  "outboundNotary_VerifyL3Proof toy_crypto calm_env
     (Some (suspended_run [OpStore calm_env sample_suspended, OpApprove calm_env ''h'' sample_approval] []))
     ''alice'' ''h'' [] (Some sample_l3_proof) = Inr True"
  using approval_workflow[of toy_crypto "replicate 32 (CHR ''k'')" "replicate 32 (CHR ''k'')"
      calm_env calm_env calm_env "[]" sample_suspended sample_approval sample_l3_proof "[]"]
  by (simp add: sample_suspended_def sample_approval_def sample_l3_proof_def calm_env_def
      four_digit_year_def L3ApprovalWindow_def stored_instant_def toy_ed_sign)

text \<open>C11: The approval workflow is live and timed exactly. A transaction is suspended and then
  approved with the hex of an Ed25519 public key before it expires. The notary then accepts a
  proof signed with the matching private key and presented under the approved certificate by
  the transaction's user, at every later moment up to thirty minutes after the recorded
  approval and before the expiry; past the window it reports an expired approval, past the
  expiry it no longer finds the transaction. The instants are compared at the microsecond
  granularity of the store.\<close>

theorem approval_workflow_exact:
  assumes crypto: "sig64 C" "key_pair C priv pub" "length pub = 32"
    and calm: "fault_at E1 0 = None" "fault_at E2 0 = None" "fault_at E3 0 = None"
    and fresh: "\<forall>r\<in>set t. transaction_hash r \<noteq> stTransactionHash tx"
    and years: "four_digit_year (clock_at E2 0)" "four_digit_year (clock_at E2 1)"
      "four_digit_year (clock_at E3 0)" "four_digit_year (stExpiresAt tx)"
    and intime: "clock_at E2 1 div 1000 < stExpiresAt tx div 1000"
    and ap: "apApprovalPublicKey ap = hex_EncodeToString pub"
      "apCertFingerprint ap = MtlsCertFingerprint p"
    and signed: "CliSignature p = hex_EncodeToString (ed_sign C priv (stTransactionHash tx))"
    and ids: "UserID tx \<noteq> []" "stTransactionHash tx \<noteq> []"
  shows "outboundNotary_VerifyL3Proof C E3
       (Some (suspended_run [OpStore E1 tx, OpApprove E2 (stTransactionHash tx) ap] t))
       (UserID tx) (stTransactionHash tx) s (Some p) =
     (if stExpiresAt tx div 1000 \<le> clock_at E3 0 div 1000 then Inl (Sentinel (Sys ErrNotFound))
      else if clock_at E3 1 > stored_instant (clock_at E2 0) + L3ApprovalWindow
      then Inl (Sentinel (Notary ErrCLIL3ApprovalExpired))
      else Inr True)"
  by (rule approval_workflow) (fact assms)+

theorem approval_workflow_exact_witness:
  "outboundNotary_VerifyL3Proof toy_crypto calm_env
     (Some (suspended_run [OpStore calm_env sample_suspended, OpApprove calm_env ''h'' sample_approval] []))
     ''alice'' ''h'' [] (Some sample_l3_proof) = Inr True"
  using approval_workflow_exact[of toy_crypto "replicate 32 (CHR ''k'')" "replicate 32 (CHR ''k'')"
      calm_env calm_env calm_env "[]" sample_suspended sample_approval sample_l3_proof "[]"]
  by (simp add: sample_suspended_def sample_approval_def sample_l3_proof_def calm_env_def
      four_digit_year_def L3ApprovalWindow_def stored_instant_def toy_ed_sign)

theorem outbound_notary_needs_approval_witness:
  "brings_approval ''h'' (apApprovalPublicKey sample_approval) (OpApprove calm_env ''h'' sample_approval) \<and>
   (\<exists>p op pk key sig. Some sample_l3_proof = Some p \<and>
      op \<in> set [OpStore calm_env sample_suspended, OpApprove calm_env ''h'' sample_approval] \<and>
      brings_approval ''h'' pk op \<and> hex_DecodeString pk = Some key \<and> length key = 32 \<and>
      hex_DecodeString (CliSignature p) = Some sig \<and> length sig = 64 \<and> ed_verify toy_crypto key ''h'' sig)"
proof -
  have "outboundNotary_VerifyL3Proof toy_crypto calm_env
     (Some (suspended_run [OpStore calm_env sample_suspended, OpApprove calm_env ''h'' sample_approval] []))
     ''alice'' ''h'' [] (Some sample_l3_proof) = Inr True"
    by (rule sample_accepted)
  from outbound_notary_needs_approval[OF this] show ?thesis by (simp add: brings_approval_def)
qed

text \<open>The gateway notary requires a passkey for every caller. It accepts exactly the proofs
  that name a credential, that the passkey verifier accepts for this user and transaction
  hash, and, when the proof presents a client certificate and a session verifier is
  configured, whose CLI session passes. A denied session is a refusal, not an error.\<close>

theorem gateway_notary_exact:
  "gatewayNotary_VerifyL3Proof v pk u h s proof = Inr True \<longleftrightarrow>
     (\<exists>p. proof = Some p \<and> CredentialId p \<noteq> [] \<and> pk u h s (Some p) = Inr True \<and>
        (MtlsCertFingerprint p = [] \<or> v = None \<or> the v u s (MtlsCertFingerprint p) = None))"
  by (auto simp: gatewayNotary_VerifyL3Proof_def split: option.splits sum.splits bool.splits if_splits)

end
