(* ===== verification/Evidence.thy ===== *)
theory Evidence
  imports Envelope
begin

text \<open>
  The evidence that the warden and the actuator record for every stage of a transaction:
  \<open>DeterministicStageEvidence\<close> of the operator protocol, its constructor in
  \<open>services/governance/l4_warden.go\<close>, and the signature digests of
  \<open>services/governance/l5_actuator.go\<close> that stages and commitments carry.
\<close>

section \<open>Stages\<close>

datatype StageKind = KIND_UNSPECIFIED | KIND_L1_DOCTRINE | KIND_PROTOCOL_L2 | KIND_L3_NOTARY
  | KIND_L4_VERIFICATION | KIND_RECEIPT_PERSISTENCE | KIND_COMMITMENT_APPEND | KIND_L5_EXECUTION

datatype StageOutcome = OUTCOME_UNSPECIFIED | OUTCOME_VERIFIED | OUTCOME_NOT_REQUIRED
  | OUTCOME_COMPLETED | OUTCOME_FAILED

text \<open>\<open>kind.String()\<close>.\<close>

fun kind_String :: "StageKind \<Rightarrow> string" where
  "kind_String KIND_UNSPECIFIED = ''DETERMINISTIC_STAGE_KIND_UNSPECIFIED''"
| "kind_String KIND_L1_DOCTRINE = ''DETERMINISTIC_STAGE_KIND_L1_DOCTRINE''"
| "kind_String KIND_PROTOCOL_L2 = ''DETERMINISTIC_STAGE_KIND_PROTOCOL_L2''"
| "kind_String KIND_L3_NOTARY = ''DETERMINISTIC_STAGE_KIND_L3_NOTARY''"
| "kind_String KIND_L4_VERIFICATION = ''DETERMINISTIC_STAGE_KIND_L4_VERIFICATION''"
| "kind_String KIND_RECEIPT_PERSISTENCE = ''DETERMINISTIC_STAGE_KIND_RECEIPT_PERSISTENCE''"
| "kind_String KIND_COMMITMENT_APPEND = ''DETERMINISTIC_STAGE_KIND_COMMITMENT_APPEND''"
| "kind_String KIND_L5_EXECUTION = ''DETERMINISTIC_STAGE_KIND_L5_EXECUTION''"

record StageEvidence =
  StageId :: string
  StKind :: StageKind
  MonotonicStartNs :: int
  MonotonicEndNs :: int
  ClockDomain :: string
  TimingSource :: string
  StOutcome :: StageOutcome
  StTransactionId :: string
  StTransactionHash :: string
  StActionType :: string
  StOperatorId :: string
  StOperatorSessionId :: string
  StRequestorUserId :: string
  StActingAppId :: string
  StCaseId :: string
  StInvestigationId :: string
  StTaskId :: string
  StStateRootBefore :: string
  StStateRootAfter :: string
  StSignerKeyId :: string
  StReceiptSignatureDigest :: string
  CommitmentHash :: string
  StPriorCommitmentHash :: string
  StL2SignatureDigest :: string
  L3SignatureDigest :: string
  StAuditRecordId :: string
  ParentStageId :: string
  StDoctrineBundleHash :: string
  StDoctrineBundleVersion :: string

definition deterministicStageID :: "GovernanceEnvelope \<Rightarrow> StageKind \<Rightarrow> string" where
  "deterministicStageID env kind = Id env @ '':'' @ kind_String kind"

text \<open>\<open>end_ns\<close> is the monotonic clock at the call.\<close>

definition newDeterministicStageEvidence ::
    "GovernanceEnvelope \<Rightarrow> StageKind \<Rightarrow> int \<Rightarrow> int \<Rightarrow> StageOutcome \<Rightarrow> StageEvidence" where
  "newDeterministicStageEvidence env kind start end_ns outcome =
     \<lparr>StageId = deterministicStageID env kind, StKind = kind, MonotonicStartNs = start,
      MonotonicEndNs = end_ns, ClockDomain = ''g8e-operator-process'', TimingSource = ''go_monotonic'',
      StOutcome = outcome, StTransactionId = Id env, StTransactionHash = TransactionHash env,
      StActionType = EnvActionType env, StOperatorId = OperatorId env,
      StOperatorSessionId = OperatorSessionId env, StRequestorUserId = RequestorUserId env,
      StActingAppId = ActingAppId env, StCaseId = CaseId env,
      StInvestigationId = InvestigationId env, StTaskId = TaskId env,
      StStateRootBefore = StateMerkleRoot env, StStateRootAfter = [], StSignerKeyId = [],
      StReceiptSignatureDigest = [], CommitmentHash = [], StPriorCommitmentHash = [],
      StL2SignatureDigest = [], L3SignatureDigest = [], StAuditRecordId = [], ParentStageId = [],
      StDoctrineBundleHash = [], StDoctrineBundleVersion = []\<rparr>"

section \<open>Signature digests\<close>

abbreviation writeCanonicalString :: "string \<Rightarrow> bytes" where
  "writeCanonicalString \<equiv> lp32"

definition SignatureDigest :: "crypto \<Rightarrow> string list \<Rightarrow> string" where
  "SignatureDigest C signatures =
     (let values = filter (\<lambda>s. s \<noteq> []) signatures in
      if values = [] then []
      else sha256_hex C (be32 (length values) @ concat (map writeCanonicalString (sort values))))"

definition l2SignatureDigest :: "crypto \<Rightarrow> GovernanceEnvelope \<Rightarrow> string" where
  "l2SignatureDigest C env =
     (case Governance env of
        None \<Rightarrow> []
      | Some g \<Rightarrow>
         (case L2 g of
            None \<Rightarrow> []
          | Some l2 \<Rightarrow> SignatureDigest C (map ConsensusSignature (Votes l2))))"

definition humanSignatureDigest :: "crypto \<Rightarrow> GovernanceEnvelope \<Rightarrow> string" where
  "humanSignatureDigest C env =
     (case Governance env of
        None \<Rightarrow> []
      | Some g \<Rightarrow>
         (case L3 g of
            None \<Rightarrow> []
          | Some l3 \<Rightarrow>
             (case Proof l3 of
                None \<Rightarrow> []
              | Some p \<Rightarrow> SignatureDigest C [ProofSignature p, CliSignature p])))"

section \<open>Facts\<close>

lemma newStage_simps [simp]:
  "StKind (newDeterministicStageEvidence env k s e oc) = k"
  "StOutcome (newDeterministicStageEvidence env k s e oc) = oc"
  "StageId (newDeterministicStageEvidence env k s e oc) = deterministicStageID env k"
  "StTransactionId (newDeterministicStageEvidence env k s e oc) = Id env"
  "StTransactionHash (newDeterministicStageEvidence env k s e oc) = TransactionHash env"
  "StActionType (newDeterministicStageEvidence env k s e oc) = EnvActionType env"
  "StOperatorId (newDeterministicStageEvidence env k s e oc) = OperatorId env"
  "StOperatorSessionId (newDeterministicStageEvidence env k s e oc) = OperatorSessionId env"
  "StRequestorUserId (newDeterministicStageEvidence env k s e oc) = RequestorUserId env"
  "StActingAppId (newDeterministicStageEvidence env k s e oc) = ActingAppId env"
  "StCaseId (newDeterministicStageEvidence env k s e oc) = CaseId env"
  "StInvestigationId (newDeterministicStageEvidence env k s e oc) = InvestigationId env"
  "StTaskId (newDeterministicStageEvidence env k s e oc) = TaskId env"
  "ParentStageId (newDeterministicStageEvidence env k s e oc) = []"
  by (simp_all add: newDeterministicStageEvidence_def)

lemma kind_String_inj: "kind_String a = kind_String b \<longleftrightarrow> a = b"
  by (cases a; cases b) simp_all

lemma deterministicStageID_inj [simp]:
  "deterministicStageID env a = deterministicStageID env b \<longleftrightarrow> a = b"
  by (simp add: deterministicStageID_def kind_String_inj)

lemma deterministicStageID_nonempty [simp]: "deterministicStageID env k \<noteq> []"
  by (simp add: deterministicStageID_def)

lemma SignatureDigest_empty_iff [simp]:
  assumes "sha256 C = (\<lambda>m. d m)" and "\<And>m. d m \<noteq> []"
  shows "SignatureDigest C ss = [] \<longleftrightarrow> filter (\<lambda>s. s \<noteq> []) ss = []"
proof -
  have "hex_EncodeToString (d m) \<noteq> []" for m using assms(2)[of m] by (cases "d m") simp_all
  then show ?thesis by (simp add: SignatureDigest_def Let_def sha256_hex_def assms(1))
qed

lemma SignatureDigest_mset:
  assumes "mset ss = mset ts"
  shows "SignatureDigest C ss = SignatureDigest C ts"
proof -
  have "mset (filter (\<lambda>s. s \<noteq> []) ss) = mset (filter (\<lambda>s. s \<noteq> []) ts)" using assms by simp
  then have "sort (filter (\<lambda>s. s \<noteq> []) ss) = sort (filter (\<lambda>s. s \<noteq> []) ts)"
    by (intro properties_for_sort) simp_all
  moreover have "filter (\<lambda>s. s \<noteq> []) ss = [] \<longleftrightarrow> filter (\<lambda>s. s \<noteq> []) ts = []"
    using \<open>mset (filter _ ss) = _\<close> by (metis mset_zero_iff)
  moreover have "length (filter (\<lambda>s. s \<noteq> []) ss) = length (filter (\<lambda>s. s \<noteq> []) ts)"
    using \<open>mset (filter _ ss) = _\<close> by (rule mset_eq_length)
  ultimately show ?thesis by (simp add: SignatureDigest_def Let_def)
qed

text \<open>A signature digest identifies the set of signatures behind it. Two lists of
  signatures have the same digest exactly when their non-empty signatures agree as multisets:
  the order of collection does not matter, blank signatures do not count, and no signature can
  be added, dropped or replaced without changing the digest (for a hash without collisions,
  fewer than 2^32 signatures, each shorter than 2^32 bytes).\<close>

theorem signature_digest_identifies:
  assumes "collision_free C" and "\<And>m. sha256 C m \<noteq> []"
    and "length ss < 2 ^ 32" "\<forall>s\<in>set ss. length s < 2 ^ 32"
    and "length ts < 2 ^ 32" "\<forall>s\<in>set ts. length s < 2 ^ 32"
  shows "SignatureDigest C ss = SignatureDigest C ts \<longleftrightarrow>
     filter_mset (\<lambda>s. s \<noteq> []) (mset ss) = filter_mset (\<lambda>s. s \<noteq> []) (mset ts)"
proof -
  let ?p = "\<lambda>s :: string. s \<noteq> []"
  let ?a = "filter ?p ss" and ?b = "filter ?p ts"
  have eq: "?a = [] \<longleftrightarrow> ?b = []" if "SignatureDigest C ss = SignatureDigest C ts"
    using that SignatureDigest_empty_iff[of C "sha256 C" ss] SignatureDigest_empty_iff[of C "sha256 C" ts] assms(2)
    by simp
  have dig: "mset ?a = mset ?b" if d: "SignatureDigest C ss = SignatureDigest C ts"
  proof (cases "?a = []")
    case True
    with eq[OF d] show ?thesis by simp
  next
    case False
    with eq[OF d] have ne: "?a \<noteq> []" "?b \<noteq> []" by simp_all
    then have "sha256_hex C (be32 (length ?a) @ concat (map lp32 (sort ?a))) =
        sha256_hex C (be32 (length ?b) @ concat (map lp32 (sort ?b)))"
      using d unfolding SignatureDigest_def Let_def by argo
    then have "be32 (length ?a) @ concat (map lp32 (sort ?a)) = be32 (length ?b) @ concat (map lp32 (sort ?b))"
      using assms(1) by (simp add: sha256_hex_def hex_encode_inj collision_free_def inj_eq)
    then have parts: "be32 (length ?a) = be32 (length ?b)" "concat (map lp32 (sort ?a)) = concat (map lp32 (sort ?b))"
      by (simp_all add: append_same_length_eq)
    have "length ?a < 2 ^ 32" "length ?b < 2 ^ 32"
      using length_filter_le[of ?p ss] length_filter_le[of ?p ts] assms(3,5) by linarith+
    then have len: "length (sort ?a) = length (sort ?b)" using be32_inj[OF parts(1)] by simp
    have "set (sort ?a) \<subseteq> {s. length s < 2 ^ 32}" "set (sort ?b) \<subseteq> {s. length s < 2 ^ 32}"
      using assms(4,6) by auto
    from self_delimiting_concat[OF self_delimiting_lp32 len this, of "[]" "[]"] parts(2)
    have "sort ?a = sort ?b" by simp
    then show ?thesis by (metis mset_sort)
  qed
  show ?thesis
  proof
    assume "filter_mset ?p (mset ss) = filter_mset ?p (mset ts)"
    then have "mset ?a = mset ?b" by simp
    then have "SignatureDigest C ?a = SignatureDigest C ?b" by (rule SignatureDigest_mset)
    then show "SignatureDigest C ss = SignatureDigest C ts" by (simp add: SignatureDigest_def)
  qed (use dig in simp)
qed

theorem signature_digest_identifies_witness:
  "SignatureDigest (toy_crypto\<lparr>sha256 := (\<lambda>m. CHR ''#'' # m)\<rparr>) [''b'', [], ''a''] =
     SignatureDigest (toy_crypto\<lparr>sha256 := (\<lambda>m. CHR ''#'' # m)\<rparr>) [''a'', ''b''] \<and>
   SignatureDigest (toy_crypto\<lparr>sha256 := (\<lambda>m. CHR ''#'' # m)\<rparr>) [''a'', ''a''] \<noteq>
     SignatureDigest (toy_crypto\<lparr>sha256 := (\<lambda>m. CHR ''#'' # m)\<rparr>) [''a'']"
proof -
  let ?C = "toy_crypto\<lparr>sha256 := (\<lambda>m. CHR ''#'' # m)\<rparr>"
  have "collision_free ?C" by (auto simp: collision_free_def inj_def)
  note th = signature_digest_identifies[OF this]
  show ?thesis
    using th[of "[''b'', [], ''a'']" "[''a'', ''b'']"] th[of "[''a'', ''a'']" "[''a'']"] by simp
qed

end
