(* ===== verification/Warden.thy ===== *)
theory Warden
  imports Consensus Notary Evidence
begin

text \<open>
  \<open>services/governance/l4_warden.go\<close>: the L4 warden, the gate in front of every execution.
  \<open>VerifyEnvelope\<close> reserves the nonce, runs the stateless checks (structure, hash, L1
  doctrine), the stateful check (state root) and the posture checks (L2 consensus, L3 notary),
  and releases the reservation when a later check fails. The warden is polymorphic in the state
  of its replay store, whose operations it takes as a record; the optional dependencies of the
  Go struct are options. The environment of a call gives the clock readings and the
  environments of the store calls.
\<close>

section \<open>State and dependencies\<close>

text \<open>What the platform supplies: the cryptographic primitives, the protobuf decoder, the
  text of an error, the JSON parser and the generated event registry.\<close>

record platform =
  pCrypto :: crypto
  pUnmarshal :: unmarshal_fn
  pShowErr :: "gov_error \<Rightarrow> string"
  pParseJSON :: "string \<Rightarrow> json result"
  pRegistry :: EventRegistry

record 's ReplayStore =
  rsReserveNonce :: "store_env \<Rightarrow> 's \<Rightarrow> string \<Rightarrow> time \<Rightarrow> bool result \<times> 's"
  rsReleaseNonce :: "store_env \<Rightarrow> 's \<Rightarrow> string \<Rightarrow> unit result \<times> 's"

text \<open>\<open>stateRootProvider\<close> is what \<open>GetCurrentStateRoot\<close> answers during the call.\<close>

record 's L4Warden =
  executionTarget :: "(string \<Rightarrow> bool) option"
  replayStore :: "'s ReplayStore option"
  stateRootProvider :: "string result option"
  signerStore :: "SignerStore option"
  consensusPolicyStore :: "L2ConsensusPolicyStore option"
  l3Notary :: "L3Notary option"
  doctrine :: "L1Doctrine option"
  knownActionTypes :: "ActionType list"

record 's warden_state =
  inFlight :: "string set"
  nonces :: 's

record warden_env =
  wClock :: time
  wMono :: "nat \<Rightarrow> int"
  wReserveEnv :: store_env
  wReleaseEnv :: store_env
  ctxStateRoot :: "string option"

record VerifiedTransaction =
  vtEnvelope :: GovernanceEnvelope
  vtActionType :: ActionType
  vtPayload :: bytes
  vtDecodedPayload :: "ProtoMessage option"
  vtStateRoot :: string
  vtNonce :: string
  vtExpiresAt :: "time option"
  vtL2Valid :: bool
  vtL3Valid :: bool
  vtPosture :: "GovernancePosture option"
  vtStages :: "StageEvidence list"

definition NewL4Warden ::
    "'s ReplayStore option \<Rightarrow> string result option \<Rightarrow> SignerStore option \<Rightarrow>
     L2ConsensusPolicyStore option \<Rightarrow> L3Notary option \<Rightarrow> L1Doctrine option \<Rightarrow> ActionType list \<Rightarrow>
     (string \<Rightarrow> bool) option \<Rightarrow> 's L4Warden" where
  "NewL4Warden rs srp ss ps n d known target =
     \<lparr>executionTarget = target, replayStore = rs, stateRootProvider = srp, signerStore = ss,
      consensusPolicyStore = ps, l3Notary = n, doctrine = d, knownActionTypes = known\<rparr>"

section \<open>In-flight tracking and the nonce reservation\<close>

definition trackInFlight :: "'s warden_state \<Rightarrow> string \<Rightarrow> unit result \<times> 's warden_state" where
  "trackInFlight st nonce =
     (if nonce = [] then (Inr (), st)
      else if nonce \<in> inFlight st then (Inl (Sentinel (Tx ErrTxInFlight)), st)
      else (Inr (), st\<lparr>inFlight := insert nonce (inFlight st)\<rparr>))"

definition releaseInFlight :: "string \<Rightarrow> 's warden_state \<Rightarrow> 's warden_state" where
  "releaseInFlight nonce st = st\<lparr>inFlight := inFlight st - {nonce}\<rparr>"

text \<open>A failed release is logged and ignored.\<close>

definition releaseNonceReservation ::
    "'s ReplayStore \<Rightarrow> store_env \<Rightarrow> string \<Rightarrow> 's warden_state \<Rightarrow> 's warden_state" where
  "releaseNonceReservation rs E nonce st = st\<lparr>nonces := snd (rsReleaseNonce rs E (nonces st) nonce)\<rparr>"

text \<open>The first part of \<open>VerifyEnvelope\<close>, up to the durable reservation. On success it
  answers the store to release on and the expiry.\<close>

definition reserve_nonce ::
    "'s L4Warden \<Rightarrow> warden_env \<Rightarrow> 's warden_state \<Rightarrow> GovernanceEnvelope \<Rightarrow>
     ('s ReplayStore \<times> time) result \<times> 's warden_state" where
  "reserve_nonce W Ev st env =
     (case trackInFlight st (Nonce env) of
        (Inl err, st1) \<Rightarrow> (Inl err, st1)
      | (Inr _, st1) \<Rightarrow>
     (case replayStore W of
        None \<Rightarrow> (Inl (Sentinel (Tx ErrTxReplayStoreMissing)), releaseInFlight (Nonce env) st1)
      | Some rs \<Rightarrow>
     (case ExpiresAt env of
        None \<Rightarrow> (Inl (Sentinel (Tx ErrTxExpiresAtMissing)), releaseInFlight (Nonce env) st1)
      | Some expiresAt \<Rightarrow>
         if wClock Ev > expiresAt
         then (Inl (Sentinel (Tx ErrTxTransactionExpired)), releaseInFlight (Nonce env) st1)
         else if Nonce env = []
         then (Inl (Sentinel (Tx ErrTxNonceMissing)), releaseInFlight (Nonce env) st1)
         else case rsReserveNonce rs (wReserveEnv Ev) (nonces st1) (Nonce env) expiresAt of
           (Inl err, s) \<Rightarrow>
             (Inl (Errorf ''l4 warden: reserve nonce: %w'' [] [err]),
              releaseInFlight (Nonce env) (st1\<lparr>nonces := s\<rparr>))
         | (Inr True, s) \<Rightarrow>
             (Inl (Sentinel (Tx ErrTxTransactionReplay)), releaseInFlight (Nonce env) (st1\<lparr>nonces := s\<rparr>))
         | (Inr False, s) \<Rightarrow> (Inr (rs, expiresAt), releaseInFlight (Nonce env) (st1\<lparr>nonces := s\<rparr>)))))"

section \<open>Stateless checks\<close>

definition verifyDocumentCollection :: "ProtoMessage \<Rightarrow> unit result" where
  "verifyDocumentCollection payload =
     (if mtype payload = ''DocumentUpdateRequested'' \<or> mtype payload = ''DocumentDeleteRequested'' then
        (if IsGovernedDocument (mfields payload ''collection'') then Inr ()
         else Inl (wrap ''%w: %q'' (Tx ErrTxDocumentCollectionNotGoverned) [mfields payload ''collection'']))
      else Inr ())"

text \<open>The event and the action agree when the event is a registered governed request; any other
  event passes.\<close>

definition event_action_check :: "EventRegistry \<Rightarrow> GovernanceEnvelope \<Rightarrow> unit result" where
  "event_action_check reg env =
     (case ValidateGovernedRequest reg (EnvEventType env) of
        Inl _ \<Rightarrow> Inr ()
      | Inr _ \<Rightarrow> ValidateGovernedEnvelopeFields reg (EnvEventType env) (EnvActionType env))"

definition decode_payload :: "unmarshal_fn \<Rightarrow> GovernanceEnvelope \<Rightarrow> ProtoMessage result" where
  "decode_payload U env =
     (case DecodePayloadForAction U (EnvActionType env) (Payload env) of
        Inl err \<Rightarrow>
          if errors_Is err (Tx ErrTxPayloadDecoderMissing) then Inl err
          else Inl (Sentinel (Tx ErrTxPayloadDecodeFailed))
      | Inr m \<Rightarrow> Inr m)"

text \<open>Unbound document writes of an app are the one identity exception.\<close>

definition target_ok :: "(string \<Rightarrow> bool) option \<Rightarrow> GovernanceEnvelope \<Rightarrow> bool" where
  "target_ok target env =
     (case target of
        None \<Rightarrow> False
      | Some executesFor \<Rightarrow>
          OperatorId env = [] \<and>
            (EnvActionType env = ActionTypeDocumentUpdate \<or> EnvActionType env = ActionTypeDocumentDelete)
          \<or> OperatorId env \<noteq> [] \<and> executesFor (OperatorId env))"

definition check_hash :: "crypto \<Rightarrow> GovernanceEnvelope \<Rightarrow> string result" where
  "check_hash C env =
     (case GenerateMessageID C (Some env) of
        Inl err \<Rightarrow> Inl (Errorf ''l4 warden: compute transaction hash: %w'' [] [err])
      | Inr computedHash \<Rightarrow>
          if TransactionHash env = [] then Inl (Sentinel (Tx ErrTxTransactionHashMissing))
          else if TransactionHash env \<noteq> computedHash then Inl (Sentinel (Tx ErrTxTransactionHashMismatch))
          else if Id env \<noteq> computedHash then Inl (Sentinel (Tx ErrTxTransactionIDMismatch))
          else Inr computedHash)"

definition verifyStateless ::
    "platform \<Rightarrow> 's L4Warden \<Rightarrow> GovernanceEnvelope \<Rightarrow> (ProtoMessage \<times> string) result" where
  "verifyStateless P W env =
     (if ProtocolVersion env \<noteq> GovernanceProtocolVersionV2
      then Inl (Sentinel (Tx ErrTxProtocolVersionUnsupported))
      else case doctrine W of
        None \<Rightarrow> Inl (Sentinel (Layer ErrTxDoctrineMissing))
      | Some d \<Rightarrow>
         if Id env = [] then Inl (Sentinel (Tx ErrTxTransactionIDMissing))
         else case event_action_check (pRegistry P) env of
           Inl err \<Rightarrow> Inl err
         | Inr _ \<Rightarrow>
            if EnvActionType env \<notin> set (knownActionTypes W)
            then Inl (Sentinel (Tx ErrTxUnknownActionType))
            else if Payload env = [] \<and> EnvActionType env \<noteq> ActionTypeHeartbeat
            then Inl (Sentinel (Tx ErrTxPayloadMissing))
            else case decode_payload (pUnmarshal P) env of
              Inl err \<Rightarrow> Inl err
            | Inr m \<Rightarrow>
               (case verifyDocumentCollection m of
                  Inl err \<Rightarrow> Inl err
                | Inr _ \<Rightarrow>
                   if \<not> target_ok (executionTarget W) env
                   then Inl (wrap ''%w: %q'' (Tx ErrTxTargetOperatorMismatch) [OperatorId env])
                   else if ValidatePayload (pShowErr P) (pParseJSON P) d m \<noteq> []
                   then Inl (wrap ''%w: %s'' (Layer ErrTxL1ValidationFailed)
                          [strings_Join (ValidatePayload (pShowErr P) (pParseJSON P) d m) '', ''])
                   else case check_hash (pCrypto P) env of
                     Inl err \<Rightarrow> Inl err
                   | Inr h \<Rightarrow> Inr (m, h)))"

section \<open>Stateful check\<close>

definition verifyStateful ::
    "'s L4Warden \<Rightarrow> warden_env \<Rightarrow> GovernanceEnvelope \<Rightarrow> unit result" where
  "verifyStateful W Ev env =
     (if StateMerkleRoot env = [] then Inl (Sentinel (Tx ErrTxStateRootRequired))
      else case stateRootProvider W of
        None \<Rightarrow> Inl (Sentinel (Tx ErrTxStateRootMissing))
      | Some provided \<Rightarrow>
         (let current = (case ctxStateRoot Ev of
             Some root \<Rightarrow> if root \<noteq> [] then Inr root else provided
           | None \<Rightarrow> provided)
          in case current of
            Inl err \<Rightarrow> Inl (Errorf ''l4 warden: get current state root: %w'' [] [err])
          | Inr currentRoot \<Rightarrow>
             if currentRoot = [] then Inl (Sentinel (Tx ErrTxStateRootMissing))
             else if currentRoot \<noteq> StateMerkleRoot env then Inl (Sentinel (Tx ErrTxStateRootMismatch))
             else Inr ()))"

section \<open>Posture checks\<close>

definition l3_proof :: "GovernanceEnvelope \<Rightarrow> L3Proof option" where
  "l3_proof env =
     (case Governance env of
        None \<Rightarrow> None
      | Some g \<Rightarrow> (case L3 g of None \<Rightarrow> None | Some l3 \<Rightarrow> Proof l3))"

definition l3_enforced :: "GovernanceEnvelope \<Rightarrow> GovernancePosture \<Rightarrow> bool" where
  "l3_enforced env posture \<longleftrightarrow> IsMutation (EnvActionType env) \<and> RequiresL3Proof posture"

definition verifyL3Posture ::
    "L3Notary option \<Rightarrow> GovernanceEnvelope \<Rightarrow> GovernancePosture \<Rightarrow> bool result" where
  "verifyL3Posture notary env posture =
     (case l3_proof env of
        None \<Rightarrow> if l3_enforced env posture then Inl (Sentinel (Layer ErrTxL3ProofMissing)) else Inr False
      | Some p \<Rightarrow>
     (case notary of
        None \<Rightarrow>
          if l3_enforced env posture then Inl (Sentinel (Layer ErrTxL3NotaryNotConfigured)) else Inr False
      | Some verify \<Rightarrow>
         (let r = verify (RequestorUserId env) (TransactionHash env) (CliSessionId env) (Some p) in
          if r \<noteq> Inr True \<and> l3_enforced env posture then Inl (Sentinel (Layer ErrTxL3ProofInvalid))
          else Inr (r = Inr True))))"

definition stage_outcome :: "bool \<Rightarrow> StageOutcome" where
  "stage_outcome valid = (if valid then OUTCOME_VERIFIED else OUTCOME_NOT_REQUIRED)"

definition l2_stage :: "crypto \<Rightarrow> warden_env \<Rightarrow> GovernanceEnvelope \<Rightarrow> StageOutcome \<Rightarrow> StageEvidence" where
  "l2_stage C Ev env outcome =
     (newDeterministicStageEvidence env KIND_PROTOCOL_L2 (wMono Ev 3) (wMono Ev 4) outcome)
       \<lparr>StL2SignatureDigest := l2SignatureDigest C env\<rparr>"

definition l3_stage :: "crypto \<Rightarrow> warden_env \<Rightarrow> GovernanceEnvelope \<Rightarrow> StageOutcome \<Rightarrow> StageEvidence" where
  "l3_stage C Ev env outcome =
     (newDeterministicStageEvidence env KIND_L3_NOTARY (wMono Ev 5) (wMono Ev 6) outcome)
       \<lparr>L3SignatureDigest := humanSignatureDigest C env\<rparr>"

text \<open>Answers the two validity flags, the stages and the error, if any.\<close>

definition verifyPosture ::
    "platform \<Rightarrow> 's L4Warden \<Rightarrow> warden_env \<Rightarrow> GovernanceEnvelope \<Rightarrow> string \<Rightarrow> GovernancePosture \<Rightarrow>
     (bool \<times> bool \<times> StageEvidence list) \<times> gov_error option" where
  "verifyPosture P W Ev env computedHash posture =
     (let C = pCrypto P in
      case verifyL2Posture C (signerStore W) (consensusPolicyStore W) env computedHash posture of
        Inl err \<Rightarrow> ((False, False, [l2_stage C Ev env OUTCOME_FAILED]), Some err)
      | Inr l2Valid \<Rightarrow>
         (case verifyL3Posture (l3Notary W) env posture of
            Inl err \<Rightarrow>
              ((l2Valid, False, [l2_stage C Ev env (stage_outcome l2Valid), l3_stage C Ev env OUTCOME_FAILED]),
               Some err)
          | Inr l3Valid \<Rightarrow>
              ((l2Valid, l3Valid,
                [l2_stage C Ev env (stage_outcome l2Valid), l3_stage C Ev env (stage_outcome l3Valid)]),
               None)))"

section \<open>VerifyEnvelope\<close>

definition l1_stage ::
    "warden_env \<Rightarrow> L1Doctrine option \<Rightarrow> GovernanceEnvelope \<Rightarrow> StageOutcome \<Rightarrow> StageEvidence" where
  "l1_stage Ev d env outcome =
     (let s = newDeterministicStageEvidence env KIND_L1_DOCTRINE (wMono Ev 1) (wMono Ev 2) outcome in
      case d of
        None \<Rightarrow> s
      | Some d \<Rightarrow> s\<lparr>StDoctrineBundleHash := doctrineBundleHash d,
                   StDoctrineBundleVersion := doctrineBundleVersion d\<rparr>)"

definition l4_stage :: "crypto \<Rightarrow> warden_env \<Rightarrow> GovernanceEnvelope \<Rightarrow> StageOutcome \<Rightarrow> StageEvidence" where
  "l4_stage C Ev env outcome =
     (newDeterministicStageEvidence env KIND_L4_VERIFICATION (wMono Ev 0) (wMono Ev 7) outcome)
       \<lparr>StL2SignatureDigest := l2SignatureDigest C env, L3SignatureDigest := humanSignatureDigest C env\<rparr>"

text \<open>The earlier stages become children of the L4 stage, which closes the list.\<close>

definition close_stages :: "StageEvidence \<Rightarrow> StageEvidence list \<Rightarrow> StageEvidence list" where
  "close_stages l4 stages = map (\<lambda>s. s\<lparr>ParentStageId := StageId l4\<rparr>) stages @ [l4]"

definition rejected_transaction ::
    "crypto \<Rightarrow> warden_env \<Rightarrow> GovernanceEnvelope \<Rightarrow> GovernancePosture option \<Rightarrow> bool \<Rightarrow> bool \<Rightarrow>
     StageEvidence list \<Rightarrow> VerifiedTransaction" where
  "rejected_transaction C Ev env posture l2Valid l3Valid stages =
     \<lparr>vtEnvelope = env, vtActionType = EnvActionType env, vtPayload = [], vtDecodedPayload = None,
      vtStateRoot = [], vtNonce = [], vtExpiresAt = None, vtL2Valid = l2Valid, vtL3Valid = l3Valid,
      vtPosture = posture, vtStages = close_stages (l4_stage C Ev env OUTCOME_FAILED) stages\<rparr>"

definition verified_transaction ::
    "crypto \<Rightarrow> warden_env \<Rightarrow> GovernanceEnvelope \<Rightarrow> ProtoMessage \<Rightarrow> time \<Rightarrow> GovernancePosture \<Rightarrow> bool \<Rightarrow>
     bool \<Rightarrow> StageEvidence list \<Rightarrow> VerifiedTransaction" where
  "verified_transaction C Ev env m expiresAt posture l2Valid l3Valid stages =
     \<lparr>vtEnvelope = env, vtActionType = EnvActionType env, vtPayload = Payload env,
      vtDecodedPayload = Some m, vtStateRoot = StateMerkleRoot env, vtNonce = Nonce env,
      vtExpiresAt = Some expiresAt, vtL2Valid = l2Valid, vtL3Valid = l3Valid,
      vtPosture = Some posture, vtStages = close_stages (l4_stage C Ev env OUTCOME_VERIFIED) stages\<rparr>"

text \<open>The checks that follow the reservation: the transaction and the error, if any.\<close>

definition verify_reserved ::
    "platform \<Rightarrow> 's L4Warden \<Rightarrow> warden_env \<Rightarrow> GovernanceEnvelope \<Rightarrow> time \<Rightarrow>
     VerifiedTransaction \<times> gov_error option" where
  "verify_reserved P W Ev env expiresAt =
     (let C = pCrypto P in
      case verifyStateless P W env of
        Inl err \<Rightarrow>
          (rejected_transaction C Ev env None False False [l1_stage Ev (doctrine W) env OUTCOME_FAILED], Some err)
      | Inr (m, computedHash) \<Rightarrow>
         (let l1 = l1_stage Ev (doctrine W) env OUTCOME_VERIFIED in
          case verifyStateful W Ev env of
            Inl err \<Rightarrow> (rejected_transaction C Ev env None False False [l1], Some err)
          | Inr _ \<Rightarrow>
             (case postureFromEnvelope env of
                Inl err \<Rightarrow> (rejected_transaction C Ev env None False False [l1], Some err)
              | Inr posture \<Rightarrow>
                 (case verifyPosture P W Ev env computedHash posture of
                    ((l2Valid, l3Valid, stages), Some err) \<Rightarrow>
                      (rejected_transaction C Ev env (Some posture) l2Valid l3Valid (l1 # stages), Some err)
                  | ((l2Valid, l3Valid, stages), None) \<Rightarrow>
                      (verified_transaction C Ev env m expiresAt posture l2Valid l3Valid (l1 # stages), None)))))"

text \<open>\<open>VerifyEnvelope\<close> answers a transaction and an error like the Go method: the error is
  \<open>None\<close> exactly for a verified transaction, and the transaction is \<open>None\<close> only for
  a nil envelope.\<close>

definition VerifyEnvelope ::
    "platform \<Rightarrow> 's L4Warden \<Rightarrow> warden_env \<Rightarrow> 's warden_state \<Rightarrow> GovernanceEnvelope option \<Rightarrow>
     (VerifiedTransaction option \<times> gov_error option) \<times> 's warden_state" where
  "VerifyEnvelope P W Ev st envelope =
     (case envelope of
        None \<Rightarrow> ((None, Some (Sentinel (Tx ErrTxInvalidEnvelope))), st)
      | Some env \<Rightarrow>
         (case reserve_nonce W Ev st env of
            (Inl err, st1) \<Rightarrow>
              ((Some (rejected_transaction (pCrypto P) Ev env None False False []), Some err), st1)
          | (Inr (rs, expiresAt), st1) \<Rightarrow>
             (case verify_reserved P W Ev env expiresAt of
                (vt, None) \<Rightarrow> ((Some vt, None), st1)
              | (vt, Some err) \<Rightarrow>
                  ((Some vt, Some err), releaseNonceReservation rs (wReleaseEnv Ev) (Nonce env) st1))))"

abbreviation accepts ::
    "platform \<Rightarrow> 's L4Warden \<Rightarrow> warden_env \<Rightarrow> 's warden_state \<Rightarrow> GovernanceEnvelope \<Rightarrow> bool" where
  "accepts P W Ev st env \<equiv> snd (fst (VerifyEnvelope P W Ev st (Some env))) = None"

section \<open>What the gates check\<close>

lemma reserve_nonce_Inr:
  "reserve_nonce W Ev st env = (Inr (rs, x), st1) \<longleftrightarrow>
     Nonce env \<noteq> [] \<and> Nonce env \<notin> inFlight st \<and> replayStore W = Some rs \<and>
     ExpiresAt env = Some x \<and> wClock Ev \<le> x \<and>
     (\<exists>s. rsReserveNonce rs (wReserveEnv Ev) (nonces st) (Nonce env) x = (Inr False, s) \<and>
        st1 = releaseInFlight (Nonce env) (st\<lparr>inFlight := insert (Nonce env) (inFlight st), nonces := s\<rparr>))"
  by (auto simp: reserve_nonce_def trackInFlight_def split: option.splits sum.splits prod.splits bool.splits if_splits)

text \<open>The stateless requirements: supported version, agreement of event and action, a known
  action, a decodable payload for a governed collection, a target this operator serves, a
  payload the doctrine admits, and an identity that is the hash of the content.\<close>

definition well_addressed :: "platform \<Rightarrow> 's L4Warden \<Rightarrow> GovernanceEnvelope \<Rightarrow> bool" where
  "well_addressed P W env \<longleftrightarrow>
     ProtocolVersion env = ''2'' \<and> event_action_check (pRegistry P) env = Inr () \<and>
     EnvActionType env \<in> set (knownActionTypes W) \<and>
     (Payload env = [] \<longrightarrow> EnvActionType env = ActionTypeHeartbeat) \<and>
     target_ok (executionTarget W) env"

definition admitted_payload :: "platform \<Rightarrow> L1Doctrine \<Rightarrow> GovernanceEnvelope \<Rightarrow> ProtoMessage \<Rightarrow> bool" where
  "admitted_payload P d env m \<longleftrightarrow>
     DecodePayloadForAction (pUnmarshal P) (EnvActionType env) (Payload env) = Inr m \<and>
     (mtype m \<in> {''DocumentUpdateRequested'', ''DocumentDeleteRequested''} \<longrightarrow>
        IsGovernedDocument (mfields m ''collection'')) \<and>
     ValidatePayload (pShowErr P) (pParseJSON P) d m = []"

definition bound_identity :: "crypto \<Rightarrow> GovernanceEnvelope \<Rightarrow> bool" where
  "bound_identity C env \<longleftrightarrow>
     GenerateMessageID C (Some env) = Inr (TransactionHash env) \<and> Id env = TransactionHash env \<and>
     TransactionHash env \<noteq> []"

lemma check_hash_Inr: "check_hash C env = Inr h \<longleftrightarrow> bound_identity C env \<and> h = TransactionHash env"
  by (auto simp: check_hash_def bound_identity_def split: sum.splits if_splits)

lemma decode_payload_Inr:
  "decode_payload U env = Inr m \<longleftrightarrow> DecodePayloadForAction U (EnvActionType env) (Payload env) = Inr m"
  by (auto simp: decode_payload_def split: sum.splits if_splits)

lemma verifyDocumentCollection_Inr:
  "verifyDocumentCollection m = Inr u \<longleftrightarrow>
     (mtype m \<in> {''DocumentUpdateRequested'', ''DocumentDeleteRequested''} \<longrightarrow>
        IsGovernedDocument (mfields m ''collection''))"
  by (auto simp: verifyDocumentCollection_def split: if_splits)

lemma verifyStateless_Inr:
  "verifyStateless P W env = Inr (m, h) \<longleftrightarrow>
     well_addressed P W env \<and> bound_identity (pCrypto P) env \<and> h = TransactionHash env \<and>
     (\<exists>d. doctrine W = Some d \<and> admitted_payload P d env m)"
proof -
  have id: "bound_identity (pCrypto P) env \<Longrightarrow> Id env \<noteq> []" by (auto simp: bound_identity_def)
  show ?thesis
  proof (cases "doctrine W")
    case None
    then show ?thesis by (simp add: verifyStateless_def)
  next
    case d: (Some d)
    show ?thesis
    proof (cases "event_action_check (pRegistry P) env")
      case (Inl e)
      then show ?thesis by (simp add: verifyStateless_def d well_addressed_def)
    next
      case ev: (Inr u)
      show ?thesis
      proof (cases "decode_payload (pUnmarshal P) env")
        case (Inl e)
        then have "\<not> admitted_payload P d env m" by (auto simp: admitted_payload_def decode_payload_Inr[symmetric])
        with Inl show ?thesis by (simp add: verifyStateless_def d ev)
      next
        case dec: (Inr m')
        note m = dec[unfolded decode_payload_Inr]
        show ?thesis
        proof (cases "verifyDocumentCollection m'")
          case (Inl e)
          then have "\<not> admitted_payload P d env m"
            using m verifyDocumentCollection_Inr[of m' "()"] by (auto simp: admitted_payload_def)
          with Inl show ?thesis by (simp add: verifyStateless_def d ev dec)
        next
          case doc: (Inr u')
          have adm: "admitted_payload P d env m \<longleftrightarrow> m = m' \<and> ValidatePayload (pShowErr P) (pParseJSON P) d m' = []"
            using m doc[unfolded verifyDocumentCollection_Inr] by (auto simp: admitted_payload_def)
          show ?thesis
          proof (cases "check_hash (pCrypto P) env")
            case (Inl e)
            then have "\<not> bound_identity (pCrypto P) env"
              using check_hash_Inr[of "pCrypto P" env "TransactionHash env"] by simp
            with Inl show ?thesis by (simp add: verifyStateless_def d ev dec doc)
          next
            case h: (Inr h')
            note hh = h[unfolded check_hash_Inr]
            show ?thesis
              using hh id ev by (auto simp: verifyStateless_def d dec doc h adm well_addressed_def)
          qed
        qed
      qed
    qed
  qed
qed

text \<open>The root the call compares with: the one prefetched into the context, else the provider's.\<close>

definition current_root :: "'s L4Warden \<Rightarrow> warden_env \<Rightarrow> string result option" where
  "current_root W Ev =
     (case stateRootProvider W of
        None \<Rightarrow> None
      | Some provided \<Rightarrow>
          Some (case ctxStateRoot Ev of
              Some root \<Rightarrow> if root \<noteq> [] then Inr root else provided
            | None \<Rightarrow> provided))"

lemma verifyStateful_Inr:
  "verifyStateful W Ev env = Inr u \<longleftrightarrow>
     StateMerkleRoot env \<noteq> [] \<and> current_root W Ev = Some (Inr (StateMerkleRoot env))"
  by (auto simp: verifyStateful_def current_root_def Let_def split: option.splits sum.splits if_splits)

lemma verifyPosture_None:
  "snd (verifyPosture P W Ev env h posture) = None \<longleftrightarrow>
     (\<exists>a b. verifyL2Posture (pCrypto P) (signerStore W) (consensusPolicyStore W) env h posture = Inr a \<and>
            verifyL3Posture (l3Notary W) env posture = Inr b)"
  by (auto simp: verifyPosture_def Let_def split: sum.splits)

lemma verify_reserved_None:
  "snd (verify_reserved P W Ev env x) = None \<longleftrightarrow>
     (\<exists>m h posture. verifyStateless P W env = Inr (m, h) \<and> verifyStateful W Ev env = Inr () \<and>
        Posture env = posture_Name posture \<and> snd (verifyPosture P W Ev env h posture) = None)"
  by (auto simp: verify_reserved_def Let_def postureFromEnvelope_ok[symmetric]
      split: sum.splits prod.splits option.splits)

lemma verify_reserved_any:
  "snd (verify_reserved P W Ev env x) = None \<longleftrightarrow> (\<exists>y. snd (verify_reserved P W Ev env y) = None)"
  by (simp only: verify_reserved_None simp_thms)

lemma accepts_unfold:
  "accepts P W Ev st env \<longleftrightarrow>
     (\<exists>rs x st1. reserve_nonce W Ev st env = (Inr (rs, x), st1)) \<and>
     (\<exists>x. snd (verify_reserved P W Ev env x) = None)"
proof (cases "reserve_nonce W Ev st env")
  case (Pair r st1)
  show ?thesis
  proof (cases r)
    case (Inl e)
    with Pair show ?thesis by (simp add: VerifyEnvelope_def)
  next
    case (Inr q)
    obtain rs x where q: "q = (rs, x)" by (cases q)
    have "accepts P W Ev st env \<longleftrightarrow> snd (verify_reserved P W Ev env x) = None"
      by (simp add: VerifyEnvelope_def Pair Inr q split: prod.split option.split)
    with Pair Inr q show ?thesis by (simp only: verify_reserved_any[of P W Ev env x]) simp
  qed
qed

section \<open>Properties\<close>

lemma accepts_iff:
  "accepts P W Ev st env \<longleftrightarrow>
     Nonce env \<noteq> [] \<and> Nonce env \<notin> inFlight st \<and>
     (\<exists>rs x. replayStore W = Some rs \<and> ExpiresAt env = Some x \<and> wClock Ev \<le> x \<and>
        fst (rsReserveNonce rs (wReserveEnv Ev) (nonces st) (Nonce env) x) = Inr False) \<and>
     well_addressed P W env \<and> bound_identity (pCrypto P) env \<and>
     (\<exists>d m. doctrine W = Some d \<and> admitted_payload P d env m) \<and>
     StateMerkleRoot env \<noteq> [] \<and> current_root W Ev = Some (Inr (StateMerkleRoot env)) \<and>
     (\<exists>posture a b. Posture env = posture_Name posture \<and>
        verifyL2Posture (pCrypto P) (signerStore W) (consensusPolicyStore W) env (TransactionHash env) posture = Inr a \<and>
        verifyL3Posture (l3Notary W) env posture = Inr b)"
proof -
  have "(\<exists>rs x st1. reserve_nonce W Ev st env = (Inr (rs, x), st1)) \<longleftrightarrow>
      Nonce env \<noteq> [] \<and> Nonce env \<notin> inFlight st \<and>
      (\<exists>rs x. replayStore W = Some rs \<and> ExpiresAt env = Some x \<and> wClock Ev \<le> x \<and>
        fst (rsReserveNonce rs (wReserveEnv Ev) (nonces st) (Nonce env) x) = Inr False)"
    unfolding reserve_nonce_Inr by (auto simp: prod_eq_iff)
  moreover have "(\<exists>x. snd (verify_reserved P W Ev env x) = None) \<longleftrightarrow>
      well_addressed P W env \<and> bound_identity (pCrypto P) env \<and>
      (\<exists>d m. doctrine W = Some d \<and> admitted_payload P d env m) \<and>
      StateMerkleRoot env \<noteq> [] \<and> current_root W Ev = Some (Inr (StateMerkleRoot env)) \<and>
      (\<exists>posture a b. Posture env = posture_Name posture \<and>
        verifyL2Posture (pCrypto P) (signerStore W) (consensusPolicyStore W) env (TransactionHash env) posture = Inr a \<and>
        verifyL3Posture (l3Notary W) env posture = Inr b)"
    unfolding verify_reserved_None verifyStateless_Inr verifyStateful_Inr verifyPosture_None by blast
  ultimately show ?thesis unfolding accepts_unfold by blast
qed

text \<open>C2: The warden accepts exactly the envelopes that pass every gate: a nonce that is
  present, not in flight and newly reserved in the replay store before the expiry; a supported
  version, an action consistent with its event, a target this runtime serves; a payload that
  decodes for the action, touches only governed collections and triggers no doctrine violation;
  an id and a recorded hash that both equal the hash of the content; the current state root;
  and a posture whose L2 and L3 checks do not fail.\<close>

theorem warden_accepts_exactly:
  "accepts P W Ev st env \<longleftrightarrow>
     Nonce env \<noteq> [] \<and> Nonce env \<notin> inFlight st \<and>
     (\<exists>rs x. replayStore W = Some rs \<and> ExpiresAt env = Some x \<and> wClock Ev \<le> x \<and>
        fst (rsReserveNonce rs (wReserveEnv Ev) (nonces st) (Nonce env) x) = Inr False) \<and>
     well_addressed P W env \<and> bound_identity (pCrypto P) env \<and>
     (\<exists>d m. doctrine W = Some d \<and> admitted_payload P d env m) \<and>
     StateMerkleRoot env \<noteq> [] \<and> current_root W Ev = Some (Inr (StateMerkleRoot env)) \<and>
     (\<exists>posture a b. Posture env = posture_Name posture \<and>
        verifyL2Posture (pCrypto P) (signerStore W) (consensusPolicyStore W) env (TransactionHash env) posture = Inr a \<and>
        verifyL3Posture (l3Notary W) env posture = Inr b)"
  by (rule accepts_iff)

lemma verifyL3Posture_enforced:
  assumes "verifyL3Posture notary env posture = Inr b" and "l3_enforced env posture"
  shows "b \<and> (\<exists>verify p. notary = Some verify \<and> l3_proof env = Some p \<and>
     verify (RequestorUserId env) (TransactionHash env) (CliSessionId env) (Some p) = Inr True)"
  using assms by (auto simp: verifyL3Posture_def Let_def split: option.splits if_splits)

lemma accepts_posture:
  assumes "accepts P W Ev st env"
  obtains posture a b where "Posture env = posture_Name posture"
    and "verifyL2Posture (pCrypto P) (signerStore W) (consensusPolicyStore W) env (TransactionHash env) posture = Inr a"
    and "verifyL3Posture (l3Notary W) env posture = Inr b"
  using assms unfolding accepts_unfold verify_reserved_None verifyPosture_None verifyStateless_Inr by blast

lemma posture_Name_inj: "posture_Name p = posture_Name q \<longleftrightarrow> p = q"
  by (cases p; cases q) simp_all

lemma verifyL2Posture_enforced_votes:
  assumes "verifyL2Posture C s p env h posture = Inr a"
    and "RequiresL2Signature posture" and "\<not> IsBootstrapAction (EnvActionType env)"
  shows a
  using assms
  by (auto simp: verifyL2Posture_def l2_failure_def l2_enforced_def split: option.splits sum.splits if_splits)

text \<open>C5: No mutation passes without the approvals its posture demands. When the warden accepts
  an envelope under the notary posture that carries a mutation outside platform enrolment, the
  L2 votes were verified against the transaction hash, and the L3 notary accepted the proof of
  the requesting user for that very hash.\<close>

theorem notary_posture_enforced:
  assumes "accepts P W Ev st env" and "Posture env = posture_Name NotaryPosture"
    and "IsMutation (EnvActionType env)" and "\<not> IsBootstrapAction (EnvActionType env)"
  shows "verifyL2Posture (pCrypto P) (signerStore W) (consensusPolicyStore W) env (TransactionHash env) NotaryPosture = Inr True
    \<and> (\<exists>verify p. l3Notary W = Some verify \<and> l3_proof env = Some p \<and>
         verify (RequestorUserId env) (TransactionHash env) (CliSessionId env) (Some p) = Inr True)"
proof -
  obtain posture a b where p: "Posture env = posture_Name posture"
    and l2: "verifyL2Posture (pCrypto P) (signerStore W) (consensusPolicyStore W) env (TransactionHash env) posture = Inr a"
    and l3: "verifyL3Posture (l3Notary W) env posture = Inr b"
    using assms(1) by (rule accepts_posture)
  have q: "posture = NotaryPosture" using p assms(2) by (simp only: posture_Name_inj)
  have "a" using verifyL2Posture_enforced_votes[OF l2] assms(4) q by simp
  moreover have "l3_enforced env NotaryPosture" using assms(3) by (simp add: l3_enforced_def)
  ultimately show ?thesis using l2 verifyL3Posture_enforced[OF l3] q by simp
qed

section \<open>The reservation protocol\<close>

lemma VerifyEnvelope_state:
  "snd (VerifyEnvelope P W Ev st (Some env)) =
     (case reserve_nonce W Ev st env of
        (Inl err, st1) \<Rightarrow> st1
      | (Inr (rs, x), st1) \<Rightarrow>
          if snd (verify_reserved P W Ev env x) = None then st1
          else releaseNonceReservation rs (wReleaseEnv Ev) (Nonce env) st1)"
  by (auto simp: VerifyEnvelope_def split: sum.splits prod.splits option.splits)

lemma reserve_nonce_inFlight:
  "[] \<notin> inFlight st \<Longrightarrow> inFlight (snd (reserve_nonce W Ev st env)) = inFlight st"
  by (auto simp: reserve_nonce_def trackInFlight_def releaseInFlight_def
      split: option.splits sum.splits prod.splits bool.splits)

lemma VerifyEnvelope_inFlight:
  assumes "[] \<notin> inFlight st"
  shows "inFlight (snd (VerifyEnvelope P W Ev st envelope)) = inFlight st"
proof (cases envelope)
  case None
  then show ?thesis by (simp add: VerifyEnvelope_def)
next
  case (Some env)
  have "inFlight (snd (VerifyEnvelope P W Ev st (Some env))) = inFlight (snd (reserve_nonce W Ev st env))"
    by (auto simp: VerifyEnvelope_state releaseNonceReservation_def split: sum.splits prod.splits)
  with Some reserve_nonce_inFlight[OF assms, of W Ev env] show ?thesis by simp
qed

text \<open>Every call of the warden, whatever its outcome, leaves the set of in-flight nonces as
  it found it: no rejection, replay, store failure or early return leaks a tracking entry that
  would block the nonce for good.\<close>

theorem in_flight_balanced:
  assumes "[] \<notin> inFlight st"
  shows "inFlight (snd (VerifyEnvelope P W Ev st envelope)) = inFlight st"
  using assms by (rule VerifyEnvelope_inFlight)

text \<open>The calls a warden answers, one after the other.\<close>

fun verify_all ::
    "platform \<Rightarrow> 's L4Warden \<Rightarrow> 's warden_state \<Rightarrow> (warden_env \<times> GovernanceEnvelope) list \<Rightarrow> 's warden_state" where
  "verify_all P W st [] = st"
| "verify_all P W st ((Ev, env) # calls) =
     verify_all P W (snd (VerifyEnvelope P W Ev st (Some env))) calls"

context replay_store
begin

definition store_ops :: "'s ReplayStore" where
  "store_ops = \<lparr>rsReserveNonce = reserve, rsReleaseNonce = release\<rparr>"

text \<open>Another call keeps a reservation that is still alive: it is refused when it repeats the
  nonce, and its own release concerns another nonce.\<close>

lemma reserve_nonce_keeps:
  assumes "replayStore W = Some store_ops" and "held (nonces st) n = Some t"
    and "survives (wReserveEnv Ev) t"
  shows "held (nonces (snd (reserve_nonce W Ev st env))) n = Some t"
  using assms reserve_keeps[OF assms(2,3), of "Nonce env"]
  by (auto simp: reserve_nonce_def trackInFlight_def releaseInFlight_def store_ops_def
      split: option.splits sum.splits prod.splits bool.splits)
    (metis snd_conv)+

lemma reserve_nonce_refuses:
  assumes "replayStore W = Some store_ops" and "held (nonces st) (Nonce env) = Some t"
    and "survives (wReserveEnv Ev) t"
  shows "reserve_nonce W Ev st env \<noteq> (Inr r, st1)"
proof
  assume "reserve_nonce W Ev st env = (Inr r, st1)"
  then obtain x s where "reserve (wReserveEnv Ev) (nonces st) (Nonce env) x = (Inr False, s)"
    using assms(1) by (cases r) (auto simp: reserve_nonce_Inr store_ops_def)
  with reserve_held[OF assms(2,3), of x] show False by simp
qed

lemma verify_keeps_held:
  assumes W: "replayStore W = Some store_ops" and h: "held (nonces st) n = Some t"
    and s: "survives (wReserveEnv Ev) t"
  shows "held (nonces (snd (VerifyEnvelope P W Ev st (Some env)))) n = Some t"
proof (cases "reserve_nonce W Ev st env")
  case (Pair r st1)
  have keep: "held (nonces st1) n = Some t" using reserve_nonce_keeps[OF W h s, of env] Pair by simp
  show ?thesis
  proof (cases r)
    case (Inl e)
    with Pair keep show ?thesis by (simp add: VerifyEnvelope_state)
  next
    case (Inr q)
    obtain rs x where q: "q = (rs, x)" by (cases q)
    have ne: "Nonce env \<noteq> n" using reserve_nonce_refuses[OF W _ s, of st env q st1] h Pair Inr by auto
    have "rs = store_ops" using Pair Inr q W by (auto simp: reserve_nonce_Inr)
    with keep ne Pair Inr q show ?thesis
      by (simp add: VerifyEnvelope_state releaseNonceReservation_def store_ops_def release_keeps)
  qed
qed

lemma accepted_is_held:
  assumes "replayStore W = Some store_ops" and "accepts P W Ev st env"
  shows "\<exists>x. ExpiresAt env = Some x \<and>
     held (nonces (snd (VerifyEnvelope P W Ev st (Some env)))) (Nonce env) = Some (FormatTimestamp x)"
proof -
  from assms(2) obtain rs x st1 y where r: "reserve_nonce W Ev st env = (Inr (rs, x), st1)"
    and v: "snd (verify_reserved P W Ev env y) = None"
    unfolding accepts_unfold by blast
  have v': "snd (verify_reserved P W Ev env x) = None" using v by (simp only: verify_reserved_None)
  from r assms(1) obtain s where "reserve (wReserveEnv Ev) (nonces st) (Nonce env) x = (Inr False, s)"
    "nonces st1 = s" "ExpiresAt env = Some x"
    by (auto simp: reserve_nonce_Inr store_ops_def releaseInFlight_def)
  with reserve_fresh r v' show ?thesis by (auto simp: VerifyEnvelope_state)
qed

lemma held_not_accepted:
  assumes "replayStore W = Some store_ops" and "held (nonces st) (Nonce env) = Some t"
    and "survives (wReserveEnv Ev) t"
  shows "\<not> accepts P W Ev st env"
  using reserve_nonce_refuses[OF assms] unfolding accepts_unfold by blast

lemma verify_all_keeps_held:
  assumes "replayStore W = Some store_ops" and "held (nonces st) n = Some t"
    and "\<forall>(Ev, env)\<in>set calls. survives (wReserveEnv Ev) t"
  shows "held (nonces (verify_all P W st calls)) n = Some t"
  using assms(2,3)
proof (induction calls arbitrary: st)
  case (Cons c calls)
  obtain Ev env where c: "c = (Ev, env)" by (cases c)
  have "held (nonces (snd (VerifyEnvelope P W Ev st (Some env)))) n = Some t"
    by (rule verify_keeps_held[OF assms(1) Cons.prems(1)]) (use Cons.prems(2) c in auto)
  with Cons c show ?case by auto
qed simp

lemma never_accepted_twice:
  assumes W: "replayStore W = Some store_ops" and a: "accepts P W Ev st env"
    and s: "\<And>x. ExpiresAt env = Some x \<Longrightarrow>
        (\<forall>(Ev, env)\<in>set calls. survives (wReserveEnv Ev) (FormatTimestamp x)) \<and>
        survives (wReserveEnv Ev') (FormatTimestamp x)"
    and n: "Nonce env' = Nonce env"
  shows "\<not> accepts P' W Ev' (verify_all P W (snd (VerifyEnvelope P W Ev st (Some env))) calls) env'"
proof -
  obtain x where x: "ExpiresAt env = Some x"
    and h: "held (nonces (snd (VerifyEnvelope P W Ev st (Some env)))) (Nonce env) = Some (FormatTimestamp x)"
    using accepted_is_held[OF W a] by blast
  have "held (nonces (verify_all P W (snd (VerifyEnvelope P W Ev st (Some env))) calls)) (Nonce env')
      = Some (FormatTimestamp x)"
    unfolding n by (rule verify_all_keeps_held[OF W h]) (use s[OF x] in blast)
  from held_not_accepted[OF W this] s[OF x] show ?thesis by blast
qed

end

section \<open>Replay safety of the warden\<close>

definition sql_replay_ops :: "nonce_usage ReplayStore" where
  "sql_replay_ops = \<lparr>rsReserveNonce = ReserveNonce, rsReleaseNonce = ReleaseNonce\<rparr>"

definition gw_replay_ops :: "gw_nonces ReplayStore" where
  "gw_replay_ops = \<lparr>rsReserveNonce = gw_ReserveNonce, rsReleaseNonce = gw_ReleaseNonce\<rparr>"

lemma sql_store_ops: "sql.store_ops = sql_replay_ops"
  by (simp add: sql.store_ops_def sql_replay_ops_def)

lemma gw_store_ops: "gw.store_ops = gw_replay_ops"
  by (simp add: gw.store_ops_def gw_replay_ops_def)

text \<open>C4: An operator executes a nonce once. After the warden accepted an envelope, it accepts
  no envelope with the same nonce again, the same bytes or different ones, whatever calls it
  answers in between and however they end, as long as the replay store reads its clock no later
  than the expiry of the first envelope.\<close>

theorem warden_never_accepts_twice:
  assumes "replayStore W = Some sql_replay_ops" and "accepts P W Ev st env"
    and "ExpiresAt env = Some x" and "four_digit_year x"
    and "\<forall>c\<in>set calls. clock_until x (wReserveEnv (fst c)) (FormatTimestamp x)"
    and "clock_until x (wReserveEnv Ev') (FormatTimestamp x)"
    and "Nonce env' = Nonce env"
  shows "\<not> accepts P' W Ev' (verify_all P W (snd (VerifyEnvelope P W Ev st (Some env))) calls) env'"
  by (rule sql.never_accepted_twice[OF _ assms(2) _ assms(7)])
    (use assms(1,3,5,6) clock_until_survives[OF assms(4)] in \<open>auto simp: sql_store_ops\<close>)

text \<open>On the gateway, whose reservations do not expire by themselves, the same holds without
  any condition on the clock.\<close>

theorem gateway_warden_never_accepts_twice:
  assumes "replayStore W = Some gw_replay_ops" and "accepts P W Ev st env"
    and "Nonce env' = Nonce env"
  shows "\<not> accepts P' W Ev' (verify_all P W (snd (VerifyEnvelope P W Ev st (Some env))) calls) env'"
  by (rule gw.never_accepted_twice[OF _ assms(2) _ assms(3)])
    (use assms(1) in \<open>auto simp: gw_store_ops gw_survives_def\<close>)

text \<open>A rejected envelope does not burn its nonce. When the warden rejects after having
  reserved the nonce and the release statement succeeds, the operator's table no longer holds
  the nonce, so that a corrected envelope can reuse it.\<close>

theorem rejection_frees_nonce:
  assumes "replayStore W = Some sql_replay_ops"
    and "reserve_nonce W Ev st env = (Inr r, st1)" and "\<not> accepts P W Ev st env"
    and "fault_at (wReleaseEnv Ev) 0 = None"
  shows "nonces (snd (VerifyEnvelope P W Ev st (Some env))) (Nonce env) = None"
proof -
  obtain rs x where r: "r = (rs, x)" by (cases r)
  have rs: "rs = sql_replay_ops" using assms(1,2) r by (auto simp: reserve_nonce_Inr)
  have "snd (verify_reserved P W Ev env x) \<noteq> None"
    using assms(2,3) r unfolding accepts_unfold verify_reserved_any[of P W Ev env x] by blast
  moreover from assms(1,2) obtain s where
    res: "ReserveNonce (wReserveEnv Ev) (nonces st) (Nonce env) x = (Inr False, s)" "nonces st1 = s"
    by (auto simp: reserve_nonce_Inr r sql_replay_ops_def releaseInFlight_def)
  moreover from res(1) obtain row where "s (Nonce env) = Some row" "Status row = status_reserved"
    by (auto simp: sql_store_defs split: option.splits if_splits)
  ultimately show ?thesis
    using assms(2,4) by (simp add: VerifyEnvelope_state r rs releaseNonceReservation_def sql_replay_ops_def
        ReleaseNonce_def)
qed

text \<open>At the expiry instant the operator can execute a transaction twice. The warden admits
  an envelope whose expiry has not passed on its own clock; the replay store then reads the clock
  again and first deletes the rows that have expired. If that second reading falls in a later
  microsecond than the expiry, the row of the earlier, accepted run is deleted and the same
  envelope is reserved and accepted a second time.\<close>

theorem replay_at_expiry:
  assumes W: "replayStore W = Some sql_replay_ops" and a: "accepts P W Ev st env"
    and st: "[] \<notin> inFlight st"
    and x: "ExpiresAt env = Some x" "four_digit_year x"
    and late: "wClock Ev' \<le> x" "x div 1000 < clock_at (wReserveEnv Ev') 0 div 1000"
      "four_digit_year (clock_at (wReserveEnv Ev') 0)"
    and calm: "fault_at (wReserveEnv Ev') 0 = None" "fault_at (wReserveEnv Ev') 1 = None"
    and root: "ctxStateRoot Ev' = ctxStateRoot Ev"
  shows "accepts P W Ev' (snd (VerifyEnvelope P W Ev st (Some env))) env"
proof -
  let ?st = "snd (VerifyEnvelope P W Ev st (Some env))"
  have ws: "replayStore W = Some sql.store_ops" using W by (simp add: sql_store_ops)
  from sql.accepted_is_held[OF ws a] x(1)
  obtain row where row: "nonces ?st (Nonce env) = Some row" "RowExpiresAt row = FormatTimestamp x"
    by (auto simp: sql_held_def)
  have "FormatTimestamp x < FormatTimestamp (clock_at (wReserveEnv Ev') 0)"
    by (rule FormatTimestamp_less[OF x(2) late(3,2)])
  then have res: "fst (ReserveNonce (wReserveEnv Ev') (nonces ?st) (Nonce env) x) = Inr False"
    using calm row by (simp add: ReserveNonce_def cleanupExpiredNonces_def delete_where_apply)
  have fl: "inFlight ?st = inFlight st" by (rule VerifyEnvelope_inFlight[OF st])
  have cr: "current_root W Ev' = current_root W Ev" unfolding current_root_def root ..
  have ops: "rsReserveNonce sql_replay_ops = ReserveNonce" by (simp add: sql_replay_ops_def)
  from a[unfolded accepts_iff] show ?thesis
    unfolding accepts_iff[of P W Ev'] fl cr W x(1) by (simp only: option.inject ex_simps ops res late(1) simp_thms)
qed

section \<open>Stage evidence\<close>

text \<open>The evidence of a rejection: the stages that ran, in order, the last of them failed or
  all passed, closed by a failed L4 stage; of an acceptance: all four stages.\<close>

definition all_children_of :: "string \<Rightarrow> StageEvidence list \<Rightarrow> bool" where
  "all_children_of p stages \<longleftrightarrow> list_all (\<lambda>s. ParentStageId s = p) stages"

lemma stage_kind_simps [simp]:
  "StKind (l1_stage Ev d env oc) = KIND_L1_DOCTRINE" "StOutcome (l1_stage Ev d env oc) = oc"
  "StKind (l2_stage C Ev env oc) = KIND_PROTOCOL_L2" "StOutcome (l2_stage C Ev env oc) = oc"
  "StKind (l3_stage C Ev env oc) = KIND_L3_NOTARY" "StOutcome (l3_stage C Ev env oc) = oc"
  "StKind (l4_stage C Ev env oc) = KIND_L4_VERIFICATION" "StOutcome (l4_stage C Ev env oc) = oc"
  "ParentStageId (l4_stage C Ev env oc) = []"
  "StageId (l4_stage C Ev env oc) = deterministicStageID env KIND_L4_VERIFICATION"
  by (simp_all add: l1_stage_def l2_stage_def l3_stage_def l4_stage_def Let_def split: option.split)

lemma close_stages_kinds:
  "map StKind (close_stages l4 ss) = map StKind ss @ [StKind l4]"
  "map StOutcome (close_stages l4 ss) = map StOutcome ss @ [StOutcome l4]"
  "butlast (close_stages l4 ss) = map (\<lambda>s. s\<lparr>ParentStageId := StageId l4\<rparr>) ss"
  "last (close_stages l4 ss) = l4"
  by (simp_all add: close_stages_def)

text \<open>The five shapes of an answer.\<close>

lemma VerifyEnvelope_cases:
  assumes "fst (VerifyEnvelope P W Ev st (Some env)) = (r, e)"
  obtains (early) err where "e = Some err"
      "r = Some (rejected_transaction (pCrypto P) Ev env None False False [])"
  | (l1) err oc where "e = Some err" "oc = OUTCOME_VERIFIED \<or> oc = OUTCOME_FAILED"
      "r = Some (rejected_transaction (pCrypto P) Ev env None False False [l1_stage Ev (doctrine W) env oc])"
  | (l2) err posture where "e = Some err" "Posture env = posture_Name posture"
      "verifyL2Posture (pCrypto P) (signerStore W) (consensusPolicyStore W) env (TransactionHash env) posture = Inl err"
      "r = Some (rejected_transaction (pCrypto P) Ev env (Some posture) False False
         [l1_stage Ev (doctrine W) env OUTCOME_VERIFIED, l2_stage (pCrypto P) Ev env OUTCOME_FAILED])"
  | (l3) err posture a where "e = Some err" "Posture env = posture_Name posture"
      "verifyL2Posture (pCrypto P) (signerStore W) (consensusPolicyStore W) env (TransactionHash env) posture = Inr a"
      "verifyL3Posture (l3Notary W) env posture = Inl err"
      "r = Some (rejected_transaction (pCrypto P) Ev env (Some posture) a False
         [l1_stage Ev (doctrine W) env OUTCOME_VERIFIED, l2_stage (pCrypto P) Ev env (stage_outcome a),
          l3_stage (pCrypto P) Ev env OUTCOME_FAILED])"
  | (ok) m x posture a b where "e = None" "Posture env = posture_Name posture"
      "verifyL2Posture (pCrypto P) (signerStore W) (consensusPolicyStore W) env (TransactionHash env) posture = Inr a"
      "verifyL3Posture (l3Notary W) env posture = Inr b"
      "r = Some (verified_transaction (pCrypto P) Ev env m x posture a b
         [l1_stage Ev (doctrine W) env OUTCOME_VERIFIED, l2_stage (pCrypto P) Ev env (stage_outcome a),
          l3_stage (pCrypto P) Ev env (stage_outcome b)])"
proof (cases "reserve_nonce W Ev st env")
  case (Pair res st1)
  show thesis
  proof (cases res)
    case (Inl err)
    with Pair assms show thesis by (auto simp: VerifyEnvelope_def intro: early)
  next
    case (Inr q)
    obtain rs x where q: "q = (rs, x)" by (cases q)
    obtain vt e' where vr: "verify_reserved P W Ev env x = (vt, e')" by fastforce
    have re: "r = Some vt" "e = e'" using assms Pair Inr q vr
      by (auto simp: VerifyEnvelope_def split: option.splits)
    show thesis
    proof (cases "verifyStateless P W env")
      case (Inl err)
      with vr re show thesis by (auto simp: verify_reserved_def Let_def intro: l1)
    next
      case sl: (Inr mh)
      obtain m h where mh: "mh = (m, h)" by (cases mh)
      have h: "h = TransactionHash env" using sl mh by (simp add: verifyStateless_Inr)
      show thesis
      proof (cases "verifyStateful W Ev env")
        case (Inl err)
        with vr re sl mh show thesis by (auto simp: verify_reserved_def Let_def intro: l1)
      next
        case sf: (Inr u)
        show thesis
        proof (cases "postureFromEnvelope env")
          case (Inl err)
          with vr re sl mh sf show thesis by (auto simp: verify_reserved_def Let_def intro: l1)
        next
          case po: (Inr posture)
          note pn = po[unfolded postureFromEnvelope_ok]
          note vr' = vr[unfolded verify_reserved_def Let_def sl mh sf po sum.case prod.case
              verifyPosture_def h]
          show thesis
          proof (cases "verifyL2Posture (pCrypto P) (signerStore W) (consensusPolicyStore W) env (TransactionHash env) posture")
            case (Inl err)
            with vr' re pn show thesis by (auto intro: l2)
          next
            case a: (Inr a)
            show thesis
            proof (cases "verifyL3Posture (l3Notary W) env posture")
              case (Inl err)
              with vr' re pn a show thesis by (auto intro: l3)
            next
              case (Inr b)
              with vr' re pn a show thesis by (auto intro: ok)
            qed
          qed
        qed
      qed
    qed
  qed
qed

text \<open>A stage that carries the identity of the envelope.\<close>

definition stage_of :: "GovernanceEnvelope \<Rightarrow> StageEvidence \<Rightarrow> bool" where
  "stage_of env s \<longleftrightarrow>
     StageId s = deterministicStageID env (StKind s) \<and> StTransactionId s = Id env \<and>
     StTransactionHash s = TransactionHash env \<and> StActionType s = EnvActionType env \<and>
     StOperatorId s = OperatorId env \<and> StOperatorSessionId s = OperatorSessionId env \<and>
     StRequestorUserId s = RequestorUserId env \<and> StActingAppId s = ActingAppId env \<and>
     StCaseId s = CaseId env \<and> StInvestigationId s = InvestigationId env \<and> StTaskId s = TaskId env"

lemma stage_of_simps [simp]:
  "stage_of env (l1_stage Ev d env oc)" "stage_of env (l2_stage C Ev env oc)"
  "stage_of env (l3_stage C Ev env oc)" "stage_of env (l4_stage C Ev env oc)"
  "stage_of env (s\<lparr>ParentStageId := p\<rparr>) = stage_of env s"
  by (simp_all add: stage_of_def l1_stage_def l2_stage_def l3_stage_def l4_stage_def Let_def split: option.split)

lemma close_stages_of:
  "list_all (stage_of env) (close_stages l4 ss) \<longleftrightarrow> list_all (stage_of env) ss \<and> stage_of env l4"
  by (auto simp: close_stages_def list_all_iff)

lemma vtStages_simps [simp]:
  "vtStages (rejected_transaction C Ev env po a b ss) = close_stages (l4_stage C Ev env OUTCOME_FAILED) ss"
  "vtStages (verified_transaction C Ev env m x p a b ss) = close_stages (l4_stage C Ev env OUTCOME_VERIFIED) ss"
  by (simp_all add: rejected_transaction_def verified_transaction_def)

text \<open>C14: The evidence of a verification tells what happened. Every answer carries the stages
  that ran in protocol order, closed by the L4 stage, each with the identity of the envelope,
  the earlier ones as children of the L4 stage. The L4 stage is marked verified exactly when
  the envelope was accepted; then all four stages are there and none of them failed.\<close>

theorem stage_evidence_faithful:
  assumes "fst (VerifyEnvelope P W Ev st (Some env)) = (r, e)"
  shows "\<exists>vt. r = Some vt \<and> list_all (stage_of env) (vtStages vt) \<and>
     map StKind (vtStages vt) \<in> {[KIND_L4_VERIFICATION], [KIND_L1_DOCTRINE, KIND_L4_VERIFICATION],
       [KIND_L1_DOCTRINE, KIND_PROTOCOL_L2, KIND_L4_VERIFICATION],
       [KIND_L1_DOCTRINE, KIND_PROTOCOL_L2, KIND_L3_NOTARY, KIND_L4_VERIFICATION]} \<and>
     all_children_of (StageId (last (vtStages vt))) (butlast (vtStages vt)) \<and>
     ParentStageId (last (vtStages vt)) = [] \<and>
     StOutcome (last (vtStages vt)) = (if e = None then OUTCOME_VERIFIED else OUTCOME_FAILED) \<and>
     (e = None \<longrightarrow> length (vtStages vt) = 4 \<and> OUTCOME_FAILED \<notin> set (map StOutcome (vtStages vt)))"
  using assms
  by (cases rule: VerifyEnvelope_cases)
    (simp_all add: close_stages_def all_children_of_def list_all_iff stage_outcome_def)

section \<open>A concrete warden\<close>

text \<open>A shutdown request under the notary posture, with a consensus vote, an L3 proof and its
  content hash as id.\<close>

definition sample_platform :: platform where
  "sample_platform = \<lparr>pCrypto = toy_crypto, pUnmarshal = (\<lambda>_ _. Inr (\<lambda>_. [])), pShowErr = (\<lambda>_. []),
     pParseJSON = (\<lambda>_. Inr JNull), pRegistry = []\<rparr>"

definition shutdown_intent :: GovernanceEnvelope where
  "shutdown_intent = sample_envelope\<lparr>EnvActionType := ActionTypeShutdown, OperatorSessionId := []\<rparr>"

definition shutdown_hash :: string where
  "shutdown_hash = sha256_hex toy_crypto (preimage shutdown_intent None)"

definition shutdown_envelope :: GovernanceEnvelope where
  "shutdown_envelope = shutdown_intent\<lparr>Id := shutdown_hash, TransactionHash := shutdown_hash,
     Governance := Some \<lparr>L1 = None,
       L2 = Some \<lparr>ConsensusSetId = ''set-1'',
         Votes = [vote_of toy_crypto shutdown_hash True \<lparr>AppID = ''app-1'', PrivateKey = Some ''k''\<rparr>]\<rparr>,
       L3 = Some \<lparr>Proof = Some sample_l3_proof\<rparr>\<rparr>\<rparr>"

definition sample_warden :: "nonce_usage L4Warden" where
  "sample_warden = NewL4Warden (Some sql_replay_ops) (Some (Inr ''root-1'')) (Some sample_signers)
     (Some (GetConsensusPolicy None sample_docs)) (Some (\<lambda>_ _ _ _. Inr True)) (Some sample_doctrine)
     AllActionTypes (Some (\<lambda>_. True))"

definition sample_warden_env :: warden_env where
  "sample_warden_env = \<lparr>wClock = 0, wMono = int, wReserveEnv = calm_env, wReleaseEnv = calm_env,
     ctxStateRoot = None\<rparr>"

definition fresh_state :: "nonce_usage warden_state" where
  "fresh_state = \<lparr>inFlight = {}, nonces = Map.empty\<rparr>"

lemma shutdown_fields:
  "Nonce shutdown_envelope = ''nonce-1''" "ExpiresAt shutdown_envelope = Some 2000000000000000000"
  "ProtocolVersion shutdown_envelope = ''2''" "EnvActionType shutdown_envelope = ActionTypeShutdown"
  "OperatorId shutdown_envelope = ''op-1''" "Payload shutdown_envelope = ''ls''"
  "StateMerkleRoot shutdown_envelope = ''root-1''" "Posture shutdown_envelope = ''notary''"
  "Id shutdown_envelope = shutdown_hash" "TransactionHash shutdown_envelope = shutdown_hash"
  "l3_proof shutdown_envelope = Some sample_l3_proof"
  by (simp_all add: shutdown_envelope_def shutdown_intent_def sample_envelope_def l3_proof_def)

lemma shutdown_bound: "bound_identity toy_crypto shutdown_envelope"
proof -
  have "GenerateMessageID toy_crypto (Some shutdown_envelope) = GenerateMessageID toy_crypto (Some shutdown_intent)"
    by (rule GenerateMessageID_cong)
      (simp_all add: shutdown_envelope_def shutdown_intent_def canonicalParts_def)
  also have "\<dots> = Inr shutdown_hash"
    by (simp add: shutdown_hash_def shutdown_intent_def GenerateMessageID_def envelopeProtocolVersion_def
        Let_def generateMessageIDV2_def canonicalEnvelopeFieldsV1_def canonicalIntent_def preimage_def
        sample_envelope_def)
  finally have "GenerateMessageID toy_crypto (Some shutdown_envelope) = Inr shutdown_hash" .
  moreover have "shutdown_hash \<noteq> []"
    by (simp add: shutdown_hash_def sha256_hex_def toy_crypto_def preimage_def shutdown_intent_def
        sample_envelope_def canonicalV2_def)
  ultimately show ?thesis by (simp add: bound_identity_def shutdown_fields)
qed

lemma shutdown_votes:
  "verifyL2Posture toy_crypto (Some sample_signers) (Some (GetConsensusPolicy None sample_docs))
     shutdown_envelope shutdown_hash NotaryPosture = Inr True"
proof -
  have "verifyL2Signature toy_crypto ''k'' (ConsensusSignature
      (vote_of toy_crypto shutdown_hash True \<lparr>AppID = ''app-1'', PrivateKey = Some ''k''\<rparr>)) shutdown_hash True"
    by (rule vote_of_verifies[OF sig64_toy, of "''k''"]) simp_all
  then show ?thesis
    by (simp add: verifyL2Posture_def envelope_votes_def shutdown_envelope_def GetConsensusPolicy_def
        GetConsensus_def sample_docs_def sample_policy_def sample_signers_def vote_of_def)
qed

lemma shutdown_admitted:
  "admitted_payload sample_platform sample_doctrine shutdown_envelope \<lparr>mtype = ''ShutdownRequested'', mfields = (\<lambda>_. [])\<rparr>"
  by (simp add: admitted_payload_def sample_platform_def shutdown_fields DecodePayloadForAction_def
      payload_types_def ValidatePayload_clean_iff field_violations_def forbidden_patterns_def)

text \<open>Every warden that is wired like the sample accepts the request, whatever its store.\<close>

lemma shutdown_accepted:
  assumes "replayStore W = Some rs" and "inFlight st = {}"
    and "fst (rsReserveNonce rs calm_env (nonces st) ''nonce-1'' 2000000000000000000) = Inr False"
    and "executionTarget W = Some (\<lambda>_. True)" and "stateRootProvider W = Some (Inr ''root-1'')"
    and "signerStore W = Some sample_signers"
    and "consensusPolicyStore W = Some (GetConsensusPolicy None sample_docs)"
    and "l3Notary W = Some (\<lambda>_ _ _ _. Inr True)" and "doctrine W = Some sample_doctrine"
    and "knownActionTypes W = AllActionTypes"
  shows "accepts sample_platform W sample_warden_env st shutdown_envelope"
proof -
  have P: "pCrypto sample_platform = toy_crypto" by (simp add: sample_platform_def)
  have l3: "verifyL3Posture (l3Notary W) shutdown_envelope NotaryPosture = Inr True"
    by (simp add: verifyL3Posture_def shutdown_fields assms(8))
  have wa: "well_addressed sample_platform W shutdown_envelope"
    by (simp add: well_addressed_def shutdown_fields assms(4,10) target_ok_def
        event_action_check_def ValidateGovernedRequest_def Registry_Lookup_def sample_platform_def
        AllActionTypes_def)
  have po: "Posture shutdown_envelope = posture_Name NotaryPosture" by (simp add: shutdown_fields)
  have ev: "wReserveEnv sample_warden_env = calm_env" "wClock sample_warden_env \<le> 2000000000000000000"
    by (simp_all add: sample_warden_env_def)
  have root: "current_root W sample_warden_env = Some (Inr ''root-1'')"
    by (simp add: current_root_def assms(5) sample_warden_env_def)
  have res: "\<exists>rs x. replayStore W = Some rs \<and> ExpiresAt shutdown_envelope = Some x \<and> wClock sample_warden_env \<le> x \<and>
      fst (rsReserveNonce rs (wReserveEnv sample_warden_env) (nonces st) (Nonce shutdown_envelope) x) = Inr False"
    using assms(1,3) ev by (simp add: shutdown_fields)
  have l2: "verifyL2Posture (pCrypto sample_platform) (signerStore W) (consensusPolicyStore W)
      shutdown_envelope (TransactionHash shutdown_envelope) NotaryPosture = Inr True"
    using shutdown_votes by (simp add: P assms(6,7) shutdown_fields)
  have "\<exists>d m. doctrine W = Some d \<and> admitted_payload sample_platform d shutdown_envelope m"
    using shutdown_admitted assms(9) by blast
  moreover have "bound_identity (pCrypto sample_platform) shutdown_envelope" using shutdown_bound P by simp
  moreover have "Nonce shutdown_envelope \<noteq> []" "Nonce shutdown_envelope \<notin> inFlight st"
    "StateMerkleRoot shutdown_envelope \<noteq> []"
    "current_root W sample_warden_env = Some (Inr (StateMerkleRoot shutdown_envelope))"
    using root assms(2) by (simp_all add: shutdown_fields)
  ultimately show ?thesis using res wa l2 l3 po unfolding accepts_iff by blast
qed

lemma sample_accepts: "accepts sample_platform sample_warden sample_warden_env fresh_state shutdown_envelope"
  by (rule shutdown_accepted[of _ sql_replay_ops])
    (simp_all add: sample_warden_def NewL4Warden_def fresh_state_def sql_replay_ops_def ReserveNonce_def
      cleanupExpiredNonces_def calm_env_def delete_where_apply)

lemma sample_warden_store: "replayStore sample_warden = Some sql_replay_ops"
  by (simp add: sample_warden_def NewL4Warden_def)

theorem notary_posture_enforced_witness:
  "accepts sample_platform sample_warden sample_warden_env fresh_state shutdown_envelope \<and>
   (\<exists>verify p. l3Notary sample_warden = Some verify \<and> l3_proof shutdown_envelope = Some p \<and>
      verify (RequestorUserId shutdown_envelope) (TransactionHash shutdown_envelope)
        (CliSessionId shutdown_envelope) (Some p) = Inr True)"
  using sample_accepts notary_posture_enforced[OF sample_accepts]
  by (simp add: shutdown_fields IsMutation_def IsBootstrapAction_def)

theorem in_flight_balanced_witness:
  "inFlight (snd (VerifyEnvelope sample_platform sample_warden sample_warden_env fresh_state
     (Some shutdown_envelope))) = {}"
  using in_flight_balanced[of fresh_state sample_platform sample_warden sample_warden_env "Some shutdown_envelope"]
  by (simp add: fresh_state_def)

theorem warden_never_accepts_twice_witness:
  "\<not> accepts sample_platform sample_warden sample_warden_env
     (verify_all sample_platform sample_warden
        (snd (VerifyEnvelope sample_platform sample_warden sample_warden_env fresh_state (Some shutdown_envelope)))
        [(sample_warden_env, shutdown_envelope), (sample_warden_env, sample_envelope)])
     shutdown_envelope"
  by (rule warden_never_accepts_twice[OF sample_warden_store sample_accepts shutdown_fields(2)])
    (simp_all add: clock_until_def sample_warden_env_def calm_env_def four_digit_year_def)

theorem rejection_frees_nonce_witness:
  "nonces (snd (VerifyEnvelope sample_platform (sample_warden\<lparr>doctrine := None\<rparr>) sample_warden_env fresh_state
     (Some shutdown_envelope))) ''nonce-1'' = None"
proof -
  let ?W = "sample_warden\<lparr>doctrine := None\<rparr>"
  have store: "replayStore ?W = Some sql_replay_ops" by (simp add: sample_warden_store)
  obtain s where s: "ReserveNonce calm_env Map.empty ''nonce-1'' 2000000000000000000 = (Inr False, s)"
    by (simp add: ReserveNonce_def cleanupExpiredNonces_def calm_env_def delete_where_apply)
  have "reserve_nonce ?W sample_warden_env fresh_state shutdown_envelope =
      (Inr (sql_replay_ops, 2000000000000000000), fresh_state\<lparr>nonces := s\<rparr>)"
    using s by (simp add: reserve_nonce_Inr shutdown_fields store sample_warden_env_def fresh_state_def
        sql_replay_ops_def releaseInFlight_def)
  moreover have "\<not> accepts sample_platform ?W sample_warden_env fresh_state shutdown_envelope"
    unfolding accepts_iff by simp
  moreover have "fault_at (wReleaseEnv sample_warden_env) 0 = None" by (simp add: sample_warden_env_def calm_env_def)
  ultimately have "nonces (snd (VerifyEnvelope sample_platform ?W sample_warden_env fresh_state
      (Some shutdown_envelope))) (Nonce shutdown_envelope) = None"
    by (rule rejection_frees_nonce[OF store])
  then show ?thesis by (simp add: shutdown_fields)
qed

theorem replay_at_expiry_witness:
  "accepts sample_platform sample_warden
     (sample_warden_env\<lparr>wReserveEnv := calm_env\<lparr>clock_at := (\<lambda>_. 2000000000000001000)\<rparr>\<rparr>)
     (snd (VerifyEnvelope sample_platform sample_warden sample_warden_env fresh_state (Some shutdown_envelope)))
     shutdown_envelope"
  by (rule replay_at_expiry[OF sample_warden_store sample_accepts _ shutdown_fields(2)])
    (simp_all add: sample_warden_env_def calm_env_def four_digit_year_def fresh_state_def)

theorem stage_evidence_faithful_witness:
  "\<exists>vt. fst (VerifyEnvelope sample_platform sample_warden sample_warden_env fresh_state (Some shutdown_envelope))
      = (Some vt, None) \<and> length (vtStages vt) = 4"
proof -
  obtain r where r: "fst (VerifyEnvelope sample_platform sample_warden sample_warden_env fresh_state
      (Some shutdown_envelope)) = (r, None)"
    using sample_accepts by (metis prod.collapse)
  from stage_evidence_faithful[OF r] r show ?thesis by auto
qed

definition gateway_sample_warden :: "gw_nonces L4Warden" where
  "gateway_sample_warden = NewL4Warden (Some gw_replay_ops) (Some (Inr ''root-1'')) (Some sample_signers)
     (Some (GetConsensusPolicy None sample_docs)) (Some (\<lambda>_ _ _ _. Inr True)) (Some sample_doctrine)
     AllActionTypes (Some (\<lambda>_. True))"

theorem gateway_warden_never_accepts_twice_witness:
  "\<not> accepts sample_platform gateway_sample_warden sample_warden_env
     (verify_all sample_platform gateway_sample_warden
        (snd (VerifyEnvelope sample_platform gateway_sample_warden sample_warden_env
           \<lparr>inFlight = {}, nonces = Map.empty\<rparr> (Some shutdown_envelope)))
        [(sample_warden_env, shutdown_envelope)])
     shutdown_envelope"
proof -
  have "accepts sample_platform gateway_sample_warden sample_warden_env
      \<lparr>inFlight = {}, nonces = Map.empty\<rparr> shutdown_envelope"
    by (rule shutdown_accepted[of _ gw_replay_ops])
      (simp_all add: gateway_sample_warden_def NewL4Warden_def gw_replay_ops_def gw_store_defs calm_env_def)
  moreover have "replayStore gateway_sample_warden = Some gw_replay_ops"
    by (simp add: gateway_sample_warden_def NewL4Warden_def)
  ultimately show ?thesis by (intro gateway_warden_never_accepts_twice) simp_all
qed

end
