(* ===== verification/Capability.thy ===== *)
theory Capability
  imports Warden
begin

text \<open>
  \<open>services/governance/capability.go\<close>: the single-action permission the actuator mints
  before it calls a handler and dissolves afterwards. A handler keeps a pointer to it, so
  capabilities live in a heap of their own, a list indexed by address, and a context carries an
  address.
\<close>

section \<open>Capabilities\<close>

record Capability =
  capTransactionHash :: string
  capActionType :: ActionType
  capTargetResource :: string
  capOperatorID :: string
  capOperatorSession :: string
  capExpiresAt :: time
  capToken :: string
  capKeyID :: string
  dissolved :: bool

type_synonym cap_heap = "Capability list"
type_synonym cap_addr = nat

definition IsDissolved :: "Capability \<Rightarrow> bool" where
  "IsDissolved c = dissolved c"

definition IsExpired :: "Capability \<Rightarrow> time \<Rightarrow> bool" where
  "IsExpired c now \<longleftrightarrow> capExpiresAt c < now"

definition IsValid :: "Capability \<Rightarrow> time \<Rightarrow> bool" where
  "IsValid c now \<longleftrightarrow> \<not> IsDissolved c \<and> \<not> IsExpired c now"

text \<open>\<open>Dissolve\<close> writes through the pointer.\<close>

definition Dissolve :: "cap_addr \<Rightarrow> cap_heap \<Rightarrow> cap_heap" where
  "Dissolve a h = (if a < length h then h[a := (h ! a)\<lparr>dissolved := True\<rparr>] else h)"

definition Capability_Verify :: "Capability option \<Rightarrow> ActionType \<Rightarrow> string \<Rightarrow> time \<Rightarrow> unit result" where
  "Capability_Verify c actionType txHash now =
     (case c of
        None \<Rightarrow> Inl (Errorf ''capability: nil capability'' [] [])
      | Some c \<Rightarrow>
         if IsDissolved c then Inl (Errorf ''capability: dissolved'' [] [])
         else if IsExpired c now then Inl (Errorf ''capability: expired'' [] [])
         else if capActionType c \<noteq> actionType
         then Inl (Errorf ''capability: action type mismatch (have %s, want %s)'' [capActionType c, actionType] [])
         else if capTransactionHash c \<noteq> txHash
         then Inl (Errorf ''capability: transaction hash mismatch'' [] [])
         else Inr ())"

section \<open>Minting\<close>

text \<open>\<open>rand\<close> is what \<open>rand.Read\<close> into 32 bytes answers.\<close>

definition MintCapability ::
    "crypto \<Rightarrow> bytes result \<Rightarrow> VerifiedTransaction option \<Rightarrow> bytes \<Rightarrow> string \<Rightarrow> Capability result" where
  "MintCapability C rand vt signingKey keyID =
     (case vt of
        None \<Rightarrow> Inl (Sentinel (Actuator ErrL5ActuatorCapabilityMint))
      | Some vt \<Rightarrow>
         (case rand of
            Inl err \<Rightarrow> Inl (Errorf ''%w: %v'' [] [Sentinel (Actuator ErrL5ActuatorCapabilityMint)])
          | Inr tokenBytes \<Rightarrow>
             (let token = hex_EncodeToString tokenBytes;
                  sig = ed_sign C signingKey (token @ TransactionHash (vtEnvelope vt))
              in Inr \<lparr>capTransactionHash = TransactionHash (vtEnvelope vt), capActionType = vtActionType vt,
                   capTargetResource = TargetResource (vtEnvelope vt), capOperatorID = OperatorId (vtEnvelope vt),
                   capOperatorSession = OperatorSessionId (vtEnvelope vt),
                   capExpiresAt = (case vtExpiresAt vt of None \<Rightarrow> zero_time | Some t \<Rightarrow> t),
                   capToken = token @ '':'' @ hex_EncodeToString sig, capKeyID = keyID, dissolved = False\<rparr>)))"

text \<open>A context is an association of keys with values; only the capability's key is read.\<close>

definition ContextWithCapability :: "(string \<rightharpoonup> cap_addr) \<Rightarrow> cap_addr \<Rightarrow> (string \<rightharpoonup> cap_addr)" where
  "ContextWithCapability ctx a = ctx(''execution_capability'' \<mapsto> a)"

definition CapabilityFromContext :: "(string \<rightharpoonup> cap_addr) \<Rightarrow> cap_addr option" where
  "CapabilityFromContext ctx = ctx ''execution_capability''"

section \<open>What a capability allows\<close>

text \<open>The capability is presented as the heap holds it.\<close>

definition heap_get :: "cap_heap \<Rightarrow> cap_addr option \<Rightarrow> Capability option" where
  "heap_get h a = (case a of None \<Rightarrow> None | Some a \<Rightarrow> if a < length h then Some (h ! a) else None)"

lemma Capability_Verify_Inr:
  "Capability_Verify (Some c) at th now = Inr u \<longleftrightarrow>
     IsValid c now \<and> capActionType c = at \<and> capTransactionHash c = th"
  by (simp add: Capability_Verify_def IsValid_def)

lemma Dissolve_simps [simp]:
  "length (Dissolve a h) = length h"
  "a < length h \<Longrightarrow> IsDissolved (Dissolve a h ! a)"
  "b \<noteq> a \<Longrightarrow> Dissolve a h ! b = h ! b"
  by (simp_all add: Dissolve_def IsDissolved_def)

lemma MintCapability_Inr:
  assumes "MintCapability C rand (Some vt) key keyID = Inr c"
  shows "\<not> dissolved c" "capActionType c = vtActionType vt" "capTransactionHash c = TransactionHash (vtEnvelope vt)"
    "capTargetResource c = TargetResource (vtEnvelope vt)" "capKeyID c = keyID"
    "capExpiresAt c = (case vtExpiresAt vt of None \<Rightarrow> zero_time | Some t \<Rightarrow> t)"
    "\<exists>b. rand = Inr b \<and> capToken c = hex_EncodeToString b @ '':'' @
       hex_EncodeToString (ed_sign C key (hex_EncodeToString b @ TransactionHash (vtEnvelope vt)))"
  using assms by (auto simp: MintCapability_def Let_def split: sum.splits)

lemma minted_allows:
  assumes "MintCapability C rand (Some vt) key keyID = Inr c"
  shows "Capability_Verify (Some c) at th now = Inr () \<longleftrightarrow>
    at = vtActionType vt \<and> th = TransactionHash (vtEnvelope vt) \<and>
    now \<le> (case vtExpiresAt vt of None \<Rightarrow> zero_time | Some t \<Rightarrow> t)"
  using MintCapability_Inr[OF assms]
  by (auto simp: Capability_Verify_Inr IsValid_def IsDissolved_def IsExpired_def)

lemma dissolved_refuses: "IsDissolved c \<Longrightarrow> Capability_Verify (Some c) at th now \<noteq> Inr u"
  by (simp add: Capability_Verify_def)

end
