(* ===== verification/Json_Text.thy ===== *)
theory Json_Text
  imports Regexp
begin

text \<open>
  The part of \<open>encoding/json\<close> that the signed artefacts use: quoted strings with Go's
  default (HTML-safe) escaping, integers, and objects written field by field in declaration
  order. Quoted ASCII strings and integers are self-delimiting, which is what makes a canonical
  JSON text readable in only one way.
\<close>

section \<open>Strings\<close>

abbreviation bslash :: char where "bslash \<equiv> CHR 0x5C"
abbreviation dquote :: char where "dquote \<equiv> CHR 0x22"

definition ascii_char :: "char \<Rightarrow> bool" where
  "ascii_char c \<longleftrightarrow> (of_char c :: nat) < 128"

text \<open>The escapes of \<open>appendString\<close> for a byte below 0x80.\<close>

definition esc_ascii :: "char \<Rightarrow> string" where
  "esc_ascii c =
     (let b = of_char c :: nat in
      if c = dquote \<or> c = bslash then [bslash, c]
      else if b = 8 then [bslash, CHR ''b'']
      else if b = 12 then [bslash, CHR ''f'']
      else if b = 10 then [bslash, CHR ''n'']
      else if b = 13 then [bslash, CHR ''r'']
      else if b = 9 then [bslash, CHR ''t'']
      else if b < 32 \<or> c \<in> {CHR ''<'', CHR ''>'', CHR ''&''}
      then [bslash, CHR ''u'', CHR ''0'', CHR ''0'', hex_digit (b div 16), hex_digit (b mod 16)]
      else [c])"

text \<open>Above 0x7F a valid rune is copied, except the two line separators; an invalid byte becomes
  the escape of the replacement character.\<close>

function json_escape :: "string \<Rightarrow> string" where
  "json_escape [] = []"
| "json_escape (c # cs) =
     (if ascii_char c then esc_ascii c @ json_escape cs
      else case decode_rune c cs of (r, rest) \<Rightarrow>
        (if r = 65533 \<and> length rest = length cs then bslash # ''ufffd''
         else if r = 8232 then bslash # ''u2028''
         else if r = 8233 then bslash # ''u2029''
         else c # take (length cs - length rest) cs) @ json_escape rest)"
  by pat_completeness auto
termination
  by (relation "measure length") (auto simp: less_Suc_eq_le dest!: sym[of "(_, _)"] decode_rune_rest)

definition json_quote :: "string \<Rightarrow> string" where
  "json_quote s = dquote # json_escape s @ [dquote]"

definition ascii :: "string \<Rightarrow> bool" where
  "ascii s \<longleftrightarrow> list_all ascii_char s"

lemma ascii_simps [simp]: "ascii []" "ascii (c # s) \<longleftrightarrow> ascii_char c \<and> ascii s"
  by (simp_all add: ascii_def)

lemma json_escape_ascii: "ascii s \<Longrightarrow> json_escape s = concat (map esc_ascii s)"
  by (induction s) simp_all

lemma esc_ascii_hd: "\<exists>d ds. esc_ascii c = d # ds \<and> d \<noteq> dquote \<and> (d = bslash \<or> ds = [] \<and> d = c \<and> c \<noteq> bslash)"
  by (simp add: esc_ascii_def Let_def)

lemma hex_digit_inj: "m < 16 \<Longrightarrow> n < 16 \<Longrightarrow> hex_digit m = hex_digit n \<Longrightarrow> m = n"
  by (metis hex_digit_roundtrip option.inject)

lemma esc_u_inj:
  assumes "ascii_char c" and "ascii_char d"
    and "hex_digit (of_char c div 16) = hex_digit (of_char d div 16)"
    and "hex_digit (of_char c mod 16) = hex_digit (of_char d mod 16)"
  shows "c = d"
proof -
  have "(of_char c :: nat) div 16 = of_char d div 16" "(of_char c :: nat) mod 16 = of_char d mod 16"
    using assms by (auto simp: ascii_char_def intro!: hex_digit_inj)
  then have "(of_char c :: nat) = of_char d" by (metis div_mult_mod_eq)
  then show ?thesis by simp
qed

text \<open>The second byte of an escape names it.\<close>

definition esc_code :: "char \<Rightarrow> string" where
  "esc_code c = tl (esc_ascii c)"

lemma esc_ascii_prefix_free:
  assumes "ascii_char c" "ascii_char d" and "esc_ascii c @ x = esc_ascii d @ y"
  shows "c = d \<and> x = y"
proof -
  have nat_eq: "(of_char c :: nat) = n \<Longrightarrow> (of_char d :: nat) = n \<Longrightarrow> c = d" for n
    by (metis of_char_eq_iff)
  show ?thesis
    using assms esc_u_inj[OF assms(1,2)] nat_eq
    unfolding esc_ascii_def Let_def by (auto split: if_splits)
qed

lemma escaped_delimited:
  assumes "ascii s" "ascii t"
    and "concat (map esc_ascii s) @ dquote # r = concat (map esc_ascii t) @ dquote # r'"
  shows "s = t \<and> r = r'"
  using assms
proof (induction s arbitrary: t)
  case Nil
  then show ?case using esc_ascii_hd[of "hd t"] by (cases t) auto
next
  case (Cons c s)
  show ?case
  proof (cases t)
    case Nil
    with Cons.prems esc_ascii_hd[of c] show ?thesis by auto
  next
    case t: (Cons d t')
    have "esc_ascii c @ (concat (map esc_ascii s) @ dquote # r) =
        esc_ascii d @ (concat (map esc_ascii t') @ dquote # r')"
      using Cons.prems(3) t by simp
    from esc_ascii_prefix_free[OF _ _ this] Cons.prems(1,2) t
    have "c = d" "concat (map esc_ascii s) @ dquote # r = concat (map esc_ascii t') @ dquote # r'"
      by simp_all
    with Cons.IH[of t'] Cons.prems(1,2) t show ?thesis by simp
  qed
qed

lemma json_quote_delimited:
  assumes "ascii s" "ascii t" and "json_quote s @ r = json_quote t @ r'"
  shows "s = t \<and> r = r'"
  using escaped_delimited[OF assms(1,2)] assms by (simp add: json_quote_def json_escape_ascii)

section \<open>Integers\<close>

definition digit :: "char \<Rightarrow> bool" where
  "digit c \<longleftrightarrow> CHR ''0'' \<le> c \<and> c \<le> CHR ''9''"

lemma decimal_nat_digits: "list_all digit (decimal_nat n)"
proof (induction n rule: decimal_nat.induct)
  case (1 n)
  have d: "digit (char_of (48 + k))" if "k < 10" for k :: nat
    using that by (simp add: digit_def less_eq_char_def)
  show ?case
  proof (cases "n < 10")
    case True
    then show ?thesis by (simp add: decimal_nat.simps[of n] d)
  next
    case False
    with 1 show ?thesis by (simp add: decimal_nat.simps[of n] d)
  qed
qed

lemma decimal_nat_nonempty: "decimal_nat n \<noteq> []"
  by (simp add: decimal_nat.simps[of n])

fun dec_value :: "nat \<Rightarrow> string \<Rightarrow> nat" where
  "dec_value acc [] = acc"
| "dec_value acc (c # cs) = dec_value (10 * acc + (of_char c - 48)) cs"

lemma dec_value_append: "dec_value acc (xs @ ys) = dec_value (dec_value acc xs) ys"
  by (induction xs arbitrary: acc) simp_all

lemma dec_value_decimal_nat: "dec_value 0 (decimal_nat n) = n"
proof (induction n rule: decimal_nat.induct)
  case (1 n)
  have c: "(of_char (char_of (48 + k) :: char) :: nat) = 48 + k" if "k < 10" for k :: nat
    using that by simp
  show ?case
  proof (cases "n < 10")
    case True
    then show ?thesis by (simp add: decimal_nat.simps[of n] c)
  next
    case False
    with 1 have "dec_value 0 (decimal_nat n) = 10 * (n div 10) + (48 + n mod 10 - 48)"
      using c[of "n mod 10"] by (simp add: decimal_nat.simps[of n] dec_value_append)
    then show ?thesis by simp
  qed
qed

lemma takeWhile_digits:
  assumes "list_all digit ds" and "\<not> digit c"
  shows "takeWhile digit (ds @ c # r) = ds" "dropWhile digit (ds @ c # r) = c # r"
  using assms by (induction ds) simp_all

lemma decimal_nat_delimited:
  assumes "decimal_nat m @ c # r = decimal_nat n @ d # r'" and "\<not> digit c" and "\<not> digit d"
  shows "m = n \<and> c # r = d # r'"
proof -
  have "decimal_nat m = decimal_nat n" "c # r = d # r'"
    using takeWhile_digits[OF decimal_nat_digits assms(2), of m r]
      takeWhile_digits[OF decimal_nat_digits assms(3), of n r'] assms(1) by metis+
  then show ?thesis using dec_value_decimal_nat by metis
qed

lemma FormatInt_delimited:
  assumes "FormatInt i @ c # r = FormatInt j @ d # r'" and "\<not> digit c" and "\<not> digit d"
  shows "i = j \<and> c # r = d # r'"
proof -
  have hd: "hd (decimal_nat n) \<noteq> CHR ''-''" for n
    using decimal_nat_digits[of n] decimal_nat_nonempty[of n]
    by (cases "decimal_nat n") (auto simp: digit_def)
  have ne: "CHR ''-'' # x \<noteq> decimal_nat n @ y" for x n y
    using hd[of n] decimal_nat_nonempty[of n] by (cases "decimal_nat n") auto
  consider "i < 0" "j < 0" | "i < 0" "\<not> j < 0" | "\<not> i < 0" "j < 0" | "\<not> i < 0" "\<not> j < 0" by blast
  then show ?thesis
  proof cases
    case 1
    then have "decimal_nat (nat (- i)) @ c # r = decimal_nat (nat (- j)) @ d # r'"
      using assms(1) by (simp add: FormatInt_def)
    from decimal_nat_delimited[OF this assms(2,3)] 1 show ?thesis by (simp add: eq_nat_nat_iff)
  next
    case 2
    then show ?thesis using assms(1) ne[of _ "nat j" "d # r'"] by (simp add: FormatInt_def)
  next
    case 3
    then show ?thesis using assms(1) ne[of _ "nat i" "c # r"] by (simp add: FormatInt_def) metis
  next
    case 4
    then have "decimal_nat (nat i) @ c # r = decimal_nat (nat j) @ d # r'"
      using assms(1) by (simp add: FormatInt_def)
    from decimal_nat_delimited[OF this assms(2,3)] 4 show ?thesis by (simp add: eq_nat_nat_iff)
  qed
qed

end
