(* ===== verification/Receipts.thy ===== *)
theory Receipts
  imports Evidence Json_Text Signers
begin

text \<open>
  The signed artefacts of \<open>services/governance/l5_actuator.go\<close>: action receipts with their
  canonical JSON, commitment attestations and receipt persistence attestations with their
  length-prefixed canonical forms, and the functions that verify them. The deterministic
  protobuf encoding of a stage is a parameter.
\<close>

section \<open>Messages\<close>

datatype ExecutionStatus = STATUS_UNSPECIFIED | STATUS_EXECUTING | STATUS_COMPLETED | STATUS_FAILED
  | STATUS_CANCELLED | STATUS_TIMEOUT

datatype L2Status = L2_UNSPECIFIED | L2_NOT_REQUIRED | L2_REQUIRED_VALID | L2_REQUIRED_FAILED

datatype L3Status = L3_UNSPECIFIED | L3_NOT_REQUIRED | L3_REQUIRED_VALID | L3_REQUIRED_FAILED

datatype ReceiptFailureCode = FC_UNSPECIFIED | FC_GOVERNANCE_REJECTED | FC_MODEL_OVERRIDE_DENIED
  | FC_ROLE_INVALID | FC_MODEL_REF_INVALID | FC_BACKEND_UNAVAILABLE | FC_BACKEND_TIMEOUT
  | FC_GENERATE_FAILED | FC_EXECUTION_FAILED | FC_MODEL_NOT_FOUND | FC_PROVIDER_RESPONSE_INVALID
  | FC_GENERATION_OPTIONS_INVALID | FC_CAPABILITY_UNSUPPORTED | FC_PROVIDER_ATTEMPT_REQUIRED
  | FC_IDENTITY_MISMATCH | FC_MODEL_DIGEST_MISMATCH | FC_EVIDENCE_HASH_INVALID
  | FC_MODEL_REGISTRY_INVALID | FC_CAMPAIGN_BINDING_INVALID | FC_TOOLS_UNSUPPORTED
  | FC_CONTEXT_OVERFLOW

text \<open>The wire numbers of the enumerations.\<close>

fun status_num :: "ExecutionStatus \<Rightarrow> int" where
  "status_num STATUS_UNSPECIFIED = 0" | "status_num STATUS_EXECUTING = 1"
| "status_num STATUS_COMPLETED = 2" | "status_num STATUS_FAILED = 3"
| "status_num STATUS_CANCELLED = 4" | "status_num STATUS_TIMEOUT = 5"

fun l2_num :: "L2Status \<Rightarrow> int" where
  "l2_num L2_UNSPECIFIED = 0" | "l2_num L2_NOT_REQUIRED = 1"
| "l2_num L2_REQUIRED_VALID = 2" | "l2_num L2_REQUIRED_FAILED = 3"

fun l3_num :: "L3Status \<Rightarrow> int" where
  "l3_num L3_UNSPECIFIED = 0" | "l3_num L3_NOT_REQUIRED = 1"
| "l3_num L3_REQUIRED_VALID = 2" | "l3_num L3_REQUIRED_FAILED = 3"

definition failure_codes :: "ReceiptFailureCode list" where
  "failure_codes = [FC_UNSPECIFIED, FC_GOVERNANCE_REJECTED, FC_MODEL_OVERRIDE_DENIED,
     FC_ROLE_INVALID, FC_MODEL_REF_INVALID, FC_BACKEND_UNAVAILABLE, FC_BACKEND_TIMEOUT,
     FC_GENERATE_FAILED, FC_EXECUTION_FAILED, FC_MODEL_NOT_FOUND, FC_PROVIDER_RESPONSE_INVALID,
     FC_GENERATION_OPTIONS_INVALID, FC_CAPABILITY_UNSUPPORTED, FC_PROVIDER_ATTEMPT_REQUIRED,
     FC_IDENTITY_MISMATCH, FC_MODEL_DIGEST_MISMATCH, FC_EVIDENCE_HASH_INVALID,
     FC_MODEL_REGISTRY_INVALID, FC_CAMPAIGN_BINDING_INVALID, FC_TOOLS_UNSUPPORTED,
     FC_CONTEXT_OVERFLOW]"

fun index_of :: "'a \<Rightarrow> 'a list \<Rightarrow> nat" where
  "index_of x [] = 0"
| "index_of x (y # ys) = (if x = y then 0 else Suc (index_of x ys))"

definition failure_num :: "ReceiptFailureCode \<Rightarrow> int" where
  "failure_num c = int (index_of c failure_codes)"

record ReceiptPersistenceAttestation =
  paTransactionId :: string
  paReceiptSignatureDigest :: string
  paPersistedAtUnixMs :: int
  paAuditRecordId :: string
  paSignerKeyId :: string
  paSignature :: string

record ActionReceipt =
  rTransactionId :: string
  rTransactionHash :: string
  rStatus :: ExecutionStatus
  rResultSummary :: string
  rStateRootBefore :: string
  rStateRootAfter :: string
  rExecutedAtUnixMs :: int
  rSignerKeyId :: string
  rSignature :: string
  rL2Status :: L2Status
  rL3Status :: L3Status
  rStages :: "StageEvidence list"
  rFinalPersistenceAttestation :: "ReceiptPersistenceAttestation option"
  rFailureCode :: ReceiptFailureCode
  rEventType :: EventType
  rActionType :: ActionType

record CommitmentAttestation =
  caTransactionId :: string
  caTransactionHash :: string
  caPriorCommitmentHash :: string
  caStateRootAtCommit :: string
  caL2SignatureDigest :: string
  caWardenIntentSignatureDigest :: string
  caHumanSignatureDigest :: string
  caActionType :: string
  caTargetResource :: string
  caCommittedAtUnixMs :: int
  caAuditorKeyId :: string
  caSignature :: string
  caHash :: string

section \<open>Canonical forms\<close>

text \<open>A nil attestation is \<open>ErrTxInvalidEnvelope\<close> in the code; the callers always pass one.\<close>

definition CanonicalizeCommitmentAttestation :: "CommitmentAttestation \<Rightarrow> bytes" where
  "CanonicalizeCommitmentAttestation a =
     concat (map writeCanonicalString [caTransactionId a, caTransactionHash a, caPriorCommitmentHash a,
       caStateRootAtCommit a, caL2SignatureDigest a, caWardenIntentSignatureDigest a,
       caHumanSignatureDigest a, caActionType a, caTargetResource a])
     @ be64_int (caCommittedAtUnixMs a) @ writeCanonicalString (caAuditorKeyId a)"

definition CanonicalizeReceiptPersistenceAttestation :: "ReceiptPersistenceAttestation \<Rightarrow> bytes" where
  "CanonicalizeReceiptPersistenceAttestation a =
     writeCanonicalString (paTransactionId a) @ writeCanonicalString (paReceiptSignatureDigest a)
     @ be64_int (paPersistedAtUnixMs a) @ writeCanonicalString (paAuditRecordId a)
     @ writeCanonicalString (paSignerKeyId a)"

type_synonym stage_marshal = "StageEvidence \<Rightarrow> bytes result"

definition deterministicStageEvidenceHash ::
    "crypto \<Rightarrow> stage_marshal \<Rightarrow> StageEvidence list \<Rightarrow> string result" where
  "deterministicStageEvidenceHash C marshal stages =
     (if stages = [] then Inr []
      else case collect_results (map marshal stages) of
        Inl err \<Rightarrow> Inl err
      | Inr encs \<Rightarrow> Inr (sha256_hex C (concat (map lp64 encs))))"

definition str_field :: "string \<Rightarrow> string \<Rightarrow> string" where
  "str_field k v = dquote # k @ dquote # CHR '':'' # json_quote v"

definition int_field :: "string \<Rightarrow> int \<Rightarrow> string" where
  "int_field k i = dquote # k @ dquote # CHR '':'' # FormatInt i"

definition opt_str :: "string \<Rightarrow> string \<Rightarrow> string" where
  "opt_str k v = (if v = [] then [] else CHR '','' # str_field k v)"

definition opt_int :: "string \<Rightarrow> int \<Rightarrow> string" where
  "opt_int k i = (if i = 0 then [] else CHR '','' # int_field k i)"

text \<open>\<open>json.Marshal(canonicalReceipt{...})\<close>.\<close>

definition canonicalReceipt :: "ActionReceipt \<Rightarrow> string \<Rightarrow> string" where
  "canonicalReceipt r stageHash =
     ''{'' @ str_field ''transaction_id'' (rTransactionId r) @ '','' @
     str_field ''transaction_hash'' (rTransactionHash r) @
     opt_str ''event_type'' (rEventType r) @ opt_str ''action_type'' (rActionType r) @ '','' @
     int_field ''status'' (status_num (rStatus r)) @ '','' @
     str_field ''result_summary'' (rResultSummary r) @ '','' @
     str_field ''state_root_before'' (rStateRootBefore r) @ '','' @
     str_field ''state_root_after'' (rStateRootAfter r) @ '','' @
     int_field ''executed_at_unix_ms'' (rExecutedAtUnixMs r) @ '','' @
     str_field ''signer_key_id'' (rSignerKeyId r) @ '','' @
     int_field ''l2_status'' (l2_num (rL2Status r)) @ '','' @
     int_field ''l3_status'' (l3_num (rL3Status r)) @
     opt_str ''deterministic_stage_evidence_hash'' stageHash @
     opt_int ''failure_code'' (failure_num (rFailureCode r)) @ ''}''"

definition CanonicalizeActionReceipt ::
    "crypto \<Rightarrow> stage_marshal \<Rightarrow> ActionReceipt \<Rightarrow> bytes result" where
  "CanonicalizeActionReceipt C marshal r =
     (case deterministicStageEvidenceHash C marshal (rStages r) of
        Inl err \<Rightarrow> Inl (Errorf ''%w: deterministic stage evidence: %w'' []
                        [Sentinel (Actuator ErrL5ActuatorCanonicalizeReceipt), err])
      | Inr h \<Rightarrow> Inr (canonicalReceipt r h))"

section \<open>Signing and verification\<close>

definition SignerPublicKey :: "string \<Rightarrow> bytes result" where
  "SignerPublicKey keyID =
     (case hex_DecodeString keyID of
        None \<Rightarrow> Inl (Sentinel (Sys ErrTrustedSignerKeyNotFound))
      | Some k \<Rightarrow>
          if length k \<noteq> PublicKeySize then Inl (Sentinel (Sys ErrTrustedSignerKeyNotFound)) else Inr k)"

text \<open>The fold of the loop: the first non-empty action type must be the only one.\<close>

fun stage_action :: "string \<Rightarrow> StageEvidence list \<Rightarrow> string result" where
  "stage_action a [] = Inr a"
| "stage_action a (s # ss) =
     (if StActionType s = [] then stage_action a ss
      else if a \<noteq> [] \<and> a \<noteq> StActionType s
      then Inl (wrap ''%w: deterministic stages contain conflicting action types''
                 (Actuator ErrEvidenceArtifactMalformed) [])
      else stage_action (StActionType s) ss)"

definition DeterministicStageActionType :: "ActionReceipt option \<Rightarrow> string result" where
  "DeterministicStageActionType receipt =
     (case receipt of
        None \<Rightarrow> Inl (wrap ''%w: action receipt is nil'' (Actuator ErrEvidenceArtifactMalformed) [])
      | Some r \<Rightarrow>
         (case stage_action [] (rStages r) of
            Inl err \<Rightarrow> Inl err
          | Inr a \<Rightarrow>
              if a = []
              then Inl (wrap ''%w: deterministic stages do not declare an action type''
                         (Actuator ErrEvidenceArtifactMalformed) [])
              else Inr a))"

definition VerifyActionReceiptSignature ::
    "crypto \<Rightarrow> stage_marshal \<Rightarrow> ActionReceipt option \<Rightarrow> bytes \<Rightarrow> unit result" where
  "VerifyActionReceiptSignature C marshal receipt publicKey =
     (case receipt of
        None \<Rightarrow> Inl (Sentinel (Actuator ErrActionReceiptMissing))
      | Some r \<Rightarrow>
         if rSignature r = [] \<or> length publicKey \<noteq> PublicKeySize
         then Inl (Sentinel (Actuator ErrActionReceiptSignatureInvalid))
         else case hex_DecodeString (rSignature r) of
           None \<Rightarrow> Inl (wrap ''%w: %w'' (Actuator ErrActionReceiptSignatureInvalid) [])
         | Some sig \<Rightarrow>
            (case CanonicalizeActionReceipt C marshal r of
               Inl err \<Rightarrow> Inl (Errorf ''%w: %w'' [] [Sentinel (Actuator ErrActionReceiptSignatureInvalid), err])
             | Inr payload \<Rightarrow>
                 if ed_verify C publicKey payload sig then Inr ()
                 else Inl (Sentinel (Actuator ErrActionReceiptSignatureInvalid))))"

definition VerifyReceiptPersistenceAttestation ::
    "crypto \<Rightarrow> ActionReceipt option \<Rightarrow> bytes \<Rightarrow> unit result" where
  "VerifyReceiptPersistenceAttestation C receipt publicKey =
     (case receipt of
        None \<Rightarrow> Inl (Sentinel (Actuator ErrReceiptPersistenceAttestationMissing))
      | Some r \<Rightarrow>
     (case rFinalPersistenceAttestation r of
        None \<Rightarrow> Inl (Sentinel (Actuator ErrReceiptPersistenceAttestationMissing))
      | Some a \<Rightarrow>
         if rTransactionId r = [] \<or> paTransactionId a \<noteq> rTransactionId r \<or>
            paAuditRecordId a \<noteq> rTransactionId r \<or> rSignerKeyId r = [] \<or>
            paSignerKeyId a \<noteq> rSignerKeyId r \<or> paPersistedAtUnixMs a \<le> 0
         then Inl (Sentinel (Actuator ErrReceiptPersistenceAttestationInvalid))
         else if rSignature r = [] \<or> paReceiptSignatureDigest a \<noteq> SignatureDigest C [rSignature r]
         then Inl (Sentinel (Actuator ErrReceiptPersistenceSignatureMismatch))
         else case hex_DecodeString (paSignature a) of
           None \<Rightarrow> Inl (wrap ''%w: %w'' (Actuator ErrReceiptPersistenceAttestationInvalid) [])
         | Some sig \<Rightarrow>
             if length publicKey \<noteq> PublicKeySize \<or>
                \<not> ed_verify C publicKey (CanonicalizeReceiptPersistenceAttestation a) sig
             then Inl (Sentinel (Actuator ErrReceiptPersistenceAttestationInvalid))
             else Inr ()))"

end
