(* ===== verification/Receipt_Binding.thy ===== *)
theory Receipt_Binding
  imports Receipts
begin

text \<open>
  What a receipt signature vouches for: the canonical JSON of a receipt determines every
  field it covers, so a signature cannot be moved to a receipt that differs in one of them;
  signing and verification agree; a persistence attestation belongs to one receipt signature.
\<close>

section \<open>Reading the canonical text\<close>

lemma str_field_delimited:
  assumes "ascii v" "ascii w" and "str_field k v @ r = str_field k w @ r'"
  shows "v = w \<and> r = r'"
  using assms(3) json_quote_delimited[OF assms(1,2), of r r'] by (simp add: str_field_def)

lemma int_field_delimited:
  assumes "int_field k i @ c # r = int_field k j @ d # r'" and "\<not> digit c" "\<not> digit d"
  shows "i = j \<and> c # r = d # r'"
  using assms(1) FormatInt_delimited[OF _ assms(2,3), of i r j r'] by (simp add: int_field_def)

text \<open>A text that does not go on with a field whose name starts with \<open>k\<close>.\<close>

definition next_not :: "char \<Rightarrow> string \<Rightarrow> bool" where
  "next_not k x \<longleftrightarrow> (\<forall>r. x \<noteq> CHR '','' # dquote # k # r)"

lemma next_not_simps [simp]:
  "next_not k (CHR '','' # dquote # c # r) \<longleftrightarrow> c \<noteq> k"
  "next_not k (CHR '','' # str_field (c # cs) v @ r) \<longleftrightarrow> c \<noteq> k"
  "next_not k (CHR '','' # int_field (c # cs) i @ r) \<longleftrightarrow> c \<noteq> k"
  "next_not k ''}''"
  by (auto simp: next_not_def str_field_def int_field_def)

lemma next_not_opt_str [simp]:
  "c \<noteq> k \<Longrightarrow> next_not k r \<Longrightarrow> next_not k (opt_str (c # cs) v @ r)"
  by (simp add: opt_str_def)

lemma next_not_opt_int [simp]:
  "c \<noteq> k \<Longrightarrow> next_not k r \<Longrightarrow> next_not k (opt_int (c # cs) v @ r)"
  by (simp add: opt_int_def)

lemma opt_str_delimited:
  assumes "ascii v" "ascii w" and "next_not c r" "next_not c r'"
    and "opt_str (c # cs) v @ r = opt_str (c # cs) w @ r'"
  shows "v = w \<and> r = r'"
proof -
  have no: "CHR '','' # str_field (c # cs) x @ y \<noteq> z" if "next_not c z" for x y z
    using that by (auto simp: next_not_def str_field_def)
  consider "v = []" "w = []" | "v = []" "w \<noteq> []" | "v \<noteq> []" "w = []" | "v \<noteq> []" "w \<noteq> []" by blast
  then show ?thesis
  proof cases
    case 1
    with assms(5) show ?thesis by (simp add: opt_str_def)
  next
    case 2
    with assms(5) have "CHR '','' # str_field (c # cs) w @ r' = r" by (simp add: opt_str_def)
    with no[OF assms(3)] show ?thesis by blast
  next
    case 3
    with assms(5) have "CHR '','' # str_field (c # cs) v @ r = r'" by (simp add: opt_str_def)
    with no[OF assms(4)] show ?thesis by blast
  next
    case 4
    with assms(5) str_field_delimited[OF assms(1,2), of "c # cs" r r'] show ?thesis
      by (simp add: opt_str_def)
  qed
qed

text \<open>The text after the last two integers starts with a comma or the closing brace.\<close>

lemma tail_hd:
  obtains c r where "opt_str k h @ opt_int k' i @ ''}'' = c # r" "\<not> digit c"
proof -
  have "\<not> digit (CHR '','')" "\<not> digit (CHR ''}'')" by (simp_all add: digit_def)
  then show thesis using that by (cases "h = []"; cases "i = 0") (simp_all add: opt_str_def opt_int_def)
qed

lemma opt_int_end:
  assumes "opt_int k i @ ''}'' = opt_int k j @ ''}''"
  shows "i = j"
proof (cases "i = 0 \<or> j = 0")
  case True
  with assms show ?thesis by (auto simp: opt_int_def int_field_def split: if_splits)
next
  case False
  have "\<not> digit (CHR ''}'')" by (simp add: digit_def)
  with False assms int_field_delimited[of k i "CHR ''}''" "[]" j "CHR ''}''" "[]"] show ?thesis
    by (simp add: opt_int_def)
qed

section \<open>Binding\<close>

definition ascii_receipt :: "ActionReceipt \<Rightarrow> bool" where
  "ascii_receipt r \<longleftrightarrow> list_all ascii [rTransactionId r, rTransactionHash r, rEventType r,
     rActionType r, rResultSummary r, rStateRootBefore r, rStateRootAfter r, rSignerKeyId r]"

lemma enum_num_inj:
  "status_num a = status_num b \<longleftrightarrow> a = b" "l2_num c = l2_num d \<longleftrightarrow> c = d" "l3_num e = l3_num f \<longleftrightarrow> e = f"
proof -
  show "status_num a = status_num b \<longleftrightarrow> a = b" by (cases a; cases b) simp_all
  show "l2_num c = l2_num d \<longleftrightarrow> c = d" by (cases c; cases d) simp_all
  show "l3_num e = l3_num f \<longleftrightarrow> e = f" by (cases e; cases f) simp_all
qed

lemma index_of_inj: "x \<in> set l \<Longrightarrow> y \<in> set l \<Longrightarrow> index_of x l = index_of y l \<Longrightarrow> x = y"
  by (induction l) (auto split: if_splits)

lemma failure_num_inj: "failure_num a = failure_num b \<longleftrightarrow> a = b"
proof -
  have "x \<in> set failure_codes" for x by (cases x) (simp_all add: failure_codes_def)
  then show ?thesis by (auto simp: failure_num_def dest: index_of_inj)
qed

lemma canonicalReceipt_inj:
  assumes a: "ascii_receipt r" "ascii_receipt r'" "ascii h" "ascii h'"
    and eq: "canonicalReceipt r h = canonicalReceipt r' h'"
  shows "h = h' \<and> rTransactionId r = rTransactionId r' \<and> rTransactionHash r = rTransactionHash r' \<and>
    rEventType r = rEventType r' \<and> rActionType r = rActionType r' \<and> rStatus r = rStatus r' \<and>
    rResultSummary r = rResultSummary r' \<and> rStateRootBefore r = rStateRootBefore r' \<and>
    rStateRootAfter r = rStateRootAfter r' \<and> rExecutedAtUnixMs r = rExecutedAtUnixMs r' \<and>
    rSignerKeyId r = rSignerKeyId r' \<and> rL2Status r = rL2Status r' \<and> rL3Status r = rL3Status r' \<and>
    rFailureCode r = rFailureCode r'"
proof -
  have nd: "\<not> digit (CHR '','')" by (simp add: digit_def)
  have A: "ascii (rTransactionId q)" "ascii (rTransactionHash q)" "ascii (rEventType q)" "ascii (rActionType q)"
    "ascii (rResultSummary q)" "ascii (rStateRootBefore q)" "ascii (rStateRootAfter q)" "ascii (rSignerKeyId q)"
    if "ascii_receipt q" for q
    using that by (simp_all add: ascii_receipt_def)
  note ar = A[OF a(1)] and ar' = A[OF a(2)]
  note clean = append_Cons append_Nil list.inject simp_thms
  note s1 = str_field_delimited[OF ar(1) ar'(1) eq[unfolded canonicalReceipt_def clean]]
  note s2 = str_field_delimited[OF ar(2) ar'(2) s1[THEN conjunct2, unfolded clean]]
  note s3 = opt_str_delimited[OF ar(3) ar'(3) _ _ s2[THEN conjunct2], simplified]
  note s4 = opt_str_delimited[OF ar(4) ar'(4) _ _ s3[THEN conjunct2], simplified]
  note s5 = int_field_delimited[OF s4[THEN conjunct2, unfolded clean] nd nd]
  note s6 = str_field_delimited[OF ar(5) ar'(5) s5[THEN conjunct2, unfolded clean]]
  note s7 = str_field_delimited[OF ar(6) ar'(6) s6[THEN conjunct2, unfolded clean]]
  note s8 = str_field_delimited[OF ar(7) ar'(7) s7[THEN conjunct2, unfolded clean]]
  note s9 = int_field_delimited[OF s8[THEN conjunct2, unfolded clean] nd nd]
  note s10 = str_field_delimited[OF ar(8) ar'(8) s9[THEN conjunct2, unfolded clean]]
  note s11 = int_field_delimited[OF s10[THEN conjunct2, unfolded clean] nd nd]
  let ?T = "\<lambda>r h. opt_str ''deterministic_stage_evidence_hash'' h @ opt_int ''failure_code'' (failure_num (rFailureCode r)) @ ''}''"
  obtain c t where t: "?T r h = c # t" "\<not> digit c" by (rule tail_hd)
  obtain c' t' where t': "?T r' h' = c' # t'" "\<not> digit c'" by (rule tail_hd)
  have "int_field ''l3_status'' (l3_num (rL3Status r)) @ ?T r h =
      int_field ''l3_status'' (l3_num (rL3Status r')) @ ?T r' h'"
    using s11[THEN conjunct2] by simp
  then have s12: "l3_num (rL3Status r) = l3_num (rL3Status r') \<and> ?T r h = ?T r' h'"
    unfolding t(1) t'(1) by (rule int_field_delimited[OF _ t(2) t'(2)])
  note s13 = opt_str_delimited[OF a(3,4) _ _ s12[THEN conjunct2], simplified]
  have "failure_num (rFailureCode r) = failure_num (rFailureCode r')"
    by (rule opt_int_end[of "''failure_code''"]) (use s13 in simp)
  with s1 s2 s3 s4 s5 s6 s7 s8 s9 s10 s11 s12 s13 show ?thesis
    by (simp add: enum_num_inj failure_num_inj)
qed

lemma lp64_nonempty [simp]: "lp64 x \<noteq> []"
proof
  assume "lp64 x = []"
  then have "length (lp64 x) = 0" by simp
  then show False by (simp add: lp64_def)
qed

lemma concat_lp64_inj:
  assumes "concat (map lp64 xs) = concat (map lp64 ys)"
    and "\<forall>x\<in>set xs. length x < 2 ^ 64" and "\<forall>y\<in>set ys. length y < 2 ^ 64"
  shows "xs = ys"
  using assms
proof (induction xs arbitrary: ys)
  case Nil
  then show ?case by (cases ys) simp_all
next
  case (Cons x xs)
  show ?case
  proof (cases ys)
    case Nil
    with Cons.prems(1) show ?thesis by simp
  next
    case ys: (Cons y ys')
    have "lp64 x @ concat (map lp64 xs) = lp64 y @ concat (map lp64 ys')" using Cons.prems(1) ys by simp
    from self_delimitingD[OF self_delimiting_lp64 _ _ this] Cons.prems(2,3) ys
    have "x = y" "concat (map lp64 xs) = concat (map lp64 ys')" by simp_all
    with Cons.IH[of ys'] Cons.prems(2,3) ys show ?thesis by simp
  qed
qed

lemma collect_results_Inr: "collect_results rs = Inr ys \<longleftrightarrow> rs = map Inr ys"
proof (induction rs arbitrary: ys)
  case Nil
  then show ?case by auto
next
  case (Cons r rs)
  then show ?case by (cases r; cases ys) (auto split: sum.splits)
qed

lemma ascii_hex: "ascii (hex_EncodeToString bs)"
proof (induction bs)
  case (Cons b bs)
  have "ascii_char (hex_digit n)" if "n < 16" for n
    using that by (auto simp: hex_digit_def ascii_char_def)
  moreover have "(of_char b :: nat) div 16 < 16" "(of_char b :: nat) mod 16 < 16"
    using nat_of_char_less_256[of b] by (simp_all add: div_less_iff_less_mult)
  ultimately show ?case using Cons by simp
qed simp

text \<open>The deterministic encoding of stages, as protobuf documents it: distinct messages have
  distinct encodings, none longer than a Go slice can be.\<close>

definition faithful_encoding :: "stage_marshal \<Rightarrow> bool" where
  "faithful_encoding marshal \<longleftrightarrow>
     (\<forall>s t e. marshal s = Inr e \<and> marshal t = Inr e \<longrightarrow> s = t) \<and>
     (\<forall>s e. marshal s = Inr e \<longrightarrow> length e < 2 ^ 64)"

lemma map_Inr_inj:
  assumes "faithful_encoding marshal" and "map marshal ss = map Inr es" and "map marshal ts = map Inr es"
  shows "ss = ts"
  using assms(2,3)
proof (induction ss arbitrary: ts es)
  case Nil
  then show ?case by simp
next
  case (Cons s ss)
  then obtain e es' where es: "es = e # es'" "marshal s = Inr e" "map marshal ss = map Inr es'" by auto
  then obtain t ts' where ts: "ts = t # ts'" "marshal t = Inr e" "map marshal ts' = map Inr es'"
    using Cons.prems(2) by (cases ts) auto
  with es Cons.IH[of es' ts'] assms(1) show ?case by (auto simp: faithful_encoding_def)
qed

lemma stage_hash_inj:
  assumes C: "collision_free C" "\<And>m. sha256 C m \<noteq> []" and F: "faithful_encoding marshal"
    and h: "deterministicStageEvidenceHash C marshal ss = Inr h" "deterministicStageEvidenceHash C marshal ts = Inr h"
  shows "ss = ts"
proof -
  have ne: "sha256_hex C m \<noteq> []" for m using C(2)[of m] by (cases "sha256 C m") (simp_all add: sha256_hex_def)
  show ?thesis
  proof (cases "ss = [] \<or> ts = []")
    case True
    with h ne show ?thesis by (auto simp: deterministicStageEvidenceHash_def split: if_splits sum.splits)
  next
    case False
    with h obtain es fs where es: "map marshal ss = map Inr es" "map marshal ts = map Inr fs"
      "sha256_hex C (concat (map lp64 es)) = sha256_hex C (concat (map lp64 fs))"
      by (auto simp: deterministicStageEvidenceHash_def collect_results_Inr split: sum.splits)
    have len: "\<forall>x\<in>set xs. length x < 2 ^ 64" if m: "map marshal qs = map Inr xs" for qs xs
    proof
      fix x assume "x \<in> set xs"
      then have "Inr x \<in> set (map marshal qs)" unfolding m by simp
      then obtain q where "marshal q = Inr x" by auto
      with F show "length x < 2 ^ 64" by (auto simp: faithful_encoding_def)
    qed
    have "concat (map lp64 es) = concat (map lp64 fs)"
      using es(3) C(1) by (simp add: sha256_hex_def hex_encode_inj collision_free_def inj_eq)
    then have "es = fs" by (rule concat_lp64_inj) (use len es(1,2) in blast)+
    with map_Inr_inj[OF F es(1)] es(2) show ?thesis by simp
  qed
qed

lemma stage_hash_ascii: "deterministicStageEvidenceHash C marshal ss = Inr h \<Longrightarrow> ascii h"
  by (auto simp: deterministicStageEvidenceHash_def sha256_hex_def ascii_hex split: if_splits sum.splits)


section \<open>Signing and verifying agree\<close>

lemma CanonicalizeActionReceipt_unsigned [simp]:
  "CanonicalizeActionReceipt C marshal (r\<lparr>rSignature := s\<rparr>) = CanonicalizeActionReceipt C marshal r"
  "CanonicalizeActionReceipt C marshal (r\<lparr>rFinalPersistenceAttestation := a\<rparr>) = CanonicalizeActionReceipt C marshal r"
  by (simp_all add: CanonicalizeActionReceipt_def canonicalReceipt_def cong: sum.case_cong)

lemma VerifyActionReceiptSignature_Inr:
  "VerifyActionReceiptSignature C marshal (Some r) pk = Inr u \<longleftrightarrow>
     rSignature r \<noteq> [] \<and> length pk = PublicKeySize \<and>
     (\<exists>sig payload. hex_DecodeString (rSignature r) = Some sig \<and>
        CanonicalizeActionReceipt C marshal r = Inr payload \<and> ed_verify C pk payload sig)"
  by (auto simp: VerifyActionReceiptSignature_def split: option.splits sum.splits if_splits)

lemma VerifyReceiptPersistenceAttestation_Inr:
  "VerifyReceiptPersistenceAttestation C (Some r) pk = Inr u \<longleftrightarrow>
     (\<exists>a sig. rFinalPersistenceAttestation r = Some a \<and> rTransactionId r \<noteq> [] \<and>
        paTransactionId a = rTransactionId r \<and> paAuditRecordId a = rTransactionId r \<and>
        rSignerKeyId r \<noteq> [] \<and> paSignerKeyId a = rSignerKeyId r \<and> 0 < paPersistedAtUnixMs a \<and>
        rSignature r \<noteq> [] \<and> paReceiptSignatureDigest a = SignatureDigest C [rSignature r] \<and>
        hex_DecodeString (paSignature a) = Some sig \<and> length pk = PublicKeySize \<and>
        ed_verify C pk (CanonicalizeReceiptPersistenceAttestation a) sig)"
  by (auto simp: VerifyReceiptPersistenceAttestation_def split: option.splits if_splits)

lemma SignatureDigest_single:
  assumes "collision_free C" and "SignatureDigest C [s] = SignatureDigest C [t]"
    and "s \<noteq> []" "t \<noteq> []" and "length s < 2 ^ 32" "length t < 2 ^ 32"
  shows "s = t"
proof -
  have "be32 1 @ lp32 s = be32 1 @ lp32 t"
    using assms(1-4) by (simp add: SignatureDigest_def sha256_hex_def hex_encode_inj collision_free_def inj_eq)
  then have "lp32 s @ [] = lp32 t @ []" by simp
  from self_delimitingD[OF self_delimiting_lp32 _ _ this] assms(5,6) show ?thesis by simp
qed

text \<open>A persistence attestation vouches for one receipt. If the same attestation verifies on
  two receipts, they are records of the same transaction by the same signer and carry the same
  receipt signature, so an attestation cannot be moved from the receipt that was stored to one
  that was not.\<close>

theorem persistence_attestation_not_transferable:
  assumes "collision_free C"
    and "VerifyReceiptPersistenceAttestation C (Some r) pk = Inr ()"
    and "VerifyReceiptPersistenceAttestation C (Some r') pk' = Inr ()"
    and "rFinalPersistenceAttestation r = rFinalPersistenceAttestation r'"
    and "length (rSignature r) < 2 ^ 32" and "length (rSignature r') < 2 ^ 32"
  shows "rSignature r = rSignature r' \<and> rTransactionId r = rTransactionId r' \<and> rSignerKeyId r = rSignerKeyId r'"
  using assms SignatureDigest_single[OF assms(1), of "rSignature r" "rSignature r'"]
  by (auto simp: VerifyReceiptPersistenceAttestation_Inr)

section \<open>Concrete receipts\<close>

definition sample_receipt :: ActionReceipt where
  "sample_receipt = \<lparr>rTransactionId = ''tx-1'', rTransactionHash = ''h'', rStatus = STATUS_COMPLETED,
     rResultSummary = ''completed'', rStateRootBefore = ''a'', rStateRootAfter = ''b'',
     rExecutedAtUnixMs = 1, rSignerKeyId = ''k'', rSignature = [], rL2Status = L2_NOT_REQUIRED,
     rL3Status = L3_NOT_REQUIRED, rStages = [], rFinalPersistenceAttestation = None,
     rFailureCode = FC_UNSPECIFIED, rEventType = [], rActionType = []\<rparr>"

text \<open>A hash with non-empty digests and an encoding that numbers nothing: no stage encodes.\<close>

definition marked_crypto :: crypto where
  "marked_crypto = toy_crypto\<lparr>sha256 := (\<lambda>m. CHR ''#'' # m)\<rparr>"

lemma marked_crypto_facts:
  "collision_free marked_crypto" "sha256 marked_crypto m \<noteq> []" "sig64 marked_crypto" "key_pair marked_crypto k k"
  by (auto simp: marked_crypto_def collision_free_def inj_def sig64_def key_pair_def toy_crypto_def
      toy_sign_def min_def)


definition attested_receipt :: ActionReceipt where
  "attested_receipt =
     (let a = \<lparr>paTransactionId = ''tx-1'',
                paReceiptSignatureDigest = SignatureDigest marked_crypto [''ab''],
                paPersistedAtUnixMs = 1, paAuditRecordId = ''tx-1'', paSignerKeyId = ''k'', paSignature = []\<rparr>
      in sample_receipt\<lparr>rSignature := ''ab'', rFinalPersistenceAttestation :=
           Some (a\<lparr>paSignature := hex_EncodeToString (ed_sign marked_crypto (replicate 32 (CHR ''k''))
             (CanonicalizeReceiptPersistenceAttestation a))\<rparr>)\<rparr>)"

lemma attested_receipt_verifies:
  "VerifyReceiptPersistenceAttestation marked_crypto (Some attested_receipt) (replicate 32 (CHR ''k'')) = Inr ()"
  using marked_crypto_facts(4)[of "replicate 32 (CHR ''k'')"]
  by (simp add: VerifyReceiptPersistenceAttestation_Inr attested_receipt_def Let_def sample_receipt_def
      key_pair_def CanonicalizeReceiptPersistenceAttestation_def)

theorem persistence_attestation_not_transferable_witness:
  "VerifyReceiptPersistenceAttestation marked_crypto (Some (attested_receipt\<lparr>rSignature := ''cd''\<rparr>))
     (replicate 32 (CHR ''k'')) \<noteq> Inr ()"
  using persistence_attestation_not_transferable[OF marked_crypto_facts(1) attested_receipt_verifies,
      of "attested_receipt\<lparr>rSignature := ''cd''\<rparr>" "replicate 32 (CHR ''k'')"]
  by (auto simp: attested_receipt_def Let_def sample_receipt_def)

end
