(* ===== verification/Sqlite_Tx.thy ===== *)
theory Sqlite_Tx
  imports Gov_Errors
begin

text \<open>
  \<open>services/sqliteutil/db.go\<close>: statements and transactions with a bounded number of
  retries while SQLite is busy. A database is a state \<open>'s\<close>; what a statement, a
  \<open>BEGIN\<close>, a \<open>COMMIT\<close> or the return of a connection answers at each attempt is the
  environment. \<open>show\<close> is \<open>err.Error()\<close>. A failed attempt leaves the database as it was:
  SQLite undoes a transaction that is rolled back or whose \<open>COMMIT\<close> fails. The sleeps
  between attempts are not modelled.
\<close>

section \<open>Busy errors\<close>

text \<open>The loop of \<open>findSubstring\<close> runs over \<open>i \<le> len(s) - len(substr)\<close>, an integer
  difference; \<open>contains\<close> calls it only with a longer \<open>s\<close>.\<close>

definition findSubstring :: "string \<Rightarrow> string \<Rightarrow> bool" where
  "findSubstring s substr =
     list_ex (\<lambda>i. take (length substr) (drop i s) = substr) [0..<Suc (length s) - length substr]"

definition contains :: "string \<Rightarrow> string \<Rightarrow> bool" where
  "contains s substr \<longleftrightarrow>
     length s \<ge> length substr \<and> (s = substr \<or> length s > length substr \<and> findSubstring s substr)"

definition isBusyError :: "(gov_error \<Rightarrow> string) \<Rightarrow> gov_error \<Rightarrow> bool" where
  "isBusyError show err \<longleftrightarrow>
     contains (show err) ''database is locked'' \<or> contains (show err) ''SQLITE_BUSY''"

definition IsUniqueConstraintError :: "(gov_error \<Rightarrow> string) \<Rightarrow> gov_error \<Rightarrow> bool" where
  "IsUniqueConstraintError show err \<longleftrightarrow>
     errors_Is err (Sys ErrAlreadyExists) \<or> contains (show err) ''UNIQUE constraint failed''"

section \<open>Statements\<close>

text \<open>The loop of \<open>ExecWithRetry\<close> and \<open>QueryWithRetry\<close> from attempt \<open>i\<close> with
  \<open>k\<close> attempts left; \<open>err\<close> is the error of the previous attempt, \<open>None\<close> for the nil
  error of a loop that never ran.\<close>

fun retry_loop ::
    "(gov_error \<Rightarrow> string) \<Rightarrow> nat \<Rightarrow> nat \<Rightarrow> (nat \<Rightarrow> 's \<Rightarrow> 'a result \<times> 's) \<Rightarrow> string \<Rightarrow> nat \<Rightarrow> gov_error option \<Rightarrow>
     's \<Rightarrow> 'a result \<times> 's" where
  "retry_loop show i 0 stmt msg maxRetries err s =
     (Inl (Errorf msg [FormatInt (int maxRetries)] (case err of None \<Rightarrow> [] | Some e \<Rightarrow> [e])), s)"
| "retry_loop show i (Suc k) stmt msg maxRetries err s =
     (case stmt i s of
        (Inr a, s') \<Rightarrow> (Inr a, s')
      | (Inl e, _) \<Rightarrow>
          if isBusyError show e then retry_loop show (Suc i) k stmt msg maxRetries (Some e) s
          else (Inl e, s))"

definition ExecWithRetry ::
    "(gov_error \<Rightarrow> string) \<Rightarrow> nat \<Rightarrow> (nat \<Rightarrow> 's \<Rightarrow> 'a result \<times> 's) \<Rightarrow> 's \<Rightarrow> 'a result \<times> 's" where
  "ExecWithRetry show maxRetries stmt s =
     retry_loop show 0 maxRetries stmt ''sqliteutil: exec failed after %d retries: %w'' maxRetries None s"

text \<open>A query reads the state and leaves it alone.\<close>

definition QueryWithRetry ::
    "(gov_error \<Rightarrow> string) \<Rightarrow> nat \<Rightarrow> (nat \<Rightarrow> 's \<Rightarrow> 'a result) \<Rightarrow> 's \<Rightarrow> 'a result" where
  "QueryWithRetry show maxRetries query s =
     fst (retry_loop show 0 maxRetries (\<lambda>i s. (query i s, s))
            ''sqliteutil: query failed after %d retries: %w'' maxRetries None s)"

text \<open>\<open>MaterializeRows\<close>: \<open>scan\<close> reads one raw row, and \<open>rowsErr\<close> is the error
  the cursor reports after the last one.\<close>

definition MaterializeRows ::
    "(gov_error \<Rightarrow> string) \<Rightarrow> nat \<Rightarrow> (nat \<Rightarrow> 's \<Rightarrow> 'r list result) \<Rightarrow> ('r \<Rightarrow> 'a result) \<Rightarrow> gov_error option \<Rightarrow>
     's \<Rightarrow> 'a list result" where
  "MaterializeRows show maxRetries query scan rowsErr s =
     (case QueryWithRetry show maxRetries query s of
        Inl err \<Rightarrow> Inl err
      | Inr rows \<Rightarrow>
         (case collect_results (map scan rows) of
            Inl err \<Rightarrow> Inl err
          | Inr results \<Rightarrow> (case rowsErr of Some err \<Rightarrow> Inl err | None \<Rightarrow> Inr results)))"

section \<open>Transactions\<close>

record tx_env =
  txConn :: "gov_error option"
  txBegin :: "gov_error option"
  txCommit :: "gov_error option"
  txRollback :: "gov_error option"
  txClose :: "gov_error option"

definition errors_Join :: "gov_error \<Rightarrow> gov_error \<Rightarrow> gov_error" where
  "errors_Join e e' = Errorf ''errors.Join'' [] [e, e']"

definition join_opt :: "string \<Rightarrow> gov_error option \<Rightarrow> gov_error \<Rightarrow> gov_error" where
  "join_opt msg extra err = (case extra of None \<Rightarrow> err | Some e \<Rightarrow> errors_Join err (Errorf msg [] [e]))"

text \<open>What one attempt makes of the loop: it ends it with an answer, or asks for another
  attempt and leaves its error for the last message.\<close>

datatype 'a attempt = Done "'a result" | Again gov_error

definition tx_attempt ::
    "(gov_error \<Rightarrow> string) \<Rightarrow> tx_env \<Rightarrow> ('s \<Rightarrow> 'a result \<times> 's) \<Rightarrow> 's \<Rightarrow> 'a attempt \<times> 's" where
  "tx_attempt show E fn s =
     (case txBegin E of
        Some err \<Rightarrow>
          (if isBusyError show err then Again err
           else Done (Inl (Errorf ''sqliteutil: begin transaction: %w'' [] [err])), s)
      | None \<Rightarrow>
         (case fn s of
            (Inl e, _) \<Rightarrow>
              (let err = join_opt ''sqliteutil: rollback transaction: %w'' (txRollback E) e in
               (if isBusyError show err then Again err else Done (Inl err), s))
          | (Inr a, s') \<Rightarrow>
             (case txCommit E of
                Some err \<Rightarrow>
                  (if isBusyError show err then Again err
                   else Done (Inl (Errorf ''sqliteutil: commit transaction: %w'' [] [err])), s)
              | None \<Rightarrow> (Done (Inr a), s'))))"

text \<open>The transaction on one connection: a failure to give the connection back after a
  successful \<open>COMMIT\<close> is an error although the work is done.\<close>

definition immediate_attempt ::
    "(gov_error \<Rightarrow> string) \<Rightarrow> tx_env \<Rightarrow> ('s \<Rightarrow> 'a result \<times> 's) \<Rightarrow> 's \<Rightarrow> 'a attempt \<times> 's" where
  "immediate_attempt show E fn s =
     (let close = join_opt ''close transaction connection: %w'' (txClose E) in
      case txConn E of
        Some err \<Rightarrow> (Done (Inl (Errorf ''sqliteutil: acquire transaction connection: %w'' [] [err])), s)
      | None \<Rightarrow>
     (case txBegin E of
        Some e \<Rightarrow>
          (let err = close e in
           (if isBusyError show err then Again err
            else Done (Inl (Errorf ''sqliteutil: begin immediate transaction: %w'' [] [err])), s))
      | None \<Rightarrow>
     (case fn s of
        (Inl e, _) \<Rightarrow>
          (let err = close (join_opt ''rollback transaction: %w'' (txRollback E) e) in
           (if isBusyError show err then Again err else Done (Inl err), s))
      | (Inr a, s') \<Rightarrow>
         (let finish = (\<lambda>err. if isBusyError show err then Again err
                else Done (Inl (Errorf ''sqliteutil: commit immediate transaction: %w'' [] [err]))) in
          case (txCommit E, txClose E) of
            (None, None) \<Rightarrow> (Done (Inr a), s')
          | (None, Some e) \<Rightarrow> (finish (Errorf ''close transaction connection: %w'' [] [e]), s')
          | (Some e, _) \<Rightarrow> (finish (close e), s)))))"

fun tx_loop ::
    "nat \<Rightarrow> nat \<Rightarrow> (nat \<Rightarrow> 's \<Rightarrow> 'a attempt \<times> 's) \<Rightarrow> string \<Rightarrow> nat \<Rightarrow> gov_error option \<Rightarrow> 's \<Rightarrow> 'a result \<times> 's" where
  "tx_loop i 0 attempt msg maxRetries lastErr s =
     (Inl (Errorf msg [FormatInt (int maxRetries)] (case lastErr of None \<Rightarrow> [] | Some e \<Rightarrow> [e])), s)"
| "tx_loop i (Suc k) attempt msg maxRetries lastErr s =
     (case attempt i s of
        (Done r, s') \<Rightarrow> (r, s')
      | (Again err, s') \<Rightarrow> tx_loop (Suc i) k attempt msg maxRetries (Some err) s')"

definition ExecInTxWithRetry ::
    "(gov_error \<Rightarrow> string) \<Rightarrow> nat \<Rightarrow> (nat \<Rightarrow> tx_env) \<Rightarrow> (nat \<Rightarrow> 's \<Rightarrow> 'a result \<times> 's) \<Rightarrow> 's \<Rightarrow> 'a result \<times> 's" where
  "ExecInTxWithRetry show maxRetries E fn s =
     tx_loop 0 maxRetries (\<lambda>i. tx_attempt show (E i) (fn i))
       ''sqliteutil: transaction failed after %d retries: %w'' maxRetries None s"

definition ExecInImmediateTxWithRetry ::
    "(gov_error \<Rightarrow> string) \<Rightarrow> nat \<Rightarrow> (nat \<Rightarrow> tx_env) \<Rightarrow> (nat \<Rightarrow> 's \<Rightarrow> 'a result \<times> 's) \<Rightarrow> 's \<Rightarrow> 'a result \<times> 's" where
  "ExecInImmediateTxWithRetry show maxRetries E fn s =
     tx_loop 0 maxRetries (\<lambda>i. immediate_attempt show (E i) (fn i))
       ''sqliteutil: immediate transaction failed after %d retries: %w'' maxRetries None s"

section \<open>What the retries guarantee\<close>

lemma contains_iff: "contains s substr \<longleftrightarrow> (\<exists>a b. s = a @ substr @ b)"
proof
  assume "contains s substr"
  then show "\<exists>a b. s = a @ substr @ b"
  proof (cases "s = substr")
    case True
    then have "s = [] @ substr @ []" by simp
    then show ?thesis by blast
  next
    case False
    with \<open>contains s substr\<close> obtain i where "take (length substr) (drop i s) = substr"
      by (auto simp: contains_def findSubstring_def list_ex_iff)
    then have "s = take i s @ substr @ drop (length substr) (drop i s)"
      by (metis append_take_drop_id)
    then show ?thesis by blast
  qed
next
  assume "\<exists>a b. s = a @ substr @ b"
  then obtain a b where s: "s = a @ substr @ b" by blast
  show "contains s substr"
  proof (cases "a = [] \<and> b = []")
    case False
    then have "length substr < length s" using s by auto
    moreover have "length a \<in> set [0..<Suc (length s) - length substr]" using s by auto
    moreover have "take (length substr) (drop (length a) s) = substr" using s by simp
    ultimately show ?thesis unfolding contains_def findSubstring_def list_ex_iff by auto
  qed (simp add: s contains_def)
qed

text \<open>The shape of a loop whose unfinished attempts change nothing.\<close>

lemma tx_loop_Inr_iff:
  assumes stay: "\<And>i err s'. attempt i s = (Again err, s') \<Longrightarrow> s' = s"
  shows "tx_loop i k attempt msg m lastErr s = (Inr a, s') \<longleftrightarrow>
    (\<exists>j<k. (\<forall>j'<j. \<exists>e. attempt (i + j') s = (Again e, s)) \<and> attempt (i + j) s = (Done (Inr a), s'))"
proof (induction k arbitrary: i lastErr)
  case (Suc k)
  obtain r t where at: "attempt i s = (r, t)" by (cases "attempt i s")
  show ?case
  proof (cases r)
    case (Done r')
    have "j = 0" if "\<forall>j'<j. \<exists>e. attempt (i + j') s = (Again e, s)" for j
      using that at Done by (cases j) auto
    with at Done show ?thesis by (auto 4 3)
  next
    case (Again e)
    have t: "t = s" using stay[of i e t] at Again by simp
    have "tx_loop i (Suc k) attempt msg m lastErr s = tx_loop (Suc i) k attempt msg m (Some e) s"
      using at Again t by simp
    also have "\<dots> = (Inr a, s') \<longleftrightarrow>
        (\<exists>j<k. (\<forall>j'<j. \<exists>e. attempt (i + Suc j') s = (Again e, s)) \<and> attempt (i + Suc j) s = (Done (Inr a), s'))"
      using Suc.IH[of "Suc i" "Some e"] by simp
    also have "\<dots> \<longleftrightarrow> (\<exists>j<Suc k. (\<forall>j'<j. \<exists>e. attempt (i + j') s = (Again e, s)) \<and>
        attempt (i + j) s = (Done (Inr a), s'))"
      unfolding Ex_less_Suc2 All_less_Suc2 using at Again t by auto
    finally show ?thesis .
  qed
qed simp

lemma tx_loop_Inl:
  assumes "\<And>i r s'. attempt i s = (r, s') \<Longrightarrow> s' \<noteq> s \<Longrightarrow> \<exists>a. r = Done (Inr a)"
    and "tx_loop i k attempt msg m lastErr s = (Inl err, s')"
  shows "s' = s"
  using assms(2)
proof (induction k arbitrary: i lastErr)
  case (Suc k)
  obtain r t where at: "attempt i s = (r, t)" by (cases "attempt i s")
  from assms(1)[OF at] Suc at show ?case by (cases r) (auto split: if_splits)
qed simp

lemma tx_loop_invariant:
  assumes "\<And>i s. I s \<Longrightarrow> I (snd (attempt i s))" and "I s"
  shows "I (snd (tx_loop i k attempt msg m lastErr s))"
  using assms(2)
proof (induction k arbitrary: i lastErr s)
  case (Suc k)
  from assms(1)[OF Suc.prems] Suc.IH Suc.prems show ?case
    by (auto split: prod.splits attempt.splits simp: prod_eq_iff)
qed simp

lemma tx_attempt_Done_Inr:
  "tx_attempt show E fn s = (Done (Inr a), s') \<longleftrightarrow>
     fn s = (Inr a, s') \<and> txBegin E = None \<and> txCommit E = None"
  by (auto simp: tx_attempt_def Let_def split: option.splits sum.splits prod.splits if_splits)

lemma tx_attempt_change:
  assumes "tx_attempt show E fn s = (r, s')" and "s' \<noteq> s"
  shows "\<exists>a. r = Done (Inr a)"
  using assms by (auto simp: tx_attempt_def Let_def split: option.splits sum.splits prod.splits if_splits)

lemma immediate_attempt_invariant:
  assumes "\<And>a s'. fn s = (Inr a, s') \<Longrightarrow> I s'" and "I s"
  shows "I (snd (immediate_attempt show E fn s))"
  using assms
  by (auto simp: immediate_attempt_def Let_def split: option.splits sum.splits prod.splits if_splits)

lemma ExecInImmediateTxWithRetry_invariant:
  assumes "\<And>i s a s'. I s \<Longrightarrow> fn i s = (Inr a, s') \<Longrightarrow> I s'" and "I s"
  shows "I (snd (ExecInImmediateTxWithRetry show n E fn s))"
  unfolding ExecInImmediateTxWithRetry_def
  by (rule tx_loop_invariant[where I = I])
    (use assms in \<open>auto intro: immediate_attempt_invariant[where I = I]\<close>)

lemma ExecInImmediateTxWithRetry_Inr:
  assumes "ExecInImmediateTxWithRetry show n E fn s = (Inr a, s')"
  shows "\<exists>i s0. fn i s0 = (Inr a, s')"
proof -
  have "tx_loop i k (\<lambda>i. immediate_attempt show (E i) (fn i)) msg m l s0 = (Inr a, s') \<Longrightarrow>
      \<exists>i s0. fn i s0 = (Inr a, s')" for i k msg m l s0
  proof (induction k arbitrary: i l s0)
    case (Suc k)
    obtain r t where at: "immediate_attempt show (E i) (fn i) s0 = (r, t)" by (cases "immediate_attempt show (E i) (fn i) s0")
    show ?case
    proof (cases r)
      case (Done r')
      with Suc.prems at have "immediate_attempt show (E i) (fn i) s0 = (Done (Inr a), s')" by simp
      then have "fn i s0 = (Inr a, s')"
        by (auto simp: immediate_attempt_def Let_def split: option.splits sum.splits prod.splits if_splits)
      then show ?thesis by blast
    next
      case (Again e)
      with Suc.prems at Suc.IH show ?thesis by simp
    qed
  qed simp
  with assms show ?thesis unfolding ExecInImmediateTxWithRetry_def by blast
qed

text \<open>While every connection is returned without an error, the immediate transaction is atomic
  as well.\<close>

lemma immediate_attempt_change:
  assumes "txClose E = None" and "immediate_attempt show E fn s = (r, s')" and "s' \<noteq> s"
  shows "\<exists>a. r = Done (Inr a)"
  using assms
  by (auto simp: immediate_attempt_def Let_def split: option.splits sum.splits prod.splits if_splits)

lemma immediate_attempt_Done_Inr:
  "immediate_attempt show E fn s = (Done (Inr a), s') \<Longrightarrow> fn s = (Inr a, s')"
  by (auto simp: immediate_attempt_def Let_def split: option.splits sum.splits prod.splits if_splits)

lemma ExecInImmediateTxWithRetry_atomic:
  assumes "\<And>i. txClose (E i) = None" and "ExecInImmediateTxWithRetry show n E fn s = (r, s')"
  shows "(\<exists>err. r = Inl err) \<and> s' = s \<or> (\<exists>i<n. \<exists>a. r = Inr a \<and> fn i s = (Inr a, s'))"
proof (cases r)
  case (Inl err)
  from assms(2) have "s' = s" unfolding Inl ExecInImmediateTxWithRetry_def
    by (rule tx_loop_Inl[rotated]) (rule immediate_attempt_change[OF assms(1)])
  with Inl show ?thesis by blast
next
  case (Inr a)
  have stay: "s' = s" if "immediate_attempt show (E i) (fn i) s = (Again err, s')" for i err s'
    using immediate_attempt_change[OF assms(1) that] by blast
  from assms(2) obtain i where i: "i < n" "immediate_attempt show (E i) (fn i) s = (Done (Inr a), s')"
    using tx_loop_Inr_iff[of "\<lambda>i. immediate_attempt show (E i) (fn i)" s 0 n _ _ _ a s', OF stay]
    unfolding Inr ExecInImmediateTxWithRetry_def by auto
  from immediate_attempt_Done_Inr[OF i(2)] i(1) Inr show ?thesis by auto
qed


definition busy_twice :: "nat \<Rightarrow> tx_env" where
  "busy_twice i = \<lparr>txConn = None,
     txBegin = (if i < 2 then Some (Errorf ''database is locked'' [] []) else None),
     txCommit = None, txRollback = None, txClose = None\<rparr>"


end
