(* ===== verification/Hash_Chain.thy ===== *)
theory Hash_Chain
  imports Prelude
begin

text \<open>
  Hash-linked logs, the structure behind the commitment ledger and the audit event chain: every
  entry carries the digest of its predecessor. The locale assumes what a collision-free digest of
  an injective encoding gives, and proves that the head hash then determines the whole history.
\<close>

primrec linked :: "('c \<Rightarrow> string) \<Rightarrow> ('c \<Rightarrow> string) \<Rightarrow> string \<Rightarrow> 'c list \<Rightarrow> bool" where
  "linked digest prior p [] \<longleftrightarrow> True"
| "linked digest prior p (c # cs) \<longleftrightarrow> prior c = p \<and> linked digest prior (digest c) cs"

definition head_hash :: "('c \<Rightarrow> string) \<Rightarrow> string \<Rightarrow> 'c list \<Rightarrow> string" where
  "head_hash digest p cs = (if cs = [] then p else digest (last cs))"

lemma head_hash_simps [simp]:
  "head_hash digest p [] = p" "head_hash digest p (cs @ [c]) = digest c"
  "head_hash digest p (c # cs) = head_hash digest (digest c) cs"
  by (auto simp: head_hash_def)

lemma linked_append [simp]:
  "linked digest prior p (xs @ ys) \<longleftrightarrow>
     linked digest prior p xs \<and> linked digest prior (head_hash digest p xs) ys"
  by (induction xs arbitrary: p) auto

lemma linked_map: "linked digest prior p (map f xs) \<longleftrightarrow> linked (\<lambda>x. digest (f x)) (\<lambda>x. prior (f x)) p xs"
  by (induction xs arbitrary: p) auto

lemma linked_cong:
  "(\<And>x. x \<in> set xs \<Longrightarrow> digest x = digest' x \<and> prior x = prior' x) \<Longrightarrow>
   linked digest prior p xs \<longleftrightarrow> linked digest' prior' p xs"
  by (induction xs arbitrary: p) auto

locale hash_chain =
  fixes digest :: "'c \<Rightarrow> string" and prior :: "'c \<Rightarrow> string" and ok :: "'c \<Rightarrow> bool"
  assumes digest_inj: "ok a \<Longrightarrow> ok b \<Longrightarrow> digest a = digest b \<Longrightarrow> a = b"
begin

lemma same_head_suffix:
  assumes "linked digest prior p xs" and "linked digest prior q ys"
    and "head_hash digest p xs = head_hash digest q ys"
    and "list_all ok xs" and "list_all ok ys" and "length xs \<le> length ys"
  shows "\<exists>zs. ys = zs @ xs \<and> head_hash digest q zs = p"
  using assms
proof (induction xs arbitrary: ys rule: rev_induct)
  case (snoc x xs)
  then obtain y ys' where ys: "ys = ys' @ [y]" by (cases ys rule: rev_cases) auto
  with snoc.prems have xy: "x = y" by (auto intro: digest_inj)
  with snoc.prems ys have "\<exists>zs. ys' = zs @ xs \<and> head_hash digest q zs = p"
    by (intro snoc.IH) auto
  with ys xy show ?case by auto
qed simp

theorem same_head_same_history:
  assumes "linked digest prior p xs" and "linked digest prior p ys"
    and "head_hash digest p xs = head_hash digest p ys"
    and "list_all ok xs" and "list_all ok ys" and "\<And>c. digest c \<noteq> p"
  shows "xs = ys"
proof -
  have none: "zs = []" if "head_hash digest p zs = p" for zs
    using that assms(6) by (auto simp: head_hash_def split: if_splits)
  show ?thesis
  proof (cases "length xs \<le> length ys")
    case True
    from same_head_suffix[OF assms(1-5) True] none show ?thesis by auto
  next
    case False
    with same_head_suffix[OF assms(2,1) assms(3)[symmetric] assms(5,4)] none show ?thesis by auto
  qed
qed

text \<open>The same when the entries are numbered and the numbers fix the length.\<close>

theorem same_head_same_segment:
  assumes "linked digest prior p xs" and "linked digest prior q ys"
    and "head_hash digest p xs = head_hash digest q ys"
    and "list_all ok xs" and "list_all ok ys" and "length xs = length ys"
  shows "xs = ys \<and> p = q"
  using same_head_suffix[OF assms(1-5)] assms(6) by auto

end

end
