(* ===== verification/Audit_Chain.thy ===== *)
theory Audit_Chain
  imports Timestamp_Parse Receipt_Binding Sqlite_Tx Hash_Chain
begin

text \<open>
  \<open>services/storage/audit_chain.go\<close> and \<open>audit_chain_segment.go\<close>: the hash chain
  over the operator's audit events, its pruning with durable checkpoints, its verification on
  the database and on an exported segment. The \<open>events\<close> table is split into the rows with
  and without a sequence number. A \<open>NULL\<close> text column reads as the empty string.
\<close>

section \<open>Events and tables\<close>

record Event =
  evSeq :: int
  evPrevHash :: string
  evContentDigest :: string
  evHash :: string
  evTransactionID :: string
  evOperatorSessionID :: string
  evTimestamp :: time
  evType :: EventType
  evContentText :: string
  evCommandRaw :: string
  evCommandExitCode :: int
  evCommandStdout :: string
  evCommandStderr :: string
  evExecutionDurationMs :: int

text \<open>The zero \<open>Event\<close>, from which the code builds its composite literals.\<close>

definition zero_event :: Event where
  "zero_event = \<lparr>evSeq = 0, evPrevHash = [], evContentDigest = [], evHash = [], evTransactionID = [],
     evOperatorSessionID = [], evTimestamp = 0, evType = [], evContentText = [], evCommandRaw = [],
     evCommandExitCode = 0, evCommandStdout = [], evCommandStderr = [], evExecutionDurationMs = 0\<rparr>"

record event_row =
  erID :: int
  erSeq :: int
  erPrevHash :: string
  erHash :: string
  erType :: EventType
  erSession :: string
  erTimestamp :: string
  erContentDigest :: string
  erTransactionID :: string
  erContentText :: bytes
  erCommandRaw :: string
  erCommandExitCode :: int
  erStdout :: bytes
  erStderr :: bytes
  erExecutionDurationMs :: int
  erStdoutTruncated :: bool
  erStderrTruncated :: bool
  erEncrypted :: bool

record AuditChainCheckpoint =
  cpPrunedThroughSeq :: int
  cpPrunedThroughHash :: string
  cpPrunedCount :: int
  cpCheckpointHash :: string
  cpCreatedAt :: string

record audit_tables =
  chained :: "event_row list"
  unchained :: "event_row list"
  checkpoints :: "AuditChainCheckpoint list"
  nextEventID :: int

text \<open>The errors the statements meet.\<close>

record audit_faults =
  afHead :: "gov_error option"
  afCheckpoint :: "gov_error option"
  afInsert :: "gov_error option"
  afHeadAgain :: "gov_error option"
  afPersist :: "gov_error option"
  afCount :: "gov_error option"
  afTail :: "gov_error option"
  afDelete :: "gov_error option"

definition auditChainGenesisPrevHash :: string where
  "auditChainGenesisPrevHash = replicate 64 (CHR ''0'')"

abbreviation EventPlatformAuditChainCheckpointed :: EventType where
  "EventPlatformAuditChainCheckpointed \<equiv> ''g8e.v1.platform.audit.chain.checkpointed''"

section \<open>Hashes\<close>

text \<open>\<open>json.Marshal\<close> of the content fields, which never fails.\<close>

definition computeEventContentDigest :: "crypto \<Rightarrow> Event \<Rightarrow> string" where
  "computeEventContentDigest C e =
     sha256_hex C (''{'' @ str_field ''content_text'' (evContentText e) @ '','' @
       str_field ''command_raw'' (evCommandRaw e) @ '','' @
       int_field ''command_exit_code'' (evCommandExitCode e) @ '','' @
       str_field ''command_stdout'' (evCommandStdout e) @ '','' @
       str_field ''command_stderr'' (evCommandStderr e) @ '','' @
       int_field ''execution_duration_ms'' (evExecutionDurationMs e) @ ''}'')"

definition computeAuditEventHash ::
    "crypto \<Rightarrow> int \<Rightarrow> string \<Rightarrow> EventType \<Rightarrow> string \<Rightarrow> string \<Rightarrow> string \<Rightarrow> string \<Rightarrow> string" where
  "computeAuditEventHash C seq prevHash eventType sessionID timestamp contentDigest transactionID =
     sha256_hex C (strings_Join [''g8e-audit-v1'', FormatInt seq, prevHash, eventType, sessionID, timestamp,
       contentDigest, transactionID] ''|'')"

definition row_hash :: "crypto \<Rightarrow> event_row \<Rightarrow> string" where
  "row_hash C r = computeAuditEventHash C (erSeq r) (erPrevHash r) (erType r) (erSession r) (erTimestamp r)
     (erContentDigest r) (erTransactionID r)"

section \<open>Appending\<close>

text \<open>\<open>ORDER BY seq\<close>.\<close>

definition by_seq :: "event_row list \<Rightarrow> event_row list" where
  "by_seq rows = sort_key erSeq rows"

definition latest_checkpoint :: "AuditChainCheckpoint list \<Rightarrow> AuditChainCheckpoint option" where
  "latest_checkpoint cps = (if cps = [] then None else Some (last (sort_key cpPrunedThroughSeq cps)))"

definition loadAuditChainHeadConn ::
    "gov_error option \<Rightarrow> gov_error option \<Rightarrow> audit_tables \<Rightarrow> (int \<times> string) result" where
  "loadAuditChainHeadConn headErr checkpointErr db =
     (case headErr of
        Some err \<Rightarrow> Inl (Errorf ''audit chain: select head: %w'' [] [err])
      | None \<Rightarrow>
         if chained db \<noteq> []
         then Inr (erSeq (last (by_seq (chained db))), erHash (last (by_seq (chained db))))
         else case checkpointErr of
           Some err \<Rightarrow> Inl (Errorf ''audit chain: select checkpoint: %w'' [] [err])
         | None \<Rightarrow>
            (case latest_checkpoint (checkpoints db) of
               None \<Rightarrow> Inr (0, auditChainGenesisPrevHash)
             | Some cp \<Rightarrow> Inr (0, cpPrunedThroughHash cp)))"

record PreparedAuditEventInsert =
  pEvent :: Event
  pTimestampStr :: string
  pContentTextBytes :: bytes
  pStdoutBytes :: bytes
  pStderrBytes :: bytes
  pStdoutTruncated :: bool
  pStderrTruncated :: bool
  pEncryptedFlag :: bool
  pStdoutPlaintext :: string
  pStderrPlaintext :: string

definition AppendPreparedAuditEvent ::
    "crypto \<Rightarrow> audit_faults \<Rightarrow> PreparedAuditEventInsert \<Rightarrow> audit_tables \<Rightarrow>
     (int \<times> int \<times> string) result \<times> audit_tables" where
  "AppendPreparedAuditEvent C F p db =
     (case loadAuditChainHeadConn (afHead F) (afCheckpoint F) db of
        Inl err \<Rightarrow> (Inl err, db)
      | Inr (headSeq, headPrevHash) \<Rightarrow>
         (let nextSeq = headSeq + 1;
              digest = computeEventContentDigest C
                ((pEvent p)\<lparr>evCommandStdout := pStdoutPlaintext p, evCommandStderr := pStderrPlaintext p\<rparr>);
              hash = computeAuditEventHash C nextSeq headPrevHash (evType (pEvent p))
                (evOperatorSessionID (pEvent p)) (pTimestampStr p) digest (evTransactionID (pEvent p))
          in case afInsert F of
               Some err \<Rightarrow> (Inl (Errorf ''%w: %w'' [] [Sentinel (Audit ErrAuditStoreRecordEventFailed), err]), db)
             | None \<Rightarrow>
                (Inr (nextEventID db, nextSeq, hash),
                 db\<lparr>nextEventID := nextEventID db + 1, chained := chained db @
                   [\<lparr>erID = nextEventID db, erSeq = nextSeq, erPrevHash = headPrevHash, erHash = hash,
                     erType = evType (pEvent p), erSession = evOperatorSessionID (pEvent p),
                     erTimestamp = pTimestampStr p, erContentDigest = digest,
                     erTransactionID = evTransactionID (pEvent p), erContentText = pContentTextBytes p,
                     erCommandRaw = evCommandRaw (pEvent p), erCommandExitCode = evCommandExitCode (pEvent p),
                     erStdout = pStdoutBytes p, erStderr = pStderrBytes p,
                     erExecutionDurationMs = evExecutionDurationMs (pEvent p),
                     erStdoutTruncated = pStdoutTruncated p, erStderrTruncated = pStderrTruncated p,
                     erEncrypted = pEncryptedFlag p\<rparr>]\<rparr>)))"

section \<open>Checkpoints and pruning\<close>

definition checkpoint_payload :: "int \<Rightarrow> string \<Rightarrow> int \<Rightarrow> string" where
  "checkpoint_payload seq hash n =
     ''{'' @ int_field ''pruned_through_seq'' seq @ '','' @ str_field ''pruned_through_hash'' hash @ '','' @
     int_field ''pruned_count'' n @ ''}''"

definition checkpoint_event :: "time \<Rightarrow> string \<Rightarrow> PreparedAuditEventInsert" where
  "checkpoint_event now payload =
     \<lparr>pEvent = zero_event\<lparr>evTimestamp := now, evType := EventPlatformAuditChainCheckpointed, evContentText := payload\<rparr>,
      pTimestampStr = FormatTimestamp now, pContentTextBytes = payload, pStdoutBytes = [], pStderrBytes = [],
      pStdoutTruncated = False, pStderrTruncated = False, pEncryptedFlag = False,
      pStdoutPlaintext = [], pStderrPlaintext = []\<rparr>"

definition appendAuditChainCheckpoint ::
    "crypto \<Rightarrow> audit_faults \<Rightarrow> time \<Rightarrow> int \<Rightarrow> string \<Rightarrow> int \<Rightarrow> audit_tables \<Rightarrow> string result \<times> audit_tables" where
  "appendAuditChainCheckpoint C F now prunedThroughSeq prunedThroughHash prunedCount db =
     (case AppendPreparedAuditEvent C F
             (checkpoint_event now (checkpoint_payload prunedThroughSeq prunedThroughHash prunedCount)) db of
        (Inl err, db1) \<Rightarrow> (Inl err, db1)
      | (Inr _, db1) \<Rightarrow>
         (case loadAuditChainHeadConn (afHeadAgain F) (afCheckpoint F) db1 of
            Inl err \<Rightarrow> (Inl err, db1)
          | Inr (_, headHash) \<Rightarrow>
             (case afPersist F of
                Some err \<Rightarrow> (Inl (Errorf ''audit chain checkpoint: persist anchor: %w'' [] [err]), db1)
              | None \<Rightarrow>
                 (Inr headHash,
                  db1\<lparr>checkpoints := checkpoints db1 @
                    [\<lparr>cpPrunedThroughSeq = prunedThroughSeq, cpPrunedThroughHash = prunedThroughHash,
                      cpPrunedCount = prunedCount, cpCheckpointHash = headHash,
                      cpCreatedAt = FormatTimestamp now\<rparr>]\<rparr>))))"

definition prunable :: "string \<Rightarrow> event_row \<Rightarrow> bool" where
  "prunable cutoff r \<longleftrightarrow> erTimestamp r < cutoff \<and> erType r \<noteq> EventPlatformAuditChainCheckpointed"

definition prune_tx :: "crypto \<Rightarrow> audit_faults \<Rightarrow> time \<Rightarrow> string \<Rightarrow> audit_tables \<Rightarrow> unit result \<times> audit_tables" where
  "prune_tx C F now cutoff db =
     (case afCount F of
        Some err \<Rightarrow> (Inl (Errorf ''audit chain prune: count: %w'' [] [err]), db)
      | None \<Rightarrow>
         (let old = filter (prunable cutoff) (by_seq (chained db)) in
          if old = [] then (Inr (), db)
          else case afTail F of
            Some err \<Rightarrow> (Inl (Errorf ''audit chain prune: select tail: %w'' [] [err]), db)
          | None \<Rightarrow>
             (case appendAuditChainCheckpoint C F now (erSeq (last old)) (erHash (last old)) (int (length old)) db of
                (Inl err, db1) \<Rightarrow> (Inl err, db1)
              | (Inr _, db1) \<Rightarrow>
                 (case afDelete F of
                    Some err \<Rightarrow> (Inl (Errorf ''audit chain prune: delete: %w'' [] [err]), db1)
                  | None \<Rightarrow>
                     (Inr (), db1\<lparr>chained := filter (\<lambda>r. \<not> prunable cutoff r) (chained db1),
                                unchained := filter (\<lambda>r. \<not> prunable cutoff r) (unchained db1)\<rparr>)))))"

text \<open>\<open>show\<close>, the retry budget and the environment of every attempt, as for the ledger.\<close>

record audit_env =
  aeShow :: "gov_error \<Rightarrow> string"
  aeMaxRetries :: nat
  aeTx :: "nat \<Rightarrow> tx_env"
  aeFaults :: "nat \<Rightarrow> audit_faults"
  aeNow :: "nat \<Rightarrow> time"

definition PruneChainedAuditEvents ::
    "crypto \<Rightarrow> audit_env \<Rightarrow> string \<Rightarrow> audit_tables option \<Rightarrow> unit result \<times> audit_tables option" where
  "PruneChainedAuditEvents C E cutoff db =
     (case db of
        None \<Rightarrow> (Inr (), None)
      | Some t \<Rightarrow> map_prod id Some (ExecInImmediateTxWithRetry (aeShow E) (aeMaxRetries E) (aeTx E)
          (\<lambda>i. prune_tx C (aeFaults E i) (aeNow E i) cutoff) t))"

section \<open>Verification on the database\<close>

fun verify_rows :: "crypto \<Rightarrow> string \<Rightarrow> event_row list \<Rightarrow> unit result" where
  "verify_rows C expectedPrevHash [] = Inr ()"
| "verify_rows C expectedPrevHash (r # rows) =
     (if erPrevHash r \<noteq> expectedPrevHash
      then Inl (Errorf ''audit chain verify: prev_hash mismatch at seq %d'' [FormatInt (erSeq r)] [])
      else if row_hash C r \<noteq> erHash r
      then Inl (Errorf ''audit chain verify: hash mismatch at seq %d'' [FormatInt (erSeq r)] [])
      else verify_rows C (erHash r) rows)"

record verify_faults =
  vfPredecessor :: "gov_error option"
  vfCheckpoint :: "gov_error option"
  vfLatest :: "gov_error option"
  vfQuery :: "gov_error option"
  vfRows :: "gov_error option"

definition verify_start ::
    "verify_faults \<Rightarrow> int \<Rightarrow> audit_tables \<Rightarrow> (int \<times> string) result" where
  "verify_start F fromSeq db =
     (if fromSeq > 0
      then if fromSeq > 1
        then case vfPredecessor F of
          Some err \<Rightarrow> Inl (Errorf ''audit chain verify: predecessor lookup: %w'' [] [err])
        | None \<Rightarrow>
           (case find (\<lambda>r. erSeq r = fromSeq - 1) (chained db) of
              Some r \<Rightarrow> Inr (fromSeq, erHash r)
            | None \<Rightarrow>
               (case vfCheckpoint F of
                  Some err \<Rightarrow> Inl (Errorf ''audit chain verify: checkpoint lookup: %w'' [] [err])
                | None \<Rightarrow>
                   (case latest_checkpoint (filter (\<lambda>cp. cpPrunedThroughSeq cp < fromSeq) (checkpoints db)) of
                      Some cp \<Rightarrow>
                        if cpPrunedThroughSeq cp = fromSeq - 1 then Inr (fromSeq, cpPrunedThroughHash cp)
                        else Inl (Errorf ''audit chain verify: missing predecessor for seq %d'' [FormatInt fromSeq] [])
                    | None \<Rightarrow>
                        Inl (Errorf ''audit chain verify: missing predecessor for seq %d'' [FormatInt fromSeq] []))))
        else Inr (fromSeq, auditChainGenesisPrevHash)
      else case vfLatest F of
        Some err \<Rightarrow> Inl (Errorf ''audit chain verify: latest checkpoint: %w'' [] [err])
      | None \<Rightarrow>
         (case latest_checkpoint (checkpoints db) of
            None \<Rightarrow> Inr (1, auditChainGenesisPrevHash)
          | Some cp \<Rightarrow> Inr (cpPrunedThroughSeq cp + 1, cpPrunedThroughHash cp)))"

definition VerifyChain :: "crypto \<Rightarrow> verify_faults \<Rightarrow> int \<Rightarrow> audit_tables option \<Rightarrow> unit result" where
  "VerifyChain C F fromSeq db =
     (case db of
        None \<Rightarrow> Inl (Sentinel (Audit ErrAuditStoreDisabled))
      | Some t \<Rightarrow>
     (case verify_start F fromSeq t of
        Inl err \<Rightarrow> Inl err
      | Inr (startSeq, expectedPrevHash) \<Rightarrow>
         (case vfQuery F of
            Some err \<Rightarrow> Inl (Errorf ''audit chain verify: query: %w'' [] [err])
          | None \<Rightarrow>
             (case verify_rows C expectedPrevHash (filter (\<lambda>r. startSeq \<le> erSeq r) (by_seq (chained t))) of
                Inl err \<Rightarrow> Inl err
              | Inr _ \<Rightarrow>
                 (case vfRows F of
                    Some err \<Rightarrow> Inl (Errorf ''audit chain verify: rows: %w'' [] [err])
                  | None \<Rightarrow> Inr ())))))"

section \<open>Exported segments\<close>

record AuditChainSegmentEntry =
  seSeq :: int
  sePrevHash :: string
  seHash :: string
  seEventType :: EventType
  seOperatorSessionID :: string
  seTimestamp :: string
  seContentDigest :: string
  seTransactionID :: string
  seContentText :: string

definition AuditEventChainHash :: "crypto \<Rightarrow> AuditChainSegmentEntry \<Rightarrow> string" where
  "AuditEventChainHash C e = computeAuditEventHash C (seSeq e) (sePrevHash e) (seEventType e)
     (seOperatorSessionID e) (seTimestamp e) (seContentDigest e) (seTransactionID e)"

definition segment_entry_check :: "crypto \<Rightarrow> AuditChainSegmentEntry \<Rightarrow> unit result" where
  "segment_entry_check C e =
     (if seContentText e \<noteq> [] \<and>
         computeEventContentDigest C (zero_event\<lparr>evContentText := seContentText e\<rparr>) \<noteq> seContentDigest e
      then Inl (Errorf ''audit chain segment: content_digest mismatch at seq %d'' [FormatInt (seSeq e)] [])
      else case ParseTimestamp (seTimestamp e) of
        Inl err \<Rightarrow> Inl (Errorf ''audit chain segment: timestamp at seq %d: %w'' [FormatInt (seSeq e)] [err])
      | Inr _ \<Rightarrow>
          if AuditEventChainHash C e \<noteq> seHash e
          then Inl (Errorf ''audit chain segment: hash mismatch at seq %d'' [FormatInt (seSeq e)] [])
          else Inr ())"

text \<open>The loop over the sorted entries; \<open>prevSeq\<close> is \<open>None\<close> at index 0.\<close>

fun segment_loop :: "crypto \<Rightarrow> int option \<Rightarrow> string \<Rightarrow> AuditChainSegmentEntry list \<Rightarrow> unit result" where
  "segment_loop C prevSeq expectedPrevHash [] = Inr ()"
| "segment_loop C prevSeq expectedPrevHash (e # es) =
     (if (case prevSeq of None \<Rightarrow> False | Some s \<Rightarrow> seSeq e \<noteq> s + 1)
      then Inl (Errorf ''audit chain segment: sequence gap before seq %d'' [FormatInt (seSeq e)] [])
      else if sePrevHash e \<noteq> expectedPrevHash
      then Inl (Errorf ''audit chain segment: prev_hash mismatch at seq %d'' [FormatInt (seSeq e)] [])
      else case segment_entry_check C e of
        Inl err \<Rightarrow> Inl err
      | Inr _ \<Rightarrow> segment_loop C (Some (seSeq e)) (seHash e) es)"

definition VerifyAuditChainSegment ::
    "crypto \<Rightarrow> AuditChainSegmentEntry list \<Rightarrow> string \<Rightarrow> string \<Rightarrow> unit result" where
  "VerifyAuditChainSegment C entries boundaryPriorHash headHash =
     (if entries = [] then Inr ()
      else let sorted = sort_key seSeq entries in
        if boundaryPriorHash \<noteq> [] \<and> sePrevHash (hd sorted) \<noteq> boundaryPriorHash
        then Inl (Errorf ''audit chain segment: boundary prior hash mismatch at seq %d'' [FormatInt (seSeq (hd sorted))] [])
        else if headHash \<noteq> [] \<and> seHash (last sorted) \<noteq> headHash
        then Inl (Errorf ''audit chain segment: head hash mismatch at seq %d'' [FormatInt (seSeq (last sorted))] [])
        else segment_loop C None (sePrevHash (hd sorted)) sorted)"

definition AuditChainSegmentEntryFromEvent :: "Event option \<Rightarrow> AuditChainSegmentEntry result" where
  "AuditChainSegmentEntryFromEvent event =
     (case event of
        None \<Rightarrow> Inl (wrap ''%w: chained audit event is incomplete'' (Actuator ErrEvidenceArtifactMalformed) [])
      | Some e \<Rightarrow>
         if evSeq e \<le> 0 \<or> evPrevHash e = [] \<or> evHash e = [] \<or> evContentDigest e = []
         then Inl (wrap ''%w: chained audit event is incomplete'' (Actuator ErrEvidenceArtifactMalformed) [])
         else Inr \<lparr>seSeq = evSeq e, sePrevHash = evPrevHash e, seHash = evHash e, seEventType = evType e,
                seOperatorSessionID = evOperatorSessionID e, seTimestamp = FormatTimestamp (evTimestamp e),
                seContentDigest = evContentDigest e, seTransactionID = evTransactionID e,
                seContentText = evContentText e\<rparr>)"

end
