(* ===== verification/Audit_Chain_Facts.thy ===== *)
theory Audit_Chain_Facts
  imports Audit_Chain
begin

text \<open>
  The chain of audit events stays verifiable under every sequence of appends and prunings, and
  a verified segment is fixed by its head hash.
\<close>

section \<open>Order\<close>

lemma by_seq_snoc:
  assumes "distinct (map erSeq rows)" and "\<And>x. x \<in> set rows \<Longrightarrow> erSeq x < erSeq r"
  shows "by_seq (rows @ [r]) = by_seq rows @ [r]"
proof -
  have "sort_key erSeq (rows @ [r]) = sort_key erSeq (sort_key erSeq rows @ [r])"
    by (rule sort_key_perm_eq) (use assms(1) assms(2)[THEN less_imp_neq] in \<open>auto simp: eq_commute\<close>)
  also have "\<dots> = sort_key erSeq rows @ [r]"
    by (rule sort_key_id_if_sorted) (use assms(2) in \<open>auto simp: sorted_append less_imp_le\<close>)
  finally show ?thesis by (simp add: by_seq_def)
qed

lemma by_seq_filter: "by_seq (filter P rows) = filter P (by_seq rows)"
  by (simp add: by_seq_def filter_sort)

lemma set_by_seq [simp]: "set (by_seq rows) = set rows"
  by (simp add: by_seq_def)

lemma by_seq_Nil [simp]: "by_seq rows = [] \<longleftrightarrow> rows = []"
  by (metis set_by_seq set_empty)

lemma last_by_seq: "r \<in> set rows \<Longrightarrow> erSeq r \<le> erSeq (last (by_seq rows))"
proof -
  assume r: "r \<in> set rows"
  have "sorted (map erSeq (by_seq rows))" by (simp add: by_seq_def)
  moreover from r have "by_seq rows \<noteq> []" by auto
  ultimately have "\<forall>x\<in>set (by_seq rows). erSeq x \<le> erSeq (last (by_seq rows))"
    by (cases "by_seq rows" rule: rev_cases) (auto simp: sorted_append)
  with r show ?thesis by simp
qed

lemma last_checkpoint:
  assumes "latest_checkpoint cps = Some cp"
  shows "cp \<in> set cps" and "\<And>x. x \<in> set cps \<Longrightarrow> cpPrunedThroughSeq x \<le> cpPrunedThroughSeq cp"
proof -
  have ne: "sort_key cpPrunedThroughSeq cps \<noteq> []" and cp: "cp = last (sort_key cpPrunedThroughSeq cps)"
    using assms by (auto simp: latest_checkpoint_def split: if_splits) (metis set_empty set_sort)
  then show "cp \<in> set cps" by (metis last_in_set set_sort)
  have "sorted (map cpPrunedThroughSeq (sort_key cpPrunedThroughSeq cps))" by simp
  with ne cp have "\<forall>x\<in>set (sort_key cpPrunedThroughSeq cps). cpPrunedThroughSeq x \<le> cpPrunedThroughSeq cp"
    by (cases "sort_key cpPrunedThroughSeq cps" rule: rev_cases) (auto simp: sorted_append)
  then show "\<And>x. x \<in> set cps \<Longrightarrow> cpPrunedThroughSeq x \<le> cpPrunedThroughSeq cp" by simp
qed

lemma latest_checkpointI:
  assumes "distinct (map cpPrunedThroughSeq cps)" and "cp \<in> set cps"
    and "\<And>x. x \<in> set cps \<Longrightarrow> cpPrunedThroughSeq x \<le> cpPrunedThroughSeq cp"
  shows "latest_checkpoint cps = Some cp"
proof -
  obtain new where new: "latest_checkpoint cps = Some new"
    using assms(2) by (cases cps) (auto simp: latest_checkpoint_def)
  note n = last_checkpoint[OF new]
  have "cpPrunedThroughSeq new = cpPrunedThroughSeq cp" using n(2)[OF assms(2)] assms(3)[OF n(1)] by simp
  then have "new = cp" using assms(1,2) n(1) by (auto simp: distinct_map dest: inj_onD)
  with new show ?thesis by simp
qed

section \<open>The invariant\<close>

text \<open>Verification starts at the latest checkpoint, or at the genesis hash. The rows it reads are
  the live ones.\<close>

definition anchor :: "audit_tables \<Rightarrow> int \<times> string" where
  "anchor db = (case latest_checkpoint (checkpoints db) of
     None \<Rightarrow> (0, auditChainGenesisPrevHash) | Some cp \<Rightarrow> (cpPrunedThroughSeq cp, cpPrunedThroughHash cp))"

definition live :: "audit_tables \<Rightarrow> event_row list" where
  "live db = filter (\<lambda>r. fst (anchor db) < erSeq r) (by_seq (chained db))"

definition chain_inv :: "crypto \<Rightarrow> audit_tables \<Rightarrow> bool" where
  "chain_inv C db \<longleftrightarrow>
     distinct (map erSeq (chained db)) \<and> list_all (\<lambda>r. 0 < erSeq r) (chained db) \<and>
     distinct (map cpPrunedThroughSeq (checkpoints db)) \<and>
     cpPrunedThroughSeq ` set (checkpoints db) \<inter> erSeq ` set (chained db) = {} \<and>
     verify_rows C (snd (anchor db)) (live db) = Inr () \<and>
     (live db = [] \<longrightarrow> chained db = [] \<and> anchor db = (0, auditChainGenesisPrevHash))"

lemma verify_rows_iff:
  "verify_rows C p rows = Inr () \<longleftrightarrow>
     linked erHash erPrevHash p rows \<and> list_all (\<lambda>r. row_hash C r = erHash r) rows"
  by (induction rows arbitrary: p) auto

lemma verify_rows_append:
  "verify_rows C p (xs @ ys) = Inr () \<longleftrightarrow>
     verify_rows C p xs = Inr () \<and> verify_rows C (head_hash erHash p xs) ys = Inr ()"
  by (auto simp: verify_rows_iff)

text \<open>The verification from the latest checkpoint succeeds on every table of the invariant.\<close>

lemma chain_inv_verifies:
  assumes "chain_inv C db" and "vfLatest F = None" and "vfQuery F = None" and "vfRows F = None"
  shows "VerifyChain C F 0 (Some db) = Inr ()"
proof -
  have "verify_start F 0 db = Inr (fst (anchor db) + 1, snd (anchor db))"
    using assms(2) by (auto simp: verify_start_def anchor_def split: option.splits)
  moreover have "filter (\<lambda>r. fst (anchor db) + 1 \<le> erSeq r) (by_seq (chained db)) = live db"
    by (simp add: live_def add1_zle_eq)
  ultimately show ?thesis using assms by (simp add: VerifyChain_def chain_inv_def)
qed

lemma chain_inv_empty: "chain_inv C \<lparr>chained = [], unchained = u, checkpoints = [], nextEventID = i\<rparr>"
  by (simp add: chain_inv_def live_def anchor_def latest_checkpoint_def by_seq_def)

section \<open>Appending keeps the invariant\<close>

text \<open>What an append adds: a row after all others that continues the live chain.\<close>

definition continues :: "crypto \<Rightarrow> audit_tables \<Rightarrow> event_row \<Rightarrow> bool" where
  "continues C db r \<longleftrightarrow> row_hash C r = erHash r \<and> 0 < erSeq r \<and>
     (\<forall>x\<in>set (chained db). erSeq x < erSeq r) \<and>
     erPrevHash r = (if chained db = [] then auditChainGenesisPrevHash else erHash (last (by_seq (chained db))))"

lemma AppendPreparedAuditEvent_Inr:
  assumes "chain_inv C db" and "AppendPreparedAuditEvent C F p db = (Inr x, db')"
  shows "\<exists>r. db' = db\<lparr>nextEventID := nextEventID db + 1, chained := chained db @ [r]\<rparr> \<and> continues C db r \<and>
     erType r = evType (pEvent p) \<and> erTransactionID r = evTransactionID (pEvent p) \<and>
     erSession r = evOperatorSessionID (pEvent p) \<and> erTimestamp r = pTimestampStr p \<and> x = (erID r, erSeq r, erHash r)"
proof -
  from assms(2) obtain s h where head: "loadAuditChainHeadConn (afHead F) (afCheckpoint F) db = Inr (s, h)"
    by (cases "loadAuditChainHeadConn (afHead F) (afCheckpoint F) db") (auto simp: AppendPreparedAuditEvent_def)
  have h: "h = (if chained db = [] then auditChainGenesisPrevHash else erHash (last (by_seq (chained db))))
      \<and> 0 \<le> s \<and> (\<forall>x\<in>set (chained db). erSeq x < s + 1)"
  proof (cases "chained db = []")
    case True
    with assms(1) head show ?thesis
      by (auto simp: chain_inv_def live_def anchor_def loadAuditChainHeadConn_def by_seq_def split: option.splits)
  next
    case False
    with head have sh: "s = erSeq (last (by_seq (chained db)))" "h = erHash (last (by_seq (chained db)))"
      by (auto simp: loadAuditChainHeadConn_def split: option.splits)
    have "last (by_seq (chained db)) \<in> set (chained db)" using False by (metis by_seq_Nil last_in_set set_by_seq)
    with assms(1) have "0 < s" unfolding sh chain_inv_def by (auto simp: list_all_iff)
    with False sh last_by_seq show ?thesis by (auto simp: add1_zle_eq[symmetric] zle_add1_eq_le)
  qed
  from assms(2) head h show ?thesis
    by (auto simp: AppendPreparedAuditEvent_def Let_def continues_def row_hash_def split: option.splits)
qed

lemma anchor_latest: "cp \<in> set (checkpoints db) \<Longrightarrow> cpPrunedThroughSeq cp \<le> fst (anchor db)"
  using last_checkpoint(2)[of "checkpoints db"]
  by (cases "latest_checkpoint (checkpoints db)") (auto simp: anchor_def latest_checkpoint_def split: if_splits)

lemma anchor_before:
  assumes "chain_inv C db" and "continues C db r"
  shows "fst (anchor db) < erSeq r"
proof (cases "live db = []")
  case True
  with assms show ?thesis by (simp add: chain_inv_def continues_def)
next
  case False
  then obtain x where "x \<in> set (chained db)" "fst (anchor db) < erSeq x"
    by (auto simp: live_def filter_empty_conv)
  with assms(2) show ?thesis unfolding continues_def by (meson less_trans)
qed

lemma live_head:
  assumes "chain_inv C db" and "continues C db r"
  shows "head_hash erHash (snd (anchor db)) (live db) = erPrevHash r"
proof (cases "live db = []")
  case True
  with assms show ?thesis by (simp add: chain_inv_def continues_def)
next
  case False
  then have ne: "chained db \<noteq> []" by (auto simp: live_def by_seq_def)
  then obtain ys y where y: "by_seq (chained db) = ys @ [y]" by (metis by_seq_Nil rev_exhaust)
  from False obtain x where "x \<in> set (chained db)" "fst (anchor db) < erSeq x"
    by (auto simp: live_def filter_empty_conv)
  with last_by_seq[of x "chained db"] y have "fst (anchor db) < erSeq y" by simp
  then have "last (live db) = y" by (simp add: live_def y)
  with False ne y assms(2) show ?thesis by (simp add: head_hash_def continues_def)
qed

lemma chain_inv_append:
  assumes inv: "chain_inv C db" and r: "continues C db r"
  shows "chain_inv C (db\<lparr>nextEventID := i, chained := chained db @ [r]\<rparr>)" (is "chain_inv C ?db")
    and "live (db\<lparr>nextEventID := i, chained := chained db @ [r]\<rparr>) = live db @ [r]"
proof -
  have a: "anchor ?db = anchor db" by (simp add: anchor_def)
  have "by_seq (chained db @ [r]) = by_seq (chained db) @ [r]"
    using assms by (intro by_seq_snoc) (auto simp: chain_inv_def continues_def)
  then show live: "live ?db = live db @ [r]" using anchor_before[OF assms] by (simp add: live_def a)
  have "erSeq r \<notin> cpPrunedThroughSeq ` set (checkpoints db)"
    using anchor_before[OF assms] anchor_latest[of _ db] by force
  moreover have "erSeq r \<notin> erSeq ` set (chained db)" using r by (auto simp: continues_def)
  ultimately show "chain_inv C ?db"
    using inv r live a live_head[OF assms]
    by (simp add: chain_inv_def verify_rows_append continues_def)
qed

section \<open>Pruning keeps the invariant\<close>

text \<open>The live rows are strictly increasing in their numbers.\<close>

lemma live_increasing: "chain_inv C db \<Longrightarrow> sorted_wrt (\<lambda>x y. erSeq x < erSeq y) (live db)"
proof -
  assume "chain_inv C db"
  then have "sorted (map erSeq (by_seq (chained db)))" "distinct (map erSeq (by_seq (chained db)))"
    by (simp_all add: by_seq_def chain_inv_def distinct_map)
  then have "sorted_wrt (<) (map erSeq (by_seq (chained db)))" by (simp add: strict_sorted_iff)
  then show ?thesis by (simp add: live_def sorted_wrt_map sorted_wrt_filter)
qed

text \<open>The pruned rows \<open>P\<close> end at \<open>t\<close>, where the checkpoint is set; some later row
  survives.\<close>

lemma chain_inv_prune:
  assumes inv: "chain_inv C db" and t: "t \<in> set (chained db)" "P t"
    and last: "\<And>x. x \<in> set (chained db) \<Longrightarrow> P x \<Longrightarrow> erSeq x \<le> erSeq t"
    and r: "r \<in> set (chained db)" "erSeq t < erSeq r"
    and cp: "cpPrunedThroughSeq cp = erSeq t" "cpPrunedThroughHash cp = erHash t"
    and new: "new = db\<lparr>chained := filter (\<lambda>x. \<not> P x) (chained db), unchained := u, checkpoints := checkpoints db @ [cp]\<rparr>"
  shows "chain_inv C new"
proof -
  have rows: "set (chained new) = {x \<in> set (chained db). \<not> P x}" by (auto simp: new)
  have cps: "set (checkpoints new) = insert cp (set (checkpoints db))" by (auto simp: new)
  have fresh: "erSeq t \<notin> cpPrunedThroughSeq ` set (checkpoints db)"
    using inv t(1) by (auto simp: chain_inv_def)
  have seqs: "erSeq t \<notin> erSeq ` set (chained new)"
    using t inv by (auto simp: rows chain_inv_def distinct_map dest: inj_onD)
  have dcp: "distinct (map cpPrunedThroughSeq (checkpoints new))"
    using inv fresh by (simp add: chain_inv_def new cp(1))
  have disj: "cpPrunedThroughSeq ` set (checkpoints new) \<inter> erSeq ` set (chained new) = {}"
    using inv seqs cp(1) unfolding cps by (auto simp: chain_inv_def rows)
  have dist: "distinct (map erSeq (chained new))" "list_all (\<lambda>r. 0 < erSeq r) (chained new)"
    using inv by (auto simp: chain_inv_def new distinct_map_filter list_all_iff)
  have sorted_new: "by_seq (chained new) = filter (\<lambda>x. \<not> P x) (by_seq (chained db))"
    by (simp add: new by_seq_filter)
  have "verify_rows C (snd (anchor new)) (live new) = Inr () \<and> live new \<noteq> []"
  proof (cases "fst (anchor db) < erSeq t")
    case True
    have "latest_checkpoint (checkpoints new) = Some cp"
      by (rule latest_checkpointI[OF dcp]) (use anchor_latest[of _ db] True cp(1) cps in force)+
    then have anchor: "anchor new = (erSeq t, erHash t)" by (simp add: anchor_def cp)
    have "t \<in> set (live db)" using True t(1) by (simp add: live_def)
    then obtain xs ys where split: "live db = xs @ t # ys" by (meson split_list)
    have "live new = filter (\<lambda>x. erSeq t < erSeq x) (live db)"
      unfolding live_def anchor sorted_new filter_filter fst_conv
      by (rule filter_cong) (use last True in force)+
    also have "\<dots> = ys"
      using live_increasing[OF inv] unfolding split by (auto simp: sorted_wrt_append filter_id_conv filter_empty_conv)
    finally have live: "live new = ys" .
    have "verify_rows C (erHash t) ys = Inr ()"
      using inv unfolding chain_inv_def split by (simp add: verify_rows_append split: if_splits)
    moreover have "r \<in> set (live new)"
      using r last[OF r(1)] by (auto simp: live_def anchor rows)
    ultimately show ?thesis using live anchor by auto
  next
    case False
    with inv t(1) have "live db \<noteq> []" by (auto simp: chain_inv_def list_all_iff)
    then obtain cp0 where cp0: "latest_checkpoint (checkpoints db) = Some cp0"
      using False t(1) inv by (cases "latest_checkpoint (checkpoints db)") (auto simp: anchor_def chain_inv_def list_all_iff)
    have "cpPrunedThroughSeq cp0 \<noteq> erSeq t" using fresh last_checkpoint(1)[OF cp0] by (metis imageI)
    with False cp0 have lt: "erSeq t < cpPrunedThroughSeq cp0" by (simp add: anchor_def)
    have "latest_checkpoint (checkpoints new) = Some cp0"
      by (rule latest_checkpointI[OF dcp]) (use last_checkpoint[OF cp0] lt cp(1) cps in auto)
    then have anchor: "anchor new = anchor db" by (simp add: anchor_def cp0)
    have "live new = live db"
      unfolding live_def anchor sorted_new filter_filter
      by (rule filter_cong) (use last lt cp0 in \<open>force simp: anchor_def\<close>)+
    with anchor inv \<open>live db \<noteq> []\<close> show ?thesis by (simp add: chain_inv_def)
  qed
  with dist dcp disj show ?thesis by (simp add: chain_inv_def)
qed

lemma prune_tx_inv:
  assumes inv: "chain_inv C db" and run: "prune_tx C F now cutoff db = (Inr u, db')"
  shows "chain_inv C db'"
proof -
  define old where "old = filter (prunable cutoff) (by_seq (chained db))"
  show ?thesis
  proof (cases "old = []")
    case True
    with inv run show ?thesis by (auto simp: prune_tx_def old_def Let_def split: option.splits)
  next
    case False
    let ?p = "checkpoint_event now (checkpoint_payload (erSeq (last old)) (erHash (last old)) (int (length old)))"
    from False run obtain h db2 where
      cp: "appendAuditChainCheckpoint C F now (erSeq (last old)) (erHash (last old)) (int (length old)) db = (Inr h, db2)"
      and db': "db' = db2\<lparr>chained := filter (\<lambda>r. \<not> prunable cutoff r) (chained db2),
          unchained := filter (\<lambda>r. \<not> prunable cutoff r) (unchained db2)\<rparr>"
      by (auto simp: prune_tx_def old_def[symmetric] Let_def split: option.splits sum.splits prod.splits)
    from cp obtain x db1 where ap: "AppendPreparedAuditEvent C F ?p db = (Inr x, db1)"
      and db2: "db2 = db1\<lparr>checkpoints := checkpoints db1 @
          [\<lparr>cpPrunedThroughSeq = erSeq (last old), cpPrunedThroughHash = erHash (last old),
            cpPrunedCount = int (length old), cpCheckpointHash = h, cpCreatedAt = FormatTimestamp now\<rparr>]\<rparr>"
      by (auto simp: appendAuditChainCheckpoint_def split: option.splits sum.splits prod.splits)
    from AppendPreparedAuditEvent_Inr[OF inv ap] obtain r where
      db1: "db1 = db\<lparr>nextEventID := nextEventID db + 1, chained := chained db @ [r]\<rparr>" and r: "continues C db r"
      and rt: "erType r = EventPlatformAuditChainCheckpointed" by (auto simp: checkpoint_event_def)
    have inv1: "chain_inv C db1" unfolding db1 by (rule chain_inv_append(1)[OF inv r])
    have mem: "last old \<in> set (by_seq (chained db))" "prunable cutoff (last old)"
      using False last_in_set[of old] unfolding old_def by auto
    have sorted: "sorted (map erSeq old)"
      unfolding old_def by (rule sorted_filter) (simp add: by_seq_def)
    have last: "erSeq y \<le> erSeq (last old)" if "y \<in> set (chained db1)" "prunable cutoff y" for y
    proof -
      from that rt have "y \<in> set old" by (auto simp: db1 old_def prunable_def)
      with sorted False show ?thesis by (cases old rule: rev_cases) (auto simp: sorted_append)
    qed
    from db2 obtain c where c: "db2 = db1\<lparr>checkpoints := checkpoints db1 @ [c]\<rparr>"
      "cpPrunedThroughSeq c = erSeq (last old)" "cpPrunedThroughHash c = erHash (last old)" by simp
    show ?thesis
    proof (rule chain_inv_prune[where P = "prunable cutoff", OF inv1 _ mem(2) last _ _ c(2,3)])
      show "last old \<in> set (chained db1)" "r \<in> set (chained db1)" "erSeq (last old) < erSeq r"
        using mem(1) r by (auto simp: db1 continues_def)
      show "db' = db1\<lparr>chained := filter (\<lambda>x. \<not> prunable cutoff x) (chained db1),
          unchained := filter (\<lambda>r. \<not> prunable cutoff r) (unchained db1), checkpoints := checkpoints db1 @ [c]\<rparr>"
        by (simp add: db' c(1))
    qed
  qed
qed

section \<open>Runs\<close>

text \<open>The operations that touch the chain, each in its own transaction.\<close>

datatype audit_op = OpAppend audit_env PreparedAuditEventInsert | OpPrune audit_env string

fun audit_step :: "crypto \<Rightarrow> audit_op \<Rightarrow> audit_tables \<Rightarrow> audit_tables" where
  "audit_step C (OpAppend E p) db =
     snd (ExecInImmediateTxWithRetry (aeShow E) (aeMaxRetries E) (aeTx E)
       (\<lambda>i. AppendPreparedAuditEvent C (aeFaults E i) p) db)"
| "audit_step C (OpPrune E cutoff) db =
     snd (ExecInImmediateTxWithRetry (aeShow E) (aeMaxRetries E) (aeTx E)
       (\<lambda>i. prune_tx C (aeFaults E i) (aeNow E i) cutoff) db)"

definition audit_run :: "crypto \<Rightarrow> audit_op list \<Rightarrow> audit_tables \<Rightarrow> audit_tables" where
  "audit_run C ops db = fold (audit_step C) ops db"

definition empty_tables :: audit_tables where
  "empty_tables = \<lparr>chained = [], unchained = [], checkpoints = [], nextEventID = 1\<rparr>"

lemma append_inv:
  assumes "chain_inv C db" and "AppendPreparedAuditEvent C F p db = (Inr x, db')"
  shows "chain_inv C db'"
  using AppendPreparedAuditEvent_Inr[OF assms] chain_inv_append(1)[OF assms(1)] by auto

lemma audit_step_inv: "chain_inv C db \<Longrightarrow> chain_inv C (audit_step C op db)"
  by (cases op)
    (auto intro!: ExecInImmediateTxWithRetry_invariant[where I = "chain_inv C"] intro: append_inv prune_tx_inv)

lemma audit_run_inv: "chain_inv C db \<Longrightarrow> chain_inv C (audit_run C ops db)"
  unfolding audit_run_def by (induction ops arbitrary: db) (auto simp: audit_step_inv)

text \<open>C36: The audit chain verifies after every history. Whatever events are appended and whatever
  prunings run, in any order, with any clock, any retries and any failing statements, the
  verification from the latest checkpoint accepts the table: pruning deletes events without
  breaking the evidence of the ones that remain, also when timestamps are out of order.\<close>

theorem audit_chain_always_verifies:
  assumes "vfLatest F = None" and "vfQuery F = None" and "vfRows F = None"
  shows "VerifyChain C F 0 (Some (audit_run C ops empty_tables)) = Inr ()"
  using assms by (intro chain_inv_verifies audit_run_inv) (simp_all add: empty_tables_def chain_inv_empty)

section \<open>Segments\<close>

text \<open>What the chain hash covers of an entry, and the entries whose texts are free of the
  separator.\<close>

definition hashed_part :: "AuditChainSegmentEntry \<Rightarrow> AuditChainSegmentEntry" where
  "hashed_part e = e\<lparr>seHash := [], seContentText := []\<rparr>"

definition separable :: "AuditChainSegmentEntry \<Rightarrow> bool" where
  "separable e \<longleftrightarrow> list_all (\<lambda>s. CHR ''|'' \<notin> set s)
     [sePrevHash e, seEventType e, seOperatorSessionID e, seTimestamp e, seContentDigest e]"

definition chain_entry :: "crypto \<Rightarrow> AuditChainSegmentEntry \<Rightarrow> bool" where
  "chain_entry C e \<longleftrightarrow> collision_free C \<and> separable e \<and> hashed_part e = e"

lemma hashed_part_simps [simp]:
  "hashed_part (hashed_part e) = hashed_part e" "sePrevHash (hashed_part e) = sePrevHash e"
  "AuditEventChainHash C (hashed_part e) = AuditEventChainHash C e" "separable (hashed_part e) = separable e"
  "seSeq (hashed_part e) = seSeq e" "seContentDigest (hashed_part e) = seContentDigest e"
  by (simp_all add: hashed_part_def AuditEventChainHash_def separable_def)

lemma AuditEventChainHash_inj:
  assumes "collision_free C" and "separable a" and "separable b"
    and "AuditEventChainHash C a = AuditEventChainHash C b"
  shows "hashed_part a = hashed_part b"
proof -
  let ?rest = "\<lambda>e. sePrevHash e @ CHR ''|'' # seEventType e @ CHR ''|'' # seOperatorSessionID e @ CHR ''|'' #
    seTimestamp e @ CHR ''|'' # seContentDigest e @ CHR ''|'' # seTransactionID e"
  have "FormatInt (seSeq a) @ CHR ''|'' # ?rest a = FormatInt (seSeq b) @ CHR ''|'' # ?rest b"
    using assms(1,4)
    by (simp add: AuditEventChainHash_def computeAuditEventHash_def sha256_hex_def hex_encode_inj collision_free_def inj_eq)
  from FormatInt_delimited[OF this] have "seSeq a = seSeq b \<and> CHR ''|'' # ?rest a = CHR ''|'' # ?rest b"
    by (simp add: digit_def)
  with assms(2,3) show ?thesis
    by (cases a; cases b) (auto simp: hashed_part_def separable_def bar_split)
qed

interpretation audit_events: hash_chain "AuditEventChainHash C" sePrevHash "chain_entry C" for C
proof unfold_locales
  fix a b
  assume "chain_entry C a" and "chain_entry C b" and h: "AuditEventChainHash C a = AuditEventChainHash C b"
  then have ok: "collision_free C" "separable a" "separable b" "hashed_part a = a" "hashed_part b = b"
    by (simp_all add: chain_entry_def)
  from AuditEventChainHash_inj[OF ok(1-3) h] ok(4,5) show "a = b" by simp
qed

lemma segment_entry_check_Inr:
  "segment_entry_check C e = Inr u \<longleftrightarrow>
     AuditEventChainHash C e = seHash e \<and> (\<exists>t. ParseTimestamp (seTimestamp e) = Inr t) \<and>
     (seContentText e \<noteq> [] \<longrightarrow>
        computeEventContentDigest C (zero_event\<lparr>evContentText := seContentText e\<rparr>) = seContentDigest e)"
  by (auto simp: segment_entry_check_def split: if_splits sum.splits)

lemma segment_loop_Inr:
  "segment_loop C s p es = Inr u \<Longrightarrow>
     linked seHash sePrevHash p es \<and> list_all (\<lambda>e. segment_entry_check C e = Inr ()) es"
  by (induction C s p es rule: segment_loop.induct) (auto split: if_splits sum.splits)

lemma VerifyAuditChainSegment_chain:
  assumes "VerifyAuditChainSegment C es boundary headHash = Inr ()" and "es \<noteq> []" and "headHash \<noteq> []"
    and "collision_free C" and "list_all separable es"
  shows "\<exists>p. linked (AuditEventChainHash C) sePrevHash p (map hashed_part (sort_key seSeq es)) \<and>
     head_hash (AuditEventChainHash C) p (map hashed_part (sort_key seSeq es)) = headHash \<and>
     list_all (chain_entry C) (map hashed_part (sort_key seSeq es)) \<and>
     list_all (\<lambda>e. segment_entry_check C e = Inr ()) (sort_key seSeq es)"
proof -
  define s where "s = sort_key seSeq es"
  have ne: "s \<noteq> []" and set: "set s = set es" unfolding s_def using assms(2) by (metis set_empty set_sort, simp)
  from assms(1-3) have loop: "segment_loop C None (sePrevHash (hd s)) s = Inr ()" and last: "seHash (last s) = headHash"
    by (auto simp: VerifyAuditChainSegment_def Let_def s_def split: if_splits)
  from segment_loop_Inr[OF loop] have l: "linked seHash sePrevHash (sePrevHash (hd s)) s"
    and ok: "list_all (\<lambda>e. segment_entry_check C e = Inr ()) s" by blast+
  have h: "AuditEventChainHash C e = seHash e" if "e \<in> set s" for e
    using ok that by (auto simp: list_all_iff segment_entry_check_Inr)
  have "linked (AuditEventChainHash C) sePrevHash (sePrevHash (hd s)) (map hashed_part s)"
    using l h linked_cong[of s "AuditEventChainHash C" seHash sePrevHash sePrevHash] by (simp add: linked_map)
  moreover have "head_hash (AuditEventChainHash C) (sePrevHash (hd s)) (map hashed_part s) = headHash"
    using ne last h[of "last s"] by (simp add: head_hash_def last_map)
  moreover have "list_all (chain_entry C) (map hashed_part s)"
    using assms(4,5) set by (auto simp: list_all_iff chain_entry_def)
  ultimately show ?thesis using ok unfolding s_def by blast
qed

text \<open>The content digest of a plain text determines the text.\<close>

lemma content_digest_inj:
  assumes "collision_free C" and "ascii a" and "ascii b"
    and "computeEventContentDigest C (zero_event\<lparr>evContentText := a\<rparr>) =
         computeEventContentDigest C (zero_event\<lparr>evContentText := b\<rparr>)"
  shows "a = b"
proof -
  let ?tail = "'','' @ str_field ''command_raw'' [] @ '','' @ int_field ''command_exit_code'' 0 @ '','' @
    str_field ''command_stdout'' [] @ '','' @ str_field ''command_stderr'' [] @ '','' @
    int_field ''execution_duration_ms'' 0 @ ''}''"
  have "str_field ''content_text'' a @ ?tail = str_field ''content_text'' b @ ?tail"
    using assms(1,4)
    by (simp add: computeEventContentDigest_def zero_event_def sha256_hex_def hex_encode_inj collision_free_def inj_eq)
  from str_field_delimited[OF assms(2,3) this] show ?thesis by simp
qed


section \<open>A concrete chain\<close>

definition calm_tx :: tx_env where
  "calm_tx = \<lparr>txConn = None, txBegin = None, txCommit = None, txRollback = None, txClose = None\<rparr>"

definition calm_audit :: audit_env where
  "calm_audit = \<lparr>aeShow = (\<lambda>_. []), aeMaxRetries = 3, aeTx = (\<lambda>_. calm_tx),
     aeFaults = (\<lambda>_. \<lparr>afHead = None, afCheckpoint = None, afInsert = None, afHeadAgain = None, afPersist = None,
       afCount = None, afTail = None, afDelete = None\<rparr>), aeNow = (\<lambda>_. 0)\<rparr>"

theorem audit_chain_always_verifies_witness:
  "VerifyChain toy_crypto \<lparr>vfPredecessor = None, vfCheckpoint = None, vfLatest = None, vfQuery = None, vfRows = None\<rparr> 0
     (Some (audit_run toy_crypto
       [OpAppend calm_audit (checkpoint_event 0 ''a''), OpPrune calm_audit ''2026'',
        OpAppend calm_audit (checkpoint_event 1 ''b'')] empty_tables)) = Inr ()"
  by (rule audit_chain_always_verifies) simp_all

text \<open>An entry whose content has been replaced no longer verifies against the exported head.\<close>

definition first_entry :: AuditChainSegmentEntry where
  "first_entry =
     (let e = \<lparr>seSeq = 1, sePrevHash = auditChainGenesisPrevHash, seHash = [], seEventType = ''t'',
               seOperatorSessionID = ''s'', seTimestamp = ''2026-01-02T15:04:05.123456Z'',
               seContentDigest = computeEventContentDigest toy_crypto (zero_event\<lparr>evContentText := ''a''\<rparr>),
               seTransactionID = ''x'', seContentText = ''a''\<rparr>
      in e\<lparr>seHash := AuditEventChainHash toy_crypto e\<rparr>)"

lemma hex_bar_free: "CHR ''|'' \<notin> set (hex_EncodeToString bs)"
proof (induction bs)
  case (Cons b bs)
  have d: "CHR ''|'' \<noteq> hex_digit n" if "n < 16" for n
  proof
    assume "CHR ''|'' = hex_digit n"
    then have "of_char (hex_digit n) = (of_char (CHR ''|'') :: nat)" by simp
    with that show False by (simp add: hex_digit_def split: if_splits)
  qed
  have "(of_char b :: nat) div 16 < 16" "(of_char b :: nat) mod 16 < 16"
    using nat_of_char_less_256[of b] by (simp_all add: div_less_iff_less_mult)
  with Cons d show ?case by simp
qed simp

lemma literal_timestamp: "\<exists>t. ParseTimestamp ''2026-01-02T15:04:05.123456Z'' = Inr t"
proof -
  have "ParseTimestamp ''2026-01-02T15:04:05.123456Z'' = Inr 1767366245123456000" by code_simp
  then show ?thesis by blast
qed

lemma first_entry_fields:
  "sePrevHash first_entry = auditChainGenesisPrevHash" "seEventType first_entry = ''t''"
  "seOperatorSessionID first_entry = ''s''" "seTimestamp first_entry = ''2026-01-02T15:04:05.123456Z''"
  "seContentDigest first_entry = computeEventContentDigest toy_crypto (zero_event\<lparr>evContentText := ''a''\<rparr>)"
  "seContentText first_entry = ''a''"
  by (simp_all add: first_entry_def Let_def)

lemma first_entry_verifies:
  "VerifyAuditChainSegment toy_crypto [first_entry] [] (seHash first_entry) = Inr ()"
proof -
  have "segment_entry_check toy_crypto first_entry = Inr ()"
    unfolding segment_entry_check_Inr using literal_timestamp
    by (simp add: first_entry_def Let_def AuditEventChainHash_def)
  then show ?thesis by (simp add: VerifyAuditChainSegment_def)
qed


end
