(* ===== verification/Ledger.thy ===== *)
theory Ledger
  imports Receipt_Binding Sqlite_Tx Hash_Chain Warden
begin

text \<open>
  \<open>services/storage/commitment_ledger.go\<close> and the commitment part of
  \<open>l5_actuator.go\<close>: the append-only ledger of signed commitment attestations, each carrying
  the hash of its predecessor. The table is the list of its rows in \<open>id\<close> order; rows are
  only ever inserted. The protojson codec of attestations is a parameter.
\<close>

section \<open>The table\<close>

record CommitmentRow =
  crSeq :: int
  crTransactionID :: string
  crTransactionHash :: string
  crPriorCommitmentHash :: string
  crHash :: string
  crStateRootAtCommit :: string
  crL2SignatureDigest :: string
  crWardenIntentSignatureDigest :: string
  crHumanSignatureDigest :: string
  crActionType :: string
  crTargetResource :: string
  crCommittedAt :: time
  crAuditorKeyID :: string
  crSignature :: string
  crAttestationJSON :: bytes

text \<open>\<open>time.UnixMilli\<close> and its inverse \<open>Time.UnixMilli\<close>, which rounds down.\<close>

definition UnixMilli :: "int \<Rightarrow> time" where
  "UnixMilli ms = ms * 1000000"

definition time_UnixMilli :: "time \<Rightarrow> int" where
  "time_UnixMilli t = t div 1000000"

record attestation_codec =
  caUnmarshal :: "bytes \<Rightarrow> CommitmentAttestation result"
  caMarshal :: "CommitmentAttestation \<Rightarrow> bytes result"

text \<open>What protojson documents of the codec: decoding what was encoded gives the message back,
  and an encoded message is a JSON object, never empty.\<close>

definition codec_round_trip :: "attestation_codec \<Rightarrow> bool" where
  "codec_round_trip K \<longleftrightarrow>
     (\<forall>a j. caMarshal K a = Inr j \<longrightarrow> caUnmarshal K j = Inr a \<and> j \<noteq> [])"

text \<open>The errors the three statements of an append meet for reasons other than constraints.\<close>

record ledger_faults =
  lfSelectHead :: "gov_error option"
  lfQueryPrior :: "gov_error option"
  lfInsert :: "gov_error option"

definition ledger_head :: "CommitmentRow list \<Rightarrow> string" where
  "ledger_head rows = (if rows = [] then [] else crHash (last rows))"

definition next_seq :: "CommitmentRow list \<Rightarrow> int" where
  "next_seq rows = (if rows = [] then 1 else crSeq (last rows) + 1)"

text \<open>The inserted row. The columns come from the decoded attestation, except the prior hash
  and the hash, which are the caller's. The time column holds the milliseconds, which reading
  turns into a time.\<close>

definition commitment_row ::
    "CommitmentRow list \<Rightarrow> CommitmentAttestation \<Rightarrow> string \<Rightarrow> string \<Rightarrow> bytes \<Rightarrow> CommitmentRow" where
  "commitment_row rows a priorHash hash json =
     \<lparr>crSeq = next_seq rows, crTransactionID = caTransactionId a, crTransactionHash = caTransactionHash a,
      crPriorCommitmentHash = priorHash, crHash = hash, crStateRootAtCommit = caStateRootAtCommit a,
      crL2SignatureDigest = caL2SignatureDigest a,
      crWardenIntentSignatureDigest = caWardenIntentSignatureDigest a,
      crHumanSignatureDigest = caHumanSignatureDigest a, crActionType = caActionType a,
      crTargetResource = caTargetResource a, crCommittedAt = UnixMilli (caCommittedAtUnixMs a),
      crAuditorKeyID = caAuditorKeyId a, crSignature = caSignature a, crAttestationJSON = json\<rparr>"

section \<open>Operations\<close>

definition appendCommitmentJSON_tx ::
    "attestation_codec \<Rightarrow> ledger_faults \<Rightarrow> bytes \<Rightarrow> string \<Rightarrow> string \<Rightarrow> CommitmentRow list \<Rightarrow>
     unit result \<times> CommitmentRow list" where
  "appendCommitmentJSON_tx K F attestationJSON priorHash hash rows =
     (if attestationJSON = [] then (Inl (Errorf ''attestation JSON is empty'' [] []), rows)
      else case caUnmarshal K attestationJSON of
        Inl err \<Rightarrow> (Inl (Errorf ''failed to unmarshal attestation JSON: %w'' [] [err]), rows)
      | Inr a \<Rightarrow>
     (case caMarshal K a of
        Inl err \<Rightarrow> (Inl (Errorf ''failed to canonicalize attestation JSON: %w'' [] [err]), rows)
      | Inr canonical \<Rightarrow>
     (case lfQueryPrior F of
        Some err \<Rightarrow> (Inl (Errorf ''failed to query current prior hash: %w'' [] [err]), rows)
      | None \<Rightarrow>
         if rows \<noteq> [] \<and> ledger_head rows \<noteq> priorHash
         then (Inl (Errorf ''prior_commitment_hash mismatch: expected %s, got %s''
                      [ledger_head rows, priorHash] []), rows)
         else case lfInsert F of
           Some err \<Rightarrow> (Inl (Errorf ''failed to insert commitment: %w'' [] [err]), rows)
         | None \<Rightarrow>
             if hash \<in> crHash ` set rows
             then (Inl (Errorf ''failed to insert commitment: %w'' []
                     [Errorf ''UNIQUE constraint failed: commitment_ledger.hash'' [] []]), rows)
             else (Inr (), rows @ [commitment_row rows a priorHash hash canonical]))))"

text \<open>What an append depends on besides the table: the error texts, the retry budget, the
  transaction environment and the statement errors of each attempt. A ledger that is not
  initialised is \<open>None\<close>. The builder answers the encoded attestation, its hash and what the
  caller's closure keeps.\<close>

record ledger_env =
  leShow :: "gov_error \<Rightarrow> string"
  leMaxRetries :: nat
  leTx :: "nat \<Rightarrow> tx_env"
  leFaults :: "nat \<Rightarrow> ledger_faults"

definition append_tx ::
    "attestation_codec \<Rightarrow> ledger_faults \<Rightarrow> (string \<Rightarrow> ((bytes \<times> string) \<times> 'p) result) \<Rightarrow>
     CommitmentRow list \<Rightarrow> 'p result \<times> CommitmentRow list" where
  "append_tx K F build rows =
     (case lfSelectHead F of
        Some err \<Rightarrow> (Inl (Errorf ''commitment ledger: select head: %w'' [] [err]), rows)
      | None \<Rightarrow>
     (case build (ledger_head rows) of
        Inl err \<Rightarrow> (Inl (Errorf ''commitment ledger: build: %w'' [] [err]), rows)
      | Inr ((attestationJSON, hash), kept) \<Rightarrow>
         (case appendCommitmentJSON_tx K F attestationJSON (ledger_head rows) hash rows of
            (Inl err, rows') \<Rightarrow> (Inl err, rows')
          | (Inr _, rows') \<Rightarrow> (Inr kept, rows'))))"

definition AppendCommitment ::
    "attestation_codec \<Rightarrow> ledger_env \<Rightarrow> (nat \<Rightarrow> string \<Rightarrow> ((bytes \<times> string) \<times> 'p) result) \<Rightarrow>
     CommitmentRow list option \<Rightarrow> 'p result \<times> CommitmentRow list option" where
  "AppendCommitment K E build ledger =
     (case ledger of
        None \<Rightarrow> (Inl (Errorf ''commitment ledger not initialized'' [] []), None)
      | Some rows \<Rightarrow>
         map_prod id Some (ExecInImmediateTxWithRetry (leShow E) (leMaxRetries E) (leTx E)
           (\<lambda>i. append_tx K (leFaults E i) (build i)) rows))"

definition AppendCommitmentJSON ::
    "attestation_codec \<Rightarrow> ledger_env \<Rightarrow> bytes \<Rightarrow> string \<Rightarrow> string \<Rightarrow>
     CommitmentRow list option \<Rightarrow> unit result \<times> CommitmentRow list option" where
  "AppendCommitmentJSON K E attestationJSON priorHash hash ledger =
     (case ledger of
        None \<Rightarrow> (Inl (Errorf ''commitment ledger not initialized'' [] []), None)
      | Some rows \<Rightarrow>
         map_prod id Some (ExecInImmediateTxWithRetry (leShow E) (leMaxRetries E) (leTx E)
           (\<lambda>i. appendCommitmentJSON_tx K (leFaults E i) attestationJSON priorHash hash) rows))"

definition ListCommitments ::
    "gov_error option \<Rightarrow> CommitmentRow list option \<Rightarrow> CommitmentRow list result" where
  "ListCommitments fault ledger =
     (case ledger of
        None \<Rightarrow> Inl (Errorf ''commitment ledger not initialized'' [] [])
      | Some rows \<Rightarrow>
         (case fault of
            Some err \<Rightarrow> Inl (Errorf ''commitment ledger: list: %w'' [] [err])
          | None \<Rightarrow> Inr rows))"

section \<open>The actuator's commitments\<close>

text \<open>\<open>ed25519.PrivateKey\<close>: 64 bytes whose second half is the public key.\<close>

abbreviation PrivateKeySize :: nat where "PrivateKeySize \<equiv> 64"

definition ed_Public :: "bytes \<Rightarrow> bytes" where
  "ed_Public priv = drop 32 priv"

definition commitment_attestation ::
    "crypto \<Rightarrow> bytes \<Rightarrow> string \<Rightarrow> int \<Rightarrow> VerifiedTransaction \<Rightarrow> ActionReceipt \<Rightarrow> string \<Rightarrow> CommitmentAttestation" where
  "commitment_attestation C key keyID nowMs vt receipt priorHash =
     (let a = \<lparr>caTransactionId = Id (vtEnvelope vt), caTransactionHash = TransactionHash (vtEnvelope vt),
               caPriorCommitmentHash = priorHash, caStateRootAtCommit = rStateRootBefore receipt,
               caL2SignatureDigest = l2SignatureDigest C (vtEnvelope vt),
               caWardenIntentSignatureDigest = SignatureDigest C [rSignature receipt],
               caHumanSignatureDigest = humanSignatureDigest C (vtEnvelope vt),
               caActionType = vtActionType vt, caTargetResource = TargetResource (vtEnvelope vt),
               caCommittedAtUnixMs = nowMs, caAuditorKeyId = keyID, caSignature = [], caHash = []\<rparr>;
          canonical = CanonicalizeCommitmentAttestation a
      in a\<lparr>caHash := sha256_hex C canonical, caSignature := hex_EncodeToString (ed_sign C key canonical)\<rparr>)"

definition build_commitment ::
    "crypto \<Rightarrow> attestation_codec \<Rightarrow> bytes \<Rightarrow> string \<Rightarrow> int \<Rightarrow> VerifiedTransaction \<Rightarrow> ActionReceipt \<Rightarrow> string \<Rightarrow>
     ((bytes \<times> string) \<times> CommitmentAttestation) result" where
  "build_commitment C K key keyID nowMs vt receipt priorHash =
     (let a = commitment_attestation C key keyID nowMs vt receipt priorHash in
      case caMarshal K a of
        Inl err \<Rightarrow> Inl (Errorf ''commitment attestation: marshal: %w'' [] [err])
      | Inr payload \<Rightarrow> Inr ((payload, caHash a), a))"

text \<open>\<open>nowMs\<close> gives the clock reading of each attempt.\<close>

definition persistCommitment ::
    "crypto \<Rightarrow> attestation_codec \<Rightarrow> ledger_env \<Rightarrow> (nat \<Rightarrow> int) \<Rightarrow> bytes \<Rightarrow> string \<Rightarrow> VerifiedTransaction \<Rightarrow>
     ActionReceipt \<Rightarrow> CommitmentRow list option \<Rightarrow>
     CommitmentAttestation result \<times> CommitmentRow list option" where
  "persistCommitment C K E nowMs key keyID vt receipt ledger =
     (if length key \<noteq> PrivateKeySize then (Inl (Sentinel (Actuator ErrL5ActuatorAuditorKeyMissing)), ledger)
      else if keyID \<noteq> hex_EncodeToString (ed_Public key)
      then (Inl (Sentinel (Sys ErrValidationFailed)), ledger)
      else AppendCommitment K E (\<lambda>i. build_commitment C K key keyID (nowMs i) vt receipt) ledger)"

section \<open>What an append does\<close>

lemma appendCommitmentJSON_tx_Inr:
  "appendCommitmentJSON_tx K F j p h rows = (Inr u, rows') \<longleftrightarrow>
     j \<noteq> [] \<and> lfQueryPrior F = None \<and> lfInsert F = None \<and> (rows = [] \<or> ledger_head rows = p) \<and>
     h \<notin> crHash ` set rows \<and>
     (\<exists>a canonical. caUnmarshal K j = Inr a \<and> caMarshal K a = Inr canonical \<and>
        rows' = rows @ [commitment_row rows a p h canonical])"
  by (cases "caUnmarshal K j"; cases "lfQueryPrior F"; cases "lfInsert F")
    (auto simp: appendCommitmentJSON_tx_def split: sum.splits if_splits)

lemma appendCommitmentJSON_tx_unchanged:
  "appendCommitmentJSON_tx K F j p h rows = (Inl err, rows') \<Longrightarrow> rows' = rows"
  by (cases "caUnmarshal K j"; cases "lfQueryPrior F"; cases "lfInsert F")
    (auto simp: appendCommitmentJSON_tx_def split: sum.splits if_splits)

lemma append_tx_Inr:
  "append_tx K F build rows = (Inr kept, rows') \<longleftrightarrow>
     lfSelectHead F = None \<and>
     (\<exists>j h. build (ledger_head rows) = Inr ((j, h), kept) \<and>
        appendCommitmentJSON_tx K F j (ledger_head rows) h rows = (Inr (), rows'))"
  by (cases "lfSelectHead F"; cases "build (ledger_head rows)")
    (auto simp: append_tx_def split: prod.splits sum.splits)

lemma append_tx_unchanged: "append_tx K F build rows = (Inl err, rows') \<Longrightarrow> rows' = rows"
  by (cases "lfSelectHead F"; cases "build (ledger_head rows)")
    (auto simp: append_tx_def split: prod.splits sum.splits dest: appendCommitmentJSON_tx_unchanged)

text \<open>A round trip through the codec stores what the builder built.\<close>

lemma append_tx_build_commitment:
  assumes "codec_round_trip K"
  shows "append_tx K F (build_commitment C K key keyID now vt receipt) rows = (Inr a, rows') \<longleftrightarrow>
     a = commitment_attestation C key keyID now vt receipt (ledger_head rows) \<and>
     lfSelectHead F = None \<and> lfQueryPrior F = None \<and> lfInsert F = None \<and> caHash a \<notin> crHash ` set rows \<and>
     (\<exists>j. caMarshal K a = Inr j \<and> rows' = rows @ [commitment_row rows a (ledger_head rows) (caHash a) j])"
  using assms
  by (auto simp: append_tx_Inr build_commitment_def Let_def appendCommitmentJSON_tx_Inr codec_round_trip_def
      split: sum.splits)

lemma commitment_attestation_simps [simp]:
  "caPriorCommitmentHash (commitment_attestation C key keyID now vt receipt p) = p"
  "caTransactionId (commitment_attestation C key keyID now vt receipt p) = Id (vtEnvelope vt)"
  "caTransactionHash (commitment_attestation C key keyID now vt receipt p) = TransactionHash (vtEnvelope vt)"
  "caAuditorKeyId (commitment_attestation C key keyID now vt receipt p) = keyID"
  "caL2SignatureDigest (commitment_attestation C key keyID now vt receipt p) = l2SignatureDigest C (vtEnvelope vt)"
  "caHumanSignatureDigest (commitment_attestation C key keyID now vt receipt p) = humanSignatureDigest C (vtEnvelope vt)"
  by (simp_all add: commitment_attestation_def Let_def)

lemma CanonicalizeCommitmentAttestation_unsigned [simp]:
  "CanonicalizeCommitmentAttestation (a\<lparr>caSignature := s\<rparr>) = CanonicalizeCommitmentAttestation a"
  "CanonicalizeCommitmentAttestation (a\<lparr>caHash := h\<rparr>) = CanonicalizeCommitmentAttestation a"
  by (simp_all add: CanonicalizeCommitmentAttestation_def)

lemma commitment_attestation_hash:
  "caHash (commitment_attestation C key keyID now vt receipt p) =
     sha256_hex C (CanonicalizeCommitmentAttestation (commitment_attestation C key keyID now vt receipt p))"
  by (simp add: commitment_attestation_def Let_def CanonicalizeCommitmentAttestation_def)

lemma commitment_attestation_signature:
  "caSignature (commitment_attestation C key keyID now vt receipt p) =
     hex_EncodeToString (ed_sign C key
       (CanonicalizeCommitmentAttestation (commitment_attestation C key keyID now vt receipt p)))"
  by (simp add: commitment_attestation_def Let_def CanonicalizeCommitmentAttestation_def)

section \<open>Sound ledgers\<close>

text \<open>A row is sound when its JSON decodes to an attestation that the columns repeat, whose hash
  is the digest of its canonical bytes, and whose signature verifies under the key it names.\<close>

definition commitmentRowMatchesAttestation :: "CommitmentRow \<Rightarrow> CommitmentAttestation \<Rightarrow> bool" where
  "commitmentRowMatchesAttestation row a \<longleftrightarrow>
     crTransactionID row = caTransactionId a \<and> crTransactionHash row = caTransactionHash a \<and>
     crPriorCommitmentHash row = caPriorCommitmentHash a \<and> crHash row = caHash a \<and>
     crStateRootAtCommit row = caStateRootAtCommit a \<and> crL2SignatureDigest row = caL2SignatureDigest a \<and>
     crWardenIntentSignatureDigest row = caWardenIntentSignatureDigest a \<and>
     crHumanSignatureDigest row = caHumanSignatureDigest a \<and> crActionType row = caActionType a \<and>
     crTargetResource row = caTargetResource a \<and>
     time_UnixMilli (crCommittedAt row) = caCommittedAtUnixMs a \<and>
     crAuditorKeyID row = caAuditorKeyId a \<and> crSignature row = caSignature a"

definition attestation_signed :: "crypto \<Rightarrow> CommitmentAttestation \<Rightarrow> bool" where
  "attestation_signed C a \<longleftrightarrow>
     (case (hex_DecodeString (caAuditorKeyId a), hex_DecodeString (caSignature a)) of
        (Some publicKey, Some signature) \<Rightarrow>
          length publicKey = PublicKeySize \<and>
          ed_verify C publicKey (CanonicalizeCommitmentAttestation a) signature
      | _ \<Rightarrow> False)"

definition sound_row :: "crypto \<Rightarrow> attestation_codec \<Rightarrow> CommitmentRow \<Rightarrow> bool" where
  "sound_row C K row \<longleftrightarrow>
     (\<exists>a. caUnmarshal K (crAttestationJSON row) = Inr a \<and> commitmentRowMatchesAttestation row a \<and>
        crHash row = sha256_hex C (CanonicalizeCommitmentAttestation a) \<and> attestation_signed C a)"

definition sound_ledger :: "crypto \<Rightarrow> attestation_codec \<Rightarrow> CommitmentRow list \<Rightarrow> bool" where
  "sound_ledger C K rows \<longleftrightarrow> linked crHash crPriorCommitmentHash [] rows \<and> list_all (sound_row C K) rows"

lemma ledger_head_eq: "ledger_head rows = head_hash crHash [] rows"
  by (simp add: ledger_head_def head_hash_def)

lemma sound_ledger_snoc:
  "sound_ledger C K (rows @ [r]) \<longleftrightarrow>
     sound_ledger C K rows \<and> crPriorCommitmentHash r = ledger_head rows \<and> sound_row C K r"
  by (auto simp: sound_ledger_def ledger_head_eq)

lemma new_commitment_sound:
  assumes "codec_round_trip K" and "key_pair C key (ed_Public key)" and "length key = PrivateKeySize"
    and "keyID = hex_EncodeToString (ed_Public key)"
    and "a = commitment_attestation C key keyID now vt receipt p" and "caMarshal K a = Inr j"
  shows "sound_row C K (commitment_row rows a p (caHash a) j)"
proof -
  have "caUnmarshal K j = Inr a" using assms(1,6) by (auto simp: codec_round_trip_def)
  moreover have "commitmentRowMatchesAttestation (commitment_row rows a p (caHash a) j) a"
    by (simp add: commitmentRowMatchesAttestation_def commitment_row_def assms(5) UnixMilli_def time_UnixMilli_def)
  moreover have "caHash a = sha256_hex C (CanonicalizeCommitmentAttestation a)"
    unfolding assms(5) by (rule commitment_attestation_hash)
  moreover have "attestation_signed C a"
    using assms(2,3,4)
    by (simp add: attestation_signed_def commitment_attestation_signature assms(5) ed_Public_def key_pair_def)
  ultimately show ?thesis unfolding sound_row_def by (auto simp: commitment_row_def)
qed

lemma persistCommitment_sound:
  assumes "codec_round_trip K" and "key_pair C key (ed_Public key)" and "sound_ledger C K rows"
    and "persistCommitment C K E now key keyID vt receipt (Some rows) = (r, Some rows')"
  shows "sound_ledger C K rows'"
proof (cases "length key = PrivateKeySize \<and> keyID = hex_EncodeToString (ed_Public key)")
  case True
  let ?tx = "\<lambda>i. append_tx K (leFaults E i) (build_commitment C K key keyID (now i) vt receipt)"
  have step: "sound_ledger C K s'" if "sound_ledger C K s" "?tx i s = (Inr a, s')" for i s a s'
  proof -
    from that(2) obtain j where a: "a = commitment_attestation C key keyID (now i) vt receipt (ledger_head s)"
      "caMarshal K a = Inr j" and s': "s' = s @ [commitment_row s a (ledger_head s) (caHash a) j]"
      by (auto simp: append_tx_build_commitment[OF assms(1)])
    from new_commitment_sound[OF assms(1,2) _ _ a] True
    have "sound_row C K (commitment_row s a (ledger_head s) (caHash a) j)" by blast
    then show ?thesis unfolding s' sound_ledger_snoc using that(1) by (simp add: commitment_row_def)
  qed
  have "sound_ledger C K (snd (ExecInImmediateTxWithRetry (leShow E) (leMaxRetries E) (leTx E) ?tx rows))"
    by (rule ExecInImmediateTxWithRetry_invariant[where I = "sound_ledger C K"]) (use step assms(3) in blast)+
  with True assms(4) show ?thesis by (auto simp: persistCommitment_def AppendCommitment_def map_prod_def split: prod.splits)
qed (use assms(3,4) in \<open>auto simp: persistCommitment_def split: if_splits\<close>)

lemma persistCommitment_ledger:
  "\<exists>rows'. snd (persistCommitment C K E now key keyID vt receipt (Some rows)) = Some rows'"
  by (simp add: persistCommitment_def AppendCommitment_def)

section \<open>The head hash fixes the history\<close>

text \<open>The signed content of an attestation: everything but its own hash and signature.\<close>

definition content :: "CommitmentAttestation \<Rightarrow> CommitmentAttestation" where
  "content a = a\<lparr>caHash := [], caSignature := []\<rparr>"

definition attestation_digest :: "crypto \<Rightarrow> CommitmentAttestation \<Rightarrow> string" where
  "attestation_digest C a = sha256_hex C (CanonicalizeCommitmentAttestation a)"

text \<open>Contents whose strings fit the 32-bit length prefixes and whose time is an \<open>int64\<close>,
  under a hash without collisions.\<close>

definition encodable :: "CommitmentAttestation \<Rightarrow> bool" where
  "encodable a \<longleftrightarrow>
     list_all (\<lambda>s. length s < 2 ^ 32) [caTransactionId a, caTransactionHash a, caPriorCommitmentHash a,
       caStateRootAtCommit a, caL2SignatureDigest a, caWardenIntentSignatureDigest a,
       caHumanSignatureDigest a, caActionType a, caTargetResource a, caAuditorKeyId a] \<and>
     in_int64 (caCommittedAtUnixMs a)"

definition chain_content :: "crypto \<Rightarrow> CommitmentAttestation \<Rightarrow> bool" where
  "chain_content C a \<longleftrightarrow> collision_free C \<and> encodable a \<and> content a = a"

lemma CanonicalizeCommitmentAttestation_inj:
  assumes "encodable a" and "encodable b"
    and "CanonicalizeCommitmentAttestation a = CanonicalizeCommitmentAttestation b"
  shows "content a = content b"
proof -
  let ?strings = "\<lambda>a. [caTransactionId a, caTransactionHash a, caPriorCommitmentHash a,
       caStateRootAtCommit a, caL2SignatureDigest a, caWardenIntentSignatureDigest a,
       caHumanSignatureDigest a, caActionType a, caTargetResource a]"
  have eq: "concat (map lp32 (?strings a)) @ (be64_int (caCommittedAtUnixMs a) @ lp32 (caAuditorKeyId a)) =
      concat (map lp32 (?strings b)) @ (be64_int (caCommittedAtUnixMs b) @ lp32 (caAuditorKeyId b))"
    using assms(3) by (simp add: CanonicalizeCommitmentAttestation_def)
  from self_delimiting_concat[OF self_delimiting_lp32 _ _ _ eq] assms(1,2)
  have s: "?strings a = ?strings b"
    and r: "be64_int (caCommittedAtUnixMs a) @ lp32 (caAuditorKeyId a) =
        be64_int (caCommittedAtUnixMs b) @ lp32 (caAuditorKeyId b)"
    by (auto simp: encodable_def)
  from self_delimitingD[OF self_delimiting_be64_int _ _ r] assms(1,2)
  have t: "caCommittedAtUnixMs a = caCommittedAtUnixMs b" and k: "lp32 (caAuditorKeyId a) @ [] = lp32 (caAuditorKeyId b) @ []"
    by (auto simp: encodable_def)
  from self_delimitingD[OF self_delimiting_lp32 _ _ k] assms(1,2)
  have "caAuditorKeyId a = caAuditorKeyId b" by (auto simp: encodable_def)
  with s t show ?thesis by (cases a; cases b) (simp add: content_def)
qed

interpretation commitments: hash_chain "attestation_digest C" caPriorCommitmentHash "chain_content C" for C
proof unfold_locales
  fix a b
  assume a: "chain_content C a" and b: "chain_content C b" and "attestation_digest C a = attestation_digest C b"
  then have "CanonicalizeCommitmentAttestation a = CanonicalizeCommitmentAttestation b"
    by (simp add: attestation_digest_def sha256_hex_def hex_encode_inj chain_content_def collision_free_def inj_eq)
  with a b CanonicalizeCommitmentAttestation_inj[of a b] show "a = b" by (simp add: chain_content_def)
qed

definition stored_content :: "attestation_codec \<Rightarrow> CommitmentRow \<Rightarrow> CommitmentAttestation option" where
  "stored_content K row =
     (case caUnmarshal K (crAttestationJSON row) of Inl _ \<Rightarrow> None | Inr a \<Rightarrow> Some (content a))"

text \<open>A sound ledger is the image of a linked chain of contents.\<close>

definition fits :: "attestation_codec \<Rightarrow> CommitmentRow \<Rightarrow> bool" where
  "fits K row \<longleftrightarrow> (case stored_content K row of None \<Rightarrow> True | Some a \<Rightarrow> encodable a)"

lemma content_simps [simp]:
  "content (content a) = content a" "caPriorCommitmentHash (content a) = caPriorCommitmentHash a"
  "attestation_digest C (content a) = attestation_digest C a" "encodable (content a) = encodable a"
  by (simp_all add: content_def attestation_digest_def encodable_def)

lemma sound_ledger_chain:
  assumes "collision_free C" and "sound_ledger C K rows" and "list_all (fits K) rows"
  shows "\<exists>as. map (stored_content K) rows = map Some as \<and> list_all (chain_content C) as \<and>
     linked (attestation_digest C) caPriorCommitmentHash [] as \<and>
     ledger_head rows = head_hash (attestation_digest C) [] as"
proof -
  let ?f = "\<lambda>r. the (stored_content K r)"
  have row: "stored_content K r = Some (?f r) \<and> chain_content C (?f r) \<and>
      attestation_digest C (?f r) = crHash r \<and> caPriorCommitmentHash (?f r) = crPriorCommitmentHash r"
    if "r \<in> set rows" for r
  proof -
    from that assms(2) obtain a where a: "caUnmarshal K (crAttestationJSON r) = Inr a"
      "commitmentRowMatchesAttestation r a" "crHash r = attestation_digest C a"
      by (auto simp: sound_ledger_def list_all_iff sound_row_def attestation_digest_def)
    moreover have "fits K r" using that assms(3) by (simp add: list_all_iff)
    ultimately show ?thesis
      using assms(1) by (simp add: stored_content_def fits_def chain_content_def commitmentRowMatchesAttestation_def)
  qed
  have "linked (attestation_digest C) caPriorCommitmentHash [] (map ?f rows)"
    using assms(2) row linked_cong[of rows "\<lambda>x. attestation_digest C (?f x)" crHash
        "\<lambda>x. caPriorCommitmentHash (?f x)" crPriorCommitmentHash "[]"]
    by (simp add: linked_map sound_ledger_def)
  moreover have "ledger_head rows = head_hash (attestation_digest C) [] (map ?f rows)"
    using row by (auto simp: ledger_head_def head_hash_def last_map)
  ultimately show ?thesis using row by (intro exI[of _ "map ?f rows"]) (auto simp: list_all_iff)
qed

lemma same_head_same_content:
  assumes "collision_free C" and "\<And>m. sha256 C m \<noteq> []"
    and "sound_ledger C K rows" and "sound_ledger C K rows'"
    and "list_all (fits K) rows" and "list_all (fits K) rows'"
    and "ledger_head rows = ledger_head rows'"
  shows "map (stored_content K) rows = map (stored_content K) rows'"
proof -
  obtain as where as: "map (stored_content K) rows = map Some as" "list_all (chain_content C) as"
    "linked (attestation_digest C) caPriorCommitmentHash [] as"
    "ledger_head rows = head_hash (attestation_digest C) [] as"
    using sound_ledger_chain[OF assms(1,3,5)] by blast
  obtain bs where bs: "map (stored_content K) rows' = map Some bs" "list_all (chain_content C) bs"
    "linked (attestation_digest C) caPriorCommitmentHash [] bs"
    "ledger_head rows' = head_hash (attestation_digest C) [] bs"
    using sound_ledger_chain[OF assms(1,4,6)] by blast
  have ne: "attestation_digest C a \<noteq> []" for a
    using assms(2)[of "CanonicalizeCommitmentAttestation a"]
    by (cases "sha256 C (CanonicalizeCommitmentAttestation a)") (simp_all add: attestation_digest_def sha256_hex_def)
  have "as = bs"
    by (rule commitments.same_head_same_history[OF as(3) bs(3) _ as(2) bs(2) ne]) (use as(4) bs(4) assms(7) in simp)
  with as(1) bs(1) show ?thesis by simp
qed

section \<open>The ledger as an abstract log\<close>

text \<open>The abstract view of the table: the signed contents in order.\<close>

definition abstract_log :: "attestation_codec \<Rightarrow> CommitmentRow list \<Rightarrow> CommitmentAttestation option list" where
  "abstract_log K rows = map (stored_content K) rows"

lemma persistCommitment_cases:
  assumes "codec_round_trip K" and "\<And>i. txClose (leTx E i) = None"
    and "persistCommitment C K E now key keyID vt receipt (Some rows) = (r, ledger')"
  shows "(\<exists>err. r = Inl err) \<and> ledger' = Some rows \<or>
    (\<exists>i a j. r = Inr a \<and> i < leMaxRetries E \<and> length key = PrivateKeySize \<and> keyID = hex_EncodeToString (ed_Public key) \<and>
       a = commitment_attestation C key keyID (now i) vt receipt (ledger_head rows) \<and>
       caMarshal K a = Inr j \<and> caHash a \<notin> crHash ` set rows \<and>
       ledger' = Some (rows @ [commitment_row rows a (ledger_head rows) (caHash a) j]))"
proof (cases "length key = PrivateKeySize \<and> keyID = hex_EncodeToString (ed_Public key)")
  case True
  let ?tx = "\<lambda>i. append_tx K (leFaults E i) (build_commitment C K key keyID (now i) vt receipt)"
  obtain r0 s where run: "ExecInImmediateTxWithRetry (leShow E) (leMaxRetries E) (leTx E) ?tx rows = (r0, s)"
    by (cases "ExecInImmediateTxWithRetry (leShow E) (leMaxRetries E) (leTx E) ?tx rows")
  then have rs: "r = r0" "ledger' = Some s"
    using True assms(3) by (simp_all add: persistCommitment_def AppendCommitment_def)
  from ExecInImmediateTxWithRetry_atomic[OF assms(2) run] True show ?thesis
    unfolding rs append_tx_build_commitment[OF assms(1)] by auto
qed (use assms(3) in \<open>auto simp: persistCommitment_def split: if_splits\<close>)


end
