(* ===== verification/Ledger_Report.thy ===== *)
theory Ledger_Report
  imports Ledger
begin

text \<open>
  \<open>services/reporting/verification.go\<close>: the verification report over the commitment ledger,
  the git state ledger, the file mutations and the receipts. The checks run one after the other
  over a \<open>VerificationResult\<close>. Writing the CSV file is outside the model except for its error.
\<close>

section \<open>Rows of the report\<close>

record VerificationRow =
  Check :: string
  Scope :: string
  Subject :: string
  Result :: string
  Detail :: string

record VerificationResult =
  FailCount :: nat
  Rows :: "VerificationRow list"

abbreviation verifyResultPass :: string where "verifyResultPass \<equiv> ''PASS''"
abbreviation verifyResultFail :: string where "verifyResultFail \<equiv> ''FAIL''"
abbreviation verifyResultSkipped :: string where "verifyResultSkipped \<equiv> ''SKIPPED''"

definition addRow :: "string \<Rightarrow> string \<Rightarrow> string \<Rightarrow> string \<Rightarrow> string \<Rightarrow> VerificationResult \<Rightarrow> VerificationResult" where
  "addRow check scope subject result detail vr =
     \<lparr>FailCount = (if result = verifyResultFail then Suc (FailCount vr) else FailCount vr),
      Rows = Rows vr @ [\<lparr>Check = check, Scope = scope, Subject = subject, Result = result, Detail = detail\<rparr>]\<rparr>"

abbreviation commitment_scope :: string where "commitment_scope \<equiv> ''commitment_ledger''"

section \<open>Check 1: the chain\<close>

text \<open>The loop over the commitments; \<open>prev\<close> is the predecessor, \<open>None\<close> at index 0. It
  answers whether the chain is intact.\<close>

fun chain_loop ::
    "CommitmentRow option \<Rightarrow> CommitmentRow list \<Rightarrow> bool \<Rightarrow> VerificationResult \<Rightarrow> bool \<times> VerificationResult" where
  "chain_loop prev [] chainOK vr = (chainOK, vr)"
| "chain_loop None (c # cs) chainOK vr =
     (if crPriorCommitmentHash c \<noteq> []
      then chain_loop (Some c) cs False
             (addRow ''commitment_chain'' commitment_scope (crHash c) verifyResultFail
               (''first commitment has non-empty prior_commitment_hash: '' @ crPriorCommitmentHash c) vr)
      else chain_loop (Some c) cs chainOK vr)"
| "chain_loop (Some prev) (c # cs) chainOK vr =
     (if crPriorCommitmentHash c \<noteq> crHash prev
      then chain_loop (Some c) cs False
             (addRow ''commitment_chain'' commitment_scope (crHash c) verifyResultFail
               (''prior_commitment_hash '' @ crPriorCommitmentHash c @ '' != previous hash '' @ crHash prev) vr)
      else chain_loop (Some c) cs chainOK vr)"

definition check_chain ::
    "(gov_error \<Rightarrow> string) \<Rightarrow> CommitmentRow list result \<Rightarrow> VerificationResult \<Rightarrow> VerificationResult" where
  "check_chain show commitments vr =
     (case commitments of
        Inl err \<Rightarrow> addRow ''commitment_chain'' commitment_scope ''all'' verifyResultSkipped
                    (''could not read commitments: '' @ show err) vr
      | Inr [] \<Rightarrow> addRow ''commitment_chain'' commitment_scope ''all'' verifyResultPass ''ledger empty (genesis)'' vr
      | Inr cs \<Rightarrow>
         (case chain_loop None cs True vr of
            (chainOK, vr') \<Rightarrow>
              if chainOK
              then addRow ''commitment_chain'' commitment_scope ''all'' verifyResultPass
                     (FormatInt (int (length cs)) @ '' commitments verified'') vr'
              else vr'))"

section \<open>Check 2: hashes and signatures\<close>

text \<open>One iteration: what it adds to the report and the two flags. Canonicalizing a decoded
  attestation never fails.\<close>

definition hash_step ::
    "crypto \<Rightarrow> attestation_codec \<Rightarrow> (gov_error \<Rightarrow> string) \<Rightarrow> CommitmentRow \<Rightarrow>
     bool \<times> bool \<times> VerificationResult \<Rightarrow> bool \<times> bool \<times> VerificationResult" where
  "hash_step C K show c = (\<lambda>(hashesOK, signaturesOK, vr).
     let fail = (\<lambda>check. addRow check commitment_scope (crHash c) verifyResultFail) in
     case caUnmarshal K (crAttestationJSON c) of
       Inl err \<Rightarrow>
         (False, False, fail ''commitment_hash_recompute'' (''invalid attestation JSON: '' @ show err) vr)
     | Inr a \<Rightarrow>
        (let canonical = CanonicalizeCommitmentAttestation a;
             computedHex = sha256_hex C canonical;
             (h1, vr1) = (if commitmentRowMatchesAttestation c a then (hashesOK, vr)
                else (False, fail ''commitment_hash_recompute''
                               ''structured commitment columns diverge from attestation JSON'' vr));
             (h2, vr2) =
               (if computedHex \<noteq> crHash c \<or> computedHex \<noteq> caHash a \<or> caPriorCommitmentHash a \<noteq> crPriorCommitmentHash c
                then (False, fail ''commitment_hash_recompute''
                               ''stored commitment does not match its canonical attestation hash'' vr1)
                else (h1, vr1))
         in if attestation_signed C a then (h2, signaturesOK, vr2)
            else (h2, False, fail ''commitment_signature'' ''Auditor signature verification failed'' vr2)))"

definition check_hashes ::
    "crypto \<Rightarrow> attestation_codec \<Rightarrow> (gov_error \<Rightarrow> string) \<Rightarrow> CommitmentRow list \<Rightarrow> VerificationResult \<Rightarrow>
     VerificationResult" where
  "check_hashes C K show cs vr =
     (if cs = [] then vr
      else case fold (hash_step C K show) cs (True, True, vr) of
        (allHashesOK, allSignaturesOK, vr1) \<Rightarrow>
         (let vr2 = (if allHashesOK
                then addRow ''commitment_hash_recompute'' commitment_scope ''all'' verifyResultPass
                       ''all commitment hashes verified'' vr1
                else vr1)
          in if allSignaturesOK
             then addRow ''commitment_signature'' commitment_scope ''all'' verifyResultPass
                    ''all Auditor signatures verified'' vr2
             else vr2))"

section \<open>Checks 3 to 5\<close>

definition check_git ::
    "(gov_error \<Rightarrow> string) \<Rightarrow> string result option \<Rightarrow> VerificationResult \<Rightarrow> VerificationResult" where
  "check_git show ledger vr =
     (case ledger of
        None \<Rightarrow> addRow ''git_merkle_root'' ''ledger'' ''HEAD'' verifyResultSkipped ''ledger not configured'' vr
      | Some (Inl err) \<Rightarrow>
          addRow ''git_merkle_root'' ''ledger'' ''HEAD'' verifyResultSkipped (''ledger unavailable: '' @ show err) vr
      | Some (Inr merkleRoot) \<Rightarrow>
          if merkleRoot = []
          then addRow ''git_merkle_root'' ''ledger'' ''HEAD'' verifyResultSkipped ''ledger empty (no commits)'' vr
          else addRow ''git_merkle_root'' ''ledger'' merkleRoot verifyResultPass ''HEAD hash captured'' vr)"

record FileMutation =
  Operation :: string
  LedgerHashAfter :: string

text \<open>What the report reads of the audit store.\<close>

record 'r audit_reader =
  readFileMutations :: "FileMutation list result"
  readActionReceipt :: "string \<Rightarrow> 'r option result"

definition write_op :: "FileMutation \<Rightarrow> bool" where
  "write_op m \<longleftrightarrow> Operation m = ''WRITE'' \<or> Operation m = ''CREATE''"

definition check_mutations ::
    "(gov_error \<Rightarrow> string) \<Rightarrow> 'r audit_reader option \<Rightarrow> VerificationResult \<Rightarrow> VerificationResult" where
  "check_mutations show auditStore vr =
     (case auditStore of
        None \<Rightarrow> addRow ''file_mutation_linkage'' ''audit_store'' ''all'' verifyResultSkipped
                  ''audit store not configured'' vr
      | Some s \<Rightarrow>
         (case readFileMutations s of
            Inl err \<Rightarrow> addRow ''file_mutation_linkage'' ''audit_store'' ''all'' verifyResultSkipped
                        (''cannot read mutations: '' @ show err) vr
          | Inr mutations \<Rightarrow>
             (let writeOps = length (filter write_op mutations);
                  missingHash = length (filter (\<lambda>m. write_op m \<and> LedgerHashAfter m = []) mutations)
              in if missingHash > 0
                 then addRow ''file_mutation_linkage'' ''audit_store'' ''all'' verifyResultFail
                        (FormatInt (int missingHash) @ '' WRITE/CREATE mutations missing ledger_hash_after'') vr
                 else addRow ''file_mutation_linkage'' ''audit_store'' ''all'' verifyResultPass
                        (FormatInt (int (length mutations)) @ '' mutations checked ('' @
                         FormatInt (int writeOps) @ '' write/create ops with hashes)'') vr)))"

definition has_receipt :: "'r audit_reader \<Rightarrow> string \<Rightarrow> bool" where
  "has_receipt s tx = (case readActionReceipt s tx of Inr (Some _) \<Rightarrow> True | _ \<Rightarrow> False)"

definition check_receipts ::
    "'r audit_reader option \<Rightarrow> CommitmentRow list result \<Rightarrow> VerificationResult \<Rightarrow> VerificationResult" where
  "check_receipts auditStore commitments vr =
     (case (auditStore, commitments) of
        (Some s, Inr cs) \<Rightarrow>
          (let crosslink = addRow ''receipt_commitment_crosslink'' ''audit_store+commitment_ledger'' ''all'';
               missingReceipts = length (filter (\<lambda>c. crTransactionID c \<noteq> [] \<and> \<not> has_receipt s (crTransactionID c)) cs)
           in if missingReceipts > 0
              then crosslink verifyResultFail
                     (FormatInt (int missingReceipts) @ '' committed transaction_ids have no matching receipt'') vr
              else if cs \<noteq> []
              then crosslink verifyResultPass
                     (''all '' @ FormatInt (int (length cs)) @ '' commitments have matching receipts'') vr
              else crosslink verifyResultPass ''no commitments to cross-link'' vr)
      | _ \<Rightarrow> vr)"

section \<open>The report\<close>

text \<open>\<open>ctxErr i\<close> is \<open>ctx.Err()\<close> before check \<open>i + 1\<close>; \<open>csvErr\<close> the error of
  writing the file.\<close>

record report_env =
  reShow :: "gov_error \<Rightarrow> string"
  ctxErr :: "nat \<Rightarrow> gov_error option"
  csvErr :: "gov_error option"
  reList :: "gov_error option"

definition no_commitments :: "CommitmentRow list result \<Rightarrow> CommitmentRow list" where
  "no_commitments r = (case r of Inl _ \<Rightarrow> [] | Inr cs \<Rightarrow> cs)"

definition guarded ::
    "gov_error option \<Rightarrow> (VerificationResult \<Rightarrow> VerificationResult) \<Rightarrow>
     VerificationResult \<times> gov_error option \<Rightarrow> VerificationResult \<times> gov_error option" where
  "guarded stop check = (\<lambda>(vr, err).
     case err of
       Some e \<Rightarrow> (vr, Some e)
     | None \<Rightarrow> (case stop of Some e \<Rightarrow> (vr, Some e) | None \<Rightarrow> (check vr, None)))"

definition reportVerification ::
    "crypto \<Rightarrow> attestation_codec \<Rightarrow> report_env \<Rightarrow> 'r audit_reader option \<Rightarrow> CommitmentRow list option \<Rightarrow>
     string result option \<Rightarrow> VerificationResult \<times> gov_error option" where
  "reportVerification C K E auditStore cl ledger =
     (let commitments = ListCommitments (reList E) cl;
          (vr, err) =
            guarded (ctxErr E 4) (check_receipts auditStore commitments)
           (guarded (ctxErr E 3) (check_mutations (reShow E) auditStore)
           (guarded (ctxErr E 2) (check_git (reShow E) ledger)
           (guarded (ctxErr E 1) (check_hashes C K (reShow E) (no_commitments commitments))
           (guarded (ctxErr E 0) (check_chain (reShow E) commitments)
              (\<lparr>FailCount = 0, Rows = []\<rparr>, None)))))
      in case err of
           Some e \<Rightarrow> (vr, Some e)
         | None \<Rightarrow>
            (case csvErr E of
               Some e \<Rightarrow> (vr, Some (Errorf ''%w: verification_summary: %w'' [] [Sentinel (Sys ErrReportWriteFailed), e]))
             | None \<Rightarrow> (vr, None)))"

section \<open>What a clean report means\<close>

lemma FailCount_addRow [simp]:
  "FailCount (addRow check scope subject result detail vr) =
     (if result = ''FAIL'' then Suc (FailCount vr) else FailCount vr)"
  by (simp add: addRow_def)

text \<open>Every check only ever raises the count, so a clean report is clean check by check.\<close>

lemma chain_loop_ok:
  "fst (chain_loop prev cs ok vr) \<longleftrightarrow>
     ok \<and> linked crHash crPriorCommitmentHash (case prev of None \<Rightarrow> [] | Some p \<Rightarrow> crHash p) cs"
  by (induction prev cs ok vr rule: chain_loop.induct) auto

lemma chain_loop_count:
  "FailCount vr \<le> FailCount (snd (chain_loop prev cs ok vr)) \<and>
   (ok \<longrightarrow> (fst (chain_loop prev cs ok vr) \<longleftrightarrow> FailCount (snd (chain_loop prev cs ok vr)) = FailCount vr))"
proof (induction prev cs ok vr rule: chain_loop.induct)
  case (2 c cs ok vr)
  then show ?case by (auto simp: chain_loop_ok simp del: FailCount_addRow) (auto simp: )
next
  case (3 p c cs ok vr)
  then show ?case by (auto simp: chain_loop_ok)
qed simp

lemma check_chain_count:
  "FailCount vr \<le> FailCount (check_chain show commitments vr) \<and>
   (commitments = Inr cs \<longrightarrow>
      (FailCount (check_chain show commitments vr) = FailCount vr \<longleftrightarrow> linked crHash crPriorCommitmentHash [] cs))"
proof (cases commitments)
  case (Inr cs')
  obtain ok vr' where run: "chain_loop None cs' True vr = (ok, vr')" by (cases "chain_loop None cs' True vr")
  with chain_loop_count[of vr None cs' True] chain_loop_ok[of None cs' True vr] Inr
  show ?thesis by (cases cs') (auto simp: check_chain_def simp del: chain_loop.simps)
qed (simp add: check_chain_def)

lemma hash_step_count:
  assumes "hash_step C K show c (h, g, vr) = (h', g', vr')"
  shows "FailCount vr \<le> FailCount vr' \<and> (FailCount vr' = FailCount vr \<longleftrightarrow> sound_row C K c)"
proof (cases "caUnmarshal K (crAttestationJSON c)")
  case (Inr a)
  have "sound_row C K c \<longleftrightarrow> commitmentRowMatchesAttestation c a \<and>
      crHash c = sha256_hex C (CanonicalizeCommitmentAttestation a) \<and> attestation_signed C a"
    using Inr by (simp add: sound_row_def)
  moreover have "commitmentRowMatchesAttestation c a \<Longrightarrow>
      crHash c = caHash a \<and> crPriorCommitmentHash c = caPriorCommitmentHash a"
    by (simp add: commitmentRowMatchesAttestation_def)
  ultimately show ?thesis
    using assms Inr by (auto simp: hash_step_def Let_def split: if_splits)
qed (use assms in \<open>auto simp: hash_step_def Let_def sound_row_def\<close>)

lemma hash_fold_count:
  "fold (hash_step C K show) cs (h, g, vr) = (h', g', vr') \<Longrightarrow>
   FailCount vr \<le> FailCount vr' \<and> (FailCount vr' = FailCount vr \<longleftrightarrow> list_all (sound_row C K) cs)"
proof (induction cs arbitrary: h g vr)
  case (Cons c cs)
  obtain h1 g1 vr1 where step: "hash_step C K show c (h, g, vr) = (h1, g1, vr1)"
    by (cases "hash_step C K show c (h, g, vr)")
  with Cons.prems have "fold (hash_step C K show) cs (h1, g1, vr1) = (h', g', vr')" by simp
  from Cons.IH[OF this] hash_step_count[OF step] show ?case by auto
qed simp

lemma check_hashes_count:
  "FailCount vr \<le> FailCount (check_hashes C K show cs vr) \<and>
   (FailCount (check_hashes C K show cs vr) = FailCount vr \<longleftrightarrow> list_all (sound_row C K) cs)"
proof -
  obtain h g vr' where run: "fold (hash_step C K show) cs (True, True, vr) = (h, g, vr')"
    by (cases "fold (hash_step C K show) cs (True, True, vr)")
  from hash_fold_count[OF run] run show ?thesis by (simp add: check_hashes_def Let_def)
qed

lemma later_checks_count:
  "FailCount vr \<le> FailCount (check_git show ledger vr)"
  "FailCount vr \<le> FailCount (check_mutations show auditStore vr)"
  "FailCount vr \<le> FailCount (check_receipts auditStore commitments vr)"
  by (auto simp: check_git_def check_mutations_def check_receipts_def Let_def split: option.splits sum.splits)

lemma clean_receipts:
  assumes "FailCount (check_receipts (Some s) (Inr cs) vr) = FailCount vr" and "c \<in> set cs"
    and "crTransactionID c \<noteq> []"
  shows "has_receipt s (crTransactionID c)"
  using assms by (auto simp: check_receipts_def Let_def filter_empty_conv split: if_splits)

text \<open>A report that ran to its end is the composition of the five checks.\<close>

lemma reportVerification_done:
  assumes "reportVerification C K E auditStore cl ledger = (vr, None)"
  shows "vr = check_receipts auditStore (ListCommitments (reList E) cl)
     (check_mutations (reShow E) auditStore (check_git (reShow E) ledger
       (check_hashes C K (reShow E) (no_commitments (ListCommitments (reList E) cl))
         (check_chain (reShow E) (ListCommitments (reList E) cl) \<lparr>FailCount = 0, Rows = []\<rparr>))))"
  using assms by (auto simp: reportVerification_def guarded_def Let_def split: option.splits)

lemma clean_report:
  assumes "reportVerification C K E auditStore (Some rows) ledger = (vr, None)" and "reList E = None"
    and "FailCount vr = 0"
  shows "sound_ledger C K rows \<and> (\<forall>s. auditStore = Some s \<longrightarrow>
    (\<forall>c\<in>set rows. crTransactionID c \<noteq> [] \<longrightarrow> has_receipt s (crTransactionID c)))"
proof -
  let ?v0 = "\<lparr>FailCount = 0, Rows = []\<rparr>"
  define v1 where "v1 = check_chain (reShow E) (Inr rows) ?v0"
  define v2 where "v2 = check_hashes C K (reShow E) rows v1"
  define v3 where "v3 = check_git (reShow E) ledger v2"
  define v4 where "v4 = check_mutations (reShow E) auditStore v3"
  have vr: "vr = check_receipts auditStore (Inr rows) v4"
    using reportVerification_done[OF assms(1)] assms(2)
    by (simp add: ListCommitments_def no_commitments_def v1_def v2_def v3_def v4_def)
  have le: "FailCount v4 \<le> FailCount vr" "FailCount v3 \<le> FailCount v4" "FailCount v2 \<le> FailCount v3"
    unfolding vr v4_def v3_def by (rule later_checks_count)+
  have h: "FailCount v1 \<le> FailCount v2" "FailCount v2 = FailCount v1 \<longleftrightarrow> list_all (sound_row C K) rows"
    unfolding v2_def using check_hashes_count by blast+
  have c: "FailCount v1 = 0 \<longleftrightarrow> linked crHash crPriorCommitmentHash [] rows"
    unfolding v1_def using check_chain_count[of ?v0 "reShow E" "Inr rows" rows] by simp
  have "sound_ledger C K rows" using le h c assms(3) by (auto simp: sound_ledger_def)
  moreover have "FailCount (check_receipts auditStore (Inr rows) v4) = FailCount v4" using le assms(3) vr by simp
  ultimately show ?thesis using clean_receipts by blast
qed

lemma commitment_checks_count:
  "FailCount (check_hashes C K show rows (check_chain show (Inr rows) vr)) = FailCount vr \<longleftrightarrow> sound_ledger C K rows"
  using check_chain_count[of vr "show" "Inr rows" rows] check_hashes_count[of "check_chain show (Inr rows) vr" C K "show" rows]
  by (auto simp: sound_ledger_def)

section \<open>Tamper evidence\<close>

text \<open>The columns of a row without its position, its signature and its raw JSON; times at the
  millisecond precision of the table.\<close>

definition columns :: "CommitmentRow \<Rightarrow> CommitmentRow" where
  "columns r = r\<lparr>crSeq := 0, crSignature := [], crAttestationJSON := [],
     crCommittedAt := UnixMilli (time_UnixMilli (crCommittedAt r))\<rparr>"

lemma sound_row_columns:
  assumes "sound_row C K r" and "sound_row C K r'" and "stored_content K r = stored_content K r'"
  shows "columns r = columns r'"
proof -
  obtain a where a: "stored_content K r = Some (content a)" "commitmentRowMatchesAttestation r a"
    "crHash r = attestation_digest C (content a)"
    using assms(1) by (auto simp: sound_row_def stored_content_def attestation_digest_def content_def)
  obtain b where b: "stored_content K r' = Some (content b)" "commitmentRowMatchesAttestation r' b"
    "crHash r' = attestation_digest C (content b)"
    using assms(2) by (auto simp: sound_row_def stored_content_def attestation_digest_def content_def)
  from a b assms(3) have "content a = content b" by simp
  with a b show ?thesis
    by (cases r; cases r'; cases a; cases b)
      (simp add: columns_def content_def commitmentRowMatchesAttestation_def)
qed

lemma same_head_same_columns:
  assumes "sound_ledger C K rows" and "sound_ledger C K rows'"
    and "map (stored_content K) rows = map (stored_content K) rows'"
  shows "map columns rows = map columns rows'"
  using assms(3) assms(1,2)[unfolded sound_ledger_def, THEN conjunct2]
proof (induction rows arbitrary: rows')
  case (Cons r rows)
  then obtain r' rs where rows': "rows' = r' # rs" by (cases rows') auto
  have "columns r = columns r'"
    by (rule sound_row_columns[of C K]) (use Cons.prems rows' in simp_all)
  with Cons.IH[of rs] Cons.prems rows' show ?case by simp
qed simp


section \<open>The operator's own ledger\<close>

record commit_call =
  ccEnv :: ledger_env
  ccNow :: "nat \<Rightarrow> int"
  ccTx :: VerifiedTransaction
  ccReceipt :: ActionReceipt

fun commit_all ::
    "crypto \<Rightarrow> attestation_codec \<Rightarrow> bytes \<Rightarrow> string \<Rightarrow> commit_call list \<Rightarrow> CommitmentRow list option \<Rightarrow>
     CommitmentRow list option" where
  "commit_all C K key keyID [] ledger = ledger"
| "commit_all C K key keyID (c # cs) ledger =
     commit_all C K key keyID cs
       (snd (persistCommitment C K (ccEnv c) (ccNow c) key keyID (ccTx c) (ccReceipt c) ledger))"

lemma commit_all_sound:
  assumes "codec_round_trip K" and "key_pair C key (ed_Public key)" and "sound_ledger C K rows"
  shows "\<exists>rows'. commit_all C K key keyID calls (Some rows) = Some rows' \<and> sound_ledger C K rows'"
  using assms(3)
proof (induction calls arbitrary: rows)
  case (Cons c calls)
  obtain r rows' where run: "persistCommitment C K (ccEnv c) (ccNow c) key keyID (ccTx c) (ccReceipt c) (Some rows) = (r, Some rows')"
    using persistCommitment_ledger by (metis prod.collapse)
  from Cons.IH[OF persistCommitment_sound[OF assms(1,2) Cons.prems run]] run show ?case by simp
qed simp

text \<open>C35: Whatever transactions an operator commits, starting from an empty ledger and whichever
  statements, commits and retries fail on the way, the chain, hash and signature checks of the
  verification report over the resulting ledger find no failure.\<close>

theorem own_ledger_verifies:
  assumes "codec_round_trip K" and "key_pair C key (ed_Public key)"
  shows "\<exists>rows. commit_all C K key keyID calls (Some []) = Some rows \<and>
    FailCount (check_hashes C K show rows (check_chain show (Inr rows) \<lparr>FailCount = 0, Rows = []\<rparr>)) = 0"
proof -
  obtain rows where "commit_all C K key keyID calls (Some []) = Some rows" "sound_ledger C K rows"
    using commit_all_sound[OF assms, of "[]"] by (auto simp: sound_ledger_def)
  with commitment_checks_count[of C K "show" rows "\<lparr>FailCount = 0, Rows = []\<rparr>"] show ?thesis by auto
qed

section \<open>A concrete ledger\<close>

text \<open>A signature scheme with 64-byte private keys that end in the public key, and a codec that
  knows two messages.\<close>

definition signing_crypto :: crypto where
  "signing_crypto = marked_crypto\<lparr>ed_sign := (\<lambda>k. toy_sign (drop 32 k))\<rparr>"

definition pair_codec :: "CommitmentAttestation \<Rightarrow> CommitmentAttestation \<Rightarrow> attestation_codec" where
  "pair_codec a b =
     \<lparr>caUnmarshal = (\<lambda>j. if j = ''0'' then Inr a else if j = ''1'' then Inr b else Inl (Sentinel (Sys ErrInternal))),
      caMarshal = (\<lambda>x. if x = a then Inr ''0'' else if x = b then Inr ''1'' else Inl (Sentinel (Sys ErrInternal)))\<rparr>"

definition auditor_key :: bytes where "auditor_key = replicate 64 (CHR ''k'')"

definition auditor_key_id :: string where "auditor_key_id = hex_EncodeToString (ed_Public auditor_key)"

definition committed_tx :: VerifiedTransaction where
  "committed_tx = rejected_transaction signing_crypto sample_warden_env sample_envelope None False False []"

definition first_commitment :: CommitmentAttestation where
  "first_commitment = commitment_attestation signing_crypto auditor_key auditor_key_id 1 committed_tx sample_receipt []"

definition forged_commitment :: CommitmentAttestation where
  "forged_commitment = first_commitment\<lparr>caTransactionId := ''forged''\<rparr>"

definition sample_codec :: attestation_codec where
  "sample_codec = pair_codec first_commitment forged_commitment"

definition quiet_report :: report_env where
  "quiet_report = \<lparr>reShow = (\<lambda>_. []), ctxErr = (\<lambda>_. None), csvErr = None, reList = None\<rparr>"

definition quiet_ledger_env :: ledger_env where
  "quiet_ledger_env = \<lparr>leShow = (\<lambda>_. []), leMaxRetries = 3,
     leTx = (\<lambda>_. \<lparr>txConn = None, txBegin = None, txCommit = None, txRollback = None, txClose = None\<rparr>),
     leFaults = (\<lambda>_. \<lparr>lfSelectHead = None, lfQueryPrior = None, lfInsert = None\<rparr>)\<rparr>"

definition first_row :: CommitmentRow where
  "first_row = commitment_row [] first_commitment [] (caHash first_commitment) ''0''"

definition forged_row :: CommitmentRow where
  "forged_row = commitment_row [] forged_commitment [] (caHash first_commitment) ''1''"

lemma signing_crypto_facts:
  "collision_free signing_crypto" "sha256 signing_crypto m \<noteq> []" "key_pair signing_crypto k (ed_Public k)"
  by (auto simp: signing_crypto_def marked_crypto_def collision_free_def inj_def key_pair_def toy_crypto_def ed_Public_def)

lemma sample_codec_round_trip: "codec_round_trip sample_codec"
proof -
  have "first_commitment \<noteq> forged_commitment"
    by (simp add: forged_commitment_def first_commitment_def commitment_attestation_def Let_def committed_tx_def
        rejected_transaction_def sample_envelope_def)
  then show ?thesis by (auto simp: codec_round_trip_def sample_codec_def pair_codec_def split: if_splits)
qed

lemma first_row_fits: "fits sample_codec first_row" "fits sample_codec forged_row"
  by (simp_all add: fits_def stored_content_def sample_codec_def pair_codec_def first_row_def forged_row_def
      commitment_row_def forged_commitment_def first_commitment_def commitment_attestation_def Let_def
      content_def encodable_def committed_tx_def rejected_transaction_def sample_envelope_def sample_receipt_def
      l2SignatureDigest_def humanSignatureDigest_def SignatureDigest_def auditor_key_id_def auditor_key_def
      ed_Public_def in_int64_def)

lemma first_row_sound: "sound_ledger signing_crypto sample_codec [first_row]"
proof -
  have "sound_row signing_crypto sample_codec first_row"
    unfolding first_row_def
    by (rule new_commitment_sound[OF sample_codec_round_trip signing_crypto_facts(3) _ _ first_commitment_def])
      (simp_all add: auditor_key_def auditor_key_id_def sample_codec_def pair_codec_def)
  then show ?thesis by (simp add: sound_ledger_def first_row_def commitment_row_def)
qed

abbreviation no_store :: "unit audit_reader option" where "no_store \<equiv> None"

lemma first_row_report:
  "\<exists>vr. reportVerification signing_crypto sample_codec quiet_report no_store (Some [first_row]) None = (vr, None) \<and> FailCount vr = 0"
  using commitment_checks_count[of signing_crypto sample_codec "\<lambda>_. []" "[first_row]" "\<lparr>FailCount = 0, Rows = []\<rparr>"]
    first_row_sound
  by (simp add: reportVerification_def quiet_report_def guarded_def ListCommitments_def no_commitments_def
      check_git_def check_mutations_def check_receipts_def)


theorem own_ledger_verifies_witness:
  "\<exists>rows. commit_all signing_crypto sample_codec auditor_key auditor_key_id
      [\<lparr>ccEnv = quiet_ledger_env, ccNow = (\<lambda>_. 1), ccTx = committed_tx, ccReceipt = sample_receipt\<rparr>] (Some []) = Some rows \<and>
    FailCount (check_hashes signing_crypto sample_codec (\<lambda>_. []) rows
      (check_chain (\<lambda>_. []) (Inr rows) \<lparr>FailCount = 0, Rows = []\<rparr>)) = 0"
  by (rule own_ledger_verifies[OF sample_codec_round_trip signing_crypto_facts(3)])

lemma first_commitment_persisted:
  "persistCommitment signing_crypto sample_codec quiet_ledger_env (\<lambda>_. 1) auditor_key auditor_key_id committed_tx
     sample_receipt (Some []) = (Inr first_commitment, Some [first_row])"
proof -
  have m: "caMarshal sample_codec first_commitment = Inr ''0''" "caUnmarshal sample_codec ''0'' = Inr first_commitment"
    by (simp_all add: sample_codec_def pair_codec_def)
  have key: "length auditor_key = 64" by (simp add: auditor_key_def)
  show ?thesis
    by (simp add: persistCommitment_def key auditor_key_id_def[symmetric] AppendCommitment_def quiet_ledger_env_def
        ExecInImmediateTxWithRetry_def numeral_3_eq_3 immediate_attempt_def append_tx_def build_commitment_def Let_def
        ledger_head_def first_commitment_def[symmetric] m appendCommitmentJSON_tx_def first_row_def)
qed


end
