(* ===== verification/Audit_Store.thy ===== *)
theory Audit_Store
  imports Audit_Chain_Facts Ledger_Report
begin

text \<open>
  \<open>services/storage/audit_store.go\<close>: the operator's SQL audit store around the event chain:
  sessions, chained events with encrypted and truncated contents, the receipts projection with
  its upsert, and retention pruning. The vault's cipher and the protojson codec of receipts are
  parameters.
\<close>

section \<open>State\<close>

record session_row =
  sessType :: string
  sessTitle :: string
  sessUserIdentity :: string

text \<open>The \<open>receipts\<close> table; the status column holds the enum.\<close>

record receipt_row =
  rrTransactionHash :: string
  rrInvestigationID :: string
  rrOperatorID :: string
  rrOperatorSessionID :: string
  rrRequestorUserID :: string
  rrActingAppID :: string
  rrEventType :: EventType
  rrActionType :: ActionType
  rrTargetResource :: string
  rrStatus :: ExecutionStatus
  rrResultSummary :: string
  rrStateRootBefore :: string
  rrStateRootAfter :: string
  rrExecutedAtMs :: int
  rrSignerKeyID :: string
  rrSignature :: string
  rrReceiptJSON :: bytes
  rrTimestamp :: string

record audit_db =
  adChain :: audit_tables
  adSessions :: "string \<rightharpoonup> session_row"
  adReceipts :: "string \<rightharpoonup> receipt_row"
  adMutations :: "(int \<times> FileMutation) list"

text \<open>\<open>models.ActionReceiptRecord\<close>.\<close>

record ActionReceiptRecord =
  arTransactionID :: string
  arTransactionHash :: string
  arInvestigationID :: string
  arOperatorID :: string
  arOperatorSessionID :: string
  arRequestorUserID :: string
  arActingAppID :: string
  arEventType :: EventType
  arActionType :: ActionType
  arTargetResource :: string
  arStatus :: ExecutionStatus
  arResultSummary :: string
  arStateRootBefore :: string
  arStateRootAfter :: string
  arExecutedAt :: time
  arSignerKeyID :: string
  arSignature :: string
  arL2Valid :: bool
  arL3Valid :: bool
  arTimestamp :: time
  arActionReceipt :: "ActionReceipt option"

record receipt_codec =
  rcUnmarshal :: "bytes \<Rightarrow> ActionReceipt result"
  rcMarshal :: "ActionReceipt \<Rightarrow> bytes result"

definition receipt_codec_round_trip :: "receipt_codec \<Rightarrow> bool" where
  "receipt_codec_round_trip K \<longleftrightarrow>
     (\<forall>r j. rcMarshal K r = Inr j \<longrightarrow> rcUnmarshal K j = Inr r \<and> j \<noteq> [])"

record vault =
  vUnlocked :: bool
  vEncrypt :: "bytes \<Rightarrow> bytes result"
  vDecrypt :: "bytes \<Rightarrow> bytes result"

record AuditStoreConfig =
  RetentionDays :: int
  OutputTruncationThreshold :: nat
  HeadTailSize :: nat

definition DefaultAuditStoreConfig :: AuditStoreConfig where
  "DefaultAuditStoreConfig = \<lparr>RetentionDays = 90, OutputTruncationThreshold = 102400, HeadTailSize = 51200\<rparr>"

text \<open>The store: configuration, vault and the errors its own statements meet, besides those of
  the chain.\<close>

record store_faults =
  sfSession :: "gov_error option"
  sfVerifySession :: "gov_error option"
  sfReceipt :: "gov_error option"
  sfGet :: "gov_error option"
  sfMutations :: "gov_error option"
  sfReceipts :: "gov_error option"
  sfSessions :: "gov_error option"

record SQLAuditStore =
  asConfig :: AuditStoreConfig
  asVault :: vault
  asCrypto :: crypto
  asCodec :: receipt_codec

record store_call =
  scAudit :: audit_env
  scFaults :: "nat \<Rightarrow> store_faults"

section \<open>Contents\<close>

text \<open>\<open>output[:headSize]\<close> panics when \<open>HeadTailSize\<close> exceeds the output; the
  threshold of a sane configuration is at least \<open>HeadTailSize\<close>. The count is an integer
  difference.\<close>

definition truncateOutput :: "AuditStoreConfig \<Rightarrow> string \<Rightarrow> string \<times> bool" where
  "truncateOutput cfg output =
     (if length output \<le> OutputTruncationThreshold cfg then (output, False)
      else let headSize = HeadTailSize cfg; tailSize = HeadTailSize cfg;
               head = take headSize output; tail = drop (length output - tailSize) output
           in (head @ [CHR 0x0A, CHR 0x0A] @ ''[TRUNCATED: '' @
                 FormatInt (int (length output) - int headSize - int tailSize) @ '' bytes skipped]'' @
                 [CHR 0x0A, CHR 0x0A] @ tail, True))"

definition encryptContent :: "vault \<Rightarrow> string \<Rightarrow> bytes result" where
  "encryptContent v plain =
     (if plain = [] then Inr []
      else if \<not> vUnlocked v then Inl (Sentinel (Audit ErrAuditStoreVaultLocked))
      else case vEncrypt v plain of
        Inl err \<Rightarrow> Inl (Errorf ''%w: %w'' [] [Sentinel (Audit ErrAuditStoreEncryptFailed), err])
      | Inr b \<Rightarrow> Inr b)"

definition decryptContent :: "vault \<Rightarrow> bytes \<Rightarrow> string result" where
  "decryptContent v data =
     (if data = [] then Inr []
      else if \<not> vUnlocked v then Inl (Sentinel (Audit ErrAuditStoreVaultLocked))
      else case vDecrypt v data of
        Inl err \<Rightarrow> Inl (Errorf ''%w: %w'' [] [Sentinel (Audit ErrAuditStoreDecryptFailed), err])
      | Inr b \<Rightarrow> Inr b)"

definition prepareAuditEventInsert :: "SQLAuditStore \<Rightarrow> Event \<Rightarrow> PreparedAuditEventInsert result" where
  "prepareAuditEventInsert S e =
     (let (stdout, stdoutTruncated) = truncateOutput (asConfig S) (evCommandStdout e);
          (stderr, stderrTruncated) = truncateOutput (asConfig S) (evCommandStderr e)
      in case encryptContent (asVault S) (evContentText e) of
           Inl err \<Rightarrow> Inl (Errorf ''%w: %w'' [] [Sentinel (Audit ErrAuditStoreEncryptContentFailed), err])
         | Inr contentTextBytes \<Rightarrow>
        (case encryptContent (asVault S) stdout of
           Inl err \<Rightarrow> Inl (Errorf ''%w: %w'' [] [Sentinel (Audit ErrAuditStoreEncryptStdoutFailed), err])
         | Inr stdoutBytes \<Rightarrow>
        (case encryptContent (asVault S) stderr of
           Inl err \<Rightarrow> Inl (Errorf ''%w: %w'' [] [Sentinel (Audit ErrAuditStoreEncryptStderrFailed), err])
         | Inr stderrBytes \<Rightarrow>
            Inr \<lparr>pEvent = e, pTimestampStr = FormatTimestamp (evTimestamp e), pContentTextBytes = contentTextBytes,
                 pStdoutBytes = stdoutBytes, pStderrBytes = stderrBytes, pStdoutTruncated = stdoutTruncated,
                 pStderrTruncated = stderrTruncated, pEncryptedFlag = vUnlocked (asVault S),
                 pStdoutPlaintext = stdout, pStderrPlaintext = stderr\<rparr>)))"

section \<open>Sessions\<close>

text \<open>\<open>unicode.IsSpace\<close>; \<open>strings.TrimSpace\<close> leaves a text alone when neither its
  first nor its last rune is a space.\<close>

definition IsSpace :: "nat \<Rightarrow> bool" where
  "IsSpace r \<longleftrightarrow> 9 \<le> r \<and> r \<le> 13 \<or> 8192 \<le> r \<and> r \<le> 8202 \<or>
     r \<in> {32, 133, 160, 5760, 8232, 8233, 8239, 8287, 12288}"

definition trimmed :: "string \<Rightarrow> bool" where
  "trimmed s \<longleftrightarrow> s = [] \<or> \<not> IsSpace (hd (runes s)) \<and> \<not> IsSpace (last (runes s))"

text \<open>\<open>INSERT OR IGNORE\<close>.\<close>

definition ensure_session :: "string \<Rightarrow> session_row \<Rightarrow> audit_db \<Rightarrow> audit_db" where
  "ensure_session sid row db =
     (case adSessions db sid of
        Some _ \<Rightarrow> db
      | None \<Rightarrow> db\<lparr>adSessions := (adSessions db)(sid \<mapsto> row)\<rparr>)"

definition CreateSession ::
    "gov_error option \<Rightarrow> string \<Rightarrow> string \<Rightarrow> string \<Rightarrow> string \<Rightarrow> audit_db option \<Rightarrow> unit result \<times> audit_db option" where
  "CreateSession fault sid sessionType title userIdentity store =
     (case store of
        None \<Rightarrow> (Inr (), None)
      | Some db \<Rightarrow>
         if sid = [] \<or> \<not> trimmed sid then (Inl (Sentinel (Audit ErrAuditSessionMissing)), Some db)
         else let fail = (\<lambda>err. Inl (Errorf ''%w: %w'' [] [Sentinel (Audit ErrAuditStoreCreateSessionFailed), err])) in
           case fault of
             Some err \<Rightarrow> (fail err, Some db)
           | None \<Rightarrow>
              (case adSessions db sid of
                 Some _ \<Rightarrow> (fail (Errorf ''UNIQUE constraint failed: sessions.id'' [] []), Some db)
               | None \<Rightarrow>
                   (Inr (), Some (db\<lparr>adSessions := (adSessions db)(sid \<mapsto>
                      \<lparr>sessType = (if sessionType = [] then ''operator'' else sessionType), sessTitle = title,
                       sessUserIdentity = userIdentity\<rparr>)\<rparr>))))"

definition requireExistingSessionConn :: "store_faults \<Rightarrow> Event \<Rightarrow> audit_db \<Rightarrow> unit result" where
  "requireExistingSessionConn F e db =
     (if evType e = EventPlatformAuditChainCheckpointed then Inr ()
      else if evOperatorSessionID e = [] \<or> \<not> trimmed (evOperatorSessionID e)
      then Inl (Sentinel (Audit ErrAuditSessionMissing))
      else case sfVerifySession F of
        Some err \<Rightarrow> Inl (Errorf ''%w: %w'' [] [Sentinel (Audit ErrAuditStoreVerifySessionFailed), err])
      | None \<Rightarrow>
         (case adSessions db (evOperatorSessionID e) of
            None \<Rightarrow> Inl (wrap ''%w: %s'' (Audit ErrAuditSessionUnknown) [evOperatorSessionID e])
          | Some _ \<Rightarrow> Inr ()))"

section \<open>Events\<close>

definition append_event ::
    "SQLAuditStore \<Rightarrow> audit_faults \<Rightarrow> PreparedAuditEventInsert \<Rightarrow> audit_db \<Rightarrow>
     (int \<times> int \<times> string) result \<times> audit_db" where
  "append_event S F p db =
     (case AppendPreparedAuditEvent (asCrypto S) F p (adChain db) of (r, t) \<Rightarrow> (r, db\<lparr>adChain := t\<rparr>))"

definition record_event_tx ::
    "SQLAuditStore \<Rightarrow> store_faults \<Rightarrow> audit_faults \<Rightarrow> Event \<Rightarrow> audit_db \<Rightarrow>
     (int \<times> int \<times> string) result \<times> audit_db" where
  "record_event_tx S F AF e db =
     (let sid = evOperatorSessionID e in
      case (if sid = [] then None else sfSession F) of
        Some err \<Rightarrow> (Inl (Errorf ''audit store: create app session: %w'' [] [err]), db)
      | None \<Rightarrow>
         (let db1 = (if sid = [] then db
              else ensure_session sid \<lparr>sessType = ''app'', sessTitle = sid, sessUserIdentity = sid\<rparr> db)
          in case requireExistingSessionConn F e db1 of
               Inl err \<Rightarrow> (Inl err, db1)
             | Inr _ \<Rightarrow>
                (case prepareAuditEventInsert S e of
                   Inl err \<Rightarrow> (Inl err, db1)
                 | Inr p \<Rightarrow> append_event S AF p db1)))"

text \<open>\<open>RecordEvent\<close> answers the first component, \<open>RecordEventChained\<close> all three.\<close>

definition RecordEventChained ::
    "SQLAuditStore \<Rightarrow> store_call \<Rightarrow> Event \<Rightarrow> audit_db option \<Rightarrow> (int \<times> int \<times> string) result \<times> audit_db option" where
  "RecordEventChained S E e store =
     (case store of
        None \<Rightarrow> (Inl (Sentinel (Audit ErrAuditStoreDBNotInitialized)), None)
      | Some db \<Rightarrow>
         map_prod id Some (ExecInImmediateTxWithRetry (aeShow (scAudit E)) (aeMaxRetries (scAudit E)) (aeTx (scAudit E))
           (\<lambda>i. record_event_tx S (scFaults E i) (aeFaults (scAudit E) i) e) db))"

fun record_events_tx ::
    "SQLAuditStore \<Rightarrow> store_faults \<Rightarrow> audit_faults \<Rightarrow> Event list \<Rightarrow> audit_db \<Rightarrow> unit result \<times> audit_db" where
  "record_events_tx S F AF [] db = (Inr (), db)"
| "record_events_tx S F AF (e # es) db =
     (case requireExistingSessionConn F e db of
        Inl err \<Rightarrow> (Inl err, db)
      | Inr _ \<Rightarrow>
     (case prepareAuditEventInsert S e of
        Inl err \<Rightarrow> (Inl err, db)
      | Inr p \<Rightarrow>
     (case append_event S AF p db of
        (Inl err, db1) \<Rightarrow> (Inl (Errorf ''%w: %w'' [] [Sentinel (Audit ErrAuditStoreExecuteBatchFailed), err]), db1)
      | (Inr _, db1) \<Rightarrow> record_events_tx S F AF es db1)))"

definition RecordEvents ::
    "SQLAuditStore \<Rightarrow> store_call \<Rightarrow> Event list \<Rightarrow> audit_db option \<Rightarrow> unit result \<times> audit_db option" where
  "RecordEvents S E es store =
     (if es = [] then (Inr (), store)
      else case store of
        None \<Rightarrow> (Inl (Sentinel (Audit ErrAuditStoreDBNotInitialized)), None)
      | Some db \<Rightarrow>
         map_prod id Some (ExecInImmediateTxWithRetry (aeShow (scAudit E)) (aeMaxRetries (scAudit E)) (aeTx (scAudit E))
           (\<lambda>i. record_events_tx S (scFaults E i) (aeFaults (scAudit E) i) es) db))"

definition GetAuditChainHead :: "gov_error option \<Rightarrow> audit_db option \<Rightarrow> (int \<times> string) result" where
  "GetAuditChainHead fault store =
     (case store of
        None \<Rightarrow> Inl (Sentinel (Audit ErrAuditStoreDisabled))
      | Some db \<Rightarrow>
         (case fault of
            Some err \<Rightarrow> Inl (Errorf ''audit store: chain head: %w'' [] [err])
          | None \<Rightarrow>
             if chained (adChain db) = [] then Inr (0, auditChainGenesisPrevHash)
             else Inr (erSeq (last (by_seq (chained (adChain db)))), erHash (last (by_seq (chained (adChain db)))))))"

section \<open>Receipts\<close>

abbreviation EventOperatorReceiptRecorded :: EventType where
  "EventOperatorReceiptRecorded \<equiv> ''g8e.v1.operator.receipt.recorded''"

text \<open>An inserted row takes all columns from the record; on a conflict only eight are updated.\<close>

definition upsert_receipt ::
    "ActionReceiptRecord \<Rightarrow> bytes \<Rightarrow> string \<Rightarrow> (string \<rightharpoonup> receipt_row) \<Rightarrow> (string \<rightharpoonup> receipt_row)" where
  "upsert_receipt r receiptJSON timestamp t =
     t(arTransactionID r \<mapsto>
        (case t (arTransactionID r) of
           None \<Rightarrow>
             \<lparr>rrTransactionHash = arTransactionHash r, rrInvestigationID = arInvestigationID r,
              rrOperatorID = arOperatorID r, rrOperatorSessionID = arOperatorSessionID r,
              rrRequestorUserID = arRequestorUserID r, rrActingAppID = arActingAppID r,
              rrEventType = arEventType r, rrActionType = arActionType r,
              rrTargetResource = arTargetResource r, rrStatus = arStatus r,
              rrResultSummary = arResultSummary r, rrStateRootBefore = arStateRootBefore r,
              rrStateRootAfter = arStateRootAfter r, rrExecutedAtMs = time_UnixMilli (arExecutedAt r),
              rrSignerKeyID = arSignerKeyID r, rrSignature = arSignature r,
              rrReceiptJSON = receiptJSON, rrTimestamp = timestamp\<rparr>
         | Some old \<Rightarrow>
             old\<lparr>rrInvestigationID := arInvestigationID r, rrStatus := arStatus r,
               rrResultSummary := arResultSummary r, rrStateRootAfter := arStateRootAfter r,
               rrExecutedAtMs := time_UnixMilli (arExecutedAt r), rrSignature := arSignature r,
               rrReceiptJSON := receiptJSON, rrTimestamp := timestamp\<rparr>))"

definition receipt_event :: "ActionReceiptRecord \<Rightarrow> bytes \<Rightarrow> time \<Rightarrow> Event" where
  "receipt_event r receiptJSON timestamp =
     zero_event\<lparr>evOperatorSessionID := arOperatorSessionID r, evTimestamp := timestamp,
       evType := EventOperatorReceiptRecorded, evContentText := receiptJSON, evTransactionID := arTransactionID r\<rparr>"

definition record_receipt_tx ::
    "SQLAuditStore \<Rightarrow> store_faults \<Rightarrow> audit_faults \<Rightarrow> ActionReceiptRecord \<Rightarrow> bytes \<Rightarrow> time \<Rightarrow> audit_db \<Rightarrow>
     unit result \<times> audit_db" where
  "record_receipt_tx S F AF r receiptJSON timestamp db =
     (let sid = arOperatorSessionID r in
      case (if sid = [] then None else sfSession F) of
        Some err \<Rightarrow> (Inl (Errorf ''audit store: create operator session: %w'' [] [err]), db)
      | None \<Rightarrow>
         (let db1 = (if sid = [] then db
              else ensure_session sid \<lparr>sessType = ''operator'', sessTitle = sid, sessUserIdentity = arOperatorID r\<rparr> db)
          in case sfReceipt F of
               Some err \<Rightarrow> (Inl (Errorf ''audit store: upsert receipt projection: %w'' [] [err]), db1)
             | None \<Rightarrow>
                (let db2 = db1\<lparr>adReceipts := upsert_receipt r receiptJSON (FormatTimestamp timestamp) (adReceipts db1)\<rparr>;
                     e = receipt_event r receiptJSON timestamp
                 in case (if sid = [] then Inr () else requireExistingSessionConn F e db2) of
                      Inl err \<Rightarrow> (Inl err, db2)
                    | Inr _ \<Rightarrow>
                       (case prepareAuditEventInsert S e of
                          Inl err \<Rightarrow> (Inl err, db2)
                        | Inr p \<Rightarrow>
                           (case append_event S AF p db2 of
                              (Inl err, db3) \<Rightarrow> (Inl err, db3)
                            | (Inr _, db3) \<Rightarrow> (Inr (), db3))))))"

definition receipt_json :: "receipt_codec \<Rightarrow> ActionReceipt option \<Rightarrow> bytes result" where
  "receipt_json K r =
     (case r of
        None \<Rightarrow> Inr []
      | Some r \<Rightarrow>
         (case rcMarshal K r of
            Inl err \<Rightarrow> Inl (Errorf ''%w: marshal canonical receipt: %w'' []
                          [Sentinel (Audit ErrAuditStoreRecordReceiptFailed), err])
          | Inr j \<Rightarrow> Inr j))"

definition RecordActionReceipt ::
    "SQLAuditStore \<Rightarrow> store_call \<Rightarrow> time \<Rightarrow> ActionReceiptRecord option \<Rightarrow> audit_db option \<Rightarrow>
     unit result \<times> audit_db option" where
  "RecordActionReceipt S E now record store =
     (case store of
        None \<Rightarrow> (Inl (Sentinel (Audit ErrAuditStoreDBNotInitialized)), None)
      | Some db \<Rightarrow>
     (case record of
        None \<Rightarrow> (Inl (Sentinel (Audit ErrAuditStoreRecordReceiptFailed)), Some db)
      | Some r \<Rightarrow>
     (case receipt_json (asCodec S) (arActionReceipt r) of
        Inl err \<Rightarrow> (Inl err, Some db)
      | Inr receiptJSON \<Rightarrow>
         (let timestamp = (if arTimestamp r = zero_time then now else arTimestamp r) in
          case ExecInImmediateTxWithRetry (aeShow (scAudit E)) (aeMaxRetries (scAudit E)) (aeTx (scAudit E))
             (\<lambda>i. record_receipt_tx S (scFaults E i) (aeFaults (scAudit E) i) r receiptJSON timestamp) db of
            (Inl err, db1) \<Rightarrow>
              (Inl (Errorf ''%w: %w'' [] [Sentinel (Audit ErrAuditStoreRecordReceiptFailed), err]), Some db1)
          | (Inr _, db1) \<Rightarrow> (Inr (), Some db1)))))"

definition parseStoredActionReceipt :: "receipt_codec \<Rightarrow> bytes \<Rightarrow> ActionReceipt option result" where
  "parseStoredActionReceipt K receiptJSON =
     (if receiptJSON = [] then Inr None
      else case rcUnmarshal K receiptJSON of Inl err \<Rightarrow> Inl err | Inr r \<Rightarrow> Inr (Some r))"

definition GetActionReceipt ::
    "SQLAuditStore \<Rightarrow> gov_error option \<Rightarrow> string \<Rightarrow> audit_db option \<Rightarrow> ActionReceiptRecord option result" where
  "GetActionReceipt S fault transactionID store =
     (case store of
        None \<Rightarrow> Inl (Sentinel (Audit ErrAuditStoreDisabled))
      | Some db \<Rightarrow>
     (case fault of
        Some err \<Rightarrow> Inl (Errorf ''%w: %w'' [] [Sentinel (Audit ErrAuditStoreGetReceiptFailed), err])
      | None \<Rightarrow>
     (case adReceipts db transactionID of
        None \<Rightarrow> Inr None
      | Some row \<Rightarrow>
         (case parseStoredActionReceipt (asCodec S) (rrReceiptJSON row) of
            Inl err \<Rightarrow> Inl (Errorf ''%w: unmarshal canonical receipt: %w'' []
                          [Sentinel (Audit ErrAuditStoreGetReceiptFailed), err])
          | Inr ar \<Rightarrow>
              Inr (Some \<lparr>arTransactionID = transactionID, arTransactionHash = rrTransactionHash row,
                arInvestigationID = rrInvestigationID row, arOperatorID = rrOperatorID row,
                arOperatorSessionID = rrOperatorSessionID row, arRequestorUserID = rrRequestorUserID row,
                arActingAppID = rrActingAppID row, arEventType = rrEventType row,
                arActionType = rrActionType row, arTargetResource = rrTargetResource row,
                arStatus = rrStatus row, arResultSummary = rrResultSummary row,
                arStateRootBefore = rrStateRootBefore row, arStateRootAfter = rrStateRootAfter row,
                arExecutedAt = UnixMilli (rrExecutedAtMs row), arSignerKeyID = rrSignerKeyID row,
                arSignature = rrSignature row, arL2Valid = False, arL3Valid = False,
                arTimestamp = (case ParseTimestamp (rrTimestamp row) of Inl _ \<Rightarrow> zero_time | Inr t \<Rightarrow> t),
                arActionReceipt = ar\<rparr>)))))"

section \<open>Retention\<close>

text \<open>\<open>auditStorePrune\<close>: \<open>AddDate(0, 0, -days)\<close> in whole days; the vacuum is not
  modelled. Each statement is its own transaction, so an early error keeps the earlier
  deletions.\<close>

definition sessions_in_use :: "audit_db \<Rightarrow> string set" where
  "sessions_in_use db = erSession ` set (chained (adChain db) @ unchained (adChain db)) \<union>
     {s. \<exists>tx row. adReceipts db tx = Some row \<and> rrOperatorSessionID row = s}"

definition auditStorePrune ::
    "SQLAuditStore \<Rightarrow> store_call \<Rightarrow> time \<Rightarrow> audit_db \<Rightarrow> unit result \<times> audit_db" where
  "auditStorePrune S E now db =
     (let F = scFaults E 0;
          cutoff = FormatTimestamp (now - RetentionDays (asConfig S) * 86400000000000);
          old = erID ` {r \<in> set (chained (adChain db) @ unchained (adChain db)). erTimestamp r < cutoff}
      in case sfMutations F of
           Some err \<Rightarrow> (Inl err, db)
         | None \<Rightarrow>
            (let db1 = db\<lparr>adMutations := filter (\<lambda>m. fst m \<notin> old) (adMutations db)\<rparr> in
             case PruneChainedAuditEvents (asCrypto S) (scAudit E) cutoff (Some (adChain db1)) of
               (Inl err, t) \<Rightarrow> (Inl err, db1\<lparr>adChain := the t\<rparr>)
             | (Inr _, t) \<Rightarrow>
                (let db2 = db1\<lparr>adChain := the t\<rparr> in
                 case sfReceipts F of
                   Some err \<Rightarrow> (Inl err, db2)
                 | None \<Rightarrow>
                    (let db3 = db2\<lparr>adReceipts := delete_where (\<lambda>row. rrTimestamp row < cutoff) (adReceipts db2)\<rparr> in
                     case sfSessions F of
                       Some _ \<Rightarrow> (Inr (), db3)
                     | None \<Rightarrow>
                        (Inr (), db3\<lparr>adSessions := (\<lambda>s. if s \<in> sessions_in_use db3 then adSessions db3 s else None)\<rparr>)))))"

end
