(* ===== verification/Audit_Store_Facts.thy ===== *)
theory Audit_Store_Facts
  imports Audit_Store
begin

text \<open>
  Properties of the audit store: a recorded receipt reads back and is chained, stored command
  output is bounded, and what retention does to the verification report.
\<close>

section \<open>Receipts\<close>

lemma append_event_Inr:
  assumes "append_event S F p db = (Inr x, db')"
  shows "\<exists>t. AppendPreparedAuditEvent (asCrypto S) F p (adChain db) = (Inr x, t) \<and> db' = db\<lparr>adChain := t\<rparr>"
  using assms by (auto simp: append_event_def split: prod.splits)

lemma prepareAuditEventInsert_Inr:
  "prepareAuditEventInsert S e = Inr p \<Longrightarrow> pEvent p = e \<and> pTimestampStr p = FormatTimestamp (evTimestamp e)"
  by (auto simp: prepareAuditEventInsert_def split: prod.splits sum.splits)

lemma ensure_session_keeps [simp]:
  "adReceipts (ensure_session sid row db) = adReceipts db" "adChain (ensure_session sid row db) = adChain db"
  by (simp_all add: ensure_session_def split: option.splits)

lemma record_receipt_tx_Inr:
  assumes "record_receipt_tx S F AF r j ts db = (Inr u, db')"
  shows "adReceipts db' = upsert_receipt r j (FormatTimestamp ts) (adReceipts db) \<and>
    (\<exists>p x. AppendPreparedAuditEvent (asCrypto S) AF p (adChain db) = (Inr x, adChain db') \<and>
       pEvent p = receipt_event r j ts)"
proof -
  let ?sid = "arOperatorSessionID r"
  define db1 where "db1 = (if ?sid = [] then db else ensure_session ?sid
    \<lparr>sessType = ''operator'', sessTitle = ?sid, sessUserIdentity = arOperatorID r\<rparr> db)"
  define db2 where "db2 = db1\<lparr>adReceipts := upsert_receipt r j (FormatTimestamp ts) (adReceipts db1)\<rparr>"
  have keep: "adReceipts db1 = adReceipts db" "adChain db1 = adChain db" by (simp_all add: db1_def)
  from assms obtain p where p: "prepareAuditEventInsert S (receipt_event r j ts) = Inr p"
    and ap: "\<exists>x. append_event S AF p db2 = (Inr x, db')"
    unfolding record_receipt_tx_def Let_def db1_def[symmetric] db2_def[symmetric]
    by (auto split: option.splits sum.splits prod.splits if_splits)
  from ap obtain x where x: "append_event S AF p db2 = (Inr x, db')" by blast
  from append_event_Inr[OF x] obtain t where
    t: "AppendPreparedAuditEvent (asCrypto S) AF p (adChain db2) = (Inr x, t)" "db' = db2\<lparr>adChain := t\<rparr>" by blast
  have "adChain db2 = adChain db" "adReceipts db' = upsert_receipt r j (FormatTimestamp ts) (adReceipts db)"
    using t(2) keep by (simp_all add: db2_def)
  with t prepareAuditEventInsert_Inr[OF p] show ?thesis by (intro conjI exI[of _ p] exI[of _ x]) simp_all
qed

lemma append_adds:
  assumes "AppendPreparedAuditEvent C F p db = (Inr x, db')"
  shows "\<exists>e. chained db' = chained db @ [e] \<and> erType e = evType (pEvent p) \<and>
     erTransactionID e = evTransactionID (pEvent p)"
  using assms by (auto simp: AppendPreparedAuditEvent_def Let_def split: sum.splits option.splits prod.splits)

lemma upsert_receipt_simps:
  "tx \<noteq> arTransactionID r \<Longrightarrow> upsert_receipt r j ts t tx = t tx"
  "\<exists>row. upsert_receipt r j ts t (arTransactionID r) = Some row \<and> rrReceiptJSON row = j \<and>
     rrStatus row = arStatus r \<and> rrResultSummary row = arResultSummary r \<and> rrSignature row = arSignature r \<and>
     rrStateRootAfter row = arStateRootAfter r \<and> rrTimestamp row = ts"
  by (auto simp: upsert_receipt_def split: option.splits)

lemma RecordActionReceipt_run:
  assumes "arActionReceipt r = Some ar"
    and "RecordActionReceipt S E now (Some r) (Some db) = (Inr (), Some db')"
  shows "\<exists>j. rcMarshal (asCodec S) ar = Inr j \<and>
    ExecInImmediateTxWithRetry (aeShow (scAudit E)) (aeMaxRetries (scAudit E)) (aeTx (scAudit E))
      (\<lambda>i. record_receipt_tx S (scFaults E i) (aeFaults (scAudit E) i) r j
         (if arTimestamp r = zero_time then now else arTimestamp r)) db = (Inr (), db')"
proof -
  obtain j where j: "rcMarshal (asCodec S) ar = Inr j" "receipt_json (asCodec S) (arActionReceipt r) = Inr j"
    using assms by (cases "rcMarshal (asCodec S) ar") (auto simp: RecordActionReceipt_def receipt_json_def)
  then show ?thesis using assms by (auto simp: RecordActionReceipt_def Let_def split: sum.splits prod.splits)
qed

lemma recorded_receipt:
  assumes "receipt_codec_round_trip (asCodec S)" and "arActionReceipt r = Some ar"
    and "RecordActionReceipt S E now (Some r) (Some db) = (Inr (), Some db')"
  shows "\<exists>rec. GetActionReceipt S None (arTransactionID r) (Some db') = Inr (Some rec) \<and>
      arActionReceipt rec = Some ar \<and> arStatus rec = arStatus r \<and> arResultSummary rec = arResultSummary r \<and>
      arSignature rec = arSignature r"
    and "list_ex (\<lambda>e. erType e = EventOperatorReceiptRecorded \<and> erTransactionID e = arTransactionID r) (chained (adChain db'))"
proof -
  define ts where "ts = (if arTimestamp r = zero_time then now else arTimestamp r)"
  obtain j where j: "rcMarshal (asCodec S) ar = Inr j" and
    run: "ExecInImmediateTxWithRetry (aeShow (scAudit E)) (aeMaxRetries (scAudit E)) (aeTx (scAudit E))
      (\<lambda>i. record_receipt_tx S (scFaults E i) (aeFaults (scAudit E) i) r j ts) db = (Inr (), db')"
    using RecordActionReceipt_run[OF assms(2,3)] unfolding ts_def by blast
  obtain i d where last: "record_receipt_tx S (scFaults E i) (aeFaults (scAudit E) i) r j ts d = (Inr (), db')"
    using ExecInImmediateTxWithRetry_Inr[OF run] by blast
  from record_receipt_tx_Inr[OF last] obtain p x where
    d': "adReceipts db' = upsert_receipt r j (FormatTimestamp ts) (adReceipts d)"
    "AppendPreparedAuditEvent (asCrypto S) (aeFaults (scAudit E) i) p (adChain d) = (Inr x, adChain db')"
    "pEvent p = receipt_event r j ts" by blast
  from append_adds[OF d'(2)]
  show "list_ex (\<lambda>e. erType e = EventOperatorReceiptRecorded \<and> erTransactionID e = arTransactionID r) (chained (adChain db'))"
    unfolding d'(3) by (auto simp: receipt_event_def)
  obtain row where row: "adReceipts db' (arTransactionID r) = Some row" "rrReceiptJSON row = j"
    "rrStatus row = arStatus r" "rrResultSummary row = arResultSummary r" "rrSignature row = arSignature r"
    using upsert_receipt_simps(2)[of r j "FormatTimestamp ts" "adReceipts d"] d'(1) by auto
  moreover have "parseStoredActionReceipt (asCodec S) j = Inr (Some ar)"
    using assms(1) j(1) by (auto simp: parseStoredActionReceipt_def receipt_codec_round_trip_def)
  ultimately show "\<exists>rec. GetActionReceipt S None (arTransactionID r) (Some db') = Inr (Some rec) \<and>
      arActionReceipt rec = Some ar \<and> arStatus rec = arStatus r \<and> arResultSummary rec = arResultSummary r \<and>
      arSignature rec = arSignature r" by (simp add: GetActionReceipt_def)
qed

lemma recorded_receipt_invariant:
  assumes "arActionReceipt r = Some ar" and "chain_inv (asCrypto S) (adChain db)"
    and "RecordActionReceipt S E now (Some r) (Some db) = (Inr (), Some db')"
  shows "chain_inv (asCrypto S) (adChain db') \<and> (\<forall>tx. tx = arTransactionID r \<or> adReceipts db' tx = adReceipts db tx)"
proof -
  define ts where "ts = (if arTimestamp r = zero_time then now else arTimestamp r)"
  obtain j where run: "ExecInImmediateTxWithRetry (aeShow (scAudit E)) (aeMaxRetries (scAudit E)) (aeTx (scAudit E))
      (\<lambda>i. record_receipt_tx S (scFaults E i) (aeFaults (scAudit E) i) r j ts) db = (Inr (), db')"
    using RecordActionReceipt_run[OF assms(1,3)] unfolding ts_def by blast
  let ?tx = "\<lambda>i. record_receipt_tx S (scFaults E i) (aeFaults (scAudit E) i) r j ts"
  let ?I = "\<lambda>d. chain_inv (asCrypto S) (adChain d) \<and> (\<forall>tx. tx = arTransactionID r \<or> adReceipts d tx = adReceipts db tx)"
  have step: "?I d'" if "?I d" "?tx i d = (Inr a, d')" for i d a d'
  proof -
    from record_receipt_tx_Inr[OF that(2)] obtain p x where
      d': "adReceipts d' = upsert_receipt r j (FormatTimestamp ts) (adReceipts d)"
      "AppendPreparedAuditEvent (asCrypto S) (aeFaults (scAudit E) i) p (adChain d) = (Inr x, adChain d')" by blast
    have "adReceipts d' tx = adReceipts d tx" if "tx \<noteq> arTransactionID r" for tx
      unfolding d'(1) by (rule upsert_receipt_simps(1)[OF that])
    with append_inv[OF _ d'(2)] that(1) show ?thesis by metis
  qed
  have "?I (snd (ExecInImmediateTxWithRetry (aeShow (scAudit E)) (aeMaxRetries (scAudit E)) (aeTx (scAudit E)) ?tx db))"
    by (rule ExecInImmediateTxWithRetry_invariant[where I = ?I]) (use step assms(2) in blast)+
  then show ?thesis by (simp add: run)
qed

text \<open>C38: A recorded receipt can be read back and is part of the chained evidence. After
  \<open>RecordActionReceipt\<close> succeeds, \<open>GetActionReceipt\<close> answers the recorded receipt with
  its status, summary and signature, every other transaction's receipt is untouched, and the
  event chain, grown by the receipt event, still verifies.\<close>

theorem receipt_read_back:
  assumes "receipt_codec_round_trip (asCodec S)" and "arActionReceipt r = Some ar"
    and "chain_inv (asCrypto S) (adChain db)"
    and "RecordActionReceipt S E now (Some r) (Some db) = (Inr (), Some db')"
  shows "(\<exists>rec. GetActionReceipt S None (arTransactionID r) (Some db') = Inr (Some rec) \<and>
      arActionReceipt rec = Some ar \<and> arStatus rec = arStatus r \<and> arResultSummary rec = arResultSummary r \<and>
      arSignature rec = arSignature r)
    \<and> (\<forall>tx. tx = arTransactionID r \<or> adReceipts db' tx = adReceipts db tx)
    \<and> chain_inv (asCrypto S) (adChain db')
    \<and> list_ex (\<lambda>e. erType e = EventOperatorReceiptRecorded \<and> erTransactionID e = arTransactionID r) (chained (adChain db'))"
  using recorded_receipt[OF assms(1,2,4)] recorded_receipt_invariant[OF assms(2,3,4)] by blast

section \<open>Output\<close>

lemma length_decimal_nat: "n < 10 ^ k \<Longrightarrow> 0 < k \<Longrightarrow> length (decimal_nat n) \<le> k"
proof (induction n arbitrary: k rule: decimal_nat.induct)
  case (1 n)
  show ?case
  proof (cases "n < 10")
    case True
    then show ?thesis using 1(3) by (simp add: decimal_nat.simps[of n])
  next
    case False
    then obtain k' where k: "k = Suc k'" "0 < k'" using 1(2,3) by (cases k; cases "k - 1") auto
    then have "n div 10 < 10 ^ k'" using 1(2) by (simp add: div_less_iff_less_mult mult.commute)
    with 1(1)[OF False _ k(2)] False k show ?thesis by (simp add: decimal_nat.simps[of n])
  qed
qed

text \<open>C40: Stored command output is bounded. Output up to the threshold is stored as it is;
  longer output (of any length a Go string can have) is stored as its first and its last
  \<open>HeadTailSize\<close> bytes around a marker, never more than 50 bytes beyond them, for every
  configuration whose head and tail do not overlap at the threshold.\<close>

theorem stored_output_bounded:
  assumes "2 * HeadTailSize cfg \<le> OutputTruncationThreshold cfg" and "length output < 2 ^ 63"
  shows "case truncateOutput cfg output of (stored, truncated) \<Rightarrow>
     (truncated \<longleftrightarrow> OutputTruncationThreshold cfg < length output) \<and>
     (\<not> truncated \<longrightarrow> stored = output) \<and>
     (truncated \<longrightarrow> length stored \<le> 2 * HeadTailSize cfg + 50 \<and>
        take (HeadTailSize cfg) stored = take (HeadTailSize cfg) output \<and>
        drop (length stored - HeadTailSize cfg) stored = drop (length output - HeadTailSize cfg) output)"
proof (cases "length output \<le> OutputTruncationThreshold cfg")
  case True
  then show ?thesis by (simp add: truncateOutput_def)
next
  case False
  let ?h = "HeadTailSize cfg"
  define n where "n = int (length output) - int ?h - int ?h"
  have n: "0 < n" "nat n < 10 ^ 19" using assms False by (simp_all add: n_def)
  have len: "length (FormatInt n) \<le> 19" using n length_decimal_nat[of "nat n" 19] by (simp add: FormatInt_def)
  define a b m where parts: "a = take ?h output" "b = drop (length output - ?h) output"
    "m = [CHR 0x0A, CHR 0x0A] @ ''[TRUNCATED: '' @ FormatInt n @ '' bytes skipped]'' @ [CHR 0x0A, CHR 0x0A]"
  have ab: "length a = ?h" "length b = ?h" "length m \<le> 50" using assms(1) False len by (auto simp: parts)
  have stored: "truncateOutput cfg output = (a @ m @ b, True)"
    using False by (simp add: truncateOutput_def Let_def n_def[symmetric] parts)
  have "drop (length (a @ m @ b) - ?h) (a @ m @ b) = b" by (simp add: ab)
  with False ab stored show ?thesis by (simp add: parts(1,2)[symmetric])
qed

theorem stored_output_bounded_witness:
  "2 * HeadTailSize DefaultAuditStoreConfig \<le> OutputTruncationThreshold DefaultAuditStoreConfig \<and>
   length (fst (truncateOutput DefaultAuditStoreConfig (replicate 200000 (CHR ''x'')))) \<le> 102450"
  using stored_output_bounded[of DefaultAuditStoreConfig "replicate 200000 (CHR ''x'')"]
  by (auto simp: DefaultAuditStoreConfig_def split: prod.splits)

section \<open>Retention and the report\<close>

definition reader_of :: "SQLAuditStore \<Rightarrow> audit_db \<Rightarrow> ActionReceiptRecord audit_reader" where
  "reader_of S db = \<lparr>readFileMutations = Inr (map snd (adMutations db)),
     readActionReceipt = (\<lambda>tx. GetActionReceipt S None tx (Some db))\<rparr>"

lemma auditStorePrune_receipts:
  assumes "auditStorePrune S E now db = (Inr (), db')"
  shows "adReceipts db' = delete_where
     (\<lambda>row. rrTimestamp row < FormatTimestamp (now - RetentionDays (asConfig S) * 86400000000000)) (adReceipts db)"
  using assms by (auto simp: auditStorePrune_def Let_def split: option.splits sum.splits prod.splits)

text \<open>Retention and the commitment ledger disagree. Pruning deletes receipts older than the
  retention period but keeps every commitment, so as soon as one committed transaction is that
  old, the verification report over the operator's own, untampered stores fails: its receipt
  cross-link check counts the pruned receipt as missing.\<close>

theorem retention_fails_verification:
  assumes "auditStorePrune S E now db = (Inr (), db')"
    and "c \<in> set rows" and "crTransactionID c \<noteq> []" and "adReceipts db (crTransactionID c) = Some row"
    and "rrTimestamp row < FormatTimestamp (now - RetentionDays (asConfig S) * 86400000000000)"
    and "reportVerification C K R (Some (reader_of S db')) (Some rows) git = (vr, None)" and "reList R = None"
  shows "0 < FailCount vr"
proof (rule ccontr)
  assume "\<not> 0 < FailCount vr"
  with clean_report[OF assms(6,7)] assms(2,3) have "has_receipt (reader_of S db') (crTransactionID c)" by auto
  moreover have "adReceipts db' (crTransactionID c) = None"
    using auditStorePrune_receipts[OF assms(1)] assms(4,5) by (simp add: delete_where_def)
  ultimately show False by (simp add: has_receipt_def reader_of_def GetActionReceipt_def)
qed


section \<open>A store with one receipt\<close>

definition quiet_call :: store_call where
  "quiet_call = \<lparr>scAudit = calm_audit, scFaults = (\<lambda>_. \<lparr>sfSession = None, sfVerifySession = None, sfReceipt = None,
     sfGet = None, sfMutations = None, sfReceipts = None, sfSessions = None\<rparr>)\<rparr>"

definition one_receipt_codec :: "ActionReceipt \<Rightarrow> receipt_codec" where
  "one_receipt_codec r = \<lparr>rcUnmarshal = (\<lambda>j. if j = ''r'' then Inr r else Inl (Sentinel (Sys ErrInternal))),
     rcMarshal = (\<lambda>r'. if r' = r then Inr ''r'' else Inl (Sentinel (Sys ErrInternal)))\<rparr>"

definition sample_store :: SQLAuditStore where
  "sample_store = \<lparr>asConfig = DefaultAuditStoreConfig,
     asVault = \<lparr>vUnlocked = True, vEncrypt = Inr, vDecrypt = Inr\<rparr>,
     asCrypto = toy_crypto, asCodec = one_receipt_codec sample_receipt\<rparr>"

definition empty_db :: audit_db where
  "empty_db = \<lparr>adChain = empty_tables, adSessions = Map.empty, adReceipts = Map.empty, adMutations = []\<rparr>"

definition sample_record :: ActionReceiptRecord where
  "sample_record = \<lparr>arTransactionID = ''tx-1'', arTransactionHash = ''h'', arInvestigationID = [], arOperatorID = ''op'',
     arOperatorSessionID = [], arRequestorUserID = [], arActingAppID = [], arEventType = [], arActionType = [],
     arTargetResource = [], arStatus = STATUS_COMPLETED, arResultSummary = ''completed'', arStateRootBefore = ''a'',
     arStateRootAfter = ''b'', arExecutedAt = 0, arSignerKeyID = ''k'', arSignature = ''ab'', arL2Valid = False,
     arL3Valid = False, arTimestamp = 0, arActionReceipt = Some sample_receipt\<rparr>"

lemma one_receipt_codec_round_trip: "receipt_codec_round_trip (one_receipt_codec r)"
  by (auto simp: receipt_codec_round_trip_def one_receipt_codec_def split: if_splits)

text \<open>A transaction whose first attempt meets no error commits.\<close>

lemma calm_transaction:
  assumes "fn 0 s = (Inr a, s')"
  shows "ExecInImmediateTxWithRetry show (Suc n) (\<lambda>_. calm_tx) fn s = (Inr a, s')"
  by (simp add: ExecInImmediateTxWithRetry_def immediate_attempt_def calm_tx_def assms)

lemma calm_call:
  "scAudit quiet_call = calm_audit" "aeMaxRetries calm_audit = Suc 2" "aeTx calm_audit = (\<lambda>_. calm_tx)"
  by (simp_all add: quiet_call_def calm_audit_def)

lemma sample_append:
  "\<exists>x t. AppendPreparedAuditEvent C (aeFaults calm_audit i) p empty_tables = (Inr x, t)"
  by (simp add: AppendPreparedAuditEvent_def loadAuditChainHeadConn_def empty_tables_def latest_checkpoint_def
      calm_audit_def Let_def)

lemma sample_prepared:
  "\<exists>p. prepareAuditEventInsert sample_store (receipt_event r j ts) = Inr p"
  by (simp add: prepareAuditEventInsert_def truncateOutput_def receipt_event_def zero_event_def encryptContent_def
      sample_store_def)

lemma sample_receipt_tx:
  "\<exists>db. record_receipt_tx sample_store (scFaults quiet_call i) (aeFaults calm_audit i) sample_record j ts empty_db = (Inr (), db)"
proof -
  obtain p where p: "prepareAuditEventInsert sample_store (receipt_event sample_record j ts) = Inr p"
    using sample_prepared by blast
  obtain x t where "AppendPreparedAuditEvent (asCrypto sample_store) (aeFaults calm_audit i) p empty_tables = (Inr x, t)"
    using sample_append by blast
  with p show ?thesis
    by (simp add: record_receipt_tx_def sample_record_def quiet_call_def append_event_def empty_db_def)
qed

lemma sample_recorded:
  "\<exists>db. RecordActionReceipt sample_store quiet_call 0 (Some sample_record) (Some empty_db) = (Inr (), Some db)"
proof -
  have j: "receipt_json (asCodec sample_store) (arActionReceipt sample_record) = Inr ''r''"
    by (simp add: receipt_json_def sample_store_def sample_record_def one_receipt_codec_def)
  obtain db where db: "record_receipt_tx sample_store (scFaults quiet_call 0) (aeFaults calm_audit 0) sample_record ''r''
      (if arTimestamp sample_record = zero_time then 0 else arTimestamp sample_record) empty_db = (Inr (), db)"
    using sample_receipt_tx by blast
  show ?thesis unfolding RecordActionReceipt_def option.case j sum.case calm_call Let_def
    by (subst calm_transaction[where fn = "\<lambda>i. record_receipt_tx sample_store (scFaults quiet_call i)
          (aeFaults calm_audit i) sample_record ''r''
          (if arTimestamp sample_record = zero_time then 0 else arTimestamp sample_record)", OF db]) simp
qed

theorem receipt_read_back_witness:
  "\<exists>db rec. RecordActionReceipt sample_store quiet_call 0 (Some sample_record) (Some empty_db) = (Inr (), Some db) \<and>
     GetActionReceipt sample_store None ''tx-1'' (Some db) = Inr (Some rec) \<and> arActionReceipt rec = Some sample_receipt"
proof -
  obtain db where db: "RecordActionReceipt sample_store quiet_call 0 (Some sample_record) (Some empty_db) = (Inr (), Some db)"
    using sample_recorded by blast
  have "receipt_codec_round_trip (asCodec sample_store)" "arActionReceipt sample_record = Some sample_receipt"
    "chain_inv (asCrypto sample_store) (adChain empty_db)"
    by (simp_all add: sample_store_def one_receipt_codec_round_trip sample_record_def empty_db_def empty_tables_def chain_inv_empty)
  from receipt_read_back[OF this db] db show ?thesis by (auto simp: sample_record_def)
qed

text \<open>A year later the receipt of \<open>first_row\<close>'s transaction is pruned.\<close>

definition a_year_later :: time where
  "a_year_later = 365 * 86400000000000"

definition old_receipt_db :: audit_db where
  "old_receipt_db = empty_db\<lparr>adReceipts := upsert_receipt
     (sample_record\<lparr>arTransactionID := crTransactionID first_row\<rparr>) ''r'' (FormatTimestamp 0) Map.empty\<rparr>"

lemma old_receipt_pruned:
  "\<exists>db. auditStorePrune sample_store quiet_call a_year_later old_receipt_db = (Inr (), db)"
proof -
  have none: "prune_tx C (aeFaults calm_audit 0) now cutoff empty_tables = (Inr (), empty_tables)" for C now cutoff
    by (simp add: prune_tx_def by_seq_def empty_tables_def calm_audit_def)
  have "PruneChainedAuditEvents C calm_audit cutoff (Some empty_tables) = (Inr (), Some empty_tables)" for C cutoff
    unfolding PruneChainedAuditEvents_def option.case calm_call by (subst calm_transaction) (simp_all add: none)
  then show ?thesis
    by (simp add: auditStorePrune_def Let_def calm_call old_receipt_db_def empty_db_def)
      (simp add: quiet_call_def Let_def)
qed

theorem retention_fails_verification_witness:
  "\<exists>db. auditStorePrune sample_store quiet_call a_year_later old_receipt_db = (Inr (), db) \<and>
     0 < FailCount (fst (reportVerification signing_crypto sample_codec quiet_report
       (Some (reader_of sample_store db)) (Some [first_row]) None))"
proof -
  obtain db where db: "auditStorePrune sample_store quiet_call a_year_later old_receipt_db = (Inr (), db)"
    using old_receipt_pruned by blast
  obtain vr where r: "reportVerification signing_crypto sample_codec quiet_report
      (Some (reader_of sample_store db)) (Some [first_row]) None = (vr, None)"
    by (simp add: reportVerification_def quiet_report_def guarded_def Let_def)
  have tx: "crTransactionID first_row \<noteq> []"
    by (simp add: first_row_def commitment_row_def first_commitment_def commitment_attestation_def Let_def
        committed_tx_def rejected_transaction_def sample_envelope_def)
  obtain row where row: "adReceipts old_receipt_db (crTransactionID first_row) = Some row"
    "rrTimestamp row = FormatTimestamp 0"
    by (simp add: old_receipt_db_def upsert_receipt_def)
  have "FormatTimestamp 0 < FormatTimestamp (a_year_later - 90 * 86400000000000)"
    by (rule FormatTimestamp_less) (simp_all add: four_digit_year_def a_year_later_def)
  then have "rrTimestamp row < FormatTimestamp (a_year_later - RetentionDays (asConfig sample_store) * 86400000000000)"
    by (simp add: row sample_store_def DefaultAuditStoreConfig_def)
  from retention_fails_verification[OF db _ tx row(1) this r] db r show ?thesis
    by (auto simp: quiet_report_def)
qed

end
