(* ===== verification/Actuator.thy ===== *)
theory Actuator
  imports Capability Audit_Store_Facts
begin

text \<open>
  \<open>services/governance/l5_actuator.go\<close>: the single execution boundary. \<open>Execute\<close>
  signs and stores an EXECUTING receipt, appends a commitment, mints a capability, calls the
  handler, dissolves the capability and stores the final signed receipt with its persistence
  attestation. The handler, the publisher, the state root provider and the rehydration of
  payloads are the interfaces the actuator is built on; they are functions of its state, because
  a handler reads and writes the same stores.
\<close>

section \<open>State and interfaces\<close>

text \<open>\<open>pubsub.PubSubCommandMessage\<close>, the message type that passes the boundary, with the fields
  the callers fill.\<close>

record CommandMessage =
  cmID :: string
  cmEventType :: EventType
  cmCaseID :: string
  cmTaskID :: string
  cmInvestigationID :: string
  cmWebSessionID :: string
  cmCLISessionID :: string
  cmOperatorSessionID :: string
  cmOperatorID :: string
  cmPayload :: bytes
  cmTimestamp :: time

record 'w actuator_state =
  acAudit :: "audit_db option"
  acLedger :: "CommitmentRow list option"
  acDocs :: "string \<rightharpoonup> bytes"
  acCaps :: cap_heap
  acWorld :: 'w

text \<open>\<open>SQLAuditStore\<close> is nil on a node without an audit store; \<open>acLedger\<close> is its
  commitment ledger. \<open>ConsoleAuditStore\<close> holds the JSON encoder of records when the console
  store is present. A state root provider answers a root and an error; the root is used even
  when there is an error.\<close>

record 'w L5Actuator =
  acStore :: "SQLAuditStore option"
  acAttestation :: attestation_codec
  acStageMarshal :: stage_marshal
  acCrypto :: crypto
  ConsoleAuditStore :: "(ActionReceiptRecord \<Rightarrow> bytes result) option"
  acStateRoot :: "('w actuator_state \<Rightarrow> string \<times> gov_error option) option"
  acHandler :: "((string \<rightharpoonup> cap_addr) \<Rightarrow> EventType \<Rightarrow> CommandMessage option \<Rightarrow> 'w actuator_state \<Rightarrow>
     (string \<times> gov_error option) \<times> 'w actuator_state) option"
  Scrubbing :: "(bytes \<Rightarrow> bytes result) option"
  ReceiptPublisher :: "(GovernanceEnvelope \<Rightarrow> ActionReceipt \<Rightarrow> 'w actuator_state \<Rightarrow>
     gov_error option \<times> 'w actuator_state) option"
  SigningKey :: bytes
  KeyID :: string
  AuditorSigningKey :: bytes
  AuditorKeyID :: string
  acShow :: "gov_error \<Rightarrow> string"

text \<open>What one call to \<open>LogReceipt\<close> meets: the readings of the clock, the console store's
  error and the audit store's environment.\<close>

record log_env =
  lgNow :: time
  lgRecordNow :: time
  lgDoc :: "gov_error option"
  lgStore :: store_call

record actuator_env =
  acMono :: "nat \<Rightarrow> int"
  acInitialMs :: int
  acFinalMs :: int
  acPersistedMs :: int
  acLog :: "nat \<Rightarrow> log_env"
  acLedgerEnv :: ledger_env
  acCommitMs :: "nat \<Rightarrow> int"
  acRand :: "bytes result"

section \<open>Building receipts\<close>

definition root_now :: "'w L5Actuator \<Rightarrow> 'w actuator_state \<Rightarrow> string" where
  "root_now A st = (case acStateRoot A of None \<Rightarrow> [] | Some f \<Rightarrow> fst (f st))"

definition l2_status :: "VerifiedTransaction \<Rightarrow> L2Status" where
  "l2_status vt =
     (case vtPosture vt of
        None \<Rightarrow> L2_NOT_REQUIRED
      | Some p \<Rightarrow>
          if RequiresL2Signature p then (if vtL2Valid vt then L2_REQUIRED_VALID else L2_REQUIRED_FAILED)
          else L2_NOT_REQUIRED)"

definition l3_status :: "VerifiedTransaction \<Rightarrow> L3Status" where
  "l3_status vt =
     (case vtPosture vt of
        None \<Rightarrow> L3_NOT_REQUIRED
      | Some p \<Rightarrow>
          if RequiresL3Proof p then (if vtL3Valid vt then L3_REQUIRED_VALID else L3_REQUIRED_FAILED)
          else L3_NOT_REQUIRED)"

definition buildInitialReceipt ::
    "'w L5Actuator \<Rightarrow> int \<Rightarrow> VerifiedTransaction \<Rightarrow> 'w actuator_state \<Rightarrow> ActionReceipt" where
  "buildInitialReceipt A nowMs vt st =
     \<lparr>rTransactionId = Id (vtEnvelope vt), rTransactionHash = TransactionHash (vtEnvelope vt),
      rStatus = STATUS_EXECUTING, rResultSummary = ''executing'', rStateRootBefore = root_now A st,
      rStateRootAfter = [], rExecutedAtUnixMs = nowMs, rSignerKeyId = KeyID A, rSignature = [],
      rL2Status = l2_status vt, rL3Status = l3_status vt, rStages = vtStages vt,
      rFinalPersistenceAttestation = None, rFailureCode = FC_UNSPECIFIED,
      rEventType = EnvEventType (vtEnvelope vt), rActionType = EnvActionType (vtEnvelope vt)\<rparr>"

definition classifyReceiptFailure :: "gov_error option \<Rightarrow> ReceiptFailureCode" where
  "classifyReceiptFailure execErr =
     (case execErr of
        None \<Rightarrow> FC_UNSPECIFIED
      | Some err \<Rightarrow>
         if errors_Is err (Inference ErrInferenceModelOverrideDenied) then FC_MODEL_OVERRIDE_DENIED
         else if errors_Is err (Inference ErrInferenceRoleInvalid) then FC_ROLE_INVALID
         else if errors_Is err (Inference ErrInferenceModelRefInvalid) then FC_MODEL_REF_INVALID
         else if errors_Is err (Inference ErrInferenceBackendUnavailable) \<or>
                 errors_Is err (Inference ErrInferenceBackendNotRegistered) then FC_BACKEND_UNAVAILABLE
         else if errors_Is err (Inference ErrInferenceBackendTimeout) then FC_BACKEND_TIMEOUT
         else if errors_Is err (Inference ErrInferenceGenerateFailed) then FC_GENERATE_FAILED
         else if errors_Is err (Inference ErrInferenceModelNotFound) then FC_MODEL_NOT_FOUND
         else if errors_Is err (Inference ErrInferenceProviderResponseInvalid) then FC_PROVIDER_RESPONSE_INVALID
         else if errors_Is err (Inference ErrInferenceGenerationOptionsInvalid) then FC_GENERATION_OPTIONS_INVALID
         else if errors_Is err (Inference ErrInferenceCapabilityUnsupported) then FC_CAPABILITY_UNSUPPORTED
         else if errors_Is err (Inference ErrInferenceToolsUnsupported) then FC_TOOLS_UNSUPPORTED
         else if errors_Is err (Inference ErrInferenceContextOverflow) then FC_CONTEXT_OVERFLOW
         else if errors_Is err (Inference ErrInferenceProviderAttemptRequired) then FC_PROVIDER_ATTEMPT_REQUIRED
         else if errors_Is err (Inference ErrInferenceIdentityMismatch) then FC_IDENTITY_MISMATCH
         else if errors_Is err (Inference ErrInferenceModelDigestMismatch) then FC_MODEL_DIGEST_MISMATCH
         else if errors_Is err (Inference ErrInferenceEvidenceHashInvalid) then FC_EVIDENCE_HASH_INVALID
         else if errors_Is err (Inference ErrInferenceModelRegistryInvalid) then FC_MODEL_REGISTRY_INVALID
         else if errors_Is err (Inference ErrInferenceCampaignBindingInvalid) then FC_CAMPAIGN_BINDING_INVALID
         else FC_EXECUTION_FAILED)"

definition finalizeReceipt ::
    "'w L5Actuator \<Rightarrow> int \<Rightarrow> string \<Rightarrow> gov_error option \<Rightarrow> 'w actuator_state \<Rightarrow> ActionReceipt \<Rightarrow> ActionReceipt" where
  "finalizeReceipt A nowMs summary execErr st receipt =
     receipt\<lparr>rStatus := (case execErr of None \<Rightarrow> STATUS_COMPLETED | Some _ \<Rightarrow> STATUS_FAILED),
       rResultSummary := (case execErr of
           None \<Rightarrow> if summary = [] then ''completed'' else summary
         | Some err \<Rightarrow> acShow A (Errorf ''failed: %w'' [] [err])),
       rFailureCode := classifyReceiptFailure execErr,
       rStateRootAfter := root_now A st,
       rExecutedAtUnixMs := nowMs\<rparr>"

section \<open>Signing and logging\<close>

definition signReceipt :: "'w L5Actuator \<Rightarrow> ActionReceipt \<Rightarrow> string result" where
  "signReceipt A r =
     (if SigningKey A = [] then Inl (Sentinel (Actuator ErrL5ActuatorSigningKeyMissing))
      else case CanonicalizeActionReceipt (acCrypto A) (acStageMarshal A) r of
        Inl err \<Rightarrow> Inl (Errorf ''%w: %w'' [] [Sentinel (Actuator ErrL5ActuatorCanonicalizeReceipt), err])
      | Inr payload \<Rightarrow> Inr (hex_EncodeToString (ed_sign (acCrypto A) (SigningKey A) payload)))"

definition BuildReceiptRecord :: "GovernanceEnvelope \<Rightarrow> ActionReceipt \<Rightarrow> time \<Rightarrow> ActionReceiptRecord" where
  "BuildReceiptRecord env r now =
     \<lparr>arTransactionID = rTransactionId r, arTransactionHash = rTransactionHash r,
      arInvestigationID = InvestigationId env, arOperatorID = OperatorId env,
      arOperatorSessionID = OperatorSessionId env, arRequestorUserID = RequestorUserId env,
      arActingAppID = ActingAppId env,
      arEventType = (if EnvEventType env = [] \<and> rEventType r \<noteq> [] then rEventType r else EnvEventType env),
      arActionType = EnvActionType env, arTargetResource = TargetResource env, arStatus = rStatus r,
      arResultSummary = rResultSummary r, arStateRootBefore = rStateRootBefore r,
      arStateRootAfter = rStateRootAfter r, arExecutedAt = UnixMilli (rExecutedAtUnixMs r),
      arSignerKeyID = rSignerKeyId r, arSignature = rSignature r,
      arL2Valid = (rL2Status r = L2_REQUIRED_VALID), arL3Valid = (rL3Status r = L3_REQUIRED_VALID),
      arTimestamp = now, arActionReceipt = Some r\<rparr>"

text \<open>The callers always have an envelope.\<close>

definition logReceiptDocument ::
    "'w L5Actuator \<Rightarrow> log_env \<Rightarrow> GovernanceEnvelope \<Rightarrow> ActionReceipt \<Rightarrow> 'w actuator_state \<Rightarrow>
     gov_error option \<times> 'w actuator_state" where
  "logReceiptDocument A L env r st =
     (case ConsoleAuditStore A of
        None \<Rightarrow> (None, st)
      | Some marshal \<Rightarrow>
         (case marshal (BuildReceiptRecord env r (lgNow L)) of
            Inl err \<Rightarrow> (Some (Errorf ''%w: %w'' [] [Sentinel (Actuator ErrL5ActuatorMarshalReceipt), err]), st)
          | Inr document \<Rightarrow>
             (case lgDoc L of
                Some err \<Rightarrow> (Some (Errorf ''%w: %w'' [] [Sentinel (Actuator ErrL5ActuatorDocStore), err]), st)
              | None \<Rightarrow> (None, st\<lparr>acDocs := (acDocs st)(rTransactionId r \<mapsto> document)\<rparr>))))"

definition LogReceipt ::
    "'w L5Actuator \<Rightarrow> log_env \<Rightarrow> GovernanceEnvelope \<Rightarrow> ActionReceipt \<Rightarrow> 'w actuator_state \<Rightarrow>
     gov_error option \<times> 'w actuator_state" where
  "LogReceipt A L env r st =
     (case logReceiptDocument A L env r st of (docErr, st1) \<Rightarrow>
      (case acStore A of
         None \<Rightarrow> (docErr, st1)
       | Some S \<Rightarrow>
          (case RecordActionReceipt S (lgStore L) (lgRecordNow L)
                  (Some (BuildReceiptRecord env r (lgRecordNow L))) (acAudit st1) of
             (Inl err, db) \<Rightarrow>
               (case docErr of
                  Some d \<Rightarrow>
                    (Some (Errorf ''%w: %v, doc store error: %v'' [acShow A err, acShow A d]
                       [Sentinel (Actuator ErrL5ActuatorAuditStore)]), st1\<lparr>acAudit := db\<rparr>)
                | None \<Rightarrow>
                    (Some (Errorf ''%w: %w'' [] [Sentinel (Actuator ErrL5ActuatorAuditStore), err]),
                     st1\<lparr>acAudit := db\<rparr>))
           | (Inr _, db) \<Rightarrow> (docErr, st1\<lparr>acAudit := db\<rparr>))))"

definition signAndLogReceipt ::
    "'w L5Actuator \<Rightarrow> log_env \<Rightarrow> VerifiedTransaction \<Rightarrow> ActionReceipt \<Rightarrow> 'w actuator_state \<Rightarrow>
     ActionReceipt result \<times> 'w actuator_state" where
  "signAndLogReceipt A L vt receipt st =
     (case signReceipt A receipt of
        Inl err \<Rightarrow> (Inl (Errorf ''%w: %w'' [] [Sentinel (Actuator ErrL5ActuatorSignReceipt), err]), st)
      | Inr sig \<Rightarrow>
         (let receipt = receipt\<lparr>rSignature := sig\<rparr> in
          case LogReceipt A L (vtEnvelope vt) receipt st of
            (Some err, st1) \<Rightarrow> (Inl (Errorf ''%w: %w'' [] [Sentinel (Actuator ErrL5ActuatorLogReceipt), err]), st1)
          | (None, st1) \<Rightarrow> (Inr receipt, st1)))"

definition signReceiptPersistenceAttestation ::
    "'w L5Actuator \<Rightarrow> int \<Rightarrow> ActionReceipt \<Rightarrow> ReceiptPersistenceAttestation" where
  "signReceiptPersistenceAttestation A nowMs receipt =
     (let a = \<lparr>paTransactionId = rTransactionId receipt,
               paReceiptSignatureDigest = SignatureDigest (acCrypto A) [rSignature receipt],
               paPersistedAtUnixMs = nowMs, paAuditRecordId = rTransactionId receipt,
               paSignerKeyId = KeyID A, paSignature = []\<rparr>
      in a\<lparr>paSignature := hex_EncodeToString (ed_sign (acCrypto A) (SigningKey A)
             (CanonicalizeReceiptPersistenceAttestation a))\<rparr>)"

text \<open>The receipt is a pointer: what was already written to it stays written when a later step
  fails.\<close>

definition signAndLogFinalReceipt ::
    "'w L5Actuator \<Rightarrow> actuator_env \<Rightarrow> VerifiedTransaction \<Rightarrow> ActionReceipt \<Rightarrow> 'w actuator_state \<Rightarrow>
     gov_error option \<times> ActionReceipt \<times> 'w actuator_state" where
  "signAndLogFinalReceipt A E vt receipt st =
     (case signReceipt A receipt of
        Inl err \<Rightarrow> (Some (Errorf ''%w: %w'' [] [Sentinel (Actuator ErrL5ActuatorSignReceipt), err]), receipt, st)
      | Inr finalSig \<Rightarrow>
         (let r1 = receipt\<lparr>rSignature := finalSig\<rparr> in
          case LogReceipt A (acLog E 1) (vtEnvelope vt) r1 st of
            (Some err, st1) \<Rightarrow>
              (Some (Errorf ''%w: %w'' [] [Sentinel (Actuator ErrL5ActuatorLogReceipt), err]), r1, st1)
          | (None, st1) \<Rightarrow>
             (let r2 = r1\<lparr>rFinalPersistenceAttestation :=
                         Some (signReceiptPersistenceAttestation A (acPersistedMs E) r1)\<rparr> in
              case LogReceipt A (acLog E 2) (vtEnvelope vt) r2 st1 of
                (Some err, st2) \<Rightarrow>
                  (Some (Errorf ''%w: %w'' [] [Sentinel (Actuator ErrL5ActuatorLogReceipt), err]), r2, st2)
              | (None, st2) \<Rightarrow> (None, r2, st2))))"


section \<open>Execution\<close>

definition rehydratePayload ::
    "'w L5Actuator \<Rightarrow> CommandMessage option \<Rightarrow> CommandMessage option result" where
  "rehydratePayload A cmdMsg =
     (case (Scrubbing A, cmdMsg) of
        (Some rehydrate, Some m) \<Rightarrow>
          if cmPayload m = [] then Inr cmdMsg
          else (case rehydrate (cmPayload m) of
             Inl err \<Rightarrow> Inl (Errorf ''%w: %w'' [] [Sentinel (Actuator ErrL5ActuatorRehydrate), err])
           | Inr p \<Rightarrow> Inr (Some (m\<lparr>cmPayload := p\<rparr>)))
      | _ \<Rightarrow> Inr cmdMsg)"

text \<open>The guards at the head of \<open>Execute\<close>.\<close>

definition execute_guard :: "'w L5Actuator \<Rightarrow> VerifiedTransaction \<Rightarrow> 'w actuator_state \<Rightarrow> gov_error option" where
  "execute_guard A vt st =
     (if acHandler A = None then Some (Sentinel (Actuator ErrL5ActuatorExecutionHandlerNotSet))
      else if SigningKey A = [] then Some (Sentinel (Actuator ErrL5ActuatorSigningKeyMissing))
      else if acStore A \<noteq> None \<and> AuditorSigningKey A = []
      then Some (Sentinel (Actuator ErrL5ActuatorAuditorKeyMissing))
      else if acStore A \<noteq> None \<and> AuditorKeyID A = []
      then Some (Sentinel (Actuator ErrL5ActuatorAuditorKeyIDMissing))
      else if acStore A \<noteq> None \<and> acLedger st = None
      then Some (Sentinel (Actuator ErrL5ActuatorCommitmentLedger))
      else if EnvEventType (vtEnvelope vt) = [] then Some (Sentinel (Tx ErrTxUnknownEventType))
      else None)"

definition receipt_stage ::
    "'w L5Actuator \<Rightarrow> actuator_env \<Rightarrow> VerifiedTransaction \<Rightarrow> ActionReceipt \<Rightarrow> StageEvidence" where
  "receipt_stage A E vt receipt =
     (newDeterministicStageEvidence (vtEnvelope vt) KIND_RECEIPT_PERSISTENCE (acMono E 0) (acMono E 1) OUTCOME_COMPLETED)
       \<lparr>StSignerKeyId := rSignerKeyId receipt,
        StReceiptSignatureDigest := SignatureDigest (acCrypto A) [rSignature receipt],
        StAuditRecordId := rTransactionId receipt\<rparr>"

definition commitment_stage :: "actuator_env \<Rightarrow> VerifiedTransaction \<Rightarrow> CommitmentAttestation \<Rightarrow> StageEvidence" where
  "commitment_stage E vt a =
     (newDeterministicStageEvidence (vtEnvelope vt) KIND_COMMITMENT_APPEND (acMono E 2) (acMono E 3) OUTCOME_COMPLETED)
       \<lparr>StSignerKeyId := caAuditorKeyId a, CommitmentHash := caHash a,
        StPriorCommitmentHash := caPriorCommitmentHash a, StL2SignatureDigest := caL2SignatureDigest a,
        L3SignatureDigest := caHumanSignatureDigest a\<rparr>"

definition add_stage :: "StageEvidence \<Rightarrow> ActionReceipt \<Rightarrow> ActionReceipt" where
  "add_stage s r = r\<lparr>rStages := rStages r @ [s]\<rparr>"

text \<open>The commitment of a node with an audit store.\<close>

definition commit_step ::
    "'w L5Actuator \<Rightarrow> actuator_env \<Rightarrow> VerifiedTransaction \<Rightarrow> ActionReceipt \<Rightarrow> 'w actuator_state \<Rightarrow>
     ActionReceipt result \<times> 'w actuator_state" where
  "commit_step A E vt receipt st =
     (case acStore A of
        None \<Rightarrow> (Inr receipt, st)
      | Some _ \<Rightarrow>
         (case persistCommitment (acCrypto A) (acAttestation A) (acLedgerEnv E) (acCommitMs E) (AuditorSigningKey A)
                 (AuditorKeyID A) vt receipt (acLedger st) of
            (Inl err, ledger) \<Rightarrow>
              (Inl (Errorf ''%w: %w'' [] [Sentinel (Actuator ErrL5ActuatorCommitmentPersist), err]),
               st\<lparr>acLedger := ledger\<rparr>)
          | (Inr a, ledger) \<Rightarrow> (Inr (add_stage (commitment_stage E vt a) receipt), st\<lparr>acLedger := ledger\<rparr>)))"

text \<open>Everything before the handler is called: the receipt so far, the message for the handler
  and the address of the capability.\<close>

definition prepare_execution ::
    "'w L5Actuator \<Rightarrow> actuator_env \<Rightarrow> VerifiedTransaction \<Rightarrow> CommandMessage option \<Rightarrow> 'w actuator_state \<Rightarrow>
     (ActionReceipt \<times> CommandMessage option \<times> cap_addr) result \<times> 'w actuator_state" where
  "prepare_execution A E vt cmdMsg st =
     (case execute_guard A vt st of
        Some err \<Rightarrow> (Inl err, st)
      | None \<Rightarrow>
     (case signAndLogReceipt A (acLog E 0) vt (buildInitialReceipt A (acInitialMs E) vt st) st of
        (Inl err, st1) \<Rightarrow> (Inl err, st1)
      | (Inr initial, st1) \<Rightarrow>
     (case commit_step A E vt (add_stage (receipt_stage A E vt initial) initial) st1 of
        (Inl err, st2) \<Rightarrow> (Inl err, st2)
      | (Inr receipt, st2) \<Rightarrow>
     (case rehydratePayload A cmdMsg of
        Inl err \<Rightarrow> (Inl err, st2)
      | Inr msg \<Rightarrow>
     (case MintCapability (acCrypto A) (acRand E) (Some vt) (SigningKey A) (KeyID A) of
        Inl err \<Rightarrow> (Inl (Errorf ''%w: %w'' [] [Sentinel (Actuator ErrL5ActuatorCapabilityMint), err]), st2)
      | Inr c \<Rightarrow> (Inr (receipt, msg, length (acCaps st2)), st2\<lparr>acCaps := acCaps st2 @ [c]\<rparr>))))))"

definition execution_stage ::
    "actuator_env \<Rightarrow> VerifiedTransaction \<Rightarrow> string \<Rightarrow> gov_error option \<Rightarrow> StageEvidence" where
  "execution_stage E vt rootBefore execErr =
     (newDeterministicStageEvidence (vtEnvelope vt) KIND_L5_EXECUTION (acMono E 4) (acMono E 5)
        (case execErr of None \<Rightarrow> OUTCOME_COMPLETED | Some _ \<Rightarrow> OUTCOME_FAILED))
       \<lparr>StStateRootBefore := rootBefore\<rparr>"

text \<open>The loop that makes the execution the parent of the L4, receipt and commitment stages.\<close>

definition adopt :: "StageEvidence \<Rightarrow> StageEvidence \<Rightarrow> StageEvidence" where
  "adopt execution s =
     (if StKind s \<in> {KIND_L4_VERIFICATION, KIND_RECEIPT_PERSISTENCE, KIND_COMMITMENT_APPEND}
      then s\<lparr>ParentStageId := StageId execution\<rparr> else s)"

text \<open>\<open>executionStage\<close> is appended as a pointer and completed with the state root after
  the final receipt is assembled.\<close>

definition executed_receipt ::
    "'w L5Actuator \<Rightarrow> actuator_env \<Rightarrow> VerifiedTransaction \<Rightarrow> string \<Rightarrow> gov_error option \<Rightarrow> 'w actuator_state \<Rightarrow>
     ActionReceipt \<Rightarrow> ActionReceipt" where
  "executed_receipt A E vt summary execErr st receipt =
     (let stage = execution_stage E vt (rStateRootBefore receipt) execErr;
          final = finalizeReceipt A (acFinalMs E) summary execErr st receipt
      in final\<lparr>rStages := map (adopt stage) (rStages receipt) @ [stage\<lparr>StStateRootAfter := rStateRootAfter final\<rparr>]\<rparr>)"

definition publish_receipt ::
    "'w L5Actuator \<Rightarrow> GovernanceEnvelope \<Rightarrow> ActionReceipt \<Rightarrow> 'w actuator_state \<Rightarrow> 'w actuator_state" where
  "publish_receipt A env receipt st =
     (case ReceiptPublisher A of None \<Rightarrow> st | Some publish \<Rightarrow> snd (publish env receipt st))"

definition dissolve_cap :: "cap_addr \<Rightarrow> 'w actuator_state \<Rightarrow> 'w actuator_state" where
  "dissolve_cap a st = st\<lparr>acCaps := Dissolve a (acCaps st)\<rparr>"

text \<open>\<open>Execute\<close>: the receipt (or nil) and the error (or nil).\<close>

definition Execute ::
    "'w L5Actuator \<Rightarrow> actuator_env \<Rightarrow> (string \<rightharpoonup> cap_addr) \<Rightarrow> VerifiedTransaction \<Rightarrow> CommandMessage option \<Rightarrow>
     'w actuator_state \<Rightarrow> ActionReceipt option \<times> gov_error option \<times> 'w actuator_state" where
  "Execute A E ctx vt cmdMsg st =
     (case prepare_execution A E vt cmdMsg st of
        (Inl err, st1) \<Rightarrow> (None, Some err, st1)
      | (Inr (receipt, msg, a), st1) \<Rightarrow>
         (case the (acHandler A) (ContextWithCapability ctx a) (EnvEventType (vtEnvelope vt)) msg st1 of
            ((summary, execErr), st2) \<Rightarrow>
             (let st3 = dissolve_cap a st2 in
              case signAndLogFinalReceipt A E vt (executed_receipt A E vt summary execErr st3 receipt) st3 of
                (Some err, final, st4) \<Rightarrow> (Some final, Some err, st4)
              | (None, final, st4) \<Rightarrow> (Some final, execErr, publish_receipt A (vtEnvelope vt) final st4))))"

definition RecordRejectedTransaction ::
    "'w L5Actuator \<Rightarrow> actuator_env \<Rightarrow> VerifiedTransaction option \<Rightarrow> gov_error option \<Rightarrow> 'w actuator_state \<Rightarrow>
     ActionReceipt result \<times> 'w actuator_state" where
  "RecordRejectedTransaction A E vt rejection st =
     (case (vt, rejection) of
        (Some vt, Some err) \<Rightarrow>
          if SigningKey A = [] then (Inl (Sentinel (Actuator ErrL5ActuatorSigningKeyMissing)), st)
          else
            (let receipt = (buildInitialReceipt A (acInitialMs E) vt st)
                   \<lparr>rStatus := STATUS_FAILED, rResultSummary := ''rejected: '' @ acShow A err,
                    rFailureCode := FC_GOVERNANCE_REJECTED, rExecutedAtUnixMs := acFinalMs E\<rparr>
             in case signAndLogFinalReceipt A E vt receipt st of
                  (Some e, _, st1) \<Rightarrow> (Inl e, st1)
                | (None, final, st1) \<Rightarrow> (Inr final, publish_receipt A (vtEnvelope vt) final st1))
      | _ \<Rightarrow> (Inl (Sentinel (Tx ErrTxInvalidEnvelope)), st))"

end
