(* ===== verification/Actuator_Facts.thy ===== *)
theory Actuator_Facts
  imports Actuator
begin

text \<open>
  Properties of the actuator: a handler runs only in a state where its transaction is signed,
  stored, committed and authorised; final receipts verify; capabilities do not outlive the call;
  and what recording a rejection does to an earlier receipt.
\<close>

section \<open>Signed receipts\<close>

text \<open>The keys of an actuator: the signing key belongs to \<open>pub\<close>, and signatures have their
  fixed length.\<close>

definition actuator_keys :: "'w L5Actuator \<Rightarrow> bytes \<Rightarrow> bool" where
  "actuator_keys A pub \<longleftrightarrow>
     key_pair (acCrypto A) (SigningKey A) pub \<and> length pub = PublicKeySize \<and> sig64 (acCrypto A)"

lemma signReceipt_verifies:
  assumes "actuator_keys A pub" and "signReceipt A r = Inr sig"
  shows "VerifyActionReceiptSignature (acCrypto A) (acStageMarshal A) (Some (r\<lparr>rSignature := sig\<rparr>)) pub = Inr ()"
    and "sig \<noteq> []"
proof -
  from assms(2) obtain payload where p: "CanonicalizeActionReceipt (acCrypto A) (acStageMarshal A) r = Inr payload"
    "sig = hex_EncodeToString (ed_sign (acCrypto A) (SigningKey A) payload)"
    by (auto simp: signReceipt_def split: if_splits sum.splits)
  have "ed_sign (acCrypto A) (SigningKey A) payload \<noteq> []"
    using assms(1) unfolding actuator_keys_def sig64_def by (metis list.size(3) zero_neq_numeral)
  then show ne: "sig \<noteq> []" unfolding p(2) by (cases "ed_sign (acCrypto A) (SigningKey A) payload") simp_all
  show "VerifyActionReceiptSignature (acCrypto A) (acStageMarshal A) (Some (r\<lparr>rSignature := sig\<rparr>)) pub = Inr ()"
    unfolding VerifyActionReceiptSignature_Inr using assms(1) ne p by (simp add: actuator_keys_def key_pair_def)
qed

lemma attestation_verifies:
  assumes "actuator_keys A pub" and "rTransactionId r \<noteq> []" and "rSignerKeyId r = KeyID A" and "KeyID A \<noteq> []"
    and "rSignature r \<noteq> []" and "0 < ms"
  shows "VerifyReceiptPersistenceAttestation (acCrypto A)
    (Some (r\<lparr>rFinalPersistenceAttestation := Some (signReceiptPersistenceAttestation A ms r)\<rparr>)) pub = Inr ()"
  using assms
  by (simp add: VerifyReceiptPersistenceAttestation_Inr signReceiptPersistenceAttestation_def Let_def
      CanonicalizeReceiptPersistenceAttestation_def actuator_keys_def key_pair_def)

lemma VerifyActionReceiptSignature_attested [simp]:
  "VerifyActionReceiptSignature C m (Some (r\<lparr>rFinalPersistenceAttestation := a\<rparr>)) pub =
     VerifyActionReceiptSignature C m (Some r) pub"
  by (simp add: VerifyActionReceiptSignature_def split: option.split)

section \<open>Logged receipts\<close>

text \<open>The receipt the audit store holds for a transaction.\<close>

definition stored_receipt :: "'w L5Actuator \<Rightarrow> 'w actuator_state \<Rightarrow> string \<Rightarrow> ActionReceipt option" where
  "stored_receipt A st tx =
     (case acStore A of
        None \<Rightarrow> None
      | Some S \<Rightarrow>
         (case GetActionReceipt S None tx (acAudit st) of
            Inr (Some rec) \<Rightarrow> arActionReceipt rec
          | _ \<Rightarrow> None))"

lemma stored_receipt_cong: "acAudit st = acAudit st' \<Longrightarrow> stored_receipt A st tx = stored_receipt A st' tx"
  by (simp add: stored_receipt_def cong: option.case_cong)

lemma logReceiptDocument_keeps:
  assumes "logReceiptDocument A L env r st = (e, st')"
  shows "acAudit st' = acAudit st" "acLedger st' = acLedger st" "acCaps st' = acCaps st" "acWorld st' = acWorld st"
  using assms by (auto simp: logReceiptDocument_def split: option.splits sum.splits)

lemma LogReceipt_keeps:
  assumes "LogReceipt A L env r st = (e, st')"
  shows "acLedger st' = acLedger st" "acCaps st' = acCaps st" "acWorld st' = acWorld st"
proof -
  obtain d st1 where d: "logReceiptDocument A L env r st = (d, st1)" by (cases "logReceiptDocument A L env r st")
  have "\<exists>db. st' = st1\<lparr>acAudit := db\<rparr>"
    using assms unfolding LogReceipt_def d
    by (auto split: option.splits prod.splits sum.splits intro: exI[of _ "acAudit st1"])
  with logReceiptDocument_keeps[OF d]
  show "acLedger st' = acLedger st" "acCaps st' = acCaps st" "acWorld st' = acWorld st" by auto
qed

lemma BuildReceiptRecord_simps [simp]:
  "arTransactionID (BuildReceiptRecord env r now) = rTransactionId r"
  "arActionReceipt (BuildReceiptRecord env r now) = Some r"
  "arStatus (BuildReceiptRecord env r now) = rStatus r"
  by (simp_all add: BuildReceiptRecord_def)

lemma RecordActionReceipt_open:
  "RecordActionReceipt S E now r db = (Inr u, db') \<Longrightarrow> \<exists>d d'. db = Some d \<and> db' = Some d'"
  by (auto simp: RecordActionReceipt_def Let_def split: option.splits sum.splits prod.splits)

lemma LogReceipt_stores:
  assumes "acStore A = Some S" and "receipt_codec_round_trip (asCodec S)" and "LogReceipt A L env r st = (None, st')"
  shows "stored_receipt A st' (rTransactionId r) = Some r"
proof -
  obtain d st1 where d: "logReceiptDocument A L env r st = (d, st1)" by (cases "logReceiptDocument A L env r st")
  let ?r = "BuildReceiptRecord env r (lgRecordNow L)"
  from assms(1,3) obtain db where
    rec: "RecordActionReceipt S (lgStore L) (lgRecordNow L) (Some ?r) (acAudit st1) = (Inr (), db)" and
    st': "st' = st1\<lparr>acAudit := db\<rparr>"
    unfolding LogReceipt_def d by (auto split: option.splits prod.splits sum.splits)
  from RecordActionReceipt_open[OF rec] obtain d0 d1 where dbs: "acAudit st1 = Some d0" "db = Some d1" by blast
  from recorded_receipt(1)[OF assms(2) _ rec[unfolded dbs], of r] show ?thesis
    by (auto simp: stored_receipt_def assms(1) st' dbs)
qed

section \<open>Before the handler\<close>

lemma signAndLogReceipt_Inr:
  assumes "signAndLogReceipt A L vt r st = (Inr r', st')"
  shows "\<exists>sig. signReceipt A r = Inr sig \<and> r' = r\<lparr>rSignature := sig\<rparr> \<and>
    LogReceipt A L (vtEnvelope vt) r' st = (None, st')"
  using assms by (auto simp: signAndLogReceipt_def Let_def split: sum.splits prod.splits option.splits)

lemma persistCommitment_last:
  assumes "codec_round_trip K" and "key_pair C key (ed_Public key)"
    and "persistCommitment C K E now key keyID vt receipt ledger = (Inr a, ledger')"
  shows "\<exists>rows row. ledger' = Some (rows @ [row]) \<and> sound_row C K row \<and> crTransactionID row = Id (vtEnvelope vt) \<and>
    crTransactionHash row = TransactionHash (vtEnvelope vt) \<and>
    crWardenIntentSignatureDigest row = SignatureDigest C [rSignature receipt]"
proof -
  let ?tx = "\<lambda>i. append_tx K (leFaults E i) (build_commitment C K key keyID (now i) vt receipt)"
  from assms(3) obtain rows0 rows' where
    key: "length key = PrivateKeySize" "keyID = hex_EncodeToString (ed_Public key)" and
    run: "ExecInImmediateTxWithRetry (leShow E) (leMaxRetries E) (leTx E) ?tx rows0 = (Inr a, rows')" "ledger' = Some rows'"
    by (auto simp: persistCommitment_def AppendCommitment_def map_prod_def split: if_splits option.splits prod.splits)
  from ExecInImmediateTxWithRetry_Inr[OF run(1)] obtain i rows where
    tx: "append_tx K (leFaults E i) (build_commitment C K key keyID (now i) vt receipt) rows = (Inr a, rows')" by blast
  then obtain j where j: "a = commitment_attestation C key keyID (now i) vt receipt (ledger_head rows)"
    "caMarshal K a = Inr j" "rows' = rows @ [commitment_row rows a (ledger_head rows) (caHash a) j]"
    by (auto simp: append_tx_build_commitment[OF assms(1)])
  have "sound_row C K (commitment_row rows a (ledger_head rows) (caHash a) j)"
    by (rule new_commitment_sound[OF assms(1,2) key j(1,2)])
  moreover have "caWardenIntentSignatureDigest a = SignatureDigest C [rSignature receipt]"
    by (simp add: j(1) commitment_attestation_def Let_def)
  ultimately show ?thesis unfolding run(2) j(3)
    by (intro exI[of _ rows] exI[of _ "commitment_row rows a (ledger_head rows) (caHash a) j"])
      (simp add: j(1) commitment_row_def)
qed

text \<open>What holds when a handler starts: the receipt of its transaction is stored as EXECUTING under
  the actuator's signature, the last commitment is a sound one for this transaction and this
  receipt signature, and the context's capability allows exactly this action on this
  transaction until its expiry.\<close>

definition authorised ::
    "'w L5Actuator \<Rightarrow> bytes \<Rightarrow> VerifiedTransaction \<Rightarrow> (string \<rightharpoonup> cap_addr) \<Rightarrow> 'w actuator_state \<Rightarrow> bool" where
  "authorised A pub vt ctx st \<longleftrightarrow>
     (\<exists>r rows row. stored_receipt A st (Id (vtEnvelope vt)) = Some r \<and> rStatus r = STATUS_EXECUTING \<and>
        rTransactionHash r = TransactionHash (vtEnvelope vt) \<and>
        VerifyActionReceiptSignature (acCrypto A) (acStageMarshal A) (Some r) pub = Inr () \<and>
        acLedger st = Some (rows @ [row]) \<and> sound_row (acCrypto A) (acAttestation A) row \<and>
        crTransactionID row = Id (vtEnvelope vt) \<and> crTransactionHash row = TransactionHash (vtEnvelope vt) \<and>
        crWardenIntentSignatureDigest row = SignatureDigest (acCrypto A) [rSignature r]) \<and>
     (\<forall>at th now. Capability_Verify (heap_get (acCaps st) (CapabilityFromContext ctx)) at th now = Inr () \<longleftrightarrow>
        at = vtActionType vt \<and> th = TransactionHash (vtEnvelope vt) \<and>
        now \<le> (case vtExpiresAt vt of None \<Rightarrow> zero_time | Some t \<Rightarrow> t))"

lemma commit_step_keeps:
  assumes "commit_step A E vt r st = (x, st')"
  shows "acAudit st' = acAudit st" "acCaps st' = acCaps st" "acWorld st' = acWorld st"
  using assms by (auto simp: commit_step_def split: option.splits prod.splits sum.splits)

lemma prepare_execution_keeps:
  assumes "prepare_execution A E vt msg st = (x, st')"
  shows "acWorld st' = acWorld st"
proof -
  have 1: "acWorld st1 = acWorld st" if "signAndLogReceipt A L vt r st = (y, st1)" for L r y st1
    using that LogReceipt_keeps(3)
    by (auto simp: signAndLogReceipt_def Let_def split: sum.splits prod.splits option.splits)
  show ?thesis using assms
    by (auto simp: prepare_execution_def split: option.splits prod.splits sum.splits dest!: 1 commit_step_keeps(3))
qed

lemma prepare_execution_Inr:
  assumes "prepare_execution A E vt msg st = (Inr (receipt, msg', a), st')"
  obtains initial st1 st2 c where "execute_guard A vt st = None"
    "signAndLogReceipt A (acLog E 0) vt (buildInitialReceipt A (acInitialMs E) vt st) st = (Inr initial, st1)"
    "commit_step A E vt (add_stage (receipt_stage A E vt initial) initial) st1 = (Inr receipt, st2)"
    "rehydratePayload A msg = Inr msg'"
    "MintCapability (acCrypto A) (acRand E) (Some vt) (SigningKey A) (KeyID A) = Inr c"
    "a = length (acCaps st2)" "st' = st2\<lparr>acCaps := acCaps st2 @ [c]\<rparr>"
  using assms by (auto simp: prepare_execution_def split: option.splits prod.splits sum.splits)

text \<open>The hypotheses under which a node with an audit store is considered: codecs that round
  trip and matching keys.\<close>

definition sound_actuator :: "'w L5Actuator \<Rightarrow> bytes \<Rightarrow> bool" where
  "sound_actuator A pub \<longleftrightarrow>
     actuator_keys A pub \<and> (\<exists>S. acStore A = Some S \<and> receipt_codec_round_trip (asCodec S)) \<and>
     codec_round_trip (acAttestation A) \<and>
     key_pair (acCrypto A) (AuditorSigningKey A) (ed_Public (AuditorSigningKey A))"

lemma prepared_authorised:
  assumes "sound_actuator A pub" and "prepare_execution A E vt msg st = (Inr (receipt, msg', a), st')"
  shows "authorised A pub vt (ContextWithCapability ctx a) st'"
proof -
  obtain S where S: "acStore A = Some S" "receipt_codec_round_trip (asCodec S)"
    using assms(1) by (auto simp: sound_actuator_def)
  from assms(2) obtain initial st1 st2 c where p:
    "signAndLogReceipt A (acLog E 0) vt (buildInitialReceipt A (acInitialMs E) vt st) st = (Inr initial, st1)"
    "commit_step A E vt (add_stage (receipt_stage A E vt initial) initial) st1 = (Inr receipt, st2)"
    "MintCapability (acCrypto A) (acRand E) (Some vt) (SigningKey A) (KeyID A) = Inr c"
    "a = length (acCaps st2)" "st' = st2\<lparr>acCaps := acCaps st2 @ [c]\<rparr>" by (rule prepare_execution_Inr)
  from signAndLogReceipt_Inr[OF p(1)] obtain sig where sig:
    "signReceipt A (buildInitialReceipt A (acInitialMs E) vt st) = Inr sig"
    "initial = (buildInitialReceipt A (acInitialMs E) vt st)\<lparr>rSignature := sig\<rparr>"
    "LogReceipt A (acLog E 0) (vtEnvelope vt) initial st = (None, st1)" by blast
  have id: "rTransactionId initial = Id (vtEnvelope vt)" "rStatus initial = STATUS_EXECUTING"
    "rTransactionHash initial = TransactionHash (vtEnvelope vt)"
    by (simp_all add: sig(2) buildInitialReceipt_def)
  have "acAudit st' = acAudit st1" using commit_step_keeps(1)[OF p(2)] by (simp add: p(5))
  then have stored: "stored_receipt A st' (Id (vtEnvelope vt)) = Some initial"
    using LogReceipt_stores[OF S sig(3)] by (simp add: stored_receipt_def id S(1))
  have verifies: "VerifyActionReceiptSignature (acCrypto A) (acStageMarshal A) (Some initial) pub = Inr ()"
    unfolding sig(2) using assms(1) sig(1) by (auto simp: sound_actuator_def intro: signReceipt_verifies)
  from p(2) S(1) obtain att where
    "persistCommitment (acCrypto A) (acAttestation A) (acLedgerEnv E) (acCommitMs E) (AuditorSigningKey A) (AuditorKeyID A)
       vt (add_stage (receipt_stage A E vt initial) initial) (acLedger st1) = (Inr att, acLedger st2)"
    by (auto simp: commit_step_def split: prod.splits sum.splits)
  from persistCommitment_last[OF _ _ this] assms(1) obtain rows row where
    row: "acLedger st2 = Some (rows @ [row])" "sound_row (acCrypto A) (acAttestation A) row"
    "crTransactionID row = Id (vtEnvelope vt)" "crTransactionHash row = TransactionHash (vtEnvelope vt)"
    "crWardenIntentSignatureDigest row = SignatureDigest (acCrypto A) [rSignature initial]"
    by (auto simp: sound_actuator_def add_stage_def)
  have cap: "heap_get (acCaps st') (CapabilityFromContext (ContextWithCapability ctx a)) = Some c"
    by (simp add: heap_get_def CapabilityFromContext_def ContextWithCapability_def p(4,5))
  show ?thesis unfolding authorised_def cap minted_allows[OF p(3)]
    using stored id verifies row by (auto simp: p(5))
qed

text \<open>Nothing but the call itself looks at the handler.\<close>

lemma handler_independent:
  "root_now (A\<lparr>acHandler := h\<rparr>) = root_now A" "signReceipt (A\<lparr>acHandler := h\<rparr>) = signReceipt A"
  "logReceiptDocument (A\<lparr>acHandler := h\<rparr>) = logReceiptDocument A"
  "commit_step (A\<lparr>acHandler := h\<rparr>) = commit_step A" "rehydratePayload (A\<lparr>acHandler := h\<rparr>) = rehydratePayload A"
  "receipt_stage (A\<lparr>acHandler := h\<rparr>) = receipt_stage A" "publish_receipt (A\<lparr>acHandler := h\<rparr>) = publish_receipt A"
  "signReceiptPersistenceAttestation (A\<lparr>acHandler := h\<rparr>) = signReceiptPersistenceAttestation A"
  by (simp_all add: fun_eq_iff root_now_def signReceipt_def logReceiptDocument_def commit_step_def
      rehydratePayload_def receipt_stage_def publish_receipt_def signReceiptPersistenceAttestation_def
      cong: option.case_cong sum.case_cong prod.case_cong)

lemma handler_independent_receipts:
  "buildInitialReceipt (A\<lparr>acHandler := h\<rparr>) = buildInitialReceipt A"
  "executed_receipt (A\<lparr>acHandler := h\<rparr>) = executed_receipt A"
  "LogReceipt (A\<lparr>acHandler := h\<rparr>) = LogReceipt A"
  by (simp_all add: fun_eq_iff buildInitialReceipt_def executed_receipt_def finalizeReceipt_def LogReceipt_def
      handler_independent Let_def cong: option.case_cong sum.case_cong prod.case_cong)

lemma handler_independent_steps:
  "signAndLogReceipt (A\<lparr>acHandler := h\<rparr>) = signAndLogReceipt A"
  "signAndLogFinalReceipt (A\<lparr>acHandler := h\<rparr>) = signAndLogFinalReceipt A"
  by (simp_all add: fun_eq_iff signAndLogReceipt_def signAndLogFinalReceipt_def handler_independent
      handler_independent_receipts Let_def cong: option.case_cong sum.case_cong prod.case_cong)

lemma prepare_execution_handler:
  assumes "acHandler A \<noteq> None"
  shows "prepare_execution (A\<lparr>acHandler := Some h\<rparr>) E vt msg st = prepare_execution A E vt msg st"
proof -
  have "execute_guard (A\<lparr>acHandler := Some h\<rparr>) vt st = execute_guard A vt st"
    using assms by (simp add: execute_guard_def)
  then show ?thesis
    by (simp add: prepare_execution_def handler_independent handler_independent_receipts handler_independent_steps
        cong: option.case_cong sum.case_cong prod.case_cong)
qed

lemma Execute_authorised:
  assumes "sound_actuator A pub" and "acHandler A = Some h"
    and "\<And>ctx' msg' st'. authorised A pub vt ctx' st' \<Longrightarrow>
      h' ctx' (EnvEventType (vtEnvelope vt)) msg' st' = h ctx' (EnvEventType (vtEnvelope vt)) msg' st'"
  shows "Execute (A\<lparr>acHandler := Some h'\<rparr>) E ctx vt msg st = Execute A E ctx vt msg st
    \<and> (case Execute A E ctx vt msg st of (r, e, st') \<Rightarrow> r = None \<longrightarrow> acWorld st' = acWorld st \<and> e \<noteq> None)"
proof -
  let ?A = "A\<lparr>acHandler := Some h'\<rparr>"
  have "acHandler A \<noteq> None" using assms(2) by simp
  note same = handler_independent handler_independent_receipts handler_independent_steps(1,2) prepare_execution_handler[OF this]
  obtain x st1 where p: "prepare_execution A E vt msg st = (x, st1)" by (cases "prepare_execution A E vt msg st")
  show ?thesis
  proof (cases x)
    case (Inl err)
    then show ?thesis using p prepare_execution_keeps[OF p] by (simp add: Execute_def same)
  next
    case (Inr y)
    obtain receipt msg' a where y: "y = (receipt, msg', a)" by (cases y)
    from prepared_authorised[OF assms(1) p[unfolded Inr y]]
    have "h' (ContextWithCapability ctx a) (EnvEventType (vtEnvelope vt)) msg' st1 =
        h (ContextWithCapability ctx a) (EnvEventType (vtEnvelope vt)) msg' st1" by (rule assms(3))
    then show ?thesis using p Inr y assms(2)
      by (simp add: Execute_def same Let_def split: prod.splits option.splits)
  qed
qed


text \<open>C3: Execution fails closed. On a node with an audit store a handler runs only in an
  authorised state: the receipt of its transaction is stored as EXECUTING under a verifying
  signature, the newest commitment is a sound one for this transaction that binds that
  signature, and the capability in its context allows this action on this transaction and
  nothing else. Stated on what can be observed: two handlers that agree in authorised states are
  indistinguishable to a caller of \<open>Execute\<close>. And when no receipt is returned, the world
  outside the stores is untouched and there is an error.\<close>

theorem execution_fails_closed:
  assumes "sound_actuator A pub" and "acHandler A = Some h"
    and "\<And>ctx' msg' st'. authorised A pub vt ctx' st' \<Longrightarrow>
      h' ctx' (EnvEventType (vtEnvelope vt)) msg' st' = h ctx' (EnvEventType (vtEnvelope vt)) msg' st'"
  shows "Execute (A\<lparr>acHandler := Some h'\<rparr>) E ctx vt msg st = Execute A E ctx vt msg st
    \<and> (case Execute A E ctx vt msg st of (r, e, st') \<Rightarrow> r = None \<longrightarrow> acWorld st' = acWorld st \<and> e \<noteq> None)"
  by (rule Execute_authorised[OF assms(1,2)]) (rule assms(3))

section \<open>After the handler\<close>

text \<open>A publisher sends a receipt away: it leaves the stores and the capabilities alone.\<close>

definition quiet_publisher :: "'w L5Actuator \<Rightarrow> bool" where
  "quiet_publisher A \<longleftrightarrow>
     (\<forall>publish env r st. ReceiptPublisher A = Some publish \<longrightarrow>
        acAudit (snd (publish env r st)) = acAudit st \<and> acCaps (snd (publish env r st)) = acCaps st)"

lemma publish_receipt_keeps:
  assumes "quiet_publisher A"
  shows "acAudit (publish_receipt A env r st) = acAudit st" "acCaps (publish_receipt A env r st) = acCaps st"
  using assms by (auto simp: quiet_publisher_def publish_receipt_def split: option.splits)

lemma signAndLogFinalReceipt_None:
  assumes "signAndLogFinalReceipt A E vt receipt st = (None, final, st')"
  obtains sig st1 where "signReceipt A receipt = Inr sig"
    "final = receipt\<lparr>rSignature := sig, rFinalPersistenceAttestation :=
       Some (signReceiptPersistenceAttestation A (acPersistedMs E) (receipt\<lparr>rSignature := sig\<rparr>))\<rparr>"
    "LogReceipt A (acLog E 2) (vtEnvelope vt) final st1 = (None, st')"
proof -
  from assms obtain sig where sig: "signReceipt A receipt = Inr sig"
    by (auto simp: signAndLogFinalReceipt_def split: sum.splits)
  let ?r1 = "receipt\<lparr>rSignature := sig\<rparr>"
  obtain e1 st1 where l1: "LogReceipt A (acLog E 1) (vtEnvelope vt) ?r1 st = (e1, st1)"
    by (cases "LogReceipt A (acLog E 1) (vtEnvelope vt) ?r1 st")
  let ?r2 = "?r1\<lparr>rFinalPersistenceAttestation := Some (signReceiptPersistenceAttestation A (acPersistedMs E) ?r1)\<rparr>"
  obtain e2 st2 where l2: "LogReceipt A (acLog E 2) (vtEnvelope vt) ?r2 st1 = (e2, st2)"
    by (cases "LogReceipt A (acLog E 2) (vtEnvelope vt) ?r2 st1")
  from assms have "e1 = None" "e2 = None" "final = ?r2" "st' = st2"
    by (auto simp: signAndLogFinalReceipt_def Let_def sig l1[unfolded One_nat_def] l2 split: option.splits)
  with sig l2 that show ?thesis by simp
qed

lemma signAndLogFinalReceipt_caps:
  assumes "signAndLogFinalReceipt A E vt receipt st = (e, final, st')"
  shows "acCaps st' = acCaps st"
  using assms LogReceipt_keeps(2)
  by (auto simp: signAndLogFinalReceipt_def Let_def split: sum.splits prod.splits option.splits dest!: LogReceipt_keeps(2))

text \<open>A final receipt that was logged is stored and verifies.\<close>

lemma final_receipt:
  assumes "sound_actuator A pub" and "KeyID A \<noteq> []" and "0 < acPersistedMs E"
    and "rTransactionId receipt \<noteq> []" and "rSignerKeyId receipt = KeyID A"
    and "signAndLogFinalReceipt A E vt receipt st = (None, final, st')"
  shows "VerifyActionReceiptSignature (acCrypto A) (acStageMarshal A) (Some final) pub = Inr ()"
    and "VerifyReceiptPersistenceAttestation (acCrypto A) (Some final) pub = Inr ()"
    and "stored_receipt A st' (rTransactionId receipt) = Some final"
    and "rStatus final = rStatus receipt" "rFailureCode final = rFailureCode receipt" "rStages final = rStages receipt"
      "rTransactionId final = rTransactionId receipt" "rTransactionHash final = rTransactionHash receipt"
proof -
  obtain S where S: "acStore A = Some S" "receipt_codec_round_trip (asCodec S)" and keys: "actuator_keys A pub"
    using assms(1) by (auto simp: sound_actuator_def)
  from assms(6) obtain sig st1 where f: "signReceipt A receipt = Inr sig"
    "final = receipt\<lparr>rSignature := sig, rFinalPersistenceAttestation :=
       Some (signReceiptPersistenceAttestation A (acPersistedMs E) (receipt\<lparr>rSignature := sig\<rparr>))\<rparr>"
    "LogReceipt A (acLog E 2) (vtEnvelope vt) final st1 = (None, st')" by (rule signAndLogFinalReceipt_None)
  note v = signReceipt_verifies[OF keys f(1)]
  show "VerifyActionReceiptSignature (acCrypto A) (acStageMarshal A) (Some final) pub = Inr ()"
    using v(1) by (simp add: f(2))
  show "VerifyReceiptPersistenceAttestation (acCrypto A) (Some final) pub = Inr ()"
    unfolding f(2) by (rule attestation_verifies[OF keys]) (use assms v(2) in simp_all)
  show same: "rStatus final = rStatus receipt" "rFailureCode final = rFailureCode receipt" "rStages final = rStages receipt"
      "rTransactionId final = rTransactionId receipt" "rTransactionHash final = rTransactionHash receipt"
    by (simp_all add: f(2))
  show "stored_receipt A st' (rTransactionId receipt) = Some final"
    using LogReceipt_stores[OF S f(3)] by (simp add: same)
qed


lemma commit_step_Inr:
  assumes "commit_step A E vt r st = (Inr r', st')" and "acStore A = Some S"
  shows "\<exists>a. r' = add_stage (commitment_stage E vt a) r"
  using assms by (auto simp: commit_step_def split: option.splits prod.splits sum.splits)

lemma prepared_receipt:
  assumes "prepare_execution A E vt msg st = (Inr (receipt, msg', a), st')" and "acStore A = Some S"
  shows "rTransactionId receipt = Id (vtEnvelope vt)" "rTransactionHash receipt = TransactionHash (vtEnvelope vt)"
    "rSignerKeyId receipt = KeyID A" "rStateRootBefore receipt = root_now A st"
    "map StKind (rStages receipt) = map StKind (vtStages vt) @ [KIND_RECEIPT_PERSISTENCE, KIND_COMMITMENT_APPEND]"
    "a = length (acCaps st)"
proof -
  from assms(1) obtain initial st1 st2 c where p:
    "signAndLogReceipt A (acLog E 0) vt (buildInitialReceipt A (acInitialMs E) vt st) st = (Inr initial, st1)"
    "commit_step A E vt (add_stage (receipt_stage A E vt initial) initial) st1 = (Inr receipt, st2)"
    "MintCapability (acCrypto A) (acRand E) (Some vt) (SigningKey A) (KeyID A) = Inr c"
    "a = length (acCaps st2)" "st' = st2\<lparr>acCaps := acCaps st2 @ [c]\<rparr>" by (rule prepare_execution_Inr)
  from signAndLogReceipt_Inr[OF p(1)] obtain sig where sig:
    "initial = (buildInitialReceipt A (acInitialMs E) vt st)\<lparr>rSignature := sig\<rparr>"
    "LogReceipt A (acLog E 0) (vtEnvelope vt) initial st = (None, st1)" by blast
  from commit_step_Inr[OF p(2) assms(2)] obtain at where r:
    "receipt = add_stage (commitment_stage E vt at) (add_stage (receipt_stage A E vt initial) initial)" by blast
  show "rTransactionId receipt = Id (vtEnvelope vt)" "rTransactionHash receipt = TransactionHash (vtEnvelope vt)"
    "rSignerKeyId receipt = KeyID A" "rStateRootBefore receipt = root_now A st"
    "map StKind (rStages receipt) = map StKind (vtStages vt) @ [KIND_RECEIPT_PERSISTENCE, KIND_COMMITMENT_APPEND]"
    by (simp_all add: r sig(1) buildInitialReceipt_def add_stage_def receipt_stage_def commitment_stage_def)
  show "a = length (acCaps st)"
    using p(4) commit_step_keeps(2)[OF p(2)] LogReceipt_keeps(2)[OF sig(2)] by simp
qed

text \<open>The final receipt before it is signed.\<close>

lemma executed_receipt_simps:
  "rTransactionId (executed_receipt A E vt s e st r) = rTransactionId r"
  "rTransactionHash (executed_receipt A E vt s e st r) = rTransactionHash r"
  "rSignerKeyId (executed_receipt A E vt s e st r) = rSignerKeyId r"
  "rStatus (executed_receipt A E vt s e st r) = (if e = None then STATUS_COMPLETED else STATUS_FAILED)"
  "rFailureCode (executed_receipt A E vt s e st r) = classifyReceiptFailure e"
  "map StKind (rStages (executed_receipt A E vt s e st r)) = map StKind (rStages r) @ [KIND_L5_EXECUTION]"
  by (auto simp: executed_receipt_def finalizeReceipt_def Let_def execution_stage_def adopt_def split: option.splits)

text \<open>Errors of the final logging step.\<close>

definition logging_error :: "gov_error option \<Rightarrow> bool" where
  "logging_error e \<longleftrightarrow>
     (\<exists>err. e = Some err \<and> (errors_Is err (Actuator ErrL5ActuatorSignReceipt) \<or>
        errors_Is err (Actuator ErrL5ActuatorLogReceipt)))"

lemma signAndLogFinalReceipt_Some:
  "signAndLogFinalReceipt A E vt r st = (Some err, f, st') \<Longrightarrow> logging_error (Some err)"
  by (auto simp: signAndLogFinalReceipt_def Let_def logging_error_def split: sum.splits prod.splits option.splits)

lemma classifyReceiptFailure_None: "classifyReceiptFailure e = FC_UNSPECIFIED \<longleftrightarrow> e = None"
  by (simp add: classifyReceiptFailure_def split: option.splits)

lemma Execute_Some:
  assumes "Execute A E ctx vt msg st = (Some r, e, st')"
  obtains receipt msg' a st1 summary execErr st2 fe st4 where
    "prepare_execution A E vt msg st = (Inr (receipt, msg', a), st1)"
    "signAndLogFinalReceipt A E vt (executed_receipt A E vt summary execErr (dissolve_cap a st2) receipt)
       (dissolve_cap a st2) = (fe, r, st4)"
    "e = (case fe of None \<Rightarrow> execErr | Some err \<Rightarrow> Some err)"
    "st' = (if fe = None then publish_receipt A (vtEnvelope vt) r st4 else st4)"
    "the (acHandler A) (ContextWithCapability ctx a) (EnvEventType (vtEnvelope vt)) msg' st1 = ((summary, execErr), st2)"
proof -
  obtain x st1 where p: "prepare_execution A E vt msg st = (x, st1)" by (cases "prepare_execution A E vt msg st")
  with assms obtain receipt msg' a where x: "x = Inr (receipt, msg', a)"
    by (cases x) (auto simp: Execute_def split: prod.splits)
  obtain summary execErr st2 where h:
    "the (acHandler A) (ContextWithCapability ctx a) (EnvEventType (vtEnvelope vt)) msg' st1 = ((summary, execErr), st2)"
    by (metis surj_pair)
  let ?st3 = "dissolve_cap a st2"
  obtain fe f st4 where f: "signAndLogFinalReceipt A E vt (executed_receipt A E vt summary execErr ?st3 receipt) ?st3 = (fe, f, st4)"
    by (metis surj_pair)
  have run: "Execute A E ctx vt msg st = (case fe of Some err \<Rightarrow> (Some f, Some err, st4)
      | None \<Rightarrow> (Some f, execErr, publish_receipt A (vtEnvelope vt) f st4))"
    by (cases fe) (simp_all add: Execute_def p x h Let_def f)
  have r: "f = r" "e = (case fe of None \<Rightarrow> execErr | Some err \<Rightarrow> Some err)"
    "st' = (if fe = None then publish_receipt A (vtEnvelope vt) r st4 else st4)"
    using run[unfolded assms] by (cases fe; simp)+
  show ?thesis by (rule that[OF p[unfolded x] f[unfolded r(1)] r(2,3) h])
qed

text \<open>C17: The receipt of an execution is sound evidence. When \<open>Execute\<close> returns a receipt
  without a logging error, on a node with an audit store, its signature and its persistence
  attestation verify under the actuator's public key, it is the receipt the audit store holds
  for the transaction, its status and failure code say exactly how the handler ended, and its
  stages end with receipt persistence, commitment and execution, in this order.\<close>

theorem executed_receipt_verifies:
  assumes "sound_actuator A pub" and "quiet_publisher A" and "KeyID A \<noteq> []" and "0 < acPersistedMs E"
    and "Id (vtEnvelope vt) \<noteq> []" and "Execute A E ctx vt msg st = (Some r, e, st')" and "\<not> logging_error e"
  shows "VerifyActionReceiptSignature (acCrypto A) (acStageMarshal A) (Some r) pub = Inr ()
    \<and> VerifyReceiptPersistenceAttestation (acCrypto A) (Some r) pub = Inr ()
    \<and> stored_receipt A st' (Id (vtEnvelope vt)) = Some r
    \<and> rTransactionHash r = TransactionHash (vtEnvelope vt)
    \<and> rStatus r = (if e = None then STATUS_COMPLETED else STATUS_FAILED)
    \<and> rFailureCode r = classifyReceiptFailure e \<and> (rFailureCode r = FC_UNSPECIFIED \<longleftrightarrow> e = None)
    \<and> map StKind (rStages r) = map StKind (vtStages vt) @ [KIND_RECEIPT_PERSISTENCE, KIND_COMMITMENT_APPEND, KIND_L5_EXECUTION]"
proof -
  obtain S where S: "acStore A = Some S" using assms(1) by (auto simp: sound_actuator_def)
  from assms(6) obtain receipt msg' a st1 summary execErr st2 fe st4 where
    p: "prepare_execution A E vt msg st = (Inr (receipt, msg', a), st1)" and
    f: "signAndLogFinalReceipt A E vt (executed_receipt A E vt summary execErr (dissolve_cap a st2) receipt)
       (dissolve_cap a st2) = (fe, r, st4)" and
    run: "e = (case fe of None \<Rightarrow> execErr | Some err \<Rightarrow> Some err)"
      "st' = (if fe = None then publish_receipt A (vtEnvelope vt) r st4 else st4)" by (rule Execute_Some)
  let ?r = "executed_receipt A E vt summary execErr (dissolve_cap a st2) receipt"
  have fe: "fe = None" using assms(7) run(1) f by (cases fe) (auto dest: signAndLogFinalReceipt_Some)
  with run have r: "e = execErr" "st' = publish_receipt A (vtEnvelope vt) r st4" by simp_all
  note pr = prepared_receipt[OF p S]
  have "rTransactionId ?r \<noteq> []" "rSignerKeyId ?r = KeyID A" using pr assms(5) by (simp_all add: executed_receipt_simps)
  note final = final_receipt[OF assms(1,3,4) this f[unfolded fe]]
  have "stored_receipt A st' (Id (vtEnvelope vt)) = Some r"
    using final(3) stored_receipt_cong[OF publish_receipt_keeps(1)[OF assms(2)]]
    by (simp add: executed_receipt_simps pr r(2))
  with final pr show ?thesis
    by (simp add: r(1) executed_receipt_simps classifyReceiptFailure_None)
qed

section \<open>Capabilities\<close>

lemma prepare_execution_Inl_caps:
  assumes "prepare_execution A E vt msg st = (Inl err, st')"
  shows "acCaps st' = acCaps st"
proof -
  have 1: "acCaps st1 = acCaps st" if "signAndLogReceipt A L vt r st = (y, st1)" for L r y st1
    using that LogReceipt_keeps(2)
    by (auto simp: signAndLogReceipt_def Let_def split: sum.splits prod.splits option.splits)
  show ?thesis using assms
    by (auto simp: prepare_execution_def split: option.splits prod.splits sum.splits dest!: 1 commit_step_keeps(2))
qed

lemma prepared_addr:
  assumes "prepare_execution A E vt msg st = (Inr (receipt, msg', a), st')"
  shows "a = length (acCaps st)" "length (acCaps st') = Suc a"
proof -
  from assms obtain initial st1 st2 c where p:
    "signAndLogReceipt A (acLog E 0) vt (buildInitialReceipt A (acInitialMs E) vt st) st = (Inr initial, st1)"
    "commit_step A E vt (add_stage (receipt_stage A E vt initial) initial) st1 = (Inr receipt, st2)"
    "MintCapability (acCrypto A) (acRand E) (Some vt) (SigningKey A) (KeyID A) = Inr c"
    "a = length (acCaps st2)" "st' = st2\<lparr>acCaps := acCaps st2 @ [c]\<rparr>" by (rule prepare_execution_Inr)
  from signAndLogReceipt_Inr[OF p(1)] obtain sig where
    "LogReceipt A (acLog E 0) (vtEnvelope vt) initial st = (None, st1)" by blast
  with p commit_step_keeps(2)[OF p(2)] LogReceipt_keeps(2) show "a = length (acCaps st)" by fastforce
  show "length (acCaps st') = Suc a" by (simp add: p)
qed

text \<open>Memory is not freed: a handler returns with at least the capabilities it found.\<close>

definition heap_monotone :: "'w L5Actuator \<Rightarrow> bool" where
  "heap_monotone A \<longleftrightarrow>
     (\<forall>h ctx et msg st. acHandler A = Some h \<longrightarrow> length (acCaps st) \<le> length (acCaps (snd (h ctx et msg st))))"

text \<open>C18: A capability is for one action. A call of \<open>Execute\<close> that does not reach the handler
  mints no capability. Otherwise the handler receives one fresh capability, in its context, and
  when \<open>Execute\<close> returns, with whatever error, that capability is dissolved: it verifies for
  no action, no transaction and at no time, whatever the handler kept of it.\<close>

theorem capability_dissolved:
  assumes "quiet_publisher A" and "heap_monotone A" and "acHandler A = Some h"
    and "Execute A E ctx vt msg st = (r, e, st')"
  shows "(r = None \<longrightarrow> acCaps st' = acCaps st)
    \<and> (r \<noteq> None \<longrightarrow> (\<forall>act th now. Capability_Verify (heap_get (acCaps st') (Some (length (acCaps st)))) act th now =
          Inl (Errorf ''capability: dissolved'' [] [])))
    \<and> Execute (A\<lparr>acHandler := Some (\<lambda>_. h (ContextWithCapability ctx (length (acCaps st))))\<rparr>) E ctx vt msg st = (r, e, st')"
proof (intro conjI impI)
  show "acCaps st' = acCaps st" if "r = None"
    using assms(4) that prepare_execution_Inl_caps
    by (auto simp: Execute_def Let_def split: prod.splits sum.splits option.splits)
next
  assume "r \<noteq> None"
  then obtain r' where r': "r = Some r'" by blast
  from assms(4)[unfolded r'] obtain receipt msg' a st1 summary execErr st2 fe st4 where
    p: "prepare_execution A E vt msg st = (Inr (receipt, msg', a), st1)" and
    f: "signAndLogFinalReceipt A E vt (executed_receipt A E vt summary execErr (dissolve_cap a st2) receipt)
       (dissolve_cap a st2) = (fe, r', st4)" and
    st': "st' = (if fe = None then publish_receipt A (vtEnvelope vt) r' st4 else st4)" and
    h: "the (acHandler A) (ContextWithCapability ctx a) (EnvEventType (vtEnvelope vt)) msg' st1 = ((summary, execErr), st2)"
    by (rule Execute_Some)
  have "length (acCaps st1) \<le> length (acCaps st2)" using assms(2,3) h by (metis heap_monotone_def option.sel snd_conv)
  then have a: "a < length (acCaps st2)" "a = length (acCaps st)" using prepared_addr[OF p] by simp_all
  have "acCaps st' = Dissolve a (acCaps st2)"
    using signAndLogFinalReceipt_caps[OF f] publish_receipt_keeps(2)[OF assms(1)]
    by (simp add: st' dissolve_cap_def)
  with a show "\<forall>act th now. Capability_Verify (heap_get (acCaps st') (Some (length (acCaps st)))) act th now =
      Inl (Errorf ''capability: dissolved'' [] [])"
    using Dissolve_simps(2)[of a "acCaps st2"] by (simp add: heap_get_def Capability_Verify_def)
next
  have "acHandler A \<noteq> None" using assms(3) by simp
  note same = handler_independent handler_independent_receipts handler_independent_steps(1,2) prepare_execution_handler[OF this]
  obtain x st1 where p: "prepare_execution A E vt msg st = (x, st1)" by (cases "prepare_execution A E vt msg st")
  show "Execute (A\<lparr>acHandler := Some (\<lambda>_. h (ContextWithCapability ctx (length (acCaps st))))\<rparr>) E ctx vt msg st = (r, e, st')"
    using p assms(3,4) prepared_addr(1)[of A E vt msg st]
    by (cases x) (auto simp: Execute_def same Let_def cong: option.case_cong prod.case_cong)
qed

end
