(* ===== verification/Dispatch.thy ===== *)
theory Dispatch
  imports Actuator_Facts
begin

text \<open>
  \<open>services/pubsub/pubsub_commands.go\<close>: the two entrances of the operator, the synchronous
  \<open>ProcessEnvelope\<close> and the command channel, which verify an envelope at the warden and
  hand it to the actuator, and the table of handlers behind the actuator. Decoding of protojson
  and the publications after an execution are parameters.
\<close>

section \<open>The operator\<close>

record ('s, 'w) operator =
  opPlatform :: platform
  opDecode :: "bytes \<Rightarrow> GovernanceEnvelope result"
  opWarden :: "'s L4Warden option"
  opActuator :: "'w L5Actuator option"
  opAuditStore :: "SQLAuditStore option"
  opShow :: "gov_error \<Rightarrow> string"
  publishInferenceCompletion ::
    "GovernanceEnvelope \<Rightarrow> bool \<Rightarrow> ActionReceipt option \<Rightarrow> 'w actuator_state \<Rightarrow> 'w actuator_state"
  completeShutdown :: "CommandMessage \<Rightarrow> 'w actuator_state \<Rightarrow> gov_error option \<times> 'w actuator_state"

record ('s, 'w) operator_state =
  osWarden :: "'s warden_state"
  osActuator :: "'w actuator_state"

record operator_env =
  oeWarden :: warden_env
  oeActuator :: actuator_env
  oeBlockedNow :: time
  oeBlocked :: store_call

abbreviation MaxPayloadSize :: nat where "MaxPayloadSize \<equiv> 5242880"

definition command_message :: "GovernanceEnvelope \<Rightarrow> EventType \<Rightarrow> CommandMessage" where
  "command_message env eventType =
     \<lparr>cmID = Id env, cmEventType = eventType, cmCaseID = CaseId env, cmTaskID = TaskId env,
      cmInvestigationID = InvestigationId env, cmWebSessionID = WebSessionId env,
      cmCLISessionID = CliSessionId env, cmOperatorSessionID = OperatorSessionId env,
      cmOperatorID = OperatorId env, cmPayload = Payload env,
      cmTimestamp = (case Timestamp env of None \<Rightarrow> 0 | Some t \<Rightarrow> t)\<rparr>"

definition blocked_record :: "('s, 'w) operator \<Rightarrow> GovernanceEnvelope \<Rightarrow> gov_error \<Rightarrow> time \<Rightarrow> ActionReceiptRecord" where
  "blocked_record P env reason now =
     \<lparr>arTransactionID = Id env, arTransactionHash = TransactionHash env, arInvestigationID = [],
      arOperatorID = OperatorId env, arOperatorSessionID = OperatorSessionId env, arRequestorUserID = [],
      arActingAppID = [], arEventType = [], arActionType = EnvActionType env, arTargetResource = TargetResource env,
      arStatus = STATUS_FAILED, arResultSummary = ''blocked: '' @ opShow P reason, arStateRootBefore = [],
      arStateRootAfter = [], arExecutedAt = now, arSignerKeyID = [], arSignature = [], arL2Valid = False,
      arL3Valid = False, arTimestamp = now, arActionReceipt = None\<rparr>"

text \<open>An error of the audit store is only logged.\<close>

definition logBlockedTransaction ::
    "('s, 'w) operator \<Rightarrow> operator_env \<Rightarrow> GovernanceEnvelope \<Rightarrow> gov_error \<Rightarrow> ('s, 'w) operator_state \<Rightarrow>
     ('s, 'w) operator_state" where
  "logBlockedTransaction P E env reason st =
     (case opAuditStore P of
        None \<Rightarrow> st
      | Some S \<Rightarrow>
          st\<lparr>osActuator := (osActuator st)\<lparr>acAudit := snd (RecordActionReceipt S (oeBlocked E) (oeBlockedNow E)
                (Some (blocked_record P env reason (oeBlockedNow E))) (acAudit (osActuator st)))\<rparr>\<rparr>)"

definition inference_done ::
    "('s, 'w) operator \<Rightarrow> GovernanceEnvelope \<Rightarrow> bool \<Rightarrow> ActionReceipt option \<Rightarrow> 'w actuator_state \<Rightarrow> 'w actuator_state" where
  "inference_done P env executed receipt st =
     (if EnvActionType env = ActionTypeInference then publishInferenceCompletion P env executed receipt st else st)"

section \<open>The handler table\<close>

text \<open>\<open>ExecuteVerifiedTransaction\<close>: legacy event handlers answer no error; the others are found
  by the governed action of the event. A nil message fails the type assertion.\<close>

definition ExecuteVerifiedTransaction ::
    "EventRegistry \<Rightarrow> (EventType \<rightharpoonup> (string \<rightharpoonup> cap_addr) \<Rightarrow> CommandMessage \<Rightarrow> 'w actuator_state \<Rightarrow> 'w actuator_state) \<Rightarrow>
     (ActionType \<rightharpoonup> (string \<rightharpoonup> cap_addr) \<Rightarrow> CommandMessage \<Rightarrow> 'w actuator_state \<Rightarrow>
        (string \<times> gov_error option) \<times> 'w actuator_state) \<Rightarrow>
     (string \<rightharpoonup> cap_addr) \<Rightarrow> EventType \<Rightarrow> CommandMessage option \<Rightarrow> 'w actuator_state \<Rightarrow>
     (string \<times> gov_error option) \<times> 'w actuator_state" where
  "ExecuteVerifiedTransaction R legacyEventHandlers actionHandlers ctx eventType cmdMsg st =
     (case cmdMsg of
        None \<Rightarrow> (([], Some (wrap ''invalid cmdMsg type %T: %w'' (Tx ErrTxPayloadDecodeFailed) [])), st)
      | Some msg \<Rightarrow>
     (case legacyEventHandlers eventType of
        Some handler \<Rightarrow> (([], None), handler ctx msg st)
      | None \<Rightarrow>
     (case ValidateGovernedRequest R eventType of
        Inl err \<Rightarrow> (([], Some (Errorf ''no handler for event type %s: %w'' [eventType] [err])), st)
      | Inr actionType \<Rightarrow>
     (case actionHandlers actionType of
        None \<Rightarrow> (([], Some (wrap ''no handler for action type %s: %w'' (Tx ErrTxUnknownActionType) [actionType])), st)
      | Some handler \<Rightarrow> handler ctx msg st))))"

section \<open>The entrances\<close>

definition verify_envelope ::
    "('s, 'w) operator \<Rightarrow> 's L4Warden \<Rightarrow> warden_env \<Rightarrow> GovernanceEnvelope \<Rightarrow> ('s, 'w) operator_state \<Rightarrow>
     (VerifiedTransaction option \<times> gov_error option) \<times> ('s, 'w) operator_state" where
  "verify_envelope P W Ev env st =
     (case VerifyEnvelope (opPlatform P) W Ev (osWarden st) (Some env) of (r, wst) \<Rightarrow> (r, st\<lparr>osWarden := wst\<rparr>))"

text \<open>A verified transaction passes through the actuator; the context carries no capability.
  The actuator rehydrates the message in place, so the shutdown acknowledgement reads the
  rehydrated payload.\<close>

definition execute_verified ::
    "('s, 'w) operator \<Rightarrow> operator_env \<Rightarrow> 'w L5Actuator \<Rightarrow> GovernanceEnvelope \<Rightarrow> VerifiedTransaction \<Rightarrow> EventType \<Rightarrow>
     ('s, 'w) operator_state \<Rightarrow> ActionReceipt option \<times> gov_error option \<times> ('s, 'w) operator_state" where
  "execute_verified P E A env verified eventType st =
     (let cmdMsg = command_message env eventType in
      case Execute A (oeActuator E) Map.empty verified (Some cmdMsg) (osActuator st) of
        (receipt, execErr, ast) \<Rightarrow>
         (let ast1 = inference_done P env True receipt ast;
              cmdMsg1 = (case rehydratePayload A (Some cmdMsg) of Inr (Some m) \<Rightarrow> m | _ \<Rightarrow> cmdMsg) in
          if execErr = None \<and> EnvActionType env = ActionTypeShutdown
          then (case completeShutdown P cmdMsg1 ast1 of (err, ast2) \<Rightarrow> (receipt, err, st\<lparr>osActuator := ast2\<rparr>))
          else (receipt, execErr, st\<lparr>osActuator := ast1\<rparr>)))"

definition reject_envelope ::
    "('s, 'w) operator \<Rightarrow> operator_env \<Rightarrow> 'w L5Actuator \<Rightarrow> GovernanceEnvelope \<Rightarrow> VerifiedTransaction option \<Rightarrow>
     gov_error \<Rightarrow> ('s, 'w) operator_state \<Rightarrow> ActionReceipt result \<times> ('s, 'w) operator_state" where
  "reject_envelope P E A env vt err st =
     (case RecordRejectedTransaction A (oeActuator E) vt (Some err) (osActuator st) of
        (r, ast) \<Rightarrow> (r, st\<lparr>osActuator := ast\<rparr>))"

definition ProcessEnvelope ::
    "('s, 'w) operator \<Rightarrow> operator_env \<Rightarrow> bytes \<Rightarrow> ('s, 'w) operator_state \<Rightarrow>
     ActionReceipt option \<times> gov_error option \<times> ('s, 'w) operator_state" where
  "ProcessEnvelope P E payload st =
     (if payload = [] then (None, Some (Sentinel (Sys ErrPubSubEmptyPayload)), st)
      else if MaxPayloadSize < length payload
      then (None, Some (wrap ''payload exceeds %d byte limit: %w'' (Sys ErrPayloadExceedsLimit) [FormatInt (int MaxPayloadSize)]), st)
      else case opDecode P payload of
        Inl err \<Rightarrow> (None, Some (Errorf ''%w: %w'' [] [Sentinel (Tx ErrTxInvalidEnvelope), err]), st)
      | Inr env \<Rightarrow>
     (case ValidateGovernedEnvelopeFields (pRegistry (opPlatform P)) (EnvEventType env) (EnvActionType env) of
        Inl err \<Rightarrow> (None, Some err, st)
      | Inr _ \<Rightarrow>
     (case opWarden P of
        None \<Rightarrow> (None, Some (Sentinel (Sys ErrPubSubTransactionVerifier)), st)
      | Some W \<Rightarrow>
     (case verify_envelope P W (oeWarden E) env st of
        ((vt, Some err), st1) \<Rightarrow>
          (case opActuator P of
             None \<Rightarrow>
               (None, Some (Errorf ''%w: %w'' [] [Sentinel (Sys ErrPubSubActuator), err]),
                logBlockedTransaction P E env err st1)
           | Some A \<Rightarrow>
              (case reject_envelope P E A env vt err st1 of
                 (Inl recordErr, st2) \<Rightarrow>
                   (None, Some (Errorf ''%w: rejection receipt: %w'' [] [err, recordErr]), st2)
               | (Inr receipt, st2) \<Rightarrow>
                   (Some receipt, Some err,
                    st2\<lparr>osActuator := inference_done P env False (Some receipt) (osActuator st2)\<rparr>)))
      | ((vt, None), st1) \<Rightarrow>
          (case opActuator P of
             None \<Rightarrow> (None, Some (Sentinel (Sys ErrPubSubActuator)), st1)
           | Some A \<Rightarrow>
              (let eventType = EnvEventType (vtEnvelope (the vt)) in
               if eventType = [] then (None, Some (Sentinel (Tx ErrTxUnknownEventType)), st1)
               else execute_verified P E A env (the vt) eventType st1))))))"

definition gatewayDispatchedVerificationContext :: "warden_env \<Rightarrow> GovernanceEnvelope \<Rightarrow> warden_env" where
  "gatewayDispatchedVerificationContext parent env =
     (if StateMerkleRoot env = [] then parent else parent\<lparr>ctxStateRoot := Some (StateMerkleRoot env)\<rparr>)"

definition handleGovernanceEnvelope ::
    "('s, 'w) operator \<Rightarrow> operator_env \<Rightarrow> GovernanceEnvelope \<Rightarrow> ('s, 'w) operator_state \<Rightarrow> ('s, 'w) operator_state" where
  "handleGovernanceEnvelope P E env st =
     (case (case ValidateGovernedRequest (pRegistry (opPlatform P)) (EnvEventType env) of
              Inl _ \<Rightarrow> Inr ()
            | Inr _ \<Rightarrow> ValidateGovernedEnvelopeFields (pRegistry (opPlatform P)) (EnvEventType env) (EnvActionType env)) of
        Inl err \<Rightarrow> logBlockedTransaction P E env err st
      | Inr _ \<Rightarrow>
     (case opWarden P of
        None \<Rightarrow> logBlockedTransaction P E env (Sentinel (Sys ErrPubSubL4Warden)) st
      | Some W \<Rightarrow>
     (case verify_envelope P W (gatewayDispatchedVerificationContext (oeWarden E) env) env st of
        ((vt, Some err), st1) \<Rightarrow>
          (case opActuator P of
             None \<Rightarrow> logBlockedTransaction P E env err st1
           | Some A \<Rightarrow>
              (case reject_envelope P E A env vt err st1 of
                 (r, st2) \<Rightarrow>
                   st2\<lparr>osActuator := inference_done P env False (case r of Inl _ \<Rightarrow> None | Inr x \<Rightarrow> Some x) (osActuator st2)\<rparr>))
      | ((vt, None), st1) \<Rightarrow>
          (case opActuator P of
             None \<Rightarrow> st1
           | Some A \<Rightarrow>
               if EnvEventType env = [] \<or> Payload env = [] then st1
               else snd (snd (execute_verified P E A env (the vt) (EnvEventType env) st1))))))"

definition handleCommandPayload ::
    "('s, 'w) operator \<Rightarrow> operator_env \<Rightarrow> bytes \<Rightarrow> ('s, 'w) operator_state \<Rightarrow> ('s, 'w) operator_state" where
  "handleCommandPayload P E payload st =
     (if MaxPayloadSize < length payload then st
      else case opDecode P payload of
        Inl _ \<Rightarrow> st
      | Inr env \<Rightarrow> handleGovernanceEnvelope P E env st)"

end
