(* ===== verification/Dispatch_Facts.thy ===== *)
theory Dispatch_Facts
  imports Dispatch
begin

text \<open>
  The composition of warden and actuator at the operator's entrances: nothing executes without
  having been verified, and what a rejected submission does to the receipt of the transaction it
  names.
\<close>

section \<open>Verification\<close>

lemma verify_reserved_envelope: "vtEnvelope (fst (verify_reserved P W Ev env x)) = env"
  by (auto simp: verify_reserved_def rejected_transaction_def verified_transaction_def Let_def
      split: sum.splits prod.splits option.splits)

lemma VerifyEnvelope_envelope:
  assumes "VerifyEnvelope P W Ev st (Some env) = ((vt, e), st')"
  shows "\<exists>v. vt = Some v \<and> vtEnvelope v = env"
proof -
  obtain r st1 where r: "reserve_nonce W Ev st env = (r, st1)" by (cases "reserve_nonce W Ev st env")
  show ?thesis
  proof (cases r)
    case (Inl err)
    then show ?thesis using assms r by (auto simp: VerifyEnvelope_def rejected_transaction_def)
  next
    case (Inr y)
    obtain rs x where y: "y = (rs, x)" by (cases y)
    obtain v e' where v: "verify_reserved P W Ev env x = (v, e')" by (cases "verify_reserved P W Ev env x")
    then show ?thesis using assms r Inr y verify_reserved_envelope[of P W Ev env x]
      by (cases e') (auto simp: VerifyEnvelope_def)
  qed
qed

lemma verify_envelope_cases:
  assumes "verify_envelope P W Ev env st = ((vt, e), st')"
  shows "(e = None \<longleftrightarrow> accepts (opPlatform P) W Ev (osWarden st) env) \<and> (\<exists>v. vt = Some v \<and> vtEnvelope v = env) \<and>
    osActuator st' = osActuator st"
proof -
  obtain w where "VerifyEnvelope (opPlatform P) W Ev (osWarden st) (Some env) = ((vt, e), w)" "st' = st\<lparr>osWarden := w\<rparr>"
    using assms by (auto simp: verify_envelope_def split: prod.splits)
  with VerifyEnvelope_envelope show ?thesis by fastforce
qed

section \<open>No execution without verification\<close>

lemma RecordRejectedTransaction_handler:
  "RecordRejectedTransaction (A\<lparr>acHandler := h\<rparr>) = RecordRejectedTransaction A"
  by (simp add: fun_eq_iff RecordRejectedTransaction_def handler_independent handler_independent_receipts
      handler_independent_steps Let_def cong: option.case_cong prod.case_cong sum.case_cong if_cong)

text \<open>The operator with another handler behind its actuator.\<close>

definition with_handler :: "('s, 'w) operator \<Rightarrow> 'w L5Actuator \<Rightarrow> ('s, 'w) operator" where
  "with_handler P A = P\<lparr>opActuator := Some A\<rparr>"

lemma with_handler_parts:
  "logBlockedTransaction (with_handler P A) = logBlockedTransaction P" "inference_done (with_handler P A) = inference_done P"
  "verify_envelope (with_handler P A) = verify_envelope P" "reject_envelope (with_handler P A) = reject_envelope P"
  "opDecode (with_handler P A) = opDecode P" "opPlatform (with_handler P A) = opPlatform P"
  "opWarden (with_handler P A) = opWarden P" "opActuator (with_handler P A) = Some A"
  "completeShutdown (with_handler P A) = completeShutdown P"
  by (simp_all add: with_handler_def fun_eq_iff logBlockedTransaction_def blocked_record_def inference_done_def
      verify_envelope_def reject_envelope_def cong: option.case_cong)

lemma reject_envelope_handler:
  "reject_envelope P E (A\<lparr>acHandler := h\<rparr>) env vt err st = reject_envelope P E A env vt err st"
  by (simp add: reject_envelope_def RecordRejectedTransaction_handler)

lemma execute_verified_handler:
  assumes "sound_actuator A pub" and "acHandler A = Some h"
    and "\<And>ctx' msg' st'. authorised A pub vt ctx' st' \<Longrightarrow>
      h' ctx' (EnvEventType (vtEnvelope vt)) msg' st' = h ctx' (EnvEventType (vtEnvelope vt)) msg' st'"
  shows "execute_verified (with_handler P B) E (A\<lparr>acHandler := Some h'\<rparr>) env vt et st = execute_verified P E A env vt et st"
proof -
  have "Execute (A\<lparr>acHandler := Some h'\<rparr>) (oeActuator E) Map.empty vt m s = Execute A (oeActuator E) Map.empty vt m s" for m s
    using Execute_authorised[OF assms(1,2), of vt h' "oeActuator E" Map.empty m s] assms(3) by blast
  then show ?thesis by (simp add: execute_verified_def with_handler_parts handler_independent Let_def
      cong: prod.case_cong if_cong)
qed

text \<open>C1: Nothing executes that was not verified. At both entrances of an operator with an audit
  store, a handler is called only for an envelope that decodes from the submitted bytes and that
  the warden accepts in the state the submission finds, and then only in a state that is
  authorised for exactly this envelope: two operators whose handlers agree there cannot be told
  apart by any submission.\<close>

theorem nothing_unverified_executes:
  assumes "opActuator P = Some A" and "sound_actuator A pub" and "acHandler A = Some h"
    and "\<And>W Ev env vt ctx' msg' st'. opDecode P payload = Inr env \<Longrightarrow> opWarden P = Some W \<Longrightarrow>
      Ev \<in> {oeWarden E, gatewayDispatchedVerificationContext (oeWarden E) env} \<Longrightarrow>
      accepts (opPlatform P) W Ev (osWarden st) env \<Longrightarrow> vtEnvelope vt = env \<Longrightarrow> authorised A pub vt ctx' st' \<Longrightarrow>
      h' ctx' (EnvEventType env) msg' st' = h ctx' (EnvEventType env) msg' st'"
  shows "ProcessEnvelope (with_handler P (A\<lparr>acHandler := Some h'\<rparr>)) E payload st = ProcessEnvelope P E payload st
    \<and> handleCommandPayload (with_handler P (A\<lparr>acHandler := Some h'\<rparr>)) E payload st = handleCommandPayload P E payload st"
proof (cases "opDecode P payload")
  case (Inl err)
  then show ?thesis by (simp add: ProcessEnvelope_def handleCommandPayload_def with_handler_parts)
next
  case (Inr env)
  let ?P = "with_handler P (A\<lparr>acHandler := Some h'\<rparr>)"
  have run: "execute_verified ?P E (A\<lparr>acHandler := Some h'\<rparr>) env (the vt) et st1 = execute_verified P E A env (the vt) et st1"
    if "verify_envelope P W Ev env st = ((vt, None), st1)" "opWarden P = Some W"
      "Ev \<in> {oeWarden E, gatewayDispatchedVerificationContext (oeWarden E) env}" for W Ev vt st1 et
    using verify_envelope_cases[OF that(1)] assms(4)[OF Inr that(2,3)]
    by (intro execute_verified_handler[OF assms(2,3)]) auto
  note parts = with_handler_parts reject_envelope_handler
  have "ProcessEnvelope ?P E payload st = ProcessEnvelope P E payload st"
  proof (cases "opWarden P")
    case None
    then show ?thesis by (simp add: ProcessEnvelope_def Inr parts cong: sum.case_cong)
  next
    case (Some W)
    obtain vt e st1 where v: "verify_envelope P W (oeWarden E) env st = ((vt, e), st1)" by (metis surj_pair)
    then show ?thesis using run[OF _ Some] assms(1) Some
      by (cases e) (simp_all add: ProcessEnvelope_def Inr parts Let_def cong: sum.case_cong)
  qed
  moreover have "handleGovernanceEnvelope ?P E env st = handleGovernanceEnvelope P E env st"
  proof (cases "opWarden P")
    case None
    then show ?thesis by (simp add: handleGovernanceEnvelope_def parts cong: sum.case_cong)
  next
    case (Some W)
    obtain vt e st1 where v: "verify_envelope P W (gatewayDispatchedVerificationContext (oeWarden E) env) env st = ((vt, e), st1)"
      by (metis surj_pair)
    then show ?thesis using run[OF _ Some] assms(1) Some
      by (cases e) (simp_all add: handleGovernanceEnvelope_def parts cong: sum.case_cong)
  qed
  ultimately show ?thesis by (simp add: handleCommandPayload_def Inr parts)
qed


section \<open>Rejections\<close>

lemma rejected_receipt:
  assumes "sound_actuator A pub" and "quiet_publisher A" and "KeyID A \<noteq> []" and "0 < acPersistedMs E"
    and "Id (vtEnvelope vt) \<noteq> []" and "RecordRejectedTransaction A E (Some vt) (Some err) st = (Inr r, st')"
  shows "stored_receipt A st' (Id (vtEnvelope vt)) = Some r \<and> rStatus r = STATUS_FAILED \<and>
    rFailureCode r = FC_GOVERNANCE_REJECTED \<and>
    VerifyActionReceiptSignature (acCrypto A) (acStageMarshal A) (Some r) pub = Inr ()"
proof -
  let ?r = "(buildInitialReceipt A (acInitialMs E) vt st)
    \<lparr>rStatus := STATUS_FAILED, rResultSummary := ''rejected: '' @ acShow A err,
     rFailureCode := FC_GOVERNANCE_REJECTED, rExecutedAtUnixMs := acFinalMs E\<rparr>"
  obtain e f st1 where f: "signAndLogFinalReceipt A E vt ?r st = (e, f, st1)" by (metis surj_pair)
  have "SigningKey A \<noteq> []" using assms(6) by (auto simp: RecordRejectedTransaction_def split: if_splits)
  with assms(6) f have r: "e = None" "f = r" "st' = publish_receipt A (vtEnvelope vt) r st1"
    by (auto simp: RecordRejectedTransaction_def split: option.splits)
  note final = final_receipt[OF assms(1,3,4) _ _ f[unfolded r(1,2)]]
  have "stored_receipt A st' (Id (vtEnvelope vt)) = stored_receipt A st1 (Id (vtEnvelope vt))"
    unfolding r(3) by (rule stored_receipt_cong[OF publish_receipt_keeps(1)[OF assms(2)]])
  with final assms(5) show ?thesis by (simp add: buildInitialReceipt_def)
qed

text \<open>A rejected submission replaces the receipt of the transaction it names. Whatever the
  warden rejects an envelope for, including before its id and hash are checked, the rejection is
  recorded under the id the envelope claims: if the store held the COMPLETED receipt of an
  executed transaction under that id, it now holds the FAILED receipt of the rejection instead.
  Sending an executed envelope a second time is enough.\<close>

theorem rejection_replaces_receipt:
  assumes "opActuator P = Some A" and "sound_actuator A pub" and "quiet_publisher A" and "KeyID A \<noteq> []"
    and "0 < acPersistedMs (oeActuator E)" and "opDecode P payload = Inr env" and "Id env \<noteq> []"
    and "EnvActionType env \<noteq> ActionTypeInference" and "opWarden P = Some W"
    and "\<not> accepts (opPlatform P) W (oeWarden E) (osWarden st) env"
    and "stored_receipt A (osActuator st) (Id env) = Some completed" and "rStatus completed = STATUS_COMPLETED"
    and "ProcessEnvelope P E payload st = (Some r, e, st')"
  shows "stored_receipt A (osActuator st') (Id env) = Some r \<and> r \<noteq> completed \<and> rStatus r = STATUS_FAILED
    \<and> rFailureCode r = FC_GOVERNANCE_REJECTED"
proof -
  obtain vt err st1 where v: "verify_envelope P W (oeWarden E) env st = ((vt, err), st1)" by (metis surj_pair)
  from verify_envelope_cases[OF v] assms(10) obtain x w where
    x: "err = Some x" "vt = Some w" "vtEnvelope w = env" by auto
  obtain y ast where rec: "RecordRejectedTransaction A (oeActuator E) (Some w) (Some x) (osActuator st1) = (y, ast)"
    by (cases "RecordRejectedTransaction A (oeActuator E) (Some w) (Some x) (osActuator st1)")
  from assms(13) have y: "y = Inr r \<and> osActuator st' = ast"
    using assms(8)
    by (cases y) (auto simp: ProcessEnvelope_def assms(1,6,9) v x rec reject_envelope_def inference_done_def
        split: if_splits sum.splits)
  from rejected_receipt[OF assms(2-5) _ rec[unfolded conjunct1[OF y]]] x(3) assms(7,12) y show ?thesis by auto
qed

end
