(* ===== verification/Protocol_Chain.thy ===== *)
theory Protocol_Chain
  imports Receipts
begin

text \<open>
  Structural validation of a receipt by those who consume it:
  \<open>services/governance/protocol_chain.go\<close>. A receipt lists the evidence of the stages its
  transaction went through; the validator accepts a list when it is a complete run (seven
  stages, all of them passed, in a tree under the execution) or a rejection (a prefix of the
  checks under a failed L4 stage), and answers the content address of the list. The
  canonical protojson of a stage (\<open>compliancev1.MarshalCanonical\<close>) is an argument.
\<close>

section \<open>Tables\<close>

definition deterministicStageOrder :: "StageKind list" where
  "deterministicStageOrder = [KIND_L1_DOCTRINE, KIND_PROTOCOL_L2, KIND_L3_NOTARY, KIND_L4_VERIFICATION,
     KIND_RECEIPT_PERSISTENCE, KIND_COMMITMENT_APPEND, KIND_L5_EXECUTION]"

text \<open>The two Go maps; a missing key reads as the zero value of the outcome.\<close>

fun deterministicL2StatusOutcome :: "L2Status \<Rightarrow> StageOutcome" where
  "deterministicL2StatusOutcome L2_NOT_REQUIRED = OUTCOME_NOT_REQUIRED"
| "deterministicL2StatusOutcome L2_REQUIRED_VALID = OUTCOME_VERIFIED"
| "deterministicL2StatusOutcome L2_REQUIRED_FAILED = OUTCOME_FAILED"
| "deterministicL2StatusOutcome L2_UNSPECIFIED = OUTCOME_UNSPECIFIED"

fun deterministicL3StatusOutcome :: "L3Status \<Rightarrow> StageOutcome" where
  "deterministicL3StatusOutcome L3_NOT_REQUIRED = OUTCOME_NOT_REQUIRED"
| "deterministicL3StatusOutcome L3_REQUIRED_VALID = OUTCOME_VERIFIED"
| "deterministicL3StatusOutcome L3_REQUIRED_FAILED = OUTCOME_FAILED"
| "deterministicL3StatusOutcome L3_UNSPECIFIED = OUTCOME_UNSPECIFIED"

record DeterministicProtocolChain =
  Stages :: "StageEvidence list"
  StagesByKind :: "StageKind \<rightharpoonup> StageEvidence"
  ChainL4 :: StageEvidence
  ContentReference :: string

fun kind_index_from :: "int \<Rightarrow> StageKind list \<Rightarrow> StageKind \<Rightarrow> int" where
  "kind_index_from i [] kind = - 1"
| "kind_index_from i (candidate # rest) kind =
     (if candidate = kind then i else kind_index_from (i + 1) rest kind)"

definition deterministicStageKindIndex :: "StageKind \<Rightarrow> int" where
  "deterministicStageKindIndex kind = kind_index_from 0 deterministicStageOrder kind"

abbreviation graph_error :: "string \<Rightarrow> string list \<Rightarrow> gov_error" where
  "graph_error f as \<equiv> wrap f (Actuator ErrInvalidEvidenceGraph) as"

section \<open>Normalisation\<close>

text \<open>The first loop of \<open>NormalizeDeterministicStages\<close>: the error it returns, if any.\<close>

fun normalize_loop ::
    "ActionReceipt \<Rightarrow> string list \<Rightarrow> StageKind list \<Rightarrow> StageEvidence list \<Rightarrow> gov_error option" where
  "normalize_loop r seenIDs seenKinds [] = None"
| "normalize_loop r seenIDs seenKinds (stage # rest) =
     (if StageId stage = []
      then Some (graph_error ''%w: deterministic stage has an empty stage_id'' [])
      else if StageId stage \<in> set seenIDs
      then Some (graph_error ''%w: duplicate deterministic stage_id %s'' [StageId stage])
      else if StTransactionId stage \<noteq> rTransactionId r \<or> StTransactionHash stage \<noteq> rTransactionHash r
      then Some (graph_error ''%w: deterministic stage %s transaction does not match receipt'' [StageId stage])
      else if deterministicStageKindIndex (StKind stage) < 0
      then Some (graph_error ''%w: deterministic stage %s has unknown kind %s''
                   [StageId stage, kind_String (StKind stage)])
      else if StKind stage \<in> set seenKinds
      then Some (graph_error ''%w: duplicate deterministic stage kind %s'' [kind_String (StKind stage)])
      else normalize_loop r (StageId stage # seenIDs) (StKind stage # seenKinds) rest)"

text \<open>The second loop: neighbours in strictly increasing protocol order.\<close>

fun in_stage_order :: "StageEvidence list \<Rightarrow> bool" where
  "in_stage_order (a # b # rest) \<longleftrightarrow>
     \<not> deterministicStageKindIndex (StKind b) \<le> deterministicStageKindIndex (StKind a) \<and>
     in_stage_order (b # rest)"
| "in_stage_order _ \<longleftrightarrow> True"

definition NormalizeDeterministicStages ::
    "(gov_error \<Rightarrow> string) \<Rightarrow> ActionReceipt option \<Rightarrow> StageEvidence list result" where
  "NormalizeDeterministicStages show_err receipt =
     (case receipt of
        None \<Rightarrow> Inl (graph_error ''%w: receipt is nil'' [])
      | Some r \<Rightarrow>
         (let stages = rStages r in
          if stages = [] then Inl (graph_error ''%w: deterministic stage evidence is missing'' [])
          else case DeterministicStageActionType (Some r) of
            Inl err \<Rightarrow> Inl (graph_error ''%w: %v'' [show_err err])
          | Inr _ \<Rightarrow>
             (case normalize_loop r [] [] stages of
                Some err \<Rightarrow> Inl err
              | None \<Rightarrow>
                  if in_stage_order stages then Inr stages
                  else Inl (graph_error ''%w: deterministic stage order is invalid'' []))))"

section \<open>The content address\<close>

fun CanonicalDeterministicStages :: "stage_marshal \<Rightarrow> StageEvidence list \<Rightarrow> bytes result" where
  "CanonicalDeterministicStages marshalCanonical [] = Inr []"
| "CanonicalDeterministicStages marshalCanonical (stage # rest) =
     (case marshalCanonical stage of
        Inl err \<Rightarrow> Inl (Errorf ''%w: canonicalize deterministic stage evidence: %w'' []
                         [Sentinel (Actuator ErrInvalidEvidenceGraph), err])
      | Inr encoded \<Rightarrow>
         (case CanonicalDeterministicStages marshalCanonical rest of
            Inl err \<Rightarrow> Inl err
          | Inr canonical \<Rightarrow> Inr (encoded @ canonical)))"

definition DeterministicStagesContentAddress ::
    "crypto \<Rightarrow> stage_marshal \<Rightarrow> StageEvidence list \<Rightarrow> string result" where
  "DeterministicStagesContentAddress C marshalCanonical stages =
     (case CanonicalDeterministicStages marshalCanonical stages of
        Inl err \<Rightarrow> Inl err
      | Inr canonical \<Rightarrow> Inr (''deterministic-stages'' @ '':sha256:'' @ sha256_hex C canonical))"

section \<open>The checks\<close>

text \<open>Each check answers the text of its failure, or the empty string.\<close>

definition identity_values :: "StageEvidence \<Rightarrow> string list" where
  "identity_values s = [StOperatorId s, StOperatorSessionId s, StRequestorUserId s, StActingAppId s,
     StCaseId s, StInvestigationId s, StTaskId s]"

fun all_same_from :: "string \<Rightarrow> string list \<Rightarrow> bool" where
  "all_same_from first [] \<longleftrightarrow> True"
| "all_same_from first (value # rest) \<longleftrightarrow>
     (if first = [] then all_same_from value rest else value = first \<and> all_same_from first rest)"

definition validateDeterministicIdentityConsistency :: "StageEvidence list \<Rightarrow> string" where
  "validateDeterministicIdentityConsistency stages =
     (let identities = map (\<lambda>i. filter (\<lambda>v. v \<noteq> []) (map (\<lambda>s. identity_values s ! i) stages)) [0..<7] in
      if list_all (all_same_from []) identities then []
      else ''deterministic stage identity fields are inconsistent'')"

definition validateDeterministicPostureStageOutcomes ::
    "(StageKind \<rightharpoonup> StageEvidence) \<Rightarrow> ActionReceipt \<Rightarrow> string" where
  "validateDeterministicPostureStageOutcomes byKind r =
     (if (case byKind KIND_PROTOCOL_L2 of
            None \<Rightarrow> False | Some s \<Rightarrow> StOutcome s \<noteq> deterministicL2StatusOutcome (rL2Status r))
      then ''L2 stage outcome does not match the signed receipt status''
      else if (case byKind KIND_L3_NOTARY of
            None \<Rightarrow> False | Some s \<Rightarrow> StOutcome s \<noteq> deterministicL3StatusOutcome (rL3Status r))
      then ''L3 stage outcome does not match the signed receipt status''
      else [])"

definition expectedParents :: "string \<Rightarrow> string \<Rightarrow> (StageKind \<times> string) list" where
  "expectedParents l4ID l5ID =
     [(KIND_L1_DOCTRINE, l4ID), (KIND_PROTOCOL_L2, l4ID), (KIND_L3_NOTARY, l4ID),
      (KIND_L4_VERIFICATION, l5ID), (KIND_RECEIPT_PERSISTENCE, l5ID), (KIND_COMMITMENT_APPEND, l5ID),
      (KIND_L5_EXECUTION, [])]"

definition validateVerifiedDeterministicChain ::
    "ActionReceipt \<Rightarrow> (StageKind \<rightharpoonup> StageEvidence) \<Rightarrow> string" where
  "validateVerifiedDeterministicChain r byKind =
     (if \<exists>kind\<in>set deterministicStageOrder. byKind kind = None
      then ''verified protocol chain is missing required stages''
      else
       (let stage = (\<lambda>kind. the (byKind kind)); l5 = stage KIND_L5_EXECUTION in
        if StOutcome (stage KIND_L1_DOCTRINE) \<noteq> OUTCOME_VERIFIED then ''L1 doctrine stage is not verified''
        else if StOutcome (stage KIND_RECEIPT_PERSISTENCE) \<noteq> OUTCOME_COMPLETED
        then ''receipt-persistence stage is not completed''
        else if StOutcome (stage KIND_COMMITMENT_APPEND) \<noteq> OUTCOME_COMPLETED
        then ''commitment-append stage is not completed''
        else
         (let expectedOutcome =
               (case rStatus r of
                  STATUS_COMPLETED \<Rightarrow> Some OUTCOME_COMPLETED
                | STATUS_FAILED \<Rightarrow> Some OUTCOME_FAILED
                | _ \<Rightarrow> None) in
          if expectedOutcome \<noteq> Some (StOutcome l5)
          then ''L5 execution outcome does not match the signed receipt status''
          else if StStateRootBefore l5 \<noteq> rStateRootBefore r \<or> StStateRootAfter l5 \<noteq> rStateRootAfter r
          then ''L5 execution state roots do not match the signed receipt''
          else if list_all (\<lambda>(kind, parentID). ParentStageId (stage kind) = parentID)
                    (expectedParents (StageId (stage KIND_L4_VERIFICATION)) (StageId l5))
          then [] else ''deterministic stage parent relationship is invalid'')))"

definition allowedPrefixes :: "StageKind list list" where
  "allowedPrefixes = [[], [KIND_L1_DOCTRINE], [KIND_L1_DOCTRINE, KIND_PROTOCOL_L2],
     [KIND_L1_DOCTRINE, KIND_PROTOCOL_L2, KIND_L3_NOTARY]]"

fun deterministicPrefixAllowed :: "StageKind list \<Rightarrow> StageKind list list \<Rightarrow> bool" where
  "deterministicPrefixAllowed prefix [] \<longleftrightarrow> False"
| "deterministicPrefixAllowed prefix (candidate # rest) \<longleftrightarrow>
     (if length prefix \<noteq> length candidate then deterministicPrefixAllowed prefix rest
      else if list_all (\<lambda>i. prefix ! i = candidate ! i) [0..<length prefix] then True
      else deterministicPrefixAllowed prefix rest)"

text \<open>A kind that is not in the Go map reads as the zero value.\<close>

definition expectedOutcomes :: "ActionReceipt \<Rightarrow> StageKind \<Rightarrow> StageOutcome" where
  "expectedOutcomes r kind =
     (if kind = KIND_L1_DOCTRINE then OUTCOME_VERIFIED
      else if kind = KIND_PROTOCOL_L2 then deterministicL2StatusOutcome (rL2Status r)
      else if kind = KIND_L3_NOTARY then deterministicL3StatusOutcome (rL3Status r)
      else OUTCOME_UNSPECIFIED)"

text \<open>The failed prerequisites are compared as pointers, which is comparing positions.\<close>

definition validateRejectedDeterministicChain :: "ActionReceipt \<Rightarrow> StageEvidence list \<Rightarrow> string" where
  "validateRejectedDeterministicChain r stages =
     (if rStatus r \<noteq> STATUS_FAILED then ''rejected protocol chain does not have a failed receipt status''
      else
       (let before = butlast stages; l4 = last stages in
        if StKind l4 \<noteq> KIND_L4_VERIFICATION \<or>
           \<not> deterministicPrefixAllowed (map StKind before) allowedPrefixes
        then ''rejected protocol chain contains invalid stages''
        else
         (let failedPrerequisites =
                filter (\<lambda>i. StOutcome (before ! i) = OUTCOME_FAILED) [0..<length before] in
          if length failedPrerequisites > 1 \<or>
             length failedPrerequisites = 1 \<and> failedPrerequisites ! 0 \<noteq> length stages - 2
          then ''rejected protocol chain has ambiguous prerequisite outcomes''
          else
           (let completedPrerequisites =
                  (if length failedPrerequisites > 0 then take (length stages - 2) stages else before) in
            if \<not> list_all (\<lambda>s. StOutcome s = expectedOutcomes r (StKind s)) completedPrerequisites
            then ''rejected protocol chain has invalid prerequisite outcomes''
            else if \<not> list_all (\<lambda>s. ParentStageId s = StageId l4) before
            then ''deterministic stage parent relationship is invalid''
            else if ParentStageId l4 \<noteq> [] then ''deterministic stage parent relationship is invalid''
            else []))))"

section \<open>Validation\<close>

definition stages_by_kind :: "StageEvidence list \<Rightarrow> StageKind \<rightharpoonup> StageEvidence" where
  "stages_by_kind stages = foldl (\<lambda>m s. m(StKind s \<mapsto> s)) Map.empty stages"

definition chain_failure :: "ActionReceipt \<Rightarrow> StageEvidence list \<Rightarrow> StageEvidence \<Rightarrow> string" where
  "chain_failure r stages l4 =
     (let f1 = validateDeterministicIdentityConsistency stages in
      if f1 \<noteq> [] then f1
      else
       (let f2 = validateDeterministicPostureStageOutcomes (stages_by_kind stages) r in
        if f2 \<noteq> [] then f2
        else case StOutcome l4 of
          OUTCOME_VERIFIED \<Rightarrow> validateVerifiedDeterministicChain r (stages_by_kind stages)
        | OUTCOME_FAILED \<Rightarrow> validateRejectedDeterministicChain r stages
        | _ \<Rightarrow> ''L4 verification stage has an invalid outcome''))"

definition ValidateDeterministicProtocolChain ::
    "crypto \<Rightarrow> stage_marshal \<Rightarrow> (gov_error \<Rightarrow> string) \<Rightarrow> ActionReceipt option \<Rightarrow>
     DeterministicProtocolChain result" where
  "ValidateDeterministicProtocolChain C marshalCanonical show_err receipt =
     (case NormalizeDeterministicStages show_err receipt of
        Inl err \<Rightarrow> Inl err
      | Inr stages \<Rightarrow>
         (case stages_by_kind stages KIND_L4_VERIFICATION of
            None \<Rightarrow> Inl (graph_error ''%w: L4 verification stage is missing'' [])
          | Some l4 \<Rightarrow>
             (let failure = chain_failure (the receipt) stages l4 in
              if failure \<noteq> [] then Inl (graph_error ''%w: %s'' [failure])
              else case DeterministicStagesContentAddress C marshalCanonical stages of
                Inl err \<Rightarrow> Inl err
              | Inr ref \<Rightarrow>
                  Inr \<lparr>Stages = stages, StagesByKind = stages_by_kind stages, ChainL4 = l4,
                       ContentReference = ref\<rparr>)))"

end
