(* ===== verification/Protocol_Chain_Facts.thy ===== *)
theory Protocol_Chain_Facts
  imports Protocol_Chain Actuator_Facts
begin

text \<open>
  What the protocol chain validator accepts, stated without its loops, and which of the receipts
  that the actuator writes it accepts.
\<close>

section \<open>Normalisation\<close>

lemma kind_index_simps [simp]:
  "deterministicStageKindIndex KIND_UNSPECIFIED = - 1"
  "deterministicStageKindIndex KIND_L1_DOCTRINE = 0" "deterministicStageKindIndex KIND_PROTOCOL_L2 = 1"
  "deterministicStageKindIndex KIND_L3_NOTARY = 2" "deterministicStageKindIndex KIND_L4_VERIFICATION = 3"
  "deterministicStageKindIndex KIND_RECEIPT_PERSISTENCE = 4" "deterministicStageKindIndex KIND_COMMITMENT_APPEND = 5"
  "deterministicStageKindIndex KIND_L5_EXECUTION = 6"
  by (simp_all add: deterministicStageKindIndex_def deterministicStageOrder_def)

lemma kind_index_nonneg: "deterministicStageKindIndex k < 0 \<longleftrightarrow> k = KIND_UNSPECIFIED"
  by (cases k) simp_all

lemma kind_index_inj: "deterministicStageKindIndex j = deterministicStageKindIndex k \<longleftrightarrow> j = k"
  by (cases j; cases k) simp_all

text \<open>A stage that belongs to the receipt.\<close>

definition stage_of_receipt :: "ActionReceipt \<Rightarrow> StageEvidence \<Rightarrow> bool" where
  "stage_of_receipt r s \<longleftrightarrow> StageId s \<noteq> [] \<and> StTransactionId s = rTransactionId r \<and>
     StTransactionHash s = rTransactionHash r \<and> StKind s \<noteq> KIND_UNSPECIFIED"

lemma normalize_loop_None:
  "normalize_loop r ids kinds ss = None \<longleftrightarrow>
     list_all (stage_of_receipt r) ss \<and> distinct (map StageId ss) \<and> distinct (map StKind ss) \<and>
     set (map StageId ss) \<inter> set ids = {} \<and> set (map StKind ss) \<inter> set kinds = {}"
  by (induction ss arbitrary: ids kinds) (auto simp: stage_of_receipt_def kind_index_nonneg)

lemma normalize_loop_Some: "normalize_loop r ids kinds ss = Some err \<Longrightarrow> errors_Is err (Actuator ErrInvalidEvidenceGraph)"
  by (induction ss arbitrary: ids kinds) (auto split: if_splits)

lemma in_stage_order_sorted:
  "in_stage_order ss \<longleftrightarrow> sorted_wrt (<) (map (\<lambda>s. deterministicStageKindIndex (StKind s)) ss)"
proof (induction ss rule: in_stage_order.induct)
  case (1 a b rest)
  then show ?case by (auto simp: not_le intro: less_trans)
qed simp_all

lemma in_stage_order_distinct: "in_stage_order ss \<Longrightarrow> distinct (map StKind ss)"
  unfolding in_stage_order_sorted strict_sorted_iff
  by (auto simp: distinct_map inj_on_def)

text \<open>The declared action types: one that is not blank, and no other.\<close>

definition one_action :: "StageEvidence list \<Rightarrow> bool" where
  "one_action ss \<longleftrightarrow> (\<exists>a. a \<noteq> [] \<and> a \<in> set (map StActionType ss) \<and> set (map StActionType ss) \<subseteq> {[], a})"

lemma stage_action_declared:
  "a \<noteq> [] \<Longrightarrow> stage_action a ss = Inr b \<longleftrightarrow> b = a \<and> set (map StActionType ss) \<subseteq> {[], a}"
  by (induction ss) auto

lemma stage_action_Inr:
  "stage_action [] ss = Inr b \<longleftrightarrow>
     (if b = [] then set (map StActionType ss) \<subseteq> {[]}
      else b \<in> set (map StActionType ss) \<and> set (map StActionType ss) \<subseteq> {[], b})"
  by (induction ss) (auto simp: stage_action_declared image_subset_iff)

lemma stage_action_type_ok:
  "(\<exists>a. DeterministicStageActionType (Some r) = Inr a) \<longleftrightarrow> one_action (rStages r)"
proof -
  have "(\<exists>a. DeterministicStageActionType (Some r) = Inr a) \<longleftrightarrow> (\<exists>a. a \<noteq> [] \<and> stage_action [] (rStages r) = Inr a)"
    by (auto simp: DeterministicStageActionType_def split: sum.splits)
  then show ?thesis by (auto simp: stage_action_Inr one_action_def)
qed

text \<open>What normalisation accepts.\<close>

definition normal_stages :: "ActionReceipt \<Rightarrow> bool" where
  "normal_stages r \<longleftrightarrow> rStages r \<noteq> [] \<and> one_action (rStages r) \<and> list_all (stage_of_receipt r) (rStages r) \<and>
     distinct (map StageId (rStages r)) \<and> in_stage_order (rStages r)"

lemma Normalize_Inr: "NormalizeDeterministicStages sh (Some r) = Inr ss \<longleftrightarrow> normal_stages r \<and> ss = rStages r"
proof -
  have "normal_stages r \<longleftrightarrow> rStages r \<noteq> [] \<and> (\<exists>a. DeterministicStageActionType (Some r) = Inr a) \<and>
      normalize_loop r [] [] (rStages r) = None \<and> in_stage_order (rStages r)"
    unfolding stage_action_type_ok normalize_loop_None normal_stages_def by (auto dest: in_stage_order_distinct)
  then show ?thesis by (auto simp: NormalizeDeterministicStages_def Let_def split: sum.splits option.splits)
qed

lemma Normalize_Inl:
  "NormalizeDeterministicStages sh r = Inl err \<Longrightarrow> errors_Is err (Actuator ErrInvalidEvidenceGraph)"
  by (auto simp: NormalizeDeterministicStages_def Let_def dest: normalize_loop_Some
      split: option.splits if_splits sum.splits)

section \<open>Identities and the stage table\<close>

definition consistent_identities :: "StageEvidence list \<Rightarrow> bool" where
  "consistent_identities ss \<longleftrightarrow> (\<forall>i<7. \<exists>v. \<forall>s\<in>set ss. identity_values s ! i \<in> {[], v})"

lemma all_same_from_iff:
  "[] \<notin> set vs \<Longrightarrow> all_same_from first vs \<longleftrightarrow> (if first = [] then \<exists>v. set vs \<subseteq> {v} else set vs \<subseteq> {first})"
  by (induction first vs rule: all_same_from.induct) auto

lemma identities_ok: "validateDeterministicIdentityConsistency ss = [] \<longleftrightarrow> consistent_identities ss"
proof -
  have "all_same_from [] (filter (\<lambda>v. v \<noteq> []) vs) \<longleftrightarrow> (\<exists>v. set vs \<subseteq> {[], v})" for vs
    by (subst all_same_from_iff) auto
  then have "validateDeterministicIdentityConsistency ss = [] \<longleftrightarrow>
      (\<forall>i\<in>set [0..<7]. \<exists>v. set (map (\<lambda>s. identity_values s ! i) ss) \<subseteq> {[], v})"
    unfolding validateDeterministicIdentityConsistency_def Let_def by (simp add: list_all_iff)
  then show ?thesis by (simp add: consistent_identities_def image_subset_iff Ball_def)
qed

lemma stages_by_kind_append: "stages_by_kind (ss @ [s]) = (stages_by_kind ss)(StKind s \<mapsto> s)"
  by (simp add: stages_by_kind_def)

lemma stages_by_kind_None: "stages_by_kind ss k = None \<longleftrightarrow> k \<notin> set (map StKind ss)"
  by (induction ss rule: rev_induct) (auto simp: stages_by_kind_append, simp add: stages_by_kind_def)

text \<open>Seven stages in protocol order with all kinds present are the seven stages.\<close>

lemma ordered_complete:
  assumes "in_stage_order ss" and "list_all (\<lambda>s. StKind s \<noteq> KIND_UNSPECIFIED) ss"
    and "\<forall>k\<in>set deterministicStageOrder. k \<in> set (map StKind ss)"
  shows "map StKind ss = deterministicStageOrder"
proof -
  let ?f = deterministicStageKindIndex
  have all: "set (map StKind ss) = set deterministicStageOrder"
  proof
    show "set (map StKind ss) \<subseteq> set deterministicStageOrder"
    proof
      fix k assume "k \<in> set (map StKind ss)"
      with assms(2) have "k \<noteq> KIND_UNSPECIFIED" by (auto simp: list_all_iff)
      then show "k \<in> set deterministicStageOrder" by (cases k) (simp_all add: deterministicStageOrder_def)
    qed
  qed (use assms(3) in blast)
  have "sorted_wrt (<) (map ?f (map StKind ss))" using assms(1) by (simp add: in_stage_order_sorted comp_def)
  moreover have "sorted_wrt (<) (map ?f deterministicStageOrder)" by (simp add: deterministicStageOrder_def)
  moreover have "set (map ?f (map StKind ss)) = set (map ?f deterministicStageOrder)" using all by (simp only: set_map)
  ultimately have "map ?f (map StKind ss) = map ?f deterministicStageOrder"
    by (metis sorted_distinct_set_unique strict_sorted_iff)
  moreover have "inj ?f" by (rule injI) (simp add: kind_index_inj)
  ultimately show ?thesis by (metis inj_map_eq_map)
qed

section \<open>The two shapes\<close>

text \<open>A complete run: the seven stages in protocol order with the outcomes that the receipt
  declares; the checks hang under the L4 stage, everything else under the execution.\<close>

definition complete_run :: "ActionReceipt \<Rightarrow> bool" where
  "complete_run r \<longleftrightarrow>
     (\<exists>l1 l2 l3 l4 rp ca l5. rStages r = [l1, l2, l3, l4, rp, ca, l5] \<and>
        map StKind (rStages r) = deterministicStageOrder \<and>
        map StOutcome (rStages r) = [OUTCOME_VERIFIED, deterministicL2StatusOutcome (rL2Status r),
          deterministicL3StatusOutcome (rL3Status r), OUTCOME_VERIFIED, OUTCOME_COMPLETED, OUTCOME_COMPLETED,
          if rStatus r = STATUS_COMPLETED then OUTCOME_COMPLETED else OUTCOME_FAILED] \<and>
        rStatus r \<in> {STATUS_COMPLETED, STATUS_FAILED} \<and>
        StStateRootBefore l5 = rStateRootBefore r \<and> StStateRootAfter l5 = rStateRootAfter r \<and>
        map ParentStageId (rStages r) =
          [StageId l4, StageId l4, StageId l4, StageId l5, StageId l5, StageId l5, []])"

text \<open>A rejection: some of the three checks in protocol order, the last of them the only one
  that may have failed, under a failed L4 stage.\<close>

definition rejected_run :: "ActionReceipt \<Rightarrow> bool" where
  "rejected_run r \<longleftrightarrow> rStatus r = STATUS_FAILED \<and>
     (\<exists>checks l4. rStages r = checks @ [l4] \<and> StKind l4 = KIND_L4_VERIFICATION \<and> StOutcome l4 = OUTCOME_FAILED \<and>
        ParentStageId l4 = [] \<and> list_all (\<lambda>s. ParentStageId s = StageId l4) checks \<and>
        (let l2 = deterministicL2StatusOutcome (rL2Status r); l3 = deterministicL3StatusOutcome (rL3Status r) in
         map (\<lambda>s. (StKind s, StOutcome s)) checks \<in>
           {[], [(KIND_L1_DOCTRINE, OUTCOME_VERIFIED)], [(KIND_L1_DOCTRINE, OUTCOME_FAILED)],
            [(KIND_L1_DOCTRINE, OUTCOME_VERIFIED), (KIND_PROTOCOL_L2, l2)]} \<or>
         map (\<lambda>s. (StKind s, StOutcome s)) checks =
           [(KIND_L1_DOCTRINE, OUTCOME_VERIFIED), (KIND_PROTOCOL_L2, l2), (KIND_L3_NOTARY, l3)] \<and>
         l2 \<noteq> OUTCOME_FAILED))"

lemma seven_stages:
  assumes "map StKind ss = deterministicStageOrder"
  obtains l1 l2 l3 l4 rp ca l5 where "ss = [l1, l2, l3, l4, rp, ca, l5]"
    "StKind l1 = KIND_L1_DOCTRINE" "StKind l2 = KIND_PROTOCOL_L2" "StKind l3 = KIND_L3_NOTARY"
    "StKind l4 = KIND_L4_VERIFICATION" "StKind rp = KIND_RECEIPT_PERSISTENCE" "StKind ca = KIND_COMMITMENT_APPEND"
    "StKind l5 = KIND_L5_EXECUTION"
  using assms unfolding deterministicStageOrder_def map_eq_Cons_conv map_is_Nil_conv by blast

lemma prefix_allowed:
  "deterministicPrefixAllowed p allowedPrefixes \<longleftrightarrow>
     p \<in> {[], [KIND_L1_DOCTRINE], [KIND_L1_DOCTRINE, KIND_PROTOCOL_L2], [KIND_L1_DOCTRINE, KIND_PROTOCOL_L2, KIND_L3_NOTARY]}"
proof -
  have eq: "list_all (\<lambda>i. p ! i = c ! i) [0..<length p] \<longleftrightarrow> p = c" if "length p = length c" for c
    using that by (auto simp: list_all_iff intro: nth_equalityI)
  have "deterministicPrefixAllowed p cs \<longleftrightarrow> p \<in> set cs" for cs
  proof (induction cs)
    case (Cons c cs)
    then show ?case using eq[of c] by (cases "length p = length c") auto
  qed simp
  then show ?thesis unfolding allowedPrefixes_def by (simp del: deterministicPrefixAllowed.simps)
qed

lemma if_text:
  "(if c then x # xs else y) = [] \<longleftrightarrow> \<not> c \<and> y = []"
  "(if c then [] else x # xs) = [] \<longleftrightarrow> c"
  by simp_all

lemma verified_shape:
  assumes "normal_stages r" and "stages_by_kind (rStages r) KIND_L4_VERIFICATION = Some l4"
    and "StOutcome l4 = OUTCOME_VERIFIED"
  shows "validateDeterministicPostureStageOutcomes (stages_by_kind (rStages r)) r = [] \<and>
      validateVerifiedDeterministicChain r (stages_by_kind (rStages r)) = [] \<longleftrightarrow> complete_run r"
proof (cases "map StKind (rStages r) = deterministicStageOrder")
  case True
  then obtain l1 l2 l3 l4' rp ca l5 where ss: "rStages r = [l1, l2, l3, l4', rp, ca, l5]"
    and k: "StKind l1 = KIND_L1_DOCTRINE" "StKind l2 = KIND_PROTOCOL_L2" "StKind l3 = KIND_L3_NOTARY"
    "StKind l4' = KIND_L4_VERIFICATION" "StKind rp = KIND_RECEIPT_PERSISTENCE" "StKind ca = KIND_COMMITMENT_APPEND"
    "StKind l5 = KIND_L5_EXECUTION" by (rule seven_stages)
  have m: "stages_by_kind (rStages r) = [KIND_L1_DOCTRINE \<mapsto> l1, KIND_PROTOCOL_L2 \<mapsto> l2, KIND_L3_NOTARY \<mapsto> l3,
      KIND_L4_VERIFICATION \<mapsto> l4', KIND_RECEIPT_PERSISTENCE \<mapsto> rp, KIND_COMMITMENT_APPEND \<mapsto> ca, KIND_L5_EXECUTION \<mapsto> l5]"
    by (simp add: stages_by_kind_def ss k)
  then have "l4' = l4" using assms(2) by simp
  then have "StOutcome l4' = OUTCOME_VERIFIED" using assms(3) by simp
  note out = this
  have c: "complete_run r \<longleftrightarrow> StOutcome l1 = OUTCOME_VERIFIED \<and> StOutcome l2 = deterministicL2StatusOutcome (rL2Status r) \<and>
      StOutcome l3 = deterministicL3StatusOutcome (rL3Status r) \<and> StOutcome rp = OUTCOME_COMPLETED \<and>
      StOutcome ca = OUTCOME_COMPLETED \<and> StOutcome l5 = (if rStatus r = STATUS_COMPLETED then OUTCOME_COMPLETED else OUTCOME_FAILED) \<and>
      rStatus r \<in> {STATUS_COMPLETED, STATUS_FAILED} \<and>
      StStateRootBefore l5 = rStateRootBefore r \<and> StStateRootAfter l5 = rStateRootAfter r \<and>
      map ParentStageId (rStages r) = [StageId l4', StageId l4', StageId l4', StageId l5, StageId l5, StageId l5, []]"
    unfolding complete_run_def True by (simp add: ss out)
  have e: "(\<exists>kind\<in>set deterministicStageOrder. stages_by_kind (rStages r) kind = None) = False"
    by (simp add: m deterministicStageOrder_def)
  have x: "(case rStatus r of STATUS_COMPLETED \<Rightarrow> Some OUTCOME_COMPLETED | STATUS_FAILED \<Rightarrow> Some OUTCOME_FAILED
      | _ \<Rightarrow> None) \<noteq> Some (StOutcome l5) \<longleftrightarrow>
      \<not> (StOutcome l5 = (if rStatus r = STATUS_COMPLETED then OUTCOME_COMPLETED else OUTCOME_FAILED) \<and>
      rStatus r \<in> {STATUS_COMPLETED, STATUS_FAILED})" by (cases "rStatus r") auto
  have v: "validateVerifiedDeterministicChain r (stages_by_kind (rStages r)) = [] \<longleftrightarrow>
      StOutcome l1 = OUTCOME_VERIFIED \<and> StOutcome rp = OUTCOME_COMPLETED \<and> StOutcome ca = OUTCOME_COMPLETED \<and>
      StOutcome l5 = (if rStatus r = STATUS_COMPLETED then OUTCOME_COMPLETED else OUTCOME_FAILED) \<and>
      rStatus r \<in> {STATUS_COMPLETED, STATUS_FAILED} \<and>
      StStateRootBefore l5 = rStateRootBefore r \<and> StStateRootAfter l5 = rStateRootAfter r \<and>
      map ParentStageId (rStages r) = [StageId l4', StageId l4', StageId l4', StageId l5, StageId l5, StageId l5, []]"
    unfolding validateVerifiedDeterministicChain_def e if_False Let_def if_text x[symmetric]
    by (simp only: m fun_upd_apply option.sel StageKind.distinct simp_thms if_False if_True)
      (cases "rStatus r"; simp add: if_text expectedParents_def ss eq_commute[of _ "StOutcome l5"])
  show ?thesis unfolding v c validateDeterministicPostureStageOutcomes_def if_text
    by (auto simp: m)
next
  case False
  have "list_all (\<lambda>s. StKind s \<noteq> KIND_UNSPECIFIED) (rStages r)" "in_stage_order (rStages r)"
    using assms(1) by (simp_all add: normal_stages_def stage_of_receipt_def list_all_iff)
  then have "\<exists>k\<in>set deterministicStageOrder. stages_by_kind (rStages r) k = None"
    using ordered_complete False by (metis stages_by_kind_None)
  then have "validateVerifiedDeterministicChain r (stages_by_kind (rStages r)) \<noteq> []"
    by (simp add: validateVerifiedDeterministicChain_def)
  with False show ?thesis by (auto simp: complete_run_def)
qed

text \<open>The failed prerequisites of a chain with at most three checks.\<close>

lemma rejected_checks:
  assumes "rStages r = checks @ [l4]" and "rStatus r = STATUS_FAILED" and "StKind l4 = KIND_L4_VERIFICATION"
  shows "validateRejectedDeterministicChain r (rStages r) = [] \<longleftrightarrow>
     map StKind checks \<in> {[], [KIND_L1_DOCTRINE], [KIND_L1_DOCTRINE, KIND_PROTOCOL_L2],
       [KIND_L1_DOCTRINE, KIND_PROTOCOL_L2, KIND_L3_NOTARY]} \<and>
     list_all (\<lambda>s. StOutcome s \<noteq> OUTCOME_FAILED) (butlast checks) \<and>
     list_all (\<lambda>s. StOutcome s = expectedOutcomes r (StKind s))
       (if checks \<noteq> [] \<and> StOutcome (last checks) = OUTCOME_FAILED then butlast checks else checks) \<and>
     list_all (\<lambda>s. ParentStageId s = StageId l4) checks \<and> ParentStageId l4 = []"
proof (cases "map StKind checks \<in> {[], [KIND_L1_DOCTRINE], [KIND_L1_DOCTRINE, KIND_PROTOCOL_L2],
       [KIND_L1_DOCTRINE, KIND_PROTOCOL_L2, KIND_L3_NOTARY]}")
  case False
  then show ?thesis
    unfolding validateRejectedDeterministicChain_def Let_def assms(1) butlast_snoc last_snoc prefix_allowed by simp
next
  case True
  then consider "checks = []" | a where "checks = [a]" | a b where "checks = [a, b]" | a b c where "checks = [a, b, c]"
    by (auto simp: map_eq_Cons_conv)
  then show ?thesis
    unfolding validateRejectedDeterministicChain_def Let_def assms(1) butlast_snoc last_snoc prefix_allowed if_text
    using True by cases (simp_all add: assms(2,3) upt_rec numeral_2_eq_2 conj_ac)
qed

lemma stages_by_kind_Some:
  "distinct (map StKind ss) \<Longrightarrow> stages_by_kind ss k = Some s \<longleftrightarrow> s \<in> set ss \<and> StKind s = k"
proof (induction ss rule: rev_induct)
  case (snoc x xs)
  then show ?case by (auto simp: stages_by_kind_append) (metis image_eqI)+
qed (simp add: stages_by_kind_def)

lemma posture_outcomes_ok:
  assumes "distinct (map StKind ss)"
  shows "validateDeterministicPostureStageOutcomes (stages_by_kind ss) r = [] \<longleftrightarrow>
     (\<forall>s\<in>set ss. (StKind s = KIND_PROTOCOL_L2 \<longrightarrow> StOutcome s = deterministicL2StatusOutcome (rL2Status r)) \<and>
        (StKind s = KIND_L3_NOTARY \<longrightarrow> StOutcome s = deterministicL3StatusOutcome (rL3Status r)))"
proof -
  have "(case stages_by_kind ss k of None \<Rightarrow> False | Some s \<Rightarrow> StOutcome s \<noteq> oc) \<longleftrightarrow>
      (\<exists>s\<in>set ss. StKind s = k \<and> StOutcome s \<noteq> oc)" for k oc
  proof (cases "stages_by_kind ss k")
    case None
    then show ?thesis unfolding stages_by_kind_None by (auto simp: None)
  next
    case (Some s)
    have "t = s" if "t \<in> set ss" "StKind t = k" for t
      using that Some stages_by_kind_Some[OF assms, of k t] by simp
    moreover have "s \<in> set ss" "StKind s = k" using Some stages_by_kind_Some[OF assms, of k s] by simp_all
    ultimately show ?thesis unfolding Some option.case by blast
  qed
  then show ?thesis unfolding validateDeterministicPostureStageOutcomes_def if_text by blast
qed

lemma rejected_shape:
  assumes "normal_stages r" and "stages_by_kind (rStages r) KIND_L4_VERIFICATION = Some l4"
    and "StOutcome l4 = OUTCOME_FAILED"
  shows "validateDeterministicPostureStageOutcomes (stages_by_kind (rStages r)) r = [] \<and>
      validateRejectedDeterministicChain r (rStages r) = [] \<longleftrightarrow> rejected_run r"
proof -
  have dist: "distinct (map StKind (rStages r))" using assms(1) in_stage_order_distinct by (auto simp: normal_stages_def)
  obtain checks l where ss: "rStages r = checks @ [l]"
    using assms(1) by (metis normal_stages_def rev_exhaust)
  show ?thesis
  proof (cases "rStatus r = STATUS_FAILED \<and> StKind l = KIND_L4_VERIFICATION")
    case False
    then have "\<not> rejected_run r" by (auto simp: rejected_run_def ss)
    moreover have "validateRejectedDeterministicChain r (rStages r) \<noteq> []"
      using False by (auto simp: validateRejectedDeterministicChain_def Let_def ss)
    ultimately show ?thesis by blast
  next
    case True
    then have "l = l4" using assms(2) stages_by_kind_Some[OF dist] by (simp add: ss stages_by_kind_append)
    with assms(3) have l: "StOutcome l = OUTCOME_FAILED" by simp
    let ?K = "map StKind checks"
    show ?thesis
    proof (cases "?K \<in> {[], [KIND_L1_DOCTRINE], [KIND_L1_DOCTRINE, KIND_PROTOCOL_L2],
       [KIND_L1_DOCTRINE, KIND_PROTOCOL_L2, KIND_L3_NOTARY]}")
      case False
      then have "\<not> rejected_run r" by (auto simp: rejected_run_def ss Let_def)
      then show ?thesis using False rejected_checks[OF ss] True by blast
    next
      case K: True
      then consider "checks = []" | a where "checks = [a]" "StKind a = KIND_L1_DOCTRINE"
        | a b where "checks = [a, b]" "StKind a = KIND_L1_DOCTRINE" "StKind b = KIND_PROTOCOL_L2"
        | a b c where "checks = [a, b, c]" "StKind a = KIND_L1_DOCTRINE" "StKind b = KIND_PROTOCOL_L2" "StKind c = KIND_L3_NOTARY"
        by (auto simp: map_eq_Cons_conv)
      then show ?thesis
        unfolding posture_outcomes_ok[OF dist] rejected_checks[OF ss conjunct1[OF True] conjunct2[OF True]]
        using True l by cases (auto simp: rejected_run_def ss Let_def expectedOutcomes_def)
    qed
  qed
qed

section \<open>Exactness\<close>

lemma CanonicalDeterministicStages_Inr:
  assumes "\<And>s. s \<in> set ss \<Longrightarrow> \<exists>b. M s = Inr b"
  shows "\<exists>b. CanonicalDeterministicStages M ss = Inr b"
  using assms
proof (induction ss)
  case (Cons s ss)
  obtain a where "M s = Inr a" using Cons.prems[of s] by auto
  moreover obtain b where "CanonicalDeterministicStages M ss = Inr b" using Cons by auto
  ultimately show ?case by simp
qed simp

lemma CanonicalDeterministicStages_Inl:
  "CanonicalDeterministicStages M ss = Inl err \<Longrightarrow> errors_Is err (Actuator ErrInvalidEvidenceGraph)"
  by (induction ss arbitrary: err) (auto split: sum.splits)

lemma chain_failure_none:
  assumes "normal_stages r" and "stages_by_kind (rStages r) KIND_L4_VERIFICATION = Some l4"
  shows "chain_failure r (rStages r) l4 = [] \<longleftrightarrow> consistent_identities (rStages r) \<and>
     (StOutcome l4 = OUTCOME_VERIFIED \<and> complete_run r \<or> StOutcome l4 = OUTCOME_FAILED \<and> rejected_run r)"
proof -
  let ?p = "validateDeterministicPostureStageOutcomes (stages_by_kind (rStages r)) r"
  have "chain_failure r (rStages r) l4 = [] \<longleftrightarrow> consistent_identities (rStages r) \<and> ?p = [] \<and>
     (case StOutcome l4 of
          OUTCOME_VERIFIED \<Rightarrow> validateVerifiedDeterministicChain r (stages_by_kind (rStages r))
        | OUTCOME_FAILED \<Rightarrow> validateRejectedDeterministicChain r (rStages r)
        | _ \<Rightarrow> ''L4 verification stage has an invalid outcome'') = []"
    unfolding chain_failure_def Let_def identities_ok[symmetric] by simp
  then show ?thesis using verified_shape[OF assms] rejected_shape[OF assms] by (cases "StOutcome l4") auto
qed

text \<open>The L4 stage of the two shapes.\<close>

lemma shape_l4:
  assumes "normal_stages r" and "complete_run r \<or> rejected_run r"
  obtains l4 where "stages_by_kind (rStages r) KIND_L4_VERIFICATION = Some l4"
    "StOutcome l4 = OUTCOME_VERIFIED \<and> complete_run r \<or> StOutcome l4 = OUTCOME_FAILED \<and> rejected_run r"
proof -
  have "distinct (map StKind (rStages r))" using assms(1) in_stage_order_distinct by (auto simp: normal_stages_def)
  note by_kind = stages_by_kind_Some[OF this]
  from assms(2) show thesis
  proof
    assume c: "complete_run r"
    then obtain l1 l2 l3 l4 rp ca l5 where "rStages r = [l1, l2, l3, l4, rp, ca, l5]"
      "map StKind (rStages r) = deterministicStageOrder" "StOutcome l4 = OUTCOME_VERIFIED"
      unfolding complete_run_def by (elim exE conjE) simp
    moreover from this have "stages_by_kind (rStages r) KIND_L4_VERIFICATION = Some l4"
      unfolding by_kind by (simp add: deterministicStageOrder_def)
    ultimately show thesis using that[of l4] c by simp
  next
    assume c: "rejected_run r"
    then obtain checks l4 where "rStages r = checks @ [l4]" "StKind l4 = KIND_L4_VERIFICATION" "StOutcome l4 = OUTCOME_FAILED"
      unfolding rejected_run_def by blast
    moreover from this have "stages_by_kind (rStages r) KIND_L4_VERIFICATION = Some l4" unfolding by_kind by simp
    ultimately show thesis using that[of l4] c by simp
  qed
qed

lemma chain_accepts:
  assumes "\<And>s. s \<in> set (rStages r) \<Longrightarrow> \<exists>b. M s = Inr b"
  shows "(\<exists>chain. ValidateDeterministicProtocolChain C M sh (Some r) = Inr chain) \<longleftrightarrow>
     normal_stages r \<and> consistent_identities (rStages r) \<and> (complete_run r \<or> rejected_run r)"
proof (cases "normal_stages r")
  case False
  then have "\<exists>err. NormalizeDeterministicStages sh (Some r) = Inl err"
    using Normalize_Inr[of sh r] by (cases "NormalizeDeterministicStages sh (Some r)") auto
  with False show ?thesis by (auto simp: ValidateDeterministicProtocolChain_def)
next
  case True
  then have n: "NormalizeDeterministicStages sh (Some r) = Inr (rStages r)" by (simp add: Normalize_Inr)
  obtain b where b: "CanonicalDeterministicStages M (rStages r) = Inr b"
    using CanonicalDeterministicStages_Inr[of "rStages r" M] assms by blast
  show ?thesis
  proof (cases "stages_by_kind (rStages r) KIND_L4_VERIFICATION")
    case None
    then show ?thesis using shape_l4[OF True]
      by (auto simp: ValidateDeterministicProtocolChain_def n)
  next
    case (Some l4)
    then have "(\<exists>chain. ValidateDeterministicProtocolChain C M sh (Some r) = Inr chain) \<longleftrightarrow>
        chain_failure r (rStages r) l4 = []"
      by (simp add: ValidateDeterministicProtocolChain_def n Let_def DeterministicStagesContentAddress_def b)
    then show ?thesis unfolding chain_failure_none[OF True Some] using True Some shape_l4[OF True] by auto
  qed
qed

lemma chain_rejects:
  assumes "ValidateDeterministicProtocolChain C M sh r = Inl err"
  shows "errors_Is err (Actuator ErrInvalidEvidenceGraph)"
  using assms Normalize_Inl CanonicalDeterministicStages_Inl
  by (fastforce simp: ValidateDeterministicProtocolChain_def Let_def DeterministicStagesContentAddress_def
      split: sum.splits option.splits if_splits)

text \<open>C27: The protocol chain validator is exact. A receipt whose stages can be encoded is
  accepted exactly when its stages belong to it (non-empty distinct ids, its transaction id and
  hash, one declared action type, agreeing identities) and form a complete run or a rejection as
  the receipt's own statuses declare; an accepted chain returns those stages under an address
  that hashes their encodings. Whatever is refused, a missing receipt included, is refused with
  \<open>ErrInvalidEvidenceGraph\<close>.\<close>

theorem protocol_chain_exact:
  assumes "\<And>s. s \<in> set (rStages r) \<Longrightarrow> \<exists>b. marshalCanonical s = Inr b"
  shows "((\<exists>chain. ValidateDeterministicProtocolChain C marshalCanonical sh (Some r) = Inr chain) \<longleftrightarrow>
       normal_stages r \<and> consistent_identities (rStages r) \<and> (complete_run r \<or> rejected_run r)) \<and>
     (ValidateDeterministicProtocolChain C marshalCanonical sh (Some r) = Inr chain \<longrightarrow>
       Stages chain = rStages r \<and>
       DeterministicStagesContentAddress C marshalCanonical (rStages r) = Inr (ContentReference chain)) \<and>
     (ValidateDeterministicProtocolChain C marshalCanonical sh any = Inl err \<longrightarrow>
       errors_Is err (Actuator ErrInvalidEvidenceGraph))"
proof (intro conjI impI)
  show "(\<exists>chain. ValidateDeterministicProtocolChain C marshalCanonical sh (Some r) = Inr chain) \<longleftrightarrow>
       normal_stages r \<and> consistent_identities (rStages r) \<and> (complete_run r \<or> rejected_run r)"
    by (rule chain_accepts[OF assms])
  assume "ValidateDeterministicProtocolChain C marshalCanonical sh (Some r) = Inr chain"
  then show "Stages chain = rStages r"
    "DeterministicStagesContentAddress C marshalCanonical (rStages r) = Inr (ContentReference chain)"
    by (auto simp: ValidateDeterministicProtocolChain_def Normalize_Inr Let_def split: sum.splits option.splits if_splits)
qed (rule chain_rejects)

section \<open>Receipts of the actuator\<close>

lemma prepared_stages:
  assumes "prepare_execution A E vt msg st = (Inr (receipt, msg', a), st')" and "acStore A = Some S"
  obtains rp ca where "rStages receipt = vtStages vt @ [rp, ca]"
    "rp = receipt_stage A E vt (receipt\<lparr>rStages := vtStages vt\<rparr>)" "ca \<in> range (commitment_stage E vt)"
    "rL2Status receipt = l2_status vt" "rL3Status receipt = l3_status vt"
proof -
  from assms(1) obtain initial st1 st2 c where p:
    "signAndLogReceipt A (acLog E 0) vt (buildInitialReceipt A (acInitialMs E) vt st) st = (Inr initial, st1)"
    "commit_step A E vt (add_stage (receipt_stage A E vt initial) initial) st1 = (Inr receipt, st2)"
    "MintCapability (acCrypto A) (acRand E) (Some vt) (SigningKey A) (KeyID A) = Inr c"
    "a = length (acCaps st2)" "st' = st2\<lparr>acCaps := acCaps st2 @ [c]\<rparr>" by (rule prepare_execution_Inr)
  from signAndLogReceipt_Inr[OF p(1)] obtain sig where sig:
    "initial = (buildInitialReceipt A (acInitialMs E) vt st)\<lparr>rSignature := sig\<rparr>" by blast
  from commit_step_Inr[OF p(2) assms(2)] obtain at where r:
    "receipt = add_stage (commitment_stage E vt at) (add_stage (receipt_stage A E vt initial) initial)" by blast
  show thesis
    by (rule that[of "receipt_stage A E vt initial" "commitment_stage E vt at"])
      (simp_all add: r sig add_stage_def buildInitialReceipt_def receipt_stage_def)
qed

text \<open>The stages of an executed transaction that the warden accepted.\<close>

definition run_stages ::
    "'w L5Actuator \<Rightarrow> actuator_env \<Rightarrow> VerifiedTransaction \<Rightarrow> ActionReceipt \<Rightarrow> gov_error option \<Rightarrow>
     CommitmentAttestation \<Rightarrow> StageEvidence list" where
  "run_stages A E vt r e at =
     (let l5 = (execution_stage E vt (rStateRootBefore r) e)\<lparr>StStateRootAfter := rStateRootAfter r\<rparr> in
      map (adopt l5) (vtStages vt @ [receipt_stage A E vt r, commitment_stage E vt at]) @ [l5])"

lemma executed_stages:
  assumes "Execute A E ctx vt msg st = (Some r, e, st')" and "\<not> logging_error e" and "acStore A = Some S"
  obtains r0 at where "rStages r = run_stages A E vt r0 e at" "rStateRootBefore r0 = rStateRootBefore r"
    "rStateRootAfter r0 = rStateRootAfter r" "rL2Status r = l2_status vt" "rL3Status r = l3_status vt"
    "rStatus r = (if e = None then STATUS_COMPLETED else STATUS_FAILED)"
    "rTransactionId r = Id (vtEnvelope vt)" "rTransactionHash r = TransactionHash (vtEnvelope vt)"
proof -
  from assms(1) obtain receipt msg' a st1 summary execErr st2 fe st4 where
    p: "prepare_execution A E vt msg st = (Inr (receipt, msg', a), st1)" and
    f: "signAndLogFinalReceipt A E vt (executed_receipt A E vt summary execErr (dissolve_cap a st2) receipt)
       (dissolve_cap a st2) = (fe, r, st4)" and
    run: "e = (case fe of None \<Rightarrow> execErr | Some err \<Rightarrow> Some err)" by (rule Execute_Some)
  have fe: "fe = None" using assms(2) run f by (cases fe) (auto dest: signAndLogFinalReceipt_Some)
  with run have e: "execErr = e" by simp
  let ?x = "executed_receipt A E vt summary e (dissolve_cap a st2) receipt"
  from f[unfolded fe e] obtain sig pa where r: "r = ?x\<lparr>rSignature := sig, rFinalPersistenceAttestation := pa\<rparr>"
    by (auto simp: signAndLogFinalReceipt_def Let_def split: sum.splits prod.splits option.splits)
  from prepared_stages[OF p assms(3)] obtain rp at where ps: "rStages receipt = vtStages vt @ [rp, commitment_stage E vt at]"
    "rp = receipt_stage A E vt (receipt\<lparr>rStages := vtStages vt\<rparr>)"
    "rL2Status receipt = l2_status vt" "rL3Status receipt = l3_status vt" by blast
  note pr = prepared_receipt(1,2)[OF p assms(3)]
  show thesis
    by (rule that[of "receipt\<lparr>rStateRootAfter := rStateRootAfter ?x\<rparr>" at])
      (simp_all add: r run_stages_def ps pr executed_receipt_def Let_def finalizeReceipt_def receipt_stage_def adopt_def
        split: option.split)
qed

lemma stages_of_envelope:
  assumes "list_all (stage_of env) (rStages r)" and "EnvActionType env \<noteq> []" and "rStages r \<noteq> []"
    and "in_stage_order (rStages r)" and "KIND_UNSPECIFIED \<notin> set (map StKind (rStages r))"
    and "rTransactionId r = Id env" and "rTransactionHash r = TransactionHash env"
  shows "normal_stages r" "consistent_identities (rStages r)"
proof -
  have st: "stage_of env s" if "s \<in> set (rStages r)" for s using assms(1) that by (simp add: list_all_iff)
  have "set (map StActionType (rStages r)) = {EnvActionType env}"
    using st assms(3) by (auto simp: stage_of_def image_def ex_in_conv)
  then have "one_action (rStages r)" using assms(2) by (auto simp: one_action_def)
  moreover have "StKind s \<noteq> KIND_UNSPECIFIED" if "s \<in> set (rStages r)" for s using assms(5) that by force
  then have "list_all (stage_of_receipt r) (rStages r)"
    using st by (simp add: list_all_iff stage_of_receipt_def stage_of_def assms(6,7))
  moreover have "map StageId (rStages r) = map (deterministicStageID env) (map StKind (rStages r))"
    using st by (simp add: stage_of_def)
  then have "distinct (map StageId (rStages r))"
    using in_stage_order_distinct[OF assms(4)] by (auto simp: distinct_map inj_on_def)
  ultimately show "normal_stages r" using assms(3,4) by (simp add: normal_stages_def)
  have "identity_values s = [OperatorId env, OperatorSessionId env, RequestorUserId env, ActingAppId env,
      CaseId env, InvestigationId env, TaskId env]" if "s \<in> set (rStages r)" for s
    using st[OF that] by (simp add: identity_values_def stage_of_def)
  then show "consistent_identities (rStages r)" by (auto simp: consistent_identities_def)
qed

lemma actuator_stage_of [simp]:
  "stage_of (vtEnvelope vt) (receipt_stage A E vt r)" "stage_of (vtEnvelope vt) (commitment_stage E vt at)"
  "stage_of (vtEnvelope vt) (execution_stage E vt root e)" "stage_of env (adopt l5 s) = stage_of env s"
  "stage_of env (s\<lparr>StStateRootAfter := x\<rparr>) = stage_of env s"
  by (simp_all add: stage_of_def receipt_stage_def commitment_stage_def execution_stage_def adopt_def)

lemma status_outcomes:
  assumes "vtPosture vt = Some p"
  shows "stage_outcome (vtL2Valid vt) = deterministicL2StatusOutcome (l2_status vt) \<longleftrightarrow> RequiresL2Signature p = vtL2Valid vt"
    and "stage_outcome (vtL3Valid vt) = deterministicL3StatusOutcome (l3_status vt) \<longleftrightarrow> RequiresL3Proof p = vtL3Valid vt"
  using assms by (auto simp: stage_outcome_def l2_status_def l3_status_def)

lemma run_stages_shape:
  assumes "vtStages vt = close_stages (l4_stage C Ev env OUTCOME_VERIFIED)
      [l1_stage Ev d env OUTCOME_VERIFIED, l2_stage C Ev env x, l3_stage C Ev env y]" and "vtEnvelope vt = env"
    and "rStages r = run_stages A E vt r0 e at" and "rStateRootBefore r0 = rStateRootBefore r"
    and "rStateRootAfter r0 = rStateRootAfter r"
    and "rStatus r = (if e = None then STATUS_COMPLETED else STATUS_FAILED)"
  shows "map StKind (rStages r) = deterministicStageOrder" "list_all (stage_of env) (rStages r)"
    "complete_run r \<longleftrightarrow> x = deterministicL2StatusOutcome (rL2Status r) \<and> y = deterministicL3StatusOutcome (rL3Status r)"
proof -
  have kinds: "StKind (receipt_stage A E vt r0) = KIND_RECEIPT_PERSISTENCE" "StKind (commitment_stage E vt at) = KIND_COMMITMENT_APPEND"
    "StKind (execution_stage E vt root e) = KIND_L5_EXECUTION" for root
    by (simp_all add: receipt_stage_def commitment_stage_def execution_stage_def)
  have outs: "StOutcome (receipt_stage A E vt r0) = OUTCOME_COMPLETED" "StOutcome (commitment_stage E vt at) = OUTCOME_COMPLETED"
    "StOutcome (execution_stage E vt root e) = (if e = None then OUTCOME_COMPLETED else OUTCOME_FAILED)"
    "StStateRootBefore (execution_stage E vt root e) = root" "ParentStageId (execution_stage E vt root e) = []" for root
    by (simp_all add: receipt_stage_def commitment_stage_def execution_stage_def split: option.split)
  show k: "map StKind (rStages r) = deterministicStageOrder"
    by (simp add: assms(1,3) run_stages_def Let_def close_stages_def adopt_def kinds deterministicStageOrder_def)
  have "stage_of env (receipt_stage A E vt r0)" "stage_of env (commitment_stage E vt at)" "stage_of env (execution_stage E vt root e)" for root
    using assms(2) actuator_stage_of by blast+
  then show "list_all (stage_of env) (rStages r)"
    by (simp add: assms(1,3) run_stages_def Let_def close_stages_def)
  show "complete_run r \<longleftrightarrow> x = deterministicL2StatusOutcome (rL2Status r) \<and> y = deterministicL3StatusOutcome (rL3Status r)"
    unfolding complete_run_def k
    by (simp add: assms(1,3-6) run_stages_def Let_def close_stages_def adopt_def kinds outs)
qed

lemma accepted_transaction:
  assumes "fst (VerifyEnvelope P W Ev wst (Some env)) = (Some vt, None)"
  obtains p where "vtPosture vt = Some p" "vtEnvelope vt = env" "Posture env = posture_Name p"
    "vtStages vt = close_stages (l4_stage (pCrypto P) Ev env OUTCOME_VERIFIED)
      [l1_stage Ev (doctrine W) env OUTCOME_VERIFIED, l2_stage (pCrypto P) Ev env (stage_outcome (vtL2Valid vt)),
       l3_stage (pCrypto P) Ev env (stage_outcome (vtL3Valid vt))]"
    "verifyL2Posture (pCrypto P) (signerStore W) (consensusPolicyStore W) env (TransactionHash env) p = Inr (vtL2Valid vt)"
    "verifyL3Posture (l3Notary W) env p = Inr (vtL3Valid vt)"
  using assms by (cases rule: VerifyEnvelope_cases) (auto simp: verified_transaction_def)

text \<open>Which executed transactions leave a receipt that the protocol chain validator accepts.
  For a transaction the warden accepted and the actuator executed on a node with an audit store
  (whatever the handler's outcome), the receipt validates exactly when each of L2 and L3 was
  found valid if and only if the posture asks for it. In the two other cases the receipt of a
  properly executed transaction is refused: a bootstrap action that passed without votes under a
  posture that asks for L2, since its status says required and failed while its stage says not
  required; and a transaction with valid votes, or a valid proof, under a posture that does not
  ask for them.\<close>

theorem executed_receipt_chain:
  assumes "fst (VerifyEnvelope P W Ev wst (Some env)) = (Some vt, None)" and "EnvActionType env \<noteq> []"
    and "acStore A = Some S" and "Execute A E ctx vt msg st = (Some r, e, st')" and "\<not> logging_error e"
    and "\<And>s. s \<in> set (rStages r) \<Longrightarrow> \<exists>b. marshalCanonical s = Inr b"
  shows "(\<exists>chain. ValidateDeterministicProtocolChain C marshalCanonical sh (Some r) = Inr chain) \<longleftrightarrow>
     (\<exists>p. vtPosture vt = Some p \<and> RequiresL2Signature p = vtL2Valid vt \<and> RequiresL3Proof p = vtL3Valid vt)"
proof -
  from assms(1) obtain p where p: "vtPosture vt = Some p" "vtEnvelope vt = env"
    "vtStages vt = close_stages (l4_stage (pCrypto P) Ev env OUTCOME_VERIFIED)
      [l1_stage Ev (doctrine W) env OUTCOME_VERIFIED, l2_stage (pCrypto P) Ev env (stage_outcome (vtL2Valid vt)),
       l3_stage (pCrypto P) Ev env (stage_outcome (vtL3Valid vt))]" by (rule accepted_transaction)
  obtain r0 at where r: "rStages r = run_stages A E vt r0 e at" "rStateRootBefore r0 = rStateRootBefore r"
    "rStateRootAfter r0 = rStateRootAfter r" "rL2Status r = l2_status vt" "rL3Status r = l3_status vt"
    "rStatus r = (if e = None then STATUS_COMPLETED else STATUS_FAILED)"
    "rTransactionId r = Id (vtEnvelope vt)" "rTransactionHash r = TransactionHash (vtEnvelope vt)"
    by (rule executed_stages[OF assms(4,5,3)])
  have acc: "(\<exists>chain. ValidateDeterministicProtocolChain C marshalCanonical sh (Some r) = Inr chain) \<longleftrightarrow>
      normal_stages r \<and> consistent_identities (rStages r) \<and> (complete_run r \<or> rejected_run r)"
    by (rule chain_accepts) (rule assms(6))
  note shape = run_stages_shape[OF p(3,2) r(1-3,6)]
  have "map deterministicStageKindIndex (map StKind (rStages r)) = [0, 1, 2, 3, 4, 5, 6]"
    unfolding shape(1) by (simp add: deterministicStageOrder_def)
  then have "map (\<lambda>s. deterministicStageKindIndex (StKind s)) (rStages r) = [0, 1, 2, 3, 4, 5, 6]" by (simp add: comp_def)
  then have ord: "in_stage_order (rStages r)" unfolding in_stage_order_sorted by simp
  have ne: "rStages r \<noteq> []" using shape(1) by (cases "rStages r") (simp_all add: deterministicStageOrder_def)
  have un: "KIND_UNSPECIFIED \<notin> set (map StKind (rStages r))" unfolding shape(1) by (simp add: deterministicStageOrder_def)
  note ok = stages_of_envelope[OF shape(2) assms(2) ne ord un r(7,8)[unfolded p(2)]]
  have "last (map StKind (rStages r)) = KIND_L5_EXECUTION" by (simp add: shape(1) deterministicStageOrder_def)
  then have "\<not> rejected_run r" by (auto simp: rejected_run_def)
  with ok shape(3) show ?thesis
    unfolding acc r(4,5) status_outcomes[OF p(1)] p(1) by simp
qed

text \<open>The receipts of rejected transactions: they validate, except those of transactions that
  failed L3 while L2 was valid without being asked for, or asked for and skipped.\<close>

lemma recorded_rejection:
  assumes "RecordRejectedTransaction A E (Some vt) (Some err) st = (Inr r, st')"
  shows "rStages r = vtStages vt" "rStatus r = STATUS_FAILED" "rL2Status r = l2_status vt" "rL3Status r = l3_status vt"
    "rTransactionId r = Id (vtEnvelope vt)" "rTransactionHash r = TransactionHash (vtEnvelope vt)"
  using assms
  by (auto simp: RecordRejectedTransaction_def signAndLogFinalReceipt_def buildInitialReceipt_def Let_def
      split: if_splits sum.splits prod.splits option.splits)

lemma rejected_enforced:
  "verifyL2Posture C ss ps env h p = Inl err \<Longrightarrow> RequiresL2Signature p"
  "verifyL3Posture n env p = Inl err \<Longrightarrow> RequiresL3Proof p"
  by (auto simp: verifyL2Posture_def l2_failure_def l2_enforced_def verifyL3Posture_def l3_enforced_def Let_def
      split: option.splits sum.splits if_splits)

theorem rejected_receipt_chain:
  assumes "fst (VerifyEnvelope P W Ev wst (Some env)) = (Some vt, Some rejection)" and "EnvActionType env \<noteq> []"
    and "RecordRejectedTransaction A E (Some vt) (Some rejection) st = (Inr r, st')"
    and "\<And>s. s \<in> set (rStages r) \<Longrightarrow> \<exists>b. marshalCanonical s = Inr b"
  shows "(\<exists>chain. ValidateDeterministicProtocolChain C marshalCanonical sh (Some r) = Inr chain) \<longleftrightarrow>
     (KIND_L3_NOTARY \<in> set (map StKind (vtStages vt)) \<longrightarrow> RequiresL2Signature (the (vtPosture vt)) = vtL2Valid vt)"
proof -
  have acc: "(\<exists>chain. ValidateDeterministicProtocolChain C marshalCanonical sh (Some r) = Inr chain) \<longleftrightarrow>
      normal_stages r \<and> consistent_identities (rStages r) \<and> (complete_run r \<or> rejected_run r)"
    by (rule chain_accepts) (rule assms(4))
  note r = recorded_rejection[OF assms(3)]
  have env: "vtEnvelope vt = env" using assms(1)
    by (cases rule: VerifyEnvelope_cases) (auto simp: rejected_transaction_def)
  have last: "StKind (last (rStages r)) = KIND_L4_VERIFICATION" "rStages r \<noteq> []" "list_all (stage_of env) (rStages r)"
    "in_stage_order (rStages r)" "KIND_UNSPECIFIED \<notin> set (map StKind (rStages r))"
    using assms(1) by (cases rule: VerifyEnvelope_cases; auto simp: r(1) close_stages_def)+
  have "map StKind (rStages r) \<noteq> deterministicStageOrder"
  proof
    assume "map StKind (rStages r) = deterministicStageOrder"
    then have "last (map StKind (rStages r)) = KIND_L5_EXECUTION" by (simp add: deterministicStageOrder_def)
    with last(1,2) show False by (simp add: last_map)
  qed
  then have nc: "\<not> complete_run r" by (auto simp: complete_run_def)
  note ok = stages_of_envelope[OF last(3) assms(2) last(2,4,5) r(5,6)[unfolded env]]
  have "rejected_run r \<longleftrightarrow>
     (KIND_L3_NOTARY \<in> set (map StKind (vtStages vt)) \<longrightarrow> RequiresL2Signature (the (vtPosture vt)) = vtL2Valid vt)"
    using assms(1)
    by (cases rule: VerifyEnvelope_cases)
      (auto simp: rejected_run_def r close_stages_def Let_def rejected_transaction_def l2_status_def l3_status_def
        stage_outcome_def dest: rejected_enforced)
  with ok nc show ?thesis unfolding acc by simp
qed

end
