(* ===== verification/Execution_Samples.thy ===== *)
theory Execution_Samples
  imports Dispatch_Facts Protocol_Chain_Facts
begin

text \<open>
  Concrete runs of the actuator and of the operator: a transaction that the sample warden accepts
  and the actuator executes with all its evidence, and a replay whose rejection replaces the stored receipt. The receipt codec of a run
  is a table of the receipts that occur in it.
\<close>

section \<open>A calm node\<close>

text \<open>The codec that knows a list of receipts by their position.\<close>

definition table_codec :: "ActionReceipt list \<Rightarrow> receipt_codec" where
  "table_codec rs = \<lparr>
     rcUnmarshal = (\<lambda>j. if j \<noteq> [] \<and> length j \<le> length rs then Inr (rs ! (length j - 1)) else Inl (Sentinel (Sys ErrInternal))),
     rcMarshal = (\<lambda>r. if r \<in> set rs then Inr (replicate (Suc (index_of r rs)) (CHR ''r'')) else Inl (Sentinel (Sys ErrInternal)))\<rparr>"

lemma index_of_nth: "x \<in> set xs \<Longrightarrow> index_of x xs < length xs \<and> xs ! index_of x xs = x"
  by (induction xs) auto

lemma table_codec_round_trip: "receipt_codec_round_trip (table_codec rs)"
  by (auto simp: receipt_codec_round_trip_def table_codec_def Suc_le_eq index_of_nth split: if_splits)

lemma table_codec_marshals: "r \<in> set rs \<Longrightarrow> \<exists>j. rcMarshal (table_codec rs) r = Inr j"
  by (simp add: table_codec_def)

definition open_vault :: vault where
  "open_vault = \<lparr>vUnlocked = True, vEncrypt = Inr, vDecrypt = Inr\<rparr>"

definition demo_store :: "ActionReceipt list \<Rightarrow> SQLAuditStore" where
  "demo_store rs = \<lparr>asConfig = DefaultAuditStoreConfig, asVault = open_vault, asCrypto = signing_crypto,
     asCodec = table_codec rs\<rparr>"

definition calm_log :: log_env where
  "calm_log = \<lparr>lgNow = 0, lgRecordNow = 0, lgDoc = None, lgStore = quiet_call\<rparr>"

lemma calm_append:
  "\<exists>x t'. AppendPreparedAuditEvent C (aeFaults calm_audit i) p t = (Inr x, t')"
  by (simp add: AppendPreparedAuditEvent_def loadAuditChainHeadConn_def calm_audit_def Let_def split: option.split)

lemma calm_prepared: "\<exists>p. prepareAuditEventInsert (demo_store rs) (receipt_event rec j ts) = Inr p"
  by (simp add: prepareAuditEventInsert_def truncateOutput_def receipt_event_def zero_event_def encryptContent_def
      demo_store_def open_vault_def)

lemma calm_record_tx:
  assumes "arOperatorSessionID rec = []"
  shows "\<exists>db'. record_receipt_tx (demo_store rs) (scFaults quiet_call i) (aeFaults calm_audit i) rec j ts db = (Inr (), db')"
proof -
  obtain p where p: "prepareAuditEventInsert (demo_store rs) (receipt_event rec j ts) = Inr p"
    using calm_prepared by blast
  let ?db = "db\<lparr>adReceipts := upsert_receipt rec j (FormatTimestamp ts) (adReceipts db)\<rparr>"
  obtain x t where "AppendPreparedAuditEvent (asCrypto (demo_store rs)) (aeFaults calm_audit i) p (adChain ?db) = (Inr x, t)"
    using calm_append by blast
  then have "append_event (demo_store rs) (aeFaults calm_audit i) p ?db = (Inr x, ?db\<lparr>adChain := t\<rparr>)"
    by (simp add: append_event_def)
  with p assms show ?thesis by (simp add: record_receipt_tx_def quiet_call_def)
qed

lemma calm_recorded:
  assumes "arOperatorSessionID rec = []" and "arActionReceipt rec = Some r" and "r \<in> set rs"
  shows "\<exists>db'. RecordActionReceipt (demo_store rs) quiet_call now (Some rec) (Some db) = (Inr (), Some db')"
proof -
  obtain j where "rcMarshal (table_codec rs) r = Inr j" using table_codec_marshals[OF assms(3)] by blast
  then have j: "receipt_json (asCodec (demo_store rs)) (arActionReceipt rec) = Inr j"
    by (simp add: receipt_json_def assms(2) demo_store_def)
  let ?ts = "if arTimestamp rec = zero_time then now else arTimestamp rec"
  obtain db' where db: "record_receipt_tx (demo_store rs) (scFaults quiet_call 0) (aeFaults calm_audit 0) rec j ?ts db = (Inr (), db')"
    using calm_record_tx[OF assms(1)] by blast
  show ?thesis unfolding RecordActionReceipt_def option.case j sum.case calm_call Let_def
    by (subst calm_transaction[where fn = "\<lambda>i. record_receipt_tx (demo_store rs) (scFaults quiet_call i)
          (aeFaults calm_audit i) rec j ?ts", OF db]) simp
qed

lemma calm_logged:
  assumes "acStore A = Some (demo_store rs)" and "ConsoleAuditStore A = None" and "acAudit st = Some db"
    and "r \<in> set rs" and "OperatorSessionId env = []"
  shows "\<exists>db'. LogReceipt A calm_log env r st = (None, st\<lparr>acAudit := Some db'\<rparr>)"
proof -
  have "arOperatorSessionID (BuildReceiptRecord env r 0) = []" by (simp add: BuildReceiptRecord_def assms(5))
  from calm_recorded[OF this BuildReceiptRecord_simps(2) assms(4), of 0 db] obtain db' where
    "RecordActionReceipt (demo_store rs) quiet_call 0 (Some (BuildReceiptRecord env r 0)) (Some db) = (Inr (), Some db')"
    by blast
  then show ?thesis by (auto simp: LogReceipt_def logReceiptDocument_def assms(1-3) calm_log_def)
qed

section \<open>A successful execution\<close>

text \<open>The shutdown request that the sample warden accepts under the notary posture.\<close>

definition demo_tx :: VerifiedTransaction where
  "demo_tx = the (fst (fst (VerifyEnvelope sample_platform sample_warden sample_warden_env fresh_state (Some shutdown_envelope))))"

lemma demo_verified:
  "fst (VerifyEnvelope sample_platform sample_warden sample_warden_env fresh_state (Some shutdown_envelope)) = (Some demo_tx, None)"
proof -
  obtain r e where v: "fst (VerifyEnvelope sample_platform sample_warden sample_warden_env fresh_state (Some shutdown_envelope)) = (r, e)"
    by fastforce
  moreover from this sample_accepts have "e = None" by simp
  moreover from v this have "r \<noteq> None" by (cases rule: VerifyEnvelope_cases) simp_all
  ultimately show ?thesis by (auto simp: demo_tx_def)
qed

lemma demo_tx_envelope: "vtEnvelope demo_tx = shutdown_envelope"
  using demo_verified by (rule accepted_transaction)

text \<open>The handler counts its calls.\<close>

definition demo_handler ::
    "(string \<rightharpoonup> cap_addr) \<Rightarrow> EventType \<Rightarrow> CommandMessage option \<Rightarrow> nat actuator_state \<Rightarrow>
     (string \<times> gov_error option) \<times> nat actuator_state" where
  "demo_handler ctx et msg st = ((''done'', None), st\<lparr>acWorld := Suc (acWorld st)\<rparr>)"

definition demo_actuator :: "ActionReceipt list \<Rightarrow> attestation_codec \<Rightarrow> nat L5Actuator" where
  "demo_actuator rs K = \<lparr>acStore = Some (demo_store rs), acAttestation = K, acStageMarshal = (\<lambda>s. Inr (StageId s)),
     acCrypto = signing_crypto, ConsoleAuditStore = None, acStateRoot = None, acHandler = Some demo_handler,
     Scrubbing = None, ReceiptPublisher = None, SigningKey = auditor_key, KeyID = auditor_key_id,
     AuditorSigningKey = auditor_key, AuditorKeyID = auditor_key_id, acShow = (\<lambda>_. [])\<rparr>"

definition demo_env :: actuator_env where
  "demo_env = \<lparr>acMono = int, acInitialMs = 1, acFinalMs = 2, acPersistedMs = 3, acLog = (\<lambda>_. calm_log),
     acLedgerEnv = quiet_ledger_env, acCommitMs = (\<lambda>_. 1), acRand = Inr (replicate 32 (CHR ''t''))\<rparr>"

definition demo_state :: "nat actuator_state" where
  "demo_state = \<lparr>acAudit = Some empty_db, acLedger = Some [], acDocs = Map.empty, acCaps = [], acWorld = 0\<rparr>"

lemma demo_sound:
  assumes "codec_round_trip K"
  shows "sound_actuator (demo_actuator rs K) (ed_Public auditor_key)"
  using assms signing_crypto_facts(3)[of auditor_key]
  by (auto simp: sound_actuator_def actuator_keys_def demo_actuator_def demo_store_def table_codec_round_trip
      auditor_key_def ed_Public_def sig64_def signing_crypto_def toy_sign_def min_def)

lemma demo_signs: "\<exists>sig. signReceipt (demo_actuator rs K) r = Inr sig"
proof -
  have "\<exists>encs. collect_results (map (\<lambda>s. Inr (StageId s)) stages) = Inr encs" for stages :: "StageEvidence list"
    by (induction stages) auto
  then have "\<exists>p. CanonicalizeActionReceipt signing_crypto (\<lambda>s. Inr (StageId s)) r = Inr p"
    by (auto simp: CanonicalizeActionReceipt_def deterministicStageEvidenceHash_def split: sum.split)
  then show ?thesis by (auto simp: signReceipt_def demo_actuator_def auditor_key_def)
qed

lemma demo_quiet: "quiet_publisher (demo_actuator rs K)" "heap_monotone (demo_actuator rs K)"
  by (simp_all add: quiet_publisher_def heap_monotone_def demo_actuator_def demo_handler_def)

text \<open>The artefacts of the run, which do not depend on the codecs.\<close>

definition demo_base :: "nat L5Actuator" where
  "demo_base = demo_actuator [] (pair_codec first_commitment first_commitment)"

definition demo_sig :: "ActionReceipt \<Rightarrow> string" where
  "demo_sig r = (case signReceipt demo_base r of Inl _ \<Rightarrow> [] | Inr s \<Rightarrow> s)"

definition demo_initial :: ActionReceipt where
  "demo_initial = (let r = buildInitialReceipt demo_base 1 demo_tx demo_state in r\<lparr>rSignature := demo_sig r\<rparr>)"

definition demo_stored :: ActionReceipt where
  "demo_stored = add_stage (receipt_stage demo_base demo_env demo_tx demo_initial) demo_initial"

definition demo_commitment :: CommitmentAttestation where
  "demo_commitment = commitment_attestation signing_crypto auditor_key auditor_key_id 1 demo_tx demo_stored []"

definition demo_executed :: ActionReceipt where
  "demo_executed = executed_receipt demo_base demo_env demo_tx ''done'' None demo_state
     (add_stage (commitment_stage demo_env demo_tx demo_commitment) demo_stored)"

definition demo_signed :: ActionReceipt where
  "demo_signed = demo_executed\<lparr>rSignature := demo_sig demo_executed\<rparr>"

definition demo_final :: ActionReceipt where
  "demo_final = demo_signed\<lparr>rFinalPersistenceAttestation :=
     Some (signReceiptPersistenceAttestation demo_base 3 demo_signed)\<rparr>"

definition demo_node :: "nat L5Actuator" where
  "demo_node = demo_actuator [demo_initial, demo_signed, demo_final] (pair_codec demo_commitment demo_commitment)"

lemma demo_codec_free:
  "signReceipt (demo_actuator rs K) = signReceipt demo_base" "root_now (demo_actuator rs K) st = []"
  "buildInitialReceipt (demo_actuator rs K) = buildInitialReceipt demo_base"
  "receipt_stage (demo_actuator rs K) = receipt_stage demo_base"
  "signReceiptPersistenceAttestation (demo_actuator rs K) = signReceiptPersistenceAttestation demo_base"
  by (simp_all add: fun_eq_iff signReceipt_def demo_actuator_def demo_base_def root_now_def buildInitialReceipt_def
      receipt_stage_def signReceiptPersistenceAttestation_def cong: sum.case_cong)

lemma demo_executed_free:
  "executed_receipt (demo_actuator rs K) E vt s None st r = executed_receipt demo_base E vt s None st' r"
proof -
  have "root_now demo_base st' = []" unfolding demo_base_def by (rule demo_codec_free(2))
  then show ?thesis by (simp add: executed_receipt_def finalizeReceipt_def demo_codec_free(2))
qed

lemma demo_signature: "signReceipt (demo_actuator rs K) r = Inr (demo_sig r)"
proof -
  obtain s where s: "signReceipt (demo_actuator rs K) r = Inr s" using demo_signs by blast
  then have "signReceipt demo_base r = Inr s" unfolding demo_codec_free(1) .
  with s show ?thesis by (simp add: demo_sig_def)
qed

lemma demo_node_logs:
  assumes "acAudit st = Some db" and "r \<in> {demo_initial, demo_signed, demo_final}"
  shows "\<exists>db'. LogReceipt demo_node calm_log shutdown_envelope r st = (None, st\<lparr>acAudit := Some db'\<rparr>)"
  by (rule calm_logged[where rs = "[demo_initial, demo_signed, demo_final]", OF _ _ assms(1)])
    (use assms(2) in \<open>auto simp: demo_node_def demo_actuator_def shutdown_envelope_def shutdown_intent_def\<close>)

lemma demo_committed:
  "\<exists>rows. persistCommitment signing_crypto (pair_codec demo_commitment demo_commitment) quiet_ledger_env (\<lambda>_. 1) auditor_key
     auditor_key_id demo_tx demo_stored (Some []) = (Inr demo_commitment, Some rows)"
proof -
  let ?K = "pair_codec demo_commitment demo_commitment"
  have m: "caMarshal ?K demo_commitment = Inr ''0''" "caUnmarshal ?K ''0'' = Inr demo_commitment"
    by (simp_all add: pair_codec_def)
  have key: "length auditor_key = 64" by (simp add: auditor_key_def)
  show ?thesis
    by (simp add: persistCommitment_def key auditor_key_id_def[symmetric] AppendCommitment_def quiet_ledger_env_def
        ExecInImmediateTxWithRetry_def numeral_3_eq_3 immediate_attempt_def append_tx_def build_commitment_def Let_def
        ledger_head_def demo_commitment_def[symmetric] m appendCommitmentJSON_tx_def)
qed

lemma demo_minted: "\<exists>c. MintCapability signing_crypto (acRand demo_env) (Some demo_tx) auditor_key auditor_key_id = Inr c"
  by (simp add: MintCapability_def demo_env_def Let_def)

lemma demo_node_signature: "signReceipt demo_node r = Inr (demo_sig r)"
  unfolding demo_node_def by (rule demo_signature)

lemma auditor_key_id_nonempty: "auditor_key_id \<noteq> []"
proof -
  have "ed_Public auditor_key \<noteq> []" by (simp add: ed_Public_def auditor_key_def)
  then show ?thesis unfolding auditor_key_id_def by (cases "ed_Public auditor_key") simp_all
qed

lemma demo_guard: "execute_guard demo_node demo_tx demo_state = None"
  by (simp add: execute_guard_def demo_node_def demo_actuator_def auditor_key_id_nonempty demo_state_def demo_tx_envelope
      shutdown_envelope_def shutdown_intent_def sample_envelope_def) (simp add: auditor_key_def)

text \<open>The selectors of the environment and of the node.\<close>

lemma demo_parts:
  "acLog demo_env i = calm_log" "acInitialMs demo_env = 1" "acPersistedMs demo_env = 3"
  "acLedgerEnv demo_env = quiet_ledger_env" "acCommitMs demo_env = (\<lambda>_. 1)"
  "acCrypto demo_node = signing_crypto" "acAttestation demo_node = pair_codec demo_commitment demo_commitment"
  "AuditorSigningKey demo_node = auditor_key" "AuditorKeyID demo_node = auditor_key_id" "SigningKey demo_node = auditor_key"
  "KeyID demo_node = auditor_key_id" "Scrubbing demo_node = None" "acHandler demo_node = Some demo_handler"
  "ReceiptPublisher demo_node = None" "acStore demo_node = Some (demo_store [demo_initial, demo_signed, demo_final])"
  by (simp_all add: demo_env_def demo_node_def demo_actuator_def)

lemma demo_prepared:
  "\<exists>st' db. prepare_execution demo_node demo_env demo_tx None demo_state =
     (Inr (add_stage (commitment_stage demo_env demo_tx demo_commitment) demo_stored, None, 0), st') \<and> acAudit st' = Some db"
proof -
  have b: "buildInitialReceipt demo_node 1 demo_tx demo_state = buildInitialReceipt demo_base 1 demo_tx demo_state"
    by (simp add: demo_node_def demo_codec_free)
  have i: "(buildInitialReceipt demo_base 1 demo_tx demo_state)
      \<lparr>rSignature := demo_sig (buildInitialReceipt demo_base 1 demo_tx demo_state)\<rparr> = demo_initial"
    by (simp add: demo_initial_def Let_def)
  obtain db where db: "LogReceipt demo_node calm_log shutdown_envelope demo_initial demo_state = (None, demo_state\<lparr>acAudit := Some db\<rparr>)"
    using demo_node_logs[of demo_state empty_db demo_initial] by (auto simp: demo_state_def)
  have s1: "signAndLogReceipt demo_node calm_log demo_tx (buildInitialReceipt demo_base 1 demo_tx demo_state) demo_state =
      (Inr demo_initial, demo_state\<lparr>acAudit := Some db\<rparr>)"
    by (simp add: signAndLogReceipt_def demo_node_signature
        i db demo_tx_envelope Let_def)
  have st: "add_stage (receipt_stage demo_node demo_env demo_tx demo_initial) demo_initial = demo_stored"
    by (simp add: demo_stored_def demo_node_def demo_codec_free)
  obtain rows where rows: "persistCommitment signing_crypto (pair_codec demo_commitment demo_commitment) quiet_ledger_env (\<lambda>_. 1)
      auditor_key auditor_key_id demo_tx demo_stored (Some []) = (Inr demo_commitment, Some rows)"
    using demo_committed by blast
  have s2: "commit_step demo_node demo_env demo_tx demo_stored (demo_state\<lparr>acAudit := Some db\<rparr>) =
      (Inr (add_stage (commitment_stage demo_env demo_tx demo_commitment) demo_stored),
       demo_state\<lparr>acAudit := Some db, acLedger := Some rows\<rparr>)"
    using rows by (simp add: commit_step_def demo_parts demo_state_def)
  obtain c where c: "MintCapability signing_crypto (acRand demo_env) (Some demo_tx) auditor_key auditor_key_id = Inr c"
    using demo_minted by blast
  show ?thesis
    by (simp add: prepare_execution_def demo_guard demo_parts b s1 st s2 c rehydratePayload_def)
      (simp add: demo_state_def)
qed

lemma demo_run:
  "\<exists>st'. Execute demo_node demo_env Map.empty demo_tx None demo_state = (Some demo_final, None, st')"
proof -
  obtain st1 db where p: "prepare_execution demo_node demo_env demo_tx None demo_state =
      (Inr (add_stage (commitment_stage demo_env demo_tx demo_commitment) demo_stored, None, 0), st1)" "acAudit st1 = Some db"
    using demo_prepared by blast
  let ?st3 = "dissolve_cap 0 (st1\<lparr>acWorld := Suc (acWorld st1)\<rparr>)"
  have x: "executed_receipt demo_node demo_env demo_tx ''done'' None ?st3
      (add_stage (commitment_stage demo_env demo_tx demo_commitment) demo_stored) = demo_executed"
    unfolding demo_executed_def demo_node_def by (rule demo_executed_free)
  have a: "acAudit ?st3 = Some db" by (simp add: dissolve_cap_def p(2))
  obtain db1 where l1: "LogReceipt demo_node calm_log shutdown_envelope demo_signed ?st3 = (None, ?st3\<lparr>acAudit := Some db1\<rparr>)"
    using demo_node_logs[OF a, of demo_signed] by auto
  obtain db2 where l2: "LogReceipt demo_node calm_log shutdown_envelope demo_final (?st3\<lparr>acAudit := Some db1\<rparr>) =
      (None, ?st3\<lparr>acAudit := Some db1, acAudit := Some db2\<rparr>)"
    using demo_node_logs[of "?st3\<lparr>acAudit := Some db1\<rparr>" db1 demo_final] by auto
  have f: "demo_signed\<lparr>rFinalPersistenceAttestation := Some (signReceiptPersistenceAttestation demo_node 3 demo_signed)\<rparr> = demo_final"
    by (simp add: demo_final_def demo_node_def demo_codec_free)
  have "signAndLogFinalReceipt demo_node demo_env demo_tx demo_executed ?st3 =
      (None, demo_final, ?st3\<lparr>acAudit := Some db1, acAudit := Some db2\<rparr>)"
    by (simp add: signAndLogFinalReceipt_def demo_node_signature Let_def
        demo_signed_def[symmetric] demo_parts demo_tx_envelope l1 f l2)
  then show ?thesis by (simp add: Execute_def p(1) demo_parts demo_handler_def x Let_def)
qed

text \<open>The three properties of an execution on this run. The handler that fails outside authorised
  states cannot be told apart from the one that counts.\<close>

theorem execution_fails_closed_witness:
  "Execute (demo_node\<lparr>acHandler := Some (\<lambda>ctx et msg st. if authorised demo_node (ed_Public auditor_key) demo_tx ctx st
        then demo_handler ctx et msg st else (([], Some (Sentinel (Sys ErrInternal))), st))\<rparr>)
      demo_env Map.empty demo_tx None demo_state = Execute demo_node demo_env Map.empty demo_tx None demo_state \<and>
   (\<exists>st'. Execute demo_node demo_env Map.empty demo_tx None demo_state = (Some demo_final, None, st'))"
proof -
  have "sound_actuator demo_node (ed_Public auditor_key)"
    unfolding demo_node_def by (rule demo_sound) (auto simp: codec_round_trip_def pair_codec_def split: if_splits)
  from execution_fails_closed[OF this demo_parts(13), of demo_tx "\<lambda>ctx et msg st. if authorised demo_node (ed_Public auditor_key)
      demo_tx ctx st then demo_handler ctx et msg st else (([], Some (Sentinel (Sys ErrInternal))), st)"]
  show ?thesis using demo_run by simp
qed

theorem executed_receipt_verifies_witness:
  "VerifyActionReceiptSignature signing_crypto (acStageMarshal demo_node) (Some demo_final) (ed_Public auditor_key) = Inr () \<and>
   VerifyReceiptPersistenceAttestation signing_crypto (Some demo_final) (ed_Public auditor_key) = Inr () \<and>
   rStatus demo_final = STATUS_COMPLETED"
proof -
  have s: "sound_actuator demo_node (ed_Public auditor_key)"
    unfolding demo_node_def by (rule demo_sound) (auto simp: codec_round_trip_def pair_codec_def split: if_splits)
  have q: "quiet_publisher demo_node" unfolding demo_node_def by (rule demo_quiet)
  obtain st' where run: "Execute demo_node demo_env Map.empty demo_tx None demo_state = (Some demo_final, None, st')"
    using demo_run by blast
  have "Id shutdown_envelope \<noteq> []" using shutdown_bound by (auto simp: bound_identity_def)
  then have n: "KeyID demo_node \<noteq> []" "0 < acPersistedMs demo_env" "Id (vtEnvelope demo_tx) \<noteq> []" "\<not> logging_error None"
    by (simp_all add: demo_parts auditor_key_id_nonempty demo_tx_envelope logging_error_def)
  from executed_receipt_verifies[OF s q n(1-3) run n(4)] show ?thesis by (simp add: demo_parts)
qed

theorem capability_dissolved_witness:
  "\<exists>st'. Execute demo_node demo_env Map.empty demo_tx None demo_state = (Some demo_final, None, st') \<and>
     Capability_Verify (heap_get (acCaps st') (Some 0)) (vtActionType demo_tx) (TransactionHash (vtEnvelope demo_tx)) 0 =
       Inl (Errorf ''capability: dissolved'' [] [])"
proof -
  obtain st' where run: "Execute demo_node demo_env Map.empty demo_tx None demo_state = (Some demo_final, None, st')"
    using demo_run by blast
  have "quiet_publisher demo_node" "heap_monotone demo_node" unfolding demo_node_def by (rule demo_quiet)+
  from capability_dissolved[OF this demo_parts(13) run] run show ?thesis by (auto simp: demo_state_def)
qed


text \<open>The receipt of the run validates: the notary posture asks for L2 and L3 and both were
  valid.\<close>

theorem executed_receipt_chain_witness:
  "\<exists>chain. ValidateDeterministicProtocolChain signing_crypto (\<lambda>s. Inr (StageId s)) (\<lambda>_. []) (Some demo_final) = Inr chain"
proof -
  obtain st' where run: "Execute demo_node demo_env Map.empty demo_tx None demo_state = (Some demo_final, None, st')"
    using demo_run by blast
  obtain p where p: "vtPosture demo_tx = Some p" "Posture shutdown_envelope = posture_Name p"
    "verifyL2Posture (pCrypto sample_platform) (signerStore sample_warden) (consensusPolicyStore sample_warden) shutdown_envelope
       (TransactionHash shutdown_envelope) p = Inr (vtL2Valid demo_tx)"
    "verifyL3Posture (l3Notary sample_warden) shutdown_envelope p = Inr (vtL3Valid demo_tx)"
    using demo_verified by (rule accepted_transaction)
  have "p = NotaryPosture" using p(2) by (cases p) (simp_all add: shutdown_fields)
  then have "vtL2Valid demo_tx" "vtL3Valid demo_tx"
    using p(3,4) shutdown_votes
    by (simp_all add: sample_platform_def sample_warden_def NewL4Warden_def shutdown_fields verifyL3Posture_def)
  moreover have "EnvActionType shutdown_envelope \<noteq> []" by (simp add: shutdown_fields)
  moreover have "\<not> logging_error None" by (simp add: logging_error_def)
  ultimately show ?thesis
    using executed_receipt_chain[OF demo_verified _ demo_parts(15) run, of "\<lambda>s. Inr (StageId s)" signing_crypto "\<lambda>_. []"]
      p(1) \<open>p = NotaryPosture\<close> by simp
qed

text \<open>A receipt that consists of the L4 stage of a rejection alone.\<close>

definition lone_stage :: StageEvidence where
  "lone_stage = newDeterministicStageEvidence sample_envelope KIND_L4_VERIFICATION 0 1 OUTCOME_FAILED"

definition lone_receipt :: ActionReceipt where
  "lone_receipt = sample_receipt\<lparr>rTransactionId := ''tx-1'', rTransactionHash := [], rStatus := STATUS_FAILED, rStages := [lone_stage]\<rparr>"

theorem protocol_chain_exact_witness:
  "(\<exists>chain. ValidateDeterministicProtocolChain toy_crypto (\<lambda>s. Inr (StageId s)) (\<lambda>_. []) (Some lone_receipt) = Inr chain) \<and>
   (\<nexists>chain. ValidateDeterministicProtocolChain toy_crypto (\<lambda>s. Inr (StageId s)) (\<lambda>_. [])
      (Some (lone_receipt\<lparr>rStatus := STATUS_COMPLETED\<rparr>)) = Inr chain)"
proof -
  have l: "stage_of sample_envelope lone_stage" "StKind lone_stage = KIND_L4_VERIFICATION" "StOutcome lone_stage = OUTCOME_FAILED"
    "ParentStageId lone_stage = []"
    by (simp_all add: lone_stage_def stage_of_def newDeterministicStageEvidence_def)
  have e: "EnvActionType sample_envelope \<noteq> []" "Id sample_envelope = ''tx-1''" "TransactionHash sample_envelope = []"
    by (simp_all add: sample_envelope_def)
  have "normal_stages lone_receipt" "consistent_identities (rStages lone_receipt)"
    by (rule stages_of_envelope[of sample_envelope]; simp add: lone_receipt_def l e)+
  moreover have "rejected_run lone_receipt" by (simp add: rejected_run_def lone_receipt_def l Let_def)
  moreover have "\<not> complete_run (lone_receipt\<lparr>rStatus := STATUS_COMPLETED\<rparr>)" "\<not> rejected_run (lone_receipt\<lparr>rStatus := STATUS_COMPLETED\<rparr>)"
    by (simp_all add: complete_run_def rejected_run_def lone_receipt_def)
  ultimately show ?thesis
    using protocol_chain_exact[of lone_receipt "\<lambda>s. Inr (StageId s)" toy_crypto "\<lambda>_. []"]
      protocol_chain_exact[of "lone_receipt\<lparr>rStatus := STATUS_COMPLETED\<rparr>" "\<lambda>s. Inr (StageId s)" toy_crypto "\<lambda>_. []"] by simp
qed

section \<open>A replay\<close>

text \<open>The operator of the run below executed \<open>tx-1\<close>; the same envelope arrives again, with its
  nonce removed.\<close>

definition demo_envelope :: GovernanceEnvelope where
  "demo_envelope = sample_envelope\<lparr>OperatorSessionId := []\<rparr>"

definition second_envelope :: GovernanceEnvelope where
  "second_envelope = demo_envelope\<lparr>Nonce := []\<rparr>"

definition second_tx :: VerifiedTransaction where
  "second_tx = rejected_transaction toy_crypto sample_warden_env second_envelope None False False []"

definition second_receipt :: ActionReceipt where
  "second_receipt = (buildInitialReceipt demo_base 1 second_tx demo_state)
     \<lparr>rStatus := STATUS_FAILED, rResultSummary := ''rejected: '', rFailureCode := FC_GOVERNANCE_REJECTED,
      rExecutedAtUnixMs := 2\<rparr>"

definition second_signed :: ActionReceipt where
  "second_signed = second_receipt\<lparr>rSignature := demo_sig second_receipt\<rparr>"

definition second_final :: ActionReceipt where
  "second_final = second_signed\<lparr>rFinalPersistenceAttestation :=
     Some (signReceiptPersistenceAttestation demo_base 3 second_signed)\<rparr>"

definition second_node :: "nat L5Actuator" where
  "second_node = demo_actuator [sample_receipt, second_signed, second_final] (pair_codec demo_commitment demo_commitment)"

definition bash_registry :: EventRegistry where
  "bash_registry = [(''g8e.v1.operator.command.requested'',
     \<lparr>Key = [], Kind = EventKindRequest, Transport = [''governed''], Producers = [], Persistence = [],
      GovernanceAction = ''EXECUTE_BASH'', GovernancePayload = [], Outcomes = [], Reserved = False\<rparr>)]"

definition second_operator :: "(nonce_usage, nat) operator" where
  "second_operator = \<lparr>opPlatform = sample_platform\<lparr>pRegistry := bash_registry\<rparr>, opDecode = (\<lambda>_. Inr second_envelope),
     opWarden = Some sample_warden, opActuator = Some second_node, opAuditStore = None, opShow = (\<lambda>_. []),
     publishInferenceCompletion = (\<lambda>_ _ _ st. st), completeShutdown = (\<lambda>_ st. (None, st))\<rparr>"

definition second_env :: operator_env where
  "second_env = \<lparr>oeWarden = sample_warden_env, oeActuator = demo_env, oeBlockedNow = 0, oeBlocked = quiet_call\<rparr>"

definition executed_db :: audit_db where
  "executed_db = empty_db\<lparr>adReceipts := upsert_receipt (BuildReceiptRecord demo_envelope sample_receipt 0) ''r''
     (FormatTimestamp 0) Map.empty\<rparr>"

definition executed_state :: "(nonce_usage, nat) operator_state" where
  "executed_state = \<lparr>osWarden = fresh_state, osActuator = demo_state\<lparr>acAudit := Some executed_db\<rparr>\<rparr>"

lemma second_stored: "stored_receipt second_node (osActuator executed_state) ''tx-1'' = Some sample_receipt"
  by (simp add: stored_receipt_def second_node_def demo_actuator_def executed_state_def executed_db_def upsert_receipt_def
      GetActionReceipt_def parseStoredActionReceipt_def demo_store_def table_codec_def sample_receipt_def)

lemma second_rejected:
  "\<exists>err. VerifyEnvelope (opPlatform second_operator) sample_warden sample_warden_env fresh_state (Some second_envelope) =
     ((Some second_tx, Some err), fresh_state)"
proof -
  have "reserve_nonce sample_warden sample_warden_env fresh_state second_envelope =
      (Inl (Sentinel (Tx ErrTxNonceMissing)), fresh_state)"
    by (simp add: reserve_nonce_def trackInFlight_def releaseInFlight_def fresh_state_def sample_warden_def NewL4Warden_def
        sample_warden_env_def second_envelope_def demo_envelope_def sample_envelope_def)
  then show ?thesis by (simp add: VerifyEnvelope_def second_tx_def second_operator_def sample_platform_def)
qed

lemma second_node_sound: "sound_actuator second_node (ed_Public auditor_key)" "quiet_publisher second_node"
  unfolding second_node_def
  by (rule demo_sound, auto simp: codec_round_trip_def pair_codec_def split: if_splits)[1] (rule demo_quiet)

lemma second_recorded:
  "\<exists>ast. RecordRejectedTransaction second_node demo_env (Some second_tx) (Some err) (demo_state\<lparr>acAudit := Some db\<rparr>) =
     (Inr second_final, ast)"
proof -
  have env: "vtEnvelope second_tx = second_envelope" by (simp add: second_tx_def rejected_transaction_def)
  have root: "root_now demo_base st = []" for st unfolding demo_base_def by (rule demo_codec_free(2))
  have b: "buildInitialReceipt second_node 1 second_tx st = buildInitialReceipt demo_base 1 second_tx demo_state" for st
    unfolding second_node_def demo_codec_free(3) by (simp add: buildInitialReceipt_def root)
  have r: "(buildInitialReceipt second_node 1 second_tx (demo_state\<lparr>acAudit := Some db\<rparr>))
     \<lparr>rStatus := STATUS_FAILED, rResultSummary := ''rejected: '' @ acShow second_node err,
      rFailureCode := FC_GOVERNANCE_REJECTED, rExecutedAtUnixMs := acFinalMs demo_env\<rparr> = second_receipt"
    by (simp add: second_receipt_def b demo_env_def) (simp add: second_node_def demo_actuator_def)
  let ?st = "demo_state\<lparr>acAudit := Some db\<rparr>"
  have log: "\<exists>db'. LogReceipt second_node calm_log second_envelope x st = (None, st\<lparr>acAudit := Some db'\<rparr>)"
    if "acAudit st = Some d" "x \<in> {second_signed, second_final}" for st d x
    by (rule calm_logged[where rs = "[sample_receipt, second_signed, second_final]", OF _ _ that(1)])
      (use that(2) in \<open>auto simp: second_node_def demo_actuator_def second_envelope_def demo_envelope_def\<close>)
  obtain db1 where l1: "LogReceipt second_node calm_log second_envelope second_signed ?st = (None, ?st\<lparr>acAudit := Some db1\<rparr>)"
    using log[of ?st db second_signed] by auto
  obtain db2 where l2: "LogReceipt second_node calm_log second_envelope second_final (?st\<lparr>acAudit := Some db1\<rparr>) =
      (None, ?st\<lparr>acAudit := Some db1, acAudit := Some db2\<rparr>)"
    using log[of "?st\<lparr>acAudit := Some db1\<rparr>" db1 second_final] by auto
  have sig: "signReceipt second_node second_receipt = Inr (demo_sig second_receipt)"
    unfolding second_node_def by (rule demo_signature)
  have f: "second_signed\<lparr>rFinalPersistenceAttestation := Some (signReceiptPersistenceAttestation second_node 3 second_signed)\<rparr> = second_final"
    by (simp add: second_final_def second_node_def demo_codec_free)
  have "signAndLogFinalReceipt second_node demo_env second_tx second_receipt ?st =
      (None, second_final, ?st\<lparr>acAudit := Some db1, acAudit := Some db2\<rparr>)"
    by (simp add: signAndLogFinalReceipt_def sig Let_def second_signed_def[symmetric] demo_parts env l1[simplified] f l2[simplified])
  moreover have "SigningKey second_node \<noteq> []" by (simp add: second_node_def demo_actuator_def auditor_key_def)
  ultimately show ?thesis by (simp add: RecordRejectedTransaction_def Let_def demo_parts(2) r[simplified])
qed

lemma second_run:
  "\<exists>e st'. ProcessEnvelope second_operator second_env ''bytes'' executed_state = (Some second_final, e, st')"
proof -
  obtain err where v: "VerifyEnvelope (opPlatform second_operator) sample_warden sample_warden_env fresh_state
      (Some second_envelope) = ((Some second_tx, Some err), fresh_state)" using second_rejected by blast
  obtain ast where r: "RecordRejectedTransaction second_node demo_env (Some second_tx) (Some err)
      (demo_state\<lparr>acAudit := Some executed_db\<rparr>) = (Inr second_final, ast)" using second_recorded by blast
  have fields: "ValidateGovernedEnvelopeFields (pRegistry (opPlatform second_operator)) (EnvEventType second_envelope)
      (EnvActionType second_envelope) = Inr ()"
    by (simp add: second_operator_def bash_registry_def ValidateGovernedEnvelopeFields_def ValidateGovernedRequest_def
        Registry_Lookup_def eventHasTransport_def second_envelope_def demo_envelope_def sample_envelope_def)
  have parts: "opDecode second_operator b = Inr second_envelope" "opWarden second_operator = Some sample_warden"
    "opActuator second_operator = Some second_node" for b by (simp_all add: second_operator_def)
  show ?thesis
    by (simp add: ProcessEnvelope_def parts fields verify_envelope_def second_env_def executed_state_def v reject_envelope_def r)
qed

theorem rejection_replaces_receipt_witness:
  "stored_receipt second_node (osActuator executed_state) ''tx-1'' = Some sample_receipt \<and>
   (\<exists>e st'. ProcessEnvelope second_operator second_env ''bytes'' executed_state = (Some second_final, e, st') \<and>
      stored_receipt second_node (osActuator st') ''tx-1'' = Some second_final \<and> rStatus second_final = STATUS_FAILED)"
proof -
  obtain e st' where run: "ProcessEnvelope second_operator second_env ''bytes'' executed_state = (Some second_final, e, st')"
    using second_run by blast
  have n: "KeyID second_node \<noteq> []" by (simp add: second_node_def demo_actuator_def auditor_key_id_nonempty)
  have i: "Id second_envelope = ''tx-1''" by (simp add: second_envelope_def demo_envelope_def sample_envelope_def)
  have no: "\<not> accepts (opPlatform second_operator) sample_warden (oeWarden second_env) (osWarden executed_state) second_envelope"
    using second_rejected by (auto simp: second_env_def executed_state_def)
  from rejection_replaces_receipt[OF _ second_node_sound n _ _ _ _ _ no, of "''bytes''" sample_receipt second_final e st'] run second_stored
  have "stored_receipt second_node (osActuator st') ''tx-1'' = Some second_final \<and> rStatus second_final = STATUS_FAILED"
    by (simp add: i second_operator_def second_env_def demo_parts second_envelope_def demo_envelope_def sample_envelope_def
        sample_receipt_def)
  with run second_stored show ?thesis by blast
qed

theorem nothing_unverified_executes_witness:
  "ProcessEnvelope (with_handler second_operator (second_node\<lparr>acHandler := Some (\<lambda>_ _ _ st. (([], None), st))\<rparr>))
     second_env ''bytes'' executed_state = ProcessEnvelope second_operator second_env ''bytes'' executed_state"
proof -
  have a: "opActuator second_operator = Some second_node" by (simp add: second_operator_def)
  have h: "acHandler second_node = Some demo_handler" by (simp add: second_node_def demo_actuator_def)
  have no: "\<not> accepts (opPlatform second_operator) W Ev (osWarden executed_state) second_envelope" for W Ev
    unfolding accepts_iff by (simp add: second_envelope_def)
  show ?thesis
  proof (rule conjunct1[OF nothing_unverified_executes[OF a second_node_sound(1) h]])
    fix W Ev env vt ctx' msg' st'
    assume "opDecode second_operator ''bytes'' = Inr env"
      and acc: "accepts (opPlatform second_operator) W Ev (osWarden executed_state) env"
    then have "env = second_envelope" by (simp add: second_operator_def)
    with acc no show "(([], None), st') = demo_handler ctx' (EnvEventType env) msg' st'" by blast
  qed
qed

end
