(* ===== verification/Evidence_Primitives.thy ===== *)
theory Evidence_Primitives
  imports Doctrine Protocol_Chain
begin

text \<open>
  The helpers that every importer and verifier of compliance evidence shares
  (\<open>services/compliance/evidence/primitives.go\<close> and the content addresses of
  \<open>graph.go\<close>): content addresses, lexical path checks over Go's
  \<open>filepath.Clean\<close> on a Unix host, error classification, and the evidence of one verified
  receipt. Encodings of protocol messages are arguments.
\<close>

section \<open>Strings\<close>

text \<open>\<open>strings.Split\<close> with a separator of one byte: always at least one part.\<close>

fun strings_Split :: "char \<Rightarrow> string \<Rightarrow> string list" where
  "strings_Split sep [] = [[]]"
| "strings_Split sep (c # cs) =
     (if c = sep then [] # strings_Split sep cs
      else case strings_Split sep cs of p # ps \<Rightarrow> (c # p) # ps | [] \<Rightarrow> [[c]])"

text \<open>\<open>strings.ToLower\<close> on ASCII; its only use compares a digest with its lower case before the
  digest is decoded as hexadecimal, so bytes beyond ASCII are refused either way.\<close>

definition lower_char :: "char \<Rightarrow> char" where
  "lower_char c = (let n = of_char c :: nat in if 65 \<le> n \<and> n \<le> 90 then char_of (n + 32) else c)"

section \<open>Content addresses\<close>

type_synonym ArtifactType = string

definition ContentAddress :: "crypto \<Rightarrow> ArtifactType \<Rightarrow> bytes \<Rightarrow> string" where
  "ContentAddress C artifactType canonicalBytes = artifactType @ '':sha256:'' @ sha256_hex C canonicalBytes"

definition ParseContentAddress :: "string \<Rightarrow> ArtifactType \<times> string \<times> bool" where
  "ParseContentAddress address =
     (let parts = strings_Split (CHR '':'') address in
      if length parts \<noteq> 3 \<or> parts ! 0 = [] \<or> parts ! 1 \<noteq> ''sha256'' \<or> length (parts ! 2) \<noteq> 64 \<or>
         map lower_char (parts ! 2) \<noteq> parts ! 2
      then ([], [], False)
      else case hex_DecodeString (parts ! 2) of
        None \<Rightarrow> ([], [], False)
      | Some decoded \<Rightarrow> if length decoded \<noteq> 32 then ([], [], False) else (parts ! 0, parts ! 2, True))"

definition ContentReferenceForBody :: "crypto \<Rightarrow> string \<Rightarrow> bytes \<Rightarrow> string" where
  "ContentReferenceForBody C prefix content = prefix @ '':sha256:'' @ sha256_hex C content"

text \<open>Unlike \<open>ParseContentAddress\<close>, the parts are answered even when the digest does not decode.\<close>

definition ParseContentReference :: "string \<Rightarrow> string \<times> string \<times> bool" where
  "ParseContentReference reference =
     (let parts = strings_Split (CHR '':'') reference in
      if length parts \<noteq> 3 \<or> parts ! 0 = [] \<or> parts ! 1 \<noteq> ''sha256'' \<or> length (parts ! 2) \<noteq> 64 \<or>
         map lower_char (parts ! 2) \<noteq> parts ! 2
      then ([], [], False)
      else (parts ! 0, parts ! 2,
            case hex_DecodeString (parts ! 2) of None \<Rightarrow> False | Some decoded \<Rightarrow> length decoded = 32))"

definition ParseExpectedContentReference :: "string \<Rightarrow> string \<Rightarrow> string \<times> string \<times> bool" where
  "ParseExpectedContentReference reference expectedPrefix =
     (case ParseContentReference reference of (prefix, digest, ok) \<Rightarrow> (prefix, digest, ok \<and> prefix = expectedPrefix))"

definition VerifyDigest :: "crypto \<Rightarrow> bytes \<Rightarrow> string \<Rightarrow> bool" where
  "VerifyDigest C content expected \<longleftrightarrow> sha256_hex C content = expected"

section \<open>Paths\<close>

text \<open>\<open>filepath.Clean\<close>: empty and \<open>.\<close> elements vanish, \<open>..\<close> removes the element before it, a
  \<open>..\<close> with nothing to remove stays in a relative path and vanishes in a rooted one. The
  elements are collected in reverse.\<close>

fun clean_step :: "bool \<Rightarrow> string list \<Rightarrow> string \<Rightarrow> string list" where
  "clean_step rooted out elem =
     (if elem = [] \<or> elem = ''.'' then out
      else if elem = ''..'' then
        (case out of
           [] \<Rightarrow> if rooted then [] else [''..'']
         | p # rest \<Rightarrow> if p = ''..'' then ''..'' # out else rest)
      else elem # out)"

definition IsAbs :: "string \<Rightarrow> bool" where
  "IsAbs path \<longleftrightarrow> HasPrefix path ''/''"

definition clean_elems :: "string \<Rightarrow> string list" where
  "clean_elems path = rev (foldl (clean_step (IsAbs path)) [] (strings_Split (CHR ''/'') path))"

definition filepath_Clean :: "string \<Rightarrow> string" where
  "filepath_Clean path =
     (let out = (if IsAbs path then ''/'' else []) @ strings_Join (clean_elems path) ''/'' in
      if out = [] then ''.'' else out)"

definition ValidRelativePath :: "string \<Rightarrow> bool" where
  "ValidRelativePath value \<longleftrightarrow>
     (if HasPrefix value ''/'' \<or> CHR '':'' \<in> set value \<or> CHR 0x00 \<in> set value then False
      else
       (let clean = filepath_Clean value in
        clean \<noteq> ''.'' \<and> clean \<noteq> ''..'' \<and> \<not> IsAbs clean \<and> \<not> HasPrefix clean ''../''))"

section \<open>Sets of strings and errors\<close>

definition EqualStringSets :: "string list \<Rightarrow> string list \<Rightarrow> bool" where
  "EqualStringSets left right \<longleftrightarrow>
     (if length left \<noteq> length right then False
      else list_all (\<lambda>i. sort left ! i = sort right ! i) [0..<length left])"

definition ClassifyReadError :: "gov_error \<Rightarrow> sentinel" where
  "ClassifyReadError err =
     (if errors_Is err (Sys ErrNotFound) then Evid ErrUnresolvedReference
      else if errors_Is err (Evid ErrEvidenceArtifactTooLarge) then Evid ErrEvidenceArtifactTooLarge
      else Actuator ErrInvalidEvidenceGraph)"

definition ReceiptAttestationError :: "gov_error \<Rightarrow> sentinel" where
  "ReceiptAttestationError err =
     (case filter (errors_Is err) [Actuator ErrReceiptPersistenceAttestationMissing,
          Actuator ErrReceiptPersistenceSignatureMismatch, Actuator ErrReceiptPersistenceAttestationInvalid] of
        target # _ \<Rightarrow> target
      | [] \<Rightarrow> Actuator ErrReceiptPersistenceAttestationInvalid)"

text \<open>\<open>ReadAndDigest\<close> over the answer of the reader.\<close>

record ReadResult =
  ReadBytes :: bytes
  ReadSHA256 :: string

definition maxArtifactBytes :: nat where
  "maxArtifactBytes = 16 * 2 ^ 20"

definition ReadAndDigest :: "crypto \<Rightarrow> (string \<Rightarrow> bytes result) \<Rightarrow> string \<Rightarrow> int \<Rightarrow> ReadResult result" where
  "ReadAndDigest C readFile path maxBytes =
     (let maxBytes = (if maxBytes \<le> 0 then int maxArtifactBytes else maxBytes) in
      case readFile path of
        Inl err \<Rightarrow> Inl err
      | Inr content \<Rightarrow>
          if int (length content) > maxBytes then Inl (Sentinel (Evid ErrEvidenceArtifactTooLarge))
          else Inr \<lparr>ReadBytes = content, ReadSHA256 = sha256_hex C content\<rparr>)"

section \<open>The evidence of a receipt\<close>

record ReceiptBinding =
  rbRunID :: string
  rbScenarioID :: string
  rbAttemptID :: string
  rbExecutionID :: string
  rbInvestigationID :: string
  rbTransactionID :: string
  rbTargetOperatorID :: string
  rbTargetOperatorSessionID :: string
  rbActionType :: string

record ReceiptProjection =
  rpExecutionID :: string
  rpTransactionID :: string
  rpTransactionHash :: string
  rpInvestigationID :: string
  rpOperatorID :: string
  rpOperatorSessionID :: string
  rpActionType :: string
  rpSignerKeyID :: string
  rpSignature :: string

text \<open>The fields of \<open>ComplianceEvidenceReference\<close> that the code sets here.\<close>

record EvidenceReference =
  erArtifactId :: string
  erArtifactType :: string
  erSha256 :: string
  erMediaType :: string
  erRunId :: string
  erAttemptId :: string
  erScenarioId :: string
  erTransactionId :: string

record VerifiedReceiptEvidence =
  veBinding :: ReceiptBinding
  veReceiptReference :: EvidenceReference
  vePersistenceReference :: EvidenceReference
  veProtocolChainReference :: string
  veReceipt :: ActionReceipt

definition binding_incomplete :: "ReceiptBinding \<Rightarrow> bool" where
  "binding_incomplete b \<longleftrightarrow>
     [] \<in> {rbRunID b, rbScenarioID b, rbAttemptID b, rbExecutionID b, rbInvestigationID b, rbTransactionID b,
       rbTargetOperatorID b, rbTargetOperatorSessionID b, rbActionType b}"

definition projection_mismatch :: "ReceiptBinding \<Rightarrow> ReceiptProjection \<Rightarrow> bool" where
  "projection_mismatch b p \<longleftrightarrow>
     rpExecutionID p \<noteq> rbExecutionID b \<or> rpInvestigationID p \<noteq> rbInvestigationID b \<or>
     rpTransactionID p \<noteq> rbTransactionID b \<or> rpOperatorID p \<noteq> rbTargetOperatorID b \<or>
     rpOperatorSessionID p \<noteq> rbTargetOperatorSessionID b \<or> rpActionType p \<noteq> rbActionType b \<or>
     rpTransactionHash p = [] \<or> rpSignerKeyID p = [] \<or> rpSignature p = []"

definition receipt_mismatch :: "ReceiptProjection \<Rightarrow> ActionReceipt \<Rightarrow> bool" where
  "receipt_mismatch p r \<longleftrightarrow>
     rTransactionId r \<noteq> rpTransactionID p \<or> rTransactionHash r \<noteq> rpTransactionHash p \<or>
     rSignerKeyId r \<noteq> rpSignerKeyID p \<or> rSignature r \<noteq> rpSignature p"

definition attestation_unbound :: "ReceiptBinding \<Rightarrow> ReceiptProjection \<Rightarrow> ReceiptPersistenceAttestation \<Rightarrow> bool" where
  "attestation_unbound b p a \<longleftrightarrow>
     paTransactionId a \<noteq> rbTransactionID b \<or> paAuditRecordId a \<noteq> rbTransactionID b \<or>
     paSignerKeyId a \<noteq> rpSignerKeyID p \<or> paReceiptSignatureDigest a = [] \<or> paPersistedAtUnixMs a \<le> 0 \<or>
     paSignature a = []"

definition stage_bound :: "ReceiptBinding \<Rightarrow> ReceiptProjection \<Rightarrow> StageEvidence \<Rightarrow> bool" where
  "stage_bound b p s \<longleftrightarrow>
     StTransactionId s = rbTransactionID b \<and> StTransactionHash s = rpTransactionHash p \<and>
     StOperatorId s = rbTargetOperatorID b \<and> StOperatorSessionId s = rbTargetOperatorSessionID b \<and>
     StActionType s = rbActionType b \<and> StCaseId s = rbRunID b \<and> StInvestigationId s = rbInvestigationID b \<and>
     StTaskId s = rbAttemptID b"

text \<open>The reference of one artifact of a binding.\<close>

definition bound_reference :: "crypto \<Rightarrow> ReceiptBinding \<Rightarrow> ArtifactType \<Rightarrow> bytes \<Rightarrow> EvidenceReference" where
  "bound_reference C b artifactType content =
     (let address = ContentAddress C artifactType content in
      \<lparr>erArtifactId = address, erArtifactType = artifactType,
       erSha256 = fst (snd (ParseContentAddress address)), erMediaType = ''application/json'',
       erRunId = rbRunID b, erAttemptId = rbAttemptID b, erScenarioId = rbScenarioID b,
       erTransactionId = rbTransactionID b\<rparr>)"

record canonical_encoders =
  encStage :: stage_marshal
  encReceipt :: "ActionReceipt \<Rightarrow> bytes result"
  encAttestation :: "ReceiptPersistenceAttestation \<Rightarrow> bytes result"
  encShowErr :: "gov_error \<Rightarrow> string"

definition BuildVerifiedReceiptEvidence ::
    "crypto \<Rightarrow> canonical_encoders \<Rightarrow> ReceiptBinding \<Rightarrow> ReceiptProjection \<Rightarrow> ActionReceipt option \<Rightarrow>
     VerifiedReceiptEvidence result" where
  "BuildVerifiedReceiptEvidence C K b p receipt =
     (if binding_incomplete b then Inl (graph_error ''%w: receipt binding is incomplete'' [])
      else if projection_mismatch b p
      then Inl (graph_error ''%w: receipt projection does not match the declared binding'' [])
      else case receipt of
        None \<Rightarrow> Inl (graph_error ''%w: canonical receipt does not match the governed response projection'' [])
      | Some r \<Rightarrow>
         if receipt_mismatch p r
         then Inl (graph_error ''%w: canonical receipt does not match the governed response projection'' [])
         else case rFinalPersistenceAttestation r of
           None \<Rightarrow> Inl (graph_error ''%w: canonical receipt lacks a bound final-persistence attestation'' [])
         | Some a \<Rightarrow>
            if attestation_unbound b p a
            then Inl (graph_error ''%w: canonical receipt lacks a bound final-persistence attestation'' [])
            else case ValidateDeterministicProtocolChain C (encStage K) (encShowErr K) (Some r) of
              Inl err \<Rightarrow> Inl (graph_error ''%w: validate deterministic protocol chain: %v'' [encShowErr K err])
            | Inr chain \<Rightarrow>
               if \<not> list_ex (stage_bound b p) (rStages r)
               then Inl (wrap ''%w: canonical receipt lacks the declared run, scenario, attempt, transaction, action, and target binding''
                          (Evid ErrEvidenceScopeMismatch) [])
               else case encReceipt K r of
                 Inl err \<Rightarrow> Inl (graph_error ''%w: canonicalize action receipt: %v'' [encShowErr K err])
               | Inr receiptBody \<Rightarrow>
                  (case encAttestation K a of
                     Inl err \<Rightarrow> Inl (graph_error ''%w: canonicalize receipt persistence attestation: %v'' [encShowErr K err])
                   | Inr persistenceBody \<Rightarrow>
                       Inr \<lparr>veBinding = b,
                            veReceiptReference = bound_reference C b ''action-receipt'' receiptBody,
                            vePersistenceReference = bound_reference C b ''receipt-persistence'' persistenceBody,
                            veProtocolChainReference = ContentReference chain, veReceipt = r\<rparr>))"

definition VerifyReceiptEvidenceSignatures ::
    "crypto \<Rightarrow> stage_marshal \<Rightarrow> ActionReceipt option \<Rightarrow> bytes \<Rightarrow> unit result" where
  "VerifyReceiptEvidenceSignatures C marshal receipt publicKey =
     (case VerifyActionReceiptSignature C marshal receipt publicKey of
        Inl err \<Rightarrow> Inl err
      | Inr _ \<Rightarrow> VerifyReceiptPersistenceAttestation C receipt publicKey)"

definition ReceiptInvestigationBound :: "ActionReceipt \<Rightarrow> string list \<Rightarrow> bool" where
  "ReceiptInvestigationBound r ids \<longleftrightarrow> list_ex (\<lambda>s. StInvestigationId s \<in> set ids) (rStages r)"

end
