(* ===== verification/Evidence_Graph.thy ===== *)
theory Evidence_Graph
  imports Evidence_Primitives Suspended_Store
begin

text \<open>
  The content-addressed evidence graph: \<open>services/compliance/evidence/graph.go\<close> and
  \<open>graph_report.go\<close>. A Go map is kept as the association list of its entries, newest first,
  with at most one entry per key. Where the code ranges over \<open>g.nodes\<close> the order is
  unspecified: the validators take the sequence of nodes they meet, and \<open>ValidateAll\<close> an
  argument that permutes the entries anew for every loop. The recursion of the cycle search is
  bounded by a depth; running out of depth is \<open>None\<close>, and a depth of one more than the
  number of nodes is shown to be enough.
\<close>

section \<open>Nodes\<close>

datatype VerificationStatus = Verified | Unverified | Failed | Pending | OtherStatus string

record EncryptionMetadata =
  emAlgorithm :: string
  emKeyID :: string
  emAuthorizationScope :: string
  emPlaintextSHA256 :: string
  emAuthenticatedMetadataSHA256 :: string

text \<open>\<open>Diagnostics\<close> is carried along and never read here; it is left out.\<close>

record EvidenceNode =
  ArtifactID :: string
  NodeType :: ArtifactType
  SHA256 :: string
  MediaType :: string
  SchemaRef :: string
  ProducerIdentity :: string
  ProducedAt :: time
  ScopeID :: string
  SourceAdmissionID :: string
  NodeRunID :: string
  NodeAttemptID :: string
  NodeScenarioID :: string
  NodeTransactionID :: string
  NodeStatus :: VerificationStatus
  VerifierID :: string
  VerifierVersion :: string
  VerifiedAt :: time
  BundlePath :: string
  Encryption :: "EncryptionMetadata option"
  CanonicalBytes :: bytes
  References :: "string list"

record GraphFailure =
  FailureCode :: gov_error
  FailureSubject :: string
  FailureReason :: "string \<times> string list"

text \<open>A reason is its format with the rendered arguments.\<close>

record EvidenceGraph =
  nodes :: "(string \<times> EvidenceNode) list"
  byScope :: "string \<Rightarrow> EvidenceNode list"
  byType :: "ArtifactType \<Rightarrow> EvidenceNode list"
  failures :: "GraphFailure list"
  freshnessFailures :: "GraphFailure list"
  maxBytes :: int
  allowedMediaTypes :: "string list"

definition NewEvidenceGraph :: "int \<Rightarrow> string list \<Rightarrow> EvidenceGraph" where
  "NewEvidenceGraph maxB mediaTypes =
     \<lparr>nodes = [], byScope = (\<lambda>_. []), byType = (\<lambda>_. []), failures = [], freshnessFailures = [],
      maxBytes = maxB, allowedMediaTypes = mediaTypes\<rparr>"

definition recordFailure :: "gov_error \<Rightarrow> string \<Rightarrow> string \<times> string list \<Rightarrow> EvidenceGraph \<Rightarrow> EvidenceGraph" where
  "recordFailure code subject reason g =
     g\<lparr>failures := failures g @ [\<lparr>FailureCode = code, FailureSubject = subject, FailureReason = reason\<rparr>]\<rparr>"

definition recordFreshnessFailure ::
    "gov_error \<Rightarrow> string \<Rightarrow> string \<times> string list \<Rightarrow> EvidenceGraph \<Rightarrow> EvidenceGraph" where
  "recordFreshnessFailure code subject reason g =
     g\<lparr>freshnessFailures := freshnessFailures g @
         [\<lparr>FailureCode = code, FailureSubject = subject, FailureReason = reason\<rparr>]\<rparr>"

section \<open>Adding nodes\<close>

definition validBundlePath :: "string \<Rightarrow> bool" where
  "validBundlePath path \<longleftrightarrow> ValidRelativePath path"

definition sameScopeBinding :: "EvidenceNode \<Rightarrow> EvidenceNode \<Rightarrow> bool" where
  "sameScopeBinding a b \<longleftrightarrow>
     ScopeID a = ScopeID b \<and> NodeRunID a = NodeRunID b \<and> NodeAttemptID a = NodeAttemptID b \<and>
     NodeScenarioID a = NodeScenarioID b \<and> NodeTransactionID a = NodeTransactionID b"

text \<open>The checks of \<open>AddNode\<close> on the node alone: the error, with the subject and the reason that are recorded.\<close>

definition node_failure :: "EvidenceGraph \<Rightarrow> EvidenceNode \<Rightarrow> (gov_error \<times> string \<times> string) option" where
  "node_failure g node =
     (if ArtifactID node = []
      then Some (wrap ''%w: empty artifact ID'' (Actuator ErrEvidenceArtifactMalformed) [], [], ''artifact ID is empty'')
      else if SHA256 node = []
      then Some (wrap ''%w: %s: empty SHA-256'' (Actuator ErrEvidenceArtifactMalformed) [ArtifactID node],
                 ArtifactID node, ''SHA-256 digest is empty'')
      else if ScopeID node = []
      then Some (wrap ''%w: %s: empty scope ID'' (Evid ErrEvidenceScopeMismatch) [ArtifactID node],
                 ArtifactID node, ''scope ID is empty'')
      else if maxBytes g > 0 \<and> int (length (CanonicalBytes node)) > maxBytes g
      then Some (wrap ''%w: %s: %d bytes exceeds limit %d'' (Evid ErrEvidenceArtifactTooLarge)
                   [ArtifactID node, FormatInt (int (length (CanonicalBytes node))), FormatInt (maxBytes g)],
                 ArtifactID node, ''artifact exceeds size limit'')
      else if length (allowedMediaTypes g) > 0 \<and> MediaType node \<noteq> [] \<and> MediaType node \<notin> set (allowedMediaTypes g)
      then Some (wrap ''%w: %s: %s'' (Evid ErrEvidenceMediaTypeUnsupported) [ArtifactID node, MediaType node],
                 ArtifactID node, ''media type is not in the allowed set'')
      else if BundlePath node \<noteq> [] \<and> \<not> validBundlePath (BundlePath node)
      then Some (wrap ''%w: %s: %s'' (Evid ErrPathValidation) [ArtifactID node, BundlePath node],
                 ArtifactID node, ''bundle path contains traversal or absolute components'')
      else None)"

definition AddNode :: "EvidenceNode \<Rightarrow> EvidenceGraph \<Rightarrow> unit result \<times> EvidenceGraph" where
  "AddNode node g =
     (case node_failure g node of
        Some (err, subject, reason) \<Rightarrow> (Inl err, recordFailure err subject (reason, []) g)
      | None \<Rightarrow>
         (case map_of (nodes g) (ArtifactID node) of
            Some existing \<Rightarrow>
              if SHA256 existing \<noteq> SHA256 node
              then let err = wrap ''%w: %s: existing %s vs new %s'' (Evid ErrEvidenceDuplicateContent)
                               [ArtifactID node, SHA256 existing, SHA256 node] in
                   (Inl err, recordFailure err (ArtifactID node)
                      (''duplicate artifact ID with conflicting content digest'', []) g)
              else if \<not> sameScopeBinding existing node
              then let err = wrap ''%w: %s'' (Evid ErrEvidenceScopeMismatch) [ArtifactID node] in
                   (Inl err, recordFailure err (ArtifactID node)
                      (''duplicate artifact ID with conflicting authoritative binding'', []) g)
              else (Inr (), g)
          | None \<Rightarrow>
              (Inr (), g\<lparr>nodes := (ArtifactID node, node) # nodes g,
                 byScope := (byScope g)(ScopeID node := byScope g (ScopeID node) @ [node]),
                 byType := (byType g)(NodeType node := byType g (NodeType node) @ [node])\<rparr>)))"

section \<open>Validators\<close>

text \<open>Each validator takes the nodes in the order of its range loop.\<close>

definition resolve_refs :: "EvidenceNode \<Rightarrow> EvidenceGraph \<Rightarrow> EvidenceGraph" where
  "resolve_refs node g =
     foldl (\<lambda>g ref. if map_of (nodes g) ref \<noteq> None then g
        else recordFailure (Sentinel (Evid ErrUnresolvedReference)) (ArtifactID node)
               (''reference %s is not in the graph'', [ref]) g) g (References node)"

definition ResolveReferences :: "EvidenceNode list \<Rightarrow> EvidenceGraph \<Rightarrow> EvidenceGraph" where
  "ResolveReferences order g = foldl (\<lambda>g node. resolve_refs node g) g order"

subsection \<open>Cycles\<close>

datatype colour = Grey | Black

text \<open>\<open>dfs\<close> over the map \<open>visited\<close> (absent, 1 or 2), with the graph as state. The answer is \<open>None\<close>
  when \<open>depth\<close> nested calls were not enough. The boolean that the Go function returns is never
  read.\<close>

fun dfs_refs :: "(string \<Rightarrow> (string \<rightharpoonup> colour) \<times> EvidenceGraph \<Rightarrow> ((string \<rightharpoonup> colour) \<times> EvidenceGraph) option) \<Rightarrow>
    string list \<Rightarrow> (string \<rightharpoonup> colour) \<times> EvidenceGraph \<Rightarrow> ((string \<rightharpoonup> colour) \<times> EvidenceGraph) option" where
  "dfs_refs visit [] st = Some st"
| "dfs_refs visit (ref # refs) st = (case visit ref st of None \<Rightarrow> None | Some st' \<Rightarrow> dfs_refs visit refs st')"

fun dfs :: "nat \<Rightarrow> string \<Rightarrow> string list \<Rightarrow> (string \<rightharpoonup> colour) \<times> EvidenceGraph \<Rightarrow>
    ((string \<rightharpoonup> colour) \<times> EvidenceGraph) option" where
  "dfs 0 nodeID path st = None"
| "dfs (Suc depth) nodeID path (visited, g) =
     (case visited nodeID of
        Some Grey \<Rightarrow>
          Some (visited, recordFailure (Sentinel (Evid ErrEvidenceCycleDetected)) nodeID
                  (''reference cycle: %s'', [strings_Join (path @ [nodeID]) '' -> '']) g)
      | Some Black \<Rightarrow> Some (visited, g)
      | None \<Rightarrow>
         (let visited = visited(nodeID \<mapsto> Grey) in
          case map_of (nodes g) nodeID of
            None \<Rightarrow> Some (visited(nodeID \<mapsto> Black), g)
          | Some node \<Rightarrow>
             (case dfs_refs (\<lambda>ref. dfs depth ref (path @ [nodeID])) (References node) (visited, g) of
                None \<Rightarrow> None
              | Some (visited, g) \<Rightarrow> Some (visited(nodeID \<mapsto> Black), g))))"

fun dfs_all :: "nat \<Rightarrow> string list \<Rightarrow> (string \<rightharpoonup> colour) \<times> EvidenceGraph \<Rightarrow>
    ((string \<rightharpoonup> colour) \<times> EvidenceGraph) option" where
  "dfs_all depth [] st = Some st"
| "dfs_all depth (nodeID # rest) (visited, g) =
     (case visited nodeID of
        Some _ \<Rightarrow> dfs_all depth rest (visited, g)
      | None \<Rightarrow>
         (case dfs depth nodeID [] (visited, g) of None \<Rightarrow> None | Some st \<Rightarrow> dfs_all depth rest st))"

definition DetectCycles :: "nat \<Rightarrow> string list \<Rightarrow> EvidenceGraph \<Rightarrow> EvidenceGraph option" where
  "DetectCycles depth order g = map_option snd (dfs_all depth order (Map.empty, g))"

subsection \<open>Occurrence bindings\<close>

definition conflictingOccurrenceValue :: "string \<Rightarrow> string \<Rightarrow> bool" where
  "conflictingOccurrenceValue existing current \<longleftrightarrow> existing \<noteq> [] \<and> current \<noteq> [] \<and> existing \<noteq> current"

record transactionBinding =
  tbRunID :: string
  tbAttemptID :: string
  tbScenarioID :: string

definition mergeTransactionBinding :: "transactionBinding \<Rightarrow> transactionBinding \<Rightarrow> transactionBinding" where
  "mergeTransactionBinding existing current =
     \<lparr>tbRunID = (if tbRunID existing = [] then tbRunID current else tbRunID existing),
      tbAttemptID = (if tbAttemptID existing = [] then tbAttemptID current else tbAttemptID existing),
      tbScenarioID = (if tbScenarioID existing = [] then tbScenarioID current else tbScenarioID existing)\<rparr>"

record scope_tables =
  runScopes :: "string \<times> string \<rightharpoonup> string"
  attemptRuns :: "string \<times> string \<rightharpoonup> string"
  transactions :: "string \<times> string \<rightharpoonup> transactionBinding"

definition scope_run_step :: "EvidenceNode \<Rightarrow> scope_tables \<times> EvidenceGraph \<Rightarrow> scope_tables \<times> EvidenceGraph" where
  "scope_run_step node st =
     (case st of (t, g) \<Rightarrow>
       if NodeRunID node = [] then (t, g)
       else let key = (SourceAdmissionID node, NodeRunID node) in
         case runScopes t key of
           Some existing \<Rightarrow>
             if existing \<noteq> ScopeID node
             then (t, recordFailure (Sentinel (Evid ErrEvidenceScopeMismatch)) (ArtifactID node)
                     (''source %s run %s has conflicting scopes %s vs %s'',
                      [SourceAdmissionID node, NodeRunID node, existing, ScopeID node]) g)
             else (t, g)
         | None \<Rightarrow> (t\<lparr>runScopes := (runScopes t)(key \<mapsto> ScopeID node)\<rparr>, g))"

definition scope_attempt_step :: "EvidenceNode \<Rightarrow> scope_tables \<times> EvidenceGraph \<Rightarrow> scope_tables \<times> EvidenceGraph" where
  "scope_attempt_step node st =
     (case st of (t, g) \<Rightarrow>
       if NodeAttemptID node = [] then (t, g)
       else let key = (SourceAdmissionID node, NodeAttemptID node) in
         case attemptRuns t key of
           Some existing \<Rightarrow>
             if existing \<noteq> NodeRunID node
             then (t, recordFailure (Sentinel (Evid ErrEvidenceScopeMismatch)) (ArtifactID node)
                     (''source %s attempt %s has conflicting runs %s vs %s'',
                      [SourceAdmissionID node, NodeAttemptID node, existing, NodeRunID node]) g)
             else (t, g)
         | None \<Rightarrow> (t\<lparr>attemptRuns := (attemptRuns t)(key \<mapsto> NodeRunID node)\<rparr>, g))"

definition node_binding :: "EvidenceNode \<Rightarrow> transactionBinding" where
  "node_binding node = \<lparr>tbRunID = NodeRunID node, tbAttemptID = NodeAttemptID node, tbScenarioID = NodeScenarioID node\<rparr>"

definition binding_conflict :: "transactionBinding \<Rightarrow> transactionBinding \<Rightarrow> bool" where
  "binding_conflict a b \<longleftrightarrow>
     conflictingOccurrenceValue (tbRunID a) (tbRunID b) \<or> conflictingOccurrenceValue (tbAttemptID a) (tbAttemptID b) \<or>
     conflictingOccurrenceValue (tbScenarioID a) (tbScenarioID b)"

definition scope_transaction_step :: "EvidenceNode \<Rightarrow> scope_tables \<times> EvidenceGraph \<Rightarrow> scope_tables \<times> EvidenceGraph" where
  "scope_transaction_step node st =
     (case st of (t, g) \<Rightarrow>
       if NodeTransactionID node = [] then (t, g)
       else let key = (SourceAdmissionID node, NodeTransactionID node) in
         case transactions t key of
           Some existing \<Rightarrow>
             if binding_conflict existing (node_binding node)
             then (t, recordFailure (Sentinel (Evid ErrEvidenceScopeMismatch)) (ArtifactID node)
                     (''source %s transaction %s has conflicting occurrence binding'',
                      [SourceAdmissionID node, NodeTransactionID node]) g)
             else (t\<lparr>transactions := (transactions t)(key \<mapsto> mergeTransactionBinding existing (node_binding node))\<rparr>, g)
         | None \<Rightarrow> (t\<lparr>transactions := (transactions t)(key \<mapsto> node_binding node)\<rparr>, g))"

definition ValidateScopeBinding :: "EvidenceNode list \<Rightarrow> EvidenceGraph \<Rightarrow> EvidenceGraph" where
  "ValidateScopeBinding order g =
     snd (foldl (\<lambda>st node. scope_transaction_step node (scope_attempt_step node (scope_run_step node st)))
           (\<lparr>runScopes = Map.empty, attemptRuns = Map.empty, transactions = Map.empty\<rparr>, g) order)"

subsection \<open>Digests, trust, encryption, freshness\<close>

definition VerifyDigests :: "crypto \<Rightarrow> EvidenceNode list \<Rightarrow> EvidenceGraph \<Rightarrow> EvidenceGraph" where
  "VerifyDigests C order g =
     foldl (\<lambda>g node. if CanonicalBytes node = [] then g
        else let actual = sha256_hex C (CanonicalBytes node) in
          if actual \<noteq> SHA256 node
          then recordFailure (Sentinel (Evid ErrChecksumMismatch)) (ArtifactID node)
                 (''digest mismatch: declared %s vs computed %s'', [SHA256 node, actual]) g
          else g) g order"

definition trust_step :: "EvidenceNode \<Rightarrow> EvidenceGraph \<Rightarrow> EvidenceGraph" where
  "trust_step node g =
     (let g1 = (if NodeStatus node = Verified \<and> (VerifierID node = [] \<or> VerifierVersion node = [])
                then recordFailure (Sentinel (Evid ErrEvidenceTrustNotAssessed)) (ArtifactID node)
                       (''verified node lacks verifier identity or version'', []) g
                else g) in
      if ProducerIdentity node = []
      then recordFailure (Sentinel (Evid ErrEvidenceProducerUnverified)) (ArtifactID node)
             (''producer identity is empty'', []) g1
      else g1)"

definition ValidateTrust :: "EvidenceNode list \<Rightarrow> EvidenceGraph \<Rightarrow> EvidenceGraph" where
  "ValidateTrust order g = foldl (\<lambda>g node. trust_step node g) g order"

definition encryption_incomplete :: "EncryptionMetadata \<Rightarrow> bool" where
  "encryption_incomplete em \<longleftrightarrow>
     emAlgorithm em = [] \<or> emKeyID em = [] \<or> emAuthorizationScope em = [] \<or> emPlaintextSHA256 em = [] \<or>
     emAuthenticatedMetadataSHA256 em = []"

definition ValidateEncryption :: "EvidenceNode list \<Rightarrow> EvidenceGraph \<Rightarrow> EvidenceGraph" where
  "ValidateEncryption order g =
     foldl (\<lambda>g node. case Encryption node of
         None \<Rightarrow> g
       | Some em \<Rightarrow>
           if encryption_incomplete em
           then recordFailure (Sentinel (Evid ErrEvidenceEncryptionInvalid)) (ArtifactID node)
                  (''encryption metadata is incomplete'', []) g
           else g) g order"

text \<open>Instants are rendered in reasons only; they are kept as numbers.\<close>

definition freshness_step :: "time \<Rightarrow> time \<Rightarrow> EvidenceNode \<Rightarrow> EvidenceGraph \<Rightarrow> EvidenceGraph" where
  "freshness_step windowStart windowEnd node g =
     (if ProducedAt node = zero_time
      then recordFreshnessFailure (Sentinel (Evid ErrStaleEvidence)) (ArtifactID node)
             (''produced-at timestamp is missing'', []) g
      else
       (let g1 = (if windowStart \<noteq> zero_time \<and> ProducedAt node < windowStart
                  then recordFreshnessFailure (Sentinel (Evid ErrStaleEvidence)) (ArtifactID node)
                         (''produced at %s before window start %s'', [FormatInt (ProducedAt node), FormatInt windowStart]) g
                  else g) in
        if windowEnd \<noteq> zero_time \<and> ProducedAt node > windowEnd
        then recordFreshnessFailure (Sentinel (Evid ErrStaleEvidence)) (ArtifactID node)
               (''produced at %s after window end %s'', [FormatInt (ProducedAt node), FormatInt windowEnd]) g1
        else g1))"

definition ValidateFreshness :: "time \<Rightarrow> time \<Rightarrow> EvidenceNode list \<Rightarrow> EvidenceGraph \<Rightarrow> EvidenceGraph" where
  "ValidateFreshness windowStart windowEnd order g = foldl (\<lambda>g node. freshness_step windowStart windowEnd node g) g order"

section \<open>The whole validation\<close>

text \<open>\<open>range_order k\<close> is the order in which the k-th loop meets the entries of the map.\<close>

type_synonym range_order = "nat \<Rightarrow> (string \<times> EvidenceNode) list \<Rightarrow> (string \<times> EvidenceNode) list"

definition ValidateAll ::
    "crypto \<Rightarrow> range_order \<Rightarrow> time \<Rightarrow> time \<Rightarrow> nat \<Rightarrow> EvidenceGraph \<Rightarrow> EvidenceGraph option" where
  "ValidateAll C ord windowStart windowEnd depth g =
     (let values = (\<lambda>k. map snd (ord k (nodes g)));
          g1 = ResolveReferences (values 2) (ValidateScopeBinding (values 1) (VerifyDigests C (values 0) g)) in
      case DetectCycles depth (map fst (ord 3 (nodes g))) g1 of
        None \<Rightarrow> None
      | Some g2 \<Rightarrow>
          Some (ValidateFreshness windowStart windowEnd (values 6)
            (ValidateEncryption (values 5) (ValidateTrust (values 4) g2))))"

definition Failures :: "EvidenceGraph \<Rightarrow> GraphFailure list" where
  "Failures g = failures g @ freshnessFailures g"

definition Valid :: "EvidenceGraph \<Rightarrow> bool" where
  "Valid g \<longleftrightarrow> length (failures g) = 0"

definition NodeCount :: "EvidenceGraph \<Rightarrow> nat" where
  "NodeCount g = length (nodes g)"

definition NodesByScope :: "EvidenceGraph \<Rightarrow> string \<Rightarrow> EvidenceNode list" where
  "NodesByScope g scopeID = byScope g scopeID"

definition NodesByType :: "EvidenceGraph \<Rightarrow> ArtifactType \<Rightarrow> EvidenceNode list" where
  "NodesByType g artifactType = byType g artifactType"

definition Node :: "EvidenceGraph \<Rightarrow> string \<Rightarrow> EvidenceNode option" where
  "Node g artifactID = map_of (nodes g) artifactID"

section \<open>Reports\<close>

record ImporterError =
  ieSourceID :: string
  ieRunID :: string
  ieError :: string

text \<open>An importer is its identity, its run id when it is bound to a run, and the answer of its
  \<open>Import\<close>; a nil importer is skipped.\<close>

record EvidenceImporter =
  imSourceID :: string
  imRunID :: "string option"
  imImport :: "EvidenceNode list result"

record EvidenceGraphReport =
  grVerifierID :: string
  grVerifierVersion :: string
  grValid :: bool
  grNodeCount :: nat
  grNodesByType :: "string \<Rightarrow> nat"
  grNodesByScope :: "string \<Rightarrow> nat"
  grFailures :: "GraphFailure list"
  grFreshnessFailures :: "GraphFailure list"
  grImporterErrors :: "ImporterError list"
  grVerifiedAt :: time

definition import_step ::
    "(gov_error \<Rightarrow> string) \<Rightarrow> EvidenceGraph \<times> ImporterError list \<Rightarrow> EvidenceImporter option \<Rightarrow>
     EvidenceGraph \<times> ImporterError list" where
  "import_step show_err st importer =
     (case st of (g, errs) \<Rightarrow>
       case importer of
         None \<Rightarrow> (g, errs)
       | Some im \<Rightarrow>
          (case imImport im of
             Inl err \<Rightarrow>
               (g, errs @ [\<lparr>ieSourceID = imSourceID im,
                            ieRunID = (case imRunID im of None \<Rightarrow> [] | Some runID \<Rightarrow> runID),
                            ieError = show_err err\<rparr>])
           | Inr ns \<Rightarrow> (foldl (\<lambda>g node. snd (AddNode node g)) g ns, errs)))"

definition EvidenceGraphMaxBytes :: int where
  "EvidenceGraphMaxBytes = 64 * 2 ^ 20"

definition BuildAndValidateGraph ::
    "crypto \<Rightarrow> (gov_error \<Rightarrow> string) \<Rightarrow> range_order \<Rightarrow> nat \<Rightarrow> EvidenceImporter option list \<Rightarrow> time \<Rightarrow> time \<Rightarrow>
     time \<Rightarrow> (EvidenceGraph \<times> EvidenceGraphReport) option" where
  "BuildAndValidateGraph C show_err ord depth importers windowStart windowEnd verifiedAt =
     (case foldl (import_step show_err) (NewEvidenceGraph EvidenceGraphMaxBytes [], []) importers of
        (g, errs) \<Rightarrow>
          (case ValidateAll C ord windowStart windowEnd depth g of
             None \<Rightarrow> None
           | Some g \<Rightarrow>
               Some (g, \<lparr>grVerifierID = ''g8e-evidence-graph-verifier'', grVerifierVersion = ''1.0.0'',
                         grValid = (Valid g \<and> length errs = 0), grNodeCount = NodeCount g,
                         grNodesByType = (\<lambda>t. length (byType g t)), grNodesByScope = (\<lambda>s. length (byScope g s)),
                         grFailures = failures g, grFreshnessFailures = freshnessFailures g,
                         grImporterErrors = errs, grVerifiedAt = verifiedAt\<rparr>)))"

end
