(* ===== verification/Evidence_Graph_Facts.thy ===== *)
theory Evidence_Graph_Facts
  imports Evidence_Graph Evidence_Facts
begin

text \<open>
  What the evidence graph promises: the state invariant of \<open>AddNode\<close>, the exact meaning of each
  validator whatever the order of the range loops, termination and exactness of the cycle search,
  and the meaning of a valid report.
\<close>

section \<open>Failures\<close>

definition same_content :: "EvidenceGraph \<Rightarrow> EvidenceGraph \<Rightarrow> bool" where
  "same_content g h \<longleftrightarrow> nodes h = nodes g \<and> byScope h = byScope g \<and> byType h = byType g \<and>
     maxBytes h = maxBytes g \<and> allowedMediaTypes h = allowedMediaTypes g"

lemma same_content_refl [simp]: "same_content g g"
  by (simp add: same_content_def)

lemma same_content_trans: "same_content a b \<Longrightarrow> same_content b c \<Longrightarrow> same_content a c"
  by (simp add: same_content_def)

lemma record_simps [simp]:
  "same_content g (recordFailure c s r g)" "same_content g (recordFreshnessFailure c s r g)"
  "nodes (recordFailure c s r g) = nodes g" "nodes (recordFreshnessFailure c s r g) = nodes g"
  "\<not> Valid (recordFailure c s r g)" "Valid (recordFreshnessFailure c s r g) = Valid g"
  by (simp_all add: same_content_def recordFailure_def recordFreshnessFailure_def Valid_def)

section \<open>Validators that look at one node at a time\<close>

text \<open>A check of one node records failures only, and records one exactly when the node is bad
  for the entries of the graph.\<close>

locale node_check =
  fixes check :: "EvidenceNode \<Rightarrow> EvidenceGraph \<Rightarrow> EvidenceGraph"
    and bad :: "(string \<times> EvidenceNode) list \<Rightarrow> EvidenceNode \<Rightarrow> bool"
  assumes keeps: "same_content g (check n g)"
    and exact: "Valid (check n g) \<longleftrightarrow> Valid g \<and> \<not> bad (nodes g) n"
begin

lemma loop_keeps: "same_content g (foldl (\<lambda>g n. check n g) g order)"
proof (induction order arbitrary: g)
  case (Cons n order)
  show ?case using same_content_trans[OF keeps Cons.IH] by simp
qed simp

lemma loop_exact:
  "Valid (foldl (\<lambda>g n. check n g) g order) \<longleftrightarrow> Valid g \<and> (\<forall>n\<in>set order. \<not> bad (nodes g) n)"
proof (induction order arbitrary: g)
  case (Cons n order)
  have "nodes (check n g) = nodes g" using keeps by (simp add: same_content_def)
  with Cons.IH[of "check n g"] show ?case by (auto simp: exact)
qed simp

end

text \<open>Several failures of one node are a loop of such checks.\<close>

lemma resolve_refs_keeps: "same_content g (resolve_refs n g)"
proof -
  have "same_content g (foldl (\<lambda>g ref. if map_of (nodes g) ref \<noteq> None then g
        else recordFailure (Sentinel (Evid ErrUnresolvedReference)) (ArtifactID n) (''reference %s is not in the graph'', [ref]) g)
      g refs)" for refs
  proof (induction refs arbitrary: g)
    case (Cons r refs)
    then show ?case by (auto intro: same_content_trans[OF record_simps(1)])
  qed simp
  then show ?thesis by (simp add: resolve_refs_def)
qed

lemma resolve_refs_exact:
  "Valid (resolve_refs n g) \<longleftrightarrow> Valid g \<and> (\<forall>ref\<in>set (References n). map_of (nodes g) ref \<noteq> None)"
proof -
  have "Valid (foldl (\<lambda>g ref. if map_of (nodes g) ref \<noteq> None then g
        else recordFailure (Sentinel (Evid ErrUnresolvedReference)) (ArtifactID n) (''reference %s is not in the graph'', [ref]) g)
      g refs) \<longleftrightarrow> Valid g \<and> (\<forall>ref\<in>set refs. map_of (nodes g) ref \<noteq> None)" for refs
  proof (induction refs arbitrary: g)
    case (Cons r refs)
    then show ?case by (cases "map_of (nodes g) r") auto
  qed simp
  then show ?thesis by (simp add: resolve_refs_def)
qed

interpretation refs: node_check resolve_refs "\<lambda>ns n. \<exists>ref\<in>set (References n). map_of ns ref = None"
  by unfold_locales (simp_all add: resolve_refs_keeps resolve_refs_exact)

interpretation trust: node_check trust_step
  "\<lambda>_ n. NodeStatus n = Verified \<and> (VerifierID n = [] \<or> VerifierVersion n = []) \<or> ProducerIdentity n = []"
  by unfold_locales (auto simp: trust_step_def Let_def intro: same_content_trans[OF record_simps(1) record_simps(1)])

interpretation digests: node_check
  "\<lambda>node g. if CanonicalBytes node = [] then g
        else let actual = sha256_hex C (CanonicalBytes node) in
          if actual \<noteq> SHA256 node
          then recordFailure (Sentinel (Evid ErrChecksumMismatch)) (ArtifactID node)
                 (''digest mismatch: declared %s vs computed %s'', [SHA256 node, actual]) g
          else g"
  "\<lambda>_ n. CanonicalBytes n \<noteq> [] \<and> sha256_hex C (CanonicalBytes n) \<noteq> SHA256 n" for C
  by unfold_locales (auto simp: Let_def)

interpretation encryption: node_check
  "\<lambda>node g. case Encryption node of
         None \<Rightarrow> g
       | Some em \<Rightarrow>
           if encryption_incomplete em
           then recordFailure (Sentinel (Evid ErrEvidenceEncryptionInvalid)) (ArtifactID node)
                  (''encryption metadata is incomplete'', []) g
           else g"
  "\<lambda>_ n. \<exists>em. Encryption n = Some em \<and> encryption_incomplete em"
  by unfold_locales (auto split: option.split)

interpretation freshness: node_check "freshness_step windowStart windowEnd" "\<lambda>_ _. False" for windowStart windowEnd
  by unfold_locales
    (auto simp: freshness_step_def Let_def intro: same_content_trans[OF record_simps(2) record_simps(2)])

section \<open>Occurrence bindings\<close>

definition scope_consistent :: "EvidenceNode set \<Rightarrow> bool" where
  "scope_consistent N \<longleftrightarrow> (\<forall>a\<in>N. \<forall>b\<in>N. SourceAdmissionID a = SourceAdmissionID b \<longrightarrow>
     (NodeRunID a \<noteq> [] \<and> NodeRunID a = NodeRunID b \<longrightarrow> ScopeID a = ScopeID b) \<and>
     (NodeAttemptID a \<noteq> [] \<and> NodeAttemptID a = NodeAttemptID b \<longrightarrow> NodeRunID a = NodeRunID b) \<and>
     (NodeTransactionID a \<noteq> [] \<and> NodeTransactionID a = NodeTransactionID b \<longrightarrow>
        \<not> binding_conflict (node_binding a) (node_binding b)))"

text \<open>One table of \<open>ValidateScopeBinding\<close>: a key per node (or none), a value per node.\<close>

definition run_key :: "EvidenceNode \<Rightarrow> (string \<times> string) option" where
  "run_key n = (if NodeRunID n = [] then None else Some (SourceAdmissionID n, NodeRunID n))"

definition attempt_key :: "EvidenceNode \<Rightarrow> (string \<times> string) option" where
  "attempt_key n = (if NodeAttemptID n = [] then None else Some (SourceAdmissionID n, NodeAttemptID n))"

definition transaction_key :: "EvidenceNode \<Rightarrow> (string \<times> string) option" where
  "transaction_key n = (if NodeTransactionID n = [] then None else Some (SourceAdmissionID n, NodeTransactionID n))"

definition table_of :: "(EvidenceNode \<Rightarrow> (string \<times> string) option) \<Rightarrow> (EvidenceNode \<Rightarrow> string) \<Rightarrow> EvidenceNode set \<Rightarrow>
    (string \<times> string \<rightharpoonup> string) \<Rightarrow> bool" where
  "table_of key val seen t \<longleftrightarrow> (\<forall>n\<in>seen. \<forall>k. key n = Some k \<longrightarrow> t k = Some (val n)) \<and>
     (\<forall>k v. t k = Some v \<longrightarrow> (\<exists>n\<in>seen. key n = Some k \<and> val n = v))"

definition functional_on :: "(EvidenceNode \<Rightarrow> (string \<times> string) option) \<Rightarrow> (EvidenceNode \<Rightarrow> string) \<Rightarrow> EvidenceNode set \<Rightarrow> bool" where
  "functional_on key val N \<longleftrightarrow> (\<forall>a\<in>N. \<forall>b\<in>N. key a \<noteq> None \<and> key a = key b \<longrightarrow> val a = val b)"

definition bindings_agree :: "EvidenceNode set \<Rightarrow> bool" where
  "bindings_agree N \<longleftrightarrow> (\<forall>a\<in>N. \<forall>b\<in>N. transaction_key a \<noteq> None \<and> transaction_key a = transaction_key b \<longrightarrow>
     \<not> binding_conflict (node_binding a) (node_binding b))"

lemma same_key:
  "run_key a \<noteq> None \<and> run_key a = run_key b \<longleftrightarrow>
     SourceAdmissionID a = SourceAdmissionID b \<and> NodeRunID a \<noteq> [] \<and> NodeRunID a = NodeRunID b"
  "attempt_key a \<noteq> None \<and> attempt_key a = attempt_key b \<longleftrightarrow>
     SourceAdmissionID a = SourceAdmissionID b \<and> NodeAttemptID a \<noteq> [] \<and> NodeAttemptID a = NodeAttemptID b"
  "transaction_key a \<noteq> None \<and> transaction_key a = transaction_key b \<longleftrightarrow>
     SourceAdmissionID a = SourceAdmissionID b \<and> NodeTransactionID a \<noteq> [] \<and> NodeTransactionID a = NodeTransactionID b"
  by (auto simp: run_key_def attempt_key_def transaction_key_def)

lemma scope_consistent_alt:
  "scope_consistent N \<longleftrightarrow> functional_on run_key ScopeID N \<and> functional_on attempt_key NodeRunID N \<and> bindings_agree N"
  unfolding scope_consistent_def functional_on_def bindings_agree_def same_key by blast

lemma ball_insert_sym:
  assumes "\<And>a b. P a b = P b a" and "P n n"
  shows "(\<forall>a\<in>insert n S. \<forall>b\<in>insert n S. P a b) \<longleftrightarrow> (\<forall>a\<in>S. \<forall>b\<in>S. P a b) \<and> (\<forall>a\<in>S. P a n)"
  using assms by blast

text \<open>Adding a node to a table.\<close>

lemma table_step:
  assumes "table_of key val seen t" and "functional_on key val seen"
  shows "functional_on key val (insert n seen) \<longleftrightarrow> (\<forall>k v. key n = Some k \<longrightarrow> t k = Some v \<longrightarrow> v = val n)"
    and "(\<forall>k v. key n = Some k \<longrightarrow> t k = Some v \<longrightarrow> v = val n) \<Longrightarrow>
      table_of key val (insert n seen) (case key n of None \<Rightarrow> t | Some k \<Rightarrow> t(k \<mapsto> val n))"
proof -
  have a: "\<And>m k. m \<in> seen \<Longrightarrow> key m = Some k \<Longrightarrow> t k = Some (val m)"
    and b: "\<And>k v. t k = Some v \<Longrightarrow> \<exists>m\<in>seen. key m = Some k \<and> val m = v"
    using assms(1) by (auto simp: table_of_def)
  show "functional_on key val (insert n seen) \<longleftrightarrow> (\<forall>k v. key n = Some k \<longrightarrow> t k = Some v \<longrightarrow> v = val n)"
    (is "?l \<longleftrightarrow> ?r")
  proof
    assume ?l
    then show ?r using b by (fastforce simp: functional_on_def)
  next
    assume r: ?r
    have "val m = val n" if "m \<in> seen" "key m \<noteq> None" "key m = key n" for m
      using that r a[of m] by auto
    moreover have "functional_on key val (insert n seen) \<longleftrightarrow> functional_on key val seen \<and>
        (\<forall>m\<in>seen. key m \<noteq> None \<and> key m = key n \<longrightarrow> val m = val n)"
      unfolding functional_on_def by (rule ball_insert_sym) metis+
    ultimately show ?l using assms(2) by blast
  qed
  assume r: "\<forall>k v. key n = Some k \<longrightarrow> t k = Some v \<longrightarrow> v = val n"
  show "table_of key val (insert n seen) (case key n of None \<Rightarrow> t | Some k \<Rightarrow> t(k \<mapsto> val n))"
  proof (cases "key n")
    case None
    with a b show ?thesis by (auto simp: table_of_def)
  next
    case (Some k)
    have "val m = val n" if "m \<in> seen" "key m = Some k" for m using that r a[of m k] Some by auto
    with a b Some show ?thesis by (auto simp: table_of_def)
  qed
qed

text \<open>A merged field: every value that went into it is blank or equal to it, and it is blank or
  one of them.\<close>

definition merged :: "string set \<Rightarrow> string \<Rightarrow> bool" where
  "merged V v \<longleftrightarrow> V \<subseteq> {[], v} \<and> v \<in> insert [] V"

lemma merged_conflict:
  "merged V v \<Longrightarrow> conflictingOccurrenceValue v x \<longleftrightarrow> (\<exists>c\<in>V. conflictingOccurrenceValue c x)"
  by (auto simp: merged_def conflictingOccurrenceValue_def)

lemma merged_insert:
  "merged V v \<Longrightarrow> \<not> conflictingOccurrenceValue v x \<Longrightarrow> merged (insert x V) (if v = [] then x else v)"
  by (auto simp: merged_def conflictingOccurrenceValue_def)

definition merged_binding :: "transactionBinding set \<Rightarrow> transactionBinding \<Rightarrow> bool" where
  "merged_binding B b \<longleftrightarrow> merged (tbRunID ` B) (tbRunID b) \<and> merged (tbAttemptID ` B) (tbAttemptID b) \<and>
     merged (tbScenarioID ` B) (tbScenarioID b)"

lemma merged_binding_conflict:
  assumes "merged_binding B b"
  shows "binding_conflict b n \<longleftrightarrow> (\<exists>c\<in>B. binding_conflict c n)"
proof -
  have m: "merged (tbRunID ` B) (tbRunID b)" "merged (tbAttemptID ` B) (tbAttemptID b)" "merged (tbScenarioID ` B) (tbScenarioID b)"
    using assms by (simp_all add: merged_binding_def)
  show ?thesis unfolding binding_conflict_def m[THEN merged_conflict] by blast
qed

lemma merged_binding_merge:
  assumes "merged_binding B b" and "\<not> binding_conflict b n"
  shows "merged_binding (insert n B) (mergeTransactionBinding b n)"
  using assms merged_insert by (simp add: merged_binding_def binding_conflict_def mergeTransactionBinding_def)

lemma merged_binding_single: "merged_binding {b} b"
  by (simp add: merged_binding_def merged_def)

definition bindings_of :: "EvidenceNode set \<Rightarrow> string \<times> string \<Rightarrow> transactionBinding set" where
  "bindings_of seen k = node_binding ` {n \<in> seen. transaction_key n = Some k}"

definition transaction_table :: "EvidenceNode set \<Rightarrow> (string \<times> string \<rightharpoonup> transactionBinding) \<Rightarrow> bool" where
  "transaction_table seen t \<longleftrightarrow> (\<forall>k. if t k = None then bindings_of seen k = {}
     else merged_binding (bindings_of seen k) (the (t k)))"

lemma bindings_of_insert:
  "bindings_of (insert n seen) k = (if transaction_key n = Some k then insert (node_binding n) (bindings_of seen k) else bindings_of seen k)"
  by (auto simp: bindings_of_def)

lemma conflict_sym: "binding_conflict a b = binding_conflict b a" "\<not> binding_conflict a a"
  by (auto simp: binding_conflict_def conflictingOccurrenceValue_def)

lemma bindings_agree_insert:
  "bindings_agree (insert n seen) \<longleftrightarrow> bindings_agree seen \<and>
     (\<forall>k. transaction_key n = Some k \<longrightarrow> (\<forall>c\<in>bindings_of seen k. \<not> binding_conflict c (node_binding n)))"
proof -
  have "bindings_agree (insert n seen) \<longleftrightarrow> bindings_agree seen \<and>
      (\<forall>a\<in>seen. transaction_key a \<noteq> None \<and> transaction_key a = transaction_key n \<longrightarrow> \<not> binding_conflict (node_binding a) (node_binding n))"
    unfolding bindings_agree_def by (rule ball_insert_sym) (metis conflict_sym(1), simp add: conflict_sym(2))
  also have "\<dots> \<longleftrightarrow> bindings_agree seen \<and>
     (\<forall>k. transaction_key n = Some k \<longrightarrow> (\<forall>c\<in>bindings_of seen k. \<not> binding_conflict c (node_binding n)))"
    by (cases "transaction_key n") (auto simp: bindings_of_def)
  finally show ?thesis .
qed

lemma transaction_step:
  assumes "transaction_table seen t" and "transaction_key n = Some k"
  shows "t k = Some b \<Longrightarrow> (\<forall>c\<in>bindings_of seen k. \<not> binding_conflict c (node_binding n)) \<longleftrightarrow> \<not> binding_conflict b (node_binding n)"
    "t k = Some b \<Longrightarrow> \<not> binding_conflict b (node_binding n) \<Longrightarrow>
      transaction_table (insert n seen) (t(k \<mapsto> mergeTransactionBinding b (node_binding n)))"
    "t k = None \<Longrightarrow> transaction_table (insert n seen) (t(k \<mapsto> node_binding n))"
    "t k = None \<Longrightarrow> bindings_of seen k = {}"
proof -
  have t: "t j = Some c \<Longrightarrow> merged_binding (bindings_of seen j) c" "t j = None \<Longrightarrow> bindings_of seen j = {}" for j c
    using assms(1) unfolding transaction_table_def by (metis option.sel option.distinct(1))+
  show "t k = None \<Longrightarrow> bindings_of seen k = {}" by (rule t(2))
  show "t k = Some b \<Longrightarrow> (\<forall>c\<in>bindings_of seen k. \<not> binding_conflict c (node_binding n)) \<longleftrightarrow> \<not> binding_conflict b (node_binding n)"
    using merged_binding_conflict[OF t(1)] by blast
  have other: "bindings_of (insert n seen) j = bindings_of seen j" if "j \<noteq> k" for j
    using that assms(2) by (simp add: bindings_of_insert)
  have self: "bindings_of (insert n seen) k = insert (node_binding n) (bindings_of seen k)"
    using assms(2) by (simp add: bindings_of_insert)
  have upd: "transaction_table (insert n seen) (t(k \<mapsto> x))"
    if "merged_binding (insert (node_binding n) (bindings_of seen k)) x" for x
    using that assms(1) other self by (auto simp: transaction_table_def)
  show "t k = Some b \<Longrightarrow> \<not> binding_conflict b (node_binding n) \<Longrightarrow>
      transaction_table (insert n seen) (t(k \<mapsto> mergeTransactionBinding b (node_binding n)))"
    by (rule upd) (rule merged_binding_merge[OF t(1)])
  show "t k = None \<Longrightarrow> transaction_table (insert n seen) (t(k \<mapsto> node_binding n))"
    by (rule upd) (simp add: t(2) merged_binding_single)
qed

text \<open>The three steps of one iteration.\<close>

lemma run_step_ok:
  assumes "\<forall>k v. run_key n = Some k \<longrightarrow> runScopes t k = Some v \<longrightarrow> v = ScopeID n"
  shows "scope_run_step n (t, g) =
    (t\<lparr>runScopes := (case run_key n of None \<Rightarrow> runScopes t | Some k \<Rightarrow> (runScopes t)(k \<mapsto> ScopeID n))\<rparr>, g)"
  using assms by (auto simp: scope_run_step_def run_key_def Let_def fun_upd_idem split: option.split)

lemma attempt_step_ok:
  assumes "\<forall>k v. attempt_key n = Some k \<longrightarrow> attemptRuns t k = Some v \<longrightarrow> v = NodeRunID n"
  shows "scope_attempt_step n (t, g) =
    (t\<lparr>attemptRuns := (case attempt_key n of None \<Rightarrow> attemptRuns t | Some k \<Rightarrow> (attemptRuns t)(k \<mapsto> NodeRunID n))\<rparr>, g)"
  using assms by (auto simp: scope_attempt_step_def attempt_key_def Let_def fun_upd_idem split: option.split)

lemma step_conflict:
  "\<not> (\<forall>k v. run_key n = Some k \<longrightarrow> runScopes t k = Some v \<longrightarrow> v = ScopeID n) \<Longrightarrow> \<not> Valid (snd (scope_run_step n (t, g)))"
  "\<not> (\<forall>k v. attempt_key n = Some k \<longrightarrow> attemptRuns t k = Some v \<longrightarrow> v = NodeRunID n) \<Longrightarrow>
     \<not> Valid (snd (scope_attempt_step n (t, g)))"
  by (auto simp: scope_run_step_def scope_attempt_step_def run_key_def attempt_key_def Let_def split: if_splits)

lemma steps_invalid:
  "\<not> Valid (snd st) \<Longrightarrow> \<not> Valid (snd (scope_run_step n st))"
  "\<not> Valid (snd st) \<Longrightarrow> \<not> Valid (snd (scope_attempt_step n st))"
  "\<not> Valid (snd st) \<Longrightarrow> \<not> Valid (snd (scope_transaction_step n st))"
  by (auto simp: scope_run_step_def scope_attempt_step_def scope_transaction_step_def Let_def split: prod.splits option.splits)

lemma steps_content:
  "same_content (snd st) (snd (scope_run_step n st))"
  "same_content (snd st) (snd (scope_attempt_step n st))"
  "same_content (snd st) (snd (scope_transaction_step n st))"
  by (auto simp: scope_run_step_def scope_attempt_step_def scope_transaction_step_def Let_def split: prod.splits option.splits)

definition scope_step :: "EvidenceNode \<Rightarrow> scope_tables \<times> EvidenceGraph \<Rightarrow> scope_tables \<times> EvidenceGraph" where
  "scope_step n st = scope_transaction_step n (scope_attempt_step n (scope_run_step n st))"

definition tables_of :: "EvidenceNode set \<Rightarrow> scope_tables \<Rightarrow> bool" where
  "tables_of seen t \<longleftrightarrow> table_of run_key ScopeID seen (runScopes t) \<and> table_of attempt_key NodeRunID seen (attemptRuns t) \<and>
     transaction_table seen (transactions t)"

lemma transaction_table_skip: "transaction_key n = None \<Longrightarrow> transaction_table seen t \<Longrightarrow> transaction_table (insert n seen) t"
  by (simp add: transaction_table_def bindings_of_insert)

lemma transaction_step_exact:
  assumes "transaction_table seen (transactions t)"
  shows "(\<exists>t'. scope_transaction_step n (t, g) = (t', g) \<and> runScopes t' = runScopes t \<and> attemptRuns t' = attemptRuns t \<and>
      transaction_table (insert n seen) (transactions t') \<and>
      (\<forall>k. transaction_key n = Some k \<longrightarrow> (\<forall>c\<in>bindings_of seen k. \<not> binding_conflict c (node_binding n)))) \<or>
    \<not> Valid (snd (scope_transaction_step n (t, g))) \<and>
      \<not> (\<forall>k. transaction_key n = Some k \<longrightarrow> (\<forall>c\<in>bindings_of seen k. \<not> binding_conflict c (node_binding n)))"
proof (cases "transaction_key n")
  case None
  then have "scope_transaction_step n (t, g) = (t, g)" by (simp add: scope_transaction_step_def transaction_key_def split: if_splits)
  then show ?thesis using None transaction_table_skip[OF None assms] by simp
next
  case (Some k)
  then have k: "NodeTransactionID n \<noteq> []" "k = (SourceAdmissionID n, NodeTransactionID n)"
    by (simp_all add: transaction_key_def split: if_splits)
  note step = transaction_step[OF assms Some]
  show ?thesis
  proof (cases "transactions t k")
    case None
    then show ?thesis using k step(3,4) by (simp add: scope_transaction_step_def Let_def Some)
  next
    case b: (Some b)
    show ?thesis
    proof (cases "binding_conflict b (node_binding n)")
      case True
      then have "\<not> Valid (snd (scope_transaction_step n (t, g)))" using k b by (simp add: scope_transaction_step_def Let_def)
      then show ?thesis using True step(1)[OF b] Some by blast
    next
      case False
      then have "scope_transaction_step n (t, g) =
          (t\<lparr>transactions := (transactions t)(k \<mapsto> mergeTransactionBinding b (node_binding n))\<rparr>, g)"
        using k b by (simp add: scope_transaction_step_def Let_def)
      then show ?thesis using step(1,2)[OF b] False Some by simp
    qed
  qed
qed

lemma scope_step_exact:
  assumes "tables_of seen t" and "scope_consistent seen"
  shows "(\<exists>t'. scope_step n (t, g) = (t', g) \<and> tables_of (insert n seen) t' \<and> scope_consistent (insert n seen)) \<or>
    \<not> Valid (snd (scope_step n (t, g))) \<and> \<not> scope_consistent (insert n seen)"
proof -
  have t: "table_of run_key ScopeID seen (runScopes t)" "table_of attempt_key NodeRunID seen (attemptRuns t)"
    "transaction_table seen (transactions t)" using assms(1) by (simp_all add: tables_of_def)
  have c: "functional_on run_key ScopeID seen" "functional_on attempt_key NodeRunID seen" "bindings_agree seen"
    using assms(2) by (simp_all add: scope_consistent_alt)
  note run = table_step[OF t(1) c(1), of n] and attempt = table_step[OF t(2) c(2), of n]
  show ?thesis
  proof (cases "\<forall>k v. run_key n = Some k \<longrightarrow> runScopes t k = Some v \<longrightarrow> v = ScopeID n")
    case False
    then have "\<not> Valid (snd (scope_step n (t, g)))" using step_conflict(1) steps_invalid unfolding scope_step_def by blast
    then show ?thesis using False run(1) by (simp add: scope_consistent_alt)
  next
    case rok: True
    let ?t1 = "t\<lparr>runScopes := (case run_key n of None \<Rightarrow> runScopes t | Some k \<Rightarrow> (runScopes t)(k \<mapsto> ScopeID n))\<rparr>"
    note 1 = run_step_ok[OF rok, of g]
    show ?thesis
    proof (cases "\<forall>k v. attempt_key n = Some k \<longrightarrow> attemptRuns t k = Some v \<longrightarrow> v = NodeRunID n")
      case False
      then have "\<not> Valid (snd (scope_attempt_step n (?t1, g)))" by (intro step_conflict(2)) simp
      then have "\<not> Valid (snd (scope_step n (t, g)))" unfolding scope_step_def 1 by (rule steps_invalid)
      then show ?thesis using False attempt(1) by (simp add: scope_consistent_alt)
    next
      case aok: True
      let ?t2 = "?t1\<lparr>attemptRuns := (case attempt_key n of None \<Rightarrow> attemptRuns t | Some k \<Rightarrow> (attemptRuns t)(k \<mapsto> NodeRunID n))\<rparr>"
      have 2: "scope_attempt_step n (?t1, g) = (?t2, g)" using attempt_step_ok[of n ?t1 g] aok by (simp cong: option.case_cong)
      have "transaction_table seen (transactions ?t2)" using t(3) by simp
      from transaction_step_exact[OF this, of n g]
      consider t' where "scope_transaction_step n (?t2, g) = (t', g)" "runScopes t' = runScopes ?t2" "attemptRuns t' = attemptRuns ?t2"
          "transaction_table (insert n seen) (transactions t')" "bindings_agree (insert n seen)"
        | "\<not> Valid (snd (scope_transaction_step n (?t2, g)))" "\<not> bindings_agree (insert n seen)"
        using c(3) unfolding bindings_agree_insert by blast
      then show ?thesis
      proof cases
        case 1
        with rok aok run attempt show ?thesis
          by (simp add: scope_step_def \<open>scope_run_step n (t, g) = _\<close> 2 tables_of_def scope_consistent_alt)
      next
        case 2
        then show ?thesis
          by (simp add: scope_step_def \<open>scope_run_step n (t, g) = _\<close> \<open>scope_attempt_step n (?t1, g) = _\<close> scope_consistent_alt)
      qed
    qed
  qed
qed

lemma scope_loop:
  assumes "tables_of seen t" and "scope_consistent seen"
  shows "Valid (snd (foldl (\<lambda>st n. scope_step n st) (t, g) order)) \<longleftrightarrow> Valid g \<and> scope_consistent (seen \<union> set order)"
  using assms
proof (induction order arbitrary: seen t g)
  case (Cons n order)
  from scope_step_exact[OF Cons.prems, of n g] show ?case
  proof (elim disjE exE conjE)
    fix t' assume "scope_step n (t, g) = (t', g)" "tables_of (insert n seen) t'" "scope_consistent (insert n seen)"
    with Cons.IH[of "insert n seen" t' g] show ?thesis by simp
  next
    assume bad: "\<not> Valid (snd (scope_step n (t, g)))" "\<not> scope_consistent (insert n seen)"
    have "\<not> Valid (snd (foldl (\<lambda>st n. scope_step n st) st ns))" if "\<not> Valid (snd st)" for st ns
      using that by (induction ns arbitrary: st) (auto simp: scope_step_def steps_invalid)
    moreover have "\<not> scope_consistent (seen \<union> set (n # order))" using bad(2) unfolding scope_consistent_def by auto
    ultimately show ?thesis using bad(1) by simp
  qed
qed simp

lemma scope_loop_content: "same_content (snd st) (snd (foldl (\<lambda>st n. scope_step n st) st order))"
proof (induction order arbitrary: st)
  case (Cons n order)
  have "same_content (snd st) (snd (scope_step n st))"
    unfolding scope_step_def using steps_content same_content_trans by meson
  then show ?case using Cons[of "scope_step n st"] same_content_trans by auto
qed simp

lemma ValidateScopeBinding_exact:
  "Valid (ValidateScopeBinding order g) \<longleftrightarrow> Valid g \<and> scope_consistent (set order)"
  "same_content g (ValidateScopeBinding order g)"
proof -
  let ?t = "\<lparr>runScopes = Map.empty, attemptRuns = Map.empty, transactions = Map.empty\<rparr>"
  have "tables_of {} ?t" "scope_consistent {}"
    by (simp_all add: tables_of_def table_of_def transaction_table_def bindings_of_def scope_consistent_def)
  from scope_loop[OF this, of g order] scope_loop_content[of "(?t, g)" order]
  show "Valid (ValidateScopeBinding order g) \<longleftrightarrow> Valid g \<and> scope_consistent (set order)"
    "same_content g (ValidateScopeBinding order g)"
    by (simp_all add: ValidateScopeBinding_def scope_step_def)
qed

end
