(* ===== verification/Evidence_Cycles.thy ===== *)
theory Evidence_Cycles
  imports Evidence_Graph_Facts
begin

text \<open>
  The cycle search of the evidence graph: it returns within a depth of one more than the number
  of nodes, and it records a failure exactly when the references have a cycle.
\<close>

definition reference_edges :: "(string \<times> EvidenceNode) list \<Rightarrow> (string \<times> string) set" where
  "reference_edges ns = {(a, b). \<exists>node. map_of ns a = Some node \<and> b \<in> set (References node)}"

text \<open>Entries not yet visited: the measure of the recursion.\<close>

definition unvisited :: "(string \<times> EvidenceNode) list \<Rightarrow> (string \<rightharpoonup> colour) \<Rightarrow> string set" where
  "unvisited ns v = {k \<in> fst ` set ns. v k = None}"

lemma finite_unvisited [simp]: "finite (unvisited ns v)"
  by (simp add: unvisited_def)

text \<open>What a completed call leaves behind.\<close>

definition extends :: "(string \<rightharpoonup> colour) \<Rightarrow> (string \<rightharpoonup> colour) \<Rightarrow> bool" where
  "extends v w \<longleftrightarrow> (\<forall>x. w x = Some Grey \<longleftrightarrow> v x = Some Grey) \<and> (\<forall>x. v x = Some Black \<longrightarrow> w x = Some Black)"

lemma extends_refl [simp]: "extends v v"
  by (simp add: extends_def)

lemma extends_trans: "extends u v \<Longrightarrow> extends v w \<Longrightarrow> extends u w"
  by (simp add: extends_def)

lemma extends_dom: "extends v w \<Longrightarrow> v x \<noteq> None \<Longrightarrow> w x \<noteq> None"
  unfolding extends_def by (metis (full_types) colour.exhaust not_Some_eq)

lemma extends_unvisited: "extends v w \<Longrightarrow> unvisited ns w \<subseteq> unvisited ns v"
  using extends_dom by (fastforce simp: unvisited_def)

section \<open>Termination\<close>

text \<open>A step that finishes, as a property of the function that visits one reference.\<close>

definition visits :: "(string \<times> EvidenceNode) list \<Rightarrow> nat \<Rightarrow>
    (string \<Rightarrow> (string \<rightharpoonup> colour) \<times> EvidenceGraph \<Rightarrow> ((string \<rightharpoonup> colour) \<times> EvidenceGraph) option) \<Rightarrow> bool" where
  "visits ns k visit \<longleftrightarrow> (\<forall>x v g. nodes g = ns \<longrightarrow> card (unvisited ns v) < k \<longrightarrow>
     (\<exists>w h. visit x (v, g) = Some (w, h) \<and> same_content g h \<and> extends v w \<and> w x \<noteq> None))"

lemma dfs_refs_returns:
  assumes "visits ns k visit" and "nodes g = ns" and "card (unvisited ns v) < k"
  shows "\<exists>w h. dfs_refs visit refs (v, g) = Some (w, h) \<and> same_content g h \<and> extends v w \<and> (\<forall>x\<in>set refs. w x \<noteq> None)"
  using assms(2,3)
proof (induction refs arbitrary: v g)
  case (Cons x refs)
  obtain w h where w: "visit x (v, g) = Some (w, h)" "same_content g h" "extends v w" "w x \<noteq> None"
    using assms(1) Cons.prems unfolding visits_def by blast
  then have "nodes h = ns" using Cons.prems(1) by (simp add: same_content_def)
  moreover have "card (unvisited ns w) < k"
    using card_mono[OF finite_unvisited extends_unvisited[OF w(3)], of ns] Cons.prems(2) by linarith
  ultimately obtain w2 h2 where w2: "dfs_refs visit refs (w, h) = Some (w2, h2)" "same_content h h2" "extends w w2"
    "\<forall>x\<in>set refs. w2 x \<noteq> None" using Cons.IH by blast
  have "w2 x \<noteq> None" using extends_dom[OF w2(3) w(4)] .
  moreover have "dfs_refs visit (x # refs) (v, g) = Some (w2, h2)" using w(1) w2(1) by simp
  ultimately show ?case
    using w2(4) same_content_trans[OF w(2) w2(2)] extends_trans[OF w(3) w2(3)] by (intro exI[of _ w2] exI[of _ h2]) simp
qed simp

lemma dfs_visits: "visits ns k (\<lambda>x. dfs k x path)"
proof (induction k arbitrary: path)
  case 0
  then show ?case by (simp add: visits_def)
next
  case (Suc k)
  show ?case unfolding visits_def
  proof (intro allI impI)
    fix x v and g :: EvidenceGraph assume g: "nodes g = ns" and c: "card (unvisited ns v) < Suc k"
    show "\<exists>w h. dfs (Suc k) x path (v, g) = Some (w, h) \<and> same_content g h \<and> extends v w \<and> w x \<noteq> None"
    proof (cases "v x")
      case (Some col)
      then show ?thesis by (cases col) simp_all
    next
      case None
      show ?thesis
      proof (cases "map_of ns x")
        case nn: None
        then show ?thesis using None g by (auto simp: extends_def)
      next
        case (Some node)
        then have "x \<in> unvisited ns v" using None by (force simp: unvisited_def dest: map_of_SomeD)
        moreover have "unvisited ns (v(x \<mapsto> Grey)) = unvisited ns v - {x}" by (auto simp: unvisited_def)
        ultimately have "card (unvisited ns (v(x \<mapsto> Grey))) < k"
          using c card_Suc_Diff1[OF finite_unvisited, of x ns v] by simp
        from dfs_refs_returns[OF Suc.IH[of "path @ [x]"] g this, of "References node"] obtain w h where
          w: "dfs_refs (\<lambda>ref. dfs k ref (path @ [x])) (References node) (v(x \<mapsto> Grey), g) = Some (w, h)"
          "same_content g h" "extends (v(x \<mapsto> Grey)) w" by blast
        moreover have "extends v (w(x \<mapsto> Black))" using w(3) None by (auto simp: extends_def)
        ultimately show ?thesis using None Some g by simp
      qed
    qed
  qed
qed

lemma dfs_all_returns:
  assumes "nodes g = ns" and "card (unvisited ns v) < depth"
  shows "\<exists>w h. dfs_all depth order (v, g) = Some (w, h) \<and> same_content g h \<and> extends v w \<and> (\<forall>x\<in>set order. w x \<noteq> None)"
  using assms
proof (induction order arbitrary: v g)
  case (Cons x order)
  obtain w h where w: "(case v x of Some _ \<Rightarrow> Some (v, g) | None \<Rightarrow> dfs depth x [] (v, g)) = Some (w, h)"
    "same_content g h" "extends v w" "w x \<noteq> None"
  proof (cases "v x")
    case None
    then show thesis using dfs_visits[of ns depth "[]"] Cons.prems that unfolding visits_def by auto blast
  qed (use that in auto)
  then have "nodes h = ns" using Cons.prems(1) by (simp add: same_content_def)
  moreover have "card (unvisited ns w) < depth"
    using card_mono[OF finite_unvisited extends_unvisited[OF w(3)], of ns] Cons.prems(2) by linarith
  ultimately obtain w2 h2 where w2: "dfs_all depth order (w, h) = Some (w2, h2)" "same_content h h2" "extends w w2"
    "\<forall>x\<in>set order. w2 x \<noteq> None" using Cons.IH by blast
  have "dfs_all depth (x # order) (v, g) = dfs_all depth order (w, h)" using w(1) by (cases "v x") auto
  moreover have "w2 x \<noteq> None" using extends_dom[OF w2(3) w(4)] .
  ultimately show ?case
    using w2 same_content_trans[OF w(2) w2(2)] extends_trans[OF w(3) w2(3)] by (intro exI[of _ w2] exI[of _ h2]) simp
qed simp

lemma unvisited_bound: "card (unvisited ns v) \<le> length ns"
proof -
  have "card (unvisited ns v) \<le> card (fst ` set ns)" by (rule card_mono) (auto simp: unvisited_def)
  also have "\<dots> \<le> card (set ns)" by (rule card_image_le) simp
  also have "\<dots> \<le> length ns" by (rule card_length)
  finally show ?thesis .
qed

lemma DetectCycles_returns:
  assumes "length (nodes g) < depth"
  shows "\<exists>h. DetectCycles depth order g = Some h \<and> same_content g h"
proof -
  have "card (unvisited (nodes g) Map.empty) < depth" using unvisited_bound[of "nodes g" Map.empty] assms by linarith
  from dfs_all_returns[OF refl this, of order] show ?thesis by (auto simp: DetectCycles_def)
qed

section \<open>Soundness\<close>

text \<open>Failures are never taken back.\<close>

lemma dfs_refs_valid:
  assumes "\<And>x v g w h. visit x (v, g) = Some (w, h) \<Longrightarrow> Valid h \<Longrightarrow> Valid g"
  shows "dfs_refs visit refs (v, g) = Some (w, h) \<Longrightarrow> Valid h \<Longrightarrow> Valid g"
proof (induction refs arbitrary: v g)
  case (Cons x refs)
  then show ?case using assms by (auto split: option.splits)
qed simp

lemma dfs_valid: "dfs k x path (v, g) = Some (w, h) \<Longrightarrow> Valid h \<Longrightarrow> Valid g"
proof (induction k arbitrary: x path v g w h)
  case (Suc k)
  show ?case
  proof (cases "v x")
    case (Some col)
    with Suc.prems show ?thesis by (cases col) auto
  next
    case None
    show ?thesis
    proof (cases "map_of (nodes g) x")
      case None
      with \<open>v x = None\<close> Suc.prems show ?thesis by simp
    next
      case (Some node)
      with None Suc.prems obtain w1 where
        r: "dfs_refs (\<lambda>ref. dfs k ref (path @ [x])) (References node) (v(x \<mapsto> Grey), g) = Some (w1, h)"
        by (auto split: option.splits)
      have "\<And>x' v g w h. dfs k x' (path @ [x]) (v, g) = Some (w, h) \<Longrightarrow> Valid h \<Longrightarrow> Valid g" by (rule Suc.IH)
      from dfs_refs_valid[where visit = "\<lambda>ref. dfs k ref (path @ [x])", OF this r Suc.prems(2)] show ?thesis .
    qed
  qed
qed simp

text \<open>Every open node reaches the node that is visited. A failure then closes a cycle.\<close>

definition open_reach :: "(string \<times> string) set \<Rightarrow> (string \<rightharpoonup> colour) \<Rightarrow> string \<Rightarrow> bool" where
  "open_reach E v x \<longleftrightarrow> (\<forall>y. v y = Some Grey \<longrightarrow> (y, x) \<in> E\<^sup>+)"

lemma dfs_sound:
  assumes "dfs k x path (v, g) = Some (w, h)" and "nodes g = ns" and "open_reach (reference_edges ns) v x"
    and "card (unvisited ns v) < k" and "Valid g" and "\<not> Valid h"
  shows "\<not> acyclic (reference_edges ns)"
  using assms
proof (induction k arbitrary: x path v g w h)
  case (Suc k)
  let ?E = "reference_edges ns"
  show ?case
  proof (cases "v x")
    case (Some col)
    with Suc.prems have "col = Grey" by (cases col) auto
    with Some Suc.prems(3) show ?thesis by (auto simp: open_reach_def acyclic_def)
  next
    case None
    show ?thesis
    proof (cases "map_of ns x")
      case nn: None
      with None Suc.prems show ?thesis by auto
    next
      case (Some node)
      let ?visit = "\<lambda>ref. dfs k ref (path @ [x])" and ?v = "v(x \<mapsto> Grey)"
      from None Some Suc.prems obtain w1 where r: "dfs_refs ?visit (References node) (?v, g) = Some (w1, h)"
        by (auto split: option.splits)
      have reach: "open_reach ?E ?v ref" if "ref \<in> set (References node)" for ref
      proof -
        have e: "(x, ref) \<in> ?E" using that Some by (auto simp: reference_edges_def)
        then show ?thesis using Suc.prems(3) by (auto simp: open_reach_def intro: trancl_into_trancl)
      qed
      have "x \<in> unvisited ns v" using None Some by (force simp: unvisited_def dest: map_of_SomeD)
      moreover have "unvisited ns ?v = unvisited ns v - {x}" by (auto simp: unvisited_def)
      ultimately have c: "card (unvisited ns ?v) < k"
        using Suc.prems(4) card_Suc_Diff1[OF finite_unvisited, of x ns v] by simp
      have "\<not> acyclic ?E" if "dfs_refs ?visit refs (u, g') = Some (w', h)" "set refs \<subseteq> set (References node)"
        "nodes g' = ns" "extends ?v u" "Valid g'" for refs u g' w'
        using that
      proof (induction refs arbitrary: u g')
        case (Cons ref refs)
        from extends_unvisited[OF Cons.prems(4), of ns] have cu: "card (unvisited ns u) < k"
          using card_mono[OF finite_unvisited] c by (meson le_less_trans)
        obtain u' h' where v: "?visit ref (u, g') = Some (u', h')" "same_content g' h'" "extends u u'"
          using dfs_visits[of ns k "path @ [x]"] Cons.prems(3) cu unfolding visits_def by blast
        have o: "open_reach ?E u ref"
          using reach[of ref] Cons.prems(2,4) by (auto simp: open_reach_def extends_def)
        show ?case
        proof (cases "Valid h'")
          case True
          have "nodes h' = ns" using v(2) Cons.prems(3) by (simp add: same_content_def)
          moreover have "dfs_refs ?visit refs (u', h') = Some (w', h)" using Cons.prems(1) v(1) by simp
          moreover have "set refs \<subseteq> set (References node)" using Cons.prems(2) by simp
          ultimately show ?thesis using Cons.IH[of u' h'] extends_trans[OF Cons.prems(4) v(3)] True by blast
        next
          case False
          show ?thesis by (rule Suc.IH[OF v(1) Cons.prems(3) o cu Cons.prems(5) False])
        qed
      qed (use Suc.prems(6) in simp)
      from this[OF r] show ?thesis using Suc.prems(2,5) by simp
    qed
  qed
qed simp

section \<open>Completeness\<close>

text \<open>The finished nodes are closed under references and have no cycle among them.\<close>

definition finished :: "(string \<rightharpoonup> colour) \<Rightarrow> string set" where
  "finished v = {x. v x = Some Black}"

definition settled :: "(string \<times> string) set \<Rightarrow> (string \<rightharpoonup> colour) \<Rightarrow> bool" where
  "settled E v \<longleftrightarrow> E `` finished v \<subseteq> finished v \<and> acyclic {(a, b) \<in> E. a \<in> finished v}"

lemma acyclic_add_source:
  assumes "acyclic R" and "R \<subseteq> B \<times> B" and "x \<notin> B" and "X \<subseteq> B"
  shows "acyclic (R \<union> {x} \<times> X)"
proof -
  have "(R \<union> {x} \<times> X)\<^sup>+ \<subseteq> R\<^sup>+ \<union> {x} \<times> B"
  proof
    fix p assume "p \<in> (R \<union> {x} \<times> X)\<^sup>+"
    then obtain a b where p: "p = (a, b)" "(a, b) \<in> (R \<union> {x} \<times> X)\<^sup>+" by (cases p) simp
    from p(2) have "(a, b) \<in> R\<^sup>+ \<union> {x} \<times> B \<and> b \<in> B"
    proof (induction rule: trancl_induct)
      case (base b)
      then show ?case using assms(2,4) by auto
    next
      case (step b c)
      then have "(b, c) \<in> R" using assms(3) by auto
      then show ?case using step assms(2) by (auto intro: trancl_into_trancl)
    qed
    then show "p \<in> R\<^sup>+ \<union> {x} \<times> B" unfolding p(1) by blast
  qed
  then show ?thesis using assms(1,3) by (auto simp: acyclic_def)
qed

lemma settled_finish:
  assumes "settled E w" and "E `` {x} \<subseteq> finished w" and "x \<notin> finished w"
  shows "settled E (w(x \<mapsto> Black))"
proof -
  let ?R = "{(a, b) \<in> E. a \<in> finished w}"
  have d: "finished (w(x \<mapsto> Black)) = insert x (finished w)" by (auto simp: finished_def)
  have "{(a, b) \<in> E. a \<in> insert x (finished w)} = ?R \<union> {x} \<times> (E `` {x})" by auto
  moreover have "acyclic (?R \<union> {x} \<times> (E `` {x}))"
    by (rule acyclic_add_source[where B = "finished w"]) (use assms in \<open>auto simp: settled_def\<close>)
  ultimately show ?thesis using assms by (auto simp: settled_def d)
qed

lemma dfs_complete:
  assumes "dfs k x path (v, g) = Some (w, h)" and "nodes g = ns" and "card (unvisited ns v) < k"
    and "settled (reference_edges ns) v" and "Valid h"
  shows "settled (reference_edges ns) w \<and> w x = Some Black"
  using assms
proof (induction k arbitrary: x path v g w h)
  case (Suc k)
  let ?E = "reference_edges ns"
  show ?case
  proof (cases "v x")
    case (Some col)
    with Suc.prems show ?thesis by (cases col) auto
  next
    case None
    then have nd: "x \<notin> finished v" by (simp add: finished_def)
    show ?thesis
    proof (cases "map_of ns x")
      case nn: None
      then have "?E `` {x} = {}" by (auto simp: reference_edges_def)
      moreover have "w = v(x \<mapsto> Black)" using None nn Suc.prems by auto
      ultimately show ?thesis using settled_finish[OF Suc.prems(4) _ nd] by (simp del: fun_upd_apply) simp
    next
      case (Some node)
      let ?visit = "\<lambda>ref. dfs k ref (path @ [x])" and ?v = "v(x \<mapsto> Grey)"
      from None Some Suc.prems obtain w1 where r: "dfs_refs ?visit (References node) (?v, g) = Some (w1, h)" "w = w1(x \<mapsto> Black)"
        by (auto split: option.splits)
      have "finished ?v = finished v" using None by (auto simp: finished_def)
      then have sv: "settled ?E ?v" using Suc.prems(4) by (simp add: settled_def)
      have "x \<in> unvisited ns v" using None Some by (force simp: unvisited_def dest: map_of_SomeD)
      moreover have "unvisited ns ?v = unvisited ns v - {x}" by (auto simp: unvisited_def)
      ultimately have c: "card (unvisited ns ?v) < k"
        using Suc.prems(3) card_Suc_Diff1[OF finite_unvisited, of x ns v] by simp
      have "settled ?E w' \<and> set refs \<subseteq> finished w' \<and> extends u w'" if "dfs_refs ?visit refs (u, g') = Some (w', h)"
        "nodes g' = ns" "extends ?v u" "settled ?E u" for refs u g' w'
        using that
      proof (induction refs arbitrary: u g')
        case (Cons ref refs)
        from extends_unvisited[OF Cons.prems(3), of ns] have cu: "card (unvisited ns u) < k"
          using card_mono[OF finite_unvisited] c by (meson le_less_trans)
        obtain u' h' where v: "?visit ref (u, g') = Some (u', h')" "same_content g' h'" "extends u u'"
          using dfs_visits[of ns k "path @ [x]"] Cons.prems(2) cu unfolding visits_def by blast
        have rest: "dfs_refs ?visit refs (u', h') = Some (w', h)" using Cons.prems(1) v(1) by simp
        have "\<And>x' v g w h. dfs k x' (path @ [x]) (v, g) = Some (w, h) \<Longrightarrow> Valid h \<Longrightarrow> Valid g" by (rule dfs_valid)
        from dfs_refs_valid[where visit = ?visit, OF this rest Suc.prems(5)] have "Valid h'" .
        from Suc.IH[OF v(1) Cons.prems(2) cu Cons.prems(4) this] have s: "settled ?E u'" "u' ref = Some Black" by simp_all
        have "nodes h' = ns" using v(2) Cons.prems(2) by (simp add: same_content_def)
        from Cons.IH[OF rest this extends_trans[OF Cons.prems(3) v(3)] s(1)]
        have "settled ?E w' \<and> set refs \<subseteq> finished w' \<and> extends u' w'" .
        moreover from this have "w' ref = Some Black" using s(2) by (simp add: extends_def)
        ultimately show ?case using extends_trans[OF v(3)] by (simp add: finished_def)
      qed auto
      from this[OF r(1) Suc.prems(2) extends_refl sv]
      have f: "settled ?E w1" "set (References node) \<subseteq> finished w1" "extends ?v w1" by simp_all
      have "?E `` {x} = set (References node)" using Some by (auto simp: reference_edges_def)
      moreover have "w1 x = Some Grey" using conjunct1[OF f(3)[unfolded extends_def], THEN spec, of x] by simp
      then have "x \<notin> finished w1" by (simp add: finished_def)
      ultimately have "settled ?E (w1(x \<mapsto> Black))" using settled_finish[of ?E w1 x] f by blast
      then show ?thesis unfolding r(2) by (intro conjI fun_upd_same)
    qed
  qed
qed simp

section \<open>The whole search\<close>

lemma dfs_all_exact:
  assumes "nodes g = ns" and "card (unvisited ns v) < depth" and "settled (reference_edges ns) v"
    and "\<forall>x. v x \<noteq> Some Grey" and "dfs_all depth order (v, g) = Some (w, h)"
  shows "(Valid h \<longrightarrow> Valid g \<and> settled (reference_edges ns) w) \<and> (Valid g \<longrightarrow> \<not> Valid h \<longrightarrow> \<not> acyclic (reference_edges ns))"
  using assms
proof (induction order arbitrary: v g)
  case (Cons x order)
  let ?E = "reference_edges ns"
  show ?case
  proof (cases "v x")
    case (Some c)
    then show ?thesis using Cons by simp
  next
    case None
    obtain u h' where d: "dfs depth x [] (v, g) = Some (u, h')" "same_content g h'" "extends v u"
      using dfs_visits[of ns depth "[]"] Cons.prems(1,2) unfolding visits_def by blast
    have rest: "dfs_all depth order (u, h') = Some (w, h)" using Cons.prems(5) None d(1) by simp
    have n: "nodes h' = ns" using d(2) Cons.prems(1) by (simp add: same_content_def)
    have c: "card (unvisited ns u) < depth"
      using card_mono[OF finite_unvisited extends_unvisited[OF d(3)], of ns] Cons.prems(2) by linarith
    have grey: "\<forall>x. u x \<noteq> Some Grey" using Cons.prems(4) d(3) by (simp add: extends_def)
    have mono: "Valid h \<Longrightarrow> Valid h'" if "dfs_all depth ord (z, h') = Some (w, h)" for ord z h'
      using that
    proof (induction ord arbitrary: z h')
      case (Cons y ord)
      then show ?case using dfs_valid by (auto split: option.splits)
    qed simp
    show ?thesis
    proof (cases "Valid h'")
      case True
      have s: "settled ?E u" using dfs_complete[OF d(1) Cons.prems(1,2,3) True] by simp
      show ?thesis using Cons.IH[OF n c s grey rest] dfs_valid[OF d(1)] True by blast
    next
      case False
      have "open_reach ?E v x" using Cons.prems(4) by (simp add: open_reach_def)
      then have "Valid g \<Longrightarrow> \<not> acyclic ?E" using dfs_sound[OF d(1) Cons.prems(1) _ Cons.prems(2) _ False] by blast
      then show ?thesis using mono[OF rest] False by blast
    qed
  qed
qed auto

lemma DetectCycles_exact:
  assumes "length (nodes g) < depth" and "fst ` set (nodes g) \<subseteq> set order"
  shows "\<exists>h. DetectCycles depth order g = Some h \<and> same_content g h \<and>
    (Valid h \<longleftrightarrow> Valid g \<and> acyclic (reference_edges (nodes g)))"
proof -
  let ?E = "reference_edges (nodes g)"
  have c: "card (unvisited (nodes g) Map.empty) < depth" using unvisited_bound[of "nodes g" Map.empty] assms(1) by linarith
  from dfs_all_returns[OF refl this, of order] obtain w h where w: "dfs_all depth order (Map.empty, g) = Some (w, h)"
    "same_content g h" "extends Map.empty w" "\<forall>x\<in>set order. w x \<noteq> None" by blast
  have "settled ?E Map.empty" by (simp add: settled_def finished_def acyclic_def)
  note ex = dfs_all_exact[OF refl c this _ w(1)]
  have "w x = Some Black" if "x \<in> fst ` set (nodes g)" for x
  proof -
    have "x \<in> set order" using that assms(2) by blast
    then obtain c where c: "w x = Some c" using w(4) by auto
    moreover have "w x \<noteq> Some Grey" using w(3) by (simp add: extends_def)
    ultimately show ?thesis by (cases c) simp_all
  qed
  then have "{(a, b) \<in> ?E. a \<in> finished w} = ?E" by (force simp: reference_edges_def finished_def dest: map_of_SomeD)
  then have "settled ?E w \<Longrightarrow> acyclic ?E" by (simp add: settled_def)
  with ex w(1,2) show ?thesis by (auto simp: DetectCycles_def)
qed

section \<open>Depth\<close>

lemma dfs_refs_more:
  assumes "\<And>x st r. visit x st = Some r \<Longrightarrow> visit' x st = Some r"
  shows "dfs_refs visit refs st = Some r \<Longrightarrow> dfs_refs visit' refs st = Some r"
proof (induction refs arbitrary: st)
  case (Cons x refs)
  then show ?case using assms by (auto split: option.splits)
qed simp

lemma dfs_more: "dfs k x path st = Some r \<Longrightarrow> k \<le> k' \<Longrightarrow> dfs k' x path st = Some r"
proof (induction k arbitrary: x path st r k')
  case (Suc k)
  obtain k1 where k': "k' = Suc k1" "k \<le> k1" using Suc.prems(2) by (cases k') auto
  obtain v g where st: "st = (v, g)" by (cases st)
  have more: "dfs_refs (\<lambda>ref. dfs k1 ref p) refs s = Some q" if "dfs_refs (\<lambda>ref. dfs k ref p) refs s = Some q" for p refs s q
    by (rule dfs_refs_more[OF _ that]) (rule Suc.IH[OF _ k'(2)])
  show ?case
  proof (cases "v x")
    case (Some col)
    then show ?thesis using Suc.prems(1) unfolding st k'(1) by (cases col; cases r) auto
  next
    case None
    show ?thesis
    proof (cases "map_of (nodes g) x")
      case nn: None
      with None Suc.prems(1) st k' show ?thesis by simp
    next
      case (Some node)
      with None Suc.prems(1) st obtain w h where
        "dfs_refs (\<lambda>ref. dfs k ref (path @ [x])) (References node) (v(x \<mapsto> Grey), g) = Some (w, h)" "r = (w(x \<mapsto> Black), h)"
        by (auto split: option.splits)
      with more[OF this(1)] None Some st k' show ?thesis by simp
    qed
  qed
qed simp

lemma dfs_all_more: "dfs_all k order st = Some r \<Longrightarrow> k \<le> k' \<Longrightarrow> dfs_all k' order st = Some r"
proof (induction k order st rule: dfs_all.induct)
  case (2 k x rest v g)
  show ?case
  proof (cases "v x")
    case None
    with 2 show ?thesis using dfs_more[of k x "[]" "(v, g)" _ k'] by (auto split: option.splits)
  qed (use 2 in auto)
qed simp

text \<open>C30: The cycle search always comes back. On every graph, cyclic or not, and whatever the
  order in which the map is ranged over, the recursion of \<open>DetectCycles\<close> ends within a depth of
  one more than the number of nodes: no larger depth changes its answer, which differs from the
  graph by recorded failures only.\<close>

theorem cycle_search_terminates:
  assumes "NodeCount g < depth"
  shows "\<exists>h. DetectCycles depth order g = Some h \<and> DetectCycles (Suc (NodeCount g)) order g = Some h \<and> same_content g h"
proof -
  obtain h where h: "DetectCycles (Suc (NodeCount g)) order g = Some h" "same_content g h"
    using DetectCycles_returns[of g "Suc (NodeCount g)" order] by (auto simp: NodeCount_def)
  then have "DetectCycles depth order g = Some h"
    using dfs_all_more[of "Suc (NodeCount g)" order "(Map.empty, g)" _ depth] assms by (auto simp: DetectCycles_def)
  with h show ?thesis by blast
qed

text \<open>C29: The cycle search is exact. Whatever the order in which the map is ranged over, a graph
  that was valid stays valid under \<open>DetectCycles\<close> exactly when its references have no cycle:
  every cycle is found, self-references and cycles through several nodes alike, and nodes that
  are merely reached along several paths are never reported.\<close>

theorem cycle_search_exact:
  assumes "NodeCount g < depth" and "set order = fst ` set (nodes g)" and "DetectCycles depth order g = Some h"
  shows "Valid h \<longleftrightarrow> Valid g \<and> acyclic (reference_edges (nodes g))"
  using DetectCycles_exact[of g depth order] assms by (auto simp: NodeCount_def)

section \<open>A concrete graph\<close>

definition plain_node :: "string \<Rightarrow> string list \<Rightarrow> EvidenceNode" where
  "plain_node i refs = \<lparr>ArtifactID = i, NodeType = ''audit-record'', SHA256 = ''d'', MediaType = [], SchemaRef = [],
     ProducerIdentity = ''p'', ProducedAt = 5, ScopeID = ''s'', SourceAdmissionID = [], NodeRunID = [], NodeAttemptID = [],
     NodeScenarioID = [], NodeTransactionID = [], NodeStatus = Unverified, VerifierID = [], VerifierVersion = [],
     VerifiedAt = 0, BundlePath = [], Encryption = None, CanonicalBytes = [], References = refs\<rparr>"

lemma plain_node_simps [simp]: "ArtifactID (plain_node i refs) = i" "References (plain_node i refs) = refs"
  by (simp_all add: plain_node_def)

text \<open>Two references to one node, and two nodes that refer to each other.\<close>

definition diamond_graph :: EvidenceGraph where
  "diamond_graph = (NewEvidenceGraph 0 [])\<lparr>nodes := [(''a'', plain_node ''a'' [''b'', ''c'']), (''b'', plain_node ''b'' [''c'']),
     (''c'', plain_node ''c'' [])]\<rparr>"

definition loop_graph :: EvidenceGraph where
  "loop_graph = (NewEvidenceGraph 0 [])\<lparr>nodes := [(''a'', plain_node ''a'' [''b'']), (''b'', plain_node ''b'' [''a''])]\<rparr>"

lemma sample_runs:
  "DetectCycles 4 [''c'', ''a'', ''b''] diamond_graph = Some diamond_graph"
  "\<exists>h. DetectCycles 3 [''a'', ''b''] loop_graph = Some h \<and> \<not> Valid h"
  by (simp_all add: DetectCycles_def diamond_graph_def loop_graph_def NewEvidenceGraph_def plain_node_def numeral_eq_Suc)

theorem cycle_search_terminates_witness:
  "\<exists>h. DetectCycles 9 [''b'', ''a''] loop_graph = Some h \<and> DetectCycles 3 [''b'', ''a''] loop_graph = Some h"
  using cycle_search_terminates[of loop_graph 9 "[''b'', ''a'']"]
  by (auto simp: NodeCount_def loop_graph_def numeral_eq_Suc)

theorem cycle_search_exact_witness:
  "acyclic (reference_edges (nodes diamond_graph)) \<and> \<not> acyclic (reference_edges (nodes loop_graph))"
proof -
  obtain h where h: "DetectCycles 3 [''a'', ''b''] loop_graph = Some h" "\<not> Valid h" using sample_runs(2) by blast
  have v: "Valid diamond_graph" "Valid loop_graph" by (simp_all add: Valid_def diamond_graph_def loop_graph_def NewEvidenceGraph_def)
  have "acyclic (reference_edges (nodes diamond_graph))"
    using cycle_search_exact[OF _ _ sample_runs(1)] v(1) by (auto simp: NodeCount_def diamond_graph_def)
  moreover have "\<not> acyclic (reference_edges (nodes loop_graph))"
    using cycle_search_exact[OF _ _ h(1)] h(2) v(2) by (auto simp: NodeCount_def loop_graph_def)
  ultimately show ?thesis ..
qed

end
