(* ===== verification/Evidence_Report.thy ===== *)
theory Evidence_Report
  imports Evidence_Cycles "HOL-Library.Multiset"
begin

text \<open>
  The graph as importers build it, and what a valid report means: the invariant of \<open>AddNode\<close>, the
  exact meaning of \<open>ValidateAll\<close>, and of the report of \<open>BuildAndValidateGraph\<close> over the nodes
  that the importers delivered.
\<close>

section \<open>The state invariant\<close>

text \<open>Every entry is stored under its own id, at most once, passed the checks on its own, and is
  listed once under its scope and once under its type.\<close>

definition graph_inv :: "EvidenceGraph \<Rightarrow> bool" where
  "graph_inv g \<longleftrightarrow> distinct (map fst (nodes g)) \<and>
     (\<forall>(i, n)\<in>set (nodes g). i = ArtifactID n \<and> node_failure g n = None) \<and>
     (\<forall>s. byScope g s = filter (\<lambda>n. ScopeID n = s) (rev (map snd (nodes g)))) \<and>
     (\<forall>t. byType g t = filter (\<lambda>n. NodeType n = t) (rev (map snd (nodes g))))"

lemma node_failure_cong: "maxBytes h = maxBytes g \<Longrightarrow> allowedMediaTypes h = allowedMediaTypes g \<Longrightarrow> node_failure h = node_failure g"
  by (simp add: fun_eq_iff node_failure_def)

lemma graph_inv_new: "graph_inv (NewEvidenceGraph m ts)"
  by (simp add: graph_inv_def NewEvidenceGraph_def)

lemma graph_inv_content: "same_content g h \<Longrightarrow> graph_inv h = graph_inv g"
  using node_failure_cong[of h g] by (simp add: graph_inv_def same_content_def)

text \<open>The three outcomes of \<open>AddNode\<close>.\<close>

lemma AddNode_cases:
  obtains (refused) err h where "AddNode n g = (Inl err, h)" "same_content g h" "\<not> Valid h"
      "node_failure g n \<noteq> None \<or> (\<exists>m. map_of (nodes g) (ArtifactID n) = Some m \<and> (SHA256 m \<noteq> SHA256 n \<or> \<not> sameScopeBinding m n))"
  | (known) m where "AddNode n g = (Inr (), g)" "map_of (nodes g) (ArtifactID n) = Some m" "SHA256 m = SHA256 n"
      "sameScopeBinding m n" "node_failure g n = None"
  | (fresh) h where "AddNode n g = (Inr (), h)" "map_of (nodes g) (ArtifactID n) = None" "node_failure g n = None"
      "nodes h = (ArtifactID n, n) # nodes g" "failures h = failures g" "maxBytes h = maxBytes g"
      "allowedMediaTypes h = allowedMediaTypes g"
      "byScope h = (byScope g)(ScopeID n := byScope g (ScopeID n) @ [n])"
      "byType h = (byType g)(NodeType n := byType g (NodeType n) @ [n])"
proof (cases "node_failure g n")
  case (Some f)
  obtain err subject reason where "f = (err, subject, reason)" by (cases f)
  with Some show thesis by (intro refused[of err "recordFailure err subject (reason, []) g"]) (simp_all add: AddNode_def)
next
  case ok: None
  show thesis
  proof (cases "map_of (nodes g) (ArtifactID n)")
    case None
    with ok show thesis by (intro fresh[of "snd (AddNode n g)"]) (simp_all add: AddNode_def)
  next
    case (Some m)
    show thesis
    proof (cases "SHA256 m = SHA256 n \<and> sameScopeBinding m n")
      case True
      with ok Some show thesis by (intro known[of m]) (simp_all add: AddNode_def)
    next
      case False
      then obtain err reason where "AddNode n g = (Inl err, recordFailure err (ArtifactID n) (reason, []) g)"
        using ok Some by (cases "SHA256 m = SHA256 n") (simp_all add: AddNode_def Let_def)
      with False Some show thesis by (intro refused) auto
    qed
  qed
qed

lemma AddNode_inv:
  assumes "graph_inv g" shows "graph_inv (snd (AddNode n g))"
proof (cases rule: AddNode_cases[of n g])
  case (refused err h)
  then show ?thesis using assms graph_inv_content by simp
next
  case (known m)
  then show ?thesis using assms by simp
next
  case (fresh h)
  have "ArtifactID n \<notin> fst ` set (nodes g)" using fresh(2) by (simp add: map_of_eq_None_iff)
  moreover have "node_failure h = node_failure g" using fresh by (intro node_failure_cong)
  ultimately show ?thesis using assms fresh by (auto simp: graph_inv_def)
qed

section \<open>Imported nodes\<close>

text \<open>Two deliveries of one artifact must agree on digest and binding.\<close>

definition mirrored :: "EvidenceNode \<Rightarrow> EvidenceNode \<Rightarrow> bool" where
  "mirrored m n \<longleftrightarrow> ArtifactID m = ArtifactID n \<longrightarrow> SHA256 m = SHA256 n \<and> sameScopeBinding m n"

fun first_deliveries :: "EvidenceNode list \<Rightarrow> EvidenceNode list \<Rightarrow> EvidenceNode list" where
  "first_deliveries kept [] = kept"
| "first_deliveries kept (n # ns) =
     first_deliveries (if ArtifactID n \<in> ArtifactID ` set kept then kept else n # kept) ns"

abbreviation entries :: "EvidenceNode list \<Rightarrow> (string \<times> EvidenceNode) list" where
  "entries ns \<equiv> map (\<lambda>n. (ArtifactID n, n)) ns"

abbreviation add_all :: "EvidenceNode list \<Rightarrow> EvidenceGraph \<Rightarrow> EvidenceGraph" where
  "add_all ns g \<equiv> foldl (\<lambda>g n. snd (AddNode n g)) g ns"

lemma add_all_invalid: "\<not> Valid g \<Longrightarrow> \<not> Valid (add_all ns g)"
proof (induction ns arbitrary: g)
  case (Cons n ns)
  have "\<not> Valid (snd (AddNode n g))" by (cases rule: AddNode_cases[of n g]) (use Cons.prems in \<open>auto simp: Valid_def\<close>)
  then show ?case using Cons.IH by simp
qed simp

lemma add_all_inv: "graph_inv g \<Longrightarrow> graph_inv (add_all ns g)"
  by (induction ns arbitrary: g) (auto intro: AddNode_inv)

lemma map_of_entries: "map_of (entries ns) i = Some n \<Longrightarrow> n \<in> set ns \<and> ArtifactID n = i"
  by (auto dest!: map_of_SomeD)

lemma entries_None: "map_of (entries ns) i = None \<longleftrightarrow> i \<notin> ArtifactID ` set ns"
  by (auto simp: map_of_eq_None_iff image_image)

definition agree_with :: "EvidenceNode list \<Rightarrow> EvidenceNode list \<Rightarrow> bool" where
  "agree_with kept ns \<longleftrightarrow> (\<forall>m\<in>set kept \<union> set ns. \<forall>n\<in>set ns. mirrored m n)"

lemma mirrored_facts: "mirrored n n" "mirrored m n = mirrored n m"
  "ArtifactID k = ArtifactID m \<Longrightarrow> mirrored k m \<Longrightarrow> mirrored k n = mirrored m n"
  by (auto simp: mirrored_def sameScopeBinding_def)

lemma agree_with_Cons:
  "agree_with kept (n # ns) \<longleftrightarrow> (\<forall>a\<in>set kept. mirrored a n) \<and> agree_with (n # kept) ns"
proof -
  have sym: "mirrored a n" if "\<forall>b\<in>set ns. mirrored n b" "a \<in> set ns" for a using that mirrored_facts(2) by blast
  show ?thesis unfolding agree_with_def using sym mirrored_facts(1) by auto
qed

lemma add_all_exact:
  assumes "nodes g = entries kept" and "distinct (map ArtifactID kept)"
  shows "Valid (add_all ns g) \<longleftrightarrow> Valid g \<and> (\<forall>n\<in>set ns. node_failure g n = None) \<and> agree_with kept ns"
    and "Valid (add_all ns g) \<Longrightarrow> nodes (add_all ns g) = entries (first_deliveries kept ns)"
proof -
  have "(Valid (add_all ns g) \<longleftrightarrow> Valid g \<and> (\<forall>n\<in>set ns. node_failure g n = None) \<and> agree_with kept ns) \<and>
      (Valid (add_all ns g) \<longrightarrow> nodes (add_all ns g) = entries (first_deliveries kept ns))"
    using assms
  proof (induction ns arbitrary: g kept)
    case Nil
    then show ?case by (simp add: agree_with_def)
  next
    case (Cons n ns)
    show ?case
    proof (cases rule: AddNode_cases[of n g])
      case (refused err h)
      then have "\<not> Valid (add_all (n # ns) g)" using add_all_invalid[of h ns] by simp
      moreover have "\<not> mirrored m n" "m \<in> set kept"
        if "map_of (nodes g) (ArtifactID n) = Some m" "SHA256 m \<noteq> SHA256 n \<or> \<not> sameScopeBinding m n" for m
        using map_of_entries[of kept "ArtifactID n" m] that Cons.prems by (auto simp: mirrored_def)
      then have "node_failure g n \<noteq> None \<or> \<not> agree_with kept (n # ns)"
        using refused(4) unfolding agree_with_def by (metis UnCI list.set_intros(1))
      ultimately show ?thesis by auto
    next
      case (known m)
      have m: "m \<in> set kept" "ArtifactID m = ArtifactID n"
        using map_of_entries[of kept "ArtifactID n" m] known(2) Cons.prems by auto
      have mn: "mirrored m n" using known by (simp add: mirrored_def)
      have "a = m" if "a \<in> set kept" "ArtifactID a = ArtifactID n" for a
        using that m Cons.prems(2) by (metis distinct_map inj_onD)
      then have "\<forall>a\<in>set kept. mirrored a n" using mn by (auto simp: mirrored_def)
      moreover have "agree_with (n # kept) ns \<longleftrightarrow> agree_with kept ns"
        unfolding agree_with_def using m mirrored_facts(3)[OF m(2) mn] by auto
      ultimately have "agree_with kept (n # ns) \<longleftrightarrow> agree_with kept ns" unfolding agree_with_Cons by blast
      moreover have "ArtifactID n \<in> ArtifactID ` set kept" using m by (metis imageI)
      ultimately show ?thesis using known Cons.IH[of g kept] Cons.prems by simp
    next
      case (fresh h)
      have k: "ArtifactID n \<notin> ArtifactID ` set kept" using fresh(2) Cons.prems entries_None by simp
      have "node_failure h = node_failure g" using fresh by (intro node_failure_cong)
      moreover have "Valid h = Valid g" using fresh by (simp add: Valid_def)
      moreover have "ArtifactID a \<noteq> ArtifactID n" if "a \<in> set kept" for a using k that by (metis imageI)
      then have "\<forall>a\<in>set kept. mirrored a n" by (simp add: mirrored_def)
      then have "agree_with kept (n # ns) \<longleftrightarrow> agree_with (n # kept) ns" unfolding agree_with_Cons by blast
      ultimately show ?thesis using fresh k Cons.IH[of h "n # kept"] Cons.prems by simp
    qed
  qed
  then show "Valid (add_all ns g) \<longleftrightarrow> Valid g \<and> (\<forall>n\<in>set ns. node_failure g n = None) \<and> agree_with kept ns"
    and "Valid (add_all ns g) \<Longrightarrow> nodes (add_all ns g) = entries (first_deliveries kept ns)" by blast+
qed

section \<open>The whole validation\<close>

definition permutes :: "range_order \<Rightarrow> bool" where
  "permutes ord \<longleftrightarrow> (\<forall>k es. mset (ord k es) = mset es)"

definition sound_nodes :: "crypto \<Rightarrow> EvidenceNode list \<Rightarrow> bool" where
  "sound_nodes C ns \<longleftrightarrow>
     (\<forall>n\<in>set ns. CanonicalBytes n \<noteq> [] \<longrightarrow> sha256_hex C (CanonicalBytes n) = SHA256 n) \<and>
     scope_consistent (set ns) \<and>
     (\<forall>n\<in>set ns. set (References n) \<subseteq> ArtifactID ` set ns) \<and>
     acyclic {(ArtifactID n, ref) | n ref. n \<in> set ns \<and> ref \<in> set (References n)} \<and>
     (\<forall>n\<in>set ns. ProducerIdentity n \<noteq> [] \<and> (NodeStatus n = Verified \<longrightarrow> VerifierID n \<noteq> [] \<and> VerifierVersion n \<noteq> [])) \<and>
     (\<forall>n\<in>set ns. \<forall>em. Encryption n = Some em \<longrightarrow> \<not> encryption_incomplete em)"

lemma permutes_set: "permutes ord \<Longrightarrow> set (ord k es) = set es"
  by (metis permutes_def set_mset_mset)

lemma same_nodes: "same_content g h \<Longrightarrow> nodes h = nodes g"
  by (simp add: same_content_def)

lemma entries_edges:
  assumes "distinct (map ArtifactID ns)"
  shows "reference_edges (entries ns) = {(ArtifactID n, ref) | n ref. n \<in> set ns \<and> ref \<in> set (References n)}"
proof -
  have "distinct (map fst (entries ns))" using assms by (simp add: comp_def)
  from map_of_eq_Some_iff[OF this] show ?thesis by (auto simp: reference_edges_def)
qed

lemma ValidateAll_exact:
  assumes "permutes ord" and "nodes g = entries ns" and "distinct (map ArtifactID ns)" and "length ns < depth"
  shows "\<exists>h. ValidateAll C ord w0 w1 depth g = Some h \<and> same_content g h \<and> (Valid h \<longleftrightarrow> Valid g \<and> sound_nodes C ns)"
proof -
  let ?v = "\<lambda>k. map snd (ord k (nodes g))"
  have v: "set (?v k) = set ns" for k by (simp add: permutes_set[OF assms(1)] assms(2) image_image)
  let ?g1 = "VerifyDigests C (?v 0) g"
  have s1: "same_content g ?g1" unfolding VerifyDigests_def by (rule digests.loop_keeps)
  have e1: "Valid ?g1 \<longleftrightarrow> Valid g \<and> (\<forall>n\<in>set ns. CanonicalBytes n \<noteq> [] \<longrightarrow> sha256_hex C (CanonicalBytes n) = SHA256 n)"
    unfolding VerifyDigests_def digests.loop_exact v by blast
  let ?g2 = "ValidateScopeBinding (?v 1) ?g1"
  note e2 = ValidateScopeBinding_exact[where order = "?v 1" and g = ?g1, unfolded v]
  let ?g3 = "ResolveReferences (?v 2) ?g2"
  have s3: "same_content ?g2 ?g3" unfolding ResolveReferences_def by (rule refs.loop_keeps)
  have n2: "nodes ?g2 = entries ns" using same_nodes[OF same_content_trans[OF s1 e2(2)]] assms(2) by simp
  have e3: "Valid ?g3 \<longleftrightarrow> Valid ?g2 \<and> (\<forall>n\<in>set ns. set (References n) \<subseteq> ArtifactID ` set ns)"
    unfolding ResolveReferences_def refs.loop_exact v n2 entries_None by blast
  have n3: "nodes ?g3 = entries ns" using same_nodes[OF s3] n2 by simp
  have o: "fst ` set (nodes ?g3) \<subseteq> set (map fst (ord 3 (nodes g)))"
    unfolding trans[OF n3 assms(2)[symmetric]] set_map permutes_set[OF assms(1)] by (rule subset_refl)
  have d: "length (nodes ?g3) < depth" using n3 assms(4) by simp
  from DetectCycles_exact[OF d o] obtain g4 where c: "DetectCycles depth (map fst (ord 3 (nodes g))) ?g3 = Some g4"
    "same_content ?g3 g4" "Valid g4 \<longleftrightarrow> Valid ?g3 \<and> acyclic (reference_edges (nodes ?g3))" by blast
  let ?g5 = "ValidateTrust (?v 4) g4"
  let ?g6 = "ValidateEncryption (?v 5) ?g5"
  let ?g7 = "ValidateFreshness w0 w1 (?v 6) ?g6"
  have s5: "same_content g4 ?g5" unfolding ValidateTrust_def by (rule trust.loop_keeps)
  have e5: "Valid ?g5 \<longleftrightarrow> Valid g4 \<and> (\<forall>n\<in>set ns. ProducerIdentity n \<noteq> [] \<and>
      (NodeStatus n = Verified \<longrightarrow> VerifierID n \<noteq> [] \<and> VerifierVersion n \<noteq> []))"
    unfolding ValidateTrust_def trust.loop_exact v by blast
  have s6: "same_content ?g5 ?g6" unfolding ValidateEncryption_def by (rule encryption.loop_keeps)
  have e6: "Valid ?g6 \<longleftrightarrow> Valid ?g5 \<and> (\<forall>n\<in>set ns. \<forall>em. Encryption n = Some em \<longrightarrow> \<not> encryption_incomplete em)"
    unfolding ValidateEncryption_def encryption.loop_exact v by blast
  have s7: "same_content ?g6 ?g7" unfolding ValidateFreshness_def by (rule freshness.loop_keeps)
  have e7: "Valid ?g7 \<longleftrightarrow> Valid ?g6" unfolding ValidateFreshness_def freshness.loop_exact by blast
  have "same_content g ?g7"
    using s1 e2(2) s3 c(2) s5 s6 s7 by (meson same_content_trans)
  moreover have "Valid ?g7 \<longleftrightarrow> Valid g \<and> sound_nodes C ns"
    unfolding e7 e6 e5 c(3) n3 entries_edges[OF assms(3)] e3 e2(1) e1 sound_nodes_def by blast
  moreover have "ValidateAll C ord w0 w1 depth g = Some ?g7" using c(1) by (simp add: ValidateAll_def Let_def)
  ultimately show ?thesis by blast
qed

section \<open>Reports\<close>

definition imported :: "EvidenceImporter option list \<Rightarrow> EvidenceNode list" where
  "imported ims = concat (map (\<lambda>im. case im of None \<Rightarrow> [] | Some i \<Rightarrow> (case imImport i of Inl _ \<Rightarrow> [] | Inr ns \<Rightarrow> ns)) ims)"

definition import_failed :: "EvidenceImporter option \<Rightarrow> bool" where
  "import_failed im \<longleftrightarrow> (\<exists>i err. im = Some i \<and> imImport i = Inl err)"

lemma import_loop:
  "\<exists>more. foldl (import_step sh) (g, errs) ims = (add_all (imported ims) g, errs @ more) \<and>
     (more = [] \<longleftrightarrow> (\<forall>im\<in>set ims. \<not> import_failed im))"
proof (induction ims arbitrary: g errs)
  case (Cons im ims)
  show ?case
  proof (cases "import_failed im")
    case True
    then obtain i err where "im = Some i" "imImport i = Inl err" by (auto simp: import_failed_def)
    with True Cons.IH[of g "errs @ [_]"] show ?thesis by (simp add: import_step_def imported_def) blast
  next
    case False
    then have "import_step sh (g, errs) im =
        (add_all (case im of None \<Rightarrow> [] | Some i \<Rightarrow> (case imImport i of Inl _ \<Rightarrow> [] | Inr ns \<Rightarrow> ns)) g, errs)"
      by (auto simp: import_step_def import_failed_def split: option.splits sum.splits)
    with False Cons.IH show ?thesis by (simp add: imported_def)
  qed
qed (simp add: imported_def)

text \<open>What \<open>AddNode\<close> asks of a node in a graph with the size limit of a report.\<close>

definition admissible :: "EvidenceNode \<Rightarrow> bool" where
  "admissible n \<longleftrightarrow> ArtifactID n \<noteq> [] \<and> SHA256 n \<noteq> [] \<and> ScopeID n \<noteq> [] \<and>
     length (CanonicalBytes n) \<le> 64 * 2 ^ 20 \<and> (BundlePath n = [] \<or> ValidRelativePath (BundlePath n))"

lemma admissible_iff: "node_failure (NewEvidenceGraph EvidenceGraphMaxBytes []) n = None \<longleftrightarrow> admissible n"
  by (auto simp: node_failure_def NewEvidenceGraph_def EvidenceGraphMaxBytes_def admissible_def validBundlePath_def)

lemma first_deliveries_facts:
  "distinct (map ArtifactID kept) \<Longrightarrow> distinct (map ArtifactID (first_deliveries kept ns))"
  "length (first_deliveries kept ns) \<le> length kept + length ns"
  "set (first_deliveries kept ns) \<subseteq> set kept \<union> set ns"
  by (induction kept ns rule: first_deliveries.induct) (auto split: if_splits)

lemma add_all_length: "length (nodes (add_all ns g)) \<le> length (nodes g) + length ns"
proof (induction ns arbitrary: g)
  case (Cons n ns)
  have "length (nodes (snd (AddNode n g))) \<le> Suc (length (nodes g))"
    by (cases rule: AddNode_cases[of n g]) (auto simp: same_content_def)
  with Cons[of "snd (AddNode n g)"] show ?case by simp
qed simp

lemma inv_entries: "graph_inv g \<Longrightarrow> nodes g = entries (map snd (nodes g)) \<and> distinct (map ArtifactID (map snd (nodes g)))"
proof -
  assume i: "graph_inv g"
  have e: "fst e = ArtifactID (snd e)" if "e \<in> set (nodes g)" for e using i that by (force simp: graph_inv_def)
  have "entries (map snd (nodes g)) = nodes g" unfolding map_map by (rule map_idI) (simp add: e[symmetric])
  moreover have "map ArtifactID (map snd (nodes g)) = map fst (nodes g)"
    unfolding map_map by (rule map_cong[OF refl]) (simp add: e)
  moreover have "distinct (map fst (nodes g))" using i by (simp add: graph_inv_def)
  ultimately show ?thesis by (simp only: simp_thms)
qed

lemma report_exact:
  assumes "permutes ord" and "length (imported ims) < depth"
  shows "\<exists>g r. BuildAndValidateGraph C sh ord depth ims w0 w1 at = Some (g, r) \<and> graph_inv g \<and>
     (grValid r \<longleftrightarrow> (\<forall>im\<in>set ims. \<not> import_failed im) \<and> (\<forall>n\<in>set (imported ims). admissible n) \<and>
        (\<forall>m\<in>set (imported ims). \<forall>n\<in>set (imported ims). mirrored m n) \<and> sound_nodes C (first_deliveries [] (imported ims))) \<and>
     (grValid r \<longrightarrow> nodes g = entries (first_deliveries [] (imported ims)))"
proof -
  let ?new = "NewEvidenceGraph EvidenceGraphMaxBytes []" and ?ns = "imported ims"
  let ?built = "add_all ?ns ?new"
  obtain errs where f: "foldl (import_step sh) (?new, []) ims = (?built, errs)" "errs = [] \<longleftrightarrow> (\<forall>im\<in>set ims. \<not> import_failed im)"
    using import_loop[of sh ?new "[]" ims] by auto
  have n0: "nodes ?new = entries []" "distinct (map ArtifactID [])" "Valid ?new" by (simp_all add: NewEvidenceGraph_def Valid_def)
  note add = add_all_exact[where ns = ?ns, OF n0(1,2)]
  have inv: "graph_inv ?built" using add_all_inv[OF graph_inv_new] .
  note en = inv_entries[OF inv]
  have len: "length (map snd (nodes ?built)) < depth" using add_all_length[where ns = ?ns and g = ?new] assms(2) by (simp add: n0(1))
  from ValidateAll_exact[OF assms(1) conjunct1[OF en] conjunct2[OF en] len] obtain h where
    h: "ValidateAll C ord w0 w1 depth ?built = Some h" "same_content ?built h" "Valid h \<longleftrightarrow> Valid ?built \<and> sound_nodes C (map snd (nodes ?built))"
    by blast
  have valid: "Valid ?built \<longleftrightarrow> (\<forall>n\<in>set ?ns. admissible n) \<and> (\<forall>m\<in>set ?ns. \<forall>n\<in>set ?ns. mirrored m n)"
    using add(1) n0(3) by (simp add: admissible_iff agree_with_def)
  have nodes: "map snd (nodes ?built) = first_deliveries [] ?ns" if "Valid ?built" using add(2)[OF that] by (simp add: comp_def)
  have "Valid h \<longleftrightarrow> Valid ?built \<and> sound_nodes C (first_deliveries [] ?ns)" using h(3) nodes by auto
  moreover have "graph_inv h" using inv graph_inv_content[OF h(2)] by simp
  moreover have "nodes h = entries (first_deliveries [] ?ns)" if "Valid h"
    using that h(3) same_nodes[OF h(2)] add(2) by simp
  ultimately show ?thesis unfolding BuildAndValidateGraph_def f(1) using h(1) valid f(2) by auto
qed

text \<open>C32: The evidence graph keeps its shape. Whatever nodes are added, in whatever order and
  with whatever limits, the graph holds at most one entry per artifact id, under the id it
  carries; every entry passed the checks of its own (ids, digest and scope present, size and
  media type within the limits, bundle path inside the bundle); and the lists by scope and by
  type name exactly these entries, each once, in the order of arrival.\<close>

theorem evidence_graph_well_formed:
  "graph_inv (foldl (\<lambda>g n. snd (AddNode n g)) (NewEvidenceGraph m types) ns)"
  by (rule add_all_inv) (rule graph_inv_new)

text \<open>C28: What a valid evidence report means. For any importers and whatever the order in which
  maps are ranged over, the construction returns (a recursion depth above the number of delivered
  nodes is enough), and the report is valid exactly when no importer failed, every delivered node
  is admissible, deliveries of one artifact agree on digest and binding, and the nodes kept (the
  first delivery of each artifact) have digests that match their bytes, agree on the scope of
  each run, the run of each attempt and the binding of each transaction, refer only to each other
  and without cycles, name a producer, and, where verified or encrypted, carry complete verifier
  or encryption data. The graph of a valid report holds exactly the nodes kept.\<close>

theorem valid_report_exact:
  assumes "permutes ord" and "length (imported importers) < depth"
  shows "\<exists>g r. BuildAndValidateGraph C show_err ord depth importers windowStart windowEnd verifiedAt = Some (g, r) \<and>
     (grValid r \<longleftrightarrow> (\<forall>im\<in>set importers. \<not> import_failed im) \<and> (\<forall>n\<in>set (imported importers). admissible n) \<and>
        (\<forall>m\<in>set (imported importers). \<forall>n\<in>set (imported importers). mirrored m n) \<and>
        sound_nodes C (first_deliveries [] (imported importers))) \<and>
     (grValid r \<longrightarrow> nodes g = entries (first_deliveries [] (imported importers)))"
  using report_exact[OF assms, of C show_err windowStart windowEnd verifiedAt] by blast

text \<open>Two importers that deliver the diamond of the cycle search, one of its nodes twice.\<close>

definition sample_importers :: "EvidenceImporter option list" where
  "sample_importers =
     [Some \<lparr>imSourceID = ''i1'', imRunID = None, imImport = Inr [plain_node ''c'' [], plain_node ''a'' [''b'', ''c'']]\<rparr>, None,
      Some \<lparr>imSourceID = ''i2'', imRunID = None, imImport = Inr [plain_node ''b'' [''c''], plain_node ''c'' []]\<rparr>]"

theorem valid_report_exact_witness:
  "\<exists>g r. BuildAndValidateGraph toy_crypto (\<lambda>_. []) (\<lambda>_. rev) 9 sample_importers 0 0 0 = Some (g, r) \<and> grValid r \<and>
     length (nodes g) = 3"
proof -
  let ?I = "[plain_node ''c'' [], plain_node ''a'' [''b'', ''c''], plain_node ''b'' [''c''], plain_node ''c'' []]"
  let ?K = "[plain_node ''b'' [''c''], plain_node ''a'' [''b'', ''c''], plain_node ''c'' []]"
  have i: "imported sample_importers = ?I" by (simp add: imported_def sample_importers_def)
  have k: "first_deliveries [] ?I = ?K" by (simp add: plain_node_def)
  have "permutes (\<lambda>_. rev)" by (simp add: permutes_def)
  from valid_report_exact[OF this, of sample_importers 9 toy_crypto "\<lambda>_. []" 0 0 0] obtain g r where
    b: "BuildAndValidateGraph toy_crypto (\<lambda>_. []) (\<lambda>_. rev) 9 sample_importers 0 0 0 = Some (g, r)" and
    v: "grValid r \<longleftrightarrow> (\<forall>im\<in>set sample_importers. \<not> import_failed im) \<and> (\<forall>n\<in>set ?I. admissible n) \<and>
        (\<forall>m\<in>set ?I. \<forall>n\<in>set ?I. mirrored m n) \<and> sound_nodes toy_crypto ?K" and
    n: "grValid r \<longrightarrow> nodes g = entries ?K"
    unfolding i k by auto
  have "\<forall>im\<in>set sample_importers. \<not> import_failed im" by (simp add: sample_importers_def import_failed_def)
  moreover have "\<forall>n\<in>set ?I. admissible n" by (simp add: admissible_def plain_node_def)
  moreover have "\<forall>m\<in>set ?I. \<forall>n\<in>set ?I. mirrored m n" by (simp add: mirrored_def sameScopeBinding_def plain_node_def)
  moreover have "sound_nodes toy_crypto ?K"
  proof -
    have "acyclic (reference_edges (nodes diamond_graph))"
      using DetectCycles_exact[of diamond_graph 4 "[''c'', ''a'', ''b'']"] sample_runs(1)
      by (auto simp: diamond_graph_def Valid_def NewEvidenceGraph_def)
    moreover have "reference_edges (nodes diamond_graph) = {(''a'', ''b''), (''a'', ''c''), (''b'', ''c'')}"
      by (auto simp: reference_edges_def diamond_graph_def split: if_splits)
    moreover have "{(ArtifactID n, ref) | n ref. n \<in> set ?K \<and> ref \<in> set (References n)} = {(''a'', ''b''), (''a'', ''c''), (''b'', ''c'')}"
    proof -
      have "{(ArtifactID n, ref) | n ref. n \<in> S \<and> ref \<in> set (References n)} = (\<Union>n\<in>S. {ArtifactID n} \<times> set (References n))" for S
        by blast
      from this[of "set ?K"] show ?thesis by (rule trans) auto
    qed
    ultimately show ?thesis
      by (simp add: sound_nodes_def scope_consistent_def) (simp add: plain_node_def)
  qed
  ultimately have "grValid r" unfolding v by blast
  with b n show ?thesis by auto
qed

end
