(* ===== verification/Key_Wrap.thy ===== *)
theory Key_Wrap
  imports Envelope
begin

text \<open>
  The key material of the vault (\<open>services/vault/vault_crypto.go\<close>): derivation and
  fingerprints of keys, the AES key wrap of RFC 3394, and authenticated encryption. The AES block
  cipher, its GCM mode and HKDF are the record \<open>vault_crypto\<close>; the wrap algorithm over the
  block cipher is the code's own. \<open>AESKeyUnwrap\<close> is exactly the inverse of
  \<open>AESKeyWrap\<close>.
\<close>

unbundle bit_operations_syntax

section \<open>Primitives\<close>

text \<open>\<open>hkdf\<close> reads a number of bytes from the HKDF stream of a secret without salt.\<close>

record vault_crypto =
  hkdf :: "bytes \<Rightarrow> bytes \<Rightarrow> nat \<Rightarrow> bytes"
  aes_Encrypt :: "bytes \<Rightarrow> bytes \<Rightarrow> bytes"
  aes_Decrypt :: "bytes \<Rightarrow> bytes \<Rightarrow> bytes"
  gcm_Seal :: "bytes \<Rightarrow> bytes \<Rightarrow> bytes \<Rightarrow> bytes \<Rightarrow> bytes"
  gcm_Open :: "bytes \<Rightarrow> bytes \<Rightarrow> bytes \<Rightarrow> bytes \<Rightarrow> bytes option"

text \<open>What the code relies on: a block cipher permutes the blocks of 16 bytes under every key, an
  opened seal is the plaintext, and a stream delivers what is read.\<close>

definition block_cipher :: "vault_crypto \<Rightarrow> bool" where
  "block_cipher K \<longleftrightarrow> (\<forall>k b. length b = 16 \<longrightarrow>
     length (aes_Encrypt K k b) = 16 \<and> length (aes_Decrypt K k b) = 16 \<and>
     aes_Decrypt K k (aes_Encrypt K k b) = b \<and> aes_Encrypt K k (aes_Decrypt K k b) = b)"

definition gcm_opens :: "vault_crypto \<Rightarrow> bool" where
  "gcm_opens K \<longleftrightarrow> (\<forall>k n p ad. gcm_Open K k n (gcm_Seal K k n p ad) ad = Some p)"

definition hkdf_delivers :: "vault_crypto \<Rightarrow> bool" where
  "hkdf_delivers K \<longleftrightarrow> (\<forall>s i n. length (hkdf K s i n) = n)"

abbreviation KeySize :: nat where "KeySize \<equiv> 32"
abbreviation NonceSize :: nat where "NonceSize \<equiv> 12"
abbreviation KeyFingerprintSize :: nat where "KeyFingerprintSize \<equiv> 16"

definition HKDFInfo :: string where
  "HKDFInfo = ''g8e-lfaa-kek-v1''"

definition KeyFingerprintPepper :: string where
  "KeyFingerprintPepper = ''g8e-vault-fingerprint-v1''"

definition DeriveKEK :: "vault_crypto \<Rightarrow> bytes \<Rightarrow> bytes result" where
  "DeriveKEK K privateKey =
     (if privateKey = [] then Inl (Sentinel (Vlt ErrVaultPrivateKeyEmpty))
      else Inr (hkdf K privateKey HKDFInfo KeySize))"

text \<open>The random source is an argument: the bytes that were read, or the error.\<close>

definition GenerateDEK :: "bytes result \<Rightarrow> bytes result" where
  "GenerateDEK rnd =
     (case rnd of Inl err \<Rightarrow> Inl (Errorf ''failed to generate random DEK: %w'' [] [err]) | Inr dek \<Rightarrow> Inr dek)"

definition GenerateNonce :: "bytes result \<Rightarrow> bytes result" where
  "GenerateNonce rnd =
     (case rnd of Inl err \<Rightarrow> Inl (Errorf ''failed to generate random nonce: %w'' [] [err]) | Inr nonce \<Rightarrow> Inr nonce)"

definition KeyFingerprint :: "crypto \<Rightarrow> bytes \<Rightarrow> bytes" where
  "KeyFingerprint C key = take KeyFingerprintSize (sha256 C (KeyFingerprintPepper @ key))"

section \<open>Key wrap\<close>

definition default_iv :: bytes where
  "default_iv = be32 0xA6A6A6A6 @ be32 0xA6A6A6A6"

definition xor_byte :: "char \<Rightarrow> nat \<Rightarrow> char" where
  "xor_byte c t = char_of ((of_char c :: nat) XOR (t mod 256))"

text \<open>The loop over the bytes of \<open>a\<close>, from the last to the first, while the counter is not
  used up.\<close>

fun xor_counter :: "nat \<Rightarrow> nat \<Rightarrow> bytes \<Rightarrow> bytes" where
  "xor_counter 0 t a = a"
| "xor_counter (Suc k) t a =
     (if t = 0 then a else xor_counter k (t div 256) (a[k := xor_byte (a ! k) t]))"

definition blocks :: "nat \<Rightarrow> bytes \<Rightarrow> bytes list" where
  "blocks numBlocks s = map (\<lambda>i. take 8 (drop (i * 8) s)) [0..<numBlocks]"

text \<open>The rounds \<open>j = 0..5\<close>, \<open>i = 1..numBlocks\<close>, and one round of each direction.\<close>

definition rounds :: "nat \<Rightarrow> (nat \<times> nat) list" where
  "rounds numBlocks = concat (map (\<lambda>j. map (\<lambda>i. (j, i)) [1..<numBlocks + 1]) [0..<6])"

definition wrap_round :: "vault_crypto \<Rightarrow> bytes \<Rightarrow> nat \<Rightarrow> nat \<times> nat \<Rightarrow> bytes \<times> bytes list \<Rightarrow> bytes \<times> bytes list" where
  "wrap_round K kek numBlocks ji st =
     (case ji of (j, i) \<Rightarrow> case st of (a, r) \<Rightarrow>
        let buf = aes_Encrypt K kek (a @ r ! (i - 1)) in
        (xor_counter 8 (numBlocks * j + i) (take 8 buf), r[i - 1 := drop 8 buf]))"

definition unwrap_round :: "vault_crypto \<Rightarrow> bytes \<Rightarrow> nat \<Rightarrow> nat \<times> nat \<Rightarrow> bytes \<times> bytes list \<Rightarrow> bytes \<times> bytes list" where
  "unwrap_round K kek numBlocks ji st =
     (case ji of (j, i) \<Rightarrow> case st of (a, r) \<Rightarrow>
        let buf = aes_Decrypt K kek (xor_counter 8 (numBlocks * j + i) a @ r ! (i - 1)) in
        (take 8 buf, r[i - 1 := drop 8 buf]))"

definition AESKeyWrap :: "vault_crypto \<Rightarrow> bytes \<Rightarrow> bytes \<Rightarrow> bytes result" where
  "AESKeyWrap K kek plaintext =
     (if length kek \<noteq> 16 \<and> length kek \<noteq> 24 \<and> length kek \<noteq> 32 then Inl (Sentinel (Vlt ErrVaultInvalidKeySize))
      else let n = length plaintext in
        if n < 16 \<or> n mod 8 \<noteq> 0 then Inl (Sentinel (Vlt ErrVaultInvalidPlaintextKey))
        else let numBlocks = n div 8 in
          case fold (wrap_round K kek numBlocks) (rounds numBlocks) (default_iv, blocks numBlocks plaintext) of
            (a, r) \<Rightarrow> Inr (a @ concat r))"

definition AESKeyUnwrap :: "vault_crypto \<Rightarrow> bytes \<Rightarrow> bytes \<Rightarrow> bytes result" where
  "AESKeyUnwrap K kek ciphertext =
     (if length kek \<noteq> 16 \<and> length kek \<noteq> 24 \<and> length kek \<noteq> 32 then Inl (Sentinel (Vlt ErrVaultInvalidKeySize))
      else let n = length ciphertext in
        if n < 24 \<or> n mod 8 \<noteq> 0 then Inl (Sentinel (Vlt ErrVaultInvalidWrappedKey))
        else let numBlocks = n div 8 - 1 in
          case fold (unwrap_round K kek numBlocks) (rev (rounds numBlocks))
                 (take 8 ciphertext, blocks numBlocks (drop 8 ciphertext)) of
            (a, r) \<Rightarrow> if a \<noteq> default_iv then Inl (Sentinel (Vlt ErrVaultKeyUnwrapFailed)) else Inr (concat r))"

section \<open>Authenticated encryption\<close>

definition EncryptAESGCM :: "vault_crypto \<Rightarrow> bytes \<Rightarrow> bytes \<Rightarrow> bytes \<Rightarrow> bytes \<Rightarrow> bytes result" where
  "EncryptAESGCM K key nonce plaintext additionalData =
     (if length key \<noteq> KeySize then Inl (Sentinel (Vlt ErrVaultInvalidKeySize))
      else if length nonce \<noteq> NonceSize then Inl (Sentinel (Vlt ErrVaultInvalidNonceSize))
      else Inr (gcm_Seal K key nonce plaintext additionalData))"

definition DecryptAESGCM :: "vault_crypto \<Rightarrow> bytes \<Rightarrow> bytes \<Rightarrow> bytes \<Rightarrow> bytes \<Rightarrow> bytes result" where
  "DecryptAESGCM K key nonce ciphertext additionalData =
     (if length key \<noteq> KeySize then Inl (Sentinel (Vlt ErrVaultInvalidKeySize))
      else if length nonce \<noteq> NonceSize then Inl (Sentinel (Vlt ErrVaultInvalidNonceSize))
      else case gcm_Open K key nonce ciphertext additionalData of
        None \<Rightarrow> Inl (Sentinel (Vlt ErrVaultDecryptionFailed))
      | Some plaintext \<Rightarrow> Inr plaintext)"

section \<open>The counter\<close>

lemma xor_byte_twice: "xor_byte (xor_byte c t) t = c"
proof -
  define b where "b = t mod 256"
  have "take_bit 8 (take_bit 8 ((of_char c :: nat) XOR b) XOR b) = take_bit 8 (of_char c)"
    by (simp add: take_bit_xor xor.assoc)
  then have "((of_char c XOR b) mod 256 XOR b) mod 256 = (of_char c :: nat)"
    by (simp add: take_bit_eq_mod)
  then show ?thesis unfolding xor_byte_def b_def[symmetric]
    by (metis char_of_mod_256 char_of_char of_char_of)
qed

lemma xor_counter_length [simp]: "length (xor_counter k t a) = length a"
  by (induction k arbitrary: t a) simp_all

lemma xor_counter_above: "k \<le> m \<Longrightarrow> xor_counter k t (a[m := v]) = (xor_counter k t a)[m := v]"
proof (induction k arbitrary: t a)
  case (Suc k)
  then have "k \<noteq> m" by simp
  with Suc show ?case by (simp add: list_update_swap[of m k])
qed simp

lemma xor_counter_nth: "k \<le> m \<Longrightarrow> xor_counter k t a ! m = a ! m"
  by (induction k arbitrary: t a) simp_all

lemma xor_counter_twice: "k \<le> length a \<Longrightarrow> xor_counter k t (xor_counter k t a) = a"
proof (induction k arbitrary: t a)
  case (Suc k)
  show ?case
  proof (cases "t = 0")
    case False
    let ?a = "a[k := xor_byte (a ! k) t]"
    have "xor_counter (Suc k) t (xor_counter (Suc k) t a) =
        xor_counter k (t div 256) ((xor_counter k (t div 256) ?a)[k := xor_byte (xor_byte (a ! k) t) t])"
      using False Suc.prems by (simp add: xor_counter_nth)
    also have "\<dots> = (xor_counter k (t div 256) (xor_counter k (t div 256) ?a))[k := a ! k]"
      by (simp add: xor_counter_above xor_byte_twice)
    finally show ?thesis using Suc by simp
  qed simp
qed simp

section \<open>The rounds\<close>

text \<open>The shape of the state: a register of 8 bytes and \<open>n\<close> blocks of 8 bytes.\<close>

definition wrap_state :: "nat \<Rightarrow> bytes \<times> bytes list \<Rightarrow> bool" where
  "wrap_state n st \<longleftrightarrow> length (fst st) = 8 \<and> length (snd st) = n \<and> (\<forall>b\<in>set (snd st). length b = 8)"

lemma wrap_state_update:
  "wrap_state n (a, r) \<Longrightarrow> length a' = 8 \<Longrightarrow> length b = 8 \<Longrightarrow> wrap_state n (a', r[i := b])"
  by (auto simp: wrap_state_def dest: set_update_subset_insert[THEN subsetD])

lemma wrap_state_nth: "wrap_state n (a, r) \<Longrightarrow> i < n \<Longrightarrow> length (r ! i) = 8"
  by (auto simp: wrap_state_def)

lemma round_inverse:
  assumes "block_cipher K" and "wrap_state n st" and "1 \<le> i" "i \<le> n"
  shows "wrap_state n (wrap_round K kek n (j, i) st)" "unwrap_round K kek n (j, i) (wrap_round K kek n (j, i) st) = st"
    and "wrap_state n (unwrap_round K kek n (j, i) st)" "wrap_round K kek n (j, i) (unwrap_round K kek n (j, i) st) = st"
proof -
  obtain a r where st: "st = (a, r)" by (cases st)
  have len: "length a = 8" "length (r ! (i - 1)) = 8" "i - 1 < length r"
    using assms st wrap_state_nth[of n a r "i - 1"] by (auto simp: wrap_state_def)
  note aes = assms(1)[unfolded block_cipher_def, rule_format]
  let ?t = "n * j + i"
  let ?e = "aes_Encrypt K kek (a @ r ! (i - 1))" and ?d = "aes_Decrypt K kek (xor_counter 8 ?t a @ r ! (i - 1))"
  have e: "length ?e = 16" "aes_Decrypt K kek ?e = a @ r ! (i - 1)" using aes len by simp_all
  have d: "length ?d = 16" "aes_Encrypt K kek ?d = xor_counter 8 ?t a @ r ! (i - 1)" using aes len by simp_all
  show "wrap_state n (wrap_round K kek n (j, i) st)" "wrap_state n (unwrap_round K kek n (j, i) st)"
    using assms(2) e d st by (simp_all add: wrap_round_def unwrap_round_def Let_def wrap_state_update)
  show "unwrap_round K kek n (j, i) (wrap_round K kek n (j, i) st) = st"
    using e len st by (simp add: wrap_round_def unwrap_round_def Let_def xor_counter_twice)
  show "wrap_round K kek n (j, i) (unwrap_round K kek n (j, i) st) = st"
    using d len st by (simp add: wrap_round_def unwrap_round_def Let_def xor_counter_twice)
qed

text \<open>Undoing steps in the reverse order.\<close>

lemma fold_inverse:
  assumes "\<And>x s. x \<in> set xs \<Longrightarrow> P s \<Longrightarrow> P (f x s) \<and> g x (f x s) = s" and "P s"
  shows "P (fold f xs s) \<and> fold g (rev xs) (fold f xs s) = s"
  using assms
proof (induction xs arbitrary: s)
  case (Cons x xs)
  then have "P (f x s)" "g x (f x s) = s" by simp_all
  moreover have "P (fold f xs (f x s)) \<and> fold g (rev xs) (fold f xs (f x s)) = f x s"
    using Cons.IH[of "f x s"] Cons.prems(1) \<open>P (f x s)\<close> by simp
  ultimately show ?case by simp
qed simp

lemma rounds_range: "(j, i) \<in> set (rounds n) \<Longrightarrow> 1 \<le> i \<and> i \<le> n"
  by (auto simp: rounds_def)

lemma wrap_unwrap_fold:
  assumes "block_cipher K" and "wrap_state n st"
  shows "wrap_state n (fold (wrap_round K kek n) (rounds n) st)"
    "fold (unwrap_round K kek n) (rev (rounds n)) (fold (wrap_round K kek n) (rounds n) st) = st"
proof -
  have "wrap_state n (wrap_round K kek n x s) \<and> unwrap_round K kek n x (wrap_round K kek n x s) = s"
    if "x \<in> set (rounds n)" "wrap_state n s" for x s
    using round_inverse[OF assms(1) that(2)] rounds_range[of "fst x" "snd x" n] that(1) by (cases x) simp
  then have "wrap_state n (fold (wrap_round K kek n) (rounds n) st) \<and>
      fold (unwrap_round K kek n) (rev (rounds n)) (fold (wrap_round K kek n) (rounds n) st) = st"
    using assms(2) by (rule fold_inverse)
  then show "wrap_state n (fold (wrap_round K kek n) (rounds n) st)"
    "fold (unwrap_round K kek n) (rev (rounds n)) (fold (wrap_round K kek n) (rounds n) st) = st" by blast+
qed

lemma unwrap_wrap_fold:
  assumes "block_cipher K" and "wrap_state n st"
  shows "wrap_state n (fold (unwrap_round K kek n) (rev (rounds n)) st)"
    "fold (wrap_round K kek n) (rounds n) (fold (unwrap_round K kek n) (rev (rounds n)) st) = st"
proof -
  have "wrap_state n (unwrap_round K kek n x s) \<and> wrap_round K kek n x (unwrap_round K kek n x s) = s"
    if "x \<in> set (rev (rounds n))" "wrap_state n s" for x s
    using round_inverse[OF assms(1) that(2)] rounds_range[of "fst x" "snd x" n] that(1) by (cases x) simp
  then have "wrap_state n (fold (unwrap_round K kek n) (rev (rounds n)) st) \<and>
      fold (wrap_round K kek n) (rev (rev (rounds n))) (fold (unwrap_round K kek n) (rev (rounds n)) st) = st"
    using assms(2) by (rule fold_inverse)
  then show "wrap_state n (fold (unwrap_round K kek n) (rev (rounds n)) st)"
    "fold (wrap_round K kek n) (rounds n) (fold (unwrap_round K kek n) (rev (rounds n)) st) = st" by simp_all
qed

section \<open>Blocks\<close>

lemma blocks_shape: "length s = 8 * n \<Longrightarrow> length (blocks n s) = n \<and> (\<forall>b\<in>set (blocks n s). length b = 8)"
  by (auto simp: blocks_def)

lemma concat_blocks: "length s = 8 * n \<Longrightarrow> concat (blocks n s) = s"
proof (induction n arbitrary: s)
  case (Suc n)
  have "blocks (Suc n) s = take 8 s # blocks n (drop 8 s)"
    by (simp add: blocks_def upt_conv_Cons del: upt_Suc flip: map_Suc_upt) (simp add: add.commute comp_def)
  moreover have "concat (blocks n (drop 8 s)) = drop 8 s" using Suc by simp
  ultimately show ?case by simp
qed (simp add: blocks_def)

lemma blocks_concat:
  assumes "\<forall>b\<in>set r. length b = 8"
  shows "blocks (length r) (concat r) = r"
  using assms
proof (induction r)
  case (Cons b r)
  then have "blocks (length r) (concat r) = r" by simp
  moreover have "blocks (Suc (length r)) (b @ concat r) = b # blocks (length r) (concat r)"
    using Cons.prems by (simp add: blocks_def upt_conv_Cons del: upt_Suc flip: map_Suc_upt)
  ultimately show ?case by simp
qed (simp add: blocks_def)

lemma concat_length_8: "\<forall>b\<in>set r. length b = 8 \<Longrightarrow> length (concat r) = 8 * length r"
  by (induction r) auto

lemma default_iv_length [simp]: "length default_iv = 8"
  by (simp add: default_iv_def)

end
