(* ===== verification/Key_Vault.thy ===== *)
theory Key_Vault
  imports Key_Wrap Signers Audit_Store
begin

text \<open>
  The vault (\<open>services/vault/vault.go\<close>, \<open>vault_header.go\<close>): a data key, wrapped by
  the key of the operator in a header file, encrypts what the stores keep. Files are a map from
  names to contents; writing replaces a file or leaves it as it was (\<open>services/fs/atomic.go\<close>).
  A call takes the error of each of its file operations from its environment, in the order of the
  calls. The JSON codec of the header is an argument. A vault has a file service, as
  \<open>NewVault\<close> checks. A header in memory is shared with the vault, so a change of it survives
  an error after it. Zeroing of key bytes has no counterpart.
\<close>

section \<open>Files\<close>

type_synonym files = "string \<rightharpoonup> bytes"

definition fs_ReadFile :: "gov_error option \<Rightarrow> files \<Rightarrow> string \<Rightarrow> bytes result" where
  "fs_ReadFile fault fs relPath =
     (case fault of
        Some err \<Rightarrow> Inl err
      | None \<Rightarrow> (case fs relPath of None \<Rightarrow> Inl (wrap ''%w: %s'' (Sys ErrNotFound) [relPath]) | Some data \<Rightarrow> Inr data))"

definition fs_WriteFile :: "gov_error option \<Rightarrow> files \<Rightarrow> string \<Rightarrow> bytes \<Rightarrow> unit result \<times> files" where
  "fs_WriteFile fault fs relPath data =
     (case fault of Some err \<Rightarrow> (Inl err, fs) | None \<Rightarrow> (Inr (), fs(relPath \<mapsto> data)))"

definition fs_Remove :: "gov_error option \<Rightarrow> files \<Rightarrow> string \<Rightarrow> unit result \<times> files" where
  "fs_Remove fault fs relPath =
     (case fault of Some err \<Rightarrow> (Inl err, fs) | None \<Rightarrow> (Inr (), fs(relPath := None)))"

definition fs_FileExists :: "gov_error option \<Rightarrow> files \<Rightarrow> string \<Rightarrow> bool result" where
  "fs_FileExists fault fs relPath = (case fault of Some err \<Rightarrow> Inl err | None \<Rightarrow> Inr (fs relPath \<noteq> None))"

section \<open>Base64\<close>

text \<open>\<open>base64.StdEncoding.DecodeString\<close>: line breaks are skipped, the last quantum is padded,
  and the bits it does not use are ignored.\<close>

definition b64_value :: "char \<Rightarrow> nat option" where
  "b64_value c =
     (let n = of_char c :: nat in
      if 65 \<le> n \<and> n \<le> 90 then Some (n - 65)
      else if 97 \<le> n \<and> n \<le> 122 then Some (n - 71)
      else if 48 \<le> n \<and> n \<le> 57 then Some (n + 4)
      else if c = CHR ''+'' then Some 62
      else if c = CHR ''/'' then Some 63
      else None)"

fun b64_quanta :: "string \<Rightarrow> bytes option" where
  "b64_quanta (a # b # c # d # r) =
     (case b64_value a of None \<Rightarrow> None | Some x \<Rightarrow>
      case b64_value b of None \<Rightarrow> None | Some y \<Rightarrow>
      if r = [] \<and> c = CHR ''='' \<and> d = CHR ''='' then Some [char_of (x * 4 + y div 16)]
      else case b64_value c of None \<Rightarrow> None | Some z \<Rightarrow>
      if r = [] \<and> d = CHR ''='' then Some [char_of (x * 4 + y div 16), char_of (y mod 16 * 16 + z div 4)]
      else case b64_value d of None \<Rightarrow> None | Some w \<Rightarrow>
      map_option (\<lambda>t. char_of (x * 4 + y div 16) # char_of (y mod 16 * 16 + z div 4) # char_of (z mod 4 * 64 + w) # t)
        (b64_quanta r))"
| "b64_quanta [] = Some []"
| "b64_quanta _ = None"

definition base64_DecodeString :: "string \<Rightarrow> bytes result" where
  "base64_DecodeString s =
     (case b64_quanta (filter (\<lambda>c. c \<noteq> CHR 0x0A \<and> c \<noteq> CHR 0x0D) s) of
        None \<Rightarrow> Inl (Errorf ''illegal base64 data'' [] [])
      | Some bs \<Rightarrow> Inr bs)"

section \<open>The header\<close>

record KDFParams =
  kdfAlgorithm :: string
  kdfInfo :: string

record KEKParams =
  kekAlgorithm :: string

record DEKParams =
  dekAlgorithm :: string
  dekWrapped :: string

record VaultHeader =
  hVersion :: int
  hCreatedAt :: time
  hLastRekeyedAt :: "time option"
  hKDF :: KDFParams
  hKEK :: KEKParams
  hDEK :: DEKParams
  hKeyFingerprint :: string

abbreviation VaultHeaderVersion :: int where "VaultHeaderVersion \<equiv> 1"

definition NewVaultHeader ::
    "vault_crypto \<Rightarrow> crypto \<Rightarrow> time \<Rightarrow> bytes result \<Rightarrow> bytes \<Rightarrow> (VaultHeader \<times> bytes) result" where
  "NewVaultHeader K C now rnd privateKey =
     (case DeriveKEK K privateKey of
        Inl err \<Rightarrow> Inl (Errorf ''failed to derive KEK: %w'' [] [err])
      | Inr kek \<Rightarrow>
     (case GenerateDEK rnd of
        Inl err \<Rightarrow> Inl (Errorf ''failed to generate DEK: %w'' [] [err])
      | Inr dek \<Rightarrow>
     (case AESKeyWrap K kek dek of
        Inl err \<Rightarrow> Inl (Errorf ''failed to wrap DEK: %w'' [] [err])
      | Inr wrappedDEK \<Rightarrow>
         Inr (\<lparr>hVersion = VaultHeaderVersion, hCreatedAt = now, hLastRekeyedAt = None,
               hKDF = \<lparr>kdfAlgorithm = ''hkdf-sha256'', kdfInfo = HKDFInfo\<rparr>,
               hKEK = \<lparr>kekAlgorithm = ''aes-256-kw''\<rparr>,
               hDEK = \<lparr>dekAlgorithm = ''aes-256-gcm'', dekWrapped = base64_Encode wrappedDEK\<rparr>,
               hKeyFingerprint = hex_EncodeToString (KeyFingerprint C privateKey)\<rparr>, dek))))"

definition UnwrapDEK :: "vault_crypto \<Rightarrow> crypto \<Rightarrow> VaultHeader \<Rightarrow> bytes \<Rightarrow> bytes result" where
  "UnwrapDEK K C h privateKey =
     (if hKeyFingerprint h \<noteq> hex_EncodeToString (KeyFingerprint C privateKey)
      then Inl (Sentinel (Vlt ErrVaultKeyFingerprintMatch))
      else case DeriveKEK K privateKey of
        Inl err \<Rightarrow> Inl (Errorf ''failed to derive KEK: %w'' [] [err])
      | Inr kek \<Rightarrow>
     (case base64_DecodeString (dekWrapped (hDEK h)) of
        Inl err \<Rightarrow> Inl (Errorf ''failed to decode wrapped DEK: %w'' [] [err])
      | Inr wrappedDEK \<Rightarrow>
     (case AESKeyUnwrap K kek wrappedDEK of
        Inl err \<Rightarrow> Inl (Errorf ''failed to unwrap DEK: %w'' [] [err])
      | Inr dek \<Rightarrow> Inr dek)))"

definition Header_Rekey :: "vault_crypto \<Rightarrow> crypto \<Rightarrow> time \<Rightarrow> VaultHeader \<Rightarrow> bytes \<Rightarrow> bytes \<Rightarrow> VaultHeader result" where
  "Header_Rekey K C now h oldPrivateKey newPrivateKey =
     (case UnwrapDEK K C h oldPrivateKey of
        Inl err \<Rightarrow> Inl (Errorf ''failed to unwrap DEK with old key: %w'' [] [err])
      | Inr dek \<Rightarrow>
     (case DeriveKEK K newPrivateKey of
        Inl err \<Rightarrow> Inl (Errorf ''failed to derive new KEK: %w'' [] [err])
      | Inr newKEK \<Rightarrow>
     (case AESKeyWrap K newKEK dek of
        Inl err \<Rightarrow> Inl (Errorf ''failed to wrap DEK with new key: %w'' [] [err])
      | Inr wrappedDEK \<Rightarrow>
         Inr (h\<lparr>hLastRekeyedAt := Some now, hDEK := (hDEK h)\<lparr>dekWrapped := base64_Encode wrappedDEK\<rparr>,
                hKeyFingerprint := hex_EncodeToString (KeyFingerprint C newPrivateKey)\<rparr>))))"

definition ValidatePrivateKey :: "crypto \<Rightarrow> VaultHeader \<Rightarrow> bytes \<Rightarrow> bool" where
  "ValidatePrivateKey C h privateKey \<longleftrightarrow> hKeyFingerprint h = hex_EncodeToString (KeyFingerprint C privateKey)"

definition vaultHeaderPath :: string where
  "vaultHeaderPath = ''vault/vault.header''"

text \<open>The JSON codec of the header.\<close>

record header_codec =
  marshalHeader :: "VaultHeader \<Rightarrow> bytes result"
  unmarshalHeader :: "bytes \<Rightarrow> VaultHeader option"

definition header_round_trip :: "header_codec \<Rightarrow> bool" where
  "header_round_trip J \<longleftrightarrow> (\<forall>h d. marshalHeader J h = Inr d \<longrightarrow> unmarshalHeader J d = Some h)"

definition Header_Save :: "header_codec \<Rightarrow> gov_error option \<Rightarrow> files \<Rightarrow> VaultHeader \<Rightarrow> unit result \<times> files" where
  "Header_Save J fault fs h =
     (case marshalHeader J h of
        Inl err \<Rightarrow> (Inl (Errorf ''vault header: marshal: %w'' [] [err]), fs)
      | Inr data \<Rightarrow>
         (case fs_WriteFile fault fs vaultHeaderPath data of
            (Inl err, fs') \<Rightarrow> (Inl (Errorf ''vault header: write: %w'' [] [err]), fs')
          | (Inr _, fs') \<Rightarrow> (Inr (), fs')))"

definition LoadVaultHeader :: "header_codec \<Rightarrow> gov_error option \<Rightarrow> files \<Rightarrow> VaultHeader result" where
  "LoadVaultHeader J fault fs =
     (case fs_ReadFile fault fs vaultHeaderPath of
        Inl err \<Rightarrow>
          if errors_Is err (Sys ErrNotFound) then Inl (Sentinel (Vlt ErrVaultHeaderNotFound))
          else Inl (Errorf ''vault header: read: %w'' [] [err])
      | Inr data \<Rightarrow>
         (case unmarshalHeader J data of
            None \<Rightarrow> Inl (Sentinel (Vlt ErrVaultHeaderCorrupted))
          | Some h \<Rightarrow>
             if hVersion h > VaultHeaderVersion then Inl (Sentinel (Vlt ErrVaultHeaderVersionUnsup)) else Inr h))"

definition VaultHeaderExists :: "gov_error option \<Rightarrow> files \<Rightarrow> bool result" where
  "VaultHeaderExists fault fs = fs_FileExists fault fs vaultHeaderPath"

definition DeleteVaultHeader :: "gov_error option \<Rightarrow> files \<Rightarrow> unit result \<times> files" where
  "DeleteVaultHeader fault fs =
     (case fs_Remove fault fs vaultHeaderPath of
        (Inl err, fs') \<Rightarrow> (Inl (Errorf ''vault header: delete: %w'' [] [err]), fs')
      | (Inr _, fs') \<Rightarrow> (Inr (), fs'))"

section \<open>The vault\<close>

record Vault =
  vHeader :: "VaultHeader option"
  vDek :: "bytes option"
  vOpen :: bool

definition fresh_vault :: Vault where
  "fresh_vault = \<lparr>vHeader = None, vDek = None, vOpen = False\<rparr>"

text \<open>The configuration, absent or with the file service, absent or present.\<close>

definition NewVault :: "'fs option option \<Rightarrow> Vault result" where
  "NewVault config =
     (case config of
        None \<Rightarrow> Inl (Sentinel (Vlt ErrVaultConfigRequired))
      | Some None \<Rightarrow> Inl (wrap ''vault: %w'' (Vlt ErrVaultDataDirRequired) [])
      | Some (Some fileSvc) \<Rightarrow> Inr fresh_vault)"

definition Unlock ::
    "vault_crypto \<Rightarrow> crypto \<Rightarrow> header_codec \<Rightarrow> store_env \<Rightarrow> files \<Rightarrow> bytes \<Rightarrow> Vault \<Rightarrow> unit result \<times> Vault" where
  "Unlock K C J E fs privateKey v =
     (if vOpen v then (Inl (Sentinel (Vlt ErrVaultAlreadyOpen)), v)
      else case LoadVaultHeader J (fault_at E 0) fs of
        Inl err \<Rightarrow>
          if errors_Is err (Vlt ErrVaultHeaderNotFound) then (Inl (Sentinel (Vlt ErrVaultNotInitialized)), v)
          else (Inl (Errorf ''failed to load vault header: %w'' [] [err]), v)
      | Inr header \<Rightarrow>
         (case UnwrapDEK K C header privateKey of
            Inl err \<Rightarrow>
              if errors_Is err (Vlt ErrVaultKeyFingerprintMatch) then (Inl (Sentinel (Vlt ErrVaultInvalidPrivateKey)), v)
              else (Inl (Errorf ''failed to unwrap DEK: %w'' [] [err]), v)
          | Inr dek \<Rightarrow> (Inr (), v\<lparr>vHeader := Some header, vDek := Some dek, vOpen := True\<rparr>)))"

text \<open>\<open>Rekey\<close> works on the header in memory, or else on the one it loads.\<close>

definition Rekey ::
    "vault_crypto \<Rightarrow> crypto \<Rightarrow> header_codec \<Rightarrow> store_env \<Rightarrow> bytes \<Rightarrow> bytes \<Rightarrow> Vault \<Rightarrow> files \<Rightarrow> unit result \<times> Vault \<times> files" where
  "Rekey K C J E oldPrivateKey newPrivateKey v fs =
     (case (case vHeader v of
              Some h \<Rightarrow> Inr h
            | None \<Rightarrow>
               (case LoadVaultHeader J (fault_at E 0) fs of
                  Inl err \<Rightarrow>
                    if errors_Is err (Vlt ErrVaultHeaderNotFound) then Inl (Sentinel (Vlt ErrVaultNotInitialized))
                    else Inl (Errorf ''failed to load vault header: %w'' [] [err])
                | Inr h \<Rightarrow> Inr h)) of
        Inl err \<Rightarrow> (Inl err, v, fs)
      | Inr header \<Rightarrow>
         (case Header_Rekey K C (clock_at E 0) header oldPrivateKey newPrivateKey of
            Inl err \<Rightarrow> (Inl (Errorf ''failed to rekey vault: %w'' [] [err]), v, fs)
          | Inr header' \<Rightarrow>
             (let v' = (if vHeader v = None then v else v\<lparr>vHeader := Some header'\<rparr>) in
              case Header_Save J (fault_at E 1) fs header' of
                (Inl err, fs') \<Rightarrow> (Inl (Errorf ''failed to save rekeyed vault header: %w'' [] [err]), v', fs')
              | (Inr _, fs') \<Rightarrow>
                  (Inr (), if vOpen v \<and> vDek v \<noteq> None then v'\<lparr>vHeader := Some header'\<rparr> else v', fs'))))"

definition Lock :: "Vault \<Rightarrow> Vault" where
  "Lock v = v\<lparr>vDek := None, vOpen := False\<rparr>"

definition IsInitialized :: "store_env \<Rightarrow> files \<Rightarrow> bool" where
  "IsInitialized E fs = (case VaultHeaderExists (fault_at E 0) fs of Inl err \<Rightarrow> False | Inr exists \<Rightarrow> exists)"

definition GetDEK :: "Vault \<Rightarrow> bytes result" where
  "GetDEK v =
     (if \<not> vOpen v then Inl (Sentinel (Vlt ErrVaultLocked))
      else case vDek v of None \<Rightarrow> Inl (Sentinel (Vlt ErrVaultLocked)) | Some dek \<Rightarrow> Inr dek)"

definition Encrypt :: "vault_crypto \<Rightarrow> bytes result \<Rightarrow> Vault \<Rightarrow> bytes \<Rightarrow> bytes result" where
  "Encrypt K rnd v plaintext =
     (if \<not> vOpen v then Inl (Sentinel (Vlt ErrVaultLocked))
      else case vDek v of
        None \<Rightarrow> Inl (Sentinel (Vlt ErrVaultLocked))
      | Some dek \<Rightarrow>
         (case GenerateNonce rnd of
            Inl err \<Rightarrow> Inl (Errorf ''failed to generate nonce: %w'' [] [err])
          | Inr nonce \<Rightarrow>
             (case EncryptAESGCM K dek nonce plaintext [] of
                Inl err \<Rightarrow> Inl (Errorf ''encryption failed: %w'' [] [err])
              | Inr ciphertext \<Rightarrow> Inr (nonce @ ciphertext))))"

definition Decrypt :: "vault_crypto \<Rightarrow> Vault \<Rightarrow> bytes \<Rightarrow> bytes result" where
  "Decrypt K v ciphertext =
     (if \<not> vOpen v then Inl (Sentinel (Vlt ErrVaultLocked))
      else case vDek v of
        None \<Rightarrow> Inl (Sentinel (Vlt ErrVaultLocked))
      | Some dek \<Rightarrow>
         if length ciphertext < NonceSize then Inl (Sentinel (Vlt ErrVaultCiphertextTooShort))
         else case DecryptAESGCM K dek (take NonceSize ciphertext) (drop NonceSize ciphertext) [] of
           Inl err \<Rightarrow> Inl (Errorf ''decryption failed: %w'' [] [err])
         | Inr plaintext \<Rightarrow> Inr plaintext)"

definition VerifyIntegrity :: "vault_crypto \<Rightarrow> crypto \<Rightarrow> header_codec \<Rightarrow> store_env \<Rightarrow> files \<Rightarrow> bytes \<Rightarrow> unit result" where
  "VerifyIntegrity K C J E fs privateKey =
     (case LoadVaultHeader J (fault_at E 0) fs of
        Inl err \<Rightarrow> Inl (Errorf ''header load failed: %w'' [] [err])
      | Inr header \<Rightarrow>
         (case UnwrapDEK K C header privateKey of
            Inl err \<Rightarrow> Inl (Errorf ''DEK unwrap failed: %w'' [] [err])
          | Inr dek \<Rightarrow> Inr ()))"

text \<open>The loop of \<open>Reset\<close> over the database and its side files.\<close>

fun remove_artifacts :: "store_env \<Rightarrow> nat \<Rightarrow> string list \<Rightarrow> files \<Rightarrow> unit result \<times> files" where
  "remove_artifacts E i [] fs = (Inr (), fs)"
| "remove_artifacts E i (relPath # paths) fs =
     (case fs_Remove (fault_at E i) fs relPath of
        (Inl err, fs') \<Rightarrow> (Inl (Errorf ''failed to delete vault database artifact %s: %w'' [relPath] [err]), fs')
      | (Inr _, fs') \<Rightarrow> remove_artifacts E (Suc i) paths fs')"

definition Vault_Reset :: "store_env \<Rightarrow> bool \<Rightarrow> Vault \<Rightarrow> files \<Rightarrow> unit result \<times> Vault \<times> files" where
  "Vault_Reset E confirmDestroy v fs =
     (if \<not> confirmDestroy then (Inl (Sentinel (Vlt ErrVaultResetConfirmation)), v, fs)
      else
        (let v' = v\<lparr>vDek := None, vOpen := False, vHeader := None\<rparr> in
         case DeleteVaultHeader (fault_at E 0) fs of
           (Inl err, fs') \<Rightarrow> (Inl (Errorf ''failed to delete vault header: %w'' [] [err]), v', fs')
         | (Inr _, fs') \<Rightarrow>
            (case remove_artifacts E 1 [''data/g8e.db'', ''data/g8e.db-wal'', ''data/g8e.db-shm''] fs' of
               (r, fs'') \<Rightarrow> (r, v', fs''))))"

section \<open>Opening the gateway's vault\<close>

text \<open>\<open>ReadVaultKey\<close>; \<open>keyPath\<close> is the resolved name of the key file.\<close>

definition ReadVaultKey :: "gov_error option \<Rightarrow> files \<Rightarrow> string \<Rightarrow> bytes result" where
  "ReadVaultKey fault fs keyPath =
     (case (case fault of
              Some err \<Rightarrow> Inl err
            | None \<Rightarrow>
               (case fs keyPath of None \<Rightarrow> Inl (Errorf ''open %s: no such file or directory'' [keyPath] []) | Some data \<Rightarrow> Inr data)) of
        Inl err \<Rightarrow> Inl (Errorf ''failed to read key file: %w'' [] [err])
      | Inr data \<Rightarrow>
         (case decode_trimmed_hex data of
            None \<Rightarrow> Inl (Errorf ''failed to decode key: %w'' [] [Errorf ''encoding/hex'' [] []])
          | Some key \<Rightarrow>
             if length key \<noteq> KeySize
             then Inl (Errorf ''invalid key size: expected %d bytes, got %d'' [FormatInt (int KeySize), FormatInt (int (length key))] [])
             else Inr key))"

definition DefaultVaultKeyRelPath :: string where
  "DefaultVaultKeyRelPath = ''vault/key''"

text \<open>The vault part of \<open>OpenCanonicalDBService\<close>: a vault without header is initialised, then
  the vault is unlocked with the key file. The random bytes are those of the key and of the data
  key; \<open>E\<close> has the existence check, the directory, the header, the key file and the reading
  of the key, \<open>E'\<close> what \<open>Unlock\<close> does.\<close>

definition init_vault ::
    "vault_crypto \<Rightarrow> crypto \<Rightarrow> header_codec \<Rightarrow> store_env \<Rightarrow> bytes result \<Rightarrow> bytes result \<Rightarrow> files \<Rightarrow> unit result \<times> files" where
  "init_vault K C J E rndKey rndDek fs =
     (case fault_at E 1 of
        Some err \<Rightarrow> (Inl (Errorf ''%w: %w'' [] [Sentinel (Sys ErrDirCreateFailed), err]), fs)
      | None \<Rightarrow>
     (case rndKey of
        Inl err \<Rightarrow> (Inl (Errorf ''%w: %w'' [] [Sentinel (Vlt ErrVaultKeyGenerateFailed), err]), fs)
      | Inr initKey \<Rightarrow>
     (case NewVaultHeader K C (clock_at E 0) rndDek initKey of
        Inl err \<Rightarrow> (Inl (Errorf ''%w: %w'' [] [Sentinel (Vlt ErrVaultHeaderCreateFailed), err]), fs)
      | Inr (header, dek) \<Rightarrow>
     (case Header_Save J (fault_at E 2) fs header of
        (Inl err, fs') \<Rightarrow> (Inl (Errorf ''%w: %w'' [] [Sentinel (Vlt ErrVaultHeaderSaveFailed), err]), fs')
      | (Inr _, fs') \<Rightarrow>
     (case fs_WriteFile (fault_at E 3) fs' DefaultVaultKeyRelPath (hex_EncodeToString initKey @ [CHR 0x0A]) of
        (Inl err, fs'') \<Rightarrow> (Inl (Errorf ''%w: %w'' [] [Sentinel (Vlt ErrVaultKeyWriteFailed), err]), fs'')
      | (Inr _, fs'') \<Rightarrow> (Inr (), fs''))))))"

definition open_vault_service ::
    "vault_crypto \<Rightarrow> crypto \<Rightarrow> header_codec \<Rightarrow> store_env \<Rightarrow> store_env \<Rightarrow> bytes result \<Rightarrow> bytes result \<Rightarrow> string \<Rightarrow> files \<Rightarrow>
     Vault result \<times> files" where
  "open_vault_service K C J E E' rndKey rndDek vaultKeyPath fs =
     (case VaultHeaderExists (fault_at E 0) fs of
        Inl err \<Rightarrow> (Inl (Errorf ''gateway: check vault header: %w'' [] [err]), fs)
      | Inr headerExists \<Rightarrow>
     (case (if headerExists then (Inr (), fs) else init_vault K C J E rndKey rndDek fs) of
        (Inl err, fs') \<Rightarrow> (Inl err, fs')
      | (Inr _, fs') \<Rightarrow>
     (case ReadVaultKey (fault_at E 4) fs' vaultKeyPath of
        Inl err \<Rightarrow> (Inl (Errorf ''%w: %w'' [] [Sentinel (Vlt ErrVaultKeyReadFailed), err]), fs')
      | Inr privateKey \<Rightarrow>
     (case Unlock K C J E' fs' privateKey fresh_vault of
        (Inl err, v) \<Rightarrow>
          (if errors_Is err (Vlt ErrVaultNotInitialized) then Inl (wrap ''%w: %s'' (Vlt ErrVaultNotInitialized) [])
           else if errors_Is err (Vlt ErrVaultInvalidPrivateKey)
           then Inl (wrap ''%w: %s'' (Vlt ErrVaultKeyDecodeFailed) [vaultKeyPath])
           else Inl (Errorf ''%w: %w'' [] [Sentinel (Vlt ErrVaultUnlockFailed), err]), fs')
      | (Inr _, v) \<Rightarrow> (Inr v, fs')))))"

text \<open>The vault as its clients see it: the stores encrypt with it and ask whether it is unlocked.\<close>

definition vault_view :: "vault_crypto \<Rightarrow> bytes result \<Rightarrow> Vault \<Rightarrow> vault" where
  "vault_view K rnd v = \<lparr>vUnlocked = vOpen v, vEncrypt = Encrypt K rnd v, vDecrypt = Decrypt K v\<rparr>"

end
