(* ===== verification/Gateway_DB.thy ===== *)
theory Gateway_DB
  imports Suspended_Store
begin

text \<open>
  The coordination store of the gateway (\<open>services/gateway\<close>): the tables \<open>documents\<close>,
  \<open>kv_store\<close> and \<open>blobs\<close> of \<open>db/schema.sql\<close> with their triggers, and the services over
  them (\<open>document_store_service.go\<close>, \<open>kv_store_service.go\<close>, \<open>blob_store_service.go\<close>).
  A table is the list of its rows in row order. Statements that change rows fire the triggers of
  the schema, which drop cached entries of changed documents and count changes in
  \<open>state_version\<close>. SQLite's \<open>GLOB\<close> and JSON functions and the JSON codec are parameters;
  clock readings and statement faults come from the environment as for the other stores.
\<close>

section \<open>Tables\<close>

record doc_row =
  dCollection :: string
  dId :: string
  dData :: bytes
  dCreatedAt :: string
  dUpdatedAt :: string

record kv_row =
  kvKey :: string
  kvValue :: string
  kvCreatedAt :: string
  kvExpiresAt :: "string option"
  kvTier :: string

record blob_row =
  bId :: string
  bNamespace :: string
  bSize :: int
  bContentType :: string
  bData :: bytes
  bCreatedAt :: string
  bExpiresAt :: "string option"
  bTier :: string

text \<open>\<open>state_root\<close> holds the root and the time of its single row.\<close>

record gateway_db =
  documents :: "doc_row list"
  kv_store :: "kv_row list"
  blobs :: "blob_row list"
  state_root :: "(string \<times> string) option"
  state_version :: int

definition empty_db :: gateway_db where
  "empty_db = \<lparr>documents = [], kv_store = [], blobs = [], state_root = None, state_version = 0\<rparr>"

abbreviation tier_bound :: string where "tier_bound \<equiv> ''bound''"
abbreviation tier_observed :: string where "tier_observed \<equiv> ''observed''"

text \<open>\<open>key LIKE 'g8e:cache:%'\<close>; \<open>LIKE\<close> ignores the case of ASCII letters.\<close>

definition sql_lower :: "char \<Rightarrow> char" where
  "sql_lower c = (let n = of_char c :: nat in if 65 \<le> n \<and> n \<le> 90 then char_of (n + 32) else c)"

definition cache_key :: "string \<Rightarrow> bool" where
  "cache_key key \<longleftrightarrow> map sql_lower (take 10 key) = ''g8e:cache:''"

text \<open>\<open>expires_at IS NULL OR expires_at > now\<close>, and the condition of the maintenance runs,
  \<open>expires_at IS NOT NULL AND expires_at < now\<close>.\<close>

definition active :: "string \<Rightarrow> string option \<Rightarrow> bool" where
  "active now e \<longleftrightarrow> (case e of None \<Rightarrow> True | Some x \<Rightarrow> now < x)"

definition expired :: "string \<Rightarrow> string option \<Rightarrow> bool" where
  "expired now e \<longleftrightarrow> (case e of None \<Rightarrow> False | Some x \<Rightarrow> x < now)"

section \<open>Statements with their triggers\<close>

record sqlite =
  sqGlob :: "string \<Rightarrow> string \<Rightarrow> bool"
  sqJsonSet :: "bytes \<Rightarrow> string \<Rightarrow> bytes \<Rightarrow> bytes"
  sqJsonEq :: "bytes \<Rightarrow> string \<Rightarrow> bytes \<Rightarrow> bool"

definition bump_version :: "nat \<Rightarrow> gateway_db \<Rightarrow> gateway_db" where
  "bump_version n db = db\<lparr>state_version := state_version db + int n\<rparr>"

definition kv_insert :: "kv_row \<Rightarrow> gateway_db \<Rightarrow> gateway_db" where
  "kv_insert r db =
     bump_version (if cache_key (kvKey r) then 0 else 1) (db\<lparr>kv_store := kv_store db @ [r]\<rparr>)"

definition kv_update :: "(kv_row \<Rightarrow> bool) \<Rightarrow> (kv_row \<Rightarrow> kv_row) \<Rightarrow> gateway_db \<Rightarrow> gateway_db" where
  "kv_update p f db =
     bump_version (length (filter (\<lambda>r. p r \<and> (\<not> cache_key (kvKey r) \<or> \<not> cache_key (kvKey (f r)))) (kv_store db)))
       (db\<lparr>kv_store := map (\<lambda>r. if p r then f r else r) (kv_store db)\<rparr>)"

definition kv_delete :: "(kv_row \<Rightarrow> bool) \<Rightarrow> gateway_db \<Rightarrow> gateway_db" where
  "kv_delete p db =
     bump_version (length (filter (\<lambda>r. p r \<and> \<not> cache_key (kvKey r)) (kv_store db)))
       (db\<lparr>kv_store := filter (\<lambda>r. \<not> p r) (kv_store db)\<rparr>)"

text \<open>The triggers \<open>trg_documents_*_kv\<close>, which drop the cached document and the cached
  queries of its collection, and \<open>trg_documents_*_version\<close>.\<close>

definition invalidate_cache :: "sqlite \<Rightarrow> string \<Rightarrow> string \<Rightarrow> gateway_db \<Rightarrow> gateway_db" where
  "invalidate_cache Q collection docID db =
     kv_delete (\<lambda>r. sqGlob Q (''g8e:cache:query:'' @ collection @ '':*'') (kvKey r))
       (kv_delete (\<lambda>r. kvKey r = ''g8e:cache:doc:'' @ collection @ '':'' @ docID) db)"

definition document_changed :: "sqlite \<Rightarrow> gateway_db \<Rightarrow> doc_row \<Rightarrow> gateway_db" where
  "document_changed Q db r = bump_version 1 (invalidate_cache Q (dCollection r) (dId r) db)"

definition doc_insert :: "sqlite \<Rightarrow> doc_row \<Rightarrow> gateway_db \<Rightarrow> gateway_db" where
  "doc_insert Q r db = document_changed Q (db\<lparr>documents := documents db @ [r]\<rparr>) r"

definition doc_update :: "sqlite \<Rightarrow> (doc_row \<Rightarrow> bool) \<Rightarrow> (doc_row \<Rightarrow> doc_row) \<Rightarrow> gateway_db \<Rightarrow> gateway_db" where
  "doc_update Q p f db =
     foldl (document_changed Q) (db\<lparr>documents := map (\<lambda>r. if p r then f r else r) (documents db)\<rparr>)
       (filter (\<lambda>r. p r \<and> dData r \<noteq> dData (f r)) (documents db))"

definition doc_delete :: "sqlite \<Rightarrow> (doc_row \<Rightarrow> bool) \<Rightarrow> gateway_db \<Rightarrow> gateway_db" where
  "doc_delete Q p db =
     foldl (document_changed Q) (db\<lparr>documents := filter (\<lambda>r. \<not> p r) (documents db)\<rparr>)
       (filter p (documents db))"

definition blob_insert :: "blob_row \<Rightarrow> gateway_db \<Rightarrow> gateway_db" where
  "blob_insert r db = bump_version 1 (db\<lparr>blobs := blobs db @ [r]\<rparr>)"

definition blob_update :: "(blob_row \<Rightarrow> bool) \<Rightarrow> (blob_row \<Rightarrow> blob_row) \<Rightarrow> gateway_db \<Rightarrow> gateway_db" where
  "blob_update p f db =
     bump_version (length (filter p (blobs db))) (db\<lparr>blobs := map (\<lambda>r. if p r then f r else r) (blobs db)\<rparr>)"

definition blob_delete :: "(blob_row \<Rightarrow> bool) \<Rightarrow> gateway_db \<Rightarrow> gateway_db" where
  "blob_delete p db =
     bump_version (length (filter p (blobs db))) (db\<lparr>blobs := filter (\<lambda>r. \<not> p r) (blobs db)\<rparr>)"

section \<open>Key-value store\<close>

text \<open>\<open>time.Duration(ttlSeconds) * time.Second\<close> in 64 bits.\<close>

definition ttl_duration :: "int \<Rightarrow> int" where
  "ttl_duration ttlSeconds = (ttlSeconds * 1000000000 + 2 ^ 63) mod 2 ^ 64 - 2 ^ 63"

definition ttl_expiry :: "store_env \<Rightarrow> int \<Rightarrow> string option" where
  "ttl_expiry E ttlSeconds =
     (if ttlSeconds > 0 then Some (FormatTimestamp (clock_at E 1 + ttl_duration ttlSeconds))
      else if ttlSeconds < 0 then Some (FormatTimestamp (clock_at E 1 - 1000000000))
      else None)"

definition KVGet :: "store_env \<Rightarrow> gateway_db \<Rightarrow> string \<Rightarrow> string option" where
  "KVGet E db key =
     (case fault_at E 0 of
        Some err \<Rightarrow> None
      | None \<Rightarrow>
         map_option kvValue
           (find (\<lambda>r. kvKey r = key \<and> active (FormatTimestamp (clock_at E 0)) (kvExpiresAt r)) (kv_store db)))"

definition has_key :: "string \<Rightarrow> gateway_db \<Rightarrow> bool" where
  "has_key key db \<longleftrightarrow> list_ex (\<lambda>r. kvKey r = key) (kv_store db)"

definition KVSet :: "store_env \<Rightarrow> gateway_db \<Rightarrow> string \<Rightarrow> string \<Rightarrow> int \<Rightarrow> unit result \<times> gateway_db" where
  "KVSet E db key value ttlSeconds =
     (let now = FormatTimestamp (clock_at E 0); expiresAt = ttl_expiry E ttlSeconds in
      case fault_at E 0 of
        Some err \<Rightarrow> (Inl err, db)
      | None \<Rightarrow>
         (Inr (),
          if has_key key db
          then kv_update (\<lambda>r. kvKey r = key) (\<lambda>r. r\<lparr>kvValue := value, kvExpiresAt := expiresAt\<rparr>) db
          else kv_insert \<lparr>kvKey = key, kvValue = value, kvCreatedAt = now, kvExpiresAt = expiresAt,
                 kvTier = tier_bound\<rparr> db))"

definition KVSetObserved ::
    "store_env \<Rightarrow> gateway_db \<Rightarrow> string \<Rightarrow> string \<Rightarrow> int \<Rightarrow> unit result \<times> gateway_db" where
  "KVSetObserved E db key value ttlSeconds =
     (let now = FormatTimestamp (clock_at E 0); expiresAt = ttl_expiry E ttlSeconds in
      case fault_at E 0 of
        Some err \<Rightarrow> (Inl err, db)
      | None \<Rightarrow>
         (Inr (),
          if has_key key db
          then kv_update (\<lambda>r. kvKey r = key)
                 (\<lambda>r. r\<lparr>kvValue := value, kvExpiresAt := expiresAt, kvTier := tier_observed\<rparr>) db
          else kv_insert \<lparr>kvKey = key, kvValue = value, kvCreatedAt = now, kvExpiresAt = expiresAt,
                 kvTier = tier_observed\<rparr> db))"

definition KVDelete :: "store_env \<Rightarrow> gateway_db \<Rightarrow> string \<Rightarrow> unit result \<times> gateway_db" where
  "KVDelete E db key =
     (case fault_at E 0 of Some err \<Rightarrow> (Inl err, db) | None \<Rightarrow> (Inr (), kv_delete (\<lambda>r. kvKey r = key) db))"

text \<open>\<open>RowsAffected\<close> is the second statement of the environment.\<close>

definition rows_affected :: "store_env \<Rightarrow> nat \<Rightarrow> nat result" where
  "rows_affected E n = (case fault_at E 1 of Some err \<Rightarrow> Inl err | None \<Rightarrow> Inr n)"

definition KVDeletePattern :: "sqlite \<Rightarrow> store_env \<Rightarrow> gateway_db \<Rightarrow> string \<Rightarrow> nat result \<times> gateway_db" where
  "KVDeletePattern Q E db pat =
     (case fault_at E 0 of
        Some err \<Rightarrow> (Inl err, db)
      | None \<Rightarrow>
         (rows_affected E (length (filter (\<lambda>r. sqGlob Q pat (kvKey r)) (kv_store db))),
          kv_delete (\<lambda>r. sqGlob Q pat (kvKey r)) db))"

definition matching_keys :: "sqlite \<Rightarrow> store_env \<Rightarrow> gateway_db \<Rightarrow> string \<Rightarrow> string list" where
  "matching_keys Q E db pat =
     map kvKey (filter (\<lambda>r. sqGlob Q pat (kvKey r) \<and> active (FormatTimestamp (clock_at E 0)) (kvExpiresAt r))
                  (kv_store db))"

definition KVKeys :: "sqlite \<Rightarrow> store_env \<Rightarrow> gateway_db \<Rightarrow> string \<Rightarrow> string list result" where
  "KVKeys Q E db pat = (case fault_at E 0 of Some err \<Rightarrow> Inl err | None \<Rightarrow> Inr (matching_keys Q E db pat))"

text \<open>A negative \<open>OFFSET\<close> is zero.\<close>

definition KVScan ::
    "sqlite \<Rightarrow> store_env \<Rightarrow> gateway_db \<Rightarrow> string \<Rightarrow> int \<Rightarrow> int \<Rightarrow> (int \<times> string list) result" where
  "KVScan Q E db pat cursor count0 =
     (let count = (if count0 \<le> 0 then 100 else count0) in
      case fault_at E 0 of
        Some err \<Rightarrow> Inl err
      | None \<Rightarrow>
         (let keys = take (nat (count + 1)) (drop (nat cursor) (sort (matching_keys Q E db pat))) in
          if int (length keys) > count then Inr (cursor + count, take (nat count) keys) else Inr (0, keys)))"

definition KVExists :: "store_env \<Rightarrow> gateway_db \<Rightarrow> string \<Rightarrow> bool" where
  "KVExists E db key \<longleftrightarrow> KVGet E db key \<noteq> None"

definition KVExpire :: "store_env \<Rightarrow> gateway_db \<Rightarrow> string \<Rightarrow> int \<Rightarrow> bool \<times> gateway_db" where
  "KVExpire E db key ttlSeconds =
     (let expiry = FormatTimestamp (clock_at E 0 + ttl_duration ttlSeconds) in
      case fault_at E 0 of
        Some err \<Rightarrow> (False, db)
      | None \<Rightarrow>
         (has_key key db \<and> fault_at E 1 = None,
          kv_update (\<lambda>r. kvKey r = key) (\<lambda>r. r\<lparr>kvExpiresAt := Some expiry\<rparr>) db))"

definition KVRunMaintenance :: "store_env \<Rightarrow> gateway_db \<Rightarrow> unit result \<times> gateway_db" where
  "KVRunMaintenance E db =
     (let now = FormatTimestamp (clock_at E 0) in
      case fault_at E 0 of
        Some err \<Rightarrow> (Inl (Errorf ''failed to cleanup expired kv entries: %w'' [] [err]), db)
      | None \<Rightarrow> (Inr (), kv_delete (\<lambda>r. expired now (kvExpiresAt r)) db))"

end
