(* ===== verification/Gateway_Stores.thy ===== *)
theory Gateway_Stores
  imports Gateway_DB Sqlite_Tx
begin

text \<open>
  The blob store and the document store of the gateway
  (\<open>blob_store_service.go\<close>, \<open>document_store_service.go\<close>), and the union of all
  operations that change the coordination store.
\<close>

section \<open>Blobs\<close>

definition is_blob :: "string \<Rightarrow> string \<Rightarrow> blob_row \<Rightarrow> bool" where
  "is_blob namespace blobID r \<longleftrightarrow> bNamespace r = namespace \<and> bId r = blobID"

definition BlobPut ::
    "store_env \<Rightarrow> gateway_db \<Rightarrow> string \<Rightarrow> string \<Rightarrow> bytes \<Rightarrow> string \<Rightarrow> int \<Rightarrow> unit result \<times> gateway_db" where
  "BlobPut E db namespace blobID data contentType ttlSeconds =
     (let now = FormatTimestamp (clock_at E 0); expiresAt = ttl_expiry E ttlSeconds in
      case fault_at E 0 of
        Some err \<Rightarrow> (Inl (wrap ''blob_store: put %s/%s: %w'' (Gateway ErrBlobStorePutFailed) [namespace, blobID]), db)
      | None \<Rightarrow>
         (Inr (),
          if list_ex (is_blob namespace blobID) (blobs db)
          then blob_update (is_blob namespace blobID)
                 (\<lambda>r. r\<lparr>bSize := int (length data), bContentType := contentType, bData := data,
                       bExpiresAt := expiresAt\<rparr>) db
          else blob_insert \<lparr>bId = blobID, bNamespace = namespace, bSize = int (length data),
                 bContentType = contentType, bData = data, bCreatedAt = now, bExpiresAt = expiresAt,
                 bTier = tier_bound\<rparr> db))"

definition BlobPutObserved ::
    "store_env \<Rightarrow> gateway_db \<Rightarrow> string \<Rightarrow> string \<Rightarrow> bytes \<Rightarrow> string \<Rightarrow> int \<Rightarrow> unit result \<times> gateway_db" where
  "BlobPutObserved E db namespace blobID data contentType ttlSeconds =
     (let now = FormatTimestamp (clock_at E 0); expiresAt = ttl_expiry E ttlSeconds in
      case fault_at E 0 of
        Some err \<Rightarrow>
          (Inl (wrap ''blob_store: put observed %s/%s: %w'' (Gateway ErrBlobStorePutFailed) [namespace, blobID]), db)
      | None \<Rightarrow>
         (Inr (),
          if list_ex (is_blob namespace blobID) (blobs db)
          then blob_update (is_blob namespace blobID)
                 (\<lambda>r. r\<lparr>bSize := int (length data), bContentType := contentType, bData := data,
                       bExpiresAt := expiresAt, bTier := tier_observed\<rparr>) db
          else blob_insert \<lparr>bId = blobID, bNamespace = namespace, bSize = int (length data),
                 bContentType = contentType, bData = data, bCreatedAt = now, bExpiresAt = expiresAt,
                 bTier = tier_observed\<rparr> db))"

definition find_blob :: "store_env \<Rightarrow> gateway_db \<Rightarrow> string \<Rightarrow> string \<Rightarrow> blob_row option" where
  "find_blob E db namespace blobID =
     (case fault_at E 0 of
        Some err \<Rightarrow> None
      | None \<Rightarrow>
         find (\<lambda>r. is_blob namespace blobID r \<and> active (FormatTimestamp (clock_at E 0)) (bExpiresAt r)) (blobs db))"

definition BlobGet :: "store_env \<Rightarrow> gateway_db \<Rightarrow> string \<Rightarrow> string \<Rightarrow> (bytes \<times> string) option" where
  "BlobGet E db namespace blobID = map_option (\<lambda>r. (bData r, bContentType r)) (find_blob E db namespace blobID)"

record BlobRecord =
  brID :: string
  brNamespace :: string
  brSize :: int
  brContentType :: string
  brCreatedAt :: time

definition BlobMeta :: "store_env \<Rightarrow> gateway_db \<Rightarrow> string \<Rightarrow> string \<Rightarrow> BlobRecord option" where
  "BlobMeta E db namespace blobID =
     (case find_blob E db namespace blobID of
        None \<Rightarrow> None
      | Some r \<Rightarrow>
         (case ParseTimestamp (bCreatedAt r) of
            Inl err \<Rightarrow> None
          | Inr t \<Rightarrow>
              Some \<lparr>brID = bId r, brNamespace = bNamespace r, brSize = bSize r, brContentType = bContentType r,
                    brCreatedAt = t\<rparr>))"

definition BlobDelete :: "store_env \<Rightarrow> gateway_db \<Rightarrow> string \<Rightarrow> string \<Rightarrow> bool result \<times> gateway_db" where
  "BlobDelete E db namespace blobID =
     (case fault_at E 0 of
        Some err \<Rightarrow>
          (Inl (wrap ''blob_store: delete %s/%s: %w'' (Gateway ErrBlobStoreDeleteFailed) [namespace, blobID]), db)
      | None \<Rightarrow>
         ((case rows_affected E (length (filter (is_blob namespace blobID) (blobs db))) of
             Inl err \<Rightarrow> Inl (wrap ''blob_store: rows affected: %w'' (Sys ErrInternal) [])
           | Inr n \<Rightarrow> Inr (n > 0)),
          blob_delete (is_blob namespace blobID) db))"

definition BlobDeleteNamespace :: "store_env \<Rightarrow> gateway_db \<Rightarrow> string \<Rightarrow> nat result \<times> gateway_db" where
  "BlobDeleteNamespace E db namespace =
     (case fault_at E 0 of
        Some err \<Rightarrow>
          (Inl (wrap ''blob_store: delete namespace %s: %w'' (Gateway ErrBlobStoreDeleteFailed) [namespace]), db)
      | None \<Rightarrow>
         ((case rows_affected E (length (filter (\<lambda>r. bNamespace r = namespace) (blobs db))) of
             Inl err \<Rightarrow> Inl (wrap ''blob_store: rows affected: %w'' (Sys ErrInternal) [])
           | Inr n \<Rightarrow> Inr n),
          blob_delete (\<lambda>r. bNamespace r = namespace) db))"

definition BlobRunMaintenance :: "store_env \<Rightarrow> gateway_db \<Rightarrow> unit result \<times> gateway_db" where
  "BlobRunMaintenance E db =
     (let now = FormatTimestamp (clock_at E 0) in
      case fault_at E 0 of
        Some err \<Rightarrow> (Inl (wrap ''blob_store: cleanup: %w'' (Gateway ErrBlobStoreCleanupFailed) []), db)
      | None \<Rightarrow> (Inr (), blob_delete (\<lambda>r. expired now (bExpiresAt r)) db))"

section \<open>Documents\<close>

text \<open>\<open>encoding/json\<close> on objects with raw values: \<open>jObject\<close> decodes into
  \<open>map[string]json.RawMessage\<close>, a list of distinct keys with their raw values (\<open>None\<close> is
  the nil map that \<open>null\<close> gives), \<open>jMarshal\<close> encodes it, and \<open>jNull\<close> says that a raw value decodes to \<open>nil\<close>.\<close>

type_synonym object = "(string \<times> bytes) list"

record json_codec =
  jObject :: "bytes \<Rightarrow> object option result"
  jMarshal :: "object \<Rightarrow> bytes result"
  jNull :: "bytes \<Rightarrow> bool"

record Document =
  docCollection :: string
  docIdent :: string
  docData :: "object option"
  docCreatedAt :: time
  docUpdatedAt :: time

definition is_doc :: "string \<Rightarrow> string \<Rightarrow> doc_row \<Rightarrow> bool" where
  "is_doc collection docID r \<longleftrightarrow> dCollection r = collection \<and> dId r = docID"

definition scanDocument :: "json_codec \<Rightarrow> doc_row \<Rightarrow> Document result" where
  "scanDocument J r =
     (case ParseTimestamp (dCreatedAt r) of
        Inl err \<Rightarrow> Inl (Errorf ''%w: %w'' [] [Sentinel (Gateway ErrDocumentStoreParseCreatedAt), err])
      | Inr createdAt \<Rightarrow>
         (case ParseTimestamp (dUpdatedAt r) of
            Inl err \<Rightarrow> Inl (Errorf ''%w: %w'' [] [Sentinel (Gateway ErrDocumentStoreParseUpdatedAt), err])
          | Inr updatedAt \<Rightarrow>
             (case jObject J (dData r) of
                Inl err \<Rightarrow> Inl (Errorf ''%w: %w'' [] [Sentinel (Sys ErrDocumentStoreUnmarshalData), err])
              | Inr data \<Rightarrow>
                 Inr \<lparr>docCollection = dCollection r, docIdent = dId r, docData = data, docCreatedAt = createdAt,
                      docUpdatedAt = updatedAt\<rparr>)))"

definition docGet :: "json_codec \<Rightarrow> store_env \<Rightarrow> gateway_db \<Rightarrow> string \<Rightarrow> string \<Rightarrow> Document option result" where
  "docGet J E db collection docID =
     (case fault_at E 0 of
        Some err \<Rightarrow> Inl (Errorf ''gateway: document store: get: %w'' [] [err])
      | None \<Rightarrow>
         (case find (is_doc collection docID) (documents db) of
            None \<Rightarrow> Inr None
          | Some r \<Rightarrow> (case scanDocument J r of Inl err \<Rightarrow> Inl err | Inr d \<Rightarrow> Inr (Some d))))"

text \<open>The stored form of a submitted document: the keys the service manages are dropped.\<close>

definition managed_keys :: "string list" where
  "managed_keys = [''id'', ''created_at'', ''updated_at'']"

definition stored_form :: "json_codec \<Rightarrow> bytes \<Rightarrow> bytes result" where
  "stored_form J data =
     (case jObject J data of
        Inl err \<Rightarrow> Inl (Errorf ''%w: %w'' [] [Sentinel (Gateway ErrDocumentStoreUnmarshalDocument), err])
      | Inr userDoc \<Rightarrow>
         (case jMarshal J (filter (\<lambda>(k, v). k \<notin> set managed_keys) (case userDoc of None \<Rightarrow> [] | Some m \<Rightarrow> m)) of
            Inl err \<Rightarrow> Inl (Errorf ''%w: %w'' [] [Sentinel (Sys ErrDocumentStoreMarshalDocument), err])
          | Inr dataJSON \<Rightarrow> Inr dataJSON))"

definition DocCreate ::
    "sqlite \<Rightarrow> json_codec \<Rightarrow> store_env \<Rightarrow> gateway_db \<Rightarrow> string \<Rightarrow> string \<Rightarrow> bytes \<Rightarrow> unit result \<times> gateway_db" where
  "DocCreate Q J E db collection docID data =
     (case stored_form J data of
        Inl err \<Rightarrow> (Inl err, db)
      | Inr dataJSON \<Rightarrow>
         (let nowStr = FormatTimestamp (clock_at E 0) in
          case fault_at E 0 of
            Some err \<Rightarrow>
              (Inl (if IsUniqueConstraintError (error_text E) err then Sentinel (Sys ErrAlreadyExists)
                    else Errorf ''gateway: document store: create: %w'' [] [err]), db)
          | None \<Rightarrow>
             if list_ex (is_doc collection docID) (documents db) then (Inl (Sentinel (Sys ErrAlreadyExists)), db)
             else (Inr (), doc_insert Q \<lparr>dCollection = collection, dId = docID, dData = dataJSON,
                     dCreatedAt = nowStr, dUpdatedAt = nowStr\<rparr> db)))"

definition DocSetWithTimestamps ::
    "sqlite \<Rightarrow> json_codec \<Rightarrow> store_env \<Rightarrow> gateway_db \<Rightarrow> string \<Rightarrow> string \<Rightarrow> bytes \<Rightarrow> time \<Rightarrow> time \<Rightarrow>
     unit result \<times> gateway_db" where
  "DocSetWithTimestamps Q J E db collection docID data createdAt updatedAt =
     (case stored_form J data of
        Inl err \<Rightarrow> (Inl err, db)
      | Inr dataJSON \<Rightarrow>
         (let now = clock_at E 0;
              createdAtStr = FormatTimestamp (if createdAt = zero_time then now else createdAt);
              updatedAtStr = FormatTimestamp (if updatedAt = zero_time then now else updatedAt) in
          case fault_at E 0 of
            Some err \<Rightarrow> (Inl (Errorf ''gateway: document store: set with timestamps: %w'' [] [err]), db)
          | None \<Rightarrow>
             (Inr (),
              if list_ex (is_doc collection docID) (documents db)
              then doc_update Q (is_doc collection docID) (\<lambda>r. r\<lparr>dData := dataJSON, dUpdatedAt := updatedAtStr\<rparr>) db
              else doc_insert Q \<lparr>dCollection = collection, dId = docID, dData = dataJSON,
                     dCreatedAt = createdAtStr, dUpdatedAt = updatedAtStr\<rparr> db)))"

definition DocSet ::
    "sqlite \<Rightarrow> json_codec \<Rightarrow> store_env \<Rightarrow> gateway_db \<Rightarrow> string \<Rightarrow> string \<Rightarrow> bytes \<Rightarrow> unit result \<times> gateway_db" where
  "DocSet Q J E db collection docID data = DocSetWithTimestamps Q J E db collection docID data zero_time zero_time"

definition DocReplace ::
    "sqlite \<Rightarrow> json_codec \<Rightarrow> store_env \<Rightarrow> gateway_db \<Rightarrow> string \<Rightarrow> string \<Rightarrow> bytes \<Rightarrow> unit result \<times> gateway_db" where
  "DocReplace = DocSet"

text \<open>One turn of the merge loop of \<open>DocUpdate\<close>: managed keys are skipped, null values remove a
  key.\<close>

definition merge_field :: "json_codec \<Rightarrow> object \<Rightarrow> string \<times> bytes \<Rightarrow> object" where
  "merge_field J doc kv =
     (case kv of (k, v) \<Rightarrow>
        if k \<in> set managed_keys then doc
        else if jNull J v then filter (\<lambda>(k', v'). k' \<noteq> k) doc
        else (k, v) # filter (\<lambda>(k', v'). k' \<noteq> k) doc)"

text \<open>A nil map cannot be assigned to: the program panics, which is an error of its own here.\<close>

definition assigns :: "json_codec \<Rightarrow> object \<Rightarrow> bool" where
  "assigns J incoming \<longleftrightarrow> list_ex (\<lambda>(k, v). k \<notin> set managed_keys \<and> \<not> jNull J v) incoming"

text \<open>The row is read and written by two statements: \<open>db0\<close> is the store at the first and
  \<open>db\<close> at the second.\<close>

definition DocUpdate ::
    "sqlite \<Rightarrow> json_codec \<Rightarrow> store_env \<Rightarrow> gateway_db \<Rightarrow> gateway_db \<Rightarrow> string \<Rightarrow> string \<Rightarrow> bytes \<Rightarrow>
     Document result \<times> gateway_db" where
  "DocUpdate Q J E db0 db collection docID flds =
     (case fault_at E 0 of
        Some err \<Rightarrow> (Inl err, db)
      | None \<Rightarrow>
         (case find (is_doc collection docID) (documents db0) of
            None \<Rightarrow> (Inl (Sentinel (Sys ErrNotFound)), db)
          | Some row \<Rightarrow>
             (case jObject J (dData row) of
                Inl err \<Rightarrow> (Inl (Errorf ''gateway: document store: update: unmarshal existing: %w'' [] [err]), db)
              | Inr doc \<Rightarrow>
                 (case jObject J flds of
                    Inl err \<Rightarrow> (Inl (Errorf ''%w: %w'' [] [Sentinel (Gateway ErrDocumentStoreUnmarshalFields), err]), db)
                  | Inr inc \<Rightarrow>
                     (let incoming = (case inc of None \<Rightarrow> [] | Some m \<Rightarrow> m) in
                      if doc = None \<and> assigns J incoming
                      then (Inl (Errorf ''panic: assignment to entry in nil map'' [] []), db)
                      else
                       (case jMarshal J (foldl (merge_field J) (case doc of None \<Rightarrow> [] | Some m \<Rightarrow> m) incoming) of
                          Inl err \<Rightarrow> (Inl (Errorf ''gateway: document store: update: marshal: %w'' [] [err]), db)
                        | Inr dataJSON \<Rightarrow>
                           (let nowStr = FormatTimestamp (clock_at E 0) in
                            case fault_at E 1 of
                              Some err \<Rightarrow> (Inl (Errorf ''gateway: document store: update: %w'' [] [err]), db)
                            | None \<Rightarrow>
                               (scanDocument J (row\<lparr>dData := dataJSON, dUpdatedAt := nowStr\<rparr>),
                                doc_update Q (is_doc collection docID)
                                  (\<lambda>r. r\<lparr>dData := dataJSON, dUpdatedAt := nowStr\<rparr>) db))))))))"

definition DocMerge ::
    "sqlite \<Rightarrow> json_codec \<Rightarrow> store_env \<Rightarrow> gateway_db \<Rightarrow> gateway_db \<Rightarrow> string \<Rightarrow> string \<Rightarrow> bytes \<Rightarrow>
     unit result \<times> gateway_db" where
  "DocMerge Q J E db0 db collection docID flds =
     (case DocUpdate Q J E db0 db collection docID flds of
        (Inl err, db') \<Rightarrow> (Inl err, db')
      | (Inr _, db') \<Rightarrow> (Inr (), db'))"

text \<open>\<open>decode\<close> stands for the token loop of \<open>decodeDocumentUpdateFields\<close>.\<close>

definition DocConditionalUpdate ::
    "sqlite \<Rightarrow> (bytes \<Rightarrow> (string \<times> bytes) list result) \<Rightarrow> store_env \<Rightarrow> gateway_db \<Rightarrow> string \<Rightarrow> string \<Rightarrow> bytes \<Rightarrow>
     string \<Rightarrow> bytes \<Rightarrow> bool result \<times> gateway_db" where
  "DocConditionalUpdate Q decode E db collection docID setFields conditionField conditionValue =
     (case decode setFields of
        Inl err \<Rightarrow> (Inl (Errorf ''gateway: document store: conditional update: decode fields: %w'' [] [err]), db)
      | Inr updates \<Rightarrow>
         (let nowStr = FormatTimestamp (clock_at E 0);
              hit = (\<lambda>r. is_doc collection docID r \<and> sqJsonEq Q (dData r) (''$.'' @ conditionField) conditionValue) in
          case fault_at E 0 of
            Some err \<Rightarrow> (Inl (Errorf ''gateway: document store: conditional update: %w'' [] [err]), db)
          | None \<Rightarrow>
             ((case rows_affected E (length (filter hit (documents db))) of
                 Inl err \<Rightarrow> Inl (Errorf ''gateway: document store: conditional update: rows affected: %w'' [] [err])
               | Inr n \<Rightarrow> Inr (n > 0)),
              doc_update Q hit
                (\<lambda>r. r\<lparr>dData := foldl (\<lambda>d (name, v). sqJsonSet Q d (''$.'' @ name) v) (dData r) updates,
                      dUpdatedAt := nowStr\<rparr>) db)))"

definition DocDeleteWithResult ::
    "sqlite \<Rightarrow> store_env \<Rightarrow> gateway_db \<Rightarrow> string \<Rightarrow> string \<Rightarrow> bool result \<times> gateway_db" where
  "DocDeleteWithResult Q E db collection docID =
     (case fault_at E 0 of
        Some err \<Rightarrow> (Inl (Errorf ''gateway: document store: delete: %w'' [] [err]), db)
      | None \<Rightarrow>
         ((case rows_affected E (length (filter (is_doc collection docID) (documents db))) of
             Inl err \<Rightarrow> Inl (Errorf ''gateway: document store: delete: rows affected: %w'' [] [err])
           | Inr n \<Rightarrow> Inr (n > 0)),
          doc_delete Q (is_doc collection docID) db))"

definition DocDelete :: "sqlite \<Rightarrow> store_env \<Rightarrow> gateway_db \<Rightarrow> string \<Rightarrow> string \<Rightarrow> unit result \<times> gateway_db" where
  "DocDelete Q E db collection docID =
     (case DocDeleteWithResult Q E db collection docID of
        (Inl err, db') \<Rightarrow> (Inl err, db')
      | (Inr _, db') \<Rightarrow> (Inr (), db'))"

definition DocDeleteNamespace :: "sqlite \<Rightarrow> store_env \<Rightarrow> gateway_db \<Rightarrow> string \<Rightarrow> nat result \<times> gateway_db" where
  "DocDeleteNamespace Q E db collection =
     (case fault_at E 0 of
        Some err \<Rightarrow> (Inl (Errorf ''gateway: document store: delete namespace: %w'' [] [err]), db)
      | None \<Rightarrow>
         ((case rows_affected E (length (filter (\<lambda>r. dCollection r = collection) (documents db))) of
             Inl err \<Rightarrow> Inl (Errorf ''gateway: document store: delete namespace: rows affected: %w'' [] [err])
           | Inr n \<Rightarrow> Inr n),
          doc_delete Q (\<lambda>r. dCollection r = collection) db))"

end
