(* ===== verification/Token_Vault.thy ===== *)
theory Token_Vault
  imports Gateway_Stores Audit_Store
begin

text \<open>
  The tokens of the boundary that hides sensitive values from a cloud model
  (\<open>services/scrubbing/boundary.go\<close>): a value is replaced by a token \<open>{{UEI_n}}\<close>, kept in
  memory and in an encrypted store, and put back before a command is executed. The store is the
  adapter of \<open>services/gateway/encrypted_kv_adapter.go\<close> over the key-value store. A call that
  makes several statements takes one environment per statement. Go ranges over a map in an order
  that the argument \<open>ord\<close> chooses.
\<close>

section \<open>The encrypted store\<close>

definition SentinelKeyPrefix :: string where
  "SentinelKeyPrefix = ''g8e:sentinel:''"

definition ScrubbingTokenKeyPrefix :: string where
  "ScrubbingTokenKeyPrefix = ''uei_token_''"

definition TokenStore_KVSet ::
    "vault \<Rightarrow> store_env \<Rightarrow> gateway_db \<Rightarrow> string \<Rightarrow> string \<Rightarrow> int \<Rightarrow> unit result \<times> gateway_db" where
  "TokenStore_KVSet V E db key value ttlSeconds =
     (if \<not> vUnlocked V
      then (Inl (wrap ''encrypted_kv_adapter: cannot encrypt key %s: %w'' (Vlt ErrVaultLocked) [key]), db)
      else case vEncrypt V value of
        Inl err \<Rightarrow> (Inl (Errorf ''failed to encrypt value for key %s: %w'' [key] [err]), db)
      | Inr encrypted \<Rightarrow> KVSetObserved E db (SentinelKeyPrefix @ key) encrypted ttlSeconds)"

definition TokenStore_KVGet :: "vault \<Rightarrow> store_env \<Rightarrow> gateway_db \<Rightarrow> string \<Rightarrow> string result" where
  "TokenStore_KVGet V E db key =
     (case KVGet E db (SentinelKeyPrefix @ key) of
        None \<Rightarrow> Inl (wrap ''encrypted_kv_adapter: key %s: %w'' (Scrub ErrKeyNotFound) [key])
      | Some value \<Rightarrow>
         if \<not> vUnlocked V
         then Inl (wrap ''encrypted_kv_adapter: cannot decrypt key %s: %w'' (Vlt ErrVaultLocked) [key])
         else case vDecrypt V value of
           Inl err \<Rightarrow> Inl (Errorf ''failed to decrypt value for key %s: %w'' [key] [err])
         | Inr decrypted \<Rightarrow> Inr decrypted)"

definition TrimPrefix :: "string \<Rightarrow> string \<Rightarrow> string" where
  "TrimPrefix s pre = (if HasPrefix s pre then drop (length pre) s else s)"

text \<open>The loop over the keys; a key that is gone by now is skipped. Statement \<open>i\<close> of the loop has
  the environment \<open>Es i\<close>.\<close>

fun scan_keys :: "vault \<Rightarrow> (nat \<Rightarrow> store_env) \<Rightarrow> gateway_db \<Rightarrow> nat \<Rightarrow> string list \<Rightarrow> (string \<times> string) list result" where
  "scan_keys V Es db i [] = Inr []"
| "scan_keys V Es db i (fullKey # keys) =
     (case KVGet (Es i) db fullKey of
        None \<Rightarrow> scan_keys V Es db (Suc i) keys
      | Some value \<Rightarrow>
         (case vDecrypt V value of
            Inl err \<Rightarrow> Inl (Errorf ''failed to decrypt value for key %s: %w'' [fullKey] [err])
          | Inr decrypted \<Rightarrow>
             (case scan_keys V Es db (Suc i) keys of
                Inl err \<Rightarrow> Inl err
              | Inr rest \<Rightarrow> Inr ((TrimPrefix fullKey SentinelKeyPrefix, decrypted) # rest))))"

definition TokenStore_KVScanPrefix ::
    "sqlite \<Rightarrow> vault \<Rightarrow> (nat \<Rightarrow> store_env) \<Rightarrow> gateway_db \<Rightarrow> string \<Rightarrow> (string \<times> string) list result" where
  "TokenStore_KVScanPrefix Q V Es db pre =
     (case KVKeys Q (Es 0) db (SentinelKeyPrefix @ pre @ ''*'') of
        Inl err \<Rightarrow> Inl (Errorf ''failed to scan keys with prefix %q: %w'' [pre] [err])
      | Inr fullKeys \<Rightarrow>
         if \<not> vUnlocked V
         then Inl (wrap ''encrypted_kv_adapter: cannot decrypt prefix %s: %w'' (Vlt ErrVaultLocked) [pre])
         else scan_keys V Es db 1 fullKeys)"

section \<open>Strings\<close>

text \<open>\<open>strings.ReplaceAll\<close> for a non-empty \<open>old\<close>.\<close>

function ReplaceAll :: "string \<Rightarrow> string \<Rightarrow> string \<Rightarrow> string" where
  "ReplaceAll s old new =
     (if s = [] \<or> old = [] then s
      else if HasPrefix s old then new @ ReplaceAll (drop (length old) s) old new
      else hd s # ReplaceAll (tl s) old new)"
  by pat_completeness auto
termination
  by (relation "measure (\<lambda>(s, old, new). length s)") (auto simp: length_greater_0_conv[symmetric] simp del: length_greater_0_conv)

declare ReplaceAll.simps [simp del]

definition is_digit :: "char \<Rightarrow> bool" where
  "is_digit c \<longleftrightarrow> 48 \<le> (of_char c :: nat) \<and> (of_char c :: nat) \<le> 57"

abbreviation token_open :: string where "token_open \<equiv> ''{{UEI_''"
abbreviation token_close :: string where "token_close \<equiv> ''}}''"

text \<open>\<open>tokenPattern\<close> at the front of a string: the token.\<close>

definition match_token :: "string \<Rightarrow> string option" where
  "match_token s =
     (if HasPrefix s token_open
      then let rest = drop (length token_open) s; ds = takeWhile is_digit rest in
           if ds \<noteq> [] \<and> HasPrefix (drop (length ds) rest) token_close then Some (token_open @ ds @ token_close) else None
      else None)"

text \<open>\<open>tokenPattern.FindAllString(s, -1)\<close>: matches from left to right without overlap.\<close>

function FindAllTokens :: "string \<Rightarrow> string list" where
  "FindAllTokens s =
     (if s = [] then []
      else case match_token s of
        Some t \<Rightarrow> t # FindAllTokens (drop (length t) s)
      | None \<Rightarrow> FindAllTokens (tl s))"
  by pat_completeness auto
termination
proof (relation "measure length")
  fix s :: string and t
  assume "s \<noteq> []" and "match_token s = Some t"
  then show "(drop (length t) s, s) \<in> measure length"
    by (auto simp: match_token_def Let_def split: if_splits)
qed auto

declare FindAllTokens.simps [simp del]

text \<open>\<open>fmt.Sscanf(token, "{{UEI_%d}}", &seq)\<close>: the verb skips spaces (a line break is an error) and
  takes an optional sign and digits; what follows the closing braces is not looked at.\<close>

definition scan_space :: "nat \<Rightarrow> bool" where
  "scan_space r \<longleftrightarrow> r \<in> {9, 11, 12, 13, 32, 133, 160, 5760, 8232, 8233, 8239, 8287, 12288} \<or> 8192 \<le> r \<and> r \<le> 8202"

function skip_space :: "string \<Rightarrow> string" where
  "skip_space [] = []"
| "skip_space (c # cs) =
     (case decode_rune c cs of (r, rest) \<Rightarrow> if scan_space r then skip_space rest else c # cs)"
  by pat_completeness auto
termination
  by (relation "measure length") (auto simp: less_Suc_eq_le dest!: sym[of "(_, _)"] decode_rune_rest)

fun digits_value :: "nat \<Rightarrow> string \<Rightarrow> nat" where
  "digits_value acc [] = acc"
| "digits_value acc (c # cs) = digits_value (10 * acc + (of_char c - 48)) cs"

definition sscanf_token :: "string \<Rightarrow> int option" where
  "sscanf_token token =
     (if \<not> HasPrefix token token_open then None
      else let s = skip_space (drop (length token_open) token);
               neg = HasPrefix s ''-'';
               s1 = (if HasPrefix s ''-'' \<or> HasPrefix s ''+'' then tl s else s);
               ds = takeWhile is_digit s1;
               n = int (digits_value 0 ds);
               i = (if neg then - n else n)
           in if ds = [] \<or> \<not> in_int64 i \<or> \<not> HasPrefix (drop (length ds) s1) token_close then None else Some i)"

section \<open>The service\<close>

record Config =
  cfEnabled :: bool
  cfStrictMode :: bool
  cfMaxOutputLength :: int
  cfAllowedPatterns :: "string list"
  cfCustomScrubPatterns :: "(string \<times> string) list"
  cfRequirePersistence :: bool

definition DefaultConfig :: Config where
  "DefaultConfig = \<lparr>cfEnabled = True, cfStrictMode = True, cfMaxOutputLength = 4096, cfAllowedPatterns = [],
     cfCustomScrubPatterns = [], cfRequirePersistence = True\<rparr>"

text \<open>The token state; maps are lists of distinct keys.\<close>

record ScrubbingService =
  ssConfig :: Config
  tokenMap :: "(string \<times> string) list"
  reverseMap :: "(string \<times> string) list"
  tokenSequence :: int
  tokenStore :: "vault option"

definition map_put :: "string \<Rightarrow> string \<Rightarrow> (string \<times> string) list \<Rightarrow> (string \<times> string) list" where
  "map_put k v m = (k, v) # filter (\<lambda>(k', v'). k' \<noteq> k) m"

definition map_remove :: "string \<Rightarrow> (string \<times> string) list \<Rightarrow> (string \<times> string) list" where
  "map_remove k m = filter (\<lambda>(k', v'). k' \<noteq> k) m"

text \<open>One turn of the loop of \<open>loadPersistedTokens\<close>, with the largest sequence number so far.\<close>

definition load_token :: "ScrubbingService \<times> int \<Rightarrow> string \<times> string \<Rightarrow> ScrubbingService \<times> int" where
  "load_token st kv =
     (case st of (s, maxSequence) \<Rightarrow> case kv of (key, value) \<Rightarrow>
        let token = TrimPrefix key ScrubbingTokenKeyPrefix in
        if token = key then st
        else case sscanf_token token of
          None \<Rightarrow> st
        | Some seq \<Rightarrow>
           (s\<lparr>tokenMap := map_put token value (tokenMap s), reverseMap := map_put value token (reverseMap s)\<rparr>,
            max maxSequence seq))"

definition loadPersistedTokens ::
    "sqlite \<Rightarrow> (nat \<Rightarrow> store_env) \<Rightarrow> ((string \<times> string) list \<Rightarrow> (string \<times> string) list) \<Rightarrow> gateway_db \<Rightarrow>
     ScrubbingService \<Rightarrow> ScrubbingService result" where
  "loadPersistedTokens Q Es ord db s =
     (case tokenStore s of
        None \<Rightarrow> Inr s
      | Some V \<Rightarrow>
         (case TokenStore_KVScanPrefix Q V Es db ScrubbingTokenKeyPrefix of
            Inl err \<Rightarrow>
              Inl (Errorf ''scrubbing: load persisted tokens: %w: %w'' [] [Sentinel (Scrub ErrScrubbingTokenLoad), err])
          | Inr tokens \<Rightarrow>
             (case foldl load_token (s, 0) (ord tokens) of
                (s', maxSequence) \<Rightarrow> Inr (s'\<lparr>tokenSequence := maxSequence\<rparr>))))"

text \<open>\<open>NewScrubbingService\<close>, without the scrubbers.\<close>

definition NewScrubbingService ::
    "sqlite \<Rightarrow> (nat \<Rightarrow> store_env) \<Rightarrow> ((string \<times> string) list \<Rightarrow> (string \<times> string) list) \<Rightarrow> gateway_db \<Rightarrow>
     Config option \<Rightarrow> vault option \<Rightarrow> ScrubbingService result" where
  "NewScrubbingService Q Es ord db config store =
     loadPersistedTokens Q Es ord db
       \<lparr>ssConfig = (case config of None \<Rightarrow> DefaultConfig | Some c \<Rightarrow> c), tokenMap = [], reverseMap = [],
        tokenSequence = 0, tokenStore = store\<rparr>"

definition tokenTTLSeconds :: int where
  "tokenTTLSeconds = 24 * 60 * 60"

definition uei_token :: "int \<Rightarrow> string" where
  "uei_token n = token_open @ FormatInt n @ token_close"

text \<open>\<open>GetTokenForValue\<close>; the empty token is its refusal.\<close>

definition GetTokenForValue ::
    "store_env \<Rightarrow> gateway_db \<Rightarrow> string \<Rightarrow> ScrubbingService \<Rightarrow> string \<times> ScrubbingService \<times> gateway_db" where
  "GetTokenForValue E db value s =
     (if value = [] then ([], s, db)
      else if cfRequirePersistence (ssConfig s) \<and> tokenStore s = None then ([], s, db)
      else case map_of (reverseMap s) value of
        Some token \<Rightarrow> (token, s, db)
      | None \<Rightarrow>
         (let seq = tokenSequence s + 1; token = uei_token seq;
              s' = s\<lparr>tokenSequence := seq, tokenMap := map_put token value (tokenMap s),
                     reverseMap := map_put value token (reverseMap s)\<rparr> in
          case tokenStore s of
            None \<Rightarrow> (token, s', db)
          | Some V \<Rightarrow>
             (case TokenStore_KVSet V E db (ScrubbingTokenKeyPrefix @ token) value tokenTTLSeconds of
                (Inl err, db') \<Rightarrow>
                  ([], s'\<lparr>tokenMap := map_remove token (tokenMap s'), reverseMap := map_remove value (reverseMap s'),
                         tokenSequence := seq - 1\<rparr>, db')
              | (Inr _, db') \<Rightarrow> (token, s', db'))))"

definition ClearTokens :: "ScrubbingService \<Rightarrow> ScrubbingService" where
  "ClearTokens s = s\<lparr>tokenMap := [], reverseMap := [], tokenSequence := 0\<rparr>"

section \<open>Rehydration\<close>

text \<open>The loop over the tokens found in the text; \<open>known\<close> are those in memory when it began.
  The lookup of the \<open>i\<close>-th token has the environment \<open>Es i\<close>.\<close>

fun rehydrate_stored ::
    "vault \<Rightarrow> (nat \<Rightarrow> store_env) \<Rightarrow> gateway_db \<Rightarrow> string list \<Rightarrow> nat \<Rightarrow> string list \<Rightarrow> string \<Rightarrow> ScrubbingService \<Rightarrow>
     string \<times> ScrubbingService" where
  "rehydrate_stored V Es db known i [] result s = (result, s)"
| "rehydrate_stored V Es db known i (token # tokens) result s =
     (if token \<in> set known then rehydrate_stored V Es db known (Suc i) tokens result s
      else case TokenStore_KVGet V (Es i) db (ScrubbingTokenKeyPrefix @ token) of
        Inl err \<Rightarrow> rehydrate_stored V Es db known (Suc i) tokens result s
      | Inr value \<Rightarrow>
          rehydrate_stored V Es db known (Suc i) tokens (ReplaceAll result token value)
            (s\<lparr>tokenMap := map_put token value (tokenMap s), reverseMap := map_put value token (reverseMap s)\<rparr>))"

definition RehydrateText ::
    "(nat \<Rightarrow> store_env) \<Rightarrow> ((string \<times> string) list \<Rightarrow> (string \<times> string) list) \<Rightarrow> gateway_db \<Rightarrow> string \<Rightarrow>
     ScrubbingService \<Rightarrow> string \<times> ScrubbingService" where
  "RehydrateText Es ord db input s =
     (if input = [] then (input, s)
      else if tokenMap s = [] \<and> tokenStore s = None then (input, s)
      else
       (let result = foldl (\<lambda>r (token, value). ReplaceAll r token value) input (ord (tokenMap s)) in
        case tokenStore s of
          None \<Rightarrow> (result, s)
        | Some V \<Rightarrow>
            rehydrate_stored V Es db (filter (\<lambda>t. t \<in> fst ` set (tokenMap s)) (FindAllTokens result)) 0
              (FindAllTokens result) result s))"

text \<open>The text that \<open>TokenKeymapHash\<close> hashes, and the hash.\<close>

definition keymap_lines :: "(string \<times> string) list \<Rightarrow> bytes" where
  "keymap_lines m =
     concat (map (\<lambda>token. token @ '':'' @ the (map_of m token) @ [CHR 0x0A]) (sort (map fst m)))"

definition TokenKeymapHash :: "crypto \<Rightarrow> ScrubbingService \<Rightarrow> string" where
  "TokenKeymapHash C s = (if tokenMap s = [] then [] else sha256_hex C (keymap_lines (tokenMap s)))"

end
