(* ===== verification/Token_Facts.thy ===== *)
theory Token_Facts
  imports Token_Vault Json_Text
begin

text \<open>
  Rehydration puts values back. A scrubbed text is a list of characters and tokens; replacing
  tokens one by one in any order, from memory or from the store, gives the text with the values,
  as long as the restored text does not itself spell the opening of a token.
\<close>

section \<open>Texts with tokens\<close>

definition tok :: "string \<Rightarrow> string" where
  "tok d = token_open @ d @ token_close"

lemma tok_nonempty [simp]: "tok d \<noteq> []"
  by (simp add: tok_def)

definition numeral_text :: "string \<Rightarrow> bool" where
  "numeral_text d \<longleftrightarrow> d \<noteq> [] \<and> list_all is_digit d"

type_synonym item = "char + string"

definition spell :: "(string \<Rightarrow> string) \<Rightarrow> item list \<Rightarrow> string" where
  "spell f items = concat (map (case_sum (\<lambda>c. [c]) f) items)"

lemma spell_simps [simp]:
  "spell f [] = []" "spell f (Inl c # xs) = c # spell f xs" "spell f (Inr d # xs) = f d @ spell f xs"
  "spell f (xs @ ys) = spell f xs @ spell f ys"
  by (simp_all add: spell_def)

lemma spell_chars [simp]: "spell f (map Inl s) = s"
  by (induction s) simp_all

definition token_free :: "string \<Rightarrow> bool" where
  "token_free z \<longleftrightarrow> (\<nexists>a b. z = a @ token_open @ b)"

lemma token_free_append: "token_free (a @ z) \<Longrightarrow> token_free z"
  unfolding token_free_def by (metis append.assoc)

lemma token_free_Cons: "token_free (c # z) \<Longrightarrow> token_free z"
  using token_free_append[of "[c]" z] by simp

lemma HasPrefix_iff: "HasPrefix s p \<longleftrightarrow> (\<exists>r. s = p @ r)"
  unfolding HasPrefix_def by (metis append_eq_conv_conj append_take_drop_id)

text \<open>The rest of an opening cannot run from characters into a token.\<close>

lemma opening_rest:
  assumes "spell tok xs = rest @ r" and "rest \<in> {''{UEI_'', ''UEI_'', ''EI_'', ''I_'', ''_'', []}"
  shows "\<exists>r'. spell val xs = rest @ r'"
  using assms
proof (induction xs arbitrary: rest)
  case (Cons x xs)
  show ?case
  proof (cases "rest = []")
    case False
    then obtain c rest' where rest: "rest = c # rest'" by (cases rest) auto
    show ?thesis
    proof (cases x)
      case (Inl a)
      then have "spell tok xs = rest' @ r" "a = c" using Cons.prems(1) rest by simp_all
      moreover have "rest' \<in> {''{UEI_'', ''UEI_'', ''EI_'', ''I_'', ''_'', []}" using Cons.prems(2) rest by auto
      ultimately show ?thesis using Cons.IH[of rest'] Inl rest by auto
    next
      case (Inr d)
      then show ?thesis using Cons.prems by (auto simp: tok_def)
    qed
  qed simp
qed auto

lemma no_opening:
  assumes "token_free (spell val (Inl c # xs))"
  shows "\<not> HasPrefix (c # spell tok xs) (token_open @ d)"
proof
  assume "HasPrefix (c # spell tok xs) (token_open @ d)"
  then obtain r where r: "c # spell tok xs = token_open @ d @ r" by (auto simp: HasPrefix_iff)
  then have "spell tok xs = ''{UEI_'' @ d @ r" "c = CHR ''{''" by simp_all
  from opening_rest[OF this(1)] obtain r' where "spell val xs = ''{UEI_'' @ r'" by auto
  then have "spell val (Inl c # xs) = [] @ token_open @ r'" using \<open>c = CHR ''{''\<close> by simp
  with assms show False unfolding token_free_def by blast
qed

section \<open>One replacement\<close>

lemma ReplaceAll_Nil [simp]: "ReplaceAll [] old new = []"
  by (simp add: ReplaceAll.simps)

lemma ReplaceAll_hit: "old \<noteq> [] \<Longrightarrow> ReplaceAll (old @ s) old new = new @ ReplaceAll s old new"
  by (subst ReplaceAll.simps) (auto simp: HasPrefix_iff)

lemma ReplaceAll_miss: "old \<noteq> [] \<Longrightarrow> \<not> HasPrefix (c # s) old \<Longrightarrow> ReplaceAll (c # s) old new = c # ReplaceAll s old new"
  by (subst ReplaceAll.simps) simp

lemma ReplaceAll_pass:
  "CHR ''{'' \<notin> set u \<Longrightarrow> ReplaceAll (u @ s) (CHR ''{'' # old) new = u @ ReplaceAll s (CHR ''{'' # old) new"
proof (induction u)
  case (Cons a u)
  then have "\<not> HasPrefix (a # u @ s) (CHR ''{'' # old)" by (auto simp: HasPrefix_iff)
  from ReplaceAll_miss[OF _ this, of new] Cons show ?case by simp
qed simp

lemma is_digit_brace: "\<not> is_digit (CHR ''}'')" "\<not> is_digit (CHR ''{'')"
  by (simp_all add: is_digit_def)

lemma tok_unique:
  assumes "numeral_text d" "numeral_text e" and "tok e @ r = tok d @ t"
  shows "e = d"
proof -
  have "e @ CHR ''}'' # CHR ''}'' # r = d @ CHR ''}'' # CHR ''}'' # t" using assms(3) by (simp add: tok_def)
  then have "takeWhile is_digit (e @ CHR ''}'' # CHR ''}'' # r) = takeWhile is_digit (d @ CHR ''}'' # CHR ''}'' # t)" by simp
  then show ?thesis using assms(1,2) by (simp add: numeral_text_def list_all_iff takeWhile_append2 is_digit_brace)
qed

lemma ReplaceAll_other:
  assumes "numeral_text d" "numeral_text e" and "e \<noteq> d"
  shows "ReplaceAll (tok e @ s) (tok d) v = tok e @ ReplaceAll s (tok d) v"
proof -
  define u where "u = ''UEI_'' @ e @ token_close"
  have u: "CHR ''{'' \<notin> set u" using assms(2) is_digit_brace(2) by (auto simp: u_def numeral_text_def list_all_iff)
  have t: "tok e @ s = CHR ''{'' # CHR ''{'' # u @ s" by (simp add: tok_def u_def)
  have d: "tok d = CHR ''{'' # (CHR ''{'' # ''UEI_'' @ d @ token_close)" by (simp add: tok_def)
  have "\<not> HasPrefix (tok e @ s) (tok d)" using tok_unique[OF assms(1,2)] assms(3) by (auto simp: HasPrefix_iff)
  then have "ReplaceAll (tok e @ s) (tok d) v = CHR ''{'' # ReplaceAll (CHR ''{'' # u @ s) (tok d) v"
    unfolding t by (intro ReplaceAll_miss) (simp_all add: tok_def)
  also have "ReplaceAll (CHR ''{'' # u @ s) (tok d) v = CHR ''{'' # ReplaceAll (u @ s) (tok d) v"
    by (intro ReplaceAll_miss) (simp_all add: tok_def HasPrefix_iff u_def)
  also have "ReplaceAll (u @ s) (tok d) v = u @ ReplaceAll s (tok d) v"
    using ReplaceAll_pass[OF u] unfolding d .
  finally show ?thesis by (simp add: tok_def u_def)
qed

text \<open>The items after a token has been replaced by a value.\<close>

definition put :: "string \<Rightarrow> string \<Rightarrow> item list \<Rightarrow> item list" where
  "put d v items = concat (map (\<lambda>x. if x = Inr d then map Inl v else [x]) items)"

lemma put_simps [simp]:
  "put d v [] = []" "put d v (Inl c # xs) = Inl c # put d v xs"
  "put d v (Inr e # xs) = (if e = d then map Inl v else [Inr e]) @ put d v xs"
  by (simp_all add: put_def)

lemma put_value: "spell val (put d (val d) items) = spell val items"
proof (induction items)
  case (Cons x xs)
  then show ?case by (cases x) auto
qed simp

lemma put_tokens: "Inr e \<in> set (put d v items) \<longleftrightarrow> e \<noteq> d \<and> Inr e \<in> set items"
  by (auto simp: put_def)

definition numeral_items :: "item list \<Rightarrow> bool" where
  "numeral_items items \<longleftrightarrow> (\<forall>e. Inr e \<in> set items \<longrightarrow> numeral_text e)"

lemma replace_token:
  assumes "token_free (spell val items)" and "numeral_items items" and "numeral_text d"
  shows "ReplaceAll (spell tok items) (tok d) v = spell tok (put d v items)"
  using assms(1,2)
proof (induction items)
  case (Cons x xs)
  have IH: "ReplaceAll (spell tok xs) (tok d) v = spell tok (put d v xs)"
  proof (rule Cons.IH)
    show "token_free (spell val xs)" using Cons.prems(1) by (cases x) (auto dest: token_free_Cons token_free_append)
    show "numeral_items xs" using Cons.prems(2) by (simp add: numeral_items_def)
  qed
  show ?case
  proof (cases x)
    case (Inl c)
    have "\<not> HasPrefix (c # spell tok xs) (tok d)"
      using no_opening[OF Cons.prems(1)[unfolded Inl]] by (simp add: tok_def)
    then show ?thesis using Inl IH by (simp add: ReplaceAll_miss)
  next
    case (Inr e)
    then have e: "numeral_text e" using Cons.prems(2) by (simp add: numeral_items_def)
    show ?thesis
    proof (cases "e = d")
      case True
      then show ?thesis using Inr IH ReplaceAll_hit[of "tok d"] by simp
    next
      case False
      then show ?thesis using Inr IH ReplaceAll_other[OF assms(3) e] by simp
    qed
  qed
qed simp


section \<open>The loops\<close>

text \<open>The loop over the tokens in memory, in any order.\<close>

lemma replace_memory:
  assumes "token_free (spell val items)" and "numeral_items items"
    and "\<And>t v. (t, v) \<in> set m \<Longrightarrow> \<exists>d. numeral_text d \<and> t = tok d \<and> v = val d"
  shows "\<exists>items'. foldl (\<lambda>r (token, value). ReplaceAll r token value) (spell tok items) m = spell tok items' \<and>
     spell val items' = spell val items \<and> (\<forall>d. Inr d \<in> set items' \<longleftrightarrow> Inr d \<in> set items \<and> tok d \<notin> fst ` set m)"
  using assms
proof (induction m arbitrary: items)
  case (Cons x m)
  obtain d where x: "x = (tok d, val d)" "numeral_text d" using Cons.prems(3)[of "fst x" "snd x"] by (cases x) auto
  have step: "ReplaceAll (spell tok items) (tok d) (val d) = spell tok (put d (val d) items)"
    using Cons.prems(1,2) x(2) by (rule replace_token)
  have "token_free (spell val (put d (val d) items))" using Cons.prems(1) by (simp add: put_value)
  moreover have "numeral_items (put d (val d) items)" using Cons.prems(2) by (simp add: numeral_items_def put_tokens)
  moreover have "(t, v) \<in> set m \<Longrightarrow> \<exists>d. numeral_text d \<and> t = tok d \<and> v = val d" for t v
    using Cons.prems(3)[of t v] by simp
  ultimately obtain items' where i: "foldl (\<lambda>r (token, value). ReplaceAll r token value) (spell tok (put d (val d) items)) m = spell tok items'"
      "spell val items' = spell val items" "\<forall>e. Inr e \<in> set items' \<longleftrightarrow> Inr e \<in> set (put d (val d) items) \<and> tok e \<notin> fst ` set m"
    using Cons.IH[of "put d (val d) items"] by (auto simp: put_value)
  have "Inr e \<in> set items' \<longleftrightarrow> Inr e \<in> set items \<and> tok e \<notin> fst ` set (x # m)" for e
  proof -
    have "tok e = tok d \<longleftrightarrow> e = d" if "Inr e \<in> set items"
      using tok_unique[of d e "[]" "[]"] x(2) Cons.prems(2) that by (auto simp: numeral_items_def)
    then show ?thesis using i(3) x(1) by (auto simp: put_tokens)
  qed
  then show ?case using i(1,2) step x(1) by (intro exI[of _ items']) simp
qed auto

lemma match_token_tok:
  assumes "numeral_text d"
  shows "match_token (tok d @ s) = Some (tok d)"
proof -
  have "takeWhile is_digit (d @ CHR ''}'' # CHR ''}'' # s) = d"
    using assms by (simp add: numeral_text_def list_all_iff takeWhile_append2 is_digit_brace)
  then show ?thesis using assms by (simp add: match_token_def tok_def HasPrefix_def numeral_text_def Let_def)
qed

lemma match_token_none:
  assumes "token_free (spell val (Inl c # xs))"
  shows "match_token (c # spell tok xs) = None"
  using no_opening[OF assms, of "[]"] by (simp add: match_token_def)

lemma find_tokens:
  assumes "token_free (spell val items)" and "numeral_items items"
  shows "FindAllTokens (spell tok items) = map tok (concat (map (case_sum (\<lambda>_. []) (\<lambda>d. [d])) items))"
  using assms
proof (induction items)
  case (Cons x xs)
  have IH: "FindAllTokens (spell tok xs) = map tok (concat (map (case_sum (\<lambda>_. []) (\<lambda>d. [d])) xs))"
  proof (rule Cons.IH)
    show "token_free (spell val xs)" using Cons.prems(1) by (cases x) (auto dest: token_free_Cons token_free_append)
    show "numeral_items xs" using Cons.prems(2) by (simp add: numeral_items_def)
  qed
  show ?case
  proof (cases x)
    case (Inl c)
    then show ?thesis using IH match_token_none[OF Cons.prems(1)[unfolded Inl]]
      by (simp add: FindAllTokens.simps[of "c # spell tok xs"])
  next
    case (Inr d)
    then have "numeral_text d" using Cons.prems(2) by (simp add: numeral_items_def)
    then show ?thesis using Inr IH
      by (simp add: FindAllTokens.simps[of "tok d @ spell tok xs"] match_token_tok)
  qed
qed (simp add: FindAllTokens.simps)

lemma spell_no_tokens: "(\<And>d. Inr d \<notin> set items) \<Longrightarrow> spell f items = spell g items"
proof (induction items)
  case (Cons x xs)
  then have "spell f xs = spell g xs" by auto
  with Cons.prems show ?case by (cases x) auto
qed simp

text \<open>The loop over the tokens that are only in the store.\<close>

lemma replace_stored:
  assumes "token_free (spell val items)" and "numeral_items items"
    and "\<And>d. Inr d \<in> set items \<Longrightarrow> d \<in> set ds"
    and "\<And>d. d \<in> set ds \<Longrightarrow> numeral_text d \<and> tok d \<notin> set known"
    and "\<And>d i. d \<in> set ds \<Longrightarrow> TokenStore_KVGet V (Es i) db (ScrubbingTokenKeyPrefix @ tok d) = Inr (val d)"
  shows "fst (rehydrate_stored V Es db known i (map tok ds) (spell tok items) s) = spell val items"
  using assms
proof (induction ds arbitrary: items i s)
  case Nil
  then show ?case using spell_no_tokens[of items tok val] by auto
next
  case (Cons d ds)
  have step: "ReplaceAll (spell tok items) (tok d) (val d) = spell tok (put d (val d) items)"
    using Cons.prems(1,2) by (rule replace_token) (use Cons.prems(4) in simp)
  have "fst (rehydrate_stored V Es db known (Suc i) (map tok ds) (spell tok (put d (val d) items)) s') =
      spell val (put d (val d) items)" for s'
  proof (rule Cons.IH)
    show "token_free (spell val (put d (val d) items))" using Cons.prems(1) by (simp add: put_value)
    show "numeral_items (put d (val d) items)" using Cons.prems(2) by (simp add: numeral_items_def put_tokens)
    show "e \<in> set ds" if "Inr e \<in> set (put d (val d) items)" for e using Cons.prems(3)[of e] that by (auto simp: put_tokens)
    show "numeral_text e \<and> tok e \<notin> set known" if "e \<in> set ds" for e using Cons.prems(4)[of e] that by simp
    show "TokenStore_KVGet V (Es i) db (ScrubbingTokenKeyPrefix @ tok e) = Inr (val e)" if "e \<in> set ds" for e i
      using Cons.prems(5)[of e i] that by simp
  qed
  then show ?case using Cons.prems(4)[of d] Cons.prems(5)[of d i] step by (simp add: put_value)
qed


section \<open>Rehydration\<close>

lemma rehydrates:
  assumes "token_free (spell val items)" and "numeral_items items"
    and ord: "set (ord (tokenMap s)) = set (tokenMap s)"
    and mem: "\<And>t v. (t, v) \<in> set (tokenMap s) \<Longrightarrow> \<exists>d. numeral_text d \<and> t = tok d \<and> v = val d"
    and avail: "\<And>d. Inr d \<in> set items \<Longrightarrow> tok d \<in> fst ` set (tokenMap s) \<or>
      (\<exists>V. tokenStore s = Some V \<and> (\<forall>i. TokenStore_KVGet V (Es i) db (ScrubbingTokenKeyPrefix @ tok d) = Inr (val d)))"
  shows "fst (RehydrateText Es ord db (spell tok items) s) = spell val items"
proof -
  obtain items' where i: "foldl (\<lambda>r (token, value). ReplaceAll r token value) (spell tok items) (ord (tokenMap s)) = spell tok items'"
    "spell val items' = spell val items" "\<And>d. Inr d \<in> set items' \<longleftrightarrow> Inr d \<in> set items \<and> tok d \<notin> fst ` set (tokenMap s)"
    using replace_memory[OF assms(1,2), of "ord (tokenMap s)"] mem ord by auto
  have free: "token_free (spell val items')" "numeral_items items'"
    using assms(1,2) i(2,3) by (simp_all add: numeral_items_def)
  let ?ds = "concat (map (case_sum (\<lambda>_. []) (\<lambda>d. [d])) items')"
  have ds: "d \<in> set ?ds \<longleftrightarrow> Inr d \<in> set items'" for d by (force split: sum.splits)
  consider "spell tok items = []" | "spell tok items \<noteq> []" "tokenMap s = []" "tokenStore s = None"
    | "spell tok items \<noteq> []" "tokenMap s \<noteq> []" "tokenStore s = None" | V where "spell tok items \<noteq> []" "tokenStore s = Some V"
    by (cases "tokenStore s") auto
  then show ?thesis
  proof cases
    case 1
    then have "items = []" by (cases items rule: list.exhaust[case_product sum.exhaust]) (auto simp: spell_def split: sum.splits)
    then show ?thesis by (simp add: RehydrateText_def)
  next
    case 2
    then have "spell tok items = spell val items" using avail by (intro spell_no_tokens) auto
    with 2 show ?thesis by (simp add: RehydrateText_def)
  next
    case 3
    then have "spell tok items' = spell val items'" using avail i(3) by (intro spell_no_tokens) auto
    with 3 show ?thesis by (simp add: RehydrateText_def i(1,2) Let_def)
  next
    case (4 V)
    have "fst (rehydrate_stored V Es db (filter (\<lambda>t. t \<in> fst ` set (tokenMap s)) (map tok ?ds)) 0 (map tok ?ds) (spell tok items') s) =
        spell val items'"
    proof (rule replace_stored[OF free])
      show "d \<in> set ?ds" if "Inr d \<in> set items'" for d using that ds by blast
      show "numeral_text d \<and> tok d \<notin> set (filter (\<lambda>t. t \<in> fst ` set (tokenMap s)) (map tok ?ds))" if "d \<in> set ?ds" for d
        using that free(2) i(3) unfolding ds by (auto simp: numeral_items_def)
      show "TokenStore_KVGet V (Es j) db (ScrubbingTokenKeyPrefix @ tok d) = Inr (val d)" if "d \<in> set ?ds" for d j
        using that avail[of d] i(3) 4(2) unfolding ds by auto
    qed
    then show ?thesis using 4 by (simp add: RehydrateText_def i(1,2) Let_def find_tokens[OF free])
  qed
qed

section \<open>Issuing tokens\<close>

text \<open>Memory is a table between tokens and values, with tokens numbered up to the sequence.\<close>

definition token_inv :: "ScrubbingService \<Rightarrow> bool" where
  "token_inv s \<longleftrightarrow> 0 \<le> tokenSequence s \<and> distinct (map fst (tokenMap s)) \<and> distinct (map fst (reverseMap s)) \<and>
     (\<forall>t v. (t, v) \<in> set (tokenMap s) \<longleftrightarrow> (v, t) \<in> set (reverseMap s)) \<and>
     (\<forall>t v. (t, v) \<in> set (tokenMap s) \<longrightarrow> v \<noteq> [] \<and> (\<exists>n. 1 \<le> n \<and> n \<le> tokenSequence s \<and> t = uei_token n))"

lemma digit_agree: "digit c \<longleftrightarrow> is_digit c"
  by (simp add: digit_def is_digit_def less_eq_char_def)

lemma FormatInt_numeral: "0 \<le> n \<Longrightarrow> numeral_text (FormatInt n)"
  using decimal_nat_digits[of "nat n"] decimal_nat_nonempty[of "nat n"]
  by (simp add: numeral_text_def FormatInt_def digit_agree list_all_iff)

lemma uei_token_tok: "uei_token n = tok (FormatInt n)"
  by (simp add: uei_token_def tok_def)

lemma FormatInt_inj: "FormatInt m = FormatInt n \<Longrightarrow> m = n"
  using FormatInt_delimited[of m "CHR ''}''" "[]" n "CHR ''}''" "[]"] by (simp add: digit_def)

lemma uei_token_inj: "uei_token m = uei_token n \<longleftrightarrow> m = n"
  by (auto simp: uei_token_def dest: FormatInt_inj)

lemma uei_token_nonempty [simp]: "uei_token n \<noteq> []"
  by (simp add: uei_token_def)

lemma map_put_set: "distinct (map fst m) \<Longrightarrow> k \<notin> fst ` set m \<Longrightarrow> set (map_put k v m) = insert (k, v) (set m)"
  by (force simp: map_put_def)

lemma map_put_distinct: "distinct (map fst m) \<Longrightarrow> distinct (map fst (map_put k v m))"
  by (auto simp: map_put_def distinct_map inj_on_def)

lemma map_remove_put: "k \<notin> fst ` set m \<Longrightarrow> map_remove k (map_put k v m) = m"
  by (force simp: map_remove_def map_put_def filter_id_conv)

lemma fresh_token: "token_inv s \<Longrightarrow> uei_token (tokenSequence s + 1) \<notin> fst ` set (tokenMap s)"
  by (fastforce simp: token_inv_def uei_token_inj)

lemma fresh_value: "map_of (reverseMap s) v = None \<Longrightarrow> v \<notin> fst ` set (reverseMap s)"
  by (simp add: map_of_eq_None_iff)

lemma issue_inv:
  assumes "token_inv s" and "v \<noteq> []" and "map_of (reverseMap s) v = None"
  shows "token_inv (s\<lparr>tokenSequence := tokenSequence s + 1,
      tokenMap := map_put (uei_token (tokenSequence s + 1)) v (tokenMap s),
      reverseMap := map_put v (uei_token (tokenSequence s + 1)) (reverseMap s)\<rparr>)"
proof -
  note i = assms(1)[unfolded token_inv_def]
  note sets = map_put_set[of "tokenMap s", OF _ fresh_token[OF assms(1)]] map_put_set[of "reverseMap s", OF _ fresh_value[OF assms(3)]]
  have n: "(t, w) \<in> set (tokenMap s) \<Longrightarrow> \<exists>n\<ge>1. n \<le> tokenSequence s + 1 \<and> t = uei_token n" for t w
    using i by (meson order_trans zle_add1_eq_le zless_add1_eq order_less_imp_le)
  have self: "\<exists>n\<ge>1. n \<le> tokenSequence s + 1 \<and> uei_token (tokenSequence s + 1) = uei_token n"
    using i by (intro exI[of _ "tokenSequence s + 1"]) simp
  show ?thesis using i n self assms(2) unfolding token_inv_def
    by (auto simp: sets map_put_distinct)
qed

lemma refusal_restores:
  assumes "token_inv s" and "map_of (reverseMap s) v = None"
  shows "s\<lparr>tokenSequence := tokenSequence s, tokenMap := map_remove (uei_token (tokenSequence s + 1))
        (map_put (uei_token (tokenSequence s + 1)) v (tokenMap s)),
      reverseMap := map_remove v (map_put v (uei_token (tokenSequence s + 1)) (reverseMap s))\<rparr> = s"
  using map_remove_put[OF fresh_token[OF assms(1)]] map_remove_put[OF fresh_value[OF assms(2)]] by simp

end
