(* ===== verification/Token_Restart.thy ===== *)
theory Token_Restart
  imports Token_Facts
begin

text \<open>
  What a service knows after a restart: the tokens that the store still has, under their numbers.
\<close>

section \<open>Scanning a token\<close>

lemma digits_value_append: "digits_value a (xs @ [c]) = 10 * digits_value a xs + (of_char c - 48)"
  by (induction xs arbitrary: a) simp_all

lemma digits_value_decimal: "digits_value 0 (decimal_nat n) = n"
proof (induction n rule: decimal_nat.induct)
  case (1 n)
  then show ?case
    by (subst decimal_nat.simps) (auto simp: digits_value_append)
qed

lemma digit_no_space: "is_digit c \<Longrightarrow> skip_space (c # cs) = c # cs"
  by (auto simp: is_digit_def decode_rune.simps scan_space_def Let_def)

lemma sscanf_uei_token:
  assumes "0 \<le> n" and "in_int64 n"
  shows "sscanf_token (uei_token n) = Some n"
proof -
  have num: "numeral_text (FormatInt n)" using assms(1) by (rule FormatInt_numeral)
  then obtain c cs where c: "FormatInt n = c # cs" "is_digit c" by (cases "FormatInt n") (auto simp: numeral_text_def)
  then have sign: "c \<noteq> CHR ''-''" "c \<noteq> CHR ''+''" by (auto simp: is_digit_def)
  have ds: "takeWhile is_digit (FormatInt n @ token_close) = FormatInt n"
    using num by (simp add: numeral_text_def list_all_iff takeWhile_append2 is_digit_brace)
  have skip: "skip_space (FormatInt n @ token_close) = FormatInt n @ token_close"
    using digit_no_space[OF c(2)] c(1) by simp
  have v: "int (digits_value 0 (FormatInt n)) = n"
    using assms(1) digits_value_decimal[of "nat n"] by (simp add: FormatInt_def)
  have nosign: "\<not> HasPrefix (FormatInt n @ token_close) ''-''" "\<not> HasPrefix (FormatInt n @ token_close) ''+''"
    using c(1) sign by (simp_all add: HasPrefix_def)
  have "HasPrefix (token_open @ FormatInt n @ token_close) token_open" "HasPrefix (drop (length (FormatInt n)) (FormatInt n @ token_close)) token_close"
    by (simp_all add: HasPrefix_iff)
  moreover have "FormatInt n \<noteq> []" using c(1) by simp
  ultimately show ?thesis using assms(2)
    unfolding sscanf_token_def uei_token_def by (simp add: Let_def skip nosign ds v del: drop_append)
qed

section \<open>Loading\<close>

text \<open>A turn of the loop keeps the largest number and every entry that it does not give a new
  value.\<close>

definition carries :: "ScrubbingService \<times> int \<Rightarrow> string \<Rightarrow> string \<Rightarrow> int \<Rightarrow> bool" where
  "carries st t v n \<longleftrightarrow> (t, v) \<in> set (tokenMap (fst st)) \<and> n \<le> snd st"

lemma TrimPrefix_append [simp]: "TrimPrefix (p @ x) p = x"
  by (simp add: TrimPrefix_def HasPrefix_iff)

lemma load_token_keeps:
  assumes "carries st t v n" and "\<And>w. kv = (ScrubbingTokenKeyPrefix @ t, w) \<Longrightarrow> w = v"
  shows "carries (load_token st kv) t v n"
proof -
  obtain s m key w where st: "st = (s, m)" "kv = (key, w)" by (cases st, cases kv) auto
  show ?thesis
  proof (cases "TrimPrefix key ScrubbingTokenKeyPrefix = t \<and> t \<noteq> key")
    case True
    then have "key = ScrubbingTokenKeyPrefix @ t" by (auto simp: TrimPrefix_def HasPrefix_iff split: if_splits)
    with assms st show ?thesis
      by (auto simp: load_token_def carries_def Let_def map_put_def split: option.splits)
  next
    case False
    then show ?thesis using assms(1) st
      by (auto simp: load_token_def carries_def Let_def map_put_def split: option.splits)
  qed
qed

lemma load_token_adds:
  assumes "sscanf_token t = Some n"
  shows "carries (load_token st (ScrubbingTokenKeyPrefix @ t, v)) t v n"
proof -
  have "ScrubbingTokenKeyPrefix \<noteq> []" by (simp add: ScrubbingTokenKeyPrefix_def)
  then show ?thesis using assms by (cases st) (simp add: load_token_def carries_def map_put_def Let_def)
qed

lemma load_tokens_keep:
  "carries st t v n \<Longrightarrow> (\<And>w. (ScrubbingTokenKeyPrefix @ t, w) \<in> set kvs \<Longrightarrow> w = v) \<Longrightarrow> carries (foldl load_token st kvs) t v n"
  by (induction kvs arbitrary: st) (simp_all add: load_token_keeps)

lemma load_tokens_hold:
  assumes "sscanf_token t = Some n" and "(ScrubbingTokenKeyPrefix @ t, v) \<in> set kvs"
    and "\<And>w. (ScrubbingTokenKeyPrefix @ t, w) \<in> set kvs \<Longrightarrow> w = v"
  shows "carries (foldl load_token st kvs) t v n"
proof -
  obtain as bs where "kvs = as @ (ScrubbingTokenKeyPrefix @ t, v) # bs" using assms(2) by (auto dest: split_list)
  then show ?thesis using assms(3) load_token_adds[OF assms(1)] by (simp add: load_tokens_keep)
qed

section \<open>Reading the store\<close>

lemma scan_keys_entry:
  assumes "scan_keys V Es db i keys = Inr tokens"
  shows "(\<forall>k\<in>set keys. \<forall>v. (\<forall>i. \<exists>e. KVGet (Es i) db k = Some e \<and> vDecrypt V e = Inr v) \<longrightarrow>
       (TrimPrefix k SentinelKeyPrefix, v) \<in> set tokens) \<and>
    (\<forall>k v. (k, v) \<in> set tokens \<longrightarrow> (\<exists>full\<in>set keys. \<exists>i e. k = TrimPrefix full SentinelKeyPrefix \<and>
       KVGet (Es i) db full = Some e \<and> vDecrypt V e = Inr v))"
  using assms
proof (induction keys arbitrary: i tokens)
  case (Cons key keys)
  show ?case
  proof (cases "KVGet (Es i) db key")
    case None
    then have "scan_keys V Es db (Suc i) keys = Inr tokens" using Cons.prems by simp
    from Cons.IH[OF this] None show ?thesis by (metis list.set_intros(2) option.distinct(1) set_ConsD)
  next
    case (Some e)
    then obtain v rest where v: "vDecrypt V e = Inr v" "scan_keys V Es db (Suc i) keys = Inr rest"
      "tokens = (TrimPrefix key SentinelKeyPrefix, v) # rest"
      using Cons.prems by (auto split: sum.splits)
    note IH = Cons.IH[OF v(2)]
    have "(TrimPrefix key SentinelKeyPrefix, w) \<in> set tokens"
      if "\<forall>i. \<exists>e. KVGet (Es i) db key = Some e \<and> vDecrypt V e = Inr w" for w
      using spec[OF that, of i] Some v by simp
    with IH have "\<forall>k\<in>set (key # keys). \<forall>v. (\<forall>i. \<exists>e. KVGet (Es i) db k = Some e \<and> vDecrypt V e = Inr v) \<longrightarrow>
       (TrimPrefix k SentinelKeyPrefix, v) \<in> set tokens" using v(3) by simp
    moreover have "\<exists>full\<in>set (key # keys). \<exists>i e. k = TrimPrefix full SentinelKeyPrefix \<and>
       KVGet (Es i) db full = Some e \<and> vDecrypt V e = Inr w" if "(k, w) \<in> set tokens" for k w
      using that IH Some v by (metis (no_types, opaque_lifting) list.set_intros prod.inject set_ConsD)
    ultimately show ?thesis by blast
  qed
qed simp

lemma TokenStore_KVGet_Inr: "TokenStore_KVGet V E db key = Inr v \<longleftrightarrow>
   vUnlocked V \<and> (\<exists>e. KVGet E db (SentinelKeyPrefix @ key) = Some e \<and> vDecrypt V e = Inr v)"
  by (auto simp: TokenStore_KVGet_def split: option.splits sum.splits if_splits)

text \<open>What \<open>GLOB\<close> means for the pattern of the scan: a prefix followed by anything.\<close>

definition glob_prefix :: "sqlite \<Rightarrow> string \<Rightarrow> bool" where
  "glob_prefix Q p \<longleftrightarrow> (\<forall>k. sqGlob Q (p @ ''*'') k \<longleftrightarrow> HasPrefix k p)"

lemma scanned_tokens:
  assumes "TokenStore_KVScanPrefix Q V Es db p = Inr tokens" and "glob_prefix Q (SentinelKeyPrefix @ p)"
    and "\<And>i. TokenStore_KVGet V (Es i) db (p @ t) = Inr v"
  shows "(p @ t, v) \<in> set tokens \<and> (\<forall>w. (p @ t, w) \<in> set tokens \<longrightarrow> w = v)"
proof -
  let ?key = "SentinelKeyPrefix @ p @ t"
  from assms(1) obtain keys where k: "KVKeys Q (Es 0) db (SentinelKeyPrefix @ p @ ''*'') = Inr keys" "scan_keys V Es db 1 keys = Inr tokens"
    by (auto simp: TokenStore_KVScanPrefix_def split: sum.splits if_splits)
  have got: "\<exists>e. KVGet (Es i) db ?key = Some e \<and> vDecrypt V e = Inr v" for i
    using assms(3)[of i] by (simp add: TokenStore_KVGet_Inr)
  then obtain e where "KVGet (Es 0) db ?key = Some e" by blast
  then obtain r where "r \<in> set (kv_store db)" "kvKey r = ?key" "active (FormatTimestamp (clock_at (Es 0) 0)) (kvExpiresAt r)"
    by (auto simp: KVGet_def find_Some_iff in_set_conv_nth split: option.splits)
  moreover have "sqGlob Q (SentinelKeyPrefix @ p @ ''*'') ?key"
    using assms(2) by (simp add: glob_prefix_def HasPrefix_iff)
  ultimately have "?key \<in> set keys"
    using k(1) by (force simp: KVKeys_def matching_keys_def image_iff split: option.splits)
  then have "(p @ t, v) \<in> set tokens" using scan_keys_entry[OF k(2)] got by (metis TrimPrefix_append)
  moreover have "w = v" if "(p @ t, w) \<in> set tokens" for w
  proof -
    obtain full i e where f: "full \<in> set keys" "p @ t = TrimPrefix full SentinelKeyPrefix" "KVGet (Es i) db full = Some e" "vDecrypt V e = Inr w"
      using scan_keys_entry[OF k(2)] \<open>(p @ t, w) \<in> set tokens\<close> by blast
    have "sqGlob Q ((SentinelKeyPrefix @ p) @ ''*'') full" using f(1) k(1) by (auto simp: KVKeys_def matching_keys_def split: option.splits)
    then have "HasPrefix full (SentinelKeyPrefix @ p)" using assms(2) by (simp only: glob_prefix_def)
    then have "full = ?key" using f(2) by (auto simp: HasPrefix_iff)
    then show ?thesis using f(3,4) got[of i] by simp
  qed
  ultimately show ?thesis by blast
qed

lemma restart_holds:
  assumes "NewScrubbingService Q Es ord db config (Some V) = Inr s"
    and "glob_prefix Q (SentinelKeyPrefix @ ScrubbingTokenKeyPrefix)" and "\<And>m. set (ord m) = set m"
    and "0 \<le> n" "in_int64 n" and "\<And>i. TokenStore_KVGet V (Es i) db (ScrubbingTokenKeyPrefix @ uei_token n) = Inr v"
  shows "(uei_token n, v) \<in> set (tokenMap s) \<and> n \<le> tokenSequence s"
proof -
  let ?s0 = "\<lparr>ssConfig = (case config of None \<Rightarrow> DefaultConfig | Some c \<Rightarrow> c), tokenMap = [], reverseMap = [],
    tokenSequence = 0, tokenStore = Some V\<rparr>"
  obtain tokens where t: "TokenStore_KVScanPrefix Q V Es db ScrubbingTokenKeyPrefix = Inr tokens"
    using assms(1) by (auto simp: NewScrubbingService_def loadPersistedTokens_def split: sum.splits)
  obtain s' m where f: "foldl load_token (?s0, 0) (ord tokens) = (s', m)" by (cases "foldl load_token (?s0, 0) (ord tokens)")
  have "s = s'\<lparr>tokenSequence := m\<rparr>" using assms(1) t f by (simp add: NewScrubbingService_def loadPersistedTokens_def)
  moreover have "carries (s', m) (uei_token n) v n"
    using load_tokens_hold[OF sscanf_uei_token[OF assms(4,5)], of v "ord tokens" "(?s0, 0)"] f
      scanned_tokens[OF t assms(2,6)] assms(3) by simp
  ultimately show ?thesis by (simp add: carries_def)
qed

end
