(* ===== verification/State_Root.thy ===== *)
theory State_Root
  imports Gateway_Stores
begin

text \<open>
  \<open>services/gateway/state_root_service.go\<close>: the state root that gates admission of
  transactions, a hash over the authoritative rows of the coordination store, and the separate
  commitment to observed rows. Both are cached under the number in \<open>state_version\<close>. The
  queries of one computation are separate statements, so other writers may run between them:
  \<open>reads i\<close> is the store as the \<open>i\<close>-th statement finds it.
\<close>

section \<open>Rows on the hash stream\<close>

datatype sql_value = Text string | Integer int

fun value_text :: "sql_value \<Rightarrow> string" where
  "value_text (Text s) = [CHR 0x22] @ s @ [CHR 0x22]"
| "value_text (Integer i) = FormatInt i"

text \<open>The bytes that \<open>writeRowToHash\<close> writes; a value is not escaped.\<close>

definition writeRowToHash :: "string \<Rightarrow> sql_value list \<Rightarrow> bytes" where
  "writeRowToHash table values =
     ''{'' @ [CHR 0x22] @ ''table'' @ [CHR 0x22] @ '':'' @ [CHR 0x22] @ table @ [CHR 0x22] @ '','' @
     [CHR 0x22] @ ''values'' @ [CHR 0x22] @ '':['' @ strings_Join (map value_text values) '','' @
     '']}'' @ [CHR 0x0A]"

text \<open>SQLite's \<open>hex\<close> has upper case digits.\<close>

definition sql_hex :: "bytes \<Rightarrow> string" where
  "sql_hex data =
     map (\<lambda>c. let n = of_char c :: nat in if 97 \<le> n \<and> n \<le> 122 then char_of (n - 32) else c)
       (hex_EncodeToString data)"

definition coalesce :: "string option \<Rightarrow> string" where
  "coalesce e = (case e of None \<Rightarrow> [] | Some x \<Rightarrow> x)"

section \<open>The queries\<close>

text \<open>\<open>ORDER BY a, b\<close> as two stable sorts.\<close>

definition document_rows :: "gateway_db \<Rightarrow> sql_value list list" where
  "document_rows db =
     map (\<lambda>r. [Text (dCollection r), Text (dId r), Text (dData r)])
       (sort_key dCollection (sort_key dId (documents db)))"

definition kv_rows :: "string \<Rightarrow> string \<Rightarrow> gateway_db \<Rightarrow> sql_value list list" where
  "kv_rows tier now db =
     map (\<lambda>r. [Text (kvKey r), Text (kvValue r), Text (coalesce (kvExpiresAt r))])
       (sort_key kvKey
         (filter (\<lambda>r. \<not> cache_key (kvKey r) \<and> kvTier r = tier \<and> active now (kvExpiresAt r)) (kv_store db)))"

definition blob_rows :: "string \<Rightarrow> string \<Rightarrow> gateway_db \<Rightarrow> sql_value list list" where
  "blob_rows tier now db =
     map (\<lambda>r. [Text (bNamespace r), Text (bId r), Integer (bSize r), Text (bContentType r),
               Text (sql_hex (bData r)), Text (coalesce (bExpiresAt r))])
       (sort_key bNamespace (sort_key bId
         (filter (\<lambda>r. bTier r = tier \<and> active now (bExpiresAt r)) (blobs db))))"

text \<open>\<open>hashTableToStream\<close>: the query may fail, and the iteration over its rows. Reading a
  column into a Go string or integer cannot fail for the types of these columns.\<close>

definition hashTableToStream :: "store_env \<Rightarrow> nat \<Rightarrow> string \<Rightarrow> sql_value list list \<Rightarrow> bytes result" where
  "hashTableToStream E i table rows =
     (case fault_at E i of
        Some err \<Rightarrow> Inl (wrap ''%w: %v'' (Gateway ErrStateRootQueryTable) [error_text E err])
      | None \<Rightarrow>
         (case fault_at E (Suc i) of
            Some err \<Rightarrow> Inl (wrap ''%w: %v'' (Gateway ErrStateRootIterateRows) [error_text E err])
          | None \<Rightarrow> Inr (concat (map (writeRowToHash table) rows))))"

definition keymap_text :: "string option \<Rightarrow> bytes" where
  "keymap_text keymap =
     (case keymap of
        None \<Rightarrow> []
      | Some keymapHash \<Rightarrow>
          if keymapHash = [] then []
          else ''{'' @ [CHR 0x22] @ ''table'' @ [CHR 0x22] @ '':'' @ [CHR 0x22] @ ''token_keymap'' @ [CHR 0x22] @
               '','' @ [CHR 0x22] @ ''values'' @ [CHR 0x22] @ '':['' @ [CHR 0x22] @ keymapHash @ [CHR 0x22] @
               '']}'' @ [CHR 0x0A])"

text \<open>\<open>keymap\<close> is the answer of the keymap hash provider, if one is set. The statements of the
  computation are numbered from 1; the clock is read after the documents.\<close>

definition calculateStateRoot ::
    "crypto \<Rightarrow> store_env \<Rightarrow> (nat \<Rightarrow> gateway_db) \<Rightarrow> string option \<Rightarrow> string result" where
  "calculateStateRoot C E reads keymap =
     (case hashTableToStream E 1 ''documents'' (document_rows (reads 1)) of
        Inl err \<Rightarrow> Inl (wrap ''%w: %v'' (Gateway ErrStateRootHashDocuments) [error_text E err])
      | Inr docs \<Rightarrow>
         (let now = FormatTimestamp (clock_at E 1) in
          case hashTableToStream E 3 ''kv_store'' (kv_rows tier_bound now (reads 2)) of
            Inl err \<Rightarrow> Inl (wrap ''%w: %v'' (Gateway ErrStateRootHashKVStore) [error_text E err])
          | Inr kvs \<Rightarrow>
             (case hashTableToStream E 5 ''blobs'' (blob_rows tier_bound now (reads 3)) of
                Inl err \<Rightarrow> Inl (wrap ''%w: %v'' (Gateway ErrStateRootHashBlobs) [error_text E err])
              | Inr bs \<Rightarrow> Inr (sha256_hex C (docs @ kvs @ bs @ keymap_text keymap)))))"

definition calculateObservedStateRoot ::
    "crypto \<Rightarrow> store_env \<Rightarrow> (nat \<Rightarrow> gateway_db) \<Rightarrow> string result" where
  "calculateObservedStateRoot C E reads =
     (let now = FormatTimestamp (clock_at E 1) in
      case hashTableToStream E 1 ''kv_store_observed'' (kv_rows tier_observed now (reads 1)) of
        Inl err \<Rightarrow> Inl (wrap ''%w: %v'' (Gateway ErrStateRootHashKVStore) [error_text E err])
      | Inr kvs \<Rightarrow>
         (case hashTableToStream E 3 ''blobs_observed'' (blob_rows tier_observed now (reads 2)) of
            Inl err \<Rightarrow> Inl (wrap ''%w: %v'' (Gateway ErrStateRootHashBlobs) [error_text E err])
          | Inr bs \<Rightarrow> Inr (sha256_hex C (kvs @ bs))))"

section \<open>The service\<close>

record StateRootService =
  cachedStateRoot :: string
  cachedStateVersion :: int
  cachedObservedRoot :: string
  cachedObservedVersion :: int
  keymapHashProvider :: bool

definition NewStateRootService :: StateRootService where
  "NewStateRootService = \<lparr>cachedStateRoot = [], cachedStateVersion = 0, cachedObservedRoot = [],
     cachedObservedVersion = 0, keymapHashProvider = False\<rparr>"

definition SetKeymapHashProvider :: "StateRootService \<Rightarrow> StateRootService" where
  "SetKeymapHashProvider s = s\<lparr>keymapHashProvider := True\<rparr>"

definition InvalidateCache :: "StateRootService \<Rightarrow> StateRootService" where
  "InvalidateCache s = s\<lparr>cachedStateRoot := [], cachedStateVersion := 0, cachedObservedRoot := [],
     cachedObservedVersion := 0\<rparr>"

text \<open>\<open>keymap\<close> is what \<open>TokenKeymapHash\<close> of the scrubbing service answers. The version is read
  by statement 0, the root persisted by statement 8 into the store \<open>reads 8\<close>; the two readings
  of the version around it are not used. Answer: the root, the service, and the store after the
  last statement.\<close>

definition GetCurrentStateRoot ::
    "crypto \<Rightarrow> store_env \<Rightarrow> (nat \<Rightarrow> gateway_db) \<Rightarrow> string \<Rightarrow> StateRootService \<Rightarrow>
     string result \<times> StateRootService \<times> gateway_db" where
  "GetCurrentStateRoot C E reads keymap s =
     (case fault_at E 0 of
        Some err \<Rightarrow> (Inl (Errorf ''failed to read state_version: %w'' [] [err]), s, reads 0)
      | None \<Rightarrow>
         (let currentVersion = state_version (reads 0) in
          if currentVersion = cachedStateVersion s \<and> cachedStateRoot s \<noteq> [] then (Inr (cachedStateRoot s), s, reads 0)
          else
           (case calculateStateRoot C E reads (if keymapHashProvider s then Some keymap else None) of
              Inl err \<Rightarrow> (Inl (wrap ''%w: %v'' (Gateway ErrStateRootCalculate) [error_text E err]), s, reads 3)
            | Inr root \<Rightarrow>
               (let s' = s\<lparr>cachedStateRoot := root, cachedStateVersion := currentVersion\<rparr> in
                case fault_at E 8 of
                  Some err \<Rightarrow> (Inl (wrap ''%w: %v'' (Gateway ErrStateRootPersist) [error_text E err]), s', reads 8)
                | None \<Rightarrow>
                   (Inr root, s',
                    (reads 8)\<lparr>state_root := Some (root, FormatTimestamp (clock_at E 8))\<rparr>)))))"

definition CalculateStateRoot ::
    "crypto \<Rightarrow> store_env \<Rightarrow> (nat \<Rightarrow> gateway_db) \<Rightarrow> string \<Rightarrow> StateRootService \<Rightarrow> string result" where
  "CalculateStateRoot C E reads keymap s = calculateStateRoot C E reads (if keymapHashProvider s then Some keymap else None)"

definition GetObservedStateRoot ::
    "crypto \<Rightarrow> store_env \<Rightarrow> (nat \<Rightarrow> gateway_db) \<Rightarrow> StateRootService \<Rightarrow> string result \<times> StateRootService" where
  "GetObservedStateRoot C E reads s =
     (case fault_at E 0 of
        Some err \<Rightarrow>
          (case calculateObservedStateRoot C E reads of
             Inl err \<Rightarrow> (Inl (wrap ''%w: %v'' (Gateway ErrStateRootCalculate) [error_text E err]), s)
           | Inr root \<Rightarrow> (Inr root, s))
      | None \<Rightarrow>
         (let currentVersion = state_version (reads 0) in
          if currentVersion = cachedObservedVersion s \<and> cachedObservedRoot s \<noteq> []
          then (Inr (cachedObservedRoot s), s)
          else
           (case calculateObservedStateRoot C E reads of
              Inl err \<Rightarrow> (Inl (wrap ''%w: %v'' (Gateway ErrStateRootCalculate) [error_text E err]), s)
            | Inr root \<Rightarrow> (Inr root, s\<lparr>cachedObservedRoot := root, cachedObservedVersion := currentVersion\<rparr>))))"

end
