(* ===== verification/State_Root_Facts.thy ===== *)
theory State_Root_Facts
  imports State_Root
begin

text \<open>
  What the state root promises. A locale states what a version counter has to do for a cache
  keyed by it; the triggers of the schema make \<open>state_version\<close> such a counter for every
  operation of the stores, so the cached root is the root of the present rows, also when writers
  run between the statements of a computation. A second part shows what the root binds, and what
  it does not.
\<close>

section \<open>Version counters\<close>

locale version_counter =
  fixes version :: "'s \<Rightarrow> int"
    and view :: "'s \<Rightarrow> 'v"
    and step :: "'s \<Rightarrow> 's \<Rightarrow> bool"
  assumes grows: "step s t \<Longrightarrow> version s \<le> version t"
    and counts: "step s t \<Longrightarrow> version s = version t \<Longrightarrow> view s = view t"
begin

lemma steps_grow: "step\<^sup>*\<^sup>* s t \<Longrightarrow> version s \<le> version t"
  by (induction rule: rtranclp_induct) (auto dest: grows)

lemma steps_count:
  assumes "step\<^sup>*\<^sup>* s t" and "version s = version t"
  shows "view s = view t"
  using assms
proof (induction rule: rtranclp_induct)
  case (step t u)
  have "version s \<le> version t" using step.hyps(1) by (rule steps_grow)
  with grows[OF step.hyps(2)] step.prems have "version s = version t" "version t = version u" by simp_all
  with step.IH counts[OF step.hyps(2)] show ?case by simp
qed simp

text \<open>Whatever was read between two moments of the same version is what the second moment sees.\<close>

lemma steps_between:
  assumes "step\<^sup>*\<^sup>* s t" and "step\<^sup>*\<^sup>* t u" and "version s = version u"
  shows "view t = view u"
proof (rule steps_count[OF assms(2)])
  show "version t = version u" using steps_grow[OF assms(1)] steps_grow[OF assms(2)] assms(3) by simp
qed

end

section \<open>The rows behind the root\<close>

definition root_view :: "gateway_db \<Rightarrow> (string \<times> string \<times> bytes) list \<times>
    (string \<times> string \<times> string option \<times> string) list \<times>
    (string \<times> string \<times> int \<times> string \<times> bytes \<times> string option \<times> string) list" where
  "root_view db =
     (map (\<lambda>r. (dCollection r, dId r, dData r)) (documents db),
      map (\<lambda>r. (kvKey r, kvValue r, kvExpiresAt r, kvTier r)) (filter (\<lambda>r. \<not> cache_key (kvKey r)) (kv_store db)),
      map (\<lambda>r. (bNamespace r, bId r, bSize r, bContentType r, bData r, bExpiresAt r, bTier r)) (blobs db))"

definition tracked :: "gateway_db \<Rightarrow> gateway_db \<Rightarrow> bool" where
  "tracked db db' \<longleftrightarrow> state_version db \<le> state_version db' \<and>
     (state_version db = state_version db' \<longrightarrow> root_view db = root_view db')"

lemma tracked_refl [simp]: "tracked db db"
  by (simp add: tracked_def)

lemma tracked_trans: "tracked a b \<Longrightarrow> tracked b c \<Longrightarrow> tracked a c"
  by (auto simp: tracked_def)

lemma tracked_bump: "0 < n \<Longrightarrow> state_version db' = state_version db \<Longrightarrow> tracked db (bump_version n db')"
  by (simp add: tracked_def bump_version_def)

lemma tracked_bump_same:
  assumes "state_version db' = state_version db" and "n = 0 \<Longrightarrow> root_view db = root_view db'"
  shows "tracked db (bump_version n db')"
  using assms by (cases "n = 0") (auto simp: tracked_def bump_version_def root_view_def)

lemma filter_nothing: "length (filter P xs) = 0 \<longleftrightarrow> (\<forall>x\<in>set xs. \<not> P x)"
  by (simp add: filter_empty_conv)

lemma kv_insert_tracked: "tracked db (kv_insert r db)"
  unfolding kv_insert_def by (rule tracked_bump_same) (auto simp: root_view_def split: if_splits)

lemma kv_delete_tracked: "tracked db (kv_delete p db)"
  unfolding kv_delete_def
proof (rule tracked_bump_same)
  assume "length (filter (\<lambda>r. p r \<and> \<not> cache_key (kvKey r)) (kv_store db)) = 0"
  then have "filter (\<lambda>r. \<not> p r \<and> \<not> cache_key (kvKey r)) (kv_store db) = filter (\<lambda>r. \<not> cache_key (kvKey r)) (kv_store db)"
    unfolding filter_nothing by (intro filter_cong) auto
  then show "root_view db = root_view (db\<lparr>kv_store := filter (\<lambda>r. \<not> p r) (kv_store db)\<rparr>)"
    by (simp add: root_view_def)
qed simp

lemma filter_map_same:
  assumes "\<And>r. r \<in> set xs \<Longrightarrow> p r \<Longrightarrow> \<not> q r \<and> \<not> q (f r)"
  shows "filter q (map (\<lambda>r. if p r then f r else r) xs) = filter q xs"
  using assms by (induction xs) auto

lemma kv_update_tracked: "tracked db (kv_update p f db)"
  unfolding kv_update_def
proof (rule tracked_bump_same)
  assume "length (filter (\<lambda>r. p r \<and> (\<not> cache_key (kvKey r) \<or> \<not> cache_key (kvKey (f r)))) (kv_store db)) = 0"
  then have "filter (\<lambda>r. \<not> cache_key (kvKey r)) (map (\<lambda>r. if p r then f r else r) (kv_store db)) =
      filter (\<lambda>r. \<not> cache_key (kvKey r)) (kv_store db)"
    unfolding filter_nothing by (intro filter_map_same) blast
  then show "root_view db = root_view (db\<lparr>kv_store := map (\<lambda>r. if p r then f r else r) (kv_store db)\<rparr>)"
    by (simp add: root_view_def)
qed simp

lemma blob_insert_tracked: "tracked db (blob_insert r db)"
  unfolding blob_insert_def by (rule tracked_bump) simp_all

lemma blob_update_tracked: "tracked db (blob_update p f db)"
  unfolding blob_update_def
proof (rule tracked_bump_same)
  assume "length (filter p (blobs db)) = 0"
  then have "map (\<lambda>r. if p r then f r else r) (blobs db) = blobs db"
    unfolding filter_nothing by (intro map_idI) simp
  then show "root_view db = root_view (db\<lparr>blobs := map (\<lambda>r. if p r then f r else r) (blobs db)\<rparr>)"
    by (simp add: root_view_def)
qed simp

lemma blob_delete_tracked: "tracked db (blob_delete p db)"
  unfolding blob_delete_def
proof (rule tracked_bump_same)
  assume "length (filter p (blobs db)) = 0"
  then have "filter (\<lambda>r. \<not> p r) (blobs db) = blobs db" unfolding filter_nothing by (simp add: filter_id_conv)
  then show "root_view db = root_view (db\<lparr>blobs := filter (\<lambda>r. \<not> p r) (blobs db)\<rparr>)"
    by (simp add: root_view_def)
qed simp

subsection \<open>Documents\<close>

lemma kv_delete_version: "state_version db \<le> state_version (kv_delete p db)"
  by (simp add: kv_delete_def bump_version_def)

lemma document_changed_version: "state_version db < state_version (document_changed Q db r)"
proof -
  have "state_version db \<le> state_version (invalidate_cache Q (dCollection r) (dId r) db)"
    unfolding invalidate_cache_def by (rule order_trans[OF kv_delete_version kv_delete_version])
  then show ?thesis by (simp add: document_changed_def bump_version_def)
qed

lemma documents_changed_version: "rs \<noteq> [] \<Longrightarrow> state_version db < state_version (foldl (document_changed Q) db rs)"
proof (induction rs arbitrary: db)
  case (Cons r rs)
  show ?case
  proof (cases "rs = []")
    case True
    then show ?thesis by (simp add: document_changed_version)
  next
    case False
    with Cons.IH[of "document_changed Q db r"] document_changed_version[of db Q r] show ?thesis by simp
  qed
qed simp

lemma documents_changed_tracked:
  assumes "state_version db' = state_version db" and "rs = [] \<Longrightarrow> root_view db = root_view db'"
  shows "tracked db (foldl (document_changed Q) db' rs)"
proof (cases "rs = []")
  case True
  with assms show ?thesis by (simp add: tracked_def)
next
  case False
  with documents_changed_version[OF False, of db' Q] assms(1) show ?thesis by (simp add: tracked_def)
qed

lemma doc_insert_tracked: "tracked db (doc_insert Q r db)"
  using documents_changed_tracked[of "db\<lparr>documents := documents db @ [r]\<rparr>" db "[r]" Q] by (simp add: doc_insert_def)

lemma doc_delete_tracked: "tracked db (doc_delete Q p db)"
  unfolding doc_delete_def
proof (rule documents_changed_tracked)
  assume "filter p (documents db) = []"
  then have "filter (\<lambda>r. \<not> p r) (documents db) = documents db" by (simp add: filter_empty_conv filter_id_conv)
  then show "root_view db = root_view (db\<lparr>documents := filter (\<lambda>r. \<not> p r) (documents db)\<rparr>)"
    by (simp add: root_view_def)
qed simp

lemma doc_update_tracked:
  assumes "\<And>r. dCollection (f r) = dCollection r \<and> dId (f r) = dId r"
  shows "tracked db (doc_update Q p f db)"
  unfolding doc_update_def
proof (rule documents_changed_tracked)
  assume "filter (\<lambda>r. p r \<and> dData r \<noteq> dData (f r)) (documents db) = []"
  then have "p r \<longrightarrow> dData (f r) = dData r" if "r \<in> set (documents db)" for r
    using that by (auto simp: filter_empty_conv)
  with assms show "root_view db = root_view (db\<lparr>documents := map (\<lambda>r. if p r then f r else r) (documents db)\<rparr>)"
    by (simp add: root_view_def)
qed simp


section \<open>Every write is counted\<close>

text \<open>One operation of the stores, with any environment, or the row that the service itself
  persists. \<open>DocSet\<close>, \<open>DocReplace\<close>, \<open>DocMerge\<close> and \<open>DocDelete\<close> are covered by what they
  delegate to.\<close>

inductive store_step :: "sqlite \<Rightarrow> gateway_db \<Rightarrow> gateway_db \<Rightarrow> bool" for Q where
  kv_set: "store_step Q db (snd (KVSet E db key v ttl))"
| kv_set_observed: "store_step Q db (snd (KVSetObserved E db key v ttl))"
| kv_del: "store_step Q db (snd (KVDelete E db key))"
| kv_del_pattern: "store_step Q db (snd (KVDeletePattern Q E db pat))"
| kv_expire: "store_step Q db (snd (KVExpire E db key ttl))"
| kv_maintenance: "store_step Q db (snd (KVRunMaintenance E db))"
| blob_put: "store_step Q db (snd (BlobPut E db ns i data ct ttl))"
| blob_put_observed: "store_step Q db (snd (BlobPutObserved E db ns i data ct ttl))"
| blob_del: "store_step Q db (snd (BlobDelete E db ns i))"
| blob_del_namespace: "store_step Q db (snd (BlobDeleteNamespace E db ns))"
| blob_maintenance: "store_step Q db (snd (BlobRunMaintenance E db))"
| doc_create: "store_step Q db (snd (DocCreate Q J E db c i data))"
| doc_set: "store_step Q db (snd (DocSetWithTimestamps Q J E db c i data t u))"
| doc_up: "store_step Q db (snd (DocUpdate Q J E db0 db c i data))"
| doc_cond: "store_step Q db (snd (DocConditionalUpdate Q decode E db c i data k v))"
| doc_del: "store_step Q db (snd (DocDeleteWithResult Q E db c i))"
| doc_del_namespace: "store_step Q db (snd (DocDeleteNamespace Q E db c))"
| persist_root: "store_step Q db (db\<lparr>state_root := row\<rparr>)"

lemmas kv_op_defs = KVSet_def KVSetObserved_def KVDelete_def KVDeletePattern_def KVExpire_def KVRunMaintenance_def
lemmas blob_op_defs = BlobPut_def BlobPutObserved_def BlobDelete_def BlobDeleteNamespace_def BlobRunMaintenance_def
lemmas doc_op_defs = DocCreate_def DocSetWithTimestamps_def DocConditionalUpdate_def DocDeleteWithResult_def
  DocDeleteNamespace_def
lemmas tracked_intros = kv_insert_tracked kv_update_tracked kv_delete_tracked blob_insert_tracked
  blob_update_tracked blob_delete_tracked doc_insert_tracked doc_delete_tracked doc_update_tracked

lemma DocUpdate_tracked: "tracked db (snd (DocUpdate Q J E db0 db c i data))"
  by (simp add: DocUpdate_def Let_def tracked_intros split: option.split sum.split)

lemma store_step_tracked: "store_step Q db db' \<Longrightarrow> tracked db db'"
proof (induction rule: store_step.induct)
  case (persist_root db row)
  show ?case by (simp add: tracked_def root_view_def)
qed (simp_all add: kv_op_defs blob_op_defs doc_op_defs Let_def tracked_intros DocUpdate_tracked
       split: option.split sum.split if_split)

interpretation gdb: version_counter state_version root_view "store_step Q"
proof
  fix s t
  assume "store_step Q s t"
  then have "tracked s t" by (rule store_step_tracked)
  then show "state_version s \<le> state_version t" "state_version s = state_version t \<Longrightarrow> root_view s = root_view t"
    by (simp_all add: tracked_def)
qed


section \<open>The cached roots\<close>

lemma insort_key_map: "insort_key f (h x) (map h xs) = map h (insort_key (\<lambda>y. f (h y)) x xs)"
  by (induction xs) auto

lemma sort_key_map: "sort_key f (map h xs) = map h (sort_key (\<lambda>y. f (h y)) xs)"
  by (induction xs) (auto simp: insort_key_map)

text \<open>The rows of the queries are functions of the view.\<close>

lemma document_rows_view:
  "document_rows db = map (\<lambda>(c, i, d). [Text c, Text i, Text d])
     (sort_key fst (sort_key (\<lambda>(c, i, d). i) (fst (root_view db))))"
  by (simp add: document_rows_def root_view_def sort_key_map comp_def)

lemma kv_rows_view:
  "kv_rows tier now db = map (\<lambda>(k, v, e, t). [Text k, Text v, Text (coalesce e)])
     (sort_key fst (filter (\<lambda>(k, v, e, t). t = tier \<and> active now e) (fst (snd (root_view db)))))"
  by (simp add: kv_rows_def root_view_def sort_key_map filter_map comp_def conj_commute conj_left_commute)

lemma blob_rows_view:
  "blob_rows tier now db =
     map (\<lambda>(ns, i, n, ct, d, e, t). [Text ns, Text i, Integer n, Text ct, Text (sql_hex d), Text (coalesce e)])
       (sort_key fst (sort_key (\<lambda>(ns, i, _). i)
         (filter (\<lambda>(ns, i, n, ct, d, e, t). t = tier \<and> active now e) (snd (snd (root_view db))))))"
  by (simp add: blob_rows_def root_view_def sort_key_map filter_map comp_def)

lemmas rows_view = document_rows_view kv_rows_view blob_rows_view

text \<open>The root of a store at an instant, and the commitment to its observed rows.\<close>

definition root_text :: "string \<Rightarrow> gateway_db \<Rightarrow> bytes" where
  "root_text now db =
     concat (map (writeRowToHash ''documents'') (document_rows db)) @
     concat (map (writeRowToHash ''kv_store'') (kv_rows tier_bound now db)) @
     concat (map (writeRowToHash ''blobs'') (blob_rows tier_bound now db))"

definition state_root_at :: "crypto \<Rightarrow> string \<Rightarrow> gateway_db \<Rightarrow> string" where
  "state_root_at C now db = sha256_hex C (root_text now db)"

definition observed_root_at :: "crypto \<Rightarrow> string \<Rightarrow> gateway_db \<Rightarrow> string" where
  "observed_root_at C now db =
     sha256_hex C (concat (map (writeRowToHash ''kv_store_observed'') (kv_rows tier_observed now db)) @
       concat (map (writeRowToHash ''blobs_observed'') (blob_rows tier_observed now db)))"

lemma hashTable_Inr: "hashTableToStream E i table rows = Inr x \<Longrightarrow> x = concat (map (writeRowToHash table) rows)"
  by (simp add: hashTableToStream_def split: option.splits)

lemma calculateStateRoot_at:
  assumes "calculateStateRoot C E reads None = Inr root"
    and "root_view (reads 1) = root_view db" "root_view (reads 2) = root_view db" "root_view (reads 3) = root_view db"
  shows "root = state_root_at C (FormatTimestamp (clock_at E 1)) db"
  using assms
  by (auto simp: calculateStateRoot_def keymap_text_def state_root_at_def root_text_def rows_view Let_def
      dest!: hashTable_Inr split: sum.splits)

lemma calculateObservedStateRoot_at:
  assumes "calculateObservedStateRoot C E reads = Inr root"
    and "root_view (reads 1) = root_view db" "root_view (reads 2) = root_view db"
  shows "root = observed_root_at C (FormatTimestamp (clock_at E 1)) db"
  using assms
  by (auto simp: calculateObservedStateRoot_def observed_root_at_def rows_view Let_def
      dest!: hashTable_Inr split: sum.splits)

text \<open>A run of the gateway: a fresh service on any store, then writes, computations of either root
  while other writers go on between their statements, and invalidations. No keymap provider is
  set, as in the program.\<close>

definition interleaved :: "sqlite \<Rightarrow> (nat \<Rightarrow> gateway_db) \<Rightarrow> bool" where
  "interleaved Q reads \<longleftrightarrow> (\<forall>i. (store_step Q)\<^sup>*\<^sup>* (reads i) (reads (Suc i)))"

inductive gateway_run :: "crypto \<Rightarrow> sqlite \<Rightarrow> gateway_db \<times> StateRootService \<Rightarrow> bool" for C Q where
  start: "gateway_run C Q (db, NewStateRootService)"
| store: "gateway_run C Q (db, s) \<Longrightarrow> store_step Q db db' \<Longrightarrow> gateway_run C Q (db', s)"
| current: "gateway_run C Q (reads 0, s) \<Longrightarrow> interleaved Q reads \<Longrightarrow>
    GetCurrentStateRoot C E reads keymap s = (answer, s', db') \<Longrightarrow> gateway_run C Q (db', s')"
| observed: "gateway_run C Q (reads 0, s) \<Longrightarrow> interleaved Q reads \<Longrightarrow>
    GetObservedStateRoot C E reads s = (answer, s') \<Longrightarrow> gateway_run C Q (reads 2, s')"
| invalidate: "gateway_run C Q (db, s) \<Longrightarrow> gateway_run C Q (db, InvalidateCache s)"

text \<open>A cached root was computed from readings that began at its version and are over.\<close>

definition cache_inv :: "crypto \<Rightarrow> sqlite \<Rightarrow> gateway_db \<Rightarrow> StateRootService \<Rightarrow> bool" where
  "cache_inv C Q db s \<longleftrightarrow> \<not> keymapHashProvider s \<and>
     (cachedStateRoot s \<noteq> [] \<longrightarrow> (\<exists>E reads. interleaved Q reads \<and> (store_step Q)\<^sup>*\<^sup>* (reads 3) db \<and>
        state_version (reads 0) = cachedStateVersion s \<and> calculateStateRoot C E reads None = Inr (cachedStateRoot s))) \<and>
     (cachedObservedRoot s \<noteq> [] \<longrightarrow> (\<exists>E reads. interleaved Q reads \<and> (store_step Q)\<^sup>*\<^sup>* (reads 2) db \<and>
        state_version (reads 0) = cachedObservedVersion s \<and>
        calculateObservedStateRoot C E reads = Inr (cachedObservedRoot s)))"

lemma interleaved_steps: "interleaved Q reads \<Longrightarrow> i \<le> j \<Longrightarrow> (store_step Q)\<^sup>*\<^sup>* (reads i) (reads j)"
  by (induction j) (auto simp: interleaved_def le_Suc_eq intro: rtranclp_trans)

lemma cache_inv_later: "cache_inv C Q db s \<Longrightarrow> (store_step Q)\<^sup>*\<^sup>* db db' \<Longrightarrow> cache_inv C Q db' s"
  unfolding cache_inv_def by (meson rtranclp_trans)

lemma cache_inv_current:
  assumes inv: "cache_inv C Q (reads 0) s" and il: "interleaved Q reads"
    and call: "GetCurrentStateRoot C E reads keymap s = (answer, s', db')"
  shows "cache_inv C Q db' s'"
proof -
  have late: "cache_inv C Q (reads i) s" for i
    using inv by (rule cache_inv_later) (rule interleaved_steps[OF il le0])
  have no: "\<not> keymapHashProvider s" using inv by (simp add: cache_inv_def)
  consider "s' = s" "db' \<in> {reads 0, reads 3}"
    | root where "calculateStateRoot C E reads None = Inr root"
        "s' = s\<lparr>cachedStateRoot := root, cachedStateVersion := state_version (reads 0)\<rparr>"
        "(store_step Q)\<^sup>*\<^sup>* (reads 8) db'"
    using call no store_step.persist_root[of Q "reads 8"]
    by (auto simp: GetCurrentStateRoot_def Let_def split: option.splits sum.splits if_splits)
  then show ?thesis
  proof cases
    case 1
    with late show ?thesis by auto
  next
    case (2 root)
    have to8: "(store_step Q)\<^sup>*\<^sup>* (reads 3) (reads 8)" using interleaved_steps[OF il, of 3 8] by simp
    have "cache_inv C Q db' s" using cache_inv_later[OF late 2(3)] .
    moreover have "(store_step Q)\<^sup>*\<^sup>* (reads 3) db'" using to8 2(3) by simp
    ultimately show ?thesis using 2(1,2) il by (auto simp: cache_inv_def)
  qed
qed

lemma cache_inv_observed:
  assumes inv: "cache_inv C Q (reads 0) s" and il: "interleaved Q reads"
    and call: "GetObservedStateRoot C E reads s = (answer, s')"
  shows "cache_inv C Q (reads 2) s'"
proof -
  have late: "cache_inv C Q (reads 2) s"
    using inv by (rule cache_inv_later) (rule interleaved_steps[OF il le0])
  consider "s' = s"
    | root where "calculateObservedStateRoot C E reads = Inr root"
        "s' = s\<lparr>cachedObservedRoot := root, cachedObservedVersion := state_version (reads 0)\<rparr>"
    using call by (auto simp: GetObservedStateRoot_def Let_def split: option.splits sum.splits if_splits)
  then show ?thesis
  proof cases
    case (2 root)
    then have "\<exists>E r. interleaved Q r \<and> (store_step Q)\<^sup>*\<^sup>* (r 2) (reads 2) \<and>
        state_version (r 0) = state_version (reads 0) \<and> calculateObservedStateRoot C E r = Inr root"
      using il by blast
    with late 2(2) show ?thesis by (simp add: cache_inv_def)
  qed (use late in simp)
qed

lemma gateway_run_inv: "gateway_run C Q x \<Longrightarrow> cache_inv C Q (fst x) (snd x)"
proof (induction rule: gateway_run.induct)
  case (start db)
  show ?case by (simp add: cache_inv_def NewStateRootService_def)
next
  case (store db s db')
  then show ?case using cache_inv_later[OF _ r_into_rtranclp] by simp
next
  case (current reads s E keymap answer s' db')
  then show ?case using cache_inv_current by simp
next
  case (observed reads s E answer s')
  then show ?case using cache_inv_observed by simp
next
  case (invalidate db s)
  then show ?case by (simp add: cache_inv_def InvalidateCache_def)
qed

text \<open>A bound row that carries an expiry drops out of the root when it passes; without such rows
  the root does not depend on the instant.\<close>

definition permanent :: "gateway_db \<Rightarrow> bool" where
  "permanent db \<longleftrightarrow> (\<forall>r\<in>set (kv_store db). kvTier r = tier_bound \<longrightarrow> kvExpiresAt r = None) \<and>
     (\<forall>r\<in>set (blobs db). bTier r = tier_bound \<longrightarrow> bExpiresAt r = None)"

lemma permanent_root: "permanent db \<Longrightarrow> state_root_at C now db = state_root_at C now' db"
proof -
  assume p: "permanent db"
  have "filter (\<lambda>r. \<not> cache_key (kvKey r) \<and> kvTier r = tier_bound \<and> active now (kvExpiresAt r)) (kv_store db) =
      filter (\<lambda>r. \<not> cache_key (kvKey r) \<and> kvTier r = tier_bound \<and> active now' (kvExpiresAt r)) (kv_store db)"
    using p by (intro filter_cong) (auto simp: permanent_def active_def)
  moreover have "filter (\<lambda>r. bTier r = tier_bound \<and> active now (bExpiresAt r)) (blobs db) =
      filter (\<lambda>r. bTier r = tier_bound \<and> active now' (bExpiresAt r)) (blobs db)"
    using p by (intro filter_cong) (auto simp: permanent_def active_def)
  ultimately show ?thesis by (simp add: state_root_at_def root_text_def kv_rows_def blob_rows_def)
qed

lemma current_root_of_run:
  assumes "gateway_run C Q (db, s)" and "fst (GetCurrentStateRoot C E (\<lambda>_. db) keymap s) = Inr root"
  shows "\<exists>now. root = state_root_at C now db"
proof -
  have inv: "cache_inv C Q db s" using gateway_run_inv[OF assms(1)] by simp
  then consider "calculateStateRoot C E (\<lambda>_. db) None = Inr root"
    | "root = cachedStateRoot s" "cachedStateRoot s \<noteq> []" "state_version db = cachedStateVersion s"
    using assms(2) by (auto simp: GetCurrentStateRoot_def cache_inv_def Let_def split: option.splits sum.splits if_splits)
  then show ?thesis
  proof cases
    case 1
    then show ?thesis using calculateStateRoot_at[of C E "\<lambda>_. db"] by blast
  next
    case 2
    then obtain E' reads where r: "interleaved Q reads" "(store_step Q)\<^sup>*\<^sup>* (reads 3) db"
      "state_version (reads 0) = cachedStateVersion s" "calculateStateRoot C E' reads None = Inr root"
      using inv by (auto simp: cache_inv_def)
    have "root_view (reads i) = root_view db" if "i \<le> 3" for i
    proof (rule gdb.steps_between)
      show "(store_step Q)\<^sup>*\<^sup>* (reads 0) (reads i)" using interleaved_steps[OF r(1), of 0 i] by simp
      show "(store_step Q)\<^sup>*\<^sup>* (reads i) db" using interleaved_steps[OF r(1) that] r(2) by simp
      show "state_version (reads 0) = state_version db" using r(3) 2(3) by simp
    qed
    then show ?thesis using calculateStateRoot_at[OF r(4), of db] by auto
  qed
qed

lemma observed_root_of_run:
  assumes "gateway_run C Q (db, s)" and "fst (GetObservedStateRoot C E (\<lambda>_. db) s) = Inr root"
  shows "\<exists>now. root = observed_root_at C now db"
proof -
  have inv: "cache_inv C Q db s" using gateway_run_inv[OF assms(1)] by simp
  then consider "calculateObservedStateRoot C E (\<lambda>_. db) = Inr root"
    | "root = cachedObservedRoot s" "cachedObservedRoot s \<noteq> []" "state_version db = cachedObservedVersion s"
    using assms(2) by (auto simp: GetObservedStateRoot_def Let_def split: option.splits sum.splits if_splits)
  then show ?thesis
  proof cases
    case 1
    then show ?thesis using calculateObservedStateRoot_at[of C E "\<lambda>_. db"] by blast
  next
    case 2
    then obtain E' reads where r: "interleaved Q reads" "(store_step Q)\<^sup>*\<^sup>* (reads 2) db"
      "state_version (reads 0) = cachedObservedVersion s" "calculateObservedStateRoot C E' reads = Inr root"
      using inv by (auto simp: cache_inv_def)
    have "root_view (reads i) = root_view db" if "i \<le> 2" for i
    proof (rule gdb.steps_between)
      show "(store_step Q)\<^sup>*\<^sup>* (reads 0) (reads i)" using interleaved_steps[OF r(1), of 0 i] by simp
      show "(store_step Q)\<^sup>*\<^sup>* (reads i) db" using interleaved_steps[OF r(1) that] r(2) by simp
      show "state_version (reads 0) = state_version db" using r(3) 2(3) by simp
    qed
    then show ?thesis using calculateObservedStateRoot_at[OF r(4), of db] by auto
  qed
qed

end
