(* ===== verification/State_Root_Binding.thy ===== *)
theory State_Root_Binding
  imports State_Root_Facts Json_Text
begin

text \<open>
  What the state root binds. The text that is hashed holds one line per row, without escapes. As
  long as no value holds a line break and keys hold no quotation mark, the text determines the
  rows; a value that holds both can imitate other rows.
\<close>

section \<open>Lines\<close>

abbreviation quote :: char where "quote \<equiv> CHR 0x22"
abbreviation newline :: char where "newline \<equiv> CHR 0x0A"

lemma split_first: "x \<notin> set a \<Longrightarrow> x \<notin> set b \<Longrightarrow> a @ x # r = b @ x # t \<Longrightarrow> a = b \<and> r = t"
proof (induction a arbitrary: b)
  case Nil
  then show ?case by (cases b) auto
next
  case (Cons c a)
  then show ?case by (cases b) auto
qed

lemma split_last:
  assumes "x \<notin> set r" and "x \<notin> set t" and "a @ x # r = b @ x # t"
  shows "a = b \<and> r = t"
proof -
  have "rev (a @ x # r) = rev (b @ x # t)" using assms(3) by simp
  then have "rev r @ x # rev a = rev t @ x # rev b" by simp
  then show ?thesis using split_first[of x "rev r" "rev t" "rev a" "rev b"] assms(1,2) by simp
qed

lemma lines_unique:
  assumes "\<And>l. l \<in> set ls \<Longrightarrow> newline \<notin> set l" and "\<And>l. l \<in> set ms \<Longrightarrow> newline \<notin> set l"
    and "concat (map (\<lambda>l. l @ [newline]) ls) = concat (map (\<lambda>l. l @ [newline]) ms)"
  shows "ls = ms"
  using assms
proof (induction ls arbitrary: ms)
  case Nil
  then show ?case by (cases ms) auto
next
  case (Cons l ls)
  then obtain m ms' where ms: "ms = m # ms'" by (cases ms) auto
  have "l @ newline # concat (map (\<lambda>l. l @ [newline]) ls) = m @ newline # concat (map (\<lambda>l. l @ [newline]) ms')"
    using Cons.prems(3) ms by simp
  then have "l = m" "concat (map (\<lambda>l. l @ [newline]) ls) = concat (map (\<lambda>l. l @ [newline]) ms')"
    using split_first[of newline l m] Cons.prems(1)[of l] Cons.prems(2)[of m] ms by simp_all
  moreover from this(2) have "ls = ms'" using Cons.IH[of ms'] Cons.prems(1,2) ms by simp
  ultimately show ?case using ms by simp
qed

definition row_line :: "string \<Rightarrow> sql_value list \<Rightarrow> string" where
  "row_line table values =
     ''{'' @ [quote] @ ''table'' @ [quote] @ '':'' @ [quote] @ table @ [quote] @ '','' @
     [quote] @ ''values'' @ [quote] @ '':['' @ strings_Join (map value_text values) '','' @ '']}''"

lemma writeRow_line: "writeRowToHash table = (\<lambda>values. row_line table values @ [newline])"
  by (rule ext) (simp add: writeRowToHash_def row_line_def)

text \<open>The lines of the text, by table; the name of the table begins at position 10.\<close>

lemma row_line_table: "table = c # cs \<Longrightarrow> row_line table values ! 10 = c"
  by (simp add: row_line_def eval_nat_numeral)

definition root_lines :: "string \<Rightarrow> gateway_db \<Rightarrow> string list" where
  "root_lines now db = map (row_line ''documents'') (document_rows db) @
     map (row_line ''kv_store'') (kv_rows tier_bound now db) @
     map (row_line ''blobs'') (blob_rows tier_bound now db)"

lemma root_text_lines: "root_text now db = concat (map (\<lambda>l. l @ [newline]) (root_lines now db))"
  by (simp add: root_text_def root_lines_def writeRow_line comp_def)

lemma root_lines_tables:
  "filter (\<lambda>l. l ! 10 = CHR ''d'') (root_lines now db) = map (row_line ''documents'') (document_rows db)"
  "filter (\<lambda>l. l ! 10 = CHR ''k'') (root_lines now db) = map (row_line ''kv_store'') (kv_rows tier_bound now db)"
  "filter (\<lambda>l. l ! 10 = CHR ''b'') (root_lines now db) = map (row_line ''blobs'') (blob_rows tier_bound now db)"
  by (simp_all add: root_lines_def filter_map comp_def row_line_table)

section \<open>Plain rows\<close>

fun plain_values :: "bool list \<Rightarrow> sql_value list \<Rightarrow> bool" where
  "plain_values [] [] \<longleftrightarrow> True"
| "plain_values (q # qs) (Text s # vs) \<longleftrightarrow> newline \<notin> set s \<and> (q \<longrightarrow> quote \<notin> set s) \<and> plain_values qs vs"
| "plain_values (q # qs) (Integer i # vs) \<longleftrightarrow> plain_values qs vs"
| "plain_values _ _ \<longleftrightarrow> False"

text \<open>No value of a live row holds a line break, and only the data of a document and the value of
  a key hold quotation marks.\<close>

definition plain_db :: "string \<Rightarrow> gateway_db \<Rightarrow> bool" where
  "plain_db now db \<longleftrightarrow>
     list_all (plain_values [True, True, False]) (document_rows db) \<and>
     list_all (plain_values [True, False, True]) (kv_rows tier_bound now db) \<and>
     list_all (plain_values [True, True, True, True, True, True]) (blob_rows tier_bound now db)"

lemma FormatInt_no_newline: "newline \<notin> set (FormatInt i)"
proof -
  have "newline \<notin> set (decimal_nat n)" for n
    using decimal_nat_digits[of n] by (auto simp: list_all_iff digit_def)
  then show ?thesis by (simp add: FormatInt_def)
qed

lemma plain_values_no_newline: "plain_values qs vs \<Longrightarrow> newline \<notin> set (strings_Join (map value_text vs) '','')"
proof (induction qs vs rule: plain_values.induct)
  case (2 q qs s vs)
  then show ?case by (cases vs) auto
next
  case (3 q qs i vs)
  then show ?case by (cases vs) (auto simp: FormatInt_no_newline)
qed auto

lemma row_line_no_newline:
  "plain_values qs vs \<Longrightarrow> newline \<notin> set table \<Longrightarrow> newline \<notin> set (row_line table vs)"
  using plain_values_no_newline[of qs vs] by (simp add: row_line_def)

lemma plain_lines:
  assumes "list_all (plain_values qs) rows" and "newline \<notin> set table" and "l \<in> set (map (row_line table) rows)"
  shows "newline \<notin> set l"
proof -
  from assms(3) obtain r where r: "r \<in> set rows" "l = row_line table r" by auto
  then have "plain_values qs r" using assms(1) by (simp add: list_all_iff)
  then show ?thesis unfolding r(2) using assms(2) by (rule row_line_no_newline)
qed

lemma root_lines_no_newline:
  assumes "plain_db now db" and "l \<in> set (root_lines now db)"
  shows "newline \<notin> set l"
  using assms(2) unfolding root_lines_def set_append
proof (elim UnE)
  assume "l \<in> set (map (row_line ''documents'') (document_rows db))"
  then show ?thesis by (rule plain_lines[rotated 2]) (use assms(1) in \<open>auto simp: plain_db_def\<close>)
next
  assume "l \<in> set (map (row_line ''kv_store'') (kv_rows tier_bound now db))"
  then show ?thesis by (rule plain_lines[rotated 2]) (use assms(1) in \<open>auto simp: plain_db_def\<close>)
next
  assume "l \<in> set (map (row_line ''blobs'') (blob_rows tier_bound now db))"
  then show ?thesis by (rule plain_lines[rotated 2]) (use assms(1) in \<open>auto simp: plain_db_def\<close>)
qed

section \<open>A line determines its row\<close>

text \<open>Splits for the three shapes: a quoted field without quotation marks at the front, one at the
  end, and a number.\<close>

lemma front_field:
  "quote \<notin> set a \<Longrightarrow> quote \<notin> set b \<Longrightarrow> a @ quote # r = b @ quote # t \<longleftrightarrow> a = b \<and> r = t"
  using split_first[of quote a b r t] by auto

lemma back_field:
  "quote \<notin> set r \<Longrightarrow> quote \<notin> set t \<Longrightarrow>
   a @ quote # CHR '','' # quote # r = b @ quote # CHR '','' # quote # t \<longleftrightarrow> a = b \<and> r = t"
  using split_last[of quote r t "a @ [quote, CHR '','']" "b @ [quote, CHR '','']"] by auto

lemma number_field: "FormatInt i @ CHR '','' # r = FormatInt j @ CHR '','' # t \<longleftrightarrow> i = j \<and> r = t"
  using FormatInt_delimited[of i "CHR '',''" r j "CHR '',''" t] by (auto simp: digit_def)

lemma document_line:
  assumes "plain_values [True, True, False] [Text c, Text i, Text d]"
    and "plain_values [True, True, False] [Text c', Text i', Text d']"
    and "row_line table [Text c, Text i, Text d] = row_line table [Text c', Text i', Text d']"
  shows "c = c' \<and> i = i' \<and> d = d'"
  using assms by (auto simp: row_line_def front_field)

lemma kv_line:
  assumes "plain_values [True, False, True] [Text k, Text v, Text e]"
    and "plain_values [True, False, True] [Text k', Text v', Text e']"
    and "row_line table [Text k, Text v, Text e] = row_line table [Text k', Text v', Text e']"
  shows "k = k' \<and> v = v' \<and> e = e'"
proof -
  have q: "quote \<notin> set k" "quote \<notin> set k'" "quote \<notin> set e" "quote \<notin> set e'" using assms(1,2) by auto
  have "k @ quote # CHR '','' # quote # v @ quote # CHR '','' # quote # e =
      k' @ quote # CHR '','' # quote # v' @ quote # CHR '','' # quote # e'"
    using assms(3) by (simp add: row_line_def)
  then show ?thesis using q by (simp add: front_field back_field)
qed

lemma blob_line:
  assumes "plain_values [True, True, True, True, True, True] [Text ns, Text i, Integer n, Text ct, Text d, Text e]"
    and "plain_values [True, True, True, True, True, True] [Text ns', Text i', Integer n', Text ct', Text d', Text e']"
    and "row_line table [Text ns, Text i, Integer n, Text ct, Text d, Text e] =
      row_line table [Text ns', Text i', Integer n', Text ct', Text d', Text e']"
  shows "ns = ns' \<and> i = i' \<and> n = n' \<and> ct = ct' \<and> d = d' \<and> e = e'"
  using assms by (auto simp: row_line_def front_field number_field)


section \<open>What the root binds\<close>

text \<open>The content of a store at an instant: its documents, its live bound keys and its live bound
  blobs.\<close>

definition doc_content :: "gateway_db \<Rightarrow> (string \<times> string \<times> bytes) set" where
  "doc_content db = (\<lambda>r. (dCollection r, dId r, dData r)) ` set (documents db)"

definition kv_content :: "string \<Rightarrow> gateway_db \<Rightarrow> (string \<times> string \<times> string option) set" where
  "kv_content now db = (\<lambda>r. (kvKey r, kvValue r, kvExpiresAt r)) `
     {r \<in> set (kv_store db). \<not> cache_key (kvKey r) \<and> kvTier r = tier_bound \<and> active now (kvExpiresAt r)}"

definition blob_content :: "string \<Rightarrow> gateway_db \<Rightarrow> (string \<times> string \<times> int \<times> string \<times> bytes \<times> string option) set" where
  "blob_content now db = (\<lambda>r. (bNamespace r, bId r, bSize r, bContentType r, bData r, bExpiresAt r)) `
     {r \<in> set (blobs db). bTier r = tier_bound \<and> active now (bExpiresAt r)}"

lemma map_line_inj:
  assumes "map (row_line table) rs = map (row_line table) ss" and "list_all (plain_values qs) rs" "list_all (plain_values qs) ss"
    and shape: "\<And>r. r \<in> set rs \<union> set ss \<Longrightarrow> r \<in> S"
    and unique: "\<And>r s. r \<in> S \<Longrightarrow> s \<in> S \<Longrightarrow> plain_values qs r \<Longrightarrow> plain_values qs s \<Longrightarrow>
      row_line table r = row_line table s \<Longrightarrow> r = s"
  shows "rs = ss"
proof (rule map_inj_on[OF assms(1)], rule inj_onI)
  fix r s
  assume "r \<in> set rs \<union> set ss" "s \<in> set rs \<union> set ss" "row_line table r = row_line table s"
  moreover from this have "plain_values qs r" "plain_values qs s" using assms(2,3) by (auto simp: list_all_iff)
  ultimately show "r = s" using shape unique by blast
qed

definition document_shape :: "sql_value list set" where
  "document_shape = {[Text c, Text i, Text d] |c i d. True}"

definition kv_shape :: "sql_value list set" where
  "kv_shape = {[Text k, Text v, Text e] |k v e. True}"

definition blob_shape :: "sql_value list set" where
  "blob_shape = {[Text ns, Text i, Integer n, Text ct, Text d, Text e] |ns i n ct d e. True}"

lemma row_shapes:
  "set (document_rows db) \<subseteq> document_shape" "set (kv_rows tier now db) \<subseteq> kv_shape"
  "set (blob_rows tier now db) \<subseteq> blob_shape"
  by (auto simp: document_rows_def document_shape_def kv_rows_def kv_shape_def blob_rows_def blob_shape_def)

lemma document_row_unique:
  assumes "r \<in> document_shape" "s \<in> document_shape" "plain_values [True, True, False] r"
    "plain_values [True, True, False] s" "row_line table r = row_line table s"
  shows "r = s"
proof -
  obtain c i d c' i' d' where e: "r = [Text c, Text i, Text d]" "s = [Text c', Text i', Text d']"
    using assms(1,2) by (auto simp: document_shape_def)
  from document_line[OF assms(3-5)[unfolded e]] show ?thesis by (simp add: e)
qed

lemma kv_row_unique:
  assumes "r \<in> kv_shape" "s \<in> kv_shape" "plain_values [True, False, True] r"
    "plain_values [True, False, True] s" "row_line table r = row_line table s"
  shows "r = s"
proof -
  obtain k v e k' v' e' where e: "r = [Text k, Text v, Text e]" "s = [Text k', Text v', Text e']"
    using assms(1,2) by (auto simp: kv_shape_def)
  from kv_line[OF assms(3-5)[unfolded e]] show ?thesis by (simp add: e)
qed

lemma blob_row_unique:
  assumes "r \<in> blob_shape" "s \<in> blob_shape" "plain_values [True, True, True, True, True, True] r"
    "plain_values [True, True, True, True, True, True] s" "row_line table r = row_line table s"
  shows "r = s"
proof -
  obtain ns i n ct d e ns' i' n' ct' d' e' where e: "r = [Text ns, Text i, Integer n, Text ct, Text d, Text e]"
    "s = [Text ns', Text i', Integer n', Text ct', Text d', Text e']"
    using assms(1,2) by (auto simp: blob_shape_def)
  from blob_line[OF assms(3-5)[unfolded e]] show ?thesis by (simp add: e)
qed

lemma rows_of_root:
  assumes "plain_db now db" and "plain_db now' db'" and "root_text now db = root_text now' db'"
  shows "document_rows db = document_rows db'" "kv_rows tier_bound now db = kv_rows tier_bound now' db'"
    "blob_rows tier_bound now db = blob_rows tier_bound now' db'"
proof -
  have "root_lines now db = root_lines now' db'"
    using assms(3) unfolding root_text_lines
    by (rule lines_unique[rotated 2]) (auto dest: root_lines_no_newline[OF assms(1)] root_lines_no_newline[OF assms(2)])
  then have l: "map (row_line ''documents'') (document_rows db) = map (row_line ''documents'') (document_rows db')"
    "map (row_line ''kv_store'') (kv_rows tier_bound now db) = map (row_line ''kv_store'') (kv_rows tier_bound now' db')"
    "map (row_line ''blobs'') (blob_rows tier_bound now db) = map (row_line ''blobs'') (blob_rows tier_bound now' db')"
    by (metis root_lines_tables(1), metis root_lines_tables(2), metis root_lines_tables(3))
  note p = assms(1,2)[unfolded plain_db_def]
  show "document_rows db = document_rows db'"
    using p row_shapes(1)[of db] row_shapes(1)[of db']
    by (intro map_line_inj[OF l(1), where S = document_shape]) (auto intro: document_row_unique)
  show "kv_rows tier_bound now db = kv_rows tier_bound now' db'"
    using p row_shapes(2)[of _ now db] row_shapes(2)[of _ now' db']
    by (intro map_line_inj[OF l(2), where S = kv_shape]) (auto intro: kv_row_unique)
  show "blob_rows tier_bound now db = blob_rows tier_bound now' db'"
    using p row_shapes(3)[of _ now db] row_shapes(3)[of _ now' db']
    by (intro map_line_inj[OF l(3), where S = blob_shape]) (auto intro: blob_row_unique)
qed


lemma upper_hex_inj: "m < 16 \<Longrightarrow> n < 16 \<Longrightarrow>
   (let k = of_char (hex_digit m) :: nat in if 97 \<le> k \<and> k \<le> 122 then char_of (k - 32) else hex_digit m) =
   (let k = of_char (hex_digit n) :: nat in if 97 \<le> k \<and> k \<le> 122 then char_of (k - 32) else hex_digit n) \<Longrightarrow> m = n"
  by (auto simp: hex_digit_def Let_def split: if_splits)

lemma sql_hex_Cons: "sql_hex (c # cs) =
    (let k = of_char (hex_digit (of_char c div 16)) :: nat in if 97 \<le> k \<and> k \<le> 122 then char_of (k - 32) else hex_digit (of_char c div 16)) #
    (let k = of_char (hex_digit (of_char c mod 16)) :: nat in if 97 \<le> k \<and> k \<le> 122 then char_of (k - 32) else hex_digit (of_char c mod 16)) #
    sql_hex cs"
  by (simp add: sql_hex_def)

lemma of_char_div_16: "(of_char c :: nat) div 16 < 16"
  using nat_of_char_less_256[of c] by (simp add: less_mult_imp_div_less)

lemma sql_hex_inj: "sql_hex a = sql_hex b \<Longrightarrow> a = b"
proof (induction a arbitrary: b)
  case Nil
  then show ?case by (cases b) (simp_all add: sql_hex_def)
next
  case (Cons c cs)
  then obtain d ds where b: "b = d # ds" by (cases b) (simp_all add: sql_hex_def)
  have "of_char c div 16 = (of_char d div 16 :: nat)" "of_char c mod 16 = (of_char d mod 16 :: nat)" "sql_hex cs = sql_hex ds"
    using Cons.prems of_char_div_16 unfolding b sql_hex_Cons
    by (auto intro: upper_hex_inj)
  then have "(of_char c :: nat) = of_char d" by (metis div_mult_mod_eq)
  then show ?case using Cons.IH[of ds] \<open>sql_hex cs = sql_hex ds\<close> b by simp
qed

lemma coalesce_live: "active now a \<Longrightarrow> b \<noteq> Some [] \<Longrightarrow> coalesce b = coalesce a \<Longrightarrow> b = a"
  by (auto simp: active_def coalesce_def split: option.splits)

lemma active_nonempty: "\<not> active now (Some [])"
  by (simp add: active_def)

text \<open>Contents are read off the rows of the queries.\<close>

lemma contents_of_rows:
  "doc_content db = {(c, i, d). [Text c, Text i, Text d] \<in> set (document_rows db)}"
  "kv_content now db = {(k, v, e). e \<noteq> Some [] \<and> [Text k, Text v, Text (coalesce e)] \<in> set (kv_rows tier_bound now db)}"
  "blob_content now db = {(ns, i, n, ct, d, e). e \<noteq> Some [] \<and>
     [Text ns, Text i, Integer n, Text ct, Text (sql_hex d), Text (coalesce e)] \<in> set (blob_rows tier_bound now db)}"
  by (auto simp: doc_content_def document_rows_def kv_content_def kv_rows_def blob_content_def blob_rows_def
      active_nonempty dest!: sql_hex_inj dest: coalesce_live intro!: image_eqI)

lemma root_determines_content:
  assumes "collision_free C" and "plain_db now db" and "plain_db now' db'"
    and "state_root_at C now db = state_root_at C now' db'"
  shows "doc_content db = doc_content db'" "kv_content now db = kv_content now' db'"
    "blob_content now db = blob_content now' db'"
proof -
  have "root_text now db = root_text now' db'"
    using assms(1,4) by (simp add: state_root_at_def sha256_hex_def collision_free_def hex_encode_inj inj_eq)
  note rows = rows_of_root[OF assms(2,3) this]
  show "doc_content db = doc_content db'" by (simp add: contents_of_rows(1) rows(1))
  show "kv_content now db = kv_content now' db'" by (simp add: contents_of_rows(2) rows(2))
  show "blob_content now db = blob_content now' db'" by (simp add: contents_of_rows(3) rows(3))
qed

end
