(* ===== verification/State_Root_Properties.thy ===== *)
theory State_Root_Properties
  imports State_Root_Binding
begin

text \<open>
  The properties of the state root service and of the tiers of the coordination store, with
  concrete stores.
\<close>

section \<open>The cached root is current\<close>

lemma calculate_returns:
  assumes "\<And>i. fault_at E i = None"
  obtains root where "calculateStateRoot C E reads k = Inr root"
  using assms by (simp add: calculateStateRoot_def hashTableToStream_def Let_def)

lemma current_root_returns:
  assumes "\<And>i. fault_at E i = None"
  shows "\<exists>root. fst (GetCurrentStateRoot C E reads keymap s) = Inr root"
proof -
  obtain root where "calculateStateRoot C E reads (if keymapHashProvider s then Some keymap else None) = Inr root"
    using assms by (rule calculate_returns)
  then show ?thesis by (simp add: GetCurrentStateRoot_def Let_def assms del: if_split)
qed


definition calm :: "time \<Rightarrow> store_env" where
  "calm t = \<lparr>clock_at = (\<lambda>_. t), fault_at = (\<lambda>_. None), error_text = (\<lambda>_. [])\<rparr>"

definition no_sqlite :: sqlite where
  "no_sqlite = \<lparr>sqGlob = (\<lambda>p k. p = k), sqJsonSet = (\<lambda>d p v. v), sqJsonEq = (\<lambda>d p v. d = v)\<rparr>"

lemma calm_simps [simp]: "clock_at (calm t) i = t" "fault_at (calm t) i = None" "error_text (calm t) e = []"
  by (simp_all add: calm_def)

text \<open>A computation of the root leaves the tables alone.\<close>

lemma root_call_tables [simp]:
  "documents (snd (snd (GetCurrentStateRoot C E (\<lambda>_. db) keymap s))) = documents db"
  "kv_store (snd (snd (GetCurrentStateRoot C E (\<lambda>_. db) keymap s))) = kv_store db"
  "blobs (snd (snd (GetCurrentStateRoot C E (\<lambda>_. db) keymap s))) = blobs db"
  by (simp_all add: GetCurrentStateRoot_def Let_def split: option.split sum.split)

text \<open>A key is written, the root computed, the key written again.\<close>

definition first_db :: gateway_db where
  "first_db = snd (KVSet (calm 0) empty_db ''k'' ''v'' 0)"

definition rooted_service :: StateRootService where
  "rooted_service = fst (snd (GetCurrentStateRoot toy_crypto (calm 0) (\<lambda>_. first_db) [] NewStateRootService))"

definition second_db :: gateway_db where
  "second_db = snd (KVSet (calm 1) (snd (snd (GetCurrentStateRoot toy_crypto (calm 0) (\<lambda>_. first_db) [] NewStateRootService)))
     ''k'' ''w'' 0)"

lemma sample_rows:
  "kv_store first_db = [\<lparr>kvKey = ''k'', kvValue = ''v'', kvCreatedAt = FormatTimestamp 0, kvExpiresAt = None, kvTier = tier_bound\<rparr>]"
  "documents first_db = []" "blobs first_db = []"
  "kv_store second_db = [\<lparr>kvKey = ''k'', kvValue = ''w'', kvCreatedAt = FormatTimestamp 0, kvExpiresAt = None, kvTier = tier_bound\<rparr>]"
  "documents second_db = []" "blobs second_db = []"
proof -
  show f: "kv_store first_db = [\<lparr>kvKey = ''k'', kvValue = ''v'', kvCreatedAt = FormatTimestamp 0, kvExpiresAt = None, kvTier = tier_bound\<rparr>]"
    "documents first_db = []" "blobs first_db = []"
    by (simp_all add: first_db_def KVSet_def empty_db_def has_key_def kv_insert_def bump_version_def ttl_expiry_def)
  show "kv_store second_db = [\<lparr>kvKey = ''k'', kvValue = ''w'', kvCreatedAt = FormatTimestamp 0, kvExpiresAt = None, kvTier = tier_bound\<rparr>]"
    "documents second_db = []" "blobs second_db = []"
    by (simp_all add: second_db_def KVSet_def has_key_def kv_update_def bump_version_def ttl_expiry_def f Let_def)
qed

lemma sample_run: "gateway_run toy_crypto no_sqlite (second_db, rooted_service)"
proof -
  have "gateway_run toy_crypto no_sqlite (first_db, NewStateRootService)"
    unfolding first_db_def by (rule gateway_run.store[OF gateway_run.start store_step.kv_set])
  moreover have "interleaved no_sqlite (\<lambda>_. first_db)" by (simp add: interleaved_def)
  ultimately have "gateway_run toy_crypto no_sqlite
      (snd (snd (GetCurrentStateRoot toy_crypto (calm 0) (\<lambda>_. first_db) [] NewStateRootService)), rooted_service)"
    unfolding rooted_service_def
    by (rule gateway_run.current[where reads = "\<lambda>_. first_db" and E = "calm 0" and keymap = "[]"
          and answer = "fst (GetCurrentStateRoot toy_crypto (calm 0) (\<lambda>_. first_db) [] NewStateRootService)"]) simp_all
  then show ?thesis unfolding second_db_def by (rule gateway_run.store[OF _ store_step.kv_set])
qed



section \<open>What the root binds\<close>

text \<open>C20: The root binds the state. Two stores with the same root, whatever the instants at which
  the roots were taken, hold the same documents, the same live bound keys with their values and
  expiries, and the same live bound blobs, when hashes do not collide and the rows are plain (no
  line break in any value, quotation marks only in document data and in values of keys).\<close>

theorem state_root_binds_state:
  assumes "collision_free C"
    and "calculateStateRoot C E (\<lambda>_. db) None = Inr root" and "plain_db (FormatTimestamp (clock_at E 1)) db"
    and "calculateStateRoot C E' (\<lambda>_. db') None = Inr root" and "plain_db (FormatTimestamp (clock_at E' 1)) db'"
  shows "doc_content db = doc_content db' \<and>
    kv_content (FormatTimestamp (clock_at E 1)) db = kv_content (FormatTimestamp (clock_at E' 1)) db' \<and>
    blob_content (FormatTimestamp (clock_at E 1)) db = blob_content (FormatTimestamp (clock_at E' 1)) db'"
proof -
  have "state_root_at C (FormatTimestamp (clock_at E 1)) db = state_root_at C (FormatTimestamp (clock_at E' 1)) db'"
    using calculateStateRoot_at[OF assms(2), of db] calculateStateRoot_at[OF assms(4), of db'] by simp
  from root_determines_content[OF assms(1,3,5) this] show ?thesis by blast
qed

theorem state_root_binds_state_witness:
  "calculateStateRoot toy_crypto (calm 0) (\<lambda>_. first_db) None \<noteq> calculateStateRoot toy_crypto (calm 0) (\<lambda>_. second_db) None \<and>
   kv_content (FormatTimestamp 0) first_db \<noteq> {}"
proof -
  let ?now = "FormatTimestamp 0"
  have k: "\<not> cache_key ''k''" by (simp add: cache_key_def)
  have p: "plain_db ?now first_db" "plain_db ?now second_db"
    by (simp_all add: plain_db_def document_rows_def kv_rows_def blob_rows_def sample_rows k active_def coalesce_def)
  have one: "{r \<in> set [x]. P r} = (if P x then {x} else {})" for x :: kv_row and P by auto
  have c: "kv_content ?now first_db = {(''k'', ''v'', None)}" "kv_content ?now second_db = {(''k'', ''w'', None)}"
    unfolding kv_content_def sample_rows one by (simp_all add: k active_def)
  obtain root where root: "calculateStateRoot toy_crypto (calm 0) (\<lambda>_. first_db) None = Inr root"
    by (rule calculate_returns[of "calm 0"]) simp_all
  have "calculateStateRoot toy_crypto (calm 0) (\<lambda>_. second_db) None \<noteq> Inr root"
  proof
    assume "calculateStateRoot toy_crypto (calm 0) (\<lambda>_. second_db) None = Inr root"
    from state_root_binds_state[OF collision_free_toy root _ this] p
    have "kv_content ?now first_db = kv_content ?now second_db" by simp
    then show False unfolding c by simp
  qed
  with root c(1) show ?thesis by simp
qed

section \<open>Tiers\<close>

lemma filter_outside:
  assumes "\<And>r. r \<in> set xs \<Longrightarrow> p r \<Longrightarrow> \<not> q r" and "\<And>r. r \<in> set xs \<Longrightarrow> p r \<Longrightarrow> \<not> q (f r)"
  shows "filter q (map (\<lambda>r. if p r then f r else r) xs) = filter q xs"
  using assms by (induction xs) auto

definition bound_key :: "string \<Rightarrow> gateway_db \<Rightarrow> bool" where
  "bound_key key db \<longleftrightarrow> list_ex (\<lambda>r. kvKey r = key \<and> kvTier r = tier_bound) (kv_store db)"

definition bound_blob :: "string \<Rightarrow> string \<Rightarrow> gateway_db \<Rightarrow> bool" where
  "bound_blob namespace blobID db \<longleftrightarrow> list_ex (\<lambda>r. is_blob namespace blobID r \<and> bTier r = tier_bound) (blobs db)"

lemma kv_update_root:
  assumes "\<not> bound_key key db" and "\<And>r. kvTier (f r) = kvTier r \<or> kvTier (f r) = tier_observed"
  shows "state_root_at C now (kv_update (\<lambda>r. kvKey r = key) f db) = state_root_at C now db"
proof -
  have f: "kvTier (f r) \<noteq> tier_bound" if "kvTier r \<noteq> tier_bound" for r using assms(2)[of r] that by auto
  have "filter (\<lambda>r. \<not> cache_key (kvKey r) \<and> kvTier r = tier_bound \<and> active now (kvExpiresAt r))
      (map (\<lambda>r. if kvKey r = key then f r else r) (kv_store db)) =
    filter (\<lambda>r. \<not> cache_key (kvKey r) \<and> kvTier r = tier_bound \<and> active now (kvExpiresAt r)) (kv_store db)"
    using assms(1) f by (intro filter_outside) (auto simp: bound_key_def list_ex_iff)
  then show ?thesis
    by (simp add: state_root_at_def root_text_def kv_update_def bump_version_def kv_rows_def document_rows_def blob_rows_def)
qed

lemma kv_insert_root: "kvTier r = tier_observed \<Longrightarrow> state_root_at C now (kv_insert r db) = state_root_at C now db"
  by (simp add: state_root_at_def root_text_def kv_insert_def bump_version_def kv_rows_def document_rows_def blob_rows_def)

lemma observed_key_root: "\<not> bound_key key db \<Longrightarrow>
   state_root_at C now (snd (KVSetObserved E db key v ttl)) = state_root_at C now db"
  by (simp add: KVSetObserved_def Let_def kv_update_root kv_insert_root split: option.split)

lemma observed_blob_root:
  assumes "\<not> bound_blob ns i db"
  shows "state_root_at C now (snd (BlobPutObserved E db ns i data ct ttl)) = state_root_at C now db"
proof -
  have "filter (\<lambda>r. bTier r = tier_bound \<and> active now (bExpiresAt r))
      (map (\<lambda>r. if is_blob ns i r then f r else r) (blobs db)) =
    filter (\<lambda>r. bTier r = tier_bound \<and> active now (bExpiresAt r)) (blobs db)" if "\<And>r. bTier (f r) = tier_observed" for f
    using assms that by (intro filter_outside) (auto simp: bound_blob_def list_ex_iff)
  then show ?thesis
    by (auto simp: BlobPutObserved_def Let_def state_root_at_def root_text_def blob_insert_def blob_update_def
      bump_version_def kv_rows_def document_rows_def blob_rows_def split: option.split)
qed

text \<open>Observed state does not churn the root. Writing a key or a blob as observed leaves the
  root unchanged at every instant, unless the write demotes a bound row. The tier of a key sticks:
  also a plain \<open>KVSet\<close> of a key that was observed before leaves the root unchanged, so its new
  value is not bound by it.\<close>

theorem observed_state_separate:
  "(\<not> bound_key key db \<longrightarrow> state_root_at C now (snd (KVSetObserved E db key v ttl)) = state_root_at C now db) \<and>
   (\<not> bound_blob ns i db \<longrightarrow> state_root_at C now (snd (BlobPutObserved E db ns i data ct ttl)) = state_root_at C now db) \<and>
   (has_key key db \<and> \<not> bound_key key db \<longrightarrow> state_root_at C now (snd (KVSet E db key v ttl)) = state_root_at C now db)"
  by (auto simp: observed_key_root observed_blob_root KVSet_def Let_def kv_update_root split: option.split)

theorem observed_state_separate_witness:
  "state_root_at toy_crypto ''0'' (snd (KVSet (calm 0) (snd (KVSetObserved (calm 0) first_db ''t'' ''x'' 0)) ''t'' ''y'' 0)) =
     state_root_at toy_crypto ''0'' first_db"
proof -
  have "\<not> bound_key ''t'' first_db" by (simp add: bound_key_def sample_rows)
  moreover have "has_key ''t'' (snd (KVSetObserved (calm 0) first_db ''t'' ''x'' 0)) \<and>
      \<not> bound_key ''t'' (snd (KVSetObserved (calm 0) first_db ''t'' ''x'' 0))"
    by (simp add: bound_key_def has_key_def KVSetObserved_def sample_rows kv_insert_def bump_version_def Let_def)
  ultimately show ?thesis
    using observed_state_separate[of "''t''" first_db toy_crypto "''0''" "calm 0" "''x''" 0]
      observed_state_separate[of "''t''" "snd (KVSetObserved (calm 0) first_db ''t'' ''x'' 0)" toy_crypto "''0''" "calm 0" "''y''" 0]
    by simp
qed

section \<open>What the root does not bind\<close>

text \<open>One key whose value imitates the end of its row and the row of a second key, and the store
  with both keys.\<close>

definition imitating_value :: string where
  "imitating_value = ''1'' @ [quote] @ '','' @ [quote, quote] @ '']}'' @ [newline] @
     ''{'' @ [quote] @ ''table'' @ [quote] @ '':'' @ [quote] @ ''kv_store'' @ [quote] @ '','' @
     [quote] @ ''values'' @ [quote] @ '':['' @ [quote] @ ''b'' @ [quote] @ '','' @ [quote] @ ''2''"

definition one_key_db :: gateway_db where
  "one_key_db = snd (KVSet (calm 0) empty_db ''a'' imitating_value 0)"

definition two_key_db :: gateway_db where
  "two_key_db = snd (KVSet (calm 0) (snd (KVSet (calm 0) empty_db ''a'' ''1'' 0)) ''b'' ''2'' 0)"

text \<open>The rows are hashed without escapes, so a value can imitate rows: a store with one key has
  the root of a store with two, for every hash function.\<close>

theorem state_root_row_injection:
  "state_root_at C now one_key_db = state_root_at C now two_key_db \<and>
   kv_content now one_key_db \<noteq> kv_content now two_key_db"
proof
  have k: "\<not> cache_key ''a''" "\<not> cache_key ''b''" by (simp_all add: cache_key_def)
  have rows: "kv_store one_key_db = [\<lparr>kvKey = ''a'', kvValue = imitating_value, kvCreatedAt = FormatTimestamp 0, kvExpiresAt = None, kvTier = tier_bound\<rparr>]"
    "kv_store two_key_db = [\<lparr>kvKey = ''a'', kvValue = ''1'', kvCreatedAt = FormatTimestamp 0, kvExpiresAt = None, kvTier = tier_bound\<rparr>,
       \<lparr>kvKey = ''b'', kvValue = ''2'', kvCreatedAt = FormatTimestamp 0, kvExpiresAt = None, kvTier = tier_bound\<rparr>]"
    "documents one_key_db = []" "blobs one_key_db = []" "documents two_key_db = []" "blobs two_key_db = []"
    by (simp_all add: one_key_db_def two_key_db_def KVSet_def empty_db_def has_key_def kv_insert_def bump_version_def
        ttl_expiry_def Let_def k)
  have "root_text now one_key_db = root_text now two_key_db"
    by (simp add: root_text_def document_rows_def kv_rows_def blob_rows_def rows k active_def coalesce_def
        writeRowToHash_def imitating_value_def)
  then show "state_root_at C now one_key_db = state_root_at C now two_key_db" by (simp add: state_root_at_def)
  have "(''b'', ''2'', None) \<in> kv_content now two_key_db"
    unfolding kv_content_def
    by (rule image_eqI[of _ _ "\<lparr>kvKey = ''b'', kvValue = ''2'', kvCreatedAt = FormatTimestamp 0, kvExpiresAt = None, kvTier = tier_bound\<rparr>"])
       (simp_all add: rows k active_def)
  moreover have "(''b'', ''2'', None) \<notin> kv_content now one_key_db"
    by (simp add: kv_content_def rows image_iff)
  ultimately show "kv_content now one_key_db \<noteq> kv_content now two_key_db" by metis
qed

text \<open>A bound key with a time to live, the service that cached the root, and a second later: the
  cached root still counts the key, since nothing changed \<open>state_version\<close>.\<close>

definition expiring_db :: gateway_db where
  "expiring_db = snd (KVSet (calm 0) empty_db ''k'' ''v'' 1)"

theorem expired_key_still_bound:
  assumes "collision_free C" and "\<And>m. sha256 C m \<noteq> []"
    and s: "s = fst (snd (GetCurrentStateRoot C (calm 0) (\<lambda>_. expiring_db) [] NewStateRootService))"
  shows "\<exists>root fresh. fst (GetCurrentStateRoot C (calm 2000000000) (\<lambda>_. expiring_db) [] s) = Inr root \<and>
     CalculateStateRoot C (calm 2000000000) (\<lambda>_. expiring_db) [] s = Inr fresh \<and> root \<noteq> fresh"
proof -
  have k: "\<not> cache_key ''k''" by (simp add: cache_key_def)
  define e where "e = FormatTimestamp 1000000000"
  have y: "four_digit_year t" if "0 \<le> t" "t \<le> 2000000000" for t :: int
    using that by (simp add: four_digit_year_def)
  have live: "active (FormatTimestamp 0) (Some e)" "\<not> active (FormatTimestamp 2000000000) (Some e)"
    using FormatTimestamp_less[OF y y, of 0 1000000000] FormatTimestamp_less[OF y y, of 1000000000 2000000000]
    by (simp_all add: active_def e_def)
  have rows: "kv_store expiring_db = [\<lparr>kvKey = ''k'', kvValue = ''v'', kvCreatedAt = FormatTimestamp 0, kvExpiresAt = Some e, kvTier = tier_bound\<rparr>]"
    "documents expiring_db = []" "blobs expiring_db = []"
    by (simp_all add: expiring_db_def KVSet_def empty_db_def has_key_def kv_insert_def bump_version_def
        ttl_expiry_def ttl_duration_def Let_def e_def)
  let ?root = "state_root_at C (FormatTimestamp 0) expiring_db"
  have calc: "calculateStateRoot C (calm t) (\<lambda>_. expiring_db) None = Inr (state_root_at C (FormatTimestamp t) expiring_db)" for t
    by (simp add: calculateStateRoot_def hashTableToStream_def keymap_text_def state_root_at_def root_text_def Let_def)
  have ne: "?root \<noteq> []"
    using assms(2)[of "root_text (FormatTimestamp 0) expiring_db"]
      hex_encode_inj[of "sha256 C (root_text (FormatTimestamp 0) expiring_db)" "[]"]
    by (simp add: state_root_at_def sha256_hex_def)
  have sv: "cachedStateRoot s = ?root" "cachedStateVersion s = state_version expiring_db" "\<not> keymapHashProvider s"
    by (simp_all add: s GetCurrentStateRoot_def NewStateRootService_def calc Let_def)
  have "root_text (FormatTimestamp 0) expiring_db \<noteq> root_text (FormatTimestamp 2000000000) expiring_db"
    by (simp add: root_text_def document_rows_def kv_rows_def blob_rows_def rows k live writeRowToHash_def)
  then have "?root \<noteq> state_root_at C (FormatTimestamp 2000000000) expiring_db"
    using assms(1) by (simp add: state_root_at_def sha256_hex_def hex_encode_inj collision_free_def inj_eq)
  then show ?thesis
    by (simp add: CalculateStateRoot_def GetCurrentStateRoot_def sv ne calc)
qed

end
