(* ===== verification/Token_Properties.thy ===== *)
theory Token_Properties
  imports Token_Restart State_Root_Properties Receipt_Binding
begin

text \<open>
  The properties of the token boundary: what a token that was handed out promises, that
  rehydration restores a scrubbed text, what the keymap hash binds, and how tokens are reused.
\<close>

section \<open>The store keeps what it was given\<close>

lemma find_first: "list_ex P xs \<Longrightarrow> (\<And>x. x \<in> set xs \<Longrightarrow> P x \<Longrightarrow> Q x) \<Longrightarrow> \<exists>x\<in>set xs. find (\<lambda>x. P x \<and> Q x) xs = Some x"
  by (induction xs) auto

text \<open>A key that \<open>KVSetObserved\<close> wrote reads back until its expiry.\<close>

lemma observed_rows:
  assumes "fault_at E 0 = None"
    and "db' = snd (KVSetObserved E db key v ttl)"
  shows "list_ex (\<lambda>r. kvKey r = key) (kv_store db')"
    and "r \<in> set (kv_store db') \<Longrightarrow> kvKey r = key \<Longrightarrow> kvExpiresAt r = ttl_expiry E ttl \<and> kvValue r = v"
proof -
  let ?f = "\<lambda>r. r\<lparr>kvValue := v, kvExpiresAt := ttl_expiry E ttl, kvTier := tier_observed\<rparr>"
  let ?r = "\<lparr>kvKey = key, kvValue = v, kvCreatedAt = FormatTimestamp (clock_at E 0),
    kvExpiresAt = ttl_expiry E ttl, kvTier = tier_observed\<rparr>"
  have rows: "kv_store db' = (if has_key key db then map (\<lambda>r. if kvKey r = key then ?f r else r) (kv_store db)
      else kv_store db @ [?r])"
    by (simp add: assms(2) KVSetObserved_def assms(1) Let_def kv_update_def kv_insert_def bump_version_def)
  have key: "kvKey (?f r) = kvKey r" for r by simp
  show "list_ex (\<lambda>r. kvKey r = key) (kv_store db')"
    unfolding rows has_key_def by (simp add: list_ex_iff bex_Un) blast
  assume r: "r \<in> set (kv_store db')" "kvKey r = key"
  show "kvExpiresAt r = ttl_expiry E ttl \<and> kvValue r = v"
  proof (cases "has_key key db")
    case True
    then have "r \<in> (\<lambda>r. if kvKey r = key then ?f r else r) ` set (kv_store db)"
      using r(1) by (simp only: rows if_True set_map)
    then obtain r0 where "r = (if kvKey r0 = key then ?f r0 else r0)" by (rule imageE)
    with r(2) show ?thesis by (simp split: if_splits)
  next
    case False
    then have "r0 \<in> set (kv_store db) \<Longrightarrow> kvKey r0 \<noteq> key" for r0 by (auto simp: has_key_def list_ex_iff)
    with False r have "r = ?r" unfolding rows by auto
    then show ?thesis by (metis kv_row.select_convs(2,4))
  qed
qed

lemma observed_read_back:
  assumes "fst (KVSetObserved E db key v ttl) = Inr ()" and "fault_at E' 0 = None"
    and "active (FormatTimestamp (clock_at E' 0)) (ttl_expiry E ttl)"
  shows "KVGet E' (snd (KVSetObserved E db key v ttl)) key = Some v"
proof -
  have nf: "fault_at E 0 = None" using assms(1) by (cases "fault_at E 0") (simp_all add: KVSetObserved_def Let_def)
  let ?P = "\<lambda>r. kvKey r = key" and ?Q = "\<lambda>r. active (FormatTimestamp (clock_at E' 0)) (kvExpiresAt r)"
  let ?rows = "kv_store (snd (KVSetObserved E db key v ttl))"
  note new = observed_rows[OF nf refl, where db = db and key = key and v = v and ttl = ttl]
  obtain r where "r \<in> set ?rows" "find (\<lambda>r. ?P r \<and> ?Q r) ?rows = Some r"
    using find_first[of ?P ?rows ?Q] new assms(3) by (metis (no_types, lifting))
  moreover from this(2) have "?P r" by (metis (mono_tags, lifting) find_Some_iff)
  ultimately show ?thesis using new(2)[of r] assms(2) by (simp add: KVGet_def)
qed

lemma ttl_day: "ttl_expiry E tokenTTLSeconds = Some (FormatTimestamp (clock_at E 1 + 86400000000000))"
  by (simp add: ttl_expiry_def tokenTTLSeconds_def ttl_duration_def)

definition vault_round_trip :: "vault \<Rightarrow> bool" where
  "vault_round_trip V \<longleftrightarrow> (\<forall>b e. vEncrypt V b = Inr e \<longrightarrow> vDecrypt V e = Inr b)"

definition before :: "time \<Rightarrow> time \<Rightarrow> bool" where
  "before t u \<longleftrightarrow> four_digit_year t \<and> four_digit_year u \<and> t div 1000 < u div 1000"

lemma token_read_back:
  assumes "vault_round_trip V" and "TokenStore_KVSet V E db key v tokenTTLSeconds = (Inr (), db')"
    and "fault_at E' 0 = None" and "before (clock_at E' 0) (clock_at E 1 + 86400000000000)"
  shows "TokenStore_KVGet V E' db' key = Inr v"
proof -
  from assms(2) obtain e where e: "vUnlocked V" "vEncrypt V v = Inr e"
    "KVSetObserved E db (SentinelKeyPrefix @ key) e tokenTTLSeconds = (Inr (), db')"
    by (auto simp: TokenStore_KVSet_def split: if_splits sum.splits)
  have "active (FormatTimestamp (clock_at E' 0)) (ttl_expiry E tokenTTLSeconds)"
    using assms(4) by (simp add: ttl_day active_def before_def FormatTimestamp_less)
  then have "KVGet E' db' (SentinelKeyPrefix @ key) = Some e"
    using observed_read_back[of E db "SentinelKeyPrefix @ key" e tokenTTLSeconds E'] e(3) assms(3) by simp
  then show ?thesis using assms(1) e by (simp add: TokenStore_KVGet_def vault_round_trip_def)
qed

lemma KVSetObserved_error: "KVSetObserved E db key v ttl = (Inl err, db') \<Longrightarrow> db' = db"
  by (simp add: KVSetObserved_def Let_def split: option.splits)

lemma TokenStore_KVSet_error: "TokenStore_KVSet V E db key v ttl = (Inl err, db') \<Longrightarrow> db' = db"
  by (auto simp: TokenStore_KVSet_def dest: KVSetObserved_error split: if_splits sum.splits)

section \<open>Issuing\<close>

lemma issue_cases:
  assumes "GetTokenForValue E db value s = (token, s', db')"
  obtains (refused) "token = []" "s' = s" "db' = db"
  | (known) "map_of (reverseMap s) value = Some token" "s' = s" "db' = db"
  | (unsaved) "value \<noteq> []" "map_of (reverseMap s) value = None" "tokenStore s = None" "\<not> cfRequirePersistence (ssConfig s)"
      "token = uei_token (tokenSequence s + 1)" "db' = db"
      "s' = s\<lparr>tokenSequence := tokenSequence s + 1, tokenMap := map_put token value (tokenMap s),
         reverseMap := map_put value token (reverseMap s)\<rparr>"
  | (saved) V where "value \<noteq> []" "map_of (reverseMap s) value = None" "tokenStore s = Some V"
      "token = uei_token (tokenSequence s + 1)"
      "TokenStore_KVSet V E db (ScrubbingTokenKeyPrefix @ token) value tokenTTLSeconds = (Inr (), db')"
      "s' = s\<lparr>tokenSequence := tokenSequence s + 1, tokenMap := map_put token value (tokenMap s),
         reverseMap := map_put value token (reverseMap s)\<rparr>"
  | (failed) V err where "map_of (reverseMap s) value = None" "tokenStore s = Some V" "token = []"
      "TokenStore_KVSet V E db (ScrubbingTokenKeyPrefix @ uei_token (tokenSequence s + 1)) value tokenTTLSeconds = (Inl err, db')"
      "s' = s\<lparr>tokenSequence := tokenSequence s,
         tokenMap := map_remove (uei_token (tokenSequence s + 1)) (map_put (uei_token (tokenSequence s + 1)) value (tokenMap s)),
         reverseMap := map_remove value (map_put value (uei_token (tokenSequence s + 1)) (reverseMap s))\<rparr>"
proof (cases "value = [] \<or> cfRequirePersistence (ssConfig s) \<and> tokenStore s = None")
  case True
  then show ?thesis using assms refused by (auto simp: GetTokenForValue_def split: if_splits)
next
  case False
  note call = assms[unfolded GetTokenForValue_def Let_def]
  show ?thesis
  proof (cases "map_of (reverseMap s) value")
    case (Some t)
    then show ?thesis using call False known by auto
  next
    case None
    show ?thesis
    proof (cases "tokenStore s")
      case none: None
      then show ?thesis using call False None unsaved by auto
    next
      case (Some V)
      show ?thesis
      proof (cases "TokenStore_KVSet V E db (ScrubbingTokenKeyPrefix @ uei_token (tokenSequence s + 1)) value tokenTTLSeconds")
        case (Pair res d)
        then show ?thesis using call False None Some saved failed by (cases res) auto
      qed
    qed
  qed
qed

text \<open>C24: A token means one value. From a consistent token table \<open>GetTokenForValue\<close> leads to a
  consistent one. When it hands out a token, the token stands for the value and earlier tokens
  keep theirs; a token that is new was written to the store first, which gives the value back at
  every moment of the next day, also to another process. When it refuses (an empty value, no store
  although persistence is required, a locked vault, a failing cipher or statement), nothing
  changed.\<close>

theorem token_issued_persisted:
  assumes "token_inv s" and "GetTokenForValue E db value s = (token, s', db')"
  shows "token_inv s' \<and> (token = [] \<longrightarrow> s' = s \<and> db' = db) \<and>
    (token \<noteq> [] \<longrightarrow> (token, value) \<in> set (tokenMap s') \<and> set (tokenMap s) \<subseteq> set (tokenMap s')) \<and>
    (cfRequirePersistence (ssConfig s) \<and> tokenStore s = None \<longrightarrow> token = []) \<and>
    (token \<noteq> [] \<and> token \<notin> fst ` set (tokenMap s) \<and> tokenStore s = Some V \<and> vault_round_trip V \<and>
      fault_at E' 0 = None \<and> before (clock_at E' 0) (clock_at E 1 + 86400000000000) \<longrightarrow>
      TokenStore_KVGet V E' db' (ScrubbingTokenKeyPrefix @ token) = Inr value)"
proof -
  have stored: "set (map_put (uei_token (tokenSequence s + 1)) value (tokenMap s)) =
      insert (uei_token (tokenSequence s + 1), value) (set (tokenMap s))"
    using map_put_set[OF _ fresh_token[OF assms(1)]] assms(1) by (simp add: token_inv_def)
  show ?thesis using assms(2)
  proof (cases rule: issue_cases)
    case refused
    with assms(1) show ?thesis by simp
  next
    case known
    then have m: "(token, value) \<in> set (tokenMap s)" using assms(1) by (auto simp: token_inv_def dest: map_of_SomeD)
    moreover have "token \<in> fst ` set (tokenMap s)" using m by (metis fst_conv image_eqI)
    moreover have "token = []" if "cfRequirePersistence (ssConfig s) \<and> tokenStore s = None"
      using assms(2) that by (simp add: GetTokenForValue_def split: if_splits)
    moreover obtain n where "token = uei_token n" using m assms(1) unfolding token_inv_def by blast
    ultimately show ?thesis using known assms(1) by (intro conjI impI) simp_all
  next
    case unsaved
    then have "token_inv s'" using issue_inv[OF assms(1)] by simp
    then show ?thesis using unsaved stored subset_insertI by simp
  next
    case (saved W)
    then have "token_inv s'" using issue_inv[OF assms(1)] by simp
    moreover have "TokenStore_KVGet V E' db' (ScrubbingTokenKeyPrefix @ token) = Inr value"
      if "tokenStore s = Some V" "vault_round_trip V" "fault_at E' 0 = None" "before (clock_at E' 0) (clock_at E 1 + 86400000000000)"
      using token_read_back[OF that(2) _ that(3,4)] saved that(1) by simp
    ultimately show ?thesis using saved stored subset_insertI by simp
  next
    case (failed W err)
    then have "s' = s" "db' = db" using refusal_restores[OF assms(1)] TokenStore_KVSet_error by simp_all
    then show ?thesis using failed assms(1) by simp
  qed
qed

text \<open>A store behind a cipher, and a service that starts without tokens.\<close>

definition mirror_vault :: vault where
  "mirror_vault = \<lparr>vUnlocked = True, vEncrypt = \<lambda>b. Inr (rev b), vDecrypt = \<lambda>b. Inr (rev b)\<rparr>"

definition first_service :: ScrubbingService where
  "first_service = \<lparr>ssConfig = DefaultConfig, tokenMap = [], reverseMap = [], tokenSequence = 0,
     tokenStore = Some mirror_vault\<rparr>"

definition token_db :: gateway_db where
  "token_db = snd (TokenStore_KVSet mirror_vault (calm 0) empty_db (ScrubbingTokenKeyPrefix @ ''{{UEI_1}}'') ''s3cret'' tokenTTLSeconds)"

definition issued_service :: ScrubbingService where
  "issued_service = first_service\<lparr>tokenSequence := 1, tokenMap := [(''{{UEI_1}}'', ''s3cret'')],
     reverseMap := [(''s3cret'', ''{{UEI_1}}'')]\<rparr>"

lemma mirror_round_trip: "vault_round_trip mirror_vault"
  by (auto simp: vault_round_trip_def mirror_vault_def)

lemma first_token: "uei_token 1 = ''{{UEI_1}}''"
  by code_simp

lemma calm_set: "TokenStore_KVSet mirror_vault (calm t) db key v ttl = (Inr (), snd (TokenStore_KVSet mirror_vault (calm t) db key v ttl))"
  by (simp add: TokenStore_KVSet_def mirror_vault_def KVSetObserved_def Let_def)

lemma sample_set:
  "TokenStore_KVSet mirror_vault (calm 0) empty_db (ScrubbingTokenKeyPrefix @ ''{{UEI_1}}'') ''s3cret'' tokenTTLSeconds = (Inr (), token_db)"
  by (subst calm_set) (simp add: token_db_def)

lemma sample_issue: "GetTokenForValue (calm 0) empty_db ''s3cret'' first_service = (''{{UEI_1}}'', issued_service, token_db)"
  unfolding GetTokenForValue_def first_service_def
  by (simp add: issued_service_def first_service_def first_token map_put_def Let_def sample_set)

lemma sample_hour: "before 3600000000000 86400000000000"
  by (simp add: before_def four_digit_year_def)

theorem token_issued_persisted_witness:
  "token_inv issued_service \<and> (''{{UEI_1}}'', ''s3cret'') \<in> set (tokenMap issued_service) \<and>
   TokenStore_KVGet mirror_vault (calm 3600000000000) token_db (ScrubbingTokenKeyPrefix @ ''{{UEI_1}}'') = Inr ''s3cret''"
proof -
  have inv: "token_inv first_service" by (simp add: token_inv_def first_service_def)
  have "tokenStore first_service = Some mirror_vault" "tokenMap first_service = []" by (simp_all add: first_service_def)
  then show ?thesis
    using token_issued_persisted[OF inv sample_issue, of mirror_vault "calm 3600000000000"] mirror_round_trip sample_hour
    by simp
qed


text \<open>A restart an hour after the token was issued.\<close>

definition prefix_sqlite :: sqlite where
  "prefix_sqlite = \<lparr>sqGlob = \<lambda>p k. HasPrefix k (butlast p), sqJsonSet = \<lambda>d _ _. d, sqJsonEq = \<lambda>_ _ _. False\<rparr>"

lemma sample_read: "TokenStore_KVGet mirror_vault (calm 3600000000000) token_db (ScrubbingTokenKeyPrefix @ ''{{UEI_1}}'') = Inr ''s3cret''"
  using token_read_back[OF mirror_round_trip sample_set, of "calm 3600000000000"] sample_hour by simp


section \<open>Rehydrating\<close>

text \<open>C26: Rehydration restores the text. A text in which values stand for tokens is what
  \<open>RehydrateText\<close> returns for the text with the tokens, whatever the order in which the map is
  walked, when each token is in memory or still in the store with its value; it may be in the
  store only, as after a restart. Other text is left alone, as long as the restored text does not
  spell the opening of a token.\<close>

theorem rehydration_restores:
  assumes "token_free (spell val items)" and "numeral_items items"
    and "set (ord (tokenMap s)) = set (tokenMap s)"
    and "\<And>t v. (t, v) \<in> set (tokenMap s) \<Longrightarrow> \<exists>d. numeral_text d \<and> t = tok d \<and> v = val d"
    and "\<And>d. Inr d \<in> set items \<Longrightarrow> tok d \<in> fst ` set (tokenMap s) \<or>
      (\<exists>V. tokenStore s = Some V \<and> (\<forall>i. TokenStore_KVGet V (Es i) db (ScrubbingTokenKeyPrefix @ tok d) = Inr (val d)))"
  shows "fst (RehydrateText Es ord db (spell tok items) s) = spell val items"
  using assms by (rule rehydrates)

theorem rehydration_restores_witness:
  "fst (RehydrateText (\<lambda>_. calm 3600000000000) rev token_db ''pw={{UEI_1}};'' (ClearTokens issued_service)) = ''pw=s3cret;''"
proof -
  let ?items = "[Inl (CHR ''p''), Inl (CHR ''w''), Inl (CHR ''=''), Inr ''1'', Inl (CHR '';'')] :: item list"
  let ?val = "\<lambda>_. ''s3cret''" and ?s = "ClearTokens issued_service" and ?E = "\<lambda>_. calm 3600000000000"
  have s: "tokenMap ?s = []" "tokenStore ?s = Some mirror_vault"
    by (simp_all add: ClearTokens_def issued_service_def first_service_def)
  have "CHR ''{'' \<notin> set (spell ?val ?items)" by simp
  then have "token_free (spell ?val ?items)" unfolding token_free_def by (metis in_set_conv_decomp append_Cons)
  moreover have "numeral_items ?items" by (auto simp: numeral_items_def numeral_text_def is_digit_def)
  moreover have "TokenStore_KVGet mirror_vault (?E i) token_db (ScrubbingTokenKeyPrefix @ tok ''1'') = Inr ''s3cret''" for i
    using sample_read by (simp add: tok_def)
  ultimately have "fst (RehydrateText ?E rev token_db (spell tok ?items) ?s) = spell ?val ?items"
    by (intro rehydration_restores) (auto simp: s)
  then show ?thesis by (simp add: tok_def)
qed

section \<open>Tokens that are used twice\<close>

text \<open>\<open>ClearTokens\<close> starts the numbering over, although tokens handed out before are still in
  texts and in the store: the next value gets a token that was issued for another value, its
  stored value is replaced, and a text written with the old meaning is rehydrated to the new
  value.\<close>

theorem cleared_token_reused:
  assumes "fault_at E1 0 = None" "fault_at E2 0 = None" "vUnlocked V" "\<And>b. \<exists>e. vEncrypt V b = Inr e"
    and "v1 \<noteq> []" "v2 \<noteq> []" and s: "s = \<lparr>ssConfig = DefaultConfig, tokenMap = [], reverseMap = [], tokenSequence = 0, tokenStore = Some V\<rparr>"
    and "GetTokenForValue E1 db v1 s = (t1, s1, db1)"
    and "GetTokenForValue E2 db1 v2 (ClearTokens s1) = (t2, s2, db2)"
  shows "t1 = ''{{UEI_1}}'' \<and> t2 = t1 \<and> tokenMap s2 = [(t1, v2)]"
proof -
  have set: "\<exists>d. TokenStore_KVSet V E db k v ttl = (Inr (), d)" if "fault_at E 0 = None" for E db k v ttl
    using assms(3) assms(4)[of v] that by (auto simp: TokenStore_KVSet_def KVSetObserved_def Let_def)
  obtain d1 where d1: "TokenStore_KVSet V E1 db (ScrubbingTokenKeyPrefix @ uei_token 1) v1 tokenTTLSeconds = (Inr (), d1)"
    using set[OF assms(1)] by blast
  have one: "t1 = uei_token 1" "tokenStore s1 = Some V" "ssConfig s1 = DefaultConfig"
    using assms(8) unfolding GetTokenForValue_def by (auto simp: s assms(5) d1 Let_def)
  obtain d2 where d2: "TokenStore_KVSet V E2 db1 (ScrubbingTokenKeyPrefix @ uei_token 1) v2 tokenTTLSeconds = (Inr (), d2)"
    using set[OF assms(2)] by blast
  have "t2 = uei_token 1" "tokenMap s2 = [(uei_token 1, v2)]"
    using assms(9) unfolding GetTokenForValue_def ClearTokens_def by (auto simp: one assms(6) d2 Let_def map_put_def)
  then show ?thesis by (simp add: one first_token)
qed

text \<open>A value that spells a token is replaced again or not, depending on the order in which the map
  is walked: the command that is executed is not determined by the command that was approved.\<close>

definition nested_service :: ScrubbingService where
  "nested_service = first_service\<lparr>ssConfig := DefaultConfig\<lparr>cfRequirePersistence := False\<rparr>, tokenSequence := 2, tokenStore := None,
     tokenMap := [(''{{UEI_1}}'', ''{{UEI_2}}''), (''{{UEI_2}}'', ''rm'')],
     reverseMap := [(''{{UEI_2}}'', ''{{UEI_1}}''), (''rm'', ''{{UEI_2}}'')]\<rparr>"

theorem nested_token_order:
  "fst (RehydrateText Es id db ''{{UEI_1}}'' nested_service) = ''rm'' \<and>
   fst (RehydrateText Es rev db ''{{UEI_1}}'' nested_service) = ''{{UEI_2}}''"
  by (simp add: RehydrateText_def nested_service_def ReplaceAll.simps HasPrefix_def Let_def)

section \<open>What the keymap hash binds\<close>

definition one_line :: "string \<Rightarrow> bool" where
  "one_line v \<longleftrightarrow> newline \<notin> set v"

lemma uei_token_chars: "0 \<le> n \<Longrightarrow> c \<in> set (uei_token n) \<Longrightarrow> is_digit c \<or> c \<in> set ''{UEI_}''"
  using FormatInt_numeral[of n] by (auto simp: uei_token_def numeral_text_def list_all_iff)

lemma token_chars:
  assumes "token_inv s" and "(t, v) \<in> set (tokenMap s)"
  shows "newline \<notin> set t \<and> CHR '':'' \<notin> set t"
proof -
  obtain n where "1 \<le> n" "t = uei_token n" using assms unfolding token_inv_def by blast
  then show ?thesis using uei_token_chars[of n newline] uei_token_chars[of n "CHR '':''"] by (auto simp: is_digit_def)
qed

definition keymap_line :: "(string \<times> string) list \<Rightarrow> string \<Rightarrow> string" where
  "keymap_line m token = token @ CHR '':'' # the (map_of m token)"

lemma keymap_lines_eq: "keymap_lines m = concat (map (\<lambda>l. l @ [newline]) (map (keymap_line m) (sort (map fst m))))"
  by (simp add: keymap_lines_def keymap_line_def comp_def)

lemma keymap_entries:
  assumes "token_inv s"
  shows "(t, v) \<in> set (tokenMap s) \<longleftrightarrow> (\<exists>l\<in>set (map (keymap_line (tokenMap s)) (sort (map fst (tokenMap s)))). l = t @ CHR '':'' # v \<and> CHR '':'' \<notin> set t)"
    (is "_ = ?R")
proof
  assume e: "(t, v) \<in> set (tokenMap s)"
  then have m: "map_of (tokenMap s) t = Some v" using assms by (simp add: token_inv_def)
  moreover have "t \<in> fst ` set (tokenMap s)" using e by (metis fst_conv image_eqI)
  moreover from m have "keymap_line (tokenMap s) t = t @ CHR '':'' # v" by (simp add: keymap_line_def)
  ultimately show ?R using token_chars[OF assms e]
    by (metis (no_types, lifting) image_eqI list.set_map set_sort)
next
  assume ?R
  then obtain t' where t': "t' \<in> fst ` set (tokenMap s)" "keymap_line (tokenMap s) t' = t @ CHR '':'' # v" "CHR '':'' \<notin> set t"
    by (metis (no_types, lifting) imageE list.set_map set_sort)
  then obtain v' where v': "(t', v') \<in> set (tokenMap s)" by force
  then have "map_of (tokenMap s) t' = Some v'" using assms by (simp add: token_inv_def)
  then have "t' = t \<and> v' = v" using t'(2,3) token_chars[OF assms v'] split_first[of "CHR '':''" t' t v' v]
    by (simp add: keymap_line_def)
  with v' show "(t, v) \<in> set (tokenMap s)" by simp
qed

text \<open>The keymap hash binds the token table. Two services with consistent tables and the same
  \<open>TokenKeymapHash\<close> have the same tokens for the same values, as long as no value has a line
  break and the hash function has no collision and is never empty.\<close>

theorem keymap_hash_binds:
  assumes "collision_free C" and "\<And>m. sha256 C m \<noteq> []" and "token_inv s" and "token_inv s'"
    and "\<forall>(t, v)\<in>set (tokenMap s) \<union> set (tokenMap s'). one_line v"
    and "TokenKeymapHash C s = TokenKeymapHash C s'"
  shows "set (tokenMap s) = set (tokenMap s')"
proof -
  have ne: "sha256_hex C m \<noteq> []" for m
    using assms(2)[of m] hex_encode_inj[of "sha256 C m" "[]"] by (simp add: sha256_hex_def)
  show ?thesis
  proof (cases "tokenMap s = [] \<or> tokenMap s' = []")
    case True
    then show ?thesis using assms(6) ne by (auto simp: TokenKeymapHash_def split: if_splits) metis+
  next
    case False
    then have same: "keymap_lines (tokenMap s) = keymap_lines (tokenMap s')"
      using assms(1,6) by (simp add: TokenKeymapHash_def sha256_hex_def hex_encode_inj collision_free_def inj_eq)
    have free: "newline \<notin> set l" if x: "token_inv x" "set (tokenMap x) \<subseteq> set (tokenMap s) \<union> set (tokenMap s')"
      and l: "l \<in> set (map (keymap_line (tokenMap x)) (sort (map fst (tokenMap x))))" for x l
    proof -
      obtain t v where e: "(t, v) \<in> set (tokenMap x)" "l = keymap_line (tokenMap x) t" using l by force
      then have "map_of (tokenMap x) t = Some v" using x(1) by (simp add: token_inv_def)
      moreover have "one_line v" using assms(5) e(1) x(2) by blast
      ultimately show ?thesis using e(2) token_chars[OF x(1) e(1)] by (simp add: keymap_line_def one_line_def)
    qed
    have "map (keymap_line (tokenMap s)) (sort (map fst (tokenMap s))) =
        map (keymap_line (tokenMap s')) (sort (map fst (tokenMap s')))"
      using same unfolding keymap_lines_eq by (rule lines_unique[rotated 2]) (use free assms(3,4) in auto)
    then have "(t, v) \<in> set (tokenMap s) \<longleftrightarrow> (t, v) \<in> set (tokenMap s')" for t v
      unfolding keymap_entries[OF assms(3)] keymap_entries[OF assms(4)] by simp
    then show ?thesis by auto
  qed
qed

theorem keymap_hash_binds_witness:
  "TokenKeymapHash marked_crypto issued_service \<noteq>
   TokenKeymapHash marked_crypto (issued_service\<lparr>tokenMap := [(''{{UEI_1}}'', ''other'')], reverseMap := [(''other'', ''{{UEI_1}}'')]\<rparr>)"
  (is "_ \<noteq> TokenKeymapHash _ ?o")
proof
  assume h: "TokenKeymapHash marked_crypto issued_service = TokenKeymapHash marked_crypto ?o"
  have inv: "token_inv issued_service" "token_inv ?o"
    by (auto simp: token_inv_def issued_service_def first_service_def first_token intro!: exI[of _ "1 :: int"])
  have "\<forall>(t, v)\<in>set (tokenMap issued_service) \<union> set (tokenMap ?o). one_line v"
    by (simp add: issued_service_def one_line_def)
  from keymap_hash_binds[OF _ _ inv this h] have "set (tokenMap issued_service) = set (tokenMap ?o)"
    by (auto simp: marked_crypto_def collision_free_def inj_def toy_crypto_def)
  then show False by (simp add: issued_service_def)
qed

text \<open>Values are not escaped, so a value with a line break can imitate another entry: two tables
  that rehydrate \<open>{{UEI_1}}\<close> differently have the same hash, for every hash function.\<close>

theorem keymap_hash_ambiguous:
  assumes "tokenMap s = [(''{{UEI_1}}'', ''a'' @ [newline] @ ''{{UEI_2}}:b'')]"
    and "tokenMap s' = [(''{{UEI_1}}'', ''a''), (''{{UEI_2}}'', ''b'')]"
  shows "TokenKeymapHash C s = TokenKeymapHash C s'"
  by (simp add: TokenKeymapHash_def assms keymap_lines_def less_eq_list_code less_eq_char_def)

end
