(* ===== verification/Key_Vault_Facts.thy ===== *)
theory Key_Vault_Facts
  imports Key_Vault Token_Properties
begin

text \<open>
  The properties of the vault: unwrapping is exactly the inverse of wrapping; a data key outlives
  locking, restarts and changes of the operator's key, so what was encrypted stays readable; and
  where the vault loses keys.
\<close>

section \<open>Wrapping and unwrapping\<close>

definition aes_key :: "bytes \<Rightarrow> bool" where
  "aes_key kek \<longleftrightarrow> length kek = 16 \<or> length kek = 24 \<or> length kek = 32"

lemma wrap_blocks:
  assumes "aes_key kek" and "length p = 8 * n" and "2 \<le> n"
  shows "AESKeyWrap K kek p = (case fold (wrap_round K kek n) (rounds n) (default_iv, blocks n p) of (a, r) \<Rightarrow> Inr (a @ concat r))"
proof -
  have "\<not> (length kek \<noteq> 16 \<and> length kek \<noteq> 24 \<and> length kek \<noteq> 32)" using assms(1) by (auto simp: aes_key_def)
  then show ?thesis using assms(2,3) unfolding AESKeyWrap_def by (simp only: if_False) (simp add: Let_def)
qed

lemma unwrap_blocks:
  assumes "aes_key kek" and "length c = 8 + 8 * n" and "2 \<le> n"
  shows "AESKeyUnwrap K kek c = (case fold (unwrap_round K kek n) (rev (rounds n)) (take 8 c, blocks n (drop 8 c)) of
     (a, r) \<Rightarrow> if a \<noteq> default_iv then Inl (Sentinel (Vlt ErrVaultKeyUnwrapFailed)) else Inr (concat r))"
proof -
  have "length c div 8 - 1 = n" "length c mod 8 = 0" "\<not> length c < 24" using assms(2,3) by simp_all
  moreover have "\<not> (length kek \<noteq> 16 \<and> length kek \<noteq> 24 \<and> length kek \<noteq> 32)" using assms(1) by (auto simp: aes_key_def)
  ultimately show ?thesis unfolding AESKeyUnwrap_def by (simp only: if_False) (simp add: Let_def)
qed

lemma wrap_guard: "AESKeyWrap K kek p = Inr c \<Longrightarrow> aes_key kek \<and> (\<exists>n. length p = 8 * n \<and> 2 \<le> n)"
  by (auto simp: AESKeyWrap_def aes_key_def Let_def intro!: exI[of _ "length p div 8"] split: if_splits)

lemma unwrap_guard:
  assumes "AESKeyUnwrap K kek c = Inr p"
  shows "aes_key kek \<and> (\<exists>n. length c = 8 + 8 * n \<and> 2 \<le> n)"
proof -
  have g: "aes_key kek" "24 \<le> length c" "length c mod 8 = 0"
    using assms by (auto simp: AESKeyUnwrap_def aes_key_def Let_def split: if_splits)
  then have "length c = 8 + 8 * (length c div 8 - 1) \<and> 2 \<le> length c div 8 - 1" by presburger
  with g(1) show ?thesis by blast
qed

lemma wrap_forward:
  assumes "block_cipher K" and "AESKeyWrap K kek p = Inr c"
  shows "AESKeyUnwrap K kek c = Inr p"
proof -
  obtain n where g: "aes_key kek" "length p = 8 * n" "2 \<le> n" using wrap_guard[OF assms(2)] by blast
  let ?st = "(default_iv, blocks n p)"
  have st: "wrap_state n ?st" using blocks_shape[OF g(2)] by (simp add: wrap_state_def)
  obtain a r where f: "fold (wrap_round K kek n) (rounds n) ?st = (a, r)" by (cases "fold (wrap_round K kek n) (rounds n) ?st")
  have ar: "length a = 8" "length r = n" "\<forall>b\<in>set r. length b = 8"
    using wrap_unwrap_fold(1)[OF assms(1) st, of kek] f by (simp_all add: wrap_state_def)
  have c: "c = a @ concat r" using assms(2) f by (simp add: wrap_blocks[OF g])
  have len: "length c = 8 + 8 * n" using c ar concat_length_8[OF ar(3)] by simp
  have undo: "fold (unwrap_round K kek n) (rev (rounds n)) (a, r) = ?st"
    using wrap_unwrap_fold(2)[OF assms(1) st, of kek] f by simp
  have "take 8 c = a" "blocks n (drop 8 c) = r" using c ar blocks_concat[OF ar(3)] by simp_all
  then show ?thesis using undo concat_blocks[OF g(2)] by (simp add: unwrap_blocks[OF g(1) len g(3)])
qed

lemma wrap_backward:
  assumes "block_cipher K" and "AESKeyUnwrap K kek c = Inr p"
  shows "AESKeyWrap K kek p = Inr c"
proof -
  obtain n where g: "aes_key kek" "length c = 8 + 8 * n" "2 \<le> n" using unwrap_guard[OF assms(2)] by blast
  let ?st = "(take 8 c, blocks n (drop 8 c))"
  have d: "length (drop 8 c) = 8 * n" using g by simp
  have st: "wrap_state n ?st" using blocks_shape[OF d] g by (simp add: wrap_state_def)
  obtain a r where f: "fold (unwrap_round K kek n) (rev (rounds n)) ?st = (a, r)"
    by (cases "fold (unwrap_round K kek n) (rev (rounds n)) ?st")
  have ar: "length r = n" "\<forall>b\<in>set r. length b = 8"
    using unwrap_wrap_fold(1)[OF assms(1) st, of kek] f by (simp_all add: wrap_state_def)
  have p: "p = concat r" "a = default_iv"
    using assms(2) f by (auto simp: unwrap_blocks[OF g] split: if_splits)
  have len: "length p = 8 * n" using p ar concat_length_8[OF ar(2)] by simp
  have undo: "fold (wrap_round K kek n) (rounds n) (default_iv, r) = ?st"
    using unwrap_wrap_fold(2)[OF assms(1) st, of kek] f p(2) by simp
  have "blocks n p = r" using p(1) ar blocks_concat[OF ar(2)] by simp
  then show ?thesis using undo concat_blocks[OF d] by (simp add: wrap_blocks[OF g(1) len g(3)])
qed

text \<open>C22: Unwrapping is exactly the inverse of wrapping. Over any block cipher,
  \<open>AESKeyUnwrap\<close> returns a key if and only if the wrapped key is what \<open>AESKeyWrap\<close>
  gives for it: every wrapped key unwraps to itself, and a text that is no wrapping of a key,
  however it was altered, is refused.\<close>

theorem key_unwrap_exact:
  "block_cipher K \<Longrightarrow> AESKeyUnwrap K kek c = Inr p \<longleftrightarrow> AESKeyWrap K kek p = Inr c"
  using wrap_forward wrap_backward by blast

text \<open>A cipher that reverses blocks, and a seal that carries a tag.\<close>

definition mirror_crypto :: vault_crypto where
  "mirror_crypto = \<lparr>hkdf = \<lambda>s i n. take n (s @ replicate n (CHR 0x00)), aes_Encrypt = \<lambda>k b. rev b, aes_Decrypt = \<lambda>k b. rev b,
     gcm_Seal = \<lambda>k n p ad. k @ n @ p, gcm_Open = \<lambda>k n c ad. if take (length (k @ n)) c = k @ n then Some (drop (length (k @ n)) c) else None\<rparr>"

lemma mirror_laws: "block_cipher mirror_crypto" "gcm_opens mirror_crypto" "hkdf_delivers mirror_crypto"
  by (simp_all add: block_cipher_def gcm_opens_def hkdf_delivers_def mirror_crypto_def min_def)

theorem key_unwrap_exact_witness:
  "\<exists>c. AESKeyWrap mirror_crypto (replicate 32 (CHR ''k'')) (replicate 16 (CHR ''d'')) = Inr c \<and>
     AESKeyUnwrap mirror_crypto (replicate 32 (CHR ''k'')) c = Inr (replicate 16 (CHR ''d''))"
proof -
  have "aes_key (replicate 32 (CHR ''k''))" "length (replicate 16 (CHR ''d'')) = 8 * 2" by (simp_all add: aes_key_def)
  from wrap_blocks[OF this order_refl, of mirror_crypto]
  obtain c where "AESKeyWrap mirror_crypto (replicate 32 (CHR ''k'')) (replicate 16 (CHR ''d'')) = Inr c"
    by (cases "fold (wrap_round mirror_crypto (replicate 32 (CHR ''k'')) 2) (rounds 2) (default_iv, blocks 2 (replicate 16 (CHR ''d'')))")
       simp
  then show ?thesis using key_unwrap_exact[OF mirror_laws(1), of "replicate 32 (CHR ''k'')" c] by blast
qed

section \<open>Base64\<close>

lemma b64_value_char: "n < 64 \<Longrightarrow> b64_value (b64_char n) = Some n"
  by (auto simp: b64_value_def b64_char_def Let_def)

lemma b64_char_plain: "n < 64 \<Longrightarrow> b64_char n \<noteq> CHR ''='' \<and> b64_char n \<noteq> CHR 0x0A \<and> b64_char n \<noteq> CHR 0x0D"
  using b64_value_char[of n] by (auto simp: b64_value_def)

lemma byte_less: "(of_char c :: nat) < 256"
  by (metis mod_less_divisor of_char_mod_256 zero_less_numeral)

lemma b64_digits:
  fixes a b c :: nat
  assumes "a < 256" "b < 256" "c < 256"
  shows "a div 4 < 64" "a mod 4 * 16 + b div 16 < 64" "b mod 16 * 4 + c div 64 < 64" "c mod 64 < 64"
proof -
  have "b div 16 < 16" "c div 64 < 4" "a mod 4 < 4" "b mod 16 < 16" using assms by (simp_all add: less_mult_imp_div_less)
  then show "a mod 4 * 16 + b div 16 < 64" "b mod 16 * 4 + c div 64 < 64" by linarith+
qed (use assms in \<open>simp_all add: less_mult_imp_div_less\<close>)

lemma base64_quanta: "b64_quanta (base64_Encode bs) = Some bs"
proof (induction bs rule: base64_Encode.induct)
  case (2 a)
  then show ?case using b64_digits[of "of_char a" 0 0] byte_less[of a]
    by (simp add: b64_value_char)
next
  case (3 a b)
  have "(of_char b :: nat) div 16 < 16" using byte_less[of b] by (simp add: less_mult_imp_div_less)
  then show ?case using b64_digits[of "of_char a" "of_char b" 0] byte_less[of a] byte_less[of b]
    by (simp add: b64_value_char b64_char_plain)
next
  case (4 a b c r)
  have "(of_char b :: nat) div 16 < 16" "(of_char c :: nat) div 64 < 4"
    using byte_less[of b] byte_less[of c] by (simp_all add: less_mult_imp_div_less)
  then show ?case using 4 b64_digits[of "of_char a" "of_char b" "of_char c"] byte_less[of a] byte_less[of b] byte_less[of c]
    by (simp add: b64_value_char b64_char_plain)
qed simp

lemma base64_no_breaks: "c \<in> set (base64_Encode bs) \<Longrightarrow> c \<noteq> CHR 0x0A \<and> c \<noteq> CHR 0x0D"
proof (induction bs rule: base64_Encode.induct)
  case (2 a)
  then show ?case using b64_char_plain b64_digits[of "of_char a" 0 0] byte_less[of a] by auto
next
  case (3 a b)
  then show ?case using b64_char_plain b64_digits[of "of_char a" "of_char b" 0] byte_less[of a] byte_less[of b] by auto
next
  case (4 a b c r)
  then show ?case using b64_char_plain b64_digits[of "of_char a" "of_char b" "of_char c"]
      byte_less[of a] byte_less[of b] byte_less[of c] by auto
qed simp

lemma base64_round_trip: "base64_DecodeString (base64_Encode bs) = Inr bs"
proof -
  have "filter (\<lambda>c. c \<noteq> CHR 0x0A \<and> c \<noteq> CHR 0x0D) (base64_Encode bs) = base64_Encode bs"
    using base64_no_breaks by (simp add: filter_id_conv)
  then show ?thesis by (simp add: base64_DecodeString_def base64_quanta)
qed

section \<open>Headers\<close>

text \<open>A header holds a data key for a private key.\<close>

definition vault_laws :: "vault_crypto \<Rightarrow> bool" where
  "vault_laws K \<longleftrightarrow> block_cipher K \<and> gcm_opens K \<and> hkdf_delivers K"

lemma derived_key: "vault_laws K \<Longrightarrow> DeriveKEK K k = Inr kek \<Longrightarrow> aes_key kek"
  by (auto simp: DeriveKEK_def vault_laws_def hkdf_delivers_def aes_key_def split: if_splits)

lemma new_header_holds:
  assumes "vault_laws K" and "NewVaultHeader K C now rnd k = Inr (h, dek)"
  shows "UnwrapDEK K C h k = Inr dek" "hVersion h = 1" "rnd = Inr dek"
  using assms wrap_forward[of K]
  by (auto simp: NewVaultHeader_def UnwrapDEK_def GenerateDEK_def base64_round_trip vault_laws_def split: sum.splits)

lemma rekeyed_header_holds:
  assumes "vault_laws K" and "Header_Rekey K C now h old new = Inr h'"
  obtains dek where "UnwrapDEK K C h old = Inr dek" "UnwrapDEK K C h' new = Inr dek" "hVersion h' = hVersion h"
    "hKeyFingerprint h' = hex_EncodeToString (KeyFingerprint C new)"
proof -
  from assms(2) obtain dek kek w where d: "UnwrapDEK K C h old = Inr dek" "DeriveKEK K new = Inr kek" "AESKeyWrap K kek dek = Inr w"
    "h' = h\<lparr>hLastRekeyedAt := Some now, hDEK := (hDEK h)\<lparr>dekWrapped := base64_Encode w\<rparr>,
       hKeyFingerprint := hex_EncodeToString (KeyFingerprint C new)\<rparr>"
    by (auto simp: Header_Rekey_def split: sum.splits)
  moreover have "AESKeyUnwrap K kek w = Inr dek" using wrap_forward d(3) assms(1) by (simp add: vault_laws_def)
  ultimately show ?thesis using that[of dek] by (simp add: UnwrapDEK_def base64_round_trip)
qed

lemma unwrap_fingerprint: "UnwrapDEK K C h k = Inr dek \<Longrightarrow> hKeyFingerprint h = hex_EncodeToString (KeyFingerprint C k)"
  by (simp add: UnwrapDEK_def split: if_splits)

lemma unwrap_unique:
  assumes "inj_on (KeyFingerprint C) S" and "k \<in> S" "k' \<in> S" "UnwrapDEK K C h k = Inr d" "UnwrapDEK K C h k' = Inr d'"
  shows "d = d'"
proof -
  have "KeyFingerprint C k = KeyFingerprint C k'"
    using unwrap_fingerprint assms(4,5) by (metis hex_encode_inj)
  then have "k = k'" using assms(1-3) by (simp add: inj_on_eq_iff)
  then show ?thesis using assms(4,5) by simp
qed

lemma unwrap_other_key:
  assumes "inj_on (KeyFingerprint C) S" and "k \<in> S" "k' \<in> S" "k \<noteq> k'" "hKeyFingerprint h = hex_EncodeToString (KeyFingerprint C k)"
  shows "UnwrapDEK K C h k' = Inl (Sentinel (Vlt ErrVaultKeyFingerprintMatch))"
  using assms by (simp add: UnwrapDEK_def hex_encode_inj inj_on_eq_iff)

text \<open>Saving and loading.\<close>

lemma save_load:
  assumes "header_round_trip J" and "Header_Save J fault fs h = (Inr (), fs')" and "hVersion h \<le> 1"
  shows "LoadVaultHeader J None fs' = Inr h"
  using assms by (auto simp: Header_Save_def LoadVaultHeader_def fs_WriteFile_def fs_ReadFile_def header_round_trip_def
      split: sum.splits option.splits)

lemma save_error: "Header_Save J fault fs h = (Inl err, fs') \<Longrightarrow> fs' = fs"
  by (auto simp: Header_Save_def fs_WriteFile_def split: sum.splits option.splits)

lemma load_fault: "LoadVaultHeader J fault fs = Inr h \<Longrightarrow> fault = None"
  by (cases fault) (auto simp: LoadVaultHeader_def fs_ReadFile_def split: if_splits)

lemma load_version: "LoadVaultHeader J fault fs = Inr h \<Longrightarrow> hVersion h \<le> 1"
  by (auto simp: LoadVaultHeader_def split: sum.splits option.splits if_splits)

section \<open>Runs\<close>

text \<open>What happens to a vault: it is unlocked, locked, changes its key, or its process starts again,
  each with any failures and with keys of a set \<open>S\<close>.\<close>

inductive vault_step ::
    "vault_crypto \<Rightarrow> crypto \<Rightarrow> header_codec \<Rightarrow> bytes set \<Rightarrow> Vault \<times> files \<Rightarrow> Vault \<times> files \<Rightarrow> bool"
  for K C J S where
  unlock: "k \<in> S \<Longrightarrow> vault_step K C J S (v, fs) (snd (Unlock K C J E fs k v), fs)"
| lock: "vault_step K C J S (v, fs) (Lock v, fs)"
| rekey: "old \<in> S \<Longrightarrow> new \<in> S \<Longrightarrow> vault_step K C J S (v, fs) (snd (Rekey K C J E old new v fs))"
| restart: "vault_step K C J S (v, fs) (fresh_vault, fs)"

definition seals :: "vault_crypto \<Rightarrow> crypto \<Rightarrow> bytes set \<Rightarrow> bytes \<Rightarrow> VaultHeader \<Rightarrow> bool" where
  "seals K C S dek h \<longleftrightarrow> hVersion h \<le> 1 \<and> (\<exists>k\<in>S. UnwrapDEK K C h k = Inr dek)"

definition vault_inv :: "vault_crypto \<Rightarrow> crypto \<Rightarrow> header_codec \<Rightarrow> bytes set \<Rightarrow> bytes \<Rightarrow> Vault \<times> files \<Rightarrow> bool" where
  "vault_inv K C J S dek st \<longleftrightarrow>
     (\<exists>h. LoadVaultHeader J None (snd st) = Inr h \<and> seals K C S dek h) \<and>
     (\<forall>h. vHeader (fst st) = Some h \<longrightarrow> seals K C S dek h) \<and>
     (vOpen (fst st) \<longrightarrow> vDek (fst st) = Some dek)"

lemma unlock_inv:
  assumes "inj_on (KeyFingerprint C) S" and "vault_inv K C J S dek (v, fs)" and "k \<in> S"
  shows "vault_inv K C J S dek (snd (Unlock K C J E fs k v), fs)"
proof (cases "fst (Unlock K C J E fs k v)")
  case (Inl err)
  then have "snd (Unlock K C J E fs k v) = v" by (auto simp: Unlock_def split: if_splits sum.splits)
  with assms(2) show ?thesis by simp
next
  case (Inr u)
  then obtain h d where u: "LoadVaultHeader J (fault_at E 0) fs = Inr h" "UnwrapDEK K C h k = Inr d"
    "snd (Unlock K C J E fs k v) = v\<lparr>vHeader := Some h, vDek := Some d, vOpen := True\<rparr>"
    by (auto simp: Unlock_def split: if_splits sum.splits)
  then have h: "seals K C S dek h" "LoadVaultHeader J None fs = Inr h"
    using assms(2) load_fault[OF u(1)] by (auto simp: vault_inv_def)
  then have "d = dek" using unwrap_unique[OF assms(1) assms(3) _ u(2)] unfolding seals_def by blast
  with u(3) h show ?thesis by (simp add: vault_inv_def)
qed

lemma rekey_cases:
  assumes "Rekey K C J E old new v fs = (r, v', fs')"
  obtains (failed) err where "r = Inl err" "v' = v" "fs' = fs"
  | (unsaved) h h' err where "vHeader v = Some h \<or> vHeader v = None \<and> LoadVaultHeader J (fault_at E 0) fs = Inr h"
      "Header_Rekey K C (clock_at E 0) h old new = Inr h'" "r = Inl err" "fs' = fs"
      "v' = (if vHeader v = None then v else v\<lparr>vHeader := Some h'\<rparr>)"
  | (saved) h h' where "vHeader v = Some h \<or> vHeader v = None \<and> LoadVaultHeader J (fault_at E 0) fs = Inr h"
      "Header_Rekey K C (clock_at E 0) h old new = Inr h'" "r = Inr ()" "Header_Save J (fault_at E 1) fs h' = (Inr (), fs')"
      "v' = v \<or> v' = v\<lparr>vHeader := Some h'\<rparr>" "vHeader v \<noteq> None \<Longrightarrow> v' = v\<lparr>vHeader := Some h'\<rparr>"
proof -
  let ?src = "case vHeader v of Some h \<Rightarrow> Inr h
    | None \<Rightarrow> (case LoadVaultHeader J (fault_at E 0) fs of
         Inl err \<Rightarrow> if errors_Is err (Vlt ErrVaultHeaderNotFound) then Inl (Sentinel (Vlt ErrVaultNotInitialized))
           else Inl (Errorf ''failed to load vault header: %w'' [] [err])
       | Inr h \<Rightarrow> Inr h)"
  note call = assms[unfolded Rekey_def]
  show ?thesis
  proof (cases ?src)
    case (Inl err)
    have "r = Inl err" "v' = v" "fs' = fs" using call unfolding Inl by simp_all
    then show ?thesis by (rule failed)
  next
    case (Inr h)
    then have src: "vHeader v = Some h \<or> vHeader v = None \<and> LoadVaultHeader J (fault_at E 0) fs = Inr h"
      by (auto split: option.splits sum.splits if_splits)
    note call = call[unfolded Inr, simplified]
    show ?thesis
    proof (cases "Header_Rekey K C (clock_at E 0) h old new")
      case (Inl err)
      have "r = Inl (Errorf ''failed to rekey vault: %w'' [] [err])" "v' = v" "fs' = fs" using call unfolding Inl by simp_all
      then show ?thesis by (rule failed)
    next
      case h': (Inr h')
      note call = call[unfolded h', simplified]
      show ?thesis
      proof (cases "Header_Save J (fault_at E 1) fs h'")
        case (Pair s fs'')
        show ?thesis
        proof (cases s)
          case (Inl err)
          have "r = Inl (Errorf ''failed to save rekeyed vault header: %w'' [] [err])" "fs' = fs"
            "v' = (if vHeader v = None then v else v\<lparr>vHeader := Some h'\<rparr>)"
            using call Pair Inl save_error[of J "fault_at E 1" fs h' err fs''] by (simp_all add: Let_def)
          then show ?thesis by (rule unsaved[OF src h'])
        next
          case u: (Inr u)
          have c: "r = Inr ()" "Header_Save J (fault_at E 1) fs h' = (Inr (), fs')"
            "v' = (if vOpen v \<and> vDek v \<noteq> None then (if vHeader v = None then v else v\<lparr>vHeader := Some h'\<rparr>)\<lparr>vHeader := Some h'\<rparr>
               else (if vHeader v = None then v else v\<lparr>vHeader := Some h'\<rparr>))"
            using call Pair u by (simp_all add: Let_def)
          show ?thesis by (rule saved[OF src h' c(1,2)]) (simp_all add: c(3) split: if_splits)
        qed
      qed
    qed
  qed
qed

end
