(* ===== verification/Key_Vault_Properties.thy ===== *)
theory Key_Vault_Properties
  imports Key_Vault_Facts
begin

text \<open>
  What runs of a vault keep: the data key behind the header file, whatever fails in between, and
  with it everything that was encrypted; and two ways in which keys are lost.
\<close>

section \<open>The data key is kept\<close>

lemma rekey_inv:
  assumes "vault_laws K" "header_round_trip J" "inj_on (KeyFingerprint C) S" and i: "vault_inv K C J S dek (v, fs)"
    and "old \<in> S" "new \<in> S"
  shows "vault_inv K C J S dek (snd (Rekey K C J E old new v fs))"
proof -
  obtain r v' fs' where call: "Rekey K C J E old new v fs = (r, v', fs')" by (cases "Rekey K C J E old new v fs")
  have sealed: "seals K C S dek h'"
    if h: "vHeader v = Some h \<or> vHeader v = None \<and> LoadVaultHeader J (fault_at E 0) fs = Inr h"
      and r: "Header_Rekey K C (clock_at E 0) h old new = Inr h'" for h h'
  proof -
    have s: "seals K C S dek h" using h i load_fault[of J "fault_at E 0" fs h] by (auto simp: vault_inv_def)
    obtain d where d: "UnwrapDEK K C h old = Inr d" "UnwrapDEK K C h' new = Inr d" "hVersion h' = hVersion h"
      using rekeyed_header_holds[OF assms(1) r] .
    have "d = dek" using s unwrap_unique[OF assms(3,5) _ d(1)] unfolding seals_def by blast
    then show ?thesis using d(2,3) s assms(6) by (auto simp: seals_def)
  qed
  from call have "vault_inv K C J S dek (v', fs')"
  proof (cases rule: rekey_cases)
    case (failed err)
    then show ?thesis using i by simp
  next
    case (unsaved h h' err)
    then show ?thesis using i sealed[OF unsaved(1,2)] by (simp add: vault_inv_def)
  next
    case (saved h h')
    have "LoadVaultHeader J None fs' = Inr h'"
      using save_load[OF assms(2) saved(4)] sealed[OF saved(1,2)] by (simp add: seals_def)
    then show ?thesis using i sealed[OF saved(1,2)] saved(5) by (auto simp: vault_inv_def)
  qed
  with call show ?thesis by simp
qed

lemma vault_step_inv:
  assumes "vault_laws K" "header_round_trip J" "inj_on (KeyFingerprint C) S"
    and "vault_step K C J S st st'" and "vault_inv K C J S dek st"
  shows "vault_inv K C J S dek st'"
  using assms(4,5)
proof cases
  case (unlock k v fs E)
  then show ?thesis using unlock_inv[OF assms(3)] assms(5) by simp
next
  case (lock v fs)
  then show ?thesis using assms(5) by (simp add: vault_inv_def Lock_def)
next
  case (rekey old new v fs E)
  then show ?thesis using rekey_inv[OF assms(1-3)] assms(5) by simp
next
  case (restart v fs)
  then show ?thesis using assms(5) by (simp add: vault_inv_def fresh_vault_def)
qed

lemma vault_steps_inv:
  assumes "vault_laws K" "header_round_trip J" "inj_on (KeyFingerprint C) S"
    and "(vault_step K C J S)\<^sup>*\<^sup>* st st'" and "vault_inv K C J S dek st"
  shows "vault_inv K C J S dek st'"
  using assms(4,5) by (induction rule: rtranclp_induct) (use vault_step_inv[OF assms(1-3)] in blast)+

lemma new_vault_inv:
  assumes "vault_laws K" "header_round_trip J" and "NewVaultHeader K C now rnd k = Inr (h, dek)" "k \<in> S"
    and "Header_Save J fault fs0 h = (Inr (), fs)"
  shows "vault_inv K C J S dek (fresh_vault, fs)"
proof -
  note h = new_header_holds[OF assms(1,3)]
  have "LoadVaultHeader J None fs = Inr h" using save_load[OF assms(2,5)] h(2) by simp
  then show ?thesis using h assms(4) by (auto simp: vault_inv_def seals_def fresh_vault_def)
qed

lemma decrypt_encrypt:
  assumes "vault_laws K" and "Encrypt K rnd v p = Inr c" and "vDek v' = vDek v" "vOpen v'"
  shows "Decrypt K v' c = Inr p"
proof -
  from assms(2) obtain dek nonce where d: "vDek v = Some dek" "rnd = Inr nonce" "length dek = KeySize" "length nonce = NonceSize"
    "c = nonce @ gcm_Seal K dek nonce p []"
    by (auto simp: Encrypt_def EncryptAESGCM_def GenerateNonce_def split: if_splits option.splits sum.splits)
  have "gcm_Open K dek nonce (gcm_Seal K dek nonce p []) [] = Some p"
    using assms(1) by (simp add: vault_laws_def gcm_opens_def)
  then show ?thesis using d assms(3,4) by (simp add: Decrypt_def DecryptAESGCM_def)
qed

lemma encrypt_open: "Encrypt K rnd v p = Inr c \<Longrightarrow> vOpen v"
  by (simp add: Encrypt_def split: if_splits)

lemma vault_run_data:
  assumes "vault_laws K" "header_round_trip J" "inj_on (KeyFingerprint C) S" "vault_inv K C J S dek (v1, fs1)"
    and "(vault_step K C J S)\<^sup>*\<^sup>* (v1, fs1) (v2, fs2)" and "Encrypt K rnd v1 p = Inr c" and "vOpen v2"
  shows "Decrypt K v2 c = Inr p"
proof (rule decrypt_encrypt[OF assms(1,6) _ assms(7)])
  have "vDek v2 = Some dek" using vault_steps_inv[OF assms(1-3,5,4)] assms(7) by (simp add: vault_inv_def)
  moreover have "vDek v1 = Some dek" using encrypt_open[OF assms(6)] assms(4) by (simp add: vault_inv_def)
  ultimately show "vDek v2 = vDek v1" by simp
qed

lemma sealed_unlocks:
  assumes "LoadVaultHeader J None fs = Inr h" "UnwrapDEK K C h k = Inr dek" "fault_at E 0 = None"
  shows "fst (Unlock K C J E fs k fresh_vault) = Inr ()"
  using assms by (simp add: Unlock_def fresh_vault_def)

section \<open>A concrete vault\<close>

text \<open>Two keys with different fingerprints, a data key, and a codec for two headers.\<close>

definition first_key :: bytes where "first_key = replicate 32 (CHR ''a'')"
definition second_key :: bytes where "second_key = replicate 32 (CHR ''b'')"
definition data_key :: bytes where "data_key = replicate 32 (CHR ''d'')"

definition tail_crypto :: crypto where
  "tail_crypto = toy_crypto\<lparr>sha256 := rev\<rparr>"

definition two_headers :: "VaultHeader \<Rightarrow> VaultHeader \<Rightarrow> header_codec" where
  "two_headers h1 h2 = \<lparr>marshalHeader = \<lambda>h. if h = h1 then Inr ''1'' else if h = h2 then Inr ''2'' else Inl (Errorf ''json'' [] []),
     unmarshalHeader = \<lambda>d. if d = ''1'' then Some h1 else if d = ''2'' then Some h2 else None\<rparr>"

lemma two_headers_round_trip: "header_round_trip (two_headers h1 h2)"
  by (auto simp: header_round_trip_def two_headers_def split: if_splits)

lemma mirror_vault_laws: "vault_laws mirror_crypto"
  using mirror_laws by (simp add: vault_laws_def)

lemma key_fingerprints: "inj_on (KeyFingerprint tail_crypto) {first_key, second_key}"
  by (simp add: KeyFingerprint_def tail_crypto_def first_key_def second_key_def)

lemma wrap_returns: "aes_key kek \<Longrightarrow> length p = 32 \<Longrightarrow> \<exists>c. AESKeyWrap K kek p = Inr c"
  using wrap_blocks[of kek p 4 K] by (simp split: prod.splits)

lemma derive_returns:
  assumes "k \<in> {first_key, second_key}"
  obtains kek where "DeriveKEK mirror_crypto k = Inr kek" "aes_key kek"
proof -
  have "k \<noteq> []" using assms by (auto simp: first_key_def second_key_def)
  then obtain kek where "DeriveKEK mirror_crypto k = Inr kek" by (simp add: DeriveKEK_def)
  then show ?thesis using that derived_key[OF mirror_vault_laws] by blast
qed

lemma data_key_length: "length data_key = 32"
  by (simp add: data_key_def)

text \<open>The vault is created and unlocked, its key is changed, the process starts again, and the vault
  is unlocked with the new key.\<close>

lemma sample_vault:
  obtains J h fs v1 v2 fs2 v3 where "header_round_trip J"
    "NewVaultHeader mirror_crypto tail_crypto 0 (Inr data_key) first_key = Inr (h, data_key)"
    "Header_Save J None Map.empty h = (Inr (), fs)"
    "(vault_step mirror_crypto tail_crypto J {first_key, second_key})\<^sup>*\<^sup>* (fresh_vault, fs) (v1, fs)"
    "vOpen v1" "vDek v1 = Some data_key"
    "Rekey mirror_crypto tail_crypto J (calm 0) first_key second_key v1 fs = (Inr (), v2, fs2)"
    "(vault_step mirror_crypto tail_crypto J {first_key, second_key})\<^sup>*\<^sup>* (v1, fs) (v3, fs2)" "vOpen v3"
proof -
  let ?K = mirror_crypto and ?C = tail_crypto and ?S = "{first_key, second_key}"
  obtain kek where kek: "DeriveKEK ?K first_key = Inr kek" "aes_key kek" using derive_returns[of first_key] by blast
  obtain w where "AESKeyWrap ?K kek data_key = Inr w" using wrap_returns[OF kek(2) data_key_length] by blast
  then obtain h where h: "NewVaultHeader ?K ?C 0 (Inr data_key) first_key = Inr (h, data_key)"
    using kek by (simp add: NewVaultHeader_def GenerateDEK_def)
  note holds = new_header_holds[OF mirror_vault_laws h]
  obtain kek2 where kek2: "DeriveKEK ?K second_key = Inr kek2" "aes_key kek2" using derive_returns[of second_key] by blast
  obtain w2 where "AESKeyWrap ?K kek2 data_key = Inr w2" using wrap_returns[OF kek2(2) data_key_length] by blast
  then obtain h2 where h2: "Header_Rekey ?K ?C 0 h first_key second_key = Inr h2"
    using kek2 holds by (simp add: Header_Rekey_def)
  obtain d where d: "UnwrapDEK ?K ?C h2 second_key = Inr d" "hVersion h2 = 1"
    using rekeyed_header_holds[OF mirror_vault_laws h2] holds(2) by metis
  define J where "J = two_headers h h2"
  have J: "header_round_trip J" unfolding J_def by (rule two_headers_round_trip)
  have save: "\<exists>fs'. Header_Save J None f x = (Inr (), fs')" if "x = h \<or> x = h2" for f x
    using that by (auto simp: J_def two_headers_def Header_Save_def fs_WriteFile_def)
  obtain fs where fs: "Header_Save J None Map.empty h = (Inr (), fs)" using save by blast
  obtain fs2 where fs2: "Header_Save J None fs h2 = (Inr (), fs2)" using save by blast
  have l: "LoadVaultHeader J None fs = Inr h" "LoadVaultHeader J None fs2 = Inr h2"
    using save_load[OF J fs] save_load[OF J fs2] holds(2) d(2) by simp_all
  define v1 where "v1 = \<lparr>vHeader = Some h, vDek = Some data_key, vOpen = True\<rparr>"
  have u1: "Unlock ?K ?C J (calm 0) fs first_key fresh_vault = (Inr (), v1)"
    using l(1) holds(1) by (simp add: Unlock_def fresh_vault_def v1_def)
  have r: "Rekey ?K ?C J (calm 0) first_key second_key v1 fs = (Inr (), v1\<lparr>vHeader := Some h2\<rparr>, fs2)"
    using h2 fs2 by (simp add: Rekey_def v1_def Let_def)
  define v3 where "v3 = \<lparr>vHeader = Some h2, vDek = Some d, vOpen = True\<rparr>"
  have u3: "Unlock ?K ?C J (calm 0) fs2 second_key fresh_vault = (Inr (), v3)"
    using l(2) d(1) by (simp add: Unlock_def fresh_vault_def v3_def)
  have "vault_step ?K ?C J ?S (fresh_vault, fs) (v1, fs)" using vault_step.unlock[of first_key ?S ?K ?C J fresh_vault fs "calm 0"] u1 by simp
  moreover have "vault_step ?K ?C J ?S (v1, fs) (v1\<lparr>vHeader := Some h2\<rparr>, fs2)"
    using vault_step.rekey[of first_key ?S second_key ?K ?C J v1 fs "calm 0"] r by simp
  moreover have "vault_step ?K ?C J ?S (v1\<lparr>vHeader := Some h2\<rparr>, fs2) (fresh_vault, fs2)" by (rule vault_step.restart)
  moreover have "vault_step ?K ?C J ?S (fresh_vault, fs2) (v3, fs2)"
    using vault_step.unlock[of second_key ?S ?K ?C J fresh_vault fs2 "calm 0"] u3 by simp
  ultimately show ?thesis
    by (intro that[OF J h fs _ _ _ r]) (auto simp: v1_def v3_def intro: rtranclp.rtrancl_into_rtrancl)
qed

section \<open>Properties\<close>

text \<open>C21: Nothing encrypted is lost. From the creation of a vault on, whatever sequence of unlocking,
  locking, changes of the key and restarts follows, with file operations failing at any point, what
  the vault encrypted at one time it decrypts at every later time at which it is unlocked, and some
  key in use unlocks it after a restart.\<close>

theorem vault_keeps_data:
  assumes "vault_laws K" "header_round_trip J" "inj_on (KeyFingerprint C) S"
    and "NewVaultHeader K C now rnd k = Inr (h, dek)" "k \<in> S" "Header_Save J fault fs0 h = (Inr (), fs)"
    and "(vault_step K C J S)\<^sup>*\<^sup>* (fresh_vault, fs) (v1, fs1)" and "Encrypt K nonce v1 p = Inr c"
    and "(vault_step K C J S)\<^sup>*\<^sup>* (v1, fs1) (v2, fs2)"
  shows "(vOpen v2 \<longrightarrow> Decrypt K v2 c = Inr p) \<and>
    (\<exists>k\<in>S. \<forall>E. fault_at E 0 = None \<longrightarrow> fst (Unlock K C J E fs2 k fresh_vault) = Inr ())"
proof -
  note inv1 = vault_steps_inv[OF assms(1-3,7) new_vault_inv[OF assms(1,2,4-6)]]
  have "vault_inv K C J S dek (v2, fs2)" using vault_steps_inv[OF assms(1-3,9) inv1] .
  then obtain h' k' where "LoadVaultHeader J None fs2 = Inr h'" "k' \<in> S" "UnwrapDEK K C h' k' = Inr dek"
    by (auto simp: vault_inv_def seals_def)
  then show ?thesis using vault_run_data[OF assms(1-3) inv1 assms(9,8)] sealed_unlocks by blast
qed

theorem vault_keeps_data_witness:
  "\<exists>J fs v1 c v2 fs2. (vault_step mirror_crypto tail_crypto J {first_key, second_key})\<^sup>*\<^sup>* (fresh_vault, fs) (v1, fs) \<and>
     Encrypt mirror_crypto (Inr (replicate 12 (CHR ''n''))) v1 ''secret'' = Inr c \<and>
     (vault_step mirror_crypto tail_crypto J {first_key, second_key})\<^sup>*\<^sup>* (v1, fs) (v2, fs2) \<and>
     vOpen v2 \<and> Decrypt mirror_crypto v2 c = Inr ''secret''"
proof (rule sample_vault)
  fix J h fs v1 v2 fs2 v3
  assume a: "header_round_trip J" "NewVaultHeader mirror_crypto tail_crypto 0 (Inr data_key) first_key = Inr (h, data_key)"
    "Header_Save J None Map.empty h = (Inr (), fs)"
    "(vault_step mirror_crypto tail_crypto J {first_key, second_key})\<^sup>*\<^sup>* (fresh_vault, fs) (v1, fs)"
    "vOpen v1" "vDek v1 = Some data_key"
    "(vault_step mirror_crypto tail_crypto J {first_key, second_key})\<^sup>*\<^sup>* (v1, fs) (v3, fs2)" "vOpen v3"
  obtain c where c: "Encrypt mirror_crypto (Inr (replicate 12 (CHR ''n''))) v1 ''secret'' = Inr c"
    using a(5,6) by (simp add: Encrypt_def EncryptAESGCM_def GenerateNonce_def data_key_def)
  have "Decrypt mirror_crypto v3 c = Inr ''secret''"
    using vault_keeps_data[OF mirror_vault_laws a(1) key_fingerprints a(2) _ a(3,4) c a(7)] a(8) by simp
  then show ?thesis using a c by blast
qed

text \<open>A change of the key takes effect. After \<open>Rekey\<close> returned without error on a vault in
  use, the new key unlocks the vault after a restart, and every other key, the old one in
  particular, is refused as invalid.\<close>

theorem rekey_switches_key:
  assumes "vault_laws K" "header_round_trip J" "inj_on (KeyFingerprint C) S"
    and "NewVaultHeader K C now rnd k = Inr (h, dek)" "k \<in> S" "Header_Save J fault fs0 h = (Inr (), fs)"
    and "(vault_step K C J S)\<^sup>*\<^sup>* (fresh_vault, fs) (v1, fs1)" and "old \<in> S" "new \<in> S"
    and "Rekey K C J E old new v1 fs1 = (Inr (), v2, fs2)" and "fault_at E' 0 = None"
  shows "fst (Unlock K C J E' fs2 new fresh_vault) = Inr () \<and>
    (\<forall>k'\<in>S. k' \<noteq> new \<longrightarrow> fst (Unlock K C J E' fs2 k' fresh_vault) = Inl (Sentinel (Vlt ErrVaultInvalidPrivateKey)))"
proof -
  note inv1 = vault_steps_inv[OF assms(1-3,7) new_vault_inv[OF assms(1,2,4-6)]]
  from assms(10) obtain h1 h2 where r: "vHeader v1 = Some h1 \<or> vHeader v1 = None \<and> LoadVaultHeader J (fault_at E 0) fs1 = Inr h1"
    "Header_Rekey K C (clock_at E 0) h1 old new = Inr h2" "Header_Save J (fault_at E 1) fs1 h2 = (Inr (), fs2)"
    by (cases rule: rekey_cases) auto
  have "hVersion h1 \<le> 1" using r(1) inv1 load_version by (auto simp: vault_inv_def seals_def)
  moreover obtain d where d: "UnwrapDEK K C h2 new = Inr d" "hVersion h2 = hVersion h1"
    "hKeyFingerprint h2 = hex_EncodeToString (KeyFingerprint C new)"
    using rekeyed_header_holds[OF assms(1) r(2)] .
  ultimately have l: "LoadVaultHeader J None fs2 = Inr h2" using save_load[OF assms(2) r(3)] by simp
  show ?thesis
    using sealed_unlocks[OF l d(1) assms(11)] unwrap_other_key[OF assms(3,9) _ _ d(3)] l assms(11)
    by (auto simp: Unlock_def fresh_vault_def)
qed

theorem rekey_switches_key_witness:
  "\<exists>J fs. fst (Unlock mirror_crypto tail_crypto J (calm 0) fs second_key fresh_vault) = Inr () \<and>
     fst (Unlock mirror_crypto tail_crypto J (calm 0) fs first_key fresh_vault) = Inl (Sentinel (Vlt ErrVaultInvalidPrivateKey))"
proof (rule sample_vault)
  fix J h fs v1 v2 fs2 v3
  assume a: "header_round_trip J" "NewVaultHeader mirror_crypto tail_crypto 0 (Inr data_key) first_key = Inr (h, data_key)"
    "Header_Save J None Map.empty h = (Inr (), fs)"
    "(vault_step mirror_crypto tail_crypto J {first_key, second_key})\<^sup>*\<^sup>* (fresh_vault, fs) (v1, fs)"
    "Rekey mirror_crypto tail_crypto J (calm 0) first_key second_key v1 fs = (Inr (), v2, fs2)"
  have "first_key \<noteq> second_key" by (simp add: first_key_def second_key_def)
  then show ?thesis using rekey_switches_key[OF mirror_vault_laws a(1) key_fingerprints a(2) _ a(3,4) _ _ a(5), of "calm 0"] by auto
qed

section \<open>The stores behind the vault\<close>

lemma vault_view_round_trip: "vault_laws K \<Longrightarrow> vault_round_trip (vault_view K rnd v)"
  using decrypt_encrypt[of K rnd v _ _ v] encrypt_open[of K rnd v] by (auto simp: vault_round_trip_def vault_view_def)

text \<open>C23: Tokens outlive the vault's key. A token that was stored while the vault was unlocked is read
  back from the store for a day, through any later state of the vault that is unlocked, also after
  the process restarted and the operator's key changed.\<close>

theorem tokens_survive_rekey:
  assumes "vault_laws K" "header_round_trip J" "inj_on (KeyFingerprint C) S"
    and "NewVaultHeader K C now rnd k = Inr (h, dek)" "k \<in> S" "Header_Save J fault fs0 h = (Inr (), fs)"
    and "(vault_step K C J S)\<^sup>*\<^sup>* (fresh_vault, fs) (v1, fs1)"
    and "TokenStore_KVSet (vault_view K nonce v1) E db key x tokenTTLSeconds = (Inr (), db')"
    and "(vault_step K C J S)\<^sup>*\<^sup>* (v1, fs1) (v2, fs2)" and "vOpen v2"
    and "fault_at E' 0 = None" and "before (clock_at E' 0) (clock_at E 1 + 86400000000000)"
  shows "TokenStore_KVGet (vault_view K nonce' v2) E' db' key = Inr x"
proof -
  note inv1 = vault_steps_inv[OF assms(1-3,7) new_vault_inv[OF assms(1,2,4-6)]]
  from assms(8) obtain e where e: "Encrypt K nonce v1 x = Inr e"
    "KVSetObserved E db (SentinelKeyPrefix @ key) e tokenTTLSeconds = (Inr (), db')"
    by (auto simp: TokenStore_KVSet_def vault_view_def split: if_splits sum.splits)
  have "active (FormatTimestamp (clock_at E' 0)) (ttl_expiry E tokenTTLSeconds)"
    using assms(12) by (simp add: ttl_day active_def before_def FormatTimestamp_less)
  then have "KVGet E' db' (SentinelKeyPrefix @ key) = Some e"
    using observed_read_back[of E db "SentinelKeyPrefix @ key" e tokenTTLSeconds E'] e(2) assms(11) by simp
  then show ?thesis using vault_run_data[OF assms(1-3) inv1 assms(9) e(1) assms(10)] assms(10)
    by (simp add: TokenStore_KVGet_def vault_view_def)
qed

theorem tokens_survive_rekey_witness:
  "\<exists>J fs v1 fs2 v3 db. (vault_step mirror_crypto tail_crypto J {first_key, second_key})\<^sup>*\<^sup>* (v1, fs) (v3, fs2) \<and> vOpen v3 \<and>
     TokenStore_KVSet (vault_view mirror_crypto (Inr (replicate 12 (CHR ''n''))) v1) (calm 0) empty_db ''k'' ''x'' tokenTTLSeconds = (Inr (), db) \<and>
     TokenStore_KVGet (vault_view mirror_crypto (Inr []) v3) (calm 3600000000000) db ''k'' = Inr ''x''"
proof (rule sample_vault)
  fix J h fs v1 v2 fs2 v3
  assume a: "header_round_trip J" "NewVaultHeader mirror_crypto tail_crypto 0 (Inr data_key) first_key = Inr (h, data_key)"
    "Header_Save J None Map.empty h = (Inr (), fs)"
    "(vault_step mirror_crypto tail_crypto J {first_key, second_key})\<^sup>*\<^sup>* (fresh_vault, fs) (v1, fs)"
    "vOpen v1" "vDek v1 = Some data_key"
    "(vault_step mirror_crypto tail_crypto J {first_key, second_key})\<^sup>*\<^sup>* (v1, fs) (v3, fs2)" "vOpen v3"
  obtain db where db: "TokenStore_KVSet (vault_view mirror_crypto (Inr (replicate 12 (CHR ''n''))) v1) (calm 0) empty_db ''k'' ''x'' tokenTTLSeconds = (Inr (), db)"
    using a(5,6) by (simp add: TokenStore_KVSet_def vault_view_def Encrypt_def EncryptAESGCM_def GenerateNonce_def data_key_def KVSetObserved_def Let_def)
  have "TokenStore_KVGet (vault_view mirror_crypto (Inr []) v3) (calm 3600000000000) db ''k'' = Inr ''x''"
    using tokens_survive_rekey[OF mirror_vault_laws a(1) key_fingerprints a(2) _ a(3,4) db a(7,8), of "calm 3600000000000"] sample_hour by simp
  with a db show ?thesis by blast
qed

section \<open>Where keys are lost\<close>

text \<open>When the header cannot be written, \<open>Rekey\<close> reports an error and the file keeps the old key,
  but the header in memory has the new one: the same call, repeated once files can be written
  again, is refused.\<close>

theorem failed_rekey_not_repeatable:
  assumes "inj_on (KeyFingerprint C) S" "old \<in> S" "new \<in> S" "old \<noteq> new"
    and "vHeader v = Some h" "Header_Rekey K C (clock_at E 0) h old new = Inr h'" "fault_at E 1 = Some err"
    and "vault_laws K" and "Rekey K C J E old new v fs = (r, v', fs')"
  shows "(\<exists>e. r = Inl e) \<and> fs' = fs \<and> (\<exists>e. fst (Rekey K C J E' old new v' fs') = Inl e)"
proof -
  have s: "\<exists>e. Header_Save J (fault_at E (Suc 0)) fs h' = (Inl e, fs)"
    using assms(7) by (simp add: Header_Save_def fs_WriteFile_def split: sum.split)
  then have one: "\<exists>e. r = Inl e" "fs' = fs" "v' = v\<lparr>vHeader := Some h'\<rparr>"
    using assms(9) by (auto simp: Rekey_def assms(5-7) Let_def)
  have "hKeyFingerprint h' = hex_EncodeToString (KeyFingerprint C new)" using rekeyed_header_holds[OF assms(8,6)] by metis
  then have "UnwrapDEK K C h' old = Inl (Sentinel (Vlt ErrVaultKeyFingerprintMatch))"
    using unwrap_other_key[OF assms(1,3,2)] assms(4) by metis
  then show ?thesis using one by (simp add: Rekey_def Header_Rekey_def)
qed

text \<open>The first start writes the header before the key file, and the key file always under its
  default name. When the key file cannot be written, or another name is configured, the key is not
  where it is looked for: the header is there, so no later start initialises the vault again, and
  every later start fails.\<close>

theorem lost_vault_key:
  assumes "fs vaultHeaderPath = None" "fs keyPath = None" "keyPath \<noteq> vaultHeaderPath"
    and "(\<exists>err. fault_at E 3 = Some err) \<or> keyPath \<noteq> DefaultVaultKeyRelPath"
    and "open_vault_service K C J E E' rndKey rndDek keyPath fs = (r, fs')" and "fs' vaultHeaderPath \<noteq> None"
  shows "(\<exists>e. r = Inl e) \<and> (\<exists>e. open_vault_service K C J E2 E2' rndKey2 rndDek2 keyPath fs' = (Inl e, fs'))"
proof -
  have kept: "snd (init_vault K C J E rndKey rndDek fs) keyPath = None"
    using assms(2,3,4) by (auto simp: init_vault_def Header_Save_def fs_WriteFile_def split: option.splits sum.splits prod.splits)
  have unread: "\<exists>e. ReadVaultKey x f keyPath = Inl e" if "f keyPath = None" for x f
    by (cases x) (simp_all add: ReadVaultKey_def that)
  obtain i f where i: "init_vault K C J E rndKey rndDek fs = (i, f)" "f keyPath = None"
    using kept by (cases "init_vault K C J E rndKey rndDek fs") auto
  obtain e1 where "ReadVaultKey (fault_at E 4) f keyPath = Inl e1" using unread[of f] i(2) by blast
  then have "(\<exists>e. r = Inl e) \<and> (fs' = f \<or> fs' = fs)"
    using assms(5) by (cases i) (auto simp: open_vault_service_def VaultHeaderExists_def fs_FileExists_def assms(1) i(1) split: option.splits)
  then have k: "\<exists>e. r = Inl e" "fs' keyPath = None" using i(2) assms(2) by auto
  obtain e' where "ReadVaultKey (fault_at E2 4) fs' keyPath = Inl e'" using unread[of fs'] k(2) by blast
  then show ?thesis using k(1) assms(6)
    by (cases "fault_at E2 0") (simp_all add: open_vault_service_def VaultHeaderExists_def fs_FileExists_def)
qed

text \<open>A first start that meets no failure and uses the default name opens the vault, and a later
  start opens it again with the same data key.\<close>

lemma runes_ascii: "\<forall>c\<in>set s. (of_char c :: nat) < 128 \<Longrightarrow> runes s = map of_char s"
  by (induction s) (simp_all add: decode_rune.simps Let_def)

lemma hex_chars: "c \<in> set (hex_EncodeToString bs) \<Longrightarrow> 48 \<le> (of_char c :: nat) \<and> (of_char c :: nat) \<le> 102"
proof (induction bs)
  case (Cons b bs)
  have "48 \<le> (of_char (hex_digit n) :: nat) \<and> (of_char (hex_digit n) :: nat) \<le> 102" if "n < 16" for n
    using that by (simp add: hex_digit_def)
  then show ?case using Cons byte_less[of b] by (auto simp: less_mult_imp_div_less)
qed simp

lemma key_file_read_back: "decode_trimmed_hex (hex_EncodeToString k @ [CHR 0x0A]) = Some k"
proof -
  let ?h = "map of_char (hex_EncodeToString k) :: nat list"
  have c: "(of_char c :: nat) < 128 \<and> \<not> unicode_space (of_char c)" if "c \<in> set (hex_EncodeToString k)" for c
    using hex_chars[OF that] by (auto simp: unicode_space_def)
  have r: "runes (hex_EncodeToString k @ [CHR 0x0A]) = ?h @ [10]" by (subst runes_ascii) (auto simp: c)
  have d: "dropWhile unicode_space (xs @ ys) = xs @ ys" if "xs \<noteq> []" "\<forall>x\<in>set xs. \<not> unicode_space x" for xs ys
    using that by (cases xs) simp_all
  have "trim_space (?h @ [10]) = ?h"
  proof (cases "?h = []")
    case True
    then show ?thesis by (simp add: trim_space_def unicode_space_def)
  next
    case False
    have n: "\<forall>x\<in>set ?h. \<not> unicode_space x" using c by auto
    have "unicode_space 10" by (simp add: unicode_space_def)
    then show ?thesis using d[OF False n, of "[10]"] d[of "rev ?h" "[]"] False n by (simp add: trim_space_def)
  qed
  then show ?thesis using c by (simp add: decode_trimmed_hex_def r Let_def list_all_iff comp_def)
qed

theorem first_start_opens:
  assumes "vault_laws K" "header_round_trip J" and "\<And>i. fault_at E i = None" "\<And>i. fault_at E' i = None" "\<And>i. fault_at E2 i = None"
    and "fs vaultHeaderPath = None" and "length key = KeySize" "length dek = KeySize" and "\<And>h. \<exists>d. marshalHeader J h = Inr d"
  shows "\<exists>v v' fs'. open_vault_service K C J E E' (Inr key) (Inr dek) DefaultVaultKeyRelPath fs = (Inr v, fs') \<and> GetDEK v = Inr dek \<and>
     open_vault_service K C J E2 E' rnd1 rnd2 DefaultVaultKeyRelPath fs' = (Inr v', fs') \<and> GetDEK v' = Inr dek"
proof -
  have "key \<noteq> []" using assms(7) by auto
  then obtain kek where kek: "DeriveKEK K key = Inr kek" by (simp add: DeriveKEK_def)
  obtain w where "AESKeyWrap K kek dek = Inr w" using wrap_returns[OF derived_key[OF assms(1) kek] assms(8)] by blast
  then obtain h where h: "NewVaultHeader K C (clock_at E 0) (Inr dek) key = Inr (h, dek)"
    using kek by (simp add: NewVaultHeader_def GenerateDEK_def)
  obtain d where d: "marshalHeader J h = Inr d" using assms(9) by blast
  define fs' where "fs' = fs(vaultHeaderPath \<mapsto> d, DefaultVaultKeyRelPath \<mapsto> hex_EncodeToString key @ [CHR 0x0A])"
  have p: "vaultHeaderPath \<noteq> DefaultVaultKeyRelPath" by (simp add: vaultHeaderPath_def DefaultVaultKeyRelPath_def)
  have init: "init_vault K C J E (Inr key) (Inr dek) fs = (Inr (), fs')"
    by (simp add: init_vault_def assms(3) h Header_Save_def d fs_WriteFile_def fs'_def)
  have key: "ReadVaultKey None fs' DefaultVaultKeyRelPath = Inr key"
    by (simp add: ReadVaultKey_def fs'_def key_file_read_back assms(7))
  have "LoadVaultHeader J None fs' = Inr h"
    using assms(2) d new_header_holds(2)[OF assms(1) h] p
    by (simp add: LoadVaultHeader_def fs_ReadFile_def fs'_def header_round_trip_def)
  then have "Unlock K C J E' fs' key fresh_vault = (Inr (), \<lparr>vHeader = Some h, vDek = Some dek, vOpen = True\<rparr>)"
    using new_header_holds(1)[OF assms(1) h] by (simp add: Unlock_def fresh_vault_def assms(4))
  moreover have "fs' vaultHeaderPath \<noteq> None" using p by (simp add: fs'_def)
  ultimately show ?thesis using init key
    by (simp add: open_vault_service_def VaultHeaderExists_def fs_FileExists_def assms(3,5,6) GetDEK_def)
qed

end
