(* ===== verification/Spec2Isabelle.thy ===== *)
theory Spec2Isabelle
  imports Execution_Samples Receipt_Binding Evidence_Report Key_Vault_Properties
begin

text \<open>
  Verification of the governance core of g8e: the layered gate that every command of an AI agent
  passes before an operator executes it, and the evidence it leaves behind.

  \<^bold>\<open>The program.\<close> A command arrives as a \<open>GovernanceEnvelope\<close>, at the
  synchronous entrance or on the command channel of an operator. Its transaction hash commits to
  its fields (\<open>governance/envelope.go\<close>). The L4 warden
  (\<open>services/governance/l4_warden.go\<close>) decides: it reserves the nonce in the replay store
  (\<open>services/storage/replay_store.go\<close>), checks the payload against the L1 doctrine
  (\<open>l1_doctrine.go\<close>), the identity of the envelope, the state root, and what its posture
  demands: signed votes of an L2 consensus (\<open>l2_consensus.go\<close>,
  \<open>services/consensus\<close>) and an L3 proof of a human (\<open>l3_notary.go\<close> over the
  suspended transactions of \<open>services/storage\<close>). The L5 actuator (\<open>l5_actuator.go\<close>)
  executes: it signs and stores a receipt, appends a commitment to the ledger
  (\<open>services/storage/commitment_ledger.go\<close>), mints a capability (\<open>capability.go\<close>),
  calls the handler, and stores the final signed receipt in the audit store
  (\<open>services/storage/audit_store.go\<close>) with its hash-chained events
  (\<open>audit_chain.go\<close>). A report (\<open>services/reporting/verification.go\<close>) checks the
  evidence afterwards; consumers of a receipt validate its stages
  (\<open>services/governance/protocol_chain.go\<close>), and the compliance services collect receipts and
  other artifacts in an evidence graph (\<open>services/compliance/evidence\<close>). The gateway keeps
  documents, keys and blobs in SQLite (\<open>services/gateway\<close>) and hashes the bound ones to the
  state root that the warden compares (\<open>state_root_service.go\<close>). Values that a cloud model
  must not see are replaced by tokens, which the actuator turns back into values before the
  handler runs (\<open>services/scrubbing/boundary.go\<close>); tokens are kept encrypted in the key-value
  store (\<open>encrypted_kv_adapter.go\<close>). Tokens and audit events are encrypted with the data
  key of a vault (\<open>services/vault\<close>), which the operator's key unlocks.

  \<^bold>\<open>The theories\<close>, in the order of their dependencies.

  \<^item> \<open>Prelude\<close>: byte strings, big-endian and length-prefixed encodings,
    hexadecimal, decimal numbers, UTF-8, results of lists, and the lemma collections.
  \<^item> \<open>Gov_Errors\<close>: error values (\<open>constants/errors.go\<close>), wrapping and
    \<open>errors.Is\<close>. \<open>Action_Types\<close>: action types, event registry and their
    validation (\<open>internal/constants\<close>).
  \<^item> \<open>Timestamps\<close>, \<open>Timestamp_Parse\<close> (\<open>timesvc\<close>): the stored text
    of an instant, its order and its round trip.
  \<^item> \<open>Envelope\<close>: envelope, canonical fields and transaction hash of both protocol
    versions; what the hash binds and what it does not.
  \<^item> \<open>Regexp\<close>, \<open>Doctrine_Table\<close>, \<open>Payload\<close>, \<open>Doctrine\<close>: a
    matcher for the patterns, proved against an inductive matching relation; the built-in
    detectors; payload decoding; \<open>ValidatePayload\<close> and doctrine files.
  \<^item> \<open>Replay_Store\<close>: the operator's and the gateway's nonce tables, with the locale
    \<open>replay_store\<close> that states what a reservation promises and an interpretation for
    each; interleavings of gateway reservations.
  \<^item> \<open>Posture\<close>, \<open>Signers\<close>, \<open>Consensus\<close>: postures, signer stores
    (locale \<open>signer_store\<close>, interpreted for the file and the gateway store), policies,
    deliberation and the tally of votes.
  \<^item> \<open>Suspended_Store\<close>, \<open>Notary\<close>: suspension and approval, and the notaries.
  \<^item> \<open>Evidence\<close>, \<open>Warden\<close>: stage evidence and \<open>VerifyEnvelope\<close>; the
    exact acceptance condition, single use of nonces, and enforcement of postures.
  \<^item> \<open>Json_Text\<close>, \<open>Receipts\<close>, \<open>Receipt_Binding\<close>: canonical receipts
    and attestations and what their signatures bind.
  \<^item> \<open>Sqlite_Tx\<close>: transactions with retries (\<open>sqliteutil/db.go\<close>).
  \<^item> \<open>Hash_Chain\<close>: a locale for hash-linked logs, interpreted for commitments in
    \<open>Ledger\<close> and for exported audit events in \<open>Audit_Chain_Facts\<close>.
  \<^item> \<open>Ledger\<close>, \<open>Ledger_Report\<close>: the commitment ledger as a refinement of
    an abstract log, and the verification report over it.
  \<^item> \<open>Audit_Chain\<close>, \<open>Audit_Chain_Facts\<close>, \<open>Audit_Store\<close>,
    \<open>Audit_Store_Facts\<close>: the event chain with checkpoints and pruning, the store
    around it, and their properties.
  \<^item> \<open>Capability\<close>, \<open>Actuator\<close>, \<open>Actuator_Facts\<close>: capabilities on a
    heap, \<open>Execute\<close> and \<open>RecordRejectedTransaction\<close>, and that execution fails
    closed.
  \<^item> \<open>Dispatch\<close>, \<open>Dispatch_Facts\<close>, \<open>Execution_Samples\<close>: the
    operator's entrances (\<open>services/pubsub/pubsub_commands.go\<close>), the composition of warden
    and actuator, and concrete runs of both.
  \<^item> \<open>Protocol_Chain\<close>, \<open>Protocol_Chain_Facts\<close>: the structural validation of the
    stages of a receipt, exact against two declarative shapes (a complete run, a rejection), and
    which receipts of warden and actuator pass it.
  \<^item> \<open>Evidence_Primitives\<close>, \<open>Evidence_Facts\<close>: content addresses, bundle paths,
    bounded reads, the binding of a receipt to a run.
  \<^item> \<open>Evidence_Graph\<close>, \<open>Evidence_Graph_Facts\<close>, \<open>Evidence_Cycles\<close>,
    \<open>Evidence_Report\<close>: the evidence graph, its checks (those that look at one node at a
    time share the locale \<open>node_check\<close>, interpreted for five of them), the cycle search
    against acyclicity of the reference relation, and what a valid report means.
  \<^item> \<open>Gateway_DB\<close>, \<open>Gateway_Stores\<close>: the tables of the gateway with the triggers
    of \<open>schema.sql\<close> and the services for keys, blobs and documents.
  \<^item> \<open>State_Root\<close>, \<open>State_Root_Facts\<close>, \<open>State_Root_Binding\<close>,
    \<open>State_Root_Properties\<close>: the state root over the tables and its cache. The locale
    \<open>version_counter\<close> states what a cache needs of the version column, and is interpreted for
    the triggers; runs of the gateway interleave writers with the statements of a computation. The
    cached root is current, it determines the bound content, and observed rows do not enter it.
  \<^item> \<open>Token_Vault\<close>, \<open>Token_Facts\<close>, \<open>Token_Restart\<close>,
    \<open>Token_Properties\<close>: tokens for sensitive values and their encrypted store; a token that
    was handed out keeps its value, also after a restart, and rehydration restores the text; when
    tokens are reused, and what the keymap hash binds.
  \<^item> \<open>Key_Wrap\<close>, \<open>Key_Vault\<close>, \<open>Key_Vault_Facts\<close>,
    \<open>Key_Vault_Properties\<close>: the vault. AES key wrap over any block cipher and its exact
    inverse; the header file, unlocking, locking and change of the key as steps of a relation whose
    runs keep the data key, so that what was encrypted stays readable, tokens in particular; the
    first start of the gateway's vault, and where keys are lost.

  \<^bold>\<open>Conventions.\<close> Go structs are records, enumerations datatypes, maps are partial
  functions, nil pointers and absent dependencies \<open>None\<close>; a function that answers a value and
  an error answers a \<open>result\<close>, or both components where the code uses both. A table of
  SQLite is a map or a list of rows; a method on a store takes the table and returns it. What the
  code cannot determine is an argument: clock readings, random bytes, and the error (or absence of
  one) of every statement, so that a property over all environments covers every failure. Hash
  and signature functions are the record \<open>crypto\<close>; properties that need it assume that
  hashes do not collide, that signatures have 64 bytes and that a key pair belongs together. The
  vault's primitives are the record \<open>vault_crypto\<close>: a block cipher permutes blocks, an opened
  seal is the plaintext, and the keys in use have different fingerprints.
  Protobuf, protojson and the ciphers of the stores are parameters with the hypothesis that decoding
  inverts encoding, which the vault satisfies (\<open>vault_view\<close>). Interfaces of the program (handler, publisher, state root provider, WebAuthn verifier)
  are function arguments. Integers are unbounded where the code cannot reach the bound; canonical
  encodings write the 32- and 64-bit truncation out.

  \<^bold>\<open>Bounds.\<close> Retry loops run over the configured number of attempts and return an error
  when it is used up, as in the code. The regular expression matcher recurses on the expression,
  with closures iterated at most once per input position; the rune decoder terminates by the
  length of its input. The depth-first search of \<open>DetectCycles\<close> takes a recursion depth as
  fuel and answers \<open>None\<close> when it is used up; one more than the number of nodes is proved to
  be enough, because every call on the stack has coloured another node.
  Go ranges over a map in an unspecified order; the evidence graph and the token table take the
  order as an argument that may be any permutation. A computation with several statements reads
  the store once per statement, from a sequence of stores, so that other writers come between.

  \<^bold>\<open>Not modelled.\<close> The gateway's HTTP surface, dispatch and public mirror, the handlers
  that touch the host, inference, evaluation, the command line and the
  key rings of the platforms: they are glue, input and output, or consumers of the evidence. Of the
  audit store, the list queries and the column migrations; of the operator, subscriptions and reconnection. Of
  compliance, the importers behind the evidence graph (arguments that deliver nodes or fail),
  grading, and the report bundles. Of the gateway's stores, document queries and the remaining time
  to live, which is floating point; \<open>GLOB\<close> and the JSON functions of SQLite are arguments.
  Of scrubbing, the expressions that find sensitive values, the scrubbing and rehydration of JSON,
  and the summaries of commands.
\<close>

section \<open>Detectors and the matching relation\<close>


end
